(* ===== verification/Prelude.thy ===== *)
theory Prelude
  imports Main "HOL-Library.Sublist"
begin

text \<open>
  Shared vocabulary of the development: Go's error values, results, 64-bit integers, the
  lemma collections the component theories extend, and generic facts on lists and maps.

  A Go function that returns \<open>(T, error)\<close> returns \<open>go_error + T\<close> here: \<open>Inl e\<close> where the
  code returns a non-nil error, \<open>Inr v\<close> where it returns \<open>v, nil\<close>. A function that returns
  only \<open>error\<close> returns \<open>go_error option\<close>, with \<open>None\<close> for nil.
\<close>

named_theorems go_defs \<open>definitions of small helpers that proofs unfold\<close>
named_theorems inv_intro \<open>preservation of component invariants\<close>

section \<open>Errors\<close>

text \<open>
  \<open>shared/errors.AppError\<close>: the \<open>Details\<close> map is left out.
\<close>

record app_error =
  ae_code :: string
  ae_message :: string
  ae_status :: int

text \<open>
  The dynamic kinds of Go \<open>error\<close> values the code distinguishes. A package-level variable
  such as \<open>ErrCallNotFound\<close> is \<open>Sentinel\<close> with its Go name (it is compared by identity);
  \<open>PgErr\<close> carries the SQLSTATE and the message of a PostgreSQL error; \<open>Plain\<close> is \<open>errors.New\<close> or
  \<open>fmt.Errorf\<close> without \<open>%w\<close>; \<open>Wrap\<close> is \<open>fmt.Errorf("text: %w", err)\<close>.
  Vietnamese message texts are written without their diacritics.
\<close>

datatype go_error =
    AppErr app_error
  | Sentinel string
  | PgErr string string
  | Plain string
  | Wrap string go_error

type_synonym 'a result = "go_error + 'a"

text \<open>\<open>errors.Is(err, target)\<close> for a sentinel target follows the wrap chain.\<close>

fun errors_is :: "go_error \<Rightarrow> string \<Rightarrow> bool" where
  "errors_is (Sentinel n) t = (n = t)"
| "errors_is (Wrap _ e) t = errors_is e t"
| "errors_is _ _ = False"

text \<open>\<open>err.Error()\<close>; the text of a sentinel is never inspected by the modelled code.\<close>

fun err_text :: "go_error \<Rightarrow> string" where
  "err_text (AppErr e) = ae_message e"
| "err_text (Sentinel n) = n"
| "err_text (PgErr c m) = m"
| "err_text (Plain s) = s"
| "err_text (Wrap s e) = s @ '': '' @ err_text e"

section \<open>Results\<close>

definition result_bind :: "('e + 'a) \<Rightarrow> ('a \<Rightarrow> 'e + 'b) \<Rightarrow> 'e + 'b" where
  "result_bind m f = (case m of Inl e \<Rightarrow> Inl e | Inr x \<Rightarrow> f x)"

lemma result_bind_simps [simp]:
  "result_bind (Inl e) f = Inl e"
  "result_bind (Inr x) f = f x"
  by (simp_all add: result_bind_def)

lemma result_bind_Inr_iff:
  "result_bind m f = Inr y \<longleftrightarrow> (\<exists>x. m = Inr x \<and> f x = Inr y)"
  by (cases m) auto

lemma result_bind_Inl_iff:
  "result_bind m f = Inl e \<longleftrightarrow> m = Inl e \<or> (\<exists>x. m = Inr x \<and> f x = Inl e)"
  by (cases m) auto

lemma result_bind_split:
  "P (result_bind m f) \<longleftrightarrow> (\<forall>e. m = Inl e \<longrightarrow> P (Inl e)) \<and> (\<forall>x. m = Inr x \<longrightarrow> P (f x))"
  by (cases m) auto

definition map_error :: "('e \<Rightarrow> 'e) \<Rightarrow> 'e + 'a \<Rightarrow> 'e + 'a" where
  "map_error h m = (case m of Inl e \<Rightarrow> Inl (h e) | Inr x \<Rightarrow> Inr x)"

lemma map_error_simps [simp]:
  "map_error h (Inl e) = Inl (h e)"
  "map_error h (Inr x) = Inr x"
  by (simp_all add: map_error_def)

lemma map_error_Inr_iff [simp]: "map_error h m = Inr x \<longleftrightarrow> m = Inr x"
  by (cases m) auto

section \<open>64-bit signed integers\<close>

text \<open>
  Go's \<open>int\<close>, \<open>int64\<close> and \<open>time.Duration\<close> are 64-bit two's complement: a sum or product
  is \<open>wrap64\<close> of the mathematical one wherever it can leave the range.
\<close>

definition max_int64 :: int where "max_int64 = 9223372036854775807"
definition min_int64 :: int where "min_int64 = - 9223372036854775808"

definition wrap64 :: "int \<Rightarrow> int" where
  "wrap64 x = (x + 9223372036854775808) mod 18446744073709551616 - 9223372036854775808"

definition in_int64 :: "int \<Rightarrow> bool" where
  "in_int64 x \<longleftrightarrow> min_int64 \<le> x \<and> x \<le> max_int64"

lemma wrap64_id: "in_int64 x \<Longrightarrow> wrap64 x = x"
  by (simp add: in_int64_def wrap64_def min_int64_def max_int64_def)

lemma wrap64_range [simp]: "in_int64 (wrap64 x)"
proof -
  have "0 \<le> (x + 9223372036854775808) mod 18446744073709551616"
    and "(x + 9223372036854775808) mod 18446744073709551616 < 18446744073709551616"
    by simp_all
  then show ?thesis
    by (simp add: in_int64_def wrap64_def min_int64_def max_int64_def)
qed

lemma wrap64_over:
  assumes "max_int64 < x" "x \<le> max_int64 + 18446744073709551616"
  shows "wrap64 x = x - 18446744073709551616"
proof -
  let ?y = "x + 9223372036854775808"
  have "18446744073709551616 \<le> ?y" "?y < 2 * 18446744073709551616"
    using assms by (simp_all add: max_int64_def)
  then have "(?y - 18446744073709551616) mod 18446744073709551616 = ?y - 18446744073709551616"
    by (intro mod_pos_pos_trivial) simp_all
  then have "?y mod 18446744073709551616 = ?y - 18446744073709551616"
    by (simp only: minus_mod_self2)
  then show ?thesis by (simp add: wrap64_def)
qed

text \<open>Go's integer division truncates towards zero.\<close>

definition go_div :: "int \<Rightarrow> int \<Rightarrow> int" where
  "go_div a b = sgn a * sgn b * (\<bar>a\<bar> div \<bar>b\<bar>)"

definition go_mod :: "int \<Rightarrow> int \<Rightarrow> int" where
  "go_mod a b = a - b * go_div a b"

lemma go_div_nonneg: "0 \<le> a \<Longrightarrow> 0 < b \<Longrightarrow> go_div a b = a div b"
  by (cases "a = 0") (simp_all add: go_div_def)

lemma go_mod_nonneg: "0 \<le> a \<Longrightarrow> 0 < b \<Longrightarrow> go_mod a b = a mod b"
  by (simp add: go_mod_def go_div_nonneg minus_mult_div_eq_mod)

section \<open>Lists and tables\<close>

text \<open>
  A database table is the list of its rows in insertion order. \<open>update_where p f\<close> is
  \<open>UPDATE ... SET ... WHERE\<close>.
\<close>

definition update_where :: "('r \<Rightarrow> bool) \<Rightarrow> ('r \<Rightarrow> 'r) \<Rightarrow> 'r list \<Rightarrow> 'r list" where
  "update_where p f rows = map (\<lambda>r. if p r then f r else r) rows"

lemma update_where_simps [simp]:
  "update_where p f [] = []"
  "update_where p f (r # rs) = (if p r then f r else r) # update_where p f rs"
  by (simp_all add: update_where_def)

lemma length_update_where [simp]: "length (update_where p f rows) = length rows"
  by (simp add: update_where_def)

lemma set_update_where:
  "set (update_where p f rows) = (\<lambda>r. if p r then f r else r) ` set rows"
  by (simp add: update_where_def)

lemma map_update_where:
  "(\<And>r. r \<in> set rows \<Longrightarrow> p r \<Longrightarrow> k (f r) = k r) \<Longrightarrow> map k (update_where p f rows) = map k rows"
  by (simp add: update_where_def)

lemma ball_update_where:
  "(\<forall>r\<in>set (update_where p f rows). Q r) \<longleftrightarrow>
   (\<forall>r\<in>set rows. (p r \<longrightarrow> Q (f r)) \<and> (\<not> p r \<longrightarrow> Q r))"
  by (auto simp: set_update_where)

lemma update_where_none: "(\<And>r. r \<in> set rows \<Longrightarrow> \<not> p r) \<Longrightarrow> update_where p f rows = rows"
  by (induction rows) auto

lemma find_Some_mem: "List.find p xs = Some x \<Longrightarrow> x \<in> set xs \<and> p x"
  by (auto simp: find_Some_iff)

lemma filter_unique_key:
  assumes "distinct (map k xs)" "x \<in> set xs"
  shows "filter (\<lambda>y. k y = k x) xs = [x]"
  using assms
proof (induction xs)
  case Nil
  then show ?case by simp
next
  case (Cons a xs)
  show ?case
  proof (cases "x = a")
    case True
    with Cons.prems have "filter (\<lambda>y. k y = k x) xs = []"
      by (simp add: filter_empty_conv image_iff) metis
    with True show ?thesis by simp
  next
    case False
    with Cons.prems have "x \<in> set xs" and "k a \<noteq> k x" by force+
    with Cons show ?thesis by simp
  qed
qed

lemma key_unique:
  "distinct (map k xs) \<Longrightarrow> x \<in> set xs \<Longrightarrow> y \<in> set xs \<Longrightarrow> k x = k y \<Longrightarrow> x = y"
  by (auto simp: distinct_map dest: inj_onD)

lemma length_filter_mono:
  "(\<And>x. x \<in> set xs \<Longrightarrow> p x \<Longrightarrow> q x) \<Longrightarrow> length (filter p xs) \<le> length (filter q xs)"
  by (induction xs) auto

end
