(* ===== verification/Go_Strings.thy ===== *)
theory Go_Strings
  imports Prelude
begin

text \<open>
  The functions of Go's \<open>strings\<close>, \<open>strconv\<close> and \<open>unicode/utf8\<close> packages that the code
  uses. A Go string is a list of bytes, so a \<open>string\<close> here is a list of bytes too and
  \<open>length\<close> is Go's \<open>len\<close>; \<open>rune_count\<close> is \<open>len([]rune(s))\<close>.
\<close>

section \<open>Bytes and runes\<close>

abbreviation byte :: "char \<Rightarrow> nat" where "byte c \<equiv> of_char c"

text \<open>
  \<open>utf8.DecodeRune\<close> as far as the length of the first rune goes: 1 for ASCII and for every
  byte that starts no well-formed sequence, else 2, 3 or 4.
\<close>

definition cont :: "char \<Rightarrow> bool" where
  "cont c \<longleftrightarrow> 128 \<le> byte c \<and> byte c \<le> 191"

fun rune_len :: "string \<Rightarrow> nat" where
  "rune_len [] = 0"
| "rune_len (a # s) =
    (let x = byte a in
     if x < 194 \<or> 244 < x then 1
     else if x < 224 then
       (case s of b # _ \<Rightarrow> if cont b then 2 else 1 | _ \<Rightarrow> 1)
     else if x < 240 then
       (case s of b # c # _ \<Rightarrow>
          if cont b \<and> cont c \<and> (x = 224 \<longrightarrow> 160 \<le> byte b) \<and> (x = 237 \<longrightarrow> byte b \<le> 159)
          then 3 else 1
        | _ \<Rightarrow> 1)
     else
       (case s of b # c # d # _ \<Rightarrow>
          if cont b \<and> cont c \<and> cont d \<and> (x = 240 \<longrightarrow> 144 \<le> byte b) \<and> (x = 244 \<longrightarrow> byte b \<le> 143)
          then 4 else 1
        | _ \<Rightarrow> 1))"

lemma rune_len_pos: "s \<noteq> [] \<Longrightarrow> 0 < rune_len s"
  by (cases s) (auto simp: Let_def split: list.splits)

declare rune_len.simps(2) [simp del]

text \<open>\<open>[]rune(s)\<close>, each rune as the bytes it was read from.\<close>

function runes :: "string \<Rightarrow> string list" where
  "runes s = (if s = [] then [] else take (rune_len s) s # runes (drop (rune_len s) s))"
  by pat_completeness auto
termination
  by (relation "measure length") (auto simp: rune_len_pos)

declare runes.simps [simp del]

definition rune_count :: "string \<Rightarrow> nat" where
  "rune_count s = length (runes s)"

lemma runes_Nil [simp]: "runes [] = []"
  by (simp add: runes.simps)

lemma concat_runes: "concat (runes s) = s"
proof (induction s rule: runes.induct)
  case (1 s)
  then show ?case by (cases "s = []") (simp_all add: runes.simps [of s])
qed

lemma rune_len_ascii: "byte c < 128 \<Longrightarrow> rune_len (c # s) = 1"
  by (simp add: rune_len.simps)

lemma runes_ascii: "byte c < 128 \<Longrightarrow> runes (c # s) = [c] # runes s"
  by (subst runes.simps) (simp add: rune_len_ascii)

lemma rune_count_ascii: "\<forall>c\<in>set s. byte c < 128 \<Longrightarrow> rune_count s = length s"
  by (induction s) (simp_all add: rune_count_def runes_ascii)

lemma rune_count_le_length: "rune_count s \<le> length s"
proof (induction s rule: runes.induct)
  case (1 s)
  show ?case
  proof (cases "s = []")
    case False
    with 1 have "rune_count (drop (rune_len s) s) \<le> length s - rune_len s" by simp
    moreover have "0 < rune_len s" "s \<noteq> []" using False by (simp_all add: rune_len_pos)
    ultimately show ?thesis
      by (subst rune_count_def, subst runes.simps)
        (cases "length s", auto simp: rune_count_def)
  qed (simp add: rune_count_def)
qed

section \<open>TrimSpace\<close>

text \<open>
  The length of the white-space rune at the front of a string, 0 if there is none: ASCII
  space, \<open>\t \n \v \f \r\<close>, and the UTF-8 forms of U+0085, U+00A0, U+1680, U+2000 to
  U+200A, U+2028, U+2029, U+202F, U+205F and U+3000 (\<open>unicode.IsSpace\<close>).
\<close>

definition space3 :: "nat \<Rightarrow> nat \<Rightarrow> nat \<Rightarrow> bool" where
  "space3 x y z \<longleftrightarrow>
     x = 225 \<and> y = 154 \<and> z = 128 \<or>
     x = 226 \<and> y = 128 \<and> (128 \<le> z \<and> z \<le> 138 \<or> z = 168 \<or> z = 169 \<or> z = 175) \<or>
     x = 226 \<and> y = 129 \<and> z = 159 \<or>
     x = 227 \<and> y = 128 \<and> z = 128"

definition ascii_space :: "char \<Rightarrow> bool" where
  "ascii_space c \<longleftrightarrow> 9 \<le> byte c \<and> byte c \<le> 13 \<or> byte c = 32"

fun space_len :: "string \<Rightarrow> nat" where
  "space_len [] = 0"
| "space_len (a # s) =
    (if ascii_space a then 1
     else (case s of [] \<Rightarrow> 0
       | b # s' \<Rightarrow>
         if byte a = 194 \<and> (byte b = 133 \<or> byte b = 160) then 2
         else (case s' of [] \<Rightarrow> 0
           | c # _ \<Rightarrow> if space3 (byte a) (byte b) (byte c) then 3 else 0)))"

text \<open>The same at the end of a string, given reversed.\<close>

fun space_len_rev :: "string \<Rightarrow> nat" where
  "space_len_rev [] = 0"
| "space_len_rev (a # s) =
    (if ascii_space a then 1
     else (case s of [] \<Rightarrow> 0
       | b # s' \<Rightarrow>
         if byte b = 194 \<and> (byte a = 133 \<or> byte a = 160) then 2
         else (case s' of [] \<Rightarrow> 0
           | c # _ \<Rightarrow> if space3 (byte c) (byte b) (byte a) then 3 else 0)))"

function strip :: "(string \<Rightarrow> nat) \<Rightarrow> string \<Rightarrow> string" where
  "strip f s = (if s = [] \<or> f s = 0 then s else strip f (drop (f s) s))"
  by pat_completeness auto
termination
  by (relation "measure (\<lambda>(f, s). length s)") auto

declare strip.simps [simp del]

definition trim_left :: "string \<Rightarrow> string" where
  "trim_left s = strip space_len s"

definition trim_right :: "string \<Rightarrow> string" where
  "trim_right s = rev (strip space_len_rev (rev s))"

definition trim_space :: "string \<Rightarrow> string" where
  "trim_space s = trim_right (trim_left s)"

lemma strip_fixed: "strip f s = [] \<or> f (strip f s) = 0"
proof (induction f s rule: strip.induct)
  case (1 f s)
  then show ?case by (cases "s = [] \<or> f s = 0") (auto simp: strip.simps [of f s])
qed

lemma strip_id: "f s = 0 \<Longrightarrow> strip f s = s"
  by (subst strip.simps) simp

lemma strip_Nil [simp]: "strip f [] = []"
  by (subst strip.simps) simp

lemma strip_suffix: "\<exists>p. s = p @ strip f s"
proof (induction f s rule: strip.induct)
  case (1 f s)
  show ?case
  proof (cases "s = [] \<or> f s = 0")
    case False
    with 1 obtain p where "drop (f s) s = p @ strip f (drop (f s) s)" by blast
    then have "s = (take (f s) s @ p) @ strip f (drop (f s) s)"
      by (metis append.assoc append_take_drop_id)
    moreover have "strip f s = strip f (drop (f s) s)" using False by (subst strip.simps) simp
    ultimately show ?thesis by metis
  qed (simp add: strip.simps [of f s])
qed

lemma space_len_prefix: "space_len xs \<noteq> 0 \<Longrightarrow> space_len (xs @ ys) = space_len xs"
  by (cases xs) (auto split: list.splits if_splits)

lemma trim_right_prefix: "\<exists>q. s = trim_right s @ q"
proof -
  obtain p where "rev s = p @ strip space_len_rev (rev s)" using strip_suffix by blast
  then have "s = trim_right s @ rev p" by (metis rev_append rev_rev_ident trim_right_def)
  then show ?thesis by blast
qed

lemma space_len_trim_left: "space_len (trim_left s) = 0"
  using strip_fixed [of space_len s] by (auto simp: trim_left_def)

lemma space_len_trim_space: "space_len (trim_space s) = 0"
proof (rule ccontr)
  assume *: "space_len (trim_space s) \<noteq> 0"
  obtain q where "trim_left s = trim_space s @ q"
    using trim_right_prefix [of "trim_left s"] by (auto simp: trim_space_def)
  with * have "space_len (trim_left s) \<noteq> 0" by (metis space_len_prefix)
  then show False by (simp add: space_len_trim_left)
qed

lemma trim_left_id: "space_len s = 0 \<Longrightarrow> trim_left s = s"
  by (simp add: trim_left_def strip_id)

lemma trim_right_idem: "trim_right (trim_right s) = trim_right s"
  using strip_fixed [of space_len_rev "rev s"] by (auto simp: trim_right_def strip_id)

lemma trim_space_idem [simp]: "trim_space (trim_space s) = trim_space s"
proof -
  have "trim_space (trim_space s) = trim_right (trim_space s)"
    by (simp add: trim_space_def [of "trim_space s"] trim_left_id space_len_trim_space)
  also have "\<dots> = trim_space s" by (simp add: trim_space_def trim_right_idem)
  finally show ?thesis .
qed

lemma trim_space_Nil [simp]: "trim_space [] = []"
  by (simp add: trim_space_def trim_left_def trim_right_def)

text \<open>A trimmed string is one that \<open>trim_space\<close> leaves alone.\<close>

definition trimmed :: "string \<Rightarrow> bool" where
  "trimmed s \<longleftrightarrow> trim_space s = s"

lemma trimmed_trim_space [simp, intro]: "trimmed (trim_space s)"
  by (simp add: trimmed_def)

lemma trim_space_trimmed: "trimmed s \<Longrightarrow> trim_space s = s"
  by (simp add: trimmed_def)

section \<open>Case mapping\<close>

text \<open>
  \<open>strings.ToLower\<close> and \<open>strings.ToUpper\<close>. ASCII letters are mapped, and so are the four
  non-ASCII runes that Go maps to an ASCII letter (U+0130 to \<open>i\<close>, U+212A to \<open>k\<close>; U+0131 to
  \<open>I\<close>, U+017F to \<open>S\<close>), so a comparison of the result with an ASCII literal is decided as
  in Go. Every other non-ASCII rune is left unchanged.
\<close>

definition lower_char :: "char \<Rightarrow> char" where
  "lower_char c = (if 65 \<le> byte c \<and> byte c \<le> 90 then char_of (byte c + 32) else c)"

definition upper_char :: "char \<Rightarrow> char" where
  "upper_char c = (if 97 \<le> byte c \<and> byte c \<le> 122 then char_of (byte c - 32) else c)"

fun to_lower :: "string \<Rightarrow> string" where
  "to_lower [] = []"
| "to_lower (c # s) =
    (if c = CHR 0xC4 \<and> take 1 s = [CHR 0xB0] then CHR ''i'' # to_lower (drop 1 s)
     else if c = CHR 0xE2 \<and> take 2 s = [CHR 0x84, CHR 0xAA] then CHR ''k'' # to_lower (drop 2 s)
     else lower_char c # to_lower s)"

fun to_upper :: "string \<Rightarrow> string" where
  "to_upper [] = []"
| "to_upper (c # s) =
    (if c = CHR 0xC4 \<and> take 1 s = [CHR 0xB1] then CHR ''I'' # to_upper (drop 1 s)
     else if c = CHR 0xC5 \<and> take 1 s = [CHR 0xBF] then CHR ''S'' # to_upper (drop 1 s)
     else upper_char c # to_upper s)"

section \<open>Splitting and searching\<close>

definition has_prefix :: "string \<Rightarrow> string \<Rightarrow> bool" where
  "has_prefix s p \<longleftrightarrow> take (length p) s = p"

definition trim_prefix :: "string \<Rightarrow> string \<Rightarrow> string" where
  "trim_prefix s p = (if has_prefix s p then drop (length p) s else s)"

fun contains :: "string \<Rightarrow> string \<Rightarrow> bool" where
  "contains [] p = (p = [])"
| "contains (c # s) p = (has_prefix (c # s) p \<or> contains s p)"

text \<open>\<open>strings.Split(s, sep)\<close> for a separator of one byte: never empty.\<close>

fun split_on :: "char \<Rightarrow> string \<Rightarrow> string list" where
  "split_on d [] = [[]]"
| "split_on d (c # s) =
    (if c = d then [] # split_on d s
     else (case split_on d s of [] \<Rightarrow> [[c]] | w # ws \<Rightarrow> (c # w) # ws))"

lemma split_on_nonempty [simp]: "split_on d s \<noteq> []"
  by (cases s) (auto split: list.splits)

lemma split_on_no_sep: "d \<notin> set s \<Longrightarrow> split_on d s = [s]"
  by (induction s) auto

lemma split_on_append:
  "d \<notin> set s \<Longrightarrow> split_on d (s @ d # t) = s # split_on d t"
  by (induction s) auto

lemma length_split_on: "length (split_on d s) = Suc (count_list s d)"
  by (induction s) (auto split: list.splits)

text \<open>\<open>strings.Fields\<close>: the maximal runs of non-space runes.\<close>

function fields_from :: "string \<Rightarrow> string \<Rightarrow> string list" where
  "fields_from w s =
    (if s = [] then (if w = [] then [] else [rev w])
     else if 0 < space_len s
     then (if w = [] then [] else [rev w]) @ fields_from [] (drop (space_len s) s)
     else fields_from (hd s # w) (tl s))"
  by pat_completeness auto
termination
  by (relation "measure (\<lambda>(w, s). length s)") auto

declare fields_from.simps [simp del]

definition str_fields :: "string \<Rightarrow> string list" where
  "str_fields s = fields_from [] s"

lemma has_prefix_append [simp]: "has_prefix (p @ s) p"
  by (simp add: has_prefix_def)

lemma has_prefix_Nil [simp]: "has_prefix s []"
  by (simp add: has_prefix_def)

lemma trim_prefix_append [simp]: "trim_prefix (p @ s) p = s"
  by (simp add: trim_prefix_def)

lemma has_prefix_eq: "has_prefix s p \<longleftrightarrow> (\<exists>t. s = p @ t)"
  by (metis append_eq_conv_conj has_prefix_def append_take_drop_id)

section \<open>Decimal numbers\<close>

definition is_digit :: "char \<Rightarrow> bool" where
  "is_digit c \<longleftrightarrow> 48 \<le> byte c \<and> byte c \<le> 57"

definition digit_val :: "char \<Rightarrow> int" where
  "digit_val c = int (byte c) - 48"

definition digits_val :: "string \<Rightarrow> int" where
  "digits_val s = fold (\<lambda>c n. 10 * n + digit_val c) s 0"

text \<open>
  \<open>strconv.Atoi\<close>: an optional sign and at least one digit; a value outside \<open>int64\<close> is a
  range error.
\<close>

definition atoi :: "string \<Rightarrow> int option" where
  "atoi s =
    (let neg = has_prefix s ''-'';
         body = (if has_prefix s ''-'' \<or> has_prefix s ''+'' then drop 1 s else s);
         v = (if neg then - digits_val body else digits_val body)
     in if body = [] \<or> \<not> list_all is_digit body then None
        else if in_int64 v then Some v else None)"

lemma atoi_range: "atoi s = Some v \<Longrightarrow> in_int64 v"
  by (simp add: atoi_def Let_def split: if_splits)

lemma atoi_empty [simp]: "atoi [] = None"
  by (simp add: atoi_def has_prefix_def)

text \<open>\<open>strconv.Itoa\<close> on non-negative and negative numbers.\<close>

fun nat_digits :: "nat \<Rightarrow> string" where
  "nat_digits n = (if n < 10 then [char_of (48 + n)] else nat_digits (n div 10) @ [char_of (48 + n mod 10)])"

declare nat_digits.simps [simp del]

definition itoa :: "int \<Rightarrow> string" where
  "itoa n = (if n < 0 then ''-'' @ nat_digits (nat (- n)) else nat_digits (nat n))"

lemma digits_val_snoc: "digits_val (s @ [c]) = 10 * digits_val s + digit_val c"
  by (simp add: digits_val_def)

lemma digits_val_nonneg: "list_all is_digit s \<Longrightarrow> 0 \<le> digits_val s"
  by (induction s rule: rev_induct)
    (simp_all add: digits_val_snoc digit_val_def is_digit_def, simp add: digits_val_def)

lemma nat_digits_val: "digits_val (nat_digits n) = int n \<and> nat_digits n \<noteq> [] \<and> list_all is_digit (nat_digits n)"
proof (induction n rule: nat_digits.induct)
  case (1 n)
  have dv: "m < 10 \<Longrightarrow> digit_val (char_of (48 + m)) = int m \<and> is_digit (char_of (48 + m))" for m :: nat
    by (simp add: digit_val_def is_digit_def of_char_of)
  show ?case
  proof (cases "n < 10")
    case True
    then show ?thesis using dv [of n]
      by (simp add: nat_digits.simps [of n] digits_val_def)
  next
    case False
    have "10 * int (n div 10) + int (n mod 10) = int n" by presburger
    with False show ?thesis using 1 dv [of "n mod 10"]
      by (simp add: nat_digits.simps [of n] digits_val_snoc)
  qed
qed

lemma nat_digits_head: "is_digit (hd (nat_digits n))"
  using nat_digits_val [of n] by (metis hd_in_set list_all_iff)

lemma atoi_itoa: "in_int64 n \<Longrightarrow> atoi (itoa n) = Some n"
proof -
  assume n: "in_int64 n"
  have nosign: "\<not> has_prefix (nat_digits m) ''-'' \<and> \<not> has_prefix (nat_digits m) ''+''" for m
    using nat_digits_head [of m] nat_digits_val [of m]
    by (cases "nat_digits m") (auto simp: has_prefix_def is_digit_def)
  show ?thesis
  proof (cases "n < 0")
    case True
    then show ?thesis using n nat_digits_val [of "nat (- n)"]
      by (simp add: atoi_def itoa_def has_prefix_def)
  next
    case False
    then show ?thesis using n nosign [of "nat n"] nat_digits_val [of "nat n"]
      by (simp add: atoi_def itoa_def)
  qed
qed

section \<open>Validator and limits\<close>

text \<open>\<open>strings.ContainsAny\<close> for a set of bytes.\<close>

definition contains_any :: "string \<Rightarrow> string \<Rightarrow> bool" where
  "contains_any s cs \<longleftrightarrow> list_ex (\<lambda>c. c \<in> set cs) s"

end
