(* ===== verification/Go_Time.thy ===== *)
theory Go_Time
  imports Go_Strings
begin

text \<open>
  The part of Go's \<open>time\<close> package the code uses. A \<open>time.Time\<close> is the number of
  nanoseconds since the Unix epoch (all instants the code handles are UTC); a
  \<open>time.Duration\<close> is a number of nanoseconds, bounded by \<open>int64\<close> where it is parsed.
  Calendar fields follow the 400/100/4/1-year split of the library, on the days since
  0001-01-01.
\<close>

type_synonym time = int
type_synonym duration = int

definition ns_second :: int where "ns_second = 1000000000"
definition ns_minute :: int where "ns_minute = 60000000000"
definition ns_hour :: int where "ns_hour = 3600000000000"
definition ns_day :: int where "ns_day = 86400000000000"

lemmas ns_defs [go_defs] = ns_second_def ns_minute_def ns_hour_def ns_day_def

text \<open>\<open>t.Truncate(d)\<close> and whole seconds of a duration (\<open>int(d.Seconds())\<close>).\<close>

definition truncate_to :: "duration \<Rightarrow> time \<Rightarrow> time" where
  "truncate_to d t = t div d * d"

definition whole_seconds :: "duration \<Rightarrow> int" where
  "whole_seconds d = go_div d ns_second"

text \<open>A timestamp parameter reaches PostgreSQL in whole microseconds.\<close>

definition pg_time :: "time \<Rightarrow> time" where
  "pg_time t = t div 1000 * 1000"

lemma truncate_to_le: "0 < d \<Longrightarrow> truncate_to d t \<le> t"
proof -
  assume "0 < d"
  moreover have "t div d * d + t mod d = t" by simp
  moreover have "0 \<le> t mod d" using \<open>0 < d\<close> by simp
  ultimately show ?thesis unfolding truncate_to_def by linarith
qed

lemma truncate_to_gt: "0 < d \<Longrightarrow> t < truncate_to d t + d"
proof -
  assume "0 < d"
  moreover have "t div d * d + t mod d = t" by simp
  moreover have "t mod d < d" using \<open>0 < d\<close> by simp
  ultimately show ?thesis unfolding truncate_to_def by linarith
qed

lemma truncate_to_dvd [simp]: "d dvd truncate_to d t"
  by (simp add: truncate_to_def)

section \<open>Calendar\<close>

definition abs_day :: "time \<Rightarrow> int" where
  "abs_day t = t div ns_day + 719162"

definition weekday :: "time \<Rightarrow> int" where
  "weekday t = (abs_day t + 1) mod 7"

definition hour_of :: "time \<Rightarrow> int" where
  "hour_of t = t mod ns_day div ns_hour"

definition minute_of :: "time \<Rightarrow> int" where
  "minute_of t = t mod ns_hour div ns_minute"

definition second_of :: "time \<Rightarrow> int" where
  "second_of t = t mod ns_minute div ns_second"

definition year_yday :: "int \<Rightarrow> int \<times> int" where
  "year_yday z =
    (let q = z div 146097; d1 = z mod 146097;
         c0 = d1 div 36524; c = c0 - c0 div 4; d2 = d1 - 36524 * c;
         f = d2 div 1461; d3 = d2 mod 1461;
         e0 = d3 div 365; e = e0 - e0 div 4
     in (400 * q + 100 * c + 4 * f + e + 1, d3 - 365 * e))"

definition is_leap :: "int \<Rightarrow> bool" where
  "is_leap y \<longleftrightarrow> y mod 4 = 0 \<and> (y mod 100 \<noteq> 0 \<or> y mod 400 = 0)"

definition month_lengths :: "int \<Rightarrow> int list" where
  "month_lengths y = [31, if is_leap y then 29 else 28, 31, 30, 31, 30, 31, 31, 30, 31, 30, 31]"

fun find_month :: "nat \<Rightarrow> int list \<Rightarrow> int \<Rightarrow> nat \<times> int" where
  "find_month m [] d = (m, d + 1)"
| "find_month m (l # ls) d = (if d < l then (m, d + 1) else find_month (Suc m) ls (d - l))"

definition civil :: "int \<Rightarrow> int \<times> nat \<times> int" where
  "civil z = (let (y, yd) = year_yday z in (y, find_month 1 (month_lengths y) yd))"

definition year_of :: "time \<Rightarrow> int" where "year_of t = fst (civil (abs_day t))"
definition month_of :: "time \<Rightarrow> int" where "month_of t = int (fst (snd (civil (abs_day t))))"
definition day_of :: "time \<Rightarrow> int" where "day_of t = snd (snd (civil (abs_day t)))"

definition days_before_year :: "int \<Rightarrow> int" where
  "days_before_year y = (let n = y - 1 in 365 * n + n div 4 - n div 100 + n div 400)"

text \<open>
  \<open>time.Date(y, m, d, 0, 0, 0, 0, time.UTC)\<close> for a month in range; the day may run past
  the end of the month, which the library normalises by counting on.
\<close>

definition date_midnight :: "int \<Rightarrow> int \<Rightarrow> int \<Rightarrow> time" where
  "date_midnight y m d =
    (days_before_year y + sum_list (take (nat (m - 1)) (month_lengths y)) + (d - 1) - 719162) * ns_day"

lemma year_yday_days: "days_before_year (fst (year_yday z)) + snd (year_yday z) = z"
proof -
  define q d1 where "q = z div 146097" and "d1 = z mod 146097"
  define c0 where "c0 = d1 div 36524"
  define c where "c = c0 - c0 div 4"
  define d2 where "d2 = d1 - 36524 * c"
  define f d3 where "f = d2 div 1461" and "d3 = d2 mod 1461"
  define e0 where "e0 = d3 div 365"
  define e where "e = e0 - e0 div 4"
  have z: "z = 146097 * q + d1" and d1: "0 \<le> d1" "d1 < 146097" by (simp_all add: q_def d1_def)
  have c0: "0 \<le> c0" "c0 \<le> 4" "36524 * c0 \<le> d1" "d1 < 36524 * c0 + 36524"
    using d1 by (simp_all add: c0_def)
  have c: "0 \<le> c" "c \<le> 3" "0 \<le> d2" "d2 < 36525"
    using c0 d1 by (cases "c0 = 4"; simp add: c_def d2_def)+
  have d2: "d2 = 1461 * f + d3" and f: "0 \<le> f" "f \<le> 24" "0 \<le> d3" "d3 < 1461"
    using c by (simp_all add: f_def d3_def)
  have e0: "0 \<le> e0" "e0 \<le> 4" using f by (simp_all add: e0_def)
  have e: "0 \<le> e" "e \<le> 3" using e0 by (cases "e0 = 4"; simp add: e_def)+
  define n where "n = 400 * q + 100 * c + 4 * f + e"
  have n4: "n div 4 = 100 * q + 25 * c + f" using e by (simp add: n_def)
  have n100: "n div 100 = 4 * q + c" using e f by (simp add: n_def)
  have n400: "n div 400 = q" using e f c by (simp add: n_def)
  have "365 * n + n div 4 - n div 100 + n div 400 + (d3 - 365 * e) = z"
    unfolding n4 n100 n400 using z d2 by (simp add: n_def d2_def)
  moreover have "year_yday z = (n + 1, d3 - 365 * e)"
    by (simp only: year_yday_def Let_def n_def e_def e0_def f_def d3_def d2_def c_def c0_def
        q_def d1_def)
  ultimately show ?thesis by (simp add: days_before_year_def)
qed

lemma find_month_sum:
  "find_month k ls d = (m, dd) \<Longrightarrow> k \<le> m \<and> sum_list (take (m - k) ls) + dd - 1 = d"
proof (induction k ls d rule: find_month.induct)
  case (2 k l ls d)
  show ?case
  proof (cases "d < l")
    case False
    with 2 have "Suc k \<le> m \<and> sum_list (take (m - Suc k) ls) + dd - 1 = d - l" by simp
    moreover from this have "m - k = Suc (m - Suc k)" by (simp add: Suc_diff_Suc)
    ultimately show ?thesis by simp
  qed (use 2 in auto)
qed auto

text \<open>\<open>time.Date\<close> is the left inverse of \<open>Year\<close>, \<open>Month\<close>, \<open>Day\<close>, also with a day offset.\<close>

lemma date_midnight_civil:
  "date_midnight (year_of t) (month_of t) (day_of t + n) = (t div ns_day + n) * ns_day"
proof -
  define y where "y = fst (year_yday (abs_day t))"
  define yd where "yd = snd (year_yday (abs_day t))"
  obtain m dd where md: "find_month 1 (month_lengths y) yd = (m, dd)" by fastforce
  have civ: "year_of t = y" "month_of t = int m" "day_of t = dd"
    using md by (simp_all add: year_of_def month_of_def day_of_def civil_def y_def yd_def case_prod_beta)
  have s: "1 \<le> m" "sum_list (take (m - 1) (month_lengths y)) + dd - 1 = yd"
    using find_month_sum [OF md] by auto
  have nm: "nat (int m - 1) = m - 1" using s(1) by simp
  have "days_before_year y + yd = abs_day t"
    unfolding y_def yd_def by (rule year_yday_days)
  then have eq: "days_before_year y + sum_list (take (m - 1) (month_lengths y)) + (dd + n - 1) - 719162
        = t div ns_day + n"
    using s(2) by (simp add: abs_day_def)
  show ?thesis unfolding civ date_midnight_def nm eq ..
qed

section \<open>Formatting\<close>

definition pad :: "nat \<Rightarrow> int \<Rightarrow> string" where
  "pad w n = (let ds = itoa n in replicate (w - length ds) (CHR ''0'') @ ds)"

text \<open>\<open>t.UTC().Format(time.RFC3339)\<close> for years 0 to 9999.\<close>

definition format_time :: "time \<Rightarrow> string" where
  "format_time t =
    pad 4 (year_of t) @ ''-'' @ pad 2 (month_of t) @ ''-'' @ pad 2 (day_of t) @ ''T'' @
    pad 2 (hour_of t) @ '':'' @ pad 2 (minute_of t) @ '':'' @ pad 2 (second_of t) @ ''Z''"

definition format_optional_time :: "time option \<Rightarrow> string option" where
  "format_optional_time = map_option format_time"

section \<open>ParseDuration\<close>

text \<open>
  \<open>time.ParseDuration\<close>. The integer part and the products are bounded by \<open>2^63\<close> as in the
  library; the fraction is the exact floor of \<open>f * unit / scale\<close> (the library goes through
  \<open>float64\<close>, which can differ in the last nanosecond).
\<close>

definition two63 :: int where "two63 = 9223372036854775808"

definition unit_ns :: "string \<Rightarrow> int option" where
  "unit_ns u =
    (if u = ''ns'' then Some 1
     else if u = ''us'' \<or> u = [CHR 0xC2, CHR 0xB5, CHR ''s''] \<or> u = [CHR 0xCE, CHR 0xBC, CHR ''s''] then Some 1000
     else if u = ''ms'' then Some 1000000
     else if u = ''s'' then Some 1000000000
     else if u = ''m'' then Some 60000000000
     else if u = ''h'' then Some 3600000000000
     else None)"

definition is_dot_digit :: "char \<Rightarrow> bool" where
  "is_dot_digit c \<longleftrightarrow> c = CHR ''.'' \<or> is_digit c"

text \<open>
  One group \<open>[0-9]*(\.[0-9]*)?unit\<close>: its nanoseconds and the rest of the input.
\<close>

definition duration_group :: "string \<Rightarrow> (int \<times> string) option" where
  "duration_group s =
    (let ds = takeWhile is_digit s; s1 = dropWhile is_digit s;
         v = digits_val ds;
         dot = has_prefix s1 ''.'';
         fs = (if dot then takeWhile is_digit (drop 1 s1) else []);
         s2 = (if dot then dropWhile is_digit (drop 1 s1) else s1);
         u = takeWhile (\<lambda>c. \<not> is_dot_digit c) s2;
         s3 = dropWhile (\<lambda>c. \<not> is_dot_digit c) s2
     in if s = [] \<or> \<not> is_dot_digit (hd s) \<or> two63 < v \<or> (ds = [] \<and> fs = []) then None
        else case unit_ns u of None \<Rightarrow> None
          | Some unit \<Rightarrow>
            if two63 div unit < v then None
            else let w = v * unit + digits_val fs * unit div 10 ^ length fs
                 in if two63 < w then None else Some (w, s3))"

fun duration_groups :: "nat \<Rightarrow> int \<Rightarrow> string \<Rightarrow> int option" where
  "duration_groups 0 d s = None"
| "duration_groups (Suc fuel) d s =
    (if s = [] then Some d
     else case duration_group s of None \<Rightarrow> None
       | Some (w, s') \<Rightarrow> if two63 < d + w then None else duration_groups fuel (d + w) s')"

definition parse_duration :: "string \<Rightarrow> duration option" where
  "parse_duration s0 =
    (let neg = has_prefix s0 ''-'';
         s = (if neg \<or> has_prefix s0 ''+'' then drop 1 s0 else s0)
     in if s = ''0'' then Some 0
        else if s = [] then None
        else case duration_groups (Suc (length s)) 0 s of None \<Rightarrow> None
          | Some d \<Rightarrow> if neg then Some (- d)
                    else if two63 - 1 < d then None else Some d)"

text \<open>Each group consumes input, so \<open>Suc (length s)\<close> rounds are enough.\<close>

lemma duration_group_shorter: "duration_group s = Some (w, s') \<Longrightarrow> length s' < length s"
proof -
  assume a: "duration_group s = Some (w, s')"
  let ?s1 = "dropWhile is_digit s"
  let ?s2 = "if has_prefix ?s1 ''.'' then dropWhile is_digit (drop 1 ?s1) else ?s1"
  let ?u = "takeWhile (\<lambda>c. \<not> is_dot_digit c) ?s2"
  have s': "s' = dropWhile (\<lambda>c. \<not> is_dot_digit c) ?s2" and u: "unit_ns ?u \<noteq> None"
    using a by (auto simp: duration_group_def Let_def split: if_splits option.splits)
  have "?u \<noteq> []" using u by (auto simp: unit_ns_def)
  then have "0 < length ?u" by simp
  moreover have "length ?u + length s' = length ?s2"
    unfolding s' by (metis length_append takeWhile_dropWhile_id)
  moreover have "length ?s2 \<le> length s"
    using length_dropWhile_le [of is_digit s] length_dropWhile_le [of is_digit "drop 1 ?s1"]
    by simp linarith
  ultimately show ?thesis by linarith
qed

lemma duration_groups_fuel:
  "length s < fuel \<Longrightarrow> length s < fuel' \<Longrightarrow> duration_groups fuel d s = duration_groups fuel' d s"
proof (induction fuel arbitrary: fuel' d s)
  case 0
  then show ?case by simp
next
  case (Suc fuel)
  then obtain g where g: "fuel' = Suc g" by (cases fuel') auto
  show ?case
  proof (cases "duration_group s")
    case (Some p)
    then obtain w s' where p: "duration_group s = Some (w, s')" by (cases p) auto
    with Suc.prems g have "length s' < fuel" "length s' < g"
      using duration_group_shorter [OF p] by simp_all
    then show ?thesis using Suc.IH [of s' g] p g by simp
  qed (simp add: g)
qed

lemma duration_group_nonneg: "duration_group s = Some (w, s') \<Longrightarrow> 0 \<le> w"
proof -
  have t: "0 \<le> digits_val (takeWhile is_digit x)" for x
    by (rule digits_val_nonneg) (auto simp: list_all_iff dest: set_takeWhileD)
  have u: "unit_ns x = Some n \<Longrightarrow> 0 < n" for x n by (auto simp: unit_ns_def split: if_splits)
  have nil: "0 \<le> digits_val []" by (simp add: digits_val_def)
  assume "duration_group s = Some (w, s')"
  then show ?thesis
    using t nil by (fastforce simp: duration_group_def Let_def pos_imp_zdiv_nonneg_iff split: if_splits option.splits dest!: u)
qed

lemma duration_groups_range:
  "duration_groups n d s = Some e \<Longrightarrow> 0 \<le> d \<Longrightarrow> d \<le> two63 \<Longrightarrow> 0 \<le> e \<and> e \<le> two63"
  by (induction n d s rule: duration_groups.induct)
    (auto split: if_splits option.splits prod.splits dest: duration_group_nonneg)

lemma parse_duration_range: "parse_duration s = Some d \<Longrightarrow> in_int64 d"
proof -
  assume "parse_duration s = Some d"
  then consider "d = 0" | n t e where "duration_groups n 0 t = Some e" "d = - e \<or> d = e \<and> e \<le> two63 - 1"
    by (auto simp: parse_duration_def Let_def simp del: duration_groups.simps split: if_splits option.splits)
  then show ?thesis
  proof cases
    case 2
    then show ?thesis using duration_groups_range [OF 2(1)]
      by (auto simp: in_int64_def min_int64_def max_int64_def two63_def)
  qed (simp add: in_int64_def min_int64_def max_int64_def)
qed

end
