(* ===== verification/Shared.thy ===== *)
theory Shared
  imports Go_Time
begin

text \<open>
  The \<open>shared\<close> packages every module uses: \<open>shared/errors\<close> (constructors of \<open>AppError\<close>),
  \<open>shared/pagination\<close>, \<open>shared/validator\<close>.
\<close>

section \<open>shared/errors\<close>

definition new_app_error :: "string \<Rightarrow> string \<Rightarrow> int \<Rightarrow> go_error" where
  "new_app_error code message status =
    AppErr \<lparr>ae_code = code, ae_message = message, ae_status = (if status = 0 then 500 else status)\<rparr>"

definition bad_request :: "string \<Rightarrow> string \<Rightarrow> go_error" where
  "bad_request code message = new_app_error code message 400"

definition conflict :: "string \<Rightarrow> string \<Rightarrow> go_error" where
  "conflict code message = new_app_error code message 409"

definition unauthorized :: "string \<Rightarrow> go_error" where
  "unauthorized message = new_app_error ''UNAUTHORIZED'' message 401"

definition forbidden :: "string \<Rightarrow> go_error" where
  "forbidden message = new_app_error ''FORBIDDEN'' message 403"

definition not_found :: "string \<Rightarrow> string \<Rightarrow> go_error" where
  "not_found code message = new_app_error code message 404"

definition internal :: "string \<Rightarrow> go_error" where
  "internal message = new_app_error ''INTERNAL_ERROR'' message 500"

definition service_unavailable :: "string \<Rightarrow> string \<Rightarrow> go_error" where
  "service_unavailable code message = new_app_error code message 503"

lemmas app_error_defs [go_defs] = new_app_error_def bad_request_def conflict_def unauthorized_def
  forbidden_def not_found_def internal_def service_unavailable_def

section \<open>shared/pagination\<close>

definition default_limit :: int where "default_limit = 50"
definition max_limit :: int where "max_limit = 100"

definition normalize_limit :: "int \<Rightarrow> int" where
  "normalize_limit limit =
    (if limit \<le> 0 then default_limit else if max_limit < limit then max_limit else limit)"

record cursor =
  cu_limit :: int
  cu_before :: string
  cu_after :: string

definition new_cursor :: "int \<Rightarrow> string \<Rightarrow> string \<Rightarrow> cursor" where
  "new_cursor limit before after =
    \<lparr>cu_limit = normalize_limit limit, cu_before = before, cu_after = after\<rparr>"

record page_meta =
  pm_next_cursor :: string
  pm_prev_cursor :: string
  pm_has_more :: bool

lemma normalize_limit_range: "1 \<le> normalize_limit l \<and> normalize_limit l \<le> max_limit"
  by (simp add: normalize_limit_def default_limit_def max_limit_def)

lemma normalize_limit_id: "1 \<le> l \<Longrightarrow> l \<le> max_limit \<Longrightarrow> normalize_limit l = l"
  by (simp add: normalize_limit_def)

section \<open>shared/validator\<close>

record field_error =
  fe_field :: string
  fe_message :: string

type_synonym validation = "field_error list"

definition validation_add :: "validation \<Rightarrow> string \<Rightarrow> string \<Rightarrow> validation" where
  "validation_add r field message = r @ [\<lparr>fe_field = field, fe_message = message\<rparr>]"

definition validation_ok :: "validation \<Rightarrow> bool" where
  "validation_ok r \<longleftrightarrow> length r = 0"

definition required :: "string \<Rightarrow> bool" where
  "required value \<longleftrightarrow> value \<noteq> []"

definition max_len :: "string \<Rightarrow> int \<Rightarrow> bool" where
  "max_len value n \<longleftrightarrow> int (rune_count value) \<le> n"

section \<open>shared/response\<close>

text \<open>
  What \<open>response.Fail\<close> writes: status, code, the \<open>resource\<close> detail if there is one, and the
  \<open>Retry-After\<close> header if one is set. The message texts are not modelled here.
\<close>

record http_failure =
  hf_status :: int
  hf_code :: string
  hf_resource :: "string option"
  hf_retry_after :: "string option"

definition fail :: "int \<Rightarrow> string \<Rightarrow> http_failure" where
  "fail status code = \<lparr>hf_status = status, hf_code = code, hf_resource = None, hf_retry_after = None\<rparr>"

definition fail_retry :: "string \<Rightarrow> int \<Rightarrow> string \<Rightarrow> http_failure" where
  "fail_retry after status code = (fail status code)\<lparr>hf_retry_after := Some after\<rparr>"

fun as_app_error :: "go_error \<Rightarrow> app_error option" where
  "as_app_error (AppErr e) = Some e"
| "as_app_error (Wrap _ e) = as_app_error e"
| "as_app_error _ = None"

fun as_pg_error :: "go_error \<Rightarrow> (string \<times> string) option" where
  "as_pg_error (PgErr c m) = Some (c, m)"
| "as_pg_error (Wrap _ e) = as_pg_error e"
| "as_pg_error _ = None"

definition write_postgres_error :: "string \<Rightarrow> string \<Rightarrow> http_failure" where
  "write_postgres_error code message =
    (if code = ''P0001'' \<and> has_prefix message ''ZONE_QUOTA_EXCEEDED:''
     then (fail 409 ''ZONE_QUOTA_EXCEEDED'')\<lparr>hf_resource := Some (trim_prefix message ''ZONE_QUOTA_EXCEEDED:'')\<rparr>
     else if code = ''22P02'' then fail 400 ''INVALID_IDENTIFIER''
     else if code = ''23502'' \<or> code = ''23514'' then fail 400 ''VALIDATION_ERROR''
     else if code = ''23503'' then fail 409 ''RELATED_RESOURCE_CONFLICT''
     else if code = ''23505'' then fail 409 ''RESOURCE_ALREADY_EXISTS''
     else if code = ''40001'' \<or> code = ''40P01'' \<or> code = ''55P03''
       then fail_retry ''1'' 503 ''DATABASE_RETRY_REQUIRED''
     else if code = ''21000'' then fail 409 ''DATA_CONSISTENCY_CONFLICT''
     else if code = ''57014'' then fail_retry ''1'' 504 ''DATABASE_TIMEOUT''
     else if code = ''57P01'' \<or> code = ''57P02'' \<or> code = ''57P03'' \<or> code = ''57P04''
       then fail_retry ''2'' 503 ''DATABASE_UNAVAILABLE''
     else if has_prefix code ''08'' \<or> has_prefix code ''53'' \<or> has_prefix code ''58''
       then fail_retry ''2'' 503 ''DATABASE_UNAVAILABLE''
     else if has_prefix code ''42'' then fail 500 ''DATABASE_SCHEMA_MISMATCH''
     else fail 500 ''DATABASE_ERROR'')"

text \<open>
  The transport classification of \<open>pgconn\<close> is a parameter: whether an error is a timeout,
  and whether it is one of the connection errors the code lists.
\<close>

record pgconn_api =
  pc_timeout :: "go_error \<Rightarrow> bool"
  pc_connection :: "go_error \<Rightarrow> bool"

definition write_postgres_transport_error :: "pgconn_api \<Rightarrow> go_error \<Rightarrow> http_failure option" where
  "write_postgres_transport_error api err =
    (if pc_timeout api err then Some (fail_retry ''1'' 504 ''DATABASE_TIMEOUT'')
     else if pc_connection api err then Some (fail_retry ''2'' 503 ''DATABASE_UNAVAILABLE'')
     else None)"

definition response_error :: "pgconn_api \<Rightarrow> go_error \<Rightarrow> http_failure" where
  "response_error api err =
    (case as_app_error err of
       Some e \<Rightarrow> fail (ae_status e) (ae_code e)
     | None \<Rightarrow>
         if errors_is err ''context.Canceled'' then fail 408 ''REQUEST_CANCELLED''
         else if errors_is err ''context.DeadlineExceeded'' then fail 504 ''REQUEST_TIMEOUT''
         else if errors_is err ''pgx.ErrNoRows'' then fail 404 ''RESOURCE_NOT_FOUND''
         else (case as_pg_error err of
             Some (c, m) \<Rightarrow> write_postgres_error c m
           | None \<Rightarrow>
               (case write_postgres_transport_error api err of
                  Some f \<Rightarrow> f
                | None \<Rightarrow> fail 500 ''INTERNAL_ERROR'')))"

text \<open>
  \<open>response.Error\<close> answers a PostgreSQL error, however deeply wrapped, with a client error
  (4xx, no retry) exactly for the constraint, identifier, cardinality and quota classes, and with
  \<open>Retry-After\<close> only on 503 and 504, which tell the client to try again.
\<close>

lemma response_error_postgres:
  "as_app_error (Wrap s (PgErr c m)) = None \<and>
   response_error api (Wrap s (PgErr c m)) = response_error api (PgErr c m) \<and>
   (hf_status (response_error api (PgErr c m)) < 500 \<longleftrightarrow>
      c \<in> {''22P02'', ''23502'', ''23514'', ''23503'', ''23505'', ''21000''} \<or>
      c = ''P0001'' \<and> has_prefix m ''ZONE_QUOTA_EXCEEDED:'') \<and>
   (hf_retry_after (response_error api (PgErr c m)) \<noteq> None \<longleftrightarrow>
      hf_status (response_error api (PgErr c m)) \<in> {503, 504})"
proof -
  have "write_postgres_error c m = response_error api (PgErr c m)"
    by (simp add: response_error_def)
  then show ?thesis
    by (auto simp: response_error_def write_postgres_error_def fail_def fail_retry_def)
qed

end
