(* ===== verification/Pg.thy ===== *)
theory Pg
  imports Shared
begin

text \<open>
  What the PostgreSQL repositories rely on. A repository statement is a function on the tables;
  the environment of one statement holds what the server supplies: \<open>now()\<close>, the value of
  \<open>gen_random_uuid()\<close>, the canonical text of a \<open>uuid\<close> parameter (\<open>None\<close>: the driver cannot
  encode it), the text of a \<open>jsonb\<close> value (\<open>None\<close>: rejected), and an error, if the statement
  fails for a reason outside the model. Statements of one database run one after another;
  \<open>pg_run\<close> hands each the next environment. A failed statement changes no table.
\<close>

record pg_env =
  pe_now :: time
  pe_fresh :: string
  pe_uuid :: "string \<Rightarrow> string option"
  pe_jsonb :: "string \<Rightarrow> string option"
  pe_fail :: "go_error option"

record 'db pg =
  pg_db :: 'db
  pg_envs :: "nat \<Rightarrow> pg_env"
  pg_tick :: nat

definition pg_run :: "(pg_env \<Rightarrow> 'db \<Rightarrow> 'db \<times> 'r result) \<Rightarrow> 'db pg \<Rightarrow> 'db pg \<times> 'r result" where
  "pg_run f s =
    (let env = pg_envs s (pg_tick s) in
     case pe_fail env of
       Some e \<Rightarrow> (s\<lparr>pg_tick := Suc (pg_tick s)\<rparr>, Inl e)
     | None \<Rightarrow>
         (case f env (pg_db s) of
            (db', r) \<Rightarrow> (s\<lparr>pg_db := db', pg_tick := Suc (pg_tick s)\<rparr>, r)))"

text \<open>Encoding a Go string as a \<open>uuid\<close> parameter.\<close>

definition uuid_param :: "pg_env \<Rightarrow> string \<Rightarrow> string result" where
  "uuid_param env s =
    (case pe_uuid env s of None \<Rightarrow> Inl (Plain ''unable to encode uuid'') | Some u \<Rightarrow> Inr u)"

definition jsonb_param :: "pg_env \<Rightarrow> string \<Rightarrow> string result" where
  "jsonb_param env s =
    (case pe_jsonb env s of
       None \<Rightarrow> Inl (PgErr ''22P02'' ''invalid input syntax for type json'') | Some u \<Rightarrow> Inr u)"

abbreviation err_no_rows :: go_error where "err_no_rows \<equiv> Sentinel ''pgx.ErrNoRows''"

definition check_violation :: go_error where
  "check_violation = PgErr ''23514'' ''check constraint violated''"

definition unique_violation :: go_error where
  "unique_violation = PgErr ''23505'' ''duplicate key value violates unique constraint''"

definition is_unique_violation :: "go_error \<Rightarrow> bool" where
  "is_unique_violation err \<longleftrightarrow> (case as_pg_error err of Some (c, _) \<Rightarrow> c = ''23505'' | None \<Rightarrow> False)"

text \<open>SQL \<open>trim\<close> strips spaces only; \<open>NULLIF(s, '')\<close>.\<close>

definition sql_trim :: "string \<Rightarrow> string" where
  "sql_trim s = rev (dropWhile (\<lambda>c. c = CHR '' '') (rev (dropWhile (\<lambda>c. c = CHR '' '') s)))"

definition nullif_empty :: "string \<Rightarrow> string option" where
  "nullif_empty s = (if s = [] then None else Some s)"

text \<open>\<open>ORDER BY key ASC LIMIT n\<close>; rows with equal keys keep their table order.\<close>

definition order_limit :: "('r \<Rightarrow> int) \<Rightarrow> int \<Rightarrow> 'r list \<Rightarrow> 'r list" where
  "order_limit key n rows = take (nat n) (sort_key key rows)"

lemma set_order_limit: "set (order_limit key n rows) \<subseteq> set rows"
  by (auto simp: order_limit_def dest: in_set_takeD)

lemma length_order_limit: "length (order_limit key n rows) = min (nat n) (length rows)"
  by (auto simp: order_limit_def)

lemma pg_run_db:
  assumes "pg_run f s = (s', r)"
  shows "(\<exists>e. r = Inl e \<and> pg_db s' = pg_db s) \<or>
         f (pg_envs s (pg_tick s)) (pg_db s) = (pg_db s', r)"
  using assms by (auto simp: pg_run_def Let_def split: option.splits prod.splits)

lemma pg_run_Inr:
  assumes "pg_run f s = (s', Inr x)"
  shows "f (pg_envs s (pg_tick s)) (pg_db s) = (pg_db s', Inr x)"
  using assms by (auto simp: pg_run_def Let_def split: option.splits prod.splits)

lemma pg_run_keeps:
  "pg_run f s = (s', r) \<Longrightarrow> (\<And>env db' r. f env (pg_db s) = (db', r) \<Longrightarrow> P db') \<Longrightarrow> P (pg_db s) \<Longrightarrow> P (pg_db s')"
  using pg_run_db by metis

text \<open>An environment without failures, for concrete runs.\<close>

definition demo_env :: "nat \<Rightarrow> pg_env" where
  "demo_env n = \<lparr>pe_now = 1000 * int n, pe_fresh = ''id'' @ replicate n (CHR ''x''),
     pe_uuid = Some, pe_jsonb = Some, pe_fail = None\<rparr>"

definition quiet_pg :: "'db pg \<Rightarrow> bool" where
  "quiet_pg s \<longleftrightarrow> (\<forall>n. pe_fail (pg_envs s n) = None \<and> pe_uuid (pg_envs s n) = Some \<and> pe_jsonb (pg_envs s n) = Some)"

lemma pg_run_quiet:
  assumes "quiet_pg s" "f (pg_envs s (pg_tick s)) (pg_db s) = (db', r)"
  shows "pg_run f s = (s\<lparr>pg_db := db', pg_tick := Suc (pg_tick s)\<rparr>, r)"
  using assms by (simp add: pg_run_def quiet_pg_def Let_def)

lemma quiet_pg_update [simp]:
  "quiet_pg (s\<lparr>pg_db := db'\<rparr>) = quiet_pg s" "quiet_pg (s\<lparr>pg_tick := n\<rparr>) = quiet_pg s"
  by (simp_all add: quiet_pg_def)

end
