(* ===== verification/Go_Json.thy ===== *)
theory Go_Json
  imports Go_Strings
begin

text \<open>
  The part of \<open>encoding/json\<close> the code uses: the parser behind \<open>json.Valid\<close> and
  \<open>json.Unmarshal\<close>, with the library's nesting limit, and the decoding of objects into the
  fields of a struct. Parsing runs on fuel; \<open>js_fuel\<close> shows that the fuel \<open>json_parse\<close> starts
  with is always enough.
\<close>

datatype json =
    JNull
  | JBool bool
  | JNum string
  | JStr string
  | JArr "json list"
  | JObj "(string \<times> json) list"

section \<open>Lexical level\<close>

definition json_ws :: "char \<Rightarrow> bool" where
  "json_ws c \<longleftrightarrow> byte c = 32 \<or> byte c = 9 \<or> byte c = 10 \<or> byte c = 13"

definition skip_ws :: "string \<Rightarrow> string" where
  "skip_ws s = dropWhile json_ws s"

definition hex_val :: "char \<Rightarrow> nat option" where
  "hex_val c =
    (if 48 \<le> byte c \<and> byte c \<le> 57 then Some (byte c - 48)
     else if 97 \<le> byte c \<and> byte c \<le> 102 then Some (byte c - 87)
     else if 65 \<le> byte c \<and> byte c \<le> 70 then Some (byte c - 55)
     else None)"

fun hex4 :: "string \<Rightarrow> (int \<times> string) option" where
  "hex4 (a # b # c # d # r) =
    (case (hex_val a, hex_val b, hex_val c, hex_val d) of
       (Some w, Some x, Some y, Some z) \<Rightarrow>
         Some (int w * 4096 + int x * 256 + int y * 16 + int z, r)
     | _ \<Rightarrow> None)"
| "hex4 _ = None"

definition utf8_encode :: "int \<Rightarrow> string" where
  "utf8_encode u =
    (let ch = (\<lambda>n. char_of (nat n)) in
     if u < 128 then [ch u]
     else if u < 2048 then [ch (192 + u div 64), ch (128 + u mod 64)]
     else if u < 65536 then [ch (224 + u div 4096), ch (128 + u div 64 mod 64), ch (128 + u mod 64)]
     else [ch (240 + u div 262144), ch (128 + u div 4096 mod 64), ch (128 + u div 64 mod 64),
           ch (128 + u mod 64)])"

definition rune_error :: string where
  "rune_error = [CHR 0xEF, CHR 0xBF, CHR 0xBD]"

definition escape_char :: "char \<Rightarrow> char option" where
  "escape_char e =
    (if e = CHR 0x22 \<or> e = CHR 0x5C \<or> e = CHR ''/'' then Some e
     else if e = CHR ''b'' then Some (CHR 0x08)
     else if e = CHR ''f'' then Some (CHR 0x0C)
     else if e = CHR ''n'' then Some (CHR 0x0A)
     else if e = CHR ''r'' then Some (CHR 0x0D)
     else if e = CHR ''t'' then Some (CHR 0x09)
     else None)"

text \<open>
  A low surrogate escape \<open>\uDC00\<close> to \<open>\uDFFF\<close> at the front.
\<close>

definition low_surrogate :: "string \<Rightarrow> (int \<times> string) option" where
  "low_surrogate s =
    (case s of
       a # b # r \<Rightarrow>
         if a = CHR 0x5C \<and> b = CHR ''u'' then
           (case hex4 r of Some (l, r') \<Rightarrow> if 56320 \<le> l \<and> l < 57344 then Some (l, r') else None
            | None \<Rightarrow> None)
         else None
     | _ \<Rightarrow> None)"

lemma hex4_shorter: "hex4 s = Some (u, r) \<Longrightarrow> length r < length s"
  by (induction s rule: hex4.induct) (auto split: option.splits)

lemma low_surrogate_shorter: "low_surrogate s = Some (u, r) \<Longrightarrow> length r < length s"
  by (auto simp: low_surrogate_def split: list.splits option.splits if_splits dest!: hex4_shorter)

definition cons_str :: "string \<Rightarrow> (string \<times> string) option \<Rightarrow> (string \<times> string) option" where
  "cons_str p m = map_option (\<lambda>(t, r). (p @ t, r)) m"

text \<open>The body of a string literal after its opening quote, unescaped, and the rest.\<close>

function js_str :: "string \<Rightarrow> (string \<times> string) option" where
  "js_str [] = None"
| "js_str (c # r) =
    (if c = CHR 0x22 then Some ([], r)
     else if byte c < (32 :: nat) then None
     else if c = CHR 0x5C then
       (case r of [] \<Rightarrow> None
        | e # r2 \<Rightarrow>
          if e = CHR ''u'' then
            (case hex4 r2 of None \<Rightarrow> None
             | Some (u, r3) \<Rightarrow>
               if 55296 \<le> u \<and> u < 56320 then
                 (case low_surrogate r3 of
                    Some (l, r4) \<Rightarrow>
                      cons_str (utf8_encode ((u - 55296) * 1024 + (l - 56320) + 65536)) (js_str r4)
                  | None \<Rightarrow> cons_str rune_error (js_str r3))
               else if 56320 \<le> u \<and> u < 57344 then cons_str rune_error (js_str r3)
               else cons_str (utf8_encode u) (js_str r3))
          else (case escape_char e of None \<Rightarrow> None | Some x \<Rightarrow> cons_str [x] (js_str r2)))
     else if byte c < (128 :: nat) then cons_str [c] (js_str r)
     else if rune_len (c # r) \<le> 1 then cons_str rune_error (js_str r)
     else cons_str (take (rune_len (c # r)) (c # r)) (js_str (drop (rune_len (c # r) - 1) r)))"
  by pat_completeness auto
termination
  by (relation "measure length") (auto dest!: hex4_shorter low_surrogate_shorter)

lemma cons_str_Some: "cons_str p m = Some (t, r) \<longleftrightarrow> (\<exists>u. m = Some (u, r) \<and> t = p @ u)"
  by (auto simp: cons_str_def)

lemma js_str_shorter: "js_str s = Some (t, r) \<Longrightarrow> length r < length s"
proof (induction s arbitrary: t rule: measure_induct_rule [of length])
  case (less s)
  then have IH: "js_str s' = Some (u, r) \<Longrightarrow> length s' < length s \<longrightarrow> length r < length s" for s' u
    by (metis less_trans)
  show ?case
  proof (cases s)
    case (Cons c w)
    with less.prems show ?thesis
      by (auto simp: cons_str_Some split: if_splits list.splits option.splits prod.splits
          dest!: hex4_shorter low_surrogate_shorter IH)
  qed (use less.prems in simp)
qed

text \<open>A number literal at the front: the literal and the rest.\<close>

definition js_digits :: "string \<Rightarrow> (string \<times> string) option" where
  "js_digits s = (let ds = takeWhile is_digit s in
     if ds = [] then None else Some (ds, dropWhile is_digit s))"

definition js_int :: "string \<Rightarrow> (string \<times> string) option" where
  "js_int s = (if has_prefix s ''0'' then Some (''0'', drop 1 s) else js_digits s)"

definition js_frac :: "string \<Rightarrow> (string \<times> string) option" where
  "js_frac s =
    (if has_prefix s ''.'' then cons_str ''.'' (js_digits (drop 1 s)) else Some ([], s))"

definition js_exp :: "string \<Rightarrow> (string \<times> string) option" where
  "js_exp s =
    (if has_prefix s ''e'' \<or> has_prefix s ''E'' then
       (let r = drop 1 s in
        if has_prefix r ''+'' \<or> has_prefix r ''-''
        then cons_str (take 2 s) (js_digits (drop 1 r))
        else cons_str (take 1 s) (js_digits r))
     else Some ([], s))"

definition js_number :: "string \<Rightarrow> (string \<times> string) option" where
  "js_number s0 =
    (let neg = has_prefix s0 ''-''; s = (if neg then drop 1 s0 else s0) in
     Option.bind (js_int s) (\<lambda>(a, r1).
     Option.bind (js_frac r1) (\<lambda>(b, r2).
     Option.bind (js_exp r2) (\<lambda>(c, r3).
     Some ((if neg then ''-'' else []) @ a @ b @ c, r3)))))"

lemma js_digits_shorter: "js_digits s = Some (t, r) \<Longrightarrow> length r < length s"
proof -
  assume a: "js_digits s = Some (t, r)"
  have "length (takeWhile is_digit s) + length (dropWhile is_digit s) = length s"
    by (metis length_append takeWhile_dropWhile_id)
  moreover have "0 < length (takeWhile is_digit s)" and r: "r = dropWhile is_digit s"
    using a by (auto simp: js_digits_def Let_def split: if_splits)
  ultimately show ?thesis unfolding r by linarith
qed

lemma js_int_shorter: "js_int s = Some (t, r) \<Longrightarrow> length r < length s"
  by (cases s) (auto simp: js_int_def has_prefix_def dest: js_digits_shorter split: if_splits)

lemma js_frac_le: "js_frac s = Some (t, r) \<Longrightarrow> length r \<le> length s"
  by (auto simp: js_frac_def cons_str_Some dest!: js_digits_shorter split: if_splits)

lemma js_exp_le: "js_exp s = Some (t, r) \<Longrightarrow> length r \<le> length s"
  by (auto simp: js_exp_def cons_str_Some Let_def dest!: js_digits_shorter split: if_splits)

lemma js_number_shorter: "js_number s = Some (t, r) \<Longrightarrow> length r < length s"
  by (fastforce simp: js_number_def Let_def Option.bind_eq_Some_conv
      dest!: js_int_shorter js_frac_le js_exp_le split: if_splits)

lemma skip_ws_le: "length (skip_ws s) \<le> length s"
  by (simp add: skip_ws_def length_dropWhile_le)

section \<open>Values\<close>

definition max_nesting :: int where "max_nesting = 10000"

fun js_value :: "nat \<Rightarrow> int \<Rightarrow> string \<Rightarrow> (json \<times> string) option"
and js_elems :: "nat \<Rightarrow> int \<Rightarrow> string \<Rightarrow> (json list \<times> string) option"
and js_members :: "nat \<Rightarrow> int \<Rightarrow> string \<Rightarrow> ((string \<times> json) list \<times> string) option" where
  "js_value 0 d s0 = None"
| "js_value (Suc n) d s0 =
    (case skip_ws s0 of [] \<Rightarrow> None
     | c # r \<Rightarrow>
       if c = CHR 0x7B then
         (if d \<le> 0 then None
          else if has_prefix (skip_ws r) [CHR 0x7D] then Some (JObj [], drop 1 (skip_ws r))
          else map_option (\<lambda>(ms, t). (JObj ms, t)) (js_members n (d - 1) r))
       else if c = CHR 0x5B then
         (if d \<le> 0 then None
          else if has_prefix (skip_ws r) [CHR 0x5D] then Some (JArr [], drop 1 (skip_ws r))
          else map_option (\<lambda>(vs, t). (JArr vs, t)) (js_elems n (d - 1) r))
       else if c = CHR 0x22 then map_option (\<lambda>(t, u). (JStr t, u)) (js_str r)
       else if has_prefix (c # r) ''true'' then Some (JBool True, drop 4 (c # r))
       else if has_prefix (c # r) ''false'' then Some (JBool False, drop 5 (c # r))
       else if has_prefix (c # r) ''null'' then Some (JNull, drop 4 (c # r))
       else map_option (\<lambda>(t, u). (JNum t, u)) (js_number (c # r)))"
| "js_elems 0 d s = None"
| "js_elems (Suc n) d s =
    (case js_value n d s of None \<Rightarrow> None
     | Some (v, r) \<Rightarrow>
       (case skip_ws r of [] \<Rightarrow> None
        | c # r' \<Rightarrow>
          if c = CHR '','' then map_option (\<lambda>(vs, t). (v # vs, t)) (js_elems n d r')
          else if c = CHR 0x5D then Some ([v], r')
          else None))"
| "js_members 0 d s = None"
| "js_members (Suc n) d s =
    (case skip_ws s of [] \<Rightarrow> None
     | q # r0 \<Rightarrow>
       if q \<noteq> CHR 0x22 then None
       else
       (case js_str r0 of None \<Rightarrow> None
        | Some (k, r1) \<Rightarrow>
          (case skip_ws r1 of [] \<Rightarrow> None
           | col # r2 \<Rightarrow>
             if col \<noteq> CHR '':'' then None
             else
             (case js_value n d r2 of None \<Rightarrow> None
              | Some (v, r) \<Rightarrow>
                (case skip_ws r of [] \<Rightarrow> None
                 | c # r' \<Rightarrow>
                   if c = CHR '','' then map_option (\<lambda>(ms, t). ((k, v) # ms, t)) (js_members n d r')
                   else if c = CHR 0x7D then Some ([(k, v)], r')
                   else None)))))"

definition json_parse :: "string \<Rightarrow> json option" where
  "json_parse s =
    (case js_value (2 * length s + 2) max_nesting s of
       Some (v, r) \<Rightarrow> if skip_ws r = [] then Some v else None
     | None \<Rightarrow> None)"

definition json_valid :: "string \<Rightarrow> bool" where
  "json_valid s \<longleftrightarrow> json_parse s \<noteq> None"

section \<open>Decoding into structs\<close>

text \<open>
  \<open>json.Unmarshal\<close> into a struct visits the members in order; a key matches a field name
  case-insensitively; a later member overwrites an earlier one; \<open>null\<close> leaves a string as it
  is; any other kind is an error. The modelled payload structs are decoded field by field.
\<close>

fun fold_name :: "string \<Rightarrow> string" where
  "fold_name [] = []"
| "fold_name (c # s) =
    (if c = CHR 0xC5 \<and> take 1 s = [CHR 0xBF] then CHR ''s'' # fold_name (drop 1 s)
     else if c = CHR 0xE2 \<and> take 2 s = [CHR 0x84, CHR 0xAA] then CHR ''k'' # fold_name (drop 2 s)
     else lower_char c # fold_name s)"

fun dec_field :: "('a \<Rightarrow> json \<Rightarrow> 'a option) \<Rightarrow> string \<Rightarrow> 'a \<Rightarrow> (string \<times> json) list \<Rightarrow> 'a option" where
  "dec_field f key a [] = Some a"
| "dec_field f key a ((k, v) # ms) =
    (if fold_name k = key
     then (case f a v of None \<Rightarrow> None | Some b \<Rightarrow> dec_field f key b ms)
     else dec_field f key a ms)"

fun dec_string :: "string \<Rightarrow> json \<Rightarrow> string option" where
  "dec_string old JNull = Some old"
| "dec_string old (JStr t) = Some t"
| "dec_string old _ = None"

fun dec_strings :: "json list \<Rightarrow> string list option" where
  "dec_strings [] = Some []"
| "dec_strings (v # vs) =
    (case dec_string [] v of None \<Rightarrow> None | Some t \<Rightarrow> map_option (Cons t) (dec_strings vs))"

fun dec_string_list :: "string list \<Rightarrow> json \<Rightarrow> string list option" where
  "dec_string_list old JNull = Some []"
| "dec_string_list old (JArr vs) = dec_strings vs"
| "dec_string_list old _ = None"

fun dec_string_pairs :: "(string \<times> json) list \<Rightarrow> (string \<rightharpoonup> string) \<Rightarrow> (string \<rightharpoonup> string) option" where
  "dec_string_pairs [] m = Some m"
| "dec_string_pairs ((k, v) # ms) m =
    (case dec_string [] v of None \<Rightarrow> None | Some t \<Rightarrow> dec_string_pairs ms (m(k \<mapsto> t)))"

fun dec_string_map :: "(string \<rightharpoonup> string) \<Rightarrow> json \<Rightarrow> (string \<rightharpoonup> string) option" where
  "dec_string_map old JNull = Some Map.empty"
| "dec_string_map old (JObj ms) = dec_string_pairs ms old"
| "dec_string_map old _ = None"

definition dec_raw :: "json option \<Rightarrow> json \<Rightarrow> json option option" where
  "dec_raw old v = Some (Some v)"

text \<open>The members \<open>Unmarshal\<close> sees: \<open>null\<close> at the top is a no-op; other non-objects fail.\<close>

definition json_members :: "string \<Rightarrow> (string \<times> json) list option" where
  "json_members s =
    (case json_parse s of
       Some (JObj ms) \<Rightarrow> Some ms
     | Some JNull \<Rightarrow> Some []
     | _ \<Rightarrow> None)"

section \<open>Enough fuel\<close>

lemma js_shorter:
  "js_value n d s = Some (v, r) \<Longrightarrow> length r < length s"
  "js_elems n d s = Some (vs, r) \<Longrightarrow> length r < length s"
  "js_members n d s = Some (ms, r) \<Longrightarrow> length r < length s"
proof (induction n d s and n d s and n d s arbitrary: v r and vs r and ms r
    rule: js_value_js_elems_js_members.induct)
  case (2 n d s0)
  obtain c w where w: "skip_ws s0 = c # w" using "2.prems" by (cases "skip_ws s0") auto
  have len: "length (c # w) \<le> length s0" using skip_ws_le [of s0] w by simp
  have "length r < length (c # w)"
    using "2.prems" "2.IH"(1,2) [OF w] skip_ws_le [of w]
    by (fastforce simp: w dest: js_str_shorter js_number_shorter split: if_splits prod.splits)
  with len show ?case by linarith
next
  case (4 n d s)
  then obtain v' r1 where v: "js_value n d s = Some (v', r1)" by (auto split: option.splits)
  then have "length r1 < length s" using "4.IH"(1) by blast
  then show ?case
    using "4.prems" v "4.IH"(2) [OF v refl] skip_ws_le [of r1]
    by (fastforce split: list.splits if_splits)
next
  case (6 n d s)
  then obtain r0 k r1 r2 v' r3 where *: "skip_ws s = CHR 0x22 # r0" "js_str r0 = Some (k, r1)"
      "skip_ws r1 = CHR '':'' # r2" "js_value n d r2 = Some (v', r3)"
    by (auto split: option.splits list.splits if_splits prod.splits)
  have "length r3 < length s"
    using js_str_shorter [OF *(2)] skip_ws_le [of s] skip_ws_le [of r1] "6.IH"(1) * by fastforce
  then show ?case
    using "6.prems" * "6.IH"(2) skip_ws_le [of r3]
    by (fastforce split: list.splits if_splits)
qed simp_all

lemma js_fuel:
  "2 * length s + 1 \<le> n \<Longrightarrow> 2 * length s + 1 \<le> n' \<Longrightarrow> js_value n d s = js_value n' d s"
  "2 * length s + 2 \<le> n \<Longrightarrow> 2 * length s + 2 \<le> n' \<Longrightarrow> js_elems n d s = js_elems n' d s"
  "2 * length s + 2 \<le> n \<Longrightarrow> 2 * length s + 2 \<le> n' \<Longrightarrow> js_members n d s = js_members n' d s"
proof (induction n d s and n d s and n d s arbitrary: n' and n' and n'
    rule: js_value_js_elems_js_members.induct)
  case (2 n d s0)
  from "2.prems" obtain m where m: "n' = Suc m" by (cases n') auto
  show ?case
  proof (cases "skip_ws s0")
    case (Cons c w)
    have "Suc (length w) \<le> length s0" using skip_ws_le [of s0] Cons by simp
    then have "js_elems n (d - 1) w = js_elems m (d - 1) w" if "\<not> d \<le> 0" "c = CHR 0x5B"
        "\<not> has_prefix (skip_ws w) [CHR 0x5D]"
      using that "2.prems" m by (intro "2.IH"(2) [OF Cons]) simp_all
    moreover have "js_members n (d - 1) w = js_members m (d - 1) w" if "\<not> d \<le> 0" "c = CHR 0x7B"
        "\<not> has_prefix (skip_ws w) [CHR 0x7D]"
      using that "2.prems" m \<open>Suc (length w) \<le> length s0\<close>
      by (intro "2.IH"(1) [OF Cons]) simp_all
    ultimately show ?thesis by (simp add: m Cons)
  qed (simp add: m)
next
  case (4 n d s)
  from "4.prems" obtain m where m: "n' = Suc m" by (cases n') auto
  have eq: "js_value n d s = js_value m d s"
    using "4.prems" m by (intro "4.IH"(1)) simp_all
  show ?case
  proof (cases "js_value n d s")
    case (Some p)
    then obtain v r where v: "js_value n d s = Some (v, r)" by (cases p) auto
    show ?thesis
    proof (cases "skip_ws r")
      case (Cons c r')
      have "Suc (length r') < length s" using js_shorter(1) [OF v] skip_ws_le [of r] Cons by simp
      then have "c = CHR '','' \<Longrightarrow> js_elems n d r' = js_elems m d r'"
        using "4.prems" m by (intro "4.IH"(2) [OF v refl Cons]) simp_all
      then show ?thesis using v eq Cons m by simp
    qed (use v eq m in simp)
  qed (use eq m in simp)
next
  case (6 n d s)
  from "6.prems" obtain m where m: "n' = Suc m" by (cases n') auto
  show ?case
  proof (cases "\<exists>r0 k r1 r2. skip_ws s = CHR 0x22 # r0 \<and> js_str r0 = Some (k, r1) \<and>
      skip_ws r1 = CHR '':'' # r2")
    case True
    then obtain r0 k r1 r2 where *: "skip_ws s = CHR 0x22 # r0" "js_str r0 = Some (k, r1)"
        "skip_ws r1 = CHR '':'' # r2" by blast
    have l2: "length r2 < length s"
      using js_str_shorter [OF *(2)] skip_ws_le [of s] skip_ws_le [of r1] * by simp
    then have eq: "js_value n d r2 = js_value m d r2"
      using "6.prems" m by (intro "6.IH"(1) [OF *(1) _ *(2) refl *(3)]) simp_all
    show ?thesis
    proof (cases "js_value n d r2")
      case (Some p)
      then obtain v r where v: "js_value n d r2 = Some (v, r)" by (cases p) auto
      show ?thesis
      proof (cases "skip_ws r")
        case (Cons c r')
        have "Suc (length r') < length s"
          using js_shorter(1) [OF v] skip_ws_le [of r] Cons l2 by simp
        then have "c = CHR '','' \<Longrightarrow> js_members n d r' = js_members m d r'"
          using "6.prems" m by (intro "6.IH"(2) [OF *(1) _ *(2) refl *(3) _ v refl Cons]) simp_all
        then show ?thesis using v eq Cons m * by simp
      qed (use v eq m * in simp)
    qed (use eq m * in simp)
  qed (auto simp: m split: list.splits option.splits)
qed simp_all

end
