(* ===== verification/Calls_Domain.thy ===== *)
theory Calls_Domain
  imports Pg Go_Json
begin

text \<open>
  The calls module: \<open>calls/domain/model.go\<close> and the pure part of
  \<open>calls/application/service.go\<close>: inputs, parameters, DTOs, normalisation and the transition
  table \<open>nextStatusForAction\<close>.
\<close>

section \<open>Domain\<close>

abbreviation err_call_not_found :: go_error where
  "err_call_not_found \<equiv> Sentinel ''ErrCallNotFound''"
abbreviation err_call_participant_denied :: go_error where
  "err_call_participant_denied \<equiv> Sentinel ''ErrCallParticipantDenied''"
abbreviation err_call_invalid_transition :: go_error where
  "err_call_invalid_transition \<equiv> Sentinel ''ErrCallInvalidTransition''"

record call =
  c_id :: string
  c_workspace_id :: string
  c_channel_id :: string
  c_initiator :: string
  c_target :: string
  c_client_call_id :: "string option"
  c_mode :: string
  c_status :: string
  c_metadata :: string
  c_started_at :: "time option"
  c_ended_at :: "time option"
  c_created_at :: time
  c_updated_at :: time

record call_signal =
  sg_id :: string
  sg_workspace_id :: string
  sg_call_id :: string
  sg_sender :: string
  sg_type :: string
  sg_payload :: string
  sg_created_at :: time

section \<open>Inputs and parameters\<close>

record call_create_input =
  ci_actor :: string
  ci_workspace_id :: string
  ci_channel_id :: string
  ci_target :: string
  ci_client_call_id :: string
  ci_mode :: string
  ci_metadata :: string

record call_create_params =
  cp_workspace_id :: string
  cp_channel_id :: string
  cp_initiator :: string
  cp_target :: string
  cp_client_call_id :: string
  cp_mode :: string
  cp_metadata :: string

record call_status_input =
  si_actor :: string
  si_workspace_id :: string
  si_call_id :: string
  si_action :: string
  si_reason :: string

record call_status_params =
  sp_workspace_id :: string
  sp_call_id :: string
  sp_status :: string
  sp_expected :: string
  sp_actor :: string

record call_signal_input =
  gi_actor :: string
  gi_workspace_id :: string
  gi_call_id :: string
  gi_type :: string
  gi_payload :: string

record call_signal_params =
  gp_workspace_id :: string
  gp_call_id :: string
  gp_sender :: string
  gp_type :: string
  gp_payload :: string

text \<open>The metadata map of a call message, and the message parameters.\<close>

record call_message_meta =
  mm_call_id :: string
  mm_call_mode :: string
  mm_call_status :: string
  mm_initiator :: string
  mm_target :: string
  mm_duration_seconds :: int

record call_message_params =
  mp_workspace_id :: string
  mp_channel_id :: string
  mp_call_id :: string
  mp_sender :: string
  mp_body :: string
  mp_meta :: call_message_meta

record call_notification =
  cn_id :: string
  cn_workspace_id :: string
  cn_channel_id :: string
  cn_initiator :: string
  cn_target :: string
  cn_mode :: string
  cn_status :: string

record call_dto =
  cd_id :: string
  cd_workspace_id :: string
  cd_channel_id :: string
  cd_initiator :: string
  cd_target :: string
  cd_client_call_id :: "string option"
  cd_mode :: string
  cd_status :: string
  cd_metadata :: string
  cd_started_at :: "string option"
  cd_ended_at :: "string option"
  cd_created_at :: string
  cd_updated_at :: string

record call_signal_dto =
  sd_id :: string
  sd_workspace_id :: string
  sd_call_id :: string
  sd_sender :: string
  sd_type :: string
  sd_payload :: string
  sd_created_at :: string

text \<open>A value of the event payload map: a string or raw JSON.\<close>

datatype payload_value = PStr string | PRaw string

record call_event =
  ev_type :: string
  ev_zone_id :: string
  ev_workspace_id :: string
  ev_channel_id :: string
  ev_actor :: string
  ev_target :: string
  ev_payload :: "string \<rightharpoonup> payload_value"

section \<open>Normalisation\<close>

definition normalize_mode :: "string \<Rightarrow> string" where
  "normalize_mode value =
    (let v = to_lower (trim_space value) in if v = ''audio'' \<or> v = ''video'' then v else [])"

definition normalize_signal_type :: "string \<Rightarrow> string" where
  "normalize_signal_type value =
    (let v = to_lower (trim_space value) in
     if v = ''offer'' \<or> v = ''answer'' \<or> v = ''ice_candidate'' \<or> v = ''ready'' then v else [])"

definition signal_event_type :: "string \<Rightarrow> string" where
  "signal_event_type t =
    (if t = ''offer'' then ''CallOffer''
     else if t = ''answer'' then ''CallAnswer''
     else if t = ''ice_candidate'' then ''CallIceCandidate''
     else if t = ''ready'' then ''CallReady''
     else [])"

definition normalize_json :: "string \<Rightarrow> string \<Rightarrow> string result" where
  "normalize_json value message =
    (if length value = 0 \<or> trim_space value = [] \<or> trim_space value = ''null'' then Inr ''{}''
     else if \<not> json_valid value then Inl (bad_request ''VALIDATION_ERROR'' message)
     else Inr value)"

definition is_participant :: "call \<Rightarrow> string \<Rightarrow> bool" where
  "is_participant call user \<longleftrightarrow> user \<noteq> [] \<and> (user = c_initiator call \<or> user = c_target call)"

definition is_terminal_status :: "string \<Rightarrow> bool" where
  "is_terminal_status status \<longleftrightarrow>
     status = ''rejected'' \<or> status = ''cancelled'' \<or> status = ''ended'' \<or> status = ''missed''"

definition call_mode_label :: "string \<Rightarrow> string" where
  "call_mode_label mode = (if mode = ''video'' then ''video'' else ''thoai'')"

definition map_call_error :: "go_error \<Rightarrow> go_error" where
  "map_call_error err =
    (if errors_is err ''ErrCallNotFound'' then not_found ''CALL_NOT_FOUND'' ''Khong tim thay cuoc goi.''
     else if errors_is err ''ErrCallParticipantDenied'' then forbidden ''Ban khong thuoc cuoc goi nay.''
     else if errors_is err ''ErrCallInvalidTransition''
       then conflict ''CALL_INVALID_TRANSITION'' ''Trang thai cuoc goi khong hop le.''
     else err)"

text \<open>\<open>nextStatusForAction\<close>: the next status and the event type, or the refusal.\<close>

definition invalid_transition :: "string \<Rightarrow> go_error" where
  "invalid_transition message = conflict ''CALL_INVALID_TRANSITION'' message"

definition next_status_for_action :: "call \<Rightarrow> string \<Rightarrow> string \<Rightarrow> (string \<times> string) result" where
  "next_status_for_action call actor action =
    (if \<not> is_participant call actor then Inl (forbidden ''Ban khong thuoc cuoc goi nay.'')
     else if action = ''accept'' then
       (if actor \<noteq> c_target call \<or> c_status call \<noteq> ''ringing''
        then Inl (invalid_transition ''Khong the chap nhan cuoc goi o trang thai hien tai.'')
        else Inr (''accepted'', ''CallAccepted''))
     else if action = ''reject'' then
       (if actor \<noteq> c_target call \<or> c_status call \<noteq> ''ringing''
        then Inl (invalid_transition ''Khong the tu choi cuoc goi o trang thai hien tai.'')
        else Inr (''rejected'', ''CallRejected''))
     else if action = ''cancel'' then
       (if actor \<noteq> c_initiator call \<or> c_status call \<noteq> ''ringing''
        then Inl (invalid_transition ''Khong the huy cuoc goi o trang thai hien tai.'')
        else Inr (''cancelled'', ''CallCancelled''))
     else if action = ''hangup'' then
       (if c_status call \<noteq> ''accepted''
        then Inl (invalid_transition ''Chi co the ket thuc cuoc goi da duoc chap nhan.'')
        else Inr (''ended'', ''CallEnded''))
     else if action = ''miss'' then
       (if c_status call \<noteq> ''ringing''
        then Inl (invalid_transition ''Chi co the danh dau nho khi cuoc goi dang do chuong.'')
        else Inr (''missed'', ''CallMissed''))
     else Inl (bad_request ''VALIDATION_ERROR'' ''Hanh dong cuoc goi khong hop le.''))"

section \<open>Views\<close>

definition call_notification_of :: "call \<Rightarrow> call_notification" where
  "call_notification_of call =
    \<lparr>cn_id = c_id call, cn_workspace_id = c_workspace_id call, cn_channel_id = c_channel_id call,
     cn_initiator = c_initiator call, cn_target = c_target call, cn_mode = c_mode call,
     cn_status = c_status call\<rparr>"

definition call_payload :: "call \<Rightarrow> (string \<rightharpoonup> payload_value)" where
  "call_payload call =
    [''call_id'' \<mapsto> PStr (c_id call), ''workspace_id'' \<mapsto> PStr (c_workspace_id call),
     ''channel_id'' \<mapsto> PStr (c_channel_id call), ''initiator_user_id'' \<mapsto> PStr (c_initiator call),
     ''target_user_id'' \<mapsto> PStr (c_target call), ''mode'' \<mapsto> PStr (c_mode call),
     ''status'' \<mapsto> PStr (c_status call)]"

definition to_call_dto :: "call \<Rightarrow> call_dto" where
  "to_call_dto call =
    \<lparr>cd_id = c_id call, cd_workspace_id = c_workspace_id call, cd_channel_id = c_channel_id call,
     cd_initiator = c_initiator call, cd_target = c_target call,
     cd_client_call_id = c_client_call_id call, cd_mode = c_mode call, cd_status = c_status call,
     cd_metadata = (if length (c_metadata call) = 0 \<or> \<not> json_valid (c_metadata call)
                    then ''{}'' else c_metadata call),
     cd_started_at = format_optional_time (c_started_at call),
     cd_ended_at = format_optional_time (c_ended_at call),
     cd_created_at = format_time (c_created_at call),
     cd_updated_at = format_time (c_updated_at call)\<rparr>"

definition to_signal_dto :: "call_signal \<Rightarrow> call_signal_dto" where
  "to_signal_dto s =
    \<lparr>sd_id = sg_id s, sd_workspace_id = sg_workspace_id s, sd_call_id = sg_call_id s,
     sd_sender = sg_sender s, sd_type = sg_type s,
     sd_payload = (if length (sg_payload s) = 0 \<or> \<not> json_valid (sg_payload s)
                   then ''{}'' else sg_payload s),
     sd_created_at = format_time (sg_created_at s)\<rparr>"

text \<open>The body, status and duration \<open>createCallMessage\<close> derives from a finished call.\<close>

definition call_duration_seconds :: "call \<Rightarrow> int" where
  "call_duration_seconds call =
    (case (c_started_at call, c_ended_at call) of
       (Some s, Some e) \<Rightarrow> if s < e then whole_seconds (e - s) else 0
     | _ \<Rightarrow> 0)"

definition call_message_params_of :: "call \<Rightarrow> call_message_params" where
  "call_message_params_of call =
    (let status = (if c_status call = ''ended'' then ''completed'' else ''missed'') in
     \<lparr>mp_workspace_id = c_workspace_id call, mp_channel_id = c_channel_id call,
      mp_call_id = c_id call, mp_sender = c_initiator call,
      mp_body = (if status = ''completed''
                 then ''Cuoc goi '' @ call_mode_label (c_mode call) @ '' da ket thuc''
                 else ''Cuoc goi nho''),
      mp_meta = \<lparr>mm_call_id = c_id call, mm_call_mode = c_mode call, mm_call_status = status,
        mm_initiator = c_initiator call, mm_target = c_target call,
        mm_duration_seconds = call_duration_seconds call\<rparr>\<rparr>)"

section \<open>The transition table\<close>

text \<open>The status graph of a call.\<close>

definition call_edge :: "string \<Rightarrow> string \<Rightarrow> bool" where
  "call_edge a b \<longleftrightarrow>
     a = ''ringing'' \<and> b \<in> {''accepted'', ''rejected'', ''cancelled'', ''missed''} \<or>
     a = ''accepted'' \<and> b = ''ended''"

lemma next_status_edge:
  "next_status_for_action call actor action = Inr (st, ev) \<Longrightarrow>
     call_edge (c_status call) st \<and> is_participant call actor"
  by (auto simp: next_status_for_action_def call_edge_def split: if_splits)

lemma terminal_no_edge: "is_terminal_status a \<Longrightarrow> \<not> call_edge a b"
  by (auto simp: is_terminal_status_def call_edge_def)

text \<open>
  The transition table: an action on a call is granted exactly to a participant in the
  right role and status (accept and reject: the callee while ringing; cancel: the caller while
  ringing; hang up: either one once accepted; miss: either one while ringing), and it then moves
  the call along an edge of the status graph.
\<close>

lemma next_status_for_action_iff:
  "next_status_for_action call actor action = Inr (st, ev) \<longleftrightarrow>
     is_participant call actor \<and>
     (action, c_status call, st, ev) \<in>
       {(''accept'', ''ringing'', ''accepted'', ''CallAccepted''),
        (''reject'', ''ringing'', ''rejected'', ''CallRejected''),
        (''cancel'', ''ringing'', ''cancelled'', ''CallCancelled''),
        (''hangup'', ''accepted'', ''ended'', ''CallEnded''),
        (''miss'', ''ringing'', ''missed'', ''CallMissed'')} \<and>
     (action \<in> {''accept'', ''reject''} \<longrightarrow> actor = c_target call) \<and>
     (action = ''cancel'' \<longrightarrow> actor = c_initiator call)"
proof (cases "is_participant call actor")
  case True
  consider "action = ''accept''" | "action = ''reject''" | "action = ''cancel''"
    | "action = ''hangup''" | "action = ''miss''"
    | "action \<notin> {''accept'', ''reject'', ''cancel'', ''hangup'', ''miss''}" by blast
  then show ?thesis
    by cases (use True in \<open>auto simp: next_status_for_action_def\<close>)
qed (simp add: next_status_for_action_def)

lemma next_status_for_action_iff_witness:
  "\<exists>call. next_status_for_action call ''bob'' ''accept'' = Inr (''accepted'', ''CallAccepted'')"
proof -
  let ?c = "\<lparr>c_id = ''1'', c_workspace_id = ''w'', c_channel_id = ''ch'', c_initiator = ''ann'',
    c_target = ''bob'', c_client_call_id = None, c_mode = ''audio'', c_status = ''ringing'',
    c_metadata = ''{}'', c_started_at = None, c_ended_at = None, c_created_at = 0,
    c_updated_at = 0\<rparr>"
  have "next_status_for_action ?c ''bob'' ''accept'' = Inr (''accepted'', ''CallAccepted'')"
    by (subst next_status_for_action_iff) (simp add: is_participant_def)
  then show ?thesis by blast
qed

end
