(* ===== verification/Calls_Repo.thy ===== *)
theory Calls_Repo
  imports Calls_Domain
begin

text \<open>
  \<open>calls/infrastructure/postgres/repository.go\<close> on the tables it reads and writes. The
  constraints and the update trigger of \<open>call_sessions\<close> and \<open>call_signals\<close> are those of
  migration 000020. The interface \<open>calls_repo\<close> is the service's \<open>Repository\<close>; \<open>calls_pg\<close> is
  its PostgreSQL implementation.
\<close>

section \<open>Tables\<close>

record channel_row =
  ch_id :: string
  ch_workspace_id :: string
  ch_status :: string
  ch_deleted :: bool

record channel_member_row =
  cm_channel_id :: string
  cm_user_id :: string
  cm_status :: string

record workspace_row =
  ws_id :: string
  ws_zone_id :: string
  ws_status :: string
  ws_deleted :: bool

record call_message_row =
  msg_id :: string
  msg_workspace_id :: string
  msg_channel_id :: string
  msg_sender_id :: string
  msg_kind :: string
  msg_body :: string
  msg_client_message_id :: string
  msg_meta :: call_message_meta

record call_outbox_row =
  ob_aggregate_type :: string
  ob_aggregate_id :: string
  ob_event_type :: string
  ob_workspace_id :: string
  ob_channel_id :: string
  ob_message_id :: string
  ob_sender_id :: string

record calls_db =
  t_calls :: "call list"
  t_signals :: "call_signal list"
  t_channels :: "channel_row list"
  t_members :: "channel_member_row list"
  t_workspaces :: "workspace_row list"
  t_messages :: "call_message_row list"
  t_outbox :: "call_outbox_row list"

section \<open>Interface\<close>

record 's calls_repo =
  cr_create :: "call_create_params \<Rightarrow> 's \<Rightarrow> 's \<times> call result"
  cr_get :: "string \<Rightarrow> string \<Rightarrow> 's \<Rightarrow> 's \<times> call result"
  cr_update_status :: "call_status_params \<Rightarrow> 's \<Rightarrow> 's \<times> call result"
  cr_expire_ringing_call :: "string \<Rightarrow> string \<Rightarrow> time \<Rightarrow> 's \<Rightarrow> 's \<times> call result"
  cr_expire_ringing :: "time \<Rightarrow> int \<Rightarrow> 's \<Rightarrow> 's \<times> (call list) result"
  cr_create_signal :: "call_signal_params \<Rightarrow> 's \<Rightarrow> 's \<times> call_signal result"
  cr_create_call_message :: "call_message_params \<Rightarrow> 's \<Rightarrow> 's \<times> unit result"
  cr_workspace_zone_id :: "string \<Rightarrow> 's \<Rightarrow> 's \<times> string result"

section \<open>Statements\<close>

text \<open>\<open>scanCall\<close> on a query that returns at most one row.\<close>

definition scan_call :: "call option \<Rightarrow> call result" where
  "scan_call row = (case row of None \<Rightarrow> Inl err_call_not_found | Some c \<Rightarrow> Inr c)"

lemma scan_call_simps [simp]:
  "scan_call None = Inl err_call_not_found"
  "scan_call (Some c) = Inr c"
  "scan_call row = Inr c \<longleftrightarrow> row = Some c"
  by (auto simp: scan_call_def split: option.splits)

definition call_statuses :: "string list" where
  "call_statuses = [''ringing'', ''accepted'', ''rejected'', ''cancelled'', ''ended'', ''missed'']"

definition signal_types :: "string list" where
  "signal_types = [''offer'', ''answer'', ''ice_candidate'', ''ringing'', ''accepted'', ''rejected'',
     ''cancelled'', ''ended'', ''missed'']"

definition pg_workspace_zone_id :: "pg_env \<Rightarrow> string \<Rightarrow> calls_db \<Rightarrow> calls_db \<times> string result" where
  "pg_workspace_zone_id env w db =
    (db, result_bind (uuid_param env w) (\<lambda>w'.
       case List.find (\<lambda>r. ws_id r = w' \<and> ws_status r = ''active'' \<and> \<not> ws_deleted r) (t_workspaces db) of
         None \<Rightarrow> Inl err_no_rows
       | Some r \<Rightarrow> Inr (ws_zone_id r)))"

definition channel_member :: "calls_db \<Rightarrow> string \<Rightarrow> string \<Rightarrow> bool" where
  "channel_member db ch u \<longleftrightarrow>
     list_ex (\<lambda>m. cm_channel_id m = ch \<and> cm_user_id m = u \<and> (cm_status m = ''active'' \<or> cm_status m = ''muted''))
       (t_members db)"

text \<open>The rows of the partial unique index on the client call id.\<close>

definition client_key :: "call \<Rightarrow> (string \<times> string \<times> string) option" where
  "client_key c =
    (case c_client_call_id c of
       Some k \<Rightarrow> if 0 < length (sql_trim k) then Some (c_workspace_id c, c_initiator c, k) else None
     | None \<Rightarrow> None)"

definition create_call_args ::
    "pg_env \<Rightarrow> call_create_params \<Rightarrow> (string \<times> string \<times> string \<times> string \<times> string) result" where
  "create_call_args env p =
    result_bind (uuid_param env (cp_workspace_id p)) (\<lambda>w.
    result_bind (uuid_param env (cp_channel_id p)) (\<lambda>ch.
    result_bind (uuid_param env (cp_initiator p)) (\<lambda>i.
    result_bind (uuid_param env (cp_target p)) (\<lambda>t.
    result_bind (jsonb_param env (cp_metadata p)) (\<lambda>meta. Inr (w, ch, i, t, meta))))))"

definition new_call_row ::
    "pg_env \<Rightarrow> call_create_params \<Rightarrow> string \<Rightarrow> string \<Rightarrow> string \<Rightarrow> string \<Rightarrow> string \<Rightarrow> call" where
  "new_call_row env p w ch i t meta =
    \<lparr>c_id = pe_fresh env, c_workspace_id = w, c_channel_id = ch, c_initiator = i,
     c_target = t, c_client_call_id = nullif_empty (cp_client_call_id p),
     c_mode = cp_mode p, c_status = ''ringing'', c_metadata = meta,
     c_started_at = None, c_ended_at = None,
     c_created_at = pe_now env, c_updated_at = pe_now env\<rparr>"

definition pg_create_call :: "pg_env \<Rightarrow> call_create_params \<Rightarrow> calls_db \<Rightarrow> calls_db \<times> call result" where
  "pg_create_call env p db =
    (case create_call_args env p of
       Inl e \<Rightarrow> (db, Inl e)
     | Inr (w, ch, i, t, meta) \<Rightarrow>
       if list_ex (\<lambda>c. ch_workspace_id c = w \<and> ch_id c = ch \<and> \<not> ch_deleted c \<and> ch_status c = ''active'')
            (t_channels db) \<and> channel_member db ch i \<and> channel_member db ch t
       then
         (let row = new_call_row env p w ch i t meta in
          if cp_mode p \<noteq> ''audio'' \<and> cp_mode p \<noteq> ''video'' \<or> i = t then (db, Inl check_violation)
          else
            (case (if client_key row = None then None
                   else List.find (\<lambda>c. client_key c = client_key row) (t_calls db)) of
               Some c \<Rightarrow>
                 (let c' = c\<lparr>c_updated_at := pe_now env\<rparr>
                  in (db\<lparr>t_calls := update_where (\<lambda>r. c_id r = c_id c) (\<lambda>_. c') (t_calls db)\<rparr>,
                      scan_call (Some c')))
             | None \<Rightarrow> (db\<lparr>t_calls := t_calls db @ [row]\<rparr>, scan_call (Some row))))
       else
         (case scan_call None of
            Inl e \<Rightarrow> (db, Inl (if errors_is e ''ErrCallNotFound'' then err_call_participant_denied else e))
          | Inr c \<Rightarrow> (db, Inr c)))"

definition pg_get_call :: "pg_env \<Rightarrow> string \<Rightarrow> string \<Rightarrow> calls_db \<Rightarrow> calls_db \<times> call result" where
  "pg_get_call env w i db =
    (db, result_bind (uuid_param env w) (\<lambda>w'. result_bind (uuid_param env i) (\<lambda>i'.
       scan_call (List.find (\<lambda>c. c_workspace_id c = w' \<and> c_id c = i') (t_calls db)))))"

text \<open>The row an UPDATE of the status leaves; the trigger sets \<open>updated_at\<close>.\<close>

definition set_call_status :: "time \<Rightarrow> string \<Rightarrow> call \<Rightarrow> call" where
  "set_call_status now st c =
    c\<lparr>c_status := st,
      c_started_at := (if st = ''accepted''
        then (case c_started_at c of None \<Rightarrow> Some now | Some x \<Rightarrow> Some x) else c_started_at c),
      c_ended_at := (if st \<in> {''rejected'', ''cancelled'', ''ended'', ''missed''}
        then (case c_ended_at c of None \<Rightarrow> Some now | Some x \<Rightarrow> Some x) else c_ended_at c),
      c_updated_at := now\<rparr>"

definition pg_update_status :: "pg_env \<Rightarrow> call_status_params \<Rightarrow> calls_db \<Rightarrow> calls_db \<times> call result" where
  "pg_update_status env p db =
    (case result_bind (uuid_param env (sp_workspace_id p)) (\<lambda>w.
          result_bind (uuid_param env (sp_call_id p)) (\<lambda>i.
          result_bind (uuid_param env (sp_actor p)) (\<lambda>a. Inr (w, i, a)))) of
       Inl e \<Rightarrow> (db, Inl e)
     | Inr (w, i, a) \<Rightarrow>
       (let hit = (\<lambda>c. c_workspace_id c = w \<and> c_id c = i \<and>
                    (c_initiator c = a \<or> c_target c = a) \<and> c_status c = sp_expected p)
        in case List.find hit (t_calls db) of
             None \<Rightarrow>
               (db, map_error (\<lambda>e. if errors_is e ''pgx.ErrNoRows'' then err_call_invalid_transition else e)
                      (scan_call None))
           | Some c \<Rightarrow>
               if sp_status p \<notin> set call_statuses then (db, Inl check_violation)
               else (db\<lparr>t_calls := update_where hit (set_call_status (pe_now env) (sp_status p)) (t_calls db)\<rparr>,
                     scan_call (Some (set_call_status (pe_now env) (sp_status p) c)))))"

definition pg_expire_ringing_call ::
    "pg_env \<Rightarrow> string \<Rightarrow> string \<Rightarrow> time \<Rightarrow> calls_db \<Rightarrow> calls_db \<times> call result" where
  "pg_expire_ringing_call env w i before db =
    (case result_bind (uuid_param env w) (\<lambda>w'. result_bind (uuid_param env i) (\<lambda>i'. Inr (w', i'))) of
       Inl e \<Rightarrow> (db, Inl e)
     | Inr (w', i') \<Rightarrow>
       (let hit = (\<lambda>c. c_workspace_id c = w' \<and> c_id c = i' \<and> c_status c = ''ringing'' \<and>
                    c_created_at c \<le> pg_time before)
        in case List.find hit (t_calls db) of
             None \<Rightarrow>
               (db, map_error (\<lambda>e. if errors_is e ''pgx.ErrNoRows'' then err_call_invalid_transition else e)
                      (scan_call None))
           | Some c \<Rightarrow>
               (db\<lparr>t_calls := update_where hit (set_call_status (pe_now env) ''missed'') (t_calls db)\<rparr>,
                scan_call (Some (set_call_status (pe_now env) ''missed'' c)))))"

definition pg_expire_ringing ::
    "pg_env \<Rightarrow> time \<Rightarrow> int \<Rightarrow> calls_db \<Rightarrow> calls_db \<times> (call list) result" where
  "pg_expire_ringing env before limit db =
    (let expired = map c_id (order_limit c_created_at limit
           (filter (\<lambda>c. c_status c = ''ringing'' \<and> c_created_at c \<le> pg_time before) (t_calls db)));
         hit = (\<lambda>c. c_id c \<in> set expired)
     in (db\<lparr>t_calls := update_where hit (set_call_status (pe_now env) ''missed'') (t_calls db)\<rparr>,
         Inr (map (set_call_status (pe_now env) ''missed'') (filter hit (t_calls db)))))"

definition pg_create_signal ::
    "pg_env \<Rightarrow> call_signal_params \<Rightarrow> calls_db \<Rightarrow> calls_db \<times> call_signal result" where
  "pg_create_signal env p db =
    (case result_bind (uuid_param env (gp_workspace_id p)) (\<lambda>w.
          result_bind (uuid_param env (gp_call_id p)) (\<lambda>i.
          result_bind (uuid_param env (gp_sender p)) (\<lambda>a.
          result_bind (jsonb_param env (gp_payload p)) (\<lambda>pl. Inr (w, i, a, pl))))) of
       Inl e \<Rightarrow> (db, Inl e)
     | Inr (w, i, a, pl) \<Rightarrow>
       (case List.find (\<lambda>c. c_workspace_id c = w \<and> c_id c = i \<and> (c_initiator c = a \<or> c_target c = a))
               (t_calls db) of
          None \<Rightarrow> (db, Inl err_call_not_found)
        | Some c \<Rightarrow>
            if gp_type p \<notin> set signal_types then (db, Inl check_violation)
            else
              (let row = \<lparr>sg_id = pe_fresh env, sg_workspace_id = c_workspace_id c,
                     sg_call_id = c_id c, sg_sender = a, sg_type = gp_type p, sg_payload = pl,
                     sg_created_at = pe_now env\<rparr>
               in (db\<lparr>t_signals := t_signals db @ [row]\<rparr>, Inr row))))"

text \<open>
  The call message and its outbox event are inserted in one transaction, and only if no message
  of the channel carries this call's client message id.
\<close>

definition call_client_message_id :: "string \<Rightarrow> string" where
  "call_client_message_id call_id = ''call-'' @ call_id"

definition pg_create_call_message ::
    "pg_env \<Rightarrow> call_message_params \<Rightarrow> calls_db \<Rightarrow> calls_db \<times> unit result" where
  "pg_create_call_message env p db =
    (case result_bind (uuid_param env (mp_workspace_id p)) (\<lambda>w.
          result_bind (uuid_param env (mp_channel_id p)) (\<lambda>ch.
          result_bind (uuid_param env (mp_sender p)) (\<lambda>s. Inr (w, ch, s)))) of
       Inl e \<Rightarrow> (db, Inl e)
     | Inr (w, ch, s) \<Rightarrow>
       (let key = call_client_message_id (mp_call_id p) in
        if list_ex (\<lambda>m. msg_workspace_id m = w \<and> msg_channel_id m = ch \<and> msg_client_message_id m = key)
             (t_messages db)
        then (db, Inr ())
        else
          (let m = \<lparr>msg_id = pe_fresh env, msg_workspace_id = w, msg_channel_id = ch,
                 msg_sender_id = s, msg_kind = ''event'', msg_body = mp_body p,
                 msg_client_message_id = key, msg_meta = mp_meta p\<rparr>;
               ob = \<lparr>ob_aggregate_type = ''message'', ob_aggregate_id = pe_fresh env,
                 ob_event_type = ''MessageCreated'', ob_workspace_id = mp_workspace_id p,
                 ob_channel_id = mp_channel_id p, ob_message_id = pe_fresh env,
                 ob_sender_id = mp_sender p\<rparr>
           in (db\<lparr>t_messages := t_messages db @ [m], t_outbox := t_outbox db @ [ob]\<rparr>, Inr ()))))"

definition calls_pg :: "calls_db pg calls_repo" where
  "calls_pg =
    \<lparr>cr_create = (\<lambda>p. pg_run (\<lambda>env. pg_create_call env p)),
     cr_get = (\<lambda>w i. pg_run (\<lambda>env. pg_get_call env w i)),
     cr_update_status = (\<lambda>p. pg_run (\<lambda>env. pg_update_status env p)),
     cr_expire_ringing_call = (\<lambda>w i b. pg_run (\<lambda>env. pg_expire_ringing_call env w i b)),
     cr_expire_ringing = (\<lambda>b n. pg_run (\<lambda>env. pg_expire_ringing env b n)),
     cr_create_signal = (\<lambda>p. pg_run (\<lambda>env. pg_create_signal env p)),
     cr_create_call_message = (\<lambda>p. pg_run (\<lambda>env. pg_create_call_message env p)),
     cr_workspace_zone_id = (\<lambda>w. pg_run (\<lambda>env. pg_workspace_zone_id env w))\<rparr>"

lemma calls_pg_sel [simp]:
  "cr_create calls_pg p = pg_run (\<lambda>env. pg_create_call env p)"
  "cr_get calls_pg w i = pg_run (\<lambda>env. pg_get_call env w i)"
  "cr_update_status calls_pg sp = pg_run (\<lambda>env. pg_update_status env sp)"
  "cr_expire_ringing_call calls_pg w i b = pg_run (\<lambda>env. pg_expire_ringing_call env w i b)"
  "cr_expire_ringing calls_pg b n = pg_run (\<lambda>env. pg_expire_ringing env b n)"
  "cr_create_signal calls_pg gp = pg_run (\<lambda>env. pg_create_signal env gp)"
  "cr_create_call_message calls_pg mp = pg_run (\<lambda>env. pg_create_call_message env mp)"
  "cr_workspace_zone_id calls_pg w = pg_run (\<lambda>env. pg_workspace_zone_id env w)"
  by (simp_all add: calls_pg_def)

end
