(* ===== verification/Calls_Service.thy ===== *)
theory Calls_Service
  imports Calls_Repo
begin

text \<open>
  The stateful part of \<open>calls/application/service.go\<close>, over the \<open>Repository\<close> interface. The
  world holds the repository's state and, in order, what the service hands to its other ports:
  realtime events, push notifications and ring timers. A nil port is \<open>None\<close> or \<open>False\<close>.
\<close>

record 's calls_service =
  cv_repo :: "'s calls_repo"
  cv_checker :: "(string \<Rightarrow> string \<Rightarrow> string \<Rightarrow> bool result) option"
  cv_realtime :: "(call_event \<Rightarrow> go_error option) option"
  cv_notifications :: bool
  cv_ring_timeout :: duration

datatype notice = IncomingCall call_notification | CallTerminal call_notification

record 's calls_world =
  cw_store :: 's
  cw_events :: "call_event list"
  cw_notices :: "notice list"
  cw_timers :: "(call \<times> duration) list"

definition new_calls_service ::
    "'s calls_repo \<Rightarrow> (string \<Rightarrow> string \<Rightarrow> string \<Rightarrow> bool result) option \<Rightarrow>
     (call_event \<Rightarrow> go_error option) option \<Rightarrow> bool \<Rightarrow> 's calls_service" where
  "new_calls_service repo checker realtime notifications =
    \<lparr>cv_repo = repo, cv_checker = checker, cv_realtime = realtime,
     cv_notifications = notifications, cv_ring_timeout = 30 * ns_second\<rparr>"

definition set_ring_timeout :: "duration \<Rightarrow> 's calls_service \<Rightarrow> 's calls_service" where
  "set_ring_timeout timeout s = (if 0 < timeout then s\<lparr>cv_ring_timeout := timeout\<rparr> else s)"

text \<open>Running a repository operation inside the world.\<close>

definition on_store :: "('s \<Rightarrow> 's \<times> 'r) \<Rightarrow> 's calls_world \<Rightarrow> 's calls_world \<times> 'r" where
  "on_store f w = (case f (cw_store w) of (st, r) \<Rightarrow> (w\<lparr>cw_store := st\<rparr>, r))"

definition ensure_workspace_member :: "'s calls_service \<Rightarrow> string \<Rightarrow> string \<Rightarrow> go_error option" where
  "ensure_workspace_member s user workspace =
    (if workspace = [] then Some (bad_request ''WORKSPACE_REQUIRED'' ''workspace_id la bat buoc.'')
     else case cv_checker s of
       None \<Rightarrow> None
     | Some check \<Rightarrow>
         (case check user workspace ''workspace.view_members'' of
            Inl e \<Rightarrow> Some e
          | Inr allowed \<Rightarrow> if \<not> allowed then Some (forbidden ''Ban khong thuoc workspace nay.'') else None))"

definition publish_call ::
    "'s calls_service \<Rightarrow> string \<Rightarrow> call \<Rightarrow> string \<Rightarrow> string \<Rightarrow> (string \<times> payload_value) \<Rightarrow>
     's calls_world \<Rightarrow> 's calls_world \<times> go_error option" where
  "publish_call s event_type call actor target extra w =
    (case cv_realtime s of
       None \<Rightarrow> (w, None)
     | Some pub \<Rightarrow>
         (case on_store (cr_workspace_zone_id (cv_repo s) (c_workspace_id call)) w of
            (w1, Inl e) \<Rightarrow> (w1, Some e)
          | (w1, Inr zone) \<Rightarrow>
              (let ev = \<lparr>ev_type = event_type, ev_zone_id = zone,
                     ev_workspace_id = c_workspace_id call, ev_channel_id = c_channel_id call,
                     ev_actor = trim_space actor, ev_target = target,
                     ev_payload = ((call_payload call)(''actor_user_id'' \<mapsto> PStr (trim_space actor)))
                       (fst extra \<mapsto> snd extra)\<rparr>
               in (w1\<lparr>cw_events := cw_events w1 @ [ev]\<rparr>, pub ev))))"

definition notify_call :: "'s calls_service \<Rightarrow> notice \<Rightarrow> 's calls_world \<Rightarrow> 's calls_world" where
  "notify_call s n w = (if cv_notifications s then w\<lparr>cw_notices := cw_notices w @ [n]\<rparr> else w)"

definition create_call_message :: "'s calls_service \<Rightarrow> call \<Rightarrow> 's calls_world \<Rightarrow> 's calls_world" where
  "create_call_message s call w =
    fst (on_store (cr_create_call_message (cv_repo s) (call_message_params_of call)) w)"

definition schedule_ring_timeout :: "'s calls_service \<Rightarrow> call \<Rightarrow> 's calls_world \<Rightarrow> 's calls_world" where
  "schedule_ring_timeout s call w =
    (if cv_ring_timeout s \<le> 0 then w
     else w\<lparr>cw_timers := cw_timers w @ [(call, cv_ring_timeout s)]\<rparr>)"

definition call_create ::
    "'s calls_service \<Rightarrow> call_create_input \<Rightarrow> 's calls_world \<Rightarrow> 's calls_world \<times> call_dto result" where
  "call_create s input w =
    (let user = trim_space (ci_actor input); workspace = trim_space (ci_workspace_id input) in
     case ensure_workspace_member s user workspace of
       Some e \<Rightarrow> (w, Inl e)
     | None \<Rightarrow>
       (let mode = normalize_mode (ci_mode input) in
        if mode = [] then (w, Inl (bad_request ''VALIDATION_ERROR'' ''Kieu cuoc goi phai la audio hoac video.''))
        else case normalize_json (ci_metadata input) ''Metadata cuoc goi khong phai JSON hop le.'' of
          Inl e \<Rightarrow> (w, Inl e)
        | Inr metadata \<Rightarrow>
          (case on_store (cr_create (cv_repo s)
              \<lparr>cp_workspace_id = workspace, cp_channel_id = trim_space (ci_channel_id input),
               cp_initiator = user, cp_target = trim_space (ci_target input),
               cp_client_call_id = trim_space (ci_client_call_id input), cp_mode = mode,
               cp_metadata = metadata\<rparr>) w of
             (w1, Inl e) \<Rightarrow> (w1, Inl (map_call_error e))
           | (w1, Inr call) \<Rightarrow>
               (let w2 = fst (publish_call s ''CallInvited'' call user (c_target call)
                          (''reason'', PStr ''created'') w1);
                    w3 = notify_call s (IncomingCall (call_notification_of call)) w2;
                    w4 = schedule_ring_timeout s call w3
                in (w4, Inr (to_call_dto call))))))"

definition call_get ::
    "'s calls_service \<Rightarrow> string \<Rightarrow> string \<Rightarrow> string \<Rightarrow> 's calls_world \<Rightarrow> 's calls_world \<times> call_dto result" where
  "call_get s actor workspace call_id w =
    (case on_store (cr_get (cv_repo s) (trim_space workspace) (trim_space call_id)) w of
       (w1, Inl e) \<Rightarrow> (w1, Inl (map_call_error e))
     | (w1, Inr call) \<Rightarrow>
         if \<not> is_participant call (trim_space actor)
         then (w1, Inl (forbidden ''Ban khong thuoc cuoc goi nay.''))
         else (w1, Inr (to_call_dto call)))"

definition other_participant :: "call \<Rightarrow> string \<Rightarrow> string" where
  "other_participant call actor = (if actor = c_target call then c_initiator call else c_target call)"

definition call_change_status ::
    "'s calls_service \<Rightarrow> call_status_input \<Rightarrow> 's calls_world \<Rightarrow> 's calls_world \<times> call_dto result" where
  "call_change_status s input w =
    (case on_store (cr_get (cv_repo s) (trim_space (si_workspace_id input)) (trim_space (si_call_id input))) w of
       (w1, Inl e) \<Rightarrow> (w1, Inl (map_call_error e))
     | (w1, Inr call) \<Rightarrow>
       (let actor = trim_space (si_actor input) in
        case next_status_for_action call actor (trim_space (si_action input)) of
          Inl e \<Rightarrow> (w1, Inl e)
        | Inr (next_status, event_type) \<Rightarrow>
          (case on_store (cr_update_status (cv_repo s)
              \<lparr>sp_workspace_id = c_workspace_id call, sp_call_id = c_id call, sp_status = next_status,
               sp_expected = c_status call, sp_actor = actor\<rparr>) w1 of
             (w2, Inl e) \<Rightarrow> (w2, Inl (map_call_error e))
           | (w2, Inr updated) \<Rightarrow>
               (let w3 = (if is_terminal_status next_status
                          then notify_call s (CallTerminal (call_notification_of updated))
                                 (create_call_message s updated w2)
                          else w2);
                    w4 = fst (publish_call s event_type updated actor (other_participant updated actor)
                           (''reason'', PStr (trim_space (si_reason input))) w3)
                in (w4, Inr (to_call_dto updated))))))"

text \<open>What happens to one call that was found unanswered.\<close>

definition finish_missed :: "'s calls_service \<Rightarrow> call \<Rightarrow> 's calls_world \<Rightarrow> 's calls_world" where
  "finish_missed s call w =
    fst (publish_call s ''CallMissed'' call ''system'' (c_target call) (''reason'', PStr ''no_answer'')
      (notify_call s (CallTerminal (call_notification_of call)) (create_call_message s call w)))"

definition expire_unanswered ::
    "'s calls_service \<Rightarrow> time \<Rightarrow> int \<Rightarrow> 's calls_world \<Rightarrow> 's calls_world \<times> int result" where
  "expire_unanswered s now limit0 w =
    (let limit = (if limit0 \<le> 0 then 50 else limit0) in
     case on_store (cr_expire_ringing (cv_repo s) (now - cv_ring_timeout s) limit) w of
       (w1, Inl e) \<Rightarrow> (w1, Inl e)
     | (w1, Inr calls) \<Rightarrow> (fold (finish_missed s) calls w1, Inr (int (length calls))))"

text \<open>The function the ring timer of \<open>call\<close> runs when it fires.\<close>

definition ring_timeout_fired :: "'s calls_service \<Rightarrow> time \<Rightarrow> call \<Rightarrow> 's calls_world \<Rightarrow> 's calls_world" where
  "ring_timeout_fired s now call w =
    (case on_store (cr_expire_ringing_call (cv_repo s) (c_workspace_id call) (c_id call) now) w of
       (w1, Inl e) \<Rightarrow> w1
     | (w1, Inr expired) \<Rightarrow> finish_missed s expired w1)"

definition send_signal ::
    "'s calls_service \<Rightarrow> call_signal_input \<Rightarrow> 's calls_world \<Rightarrow> 's calls_world \<times> call_signal_dto result" where
  "send_signal s input w =
    (case on_store (cr_get (cv_repo s) (trim_space (gi_workspace_id input)) (trim_space (gi_call_id input))) w of
       (w1, Inl e) \<Rightarrow> (w1, Inl (map_call_error e))
     | (w1, Inr call) \<Rightarrow>
       (let actor = trim_space (gi_actor input); signal_type = normalize_signal_type (gi_type input) in
        if \<not> is_participant call actor then (w1, Inl (forbidden ''Ban khong thuoc cuoc goi nay.''))
        else if signal_type = [] then
          (w1, Inl (bad_request ''VALIDATION_ERROR'' ''Loai tin hieu cuoc goi khong hop le.''))
        else if c_status call \<noteq> ''accepted'' then
          (w1, Inl (conflict ''CALL_INVALID_TRANSITION''
             ''Chi gui tin hieu media sau khi cuoc goi duoc chap nhan.''))
        else if signal_type = ''offer'' \<and> actor \<noteq> c_initiator call then
          (w1, Inl (forbidden ''Chi nguoi khoi tao duoc gui SDP offer.''))
        else if signal_type = ''answer'' \<and> actor \<noteq> c_target call then
          (w1, Inl (forbidden ''Chi nguoi nhan duoc gui SDP answer.''))
        else if signal_type = ''ready'' \<and> actor \<noteq> c_target call then
          (w1, Inl (forbidden ''Chi nguoi nhan duoc bao media da san sang.''))
        else case normalize_json (gi_payload input) ''Payload tin hieu cuoc goi khong phai JSON hop le.'' of
          Inl e \<Rightarrow> (w1, Inl e)
        | Inr payload \<Rightarrow>
          (case on_store (cr_create_signal (cv_repo s)
              \<lparr>gp_workspace_id = c_workspace_id call, gp_call_id = c_id call, gp_sender = actor,
               gp_type = signal_type, gp_payload = payload\<rparr>) w1 of
             (w2, Inl e) \<Rightarrow> (w2, Inl e)
           | (w2, Inr signal) \<Rightarrow>
             (case publish_call s (signal_event_type signal_type) call actor (other_participant call actor)
                (''signal'', PRaw (sd_payload (to_signal_dto signal))) w2 of
                (w3, Some e) \<Rightarrow> (w3, Inl e)
              | (w3, None) \<Rightarrow> (w3, Inr (to_signal_dto signal))))))"

end
