(* ===== verification/Calls_Contract.thy ===== *)
theory Calls_Contract
  imports Calls_Service
begin

text \<open>
  The contract between the calls service and its repository, and what the service guarantees
  over any repository that keeps it: calls only ever move along the status graph, and nothing
  else about them changes. \<open>Calls_Pg\<close> interprets the contract on the PostgreSQL model.
\<close>

section \<open>Evolution of the call table\<close>

definition same_call :: "call \<Rightarrow> call \<Rightarrow> bool" where
  "same_call c d \<longleftrightarrow>
     c_id d = c_id c \<and> c_workspace_id d = c_workspace_id c \<and> c_channel_id d = c_channel_id c \<and>
     c_initiator d = c_initiator c \<and> c_target d = c_target c \<and>
     c_client_call_id d = c_client_call_id c \<and> c_mode d = c_mode c \<and>
     c_metadata d = c_metadata c \<and> c_created_at d = c_created_at c"

definition call_evolves :: "call \<Rightarrow> call \<Rightarrow> bool" where
  "call_evolves c d \<longleftrightarrow>
     same_call c d \<and> call_edge\<^sup>*\<^sup>* (c_status c) (c_status d) \<and>
     (c_started_at c \<noteq> None \<longrightarrow> c_started_at d = c_started_at c) \<and>
     (c_ended_at c \<noteq> None \<longrightarrow> c_ended_at d = c_ended_at c)"

definition calls_evolve :: "call list \<Rightarrow> call list \<Rightarrow> bool" where
  "calls_evolve cs ds \<longleftrightarrow>
     (\<exists>es new. ds = es @ new \<and> list_all2 call_evolves cs es)"

lemma call_evolves_refl [simp, intro]: "call_evolves c c"
  by (simp add: call_evolves_def same_call_def)

lemma call_evolves_trans: "call_evolves c d \<Longrightarrow> call_evolves d e \<Longrightarrow> call_evolves c e"
  by (auto simp: call_evolves_def same_call_def)

lemma calls_evolve_refl [simp, intro]: "calls_evolve cs cs"
  unfolding calls_evolve_def by (metis append_Nil2 call_evolves_refl list_all2_refl)

lemma calls_evolve_trans:
  assumes "calls_evolve cs ds" "calls_evolve ds es"
  shows "calls_evolve cs es"
proof -
  from assms(1) obtain d1 dn where d: "ds = d1 @ dn" "list_all2 call_evolves cs d1"
    by (auto simp: calls_evolve_def)
  from assms(2) obtain e1 en where e: "es = e1 @ en" "list_all2 call_evolves ds e1"
    by (auto simp: calls_evolve_def)
  from e(2) obtain e11 e12 where ee: "e1 = e11 @ e12" "list_all2 call_evolves d1 e11"
    unfolding d(1) by (auto simp: list_all2_append1)
  have "list_all2 call_evolves cs e11"
    using list_all2_trans [OF _ d(2) ee(2), of call_evolves] call_evolves_trans by blast
  then show ?thesis unfolding calls_evolve_def e(1) ee(1) by (metis append.assoc)
qed

lemma calls_evolve_append: "calls_evolve cs (cs @ new)"
  unfolding calls_evolve_def by (metis call_evolves_refl list_all2_refl)

lemma calls_evolve_update:
  "(\<And>c. c \<in> set cs \<Longrightarrow> p c \<Longrightarrow> call_evolves c (f c)) \<Longrightarrow> calls_evolve cs (update_where p f cs)"
  unfolding calls_evolve_def
  by (intro exI [of _ "update_where p f cs"] exI [of _ "[]"])
    (auto simp: update_where_def list_all2_map2 intro!: list_all2_refl simp: list_all2_same)

lemma calls_evolve_mem:
  assumes "calls_evolve cs ds" "c \<in> set cs"
  shows "\<exists>d\<in>set ds. call_evolves c d"
proof -
  from assms(1) obtain es new where *: "ds = es @ new" "list_all2 call_evolves cs es"
    by (auto simp: calls_evolve_def)
  from assms(2) obtain i where i: "i < length cs" "cs ! i = c" by (auto simp: in_set_conv_nth)
  with *(2) have "es ! i \<in> set es \<and> call_evolves c (es ! i)"
    by (auto simp: list_all2_conv_all_nth)
  with *(1) show ?thesis by auto
qed

lemma edge_star_terminal: "call_edge\<^sup>*\<^sup>* a b \<Longrightarrow> is_terminal_status a \<Longrightarrow> b = a"
  by (induction rule: converse_rtranclp_induct) (auto dest: terminal_no_edge)

lemma evolves_terminal:
  "call_evolves c d \<Longrightarrow> is_terminal_status (c_status c) \<Longrightarrow> c_status d = c_status c"
  by (auto simp: call_evolves_def dest: edge_star_terminal)

text \<open>The status update of the repository is an evolution along the edge it takes.\<close>

lemma set_call_status_evolves:
  "call_edge (c_status c) st \<Longrightarrow> call_evolves c (set_call_status now st c)"
  by (auto simp: call_evolves_def same_call_def set_call_status_def split: option.splits)

lemma on_storeD: "on_store f w = (u, r) \<Longrightarrow> f (cw_store w) = (cw_store u, r)"
  by (auto simp: on_store_def split: prod.splits)

section \<open>The contract\<close>

locale calls_repository =
  fixes R :: "'s calls_repo"
    and calls :: "'s \<Rightarrow> call list"
    and inv :: "'s \<Rightarrow> bool"
  assumes create_law:
    "inv s \<Longrightarrow> cr_create R cp s = (s', r) \<Longrightarrow> inv s' \<and> calls_evolve (calls s) (calls s')"
    and get_law:
    "inv s \<Longrightarrow> cr_get R w i s = (s', r) \<Longrightarrow>
       inv s' \<and> calls s' = calls s \<and> (\<forall>c. r = Inr c \<longrightarrow> c \<in> set (calls s))"
    and update_law:
    "inv s \<Longrightarrow> call_edge (sp_expected p) (sp_status p) \<Longrightarrow> cr_update_status R p s = (s', r) \<Longrightarrow>
       inv s' \<and> calls_evolve (calls s) (calls s') \<and>
       (\<forall>e. r = Inl e \<longrightarrow> calls s' = calls s) \<and>
       (\<forall>c. r = Inr c \<longrightarrow> c \<in> set (calls s') \<and> c_status c = sp_status p)"
    and expire_one_law:
    "inv s \<Longrightarrow> cr_expire_ringing_call R w i t s = (s', r) \<Longrightarrow>
       inv s' \<and> calls_evolve (calls s) (calls s')"
    and expire_law:
    "inv s \<Longrightarrow> cr_expire_ringing R t n s = (s', rs) \<Longrightarrow>
       inv s' \<and> calls_evolve (calls s) (calls s')"
    and signal_law:
    "inv s \<Longrightarrow> cr_create_signal R gp s = (s', rg) \<Longrightarrow> inv s' \<and> calls s' = calls s"
    and message_law:
    "inv s \<Longrightarrow> cr_create_call_message R mp s = (s', ru) \<Longrightarrow> inv s' \<and> calls s' = calls s"
    and zone_law:
    "inv s \<Longrightarrow> cr_workspace_zone_id R w s = (s', rz) \<Longrightarrow> inv s' \<and> calls s' = calls s"
begin

text \<open>The world after an operation, as far as the calls are concerned.\<close>

definition keeps :: "'s calls_world \<Rightarrow> 's calls_world \<Rightarrow> bool" where
  "keeps w w' \<longleftrightarrow>
     (inv (cw_store w) \<longrightarrow> inv (cw_store w') \<and> calls (cw_store w') = calls (cw_store w))"

definition evolves :: "'s calls_world \<Rightarrow> 's calls_world \<Rightarrow> bool" where
  "evolves w w' \<longleftrightarrow>
     (inv (cw_store w) \<longrightarrow>
        inv (cw_store w') \<and> calls_evolve (calls (cw_store w)) (calls (cw_store w')))"

lemma keeps_evolves: "keeps w w' \<Longrightarrow> evolves w w'"
  by (auto simp: keeps_def evolves_def)

lemma keeps_refl [simp]: "keeps w w" and evolves_refl [simp]: "evolves w w"
  by (simp_all add: keeps_def evolves_def)

lemma keeps_trans: "keeps w v \<Longrightarrow> keeps v u \<Longrightarrow> keeps w u"
  by (auto simp: keeps_def)

lemma evolves_trans: "evolves w v \<Longrightarrow> evolves v u \<Longrightarrow> evolves w u"
  unfolding evolves_def using calls_evolve_trans by blast

lemma keeps_notify: "keeps w v \<Longrightarrow> keeps w (notify_call s n v)"
  by (simp add: keeps_def notify_call_def)

lemma keeps_timer: "keeps w v \<Longrightarrow> keeps w (schedule_ring_timeout s c v)"
  by (simp add: keeps_def schedule_ring_timeout_def)

lemma keeps_store:
  assumes "keeps w v" "on_store f v = (u, r)"
    and "\<And>t t' r. inv t \<Longrightarrow> f t = (t', r) \<Longrightarrow> inv t' \<and> calls t' = calls t"
  shows "keeps w u"
proof -
  from assms(2) have "f (cw_store v) = (cw_store u, r)" by (rule on_storeD)
  from assms(3) [OF _ this] assms(1) show ?thesis unfolding keeps_def by metis
qed

lemma evolves_store:
  assumes "evolves w v" "on_store f v = (u, r)"
    and "\<And>t t' r. inv t \<Longrightarrow> f t = (t', r) \<Longrightarrow> inv t' \<and> calls_evolve (calls t) (calls t')"
  shows "evolves w u"
proof -
  from assms(2) have "f (cw_store v) = (cw_store u, r)" by (rule on_storeD)
  from assms(3) [OF _ this] assms(1) show ?thesis unfolding evolves_def using calls_evolve_trans by metis
qed

lemma keeps_message:
  assumes "cv_repo s = R" "keeps w v"
  shows "keeps w (create_call_message s c v)"
proof -
  obtain u r where "on_store (cr_create_call_message R (call_message_params_of c)) v = (u, r)"
    by fastforce
  then show ?thesis
    using keeps_store [OF assms(2)] message_law by (fastforce simp: create_call_message_def assms(1))
qed

lemma keeps_publish:
  assumes "cv_repo s = R" "keeps w v" "publish_call s ty c a t x v = (u, r)"
  shows "keeps w u"
proof (cases "cv_realtime s")
  case None
  then show ?thesis using assms by (simp add: publish_call_def)
next
  case (Some pub)
  obtain v1 z where z: "on_store (cr_workspace_zone_id R (c_workspace_id c)) v = (v1, z)" by fastforce
  have "keeps w v1" using keeps_store [OF assms(2) z] zone_law by blast
  with Some z assms(1,3) show ?thesis
    by (cases z) (auto simp: publish_call_def Let_def keeps_def)
qed

lemma keeps_publish_fst:
  "cv_repo s = R \<Longrightarrow> keeps w v \<Longrightarrow> keeps w (fst (publish_call s ty c a t x v))"
  by (metis keeps_publish prod.collapse)

lemma keeps_finish_missed: "cv_repo s = R \<Longrightarrow> keeps w v \<Longrightarrow> keeps w (finish_missed s c v)"
  unfolding finish_missed_def by (intro keeps_publish_fst keeps_notify keeps_message)

lemma keeps_finish_missed_fold:
  "cv_repo s = R \<Longrightarrow> keeps w v \<Longrightarrow> keeps w (fold (finish_missed s) cs v)"
proof (induction cs arbitrary: v)
  case (Cons c cs)
  from Cons.IH [OF Cons.prems(1) keeps_finish_missed [OF Cons.prems]] show ?case by simp
qed simp

lemmas evolves_keeps = evolves_trans [OF _ keeps_evolves]

lemma keeps_get: "keeps w v \<Longrightarrow> on_store (cr_get R i j) v = (u, r) \<Longrightarrow> keeps w u"
  by (erule (1) keeps_store) (use get_law in blast)

lemma call_get_keeps:
  assumes "cv_repo s = R" "call_get s a i j w = (w', r)"
  shows "keeps w w'"
proof -
  obtain w1 r1 where "on_store (cr_get R (trim_space i) (trim_space j)) w = (w1, r1)" by fastforce
  moreover from this have "keeps w w1" by (rule keeps_get [OF keeps_refl])
  ultimately show ?thesis using assms(2)
    by (auto simp: call_get_def assms(1) split: sum.splits if_splits)
qed

lemma send_signal_keeps:
  assumes "cv_repo s = R" "send_signal s input w = (w', r)"
  shows "keeps w w'"
proof -
  obtain w1 r1 where g: "on_store (cr_get R (trim_space (gi_workspace_id input))
      (trim_space (gi_call_id input))) w = (w1, r1)" by fastforce
  then have k1: "keeps w w1" by (rule keeps_get [OF keeps_refl])
  have sig: "keeps w u" if "on_store (cr_create_signal R gp) w1 = (u, rg)" for gp u rg
    by (rule keeps_store [OF k1 that]) (use signal_law in blast)
  have pub: "keeps w v" if "on_store (cr_create_signal R gp) w1 = (u, rg)"
      "publish_call s ty c a t x u = (v, e)" for gp u rg ty c a t x v e
    by (rule keeps_publish [OF assms(1) sig [OF that(1)] that(2)])
  show ?thesis
  proof (cases "w' = w1")
    case False
    with assms(2) g show ?thesis
      by (simp add: send_signal_def assms(1) Let_def split: sum.splits if_splits prod.splits option.splits)
        (blast intro: sig pub)+
  qed (simp add: k1)
qed

lemma call_create_evolves:
  assumes "cv_repo s = R" "call_create s input w = (w', r)"
  shows "evolves w w'"
proof -
  have cr: "evolves w w1" if "on_store (cr_create R cp) w = (w1, rc)" for cp w1 rc
    by (rule evolves_store [OF evolves_refl that]) (use create_law in blast)
  have post: "evolves w (schedule_ring_timeout s c (notify_call s n (fst (publish_call s ty d a t x w1))))"
    if "on_store (cr_create R cp) w = (w1, rc)" for cp rc w1 c n ty d a t x
    by (rule evolves_keeps [OF cr [OF that]])
      (intro keeps_timer keeps_notify keeps_publish_fst assms(1) keeps_refl)
  show ?thesis
  proof (cases "w' = w")
    case False
    with assms(2) show ?thesis
      by (simp add: call_create_def assms(1) Let_def split: option.splits if_splits sum.splits prod.splits)
        (blast intro: cr post)+
  qed simp
qed

lemma change_status_evolves:
  assumes "cv_repo s = R" "call_change_status s input w = (w', r)"
  shows "evolves w w'"
proof -
  obtain w1 r1 where g: "on_store (cr_get R (trim_space (si_workspace_id input))
      (trim_space (si_call_id input))) w = (w1, r1)" by fastforce
  then have "keeps w w1" by (rule keeps_get [OF keeps_refl])
  then have k1: "evolves w w1" by (rule keeps_evolves)
  show ?thesis
  proof (cases "w' = w1")
    case False
    obtain c st ev where c: "r1 = Inr c" and
      n: "next_status_for_action c (trim_space (si_actor input)) (trim_space (si_action input)) = Inr (st, ev)"
      using assms(2) g False
      by (auto simp: call_change_status_def assms(1) Let_def split: sum.splits)
    define p where "p = \<lparr>sp_workspace_id = c_workspace_id c, sp_call_id = c_id c, sp_status = st,
      sp_expected = c_status c, sp_actor = trim_space (si_actor input)\<rparr>"
    have edge: "call_edge (sp_expected p) (sp_status p)" using next_status_edge [OF n] by (simp add: p_def)
    obtain w2 r2 where u: "on_store (cr_update_status R p) w1 = (w2, r2)" by fastforce
    have k2: "evolves w w2" by (rule evolves_store [OF k1 u]) (use update_law edge in blast)
    have post: "evolves w (fst (publish_call s ev d a t x
        (if b then notify_call s m (create_call_message s d w2) else w2)))" for d a t x b m
      by (rule evolves_keeps [OF k2], cases b)
        (auto intro!: keeps_notify keeps_publish_fst keeps_message assms(1))
    show ?thesis
      using assms(2) g c n u k2 post
      by (simp add: call_change_status_def assms(1) Let_def p_def split: sum.splits prod.splits) metis
  qed (simp add: k1)
qed

lemma expire_evolves:
  assumes "cv_repo s = R" "expire_unanswered s now n w = (w', r)"
  shows "evolves w w'"
proof -
  define l where "l = (if n \<le> 0 then 50 else n)"
  obtain w1 rs where x: "on_store (cr_expire_ringing R (now - cv_ring_timeout s) l) w = (w1, rs)" by fastforce
  have k1: "evolves w w1" by (rule evolves_store [OF evolves_refl x]) (use expire_law in blast)
  have "evolves w (fold (finish_missed s) cs w1)" for cs
    by (rule evolves_keeps [OF k1 keeps_finish_missed_fold [OF assms(1) keeps_refl]])
  with k1 x assms(2) show ?thesis
    by (cases rs) (auto simp: expire_unanswered_def assms(1) l_def [symmetric])
qed

lemma timer_evolves:
  assumes "cv_repo s = R"
  shows "evolves w (ring_timeout_fired s now c w)"
proof -
  obtain w1 rs where x: "on_store (cr_expire_ringing_call R (c_workspace_id c) (c_id c) now) w = (w1, rs)"
    by fastforce
  have k1: "evolves w w1" by (rule evolves_store [OF evolves_refl x]) (use expire_one_law in blast)
  have "evolves w (finish_missed s d w1)" for d
    by (rule evolves_keeps [OF k1 keeps_finish_missed [OF assms(1) keeps_refl]])
  with k1 x show ?thesis by (cases rs) (auto simp: ring_timeout_fired_def assms(1))
qed

end

section \<open>Requests\<close>

text \<open>What reaches the service: the HTTP operations, the worker's sweep and the ring timers.\<close>

datatype call_request =
    ReqCreate call_create_input
  | ReqGet string string string
  | ReqStatus call_status_input
  | ReqSignal call_signal_input
  | ReqExpire time int
  | ReqTimer time call

fun serve_call :: "'s calls_service \<Rightarrow> call_request \<Rightarrow> 's calls_world \<Rightarrow> 's calls_world" where
  "serve_call s (ReqCreate i) w = fst (call_create s i w)"
| "serve_call s (ReqGet a i j) w = fst (call_get s a i j w)"
| "serve_call s (ReqStatus i) w = fst (call_change_status s i w)"
| "serve_call s (ReqSignal i) w = fst (send_signal s i w)"
| "serve_call s (ReqExpire t n) w = fst (expire_unanswered s t n w)"
| "serve_call s (ReqTimer t c) w = ring_timeout_fired s t c w"

definition serve_calls :: "'s calls_service \<Rightarrow> call_request list \<Rightarrow> 's calls_world \<Rightarrow> 's calls_world" where
  "serve_calls s rs w = fold (serve_call s) rs w"

context calls_repository
begin

lemma serve_evolves:
  assumes "cv_repo s = R"
  shows "evolves w (serve_call s q w)"
proof (cases q)
  case (ReqCreate i)
  then show ?thesis using call_create_evolves [OF assms, of i w] by (metis prod.collapse serve_call.simps(1))
next
  case (ReqGet a i j)
  then show ?thesis
    using call_get_keeps [OF assms, of a i j w] keeps_evolves by (metis prod.collapse serve_call.simps(2))
next
  case (ReqStatus i)
  then show ?thesis using change_status_evolves [OF assms, of i w] by (metis prod.collapse serve_call.simps(3))
next
  case (ReqSignal i)
  then show ?thesis
    using send_signal_keeps [OF assms, of i w] keeps_evolves by (metis prod.collapse serve_call.simps(4))
next
  case (ReqExpire t n)
  then show ?thesis using expire_evolves [OF assms, of t n w] by (metis prod.collapse serve_call.simps(5))
next
  case (ReqTimer t c)
  then show ?thesis using timer_evolves [OF assms] by simp
qed

lemma serve_calls_evolves: "cv_repo s = R \<Longrightarrow> evolves w (serve_calls s qs w)"
proof (induction qs arbitrary: w)
  case (Cons q qs)
  then show ?case
    using serve_evolves [of s w q] evolves_trans by (fastforce simp: serve_calls_def)
qed (simp add: serve_calls_def)

lemma served_call_evolves:
  assumes "cv_repo s = R" "inv (cw_store w)" "c \<in> set (calls (cw_store w))"
  shows "inv (cw_store (serve_calls s qs w)) \<and>
    (\<exists>d\<in>set (calls (cw_store (serve_calls s qs w))). call_evolves c d)"
  using serve_calls_evolves [OF assms(1), of w qs] assms(2) calls_evolve_mem [OF _ assms(3)]
  by (auto simp: evolves_def)

end

end
