(* ===== verification/Calls_Pg.thy ===== *)
theory Calls_Pg
  imports Calls_Contract
begin

text \<open>
  The PostgreSQL repository keeps the contract of \<open>calls_repository\<close>: its table invariant, the
  interpretation, and the properties of single statements.
\<close>

section \<open>The invariant of \<open>call_sessions\<close>\<close>

definition call_times_ok :: "call \<Rightarrow> bool" where
  "call_times_ok c \<longleftrightarrow>
     (c_status c = ''ringing'' \<longrightarrow> c_started_at c = None \<and> c_ended_at c = None) \<and>
     (c_status c = ''accepted'' \<longrightarrow> c_started_at c \<noteq> None \<and> c_ended_at c = None) \<and>
     (c_status c = ''ended'' \<longrightarrow> c_started_at c \<noteq> None \<and> c_ended_at c \<noteq> None) \<and>
     (c_status c \<in> {''rejected'', ''cancelled'', ''missed''} \<longrightarrow>
        c_started_at c = None \<and> c_ended_at c \<noteq> None)"

definition call_row_ok :: "call \<Rightarrow> bool" where
  "call_row_ok c \<longleftrightarrow>
     (c_mode c = ''audio'' \<or> c_mode c = ''video'') \<and> c_initiator c \<noteq> c_target c \<and>
     c_status c \<in> set call_statuses \<and> call_times_ok c"

definition calls_ok :: "calls_db \<Rightarrow> bool" where
  "calls_ok db \<longleftrightarrow>
     (\<forall>c\<in>set (t_calls db). call_row_ok c) \<and> distinct (map c_id (t_calls db)) \<and>
     distinct (filter (\<lambda>k. k \<noteq> None) (map client_key (t_calls db)))"

text \<open>The identifiers \<open>gen_random_uuid()\<close> will still produce are new and distinct.\<close>

definition fresh_ok :: "calls_db pg \<Rightarrow> bool" where
  "fresh_ok s \<longleftrightarrow>
     (\<forall>n\<ge>pg_tick s. \<forall>c\<in>set (t_calls (pg_db s)). pe_fresh (pg_envs s n) \<noteq> c_id c) \<and>
     inj_on (\<lambda>n. pe_fresh (pg_envs s n)) {pg_tick s..}"

definition calls_pg_inv :: "calls_db pg \<Rightarrow> bool" where
  "calls_pg_inv s \<longleftrightarrow> calls_ok (pg_db s) \<and> fresh_ok s"

text \<open>What one statement does to the table, with \<open>env\<close> its environment.\<close>

definition good_effect :: "pg_env \<Rightarrow> calls_db \<Rightarrow> calls_db \<Rightarrow> bool" where
  "good_effect env db db' \<longleftrightarrow>
     calls_ok db' \<and> calls_evolve (t_calls db) (t_calls db') \<and>
     c_id ` set (t_calls db') \<subseteq> insert (pe_fresh env) (c_id ` set (t_calls db))"

lemma good_effect_same: "calls_ok db \<Longrightarrow> t_calls db' = t_calls db \<Longrightarrow> good_effect env db db'"
  by (auto simp: good_effect_def calls_ok_def)

lemma good_effect_refl [simp]: "calls_ok db \<Longrightarrow> good_effect env db db"
  by (simp add: good_effect_same)

lemma pg_run_effect:
  assumes "calls_pg_inv s" "pg_run f s = (s', r)"
    and "\<And>db' r'. f (pg_envs s (pg_tick s)) (pg_db s) = (db', r') \<Longrightarrow>
           good_effect (pg_envs s (pg_tick s)) (pg_db s) db'"
  shows "calls_pg_inv s' \<and> calls_evolve (t_calls (pg_db s)) (t_calls (pg_db s'))"
proof -
  let ?env = "pg_envs s (pg_tick s)"
  have envs: "pg_envs s' = pg_envs s" "pg_tick s' = Suc (pg_tick s)"
    using assms(2) by (auto simp: pg_run_def Let_def split: option.splits prod.splits)
  have ok: "calls_ok (pg_db s)" and fr: "fresh_ok s" using assms(1) by (simp_all add: calls_pg_inv_def)
  have eff: "good_effect ?env (pg_db s) (pg_db s')"
    using pg_run_db [OF assms(2)] assms(3) ok good_effect_same by metis
  have "fresh_ok s'"
    unfolding fresh_ok_def envs
  proof (intro conjI allI impI ballI)
    fix n c assume n: "Suc (pg_tick s) \<le> n" and c: "c \<in> set (t_calls (pg_db s'))"
    from c have "c_id c \<in> insert (pe_fresh ?env) (c_id ` set (t_calls (pg_db s)))"
      using eff by (auto simp: good_effect_def)
    moreover have "pe_fresh (pg_envs s n) \<noteq> pe_fresh ?env"
      using fr n inj_onD [of "\<lambda>n. pe_fresh (pg_envs s n)" "{pg_tick s..}" n "pg_tick s"]
      by (auto simp: fresh_ok_def)
    ultimately show "pe_fresh (pg_envs s n) \<noteq> c_id c"
      using fr n by (auto simp: fresh_ok_def)
  next
    show "inj_on (\<lambda>n. pe_fresh (pg_envs s n)) {Suc (pg_tick s)..}"
      using fr by (auto simp: fresh_ok_def intro: inj_on_subset)
  qed
  with eff show ?thesis by (simp add: calls_pg_inv_def good_effect_def)
qed

section \<open>Updates\<close>

lemma set_call_status_row_ok:
  assumes "call_row_ok c" "call_edge (c_status c) st"
  shows "call_row_ok (set_call_status now st c)"
proof -
  consider "c_status c = ''ringing''" "st = ''accepted''"
    | "c_status c = ''ringing''" "st \<in> {''rejected'', ''cancelled'', ''missed''}"
    | "c_status c = ''accepted''" "st = ''ended''"
    using assms(2) by (auto simp: call_edge_def)
  then show ?thesis
    by cases (use assms(1) in \<open>auto simp: call_row_ok_def call_times_ok_def set_call_status_def
      call_statuses_def split: option.splits\<close>)
qed

lemma set_call_status_sel [simp]:
  "c_id (set_call_status now st c) = c_id c"
  "c_status (set_call_status now st c) = st"
  "client_key (set_call_status now st c) = client_key c"
  by (simp_all add: set_call_status_def client_key_def split: option.split)

lemma update_effect:
  assumes "calls_ok db"
    and "\<And>c. c \<in> set (t_calls db) \<Longrightarrow> p c \<Longrightarrow>
           call_row_ok (f c) \<and> call_evolves c (f c) \<and> client_key (f c) = client_key c"
  shows "good_effect env db (db\<lparr>t_calls := update_where p f (t_calls db)\<rparr>)"
proof -
  have ids: "map c_id (update_where p f (t_calls db)) = map c_id (t_calls db)"
    using assms(2) by (intro map_update_where) (simp add: call_evolves_def same_call_def)
  have keys: "map client_key (update_where p f (t_calls db)) = map client_key (t_calls db)"
    using assms(2) by (intro map_update_where) simp
  have "c_id ` set (update_where p f (t_calls db)) = c_id ` set (t_calls db)"
    by (metis ids image_set)
  then show ?thesis
    using assms ids keys
    by (auto simp: good_effect_def calls_ok_def ball_update_where intro!: calls_evolve_update)
qed

lemma status_update_effect:
  assumes "calls_ok db" "\<And>c. c \<in> set (t_calls db) \<Longrightarrow> p c \<Longrightarrow> call_edge (c_status c) st"
  shows "good_effect env db (db\<lparr>t_calls := update_where p (set_call_status now st) (t_calls db)\<rparr>)"
  using assms
  by (intro update_effect) (auto simp: calls_ok_def set_call_status_row_ok set_call_status_evolves)

lemma update_status_effect:
  assumes "calls_ok db" "call_edge (sp_expected p) (sp_status p)"
    and "pg_update_status env p db = (db', r)"
  shows "good_effect env db db' \<and> (\<forall>e. r = Inl e \<longrightarrow> db' = db) \<and>
    (\<forall>c. r = Inr c \<longrightarrow> c \<in> set (t_calls db') \<and> c_status c = sp_status p)"
  using assms
  by (auto simp: pg_update_status_def Let_def scan_call_def set_update_where
      intro!: status_update_effect
      split: sum.splits option.splits if_splits dest!: find_Some_mem)

lemma ringing_edge_missed: "call_edge ''ringing'' ''missed''"
  by (simp add: call_edge_def)

lemma expire_one_effect:
  assumes "calls_ok db" "pg_expire_ringing_call env w i b db = (db', r)"
  shows "good_effect env db db'"
  using assms
  by (auto simp: pg_expire_ringing_call_def Let_def ringing_edge_missed
      intro!: status_update_effect
      split: sum.splits option.splits dest!: find_Some_mem)

text \<open>The identifiers the sweep picks belong to ringing calls created in time.\<close>

definition expired_ids :: "time \<Rightarrow> int \<Rightarrow> calls_db \<Rightarrow> string list" where
  "expired_ids before limit db = map c_id (order_limit c_created_at limit
     (filter (\<lambda>c. c_status c = ''ringing'' \<and> c_created_at c \<le> pg_time before) (t_calls db)))"

lemma expired_ids_ringing:
  assumes "calls_ok db" "c \<in> set (t_calls db)" "c_id c \<in> set (expired_ids before limit db)"
  shows "c_status c = ''ringing'' \<and> c_created_at c \<le> pg_time before"
proof -
  from assms(3) obtain d where d: "c_id d = c_id c" "d \<in> set (t_calls db)"
      "c_status d = ''ringing'' \<and> c_created_at d \<le> pg_time before"
    using set_order_limit by (fastforce simp: expired_ids_def)
  then have "d = c" using key_unique [of c_id "t_calls db" d c] assms(1,2) by (simp add: calls_ok_def)
  with d show ?thesis by simp
qed

lemma pg_expire_ringing_eq:
  "pg_expire_ringing env before limit db =
    (db\<lparr>t_calls := update_where (\<lambda>c. c_id c \<in> set (expired_ids before limit db))
        (set_call_status (pe_now env) ''missed'') (t_calls db)\<rparr>,
     Inr (map (set_call_status (pe_now env) ''missed'')
       (filter (\<lambda>c. c_id c \<in> set (expired_ids before limit db)) (t_calls db))))"
  by (simp add: pg_expire_ringing_def expired_ids_def Let_def)

lemma expire_effect:
  assumes "calls_ok db" "pg_expire_ringing env b n db = (db', r)"
  shows "good_effect env db db'"
  using assms expired_ids_ringing [OF assms(1)]
  by (auto simp: pg_expire_ringing_eq ringing_edge_missed intro!: status_update_effect)

section \<open>Insertion\<close>

lemma touch_row:
  "call_row_ok c \<Longrightarrow> call_row_ok (c\<lparr>c_updated_at := n\<rparr>) \<and> call_evolves c (c\<lparr>c_updated_at := n\<rparr>) \<and>
     client_key (c\<lparr>c_updated_at := n\<rparr>) = client_key c"
  by (auto simp: call_row_ok_def call_times_ok_def call_evolves_def same_call_def client_key_def
      split: option.split)

lemma create_effect:
  assumes "calls_ok db" "\<forall>c\<in>set (t_calls db). pe_fresh env \<noteq> c_id c"
    and "pg_create_call env p db = (db', r)"
  shows "good_effect env db db'"
proof (cases "db' = db")
  case False
  let ?t = "t_calls db"
  obtain w ch i t meta where pars: "create_call_args env p = Inr (w, ch, i, t, meta)"
    using assms(3) False by (auto simp: pg_create_call_def split: sum.splits)
  define row where "row = new_call_row env p w ch i t meta"
  have row: "cp_mode p = ''audio'' \<or> cp_mode p = ''video'' \<Longrightarrow> i \<noteq> t \<Longrightarrow> call_row_ok row" "c_id row = pe_fresh env"
    by (simp_all add: row_def new_call_row_def call_row_ok_def call_times_ok_def call_statuses_def)
  have chk: "cp_mode p = ''audio'' \<or> cp_mode p = ''video''" "i \<noteq> t" and
    res: "(\<exists>c. c \<in> set ?t \<and> db' = db\<lparr>t_calls := update_where (\<lambda>r. c_id r = c_id c)
              (\<lambda>_. c\<lparr>c_updated_at := pe_now env\<rparr>) ?t\<rparr>) \<or>
       db' = db\<lparr>t_calls := ?t @ [row]\<rparr> \<and>
         (client_key row \<noteq> None \<longrightarrow> client_key row \<notin> client_key ` set ?t)"
    using assms(3) False
    by (auto simp: pg_create_call_def pars Let_def row_def [symmetric] find_None_iff
        split: if_splits option.splits dest!: find_Some_mem)
  from res show ?thesis
  proof (elim disjE exE conjE)
    fix c assume c: "c \<in> set ?t" "db' = db\<lparr>t_calls := update_where (\<lambda>r. c_id r = c_id c)
              (\<lambda>_. c\<lparr>c_updated_at := pe_now env\<rparr>) ?t\<rparr>"
    have uniq: "d = c" if "d \<in> set ?t" "c_id d = c_id c" for d
      using key_unique [of c_id ?t d c] assms(1) c(1) that by (simp add: calls_ok_def)
    show ?thesis
      unfolding c(2)
      by (intro update_effect) (use assms(1) uniq c(1) touch_row in \<open>force simp: calls_ok_def\<close>)+
  next
    assume "db' = db\<lparr>t_calls := ?t @ [row]\<rparr>"
      and "client_key row \<noteq> None \<longrightarrow> client_key row \<notin> client_key ` set ?t"
    then show ?thesis using assms(1,2) row(1) [OF chk] row(2)
      by (auto simp: good_effect_def calls_ok_def calls_evolve_append)
  qed
qed (simp add: assms(1) good_effect_same)

section \<open>The interpretation\<close>

lemma pg_run_frame:
  assumes "calls_pg_inv s" "pg_run f s = (s', r)"
    and "\<And>env db' r'. f env (pg_db s) = (db', r') \<Longrightarrow> t_calls db' = t_calls (pg_db s)"
  shows "calls_pg_inv s' \<and> t_calls (pg_db s') = t_calls (pg_db s)"
proof -
  have "calls_ok (pg_db s)" using assms(1) by (simp add: calls_pg_inv_def)
  then have "calls_pg_inv s'"
    using pg_run_effect [OF assms(1,2)] assms(3) good_effect_same by metis
  moreover have "t_calls (pg_db s') = t_calls (pg_db s)"
    using pg_run_db [OF assms(2)] assms(3) by metis
  ultimately show ?thesis ..
qed

lemma pg_zone_frame: "pg_workspace_zone_id env w db = (db', r) \<Longrightarrow> db' = db"
  by (simp add: pg_workspace_zone_id_def)

lemma pg_get_frame: "pg_get_call env w i db = (db', r) \<Longrightarrow> db' = db"
  by (simp add: pg_get_call_def)

lemma pg_get_found: "pg_get_call env w i db = (db', Inr c) \<Longrightarrow> c \<in> set (t_calls db)"
  by (auto simp: pg_get_call_def result_bind_Inr_iff dest!: find_Some_mem)

lemma pg_signal_frame: "pg_create_signal env p db = (db', r) \<Longrightarrow> t_calls db' = t_calls db"
  by (auto simp: pg_create_signal_def Let_def split: sum.splits option.splits if_splits prod.splits)

lemma pg_message_frame: "pg_create_call_message env p db = (db', r) \<Longrightarrow> t_calls db' = t_calls db"
  by (auto simp: pg_create_call_message_def Let_def split: sum.splits if_splits prod.splits)

lemma calls_pg_inv_ok: "calls_pg_inv s \<Longrightarrow> calls_ok (pg_db s)"
  by (simp add: calls_pg_inv_def)

lemma pg_update_law:
  assumes "calls_pg_inv s" "call_edge (sp_expected p) (sp_status p)"
    and "cr_update_status calls_pg p s = (s', r)"
  shows "calls_pg_inv s' \<and> calls_evolve (t_calls (pg_db s)) (t_calls (pg_db s')) \<and>
    (\<forall>e. r = Inl e \<longrightarrow> t_calls (pg_db s') = t_calls (pg_db s)) \<and>
    (\<forall>c. r = Inr c \<longrightarrow> c \<in> set (t_calls (pg_db s')) \<and> c_status c = sp_status p)"
proof -
  note run = assms(3) [unfolded calls_pg_sel]
  note eff = update_status_effect [OF calls_pg_inv_ok [OF assms(1)] assms(2)]
  have "calls_pg_inv s' \<and> calls_evolve (t_calls (pg_db s)) (t_calls (pg_db s'))"
    by (rule pg_run_effect [OF assms(1) run]) (use eff in blast)
  moreover have "r = Inl e \<Longrightarrow> t_calls (pg_db s') = t_calls (pg_db s)" for e
    using pg_run_db [OF run] eff by fastforce
  moreover have "r = Inr c \<Longrightarrow> c \<in> set (t_calls (pg_db s')) \<and> c_status c = sp_status p" for c
    using pg_run_db [OF run] eff by fastforce
  ultimately show ?thesis by blast
qed

lemma pg_get_law:
  assumes "calls_pg_inv s" "cr_get calls_pg w i s = (s', r)"
  shows "calls_pg_inv s' \<and> t_calls (pg_db s') = t_calls (pg_db s) \<and>
    (\<forall>c. r = Inr c \<longrightarrow> c \<in> set (t_calls (pg_db s)))"
  using pg_run_frame [OF assms(1) assms(2) [unfolded calls_pg_sel]] pg_get_frame pg_get_found
    pg_run_Inr [of "\<lambda>env. pg_get_call env w i" s s'] assms(2)
  by (metis calls_pg_sel(2))

interpretation cpg: calls_repository calls_pg "\<lambda>s. t_calls (pg_db s)" calls_pg_inv
proof unfold_locales
  fix s s' :: "calls_db pg" and cp and r
  assume i: "calls_pg_inv s" and c: "cr_create calls_pg cp s = (s', r)"
  have "\<forall>c\<in>set (t_calls (pg_db s)). pe_fresh (pg_envs s (pg_tick s)) \<noteq> c_id c"
    using i by (simp add: calls_pg_inv_def fresh_ok_def)
  then show "calls_pg_inv s' \<and> calls_evolve (t_calls (pg_db s)) (t_calls (pg_db s'))"
    using create_effect [OF calls_pg_inv_ok [OF i]]
    by (intro pg_run_effect [OF i c [unfolded calls_pg_sel]]) blast
next
  fix s s' :: "calls_db pg" and w i t r
  assume i: "calls_pg_inv s" and c: "cr_expire_ringing_call calls_pg w i t s = (s', r)"
  show "calls_pg_inv s' \<and> calls_evolve (t_calls (pg_db s)) (t_calls (pg_db s'))"
    by (rule pg_run_effect [OF i c [unfolded calls_pg_sel]])
      (rule expire_one_effect [OF calls_pg_inv_ok [OF i]])
next
  fix s s' :: "calls_db pg" and t n rs
  assume i: "calls_pg_inv s" and c: "cr_expire_ringing calls_pg t n s = (s', rs)"
  show "calls_pg_inv s' \<and> calls_evolve (t_calls (pg_db s)) (t_calls (pg_db s'))"
    by (rule pg_run_effect [OF i c [unfolded calls_pg_sel]])
      (rule expire_effect [OF calls_pg_inv_ok [OF i]])
next
  fix s s' :: "calls_db pg" and gp rg
  assume "calls_pg_inv s" "cr_create_signal calls_pg gp s = (s', rg)"
  then show "calls_pg_inv s' \<and> t_calls (pg_db s') = t_calls (pg_db s)"
    using pg_run_frame pg_signal_frame by (metis calls_pg_sel(6))
next
  fix s s' :: "calls_db pg" and mp ru
  assume "calls_pg_inv s" "cr_create_call_message calls_pg mp s = (s', ru)"
  then show "calls_pg_inv s' \<and> t_calls (pg_db s') = t_calls (pg_db s)"
    using pg_run_frame pg_message_frame by (metis calls_pg_sel(7))
next
  fix s s' :: "calls_db pg" and w rz
  assume "calls_pg_inv s" "cr_workspace_zone_id calls_pg w s = (s', rz)"
  then show "calls_pg_inv s' \<and> t_calls (pg_db s') = t_calls (pg_db s)"
    using pg_run_frame pg_zone_frame by (metis calls_pg_sel(8))
qed (rule pg_get_law pg_update_law; assumption)+

end
