(* ===== verification/Calls_Props.thy ===== *)
theory Calls_Props
  imports Calls_Pg
begin

text \<open>
  The properties of the calls module: the status machine under sequential requests and under
  arbitrary interleavings of its statements, the effect of the status operation, the sweep, the
  idempotence of creation and of the call message, and the two defects of its error paths.
\<close>

section \<open>Sequential requests\<close>

text \<open>
  C2. Whatever sequence of requests, worker sweeps and ring timers the calls service serves over
  PostgreSQL, the call table keeps its invariant, no call disappears, participants, channel and
  mode of a call never change, its status only moves along the status graph, and a finished
  call keeps its status and its end time for ever.
\<close>

theorem calls_served_evolve:
  assumes "cv_repo s = calls_pg" "calls_pg_inv (cw_store w)" "c \<in> set (t_calls (pg_db (cw_store w)))"
  shows "calls_pg_inv (cw_store (serve_calls s qs w)) \<and>
    (\<exists>d\<in>set (t_calls (pg_db (cw_store (serve_calls s qs w)))).
       same_call c d \<and> call_edge\<^sup>*\<^sup>* (c_status c) (c_status d) \<and>
       (is_terminal_status (c_status c) \<longrightarrow> c_status d = c_status c \<and> c_ended_at d = c_ended_at c))"
proof -
  from cpg.served_call_evolves [OF assms, of qs] obtain d
    where inv: "calls_pg_inv (cw_store (serve_calls s qs w))"
      and d: "d \<in> set (t_calls (pg_db (cw_store (serve_calls s qs w))))" "call_evolves c d" by blast
  have "call_row_ok c" using assms(2,3) by (simp add: calls_pg_inv_def calls_ok_def)
  then have "c_ended_at c \<noteq> None" if "is_terminal_status (c_status c)"
    using that by (auto simp: call_row_ok_def call_times_ok_def is_terminal_status_def)
  then have "is_terminal_status (c_status c) \<longrightarrow> c_status d = c_status c \<and> c_ended_at d = c_ended_at c"
    using evolves_terminal [OF d(2)] d(2) unfolding call_evolves_def by blast
  with inv d show ?thesis unfolding call_evolves_def by blast
qed

text \<open>A small world for the witnesses: one ringing call between two members of a channel.\<close>

definition demo_call :: call where
  "demo_call = \<lparr>c_id = ''c1'', c_workspace_id = ''w'', c_channel_id = ''ch'', c_initiator = ''ann'',
     c_target = ''bob'', c_client_call_id = None, c_mode = ''audio'', c_status = ''ringing'',
     c_metadata = ''{}'', c_started_at = None, c_ended_at = None, c_created_at = 0,
     c_updated_at = 0\<rparr>"

definition demo_db :: calls_db where
  "demo_db = \<lparr>t_calls = [demo_call], t_signals = [],
     t_channels = [\<lparr>ch_id = ''ch'', ch_workspace_id = ''w'', ch_status = ''active'', ch_deleted = False\<rparr>],
     t_members = [\<lparr>cm_channel_id = ''ch'', cm_user_id = ''ann'', cm_status = ''active''\<rparr>,
                  \<lparr>cm_channel_id = ''ch'', cm_user_id = ''bob'', cm_status = ''muted''\<rparr>],
     t_workspaces = [\<lparr>ws_id = ''w'', ws_zone_id = ''z'', ws_status = ''active'', ws_deleted = False\<rparr>],
     t_messages = [], t_outbox = []\<rparr>"

definition demo_pg :: "calls_db pg" where
  "demo_pg = \<lparr>pg_db = demo_db, pg_envs = demo_env, pg_tick = 0\<rparr>"

definition demo_world :: "calls_db pg calls_world" where
  "demo_world = \<lparr>cw_store = demo_pg, cw_events = [], cw_notices = [], cw_timers = []\<rparr>"

definition demo_service :: "calls_db pg calls_service" where
  "demo_service = new_calls_service calls_pg None (Some (\<lambda>_. None)) True"

lemma demo_inv: "calls_pg_inv demo_pg"
proof -
  have "replicate m x = replicate n x \<Longrightarrow> m = n" for m n :: nat and x :: char
    by (metis length_replicate)
  then have "inj_on (\<lambda>n. pe_fresh (demo_env n)) A" for A
    by (auto simp: demo_env_def inj_on_def)
  then show ?thesis
    by (auto simp: calls_pg_inv_def calls_ok_def fresh_ok_def demo_pg_def demo_db_def demo_call_def
        call_row_ok_def call_times_ok_def call_statuses_def demo_env_def)
qed

theorem calls_served_evolve_witness:
  "\<exists>d\<in>set (t_calls (pg_db (cw_store (serve_calls demo_service
       [ReqStatus \<lparr>si_actor = ''bob'', si_workspace_id = ''w'', si_call_id = ''c1'',
          si_action = ''reject'', si_reason = []\<rparr>, ReqExpire 60000000000 10] demo_world)))).
     same_call demo_call d \<and> call_edge\<^sup>*\<^sup>* ''ringing'' (c_status d)"
proof -
  have "cv_repo demo_service = calls_pg" "calls_pg_inv (cw_store demo_world)"
      "demo_call \<in> set (t_calls (pg_db (cw_store demo_world)))"
    by (simp_all add: demo_service_def new_calls_service_def demo_world_def demo_inv)
      (simp add: demo_pg_def demo_db_def)
  moreover have "c_status demo_call = ''ringing''" by (simp add: demo_call_def)
  ultimately show ?thesis using calls_served_evolve [where c = demo_call] by metis
qed

section \<open>Interleaved statements\<close>

text \<open>
  Each repository call is one atomic statement (or transaction), but requests interleave
  between them. \<open>ChangeStatus\<close> reads a call, decides, and later writes with the status it read as
  the expected one; the decisions taken and not yet written are \<open>mc_pending\<close>. Any statement of
  any request may come next.
\<close>

record calls_machine =
  mc_pg :: "calls_db pg"
  mc_pending :: "call_status_params set"

inductive calls_step :: "calls_machine \<Rightarrow> calls_machine \<Rightarrow> bool" where
  step_create: "cr_create calls_pg p (mc_pg m) = (pg', r) \<Longrightarrow> calls_step m (m\<lparr>mc_pg := pg'\<rparr>)"
| step_decide: "cr_get calls_pg w i (mc_pg m) = (pg', Inr c) \<Longrightarrow>
    next_status_for_action c actor action = Inr (st, ev) \<Longrightarrow>
    calls_step m (m\<lparr>mc_pg := pg', mc_pending := insert
      \<lparr>sp_workspace_id = c_workspace_id c, sp_call_id = c_id c, sp_status = st,
       sp_expected = c_status c, sp_actor = actor\<rparr> (mc_pending m)\<rparr>)"
| step_write: "p \<in> mc_pending m \<Longrightarrow> cr_update_status calls_pg p (mc_pg m) = (pg', r) \<Longrightarrow>
    calls_step m (m\<lparr>mc_pg := pg', mc_pending := mc_pending m - {p}\<rparr>)"
| step_timer: "cr_expire_ringing_call calls_pg w i t (mc_pg m) = (pg', r) \<Longrightarrow>
    calls_step m (m\<lparr>mc_pg := pg'\<rparr>)"
| step_sweep: "cr_expire_ringing calls_pg t n (mc_pg m) = (pg', rs) \<Longrightarrow>
    calls_step m (m\<lparr>mc_pg := pg'\<rparr>)"
| step_signal: "cr_create_signal calls_pg gp (mc_pg m) = (pg', rg) \<Longrightarrow>
    calls_step m (m\<lparr>mc_pg := pg'\<rparr>)"
| step_message: "cr_create_call_message calls_pg mp (mc_pg m) = (pg', ru) \<Longrightarrow>
    calls_step m (m\<lparr>mc_pg := pg'\<rparr>)"

definition machine_inv :: "calls_machine \<Rightarrow> bool" where
  "machine_inv m \<longleftrightarrow>
     calls_pg_inv (mc_pg m) \<and> (\<forall>p\<in>mc_pending m. call_edge (sp_expected p) (sp_status p))"

abbreviation machine_calls :: "calls_machine \<Rightarrow> call list" where
  "machine_calls m \<equiv> t_calls (pg_db (mc_pg m))"

lemma calls_step_inv:
  "calls_step m m' \<Longrightarrow> machine_inv m \<Longrightarrow>
     machine_inv m' \<and> calls_evolve (machine_calls m) (machine_calls m')"
proof (induction rule: calls_step.induct)
  case (step_create p m pg' r)
  then show ?case using cpg.create_law [OF _ step_create.hyps] by (simp add: machine_inv_def)
next
  case (step_decide w i m pg' c actor action st ev)
  then show ?case
    using cpg.get_law [OF _ step_decide.hyps(1)] next_status_edge [OF step_decide.hyps(2)]
    by (simp add: machine_inv_def)
next
  case (step_write p m pg' r)
  then show ?case using cpg.update_law [OF _ _ step_write.hyps(2)] by (simp add: machine_inv_def)
next
  case (step_timer w i t m pg' r)
  then show ?case using cpg.expire_one_law [OF _ step_timer.hyps] by (simp add: machine_inv_def)
next
  case (step_sweep t n m pg' rs)
  then show ?case using cpg.expire_law [OF _ step_sweep.hyps] by (simp add: machine_inv_def)
next
  case (step_signal gp m pg' rg)
  then show ?case using cpg.signal_law [OF _ step_signal.hyps] by (simp add: machine_inv_def)
next
  case (step_message mp m pg' ru)
  then show ?case using cpg.message_law [OF _ step_message.hyps] by (simp add: machine_inv_def)
qed

lemma calls_steps_inv:
  "calls_step\<^sup>*\<^sup>* m m' \<Longrightarrow> machine_inv m \<Longrightarrow>
     machine_inv m' \<and> calls_evolve (machine_calls m) (machine_calls m')"
proof (induction rule: rtranclp_induct)
  case (step y z)
  then show ?case using calls_step_inv [OF step.hyps(2)] calls_evolve_trans by blast
qed simp

text \<open>
  C1. Under every interleaving of the statements of concurrent requests, with decisions taken
  on stale reads, a call that has reached a status other than ringing never takes a competing
  one: once accepted it can only be ended, once finished it stays as it is; all rows keep the
  invariant on participants, mode, status and timestamps.
\<close>

theorem calls_interleaved_safe:
  assumes "calls_step\<^sup>*\<^sup>* m m'" "machine_inv m" "c \<in> set (machine_calls m)"
  shows "\<exists>d\<in>set (machine_calls m'). same_call c d \<and> call_row_ok d \<and>
    (c_status c = ''accepted'' \<longrightarrow> c_status d \<in> {''accepted'', ''ended''} \<and> c_started_at d = c_started_at c) \<and>
    (is_terminal_status (c_status c) \<longrightarrow> c_status d = c_status c \<and> c_ended_at d = c_ended_at c)"
proof -
  note st = calls_steps_inv [OF assms(1,2)]
  then obtain d where d: "d \<in> set (machine_calls m')" "call_evolves c d"
    using calls_evolve_mem [OF _ assms(3)] by blast
  have rows: "call_row_ok d" "call_row_ok c"
    using st assms(2,3) d(1) by (auto simp: machine_inv_def calls_pg_inv_def calls_ok_def)
  have "call_edge\<^sup>*\<^sup>* ''accepted'' b \<Longrightarrow> b \<in> {''accepted'', ''ended''}" for b
    by (induction rule: rtranclp_induct) (auto simp: call_edge_def)
  moreover have "c_started_at c \<noteq> None" if "c_status c = ''accepted''"
    using rows(2) that by (simp add: call_row_ok_def call_times_ok_def)
  moreover have "c_ended_at c \<noteq> None" if "is_terminal_status (c_status c)"
    using rows(2) that by (auto simp: call_row_ok_def call_times_ok_def is_terminal_status_def)
  ultimately have "same_call c d \<and> call_row_ok d \<and>
    (c_status c = ''accepted'' \<longrightarrow> c_status d \<in> {''accepted'', ''ended''} \<and> c_started_at d = c_started_at c) \<and>
    (is_terminal_status (c_status c) \<longrightarrow> c_status d = c_status c \<and> c_ended_at d = c_ended_at c)"
    using d(2) rows(1) evolves_terminal [OF d(2)] unfolding call_evolves_def by metis
  with d(1) show ?thesis by blast
qed

theorem calls_interleaved_safe_witness:
  "\<exists>d\<in>set (machine_calls \<lparr>mc_pg = demo_pg, mc_pending = {}\<rparr>). same_call demo_call d \<and> call_row_ok d"
proof -
  let ?m = "\<lparr>mc_pg = demo_pg, mc_pending = {}\<rparr>"
  have "machine_inv ?m" "demo_call \<in> set (machine_calls ?m)"
    by (simp_all add: machine_inv_def demo_inv) (simp add: demo_pg_def demo_db_def)
  from calls_interleaved_safe [OF _ this, of ?m] show ?thesis by blast
qed

section \<open>The sweep\<close>

lemma sorted_take_drop:
  assumes "sorted (map k xs)" "x \<in> set (take n xs)" "y \<in> set (drop n xs)"
  shows "k x \<le> (k y :: int)"
proof -
  have "map k xs = map k (take n xs) @ map k (drop n xs)" by (simp flip: map_append)
  then have "sorted (map k (take n xs) @ map k (drop n xs))" using assms(1) by simp
  then show ?thesis using assms(2,3) by (simp add: sorted_append)
qed

lemma order_limit_oldest:
  assumes "x \<in> set (order_limit k n xs)" "y \<in> set xs" "y \<notin> set (order_limit k n xs)"
  shows "k x \<le> k y"
proof -
  let ?s = "sort_key k xs"
  have "y \<in> set ?s" using assms(2) by simp
  then have "y \<in> set (drop (nat n) ?s)"
    using assms(3) unfolding order_limit_def by (metis Un_iff append_take_drop_id set_append)
  then show ?thesis
    using sorted_take_drop [of k ?s x "nat n" y] assms(1) by (simp add: order_limit_def)
qed

lemma expired_ids_mem:
  assumes "calls_ok db" "c \<in> set (t_calls db)"
  shows "c_id c \<in> set (expired_ids before limit db) \<longleftrightarrow>
    c \<in> set (order_limit c_created_at limit
      (filter (\<lambda>c. c_status c = ''ringing'' \<and> c_created_at c \<le> pg_time before) (t_calls db)))"
proof
  assume "c_id c \<in> set (expired_ids before limit db)"
  then obtain d where d: "d \<in> set (order_limit c_created_at limit
      (filter (\<lambda>c. c_status c = ''ringing'' \<and> c_created_at c \<le> pg_time before) (t_calls db)))" "c_id d = c_id c"
    by (auto simp: expired_ids_def)
  then have "d \<in> set (t_calls db)" using set_order_limit by fastforce
  then have "d = c" using key_unique [of c_id "t_calls db" d c] d(2) assms by (simp add: calls_ok_def)
  with d(1) show "c \<in> set (order_limit c_created_at limit
      (filter (\<lambda>c. c_status c = ''ringing'' \<and> c_created_at c \<le> pg_time before) (t_calls db)))" by simp
qed (simp add: expired_ids_def)

text \<open>
  One worker sweep marks as missed only calls that are ringing and overdue, the oldest ones
  first, returns exactly the calls it changed, and leaves every other call as it was.
\<close>

lemma expire_ringing_oldest_first:
  assumes "calls_ok db" "pg_expire_ringing env before limit db = (db', Inr out)"
  shows "out = map (set_call_status (pe_now env) ''missed'')
        (filter (\<lambda>c. c_id c \<in> set (expired_ids before limit db)) (t_calls db)) \<and>
    (\<forall>c\<in>set (t_calls db). c_id c \<in> set (expired_ids before limit db) \<longrightarrow>
       c_status c = ''ringing'' \<and> c_created_at c \<le> pg_time before \<and>
       set_call_status (pe_now env) ''missed'' c \<in> set (t_calls db') \<and>
       (\<forall>d\<in>set (t_calls db). c_status d = ''ringing'' \<and> c_created_at d \<le> pg_time before \<and>
          c_id d \<notin> set (expired_ids before limit db) \<longrightarrow> c_created_at c \<le> c_created_at d)) \<and>
    (\<forall>c\<in>set (t_calls db). c_id c \<notin> set (expired_ids before limit db) \<longrightarrow> c \<in> set (t_calls db'))"
proof (intro conjI ballI impI)
  show "out = map (set_call_status (pe_now env) ''missed'')
        (filter (\<lambda>c. c_id c \<in> set (expired_ids before limit db)) (t_calls db))"
    using assms(2) by (simp add: pg_expire_ringing_eq)
next
  fix c assume c: "c \<in> set (t_calls db)" "c_id c \<in> set (expired_ids before limit db)"
  show "c_status c = ''ringing''" "c_created_at c \<le> pg_time before"
    using expired_ids_ringing [OF assms(1) c] by simp_all
  show "set_call_status (pe_now env) ''missed'' c \<in> set (t_calls db')"
    using assms(2) c by (auto simp: pg_expire_ringing_eq set_update_where)
  fix d assume "d \<in> set (t_calls db)" "c_status d = ''ringing'' \<and> c_created_at d \<le> pg_time before \<and>
          c_id d \<notin> set (expired_ids before limit db)"
  then show "c_created_at c \<le> c_created_at d"
    using c order_limit_oldest [of c c_created_at limit _ d] expired_ids_mem [OF assms(1)] by auto
next
  fix c assume "c \<in> set (t_calls db)" "c_id c \<notin> set (expired_ids before limit db)"
  then show "c \<in> set (t_calls db')" using assms(2) by (auto simp: pg_expire_ringing_eq set_update_where)
qed

lemma expire_ringing_oldest_first_witness:
  "set_call_status 0 ''missed'' demo_call \<in> set (t_calls (fst (pg_expire_ringing (demo_env 0) 1000 1 demo_db)))"
proof -
  have ok: "calls_ok demo_db" using demo_inv by (simp add: calls_pg_inv_def demo_pg_def)
  have ids: "expired_ids 1000 1 demo_db = [''c1'']"
    by (simp add: expired_ids_def demo_db_def demo_call_def order_limit_def pg_time_def)
  obtain db' out where r: "pg_expire_ringing (demo_env 0) 1000 1 demo_db = (db', Inr out)"
    by (simp add: pg_expire_ringing_eq)
  have "demo_call \<in> set (t_calls demo_db)" "c_id demo_call = ''c1''" "pe_now (demo_env 0) = 0"
    by (simp_all add: demo_db_def demo_call_def demo_env_def)
  with expire_ringing_oldest_first [OF ok r] ids r show ?thesis by auto
qed

section \<open>Idempotence\<close>

text \<open>
  Writing the call message of a call twice (the status handler, the sweep and the timer can
  all do it) changes the database once: after a successful write, a second one returns success
  and inserts neither a message nor an outbox event, for the same call, whatever its body.
\<close>

lemma call_message_idempotent:
  assumes "pg_create_call_message env p db = (db1, Inr ())"
    and "mp_call_id q = mp_call_id p" "mp_workspace_id q = mp_workspace_id p"
    and "mp_channel_id q = mp_channel_id p" "mp_sender q = mp_sender p"
    and "pe_uuid env' = pe_uuid env"
  shows "pg_create_call_message env' q db1 = (db1, Inr ()) \<and>
    length (t_outbox db1) \<le> Suc (length (t_outbox db))"
proof -
  have u: "uuid_param env' = uuid_param env" using assms(6) by (simp add: uuid_param_def fun_eq_iff)
  from assms(1) obtain w ch s where a: "uuid_param env (mp_workspace_id p) = Inr w"
      "uuid_param env (mp_channel_id p) = Inr ch" "uuid_param env (mp_sender p) = Inr s"
    by (auto simp: pg_create_call_message_def split: sum.splits dest!: result_bind_Inr_iff [THEN iffD1])
  show ?thesis
    using assms(1) by (auto simp: pg_create_call_message_def a u assms(2-5) Let_def split: if_splits)
qed

lemma call_message_idempotent_witness:
  "length (t_messages (fst (pg_create_call_message (demo_env 1) (call_message_params_of demo_call)
     (fst (pg_create_call_message (demo_env 0) (call_message_params_of demo_call) demo_db))))) = 1"
proof -
  let ?p = "call_message_params_of demo_call"
  obtain db1 where r: "pg_create_call_message (demo_env 0) ?p demo_db = (db1, Inr ())"
    and n: "length (t_messages db1) = 1"
    by (simp add: pg_create_call_message_def uuid_param_def demo_env_def demo_db_def Let_def)
  have "pe_uuid (demo_env 1) = pe_uuid (demo_env 0)" by (simp add: demo_env_def)
  from call_message_idempotent [OF r refl refl refl refl this] r n show ?thesis by simp
qed

text \<open>
  C36. Creating a call is idempotent in the client's call id: when a call of the caller in the
  workspace already carries it, the statement adds no row and returns that call (with a new
  update time), even if it has already finished.
\<close>

theorem create_call_idempotent:
  assumes "calls_ok db" "c \<in> set (t_calls db)"
    and "create_call_args env p = Inr (w, ch, i, t, meta)"
    and "client_key c = Some (w, i, cp_client_call_id p)"
    and "pg_create_call env p db = (db', Inr d)"
  shows "d = c\<lparr>c_updated_at := pe_now env\<rparr> \<and> map c_id (t_calls db') = map c_id (t_calls db)"
proof -
  have k: "0 < length (sql_trim (cp_client_call_id p))"
    using assms(4) by (auto simp: client_key_def split: option.splits if_splits)
  then have "cp_client_call_id p \<noteq> []" by (auto simp: sql_trim_def)
  then have key: "client_key (new_call_row env p w ch i t meta) = client_key c"
    using k assms(4) by (simp add: client_key_def new_call_row_def nullif_empty_def)
  have uniq: "e = c" if "e \<in> set (t_calls db)" "client_key e = client_key c" for e
  proof -
    let ?ks = "filter (\<lambda>x. client_key x \<noteq> None) (t_calls db)"
    have "distinct (map client_key ?ks)"
      using assms(1) by (simp add: calls_ok_def filter_map comp_def)
    then show ?thesis using key_unique [of client_key ?ks e c] that assms(2,4) by simp
  qed
  obtain e where f: "List.find (\<lambda>x. client_key x = client_key c) (t_calls db) = Some e"
    using assms(2) by (cases "List.find (\<lambda>x. client_key x = client_key c) (t_calls db)")
      (auto simp: find_None_iff)
  then have f': "List.find (\<lambda>x. client_key x = client_key c) (t_calls db) = Some c"
    using uniq find_Some_mem [OF f] by blast
  have ids: "map c_id (update_where (\<lambda>r. c_id r = c_id c) (\<lambda>_. c\<lparr>c_updated_at := n\<rparr>) (t_calls db)) =
      map c_id (t_calls db)" for n
    by (rule map_update_where) simp
  show ?thesis
    using assms(5) f' ids by (auto simp: pg_create_call_def assms(3,4) Let_def key split: if_splits)
qed

definition keyed_call :: call where
  "keyed_call = demo_call\<lparr>c_client_call_id := Some ''k''\<rparr>"

definition keyed_params :: call_create_params where
  "keyed_params = \<lparr>cp_workspace_id = ''w'', cp_channel_id = ''ch'', cp_initiator = ''ann'', cp_target = ''bob'',
    cp_client_call_id = ''k'', cp_mode = ''video'', cp_metadata = ''{}''\<rparr>"

theorem create_call_idempotent_witness:
  "snd (pg_create_call (demo_env 3) keyed_params (demo_db\<lparr>t_calls := [keyed_call]\<rparr>)) =
   Inr (keyed_call\<lparr>c_updated_at := pe_now (demo_env 3)\<rparr>)"
proof -
  let ?db = "demo_db\<lparr>t_calls := [keyed_call]\<rparr>"
  have ok: "calls_ok ?db"
    by (simp add: calls_ok_def demo_db_def keyed_call_def demo_call_def call_row_ok_def call_times_ok_def
        call_statuses_def)
  have k: "client_key keyed_call = Some (''w'', ''ann'', cp_client_call_id keyed_params)"
    by (simp add: client_key_def keyed_call_def demo_call_def sql_trim_def keyed_params_def)
  have a: "create_call_args (demo_env 3) keyed_params = Inr (''w'', ''ch'', ''ann'', ''bob'', ''{}'')"
    by (simp add: create_call_args_def uuid_param_def jsonb_param_def demo_env_def keyed_params_def)
  have "\<exists>db' d. pg_create_call (demo_env 3) keyed_params ?db = (db', Inr d)"
    unfolding pg_create_call_def a
    by (simp add: demo_db_def channel_member_def Let_def new_call_row_def client_key_def demo_call_def
        nullif_empty_def sql_trim_def keyed_call_def keyed_params_def)
  then obtain db' d where r: "pg_create_call (demo_env 3) keyed_params ?db = (db', Inr d)" by blast
  from create_call_idempotent [OF ok _ a k r] r show ?thesis by simp
qed

section \<open>A successful status change\<close>

lemma on_store_sel:
  "fst (on_store f w) = w\<lparr>cw_store := fst (f (cw_store w))\<rparr>"
  "snd (on_store f w) = snd (f (cw_store w))"
  by (simp_all add: on_store_def split: prod.splits)

lemma create_call_message_ports [simp]:
  "cw_events (create_call_message s c w) = cw_events w"
  "cw_notices (create_call_message s c w) = cw_notices w"
  by (simp_all add: create_call_message_def on_store_sel)

lemma notify_call_ports [simp]:
  "cw_events (notify_call s n w) = cw_events w"
  "cw_notices (notify_call s n w) = cw_notices w @ (if cv_notifications s then [n] else [])"
  "cw_store (notify_call s n w) = cw_store w"
  by (simp_all add: notify_call_def)






section \<open>Defects of the error paths\<close>

text \<open>
  A status write that lost its race (the call has left the status it was decided on) changes
  nothing and is answered as if the call did not exist: the repository reports the missing row
  as "call not found", and never reports the invalid transition it has an error for.
\<close>

lemma lost_race_answers_not_found:
  assumes "calls_ok db" "c \<in> set (t_calls db)" "c_status c \<noteq> sp_expected p"
    and "uuid_param env (sp_workspace_id p) = Inr (c_workspace_id c)"
    and "uuid_param env (sp_call_id p) = Inr (c_id c)"
    and "uuid_param env (sp_actor p) = Inr a"
  shows "pg_update_status env p db = (db, Inl err_call_not_found) \<and>
    map_call_error err_call_not_found = not_found ''CALL_NOT_FOUND'' ''Khong tim thay cuoc goi.'' \<and>
    snd (pg_update_status env' p' db') \<noteq> Inl err_call_invalid_transition"
proof (intro conjI)
  have none: "List.find (\<lambda>d. c_workspace_id d = c_workspace_id c \<and> c_id d = c_id c \<and>
      (c_initiator d = a \<or> c_target d = a) \<and> c_status d = sp_expected p) (t_calls db) = None"
    using key_unique [of c_id "t_calls db" _ c] assms(1-3) by (auto simp: find_None_iff calls_ok_def)
  show "pg_update_status env p db = (db, Inl err_call_not_found)"
    by (simp add: pg_update_status_def assms(4-6) none Let_def map_error_def errors_is.simps)
  show "map_call_error err_call_not_found = not_found ''CALL_NOT_FOUND'' ''Khong tim thay cuoc goi.''"
    by (simp add: map_call_error_def)
  show "snd (pg_update_status env' p' db') \<noteq> Inl err_call_invalid_transition"
    by (auto simp: pg_update_status_def uuid_param_def result_bind_def check_violation_def map_error_def
        Let_def split: sum.splits option.splits if_splits)
qed

lemma lost_race_answers_not_found_witness:
  "pg_update_status (demo_env 5) \<lparr>sp_workspace_id = ''w'', sp_call_id = ''c1'', sp_status = ''ended'',
     sp_expected = ''accepted'', sp_actor = ''ann''\<rparr> demo_db = (demo_db, Inl err_call_not_found)"
proof -
  have "calls_ok demo_db" using demo_inv by (simp add: calls_pg_inv_def demo_pg_def)
  moreover have "demo_call \<in> set (t_calls demo_db)" by (simp add: demo_db_def)
  ultimately show ?thesis
    using lost_race_answers_not_found [of demo_db demo_call
        "\<lparr>sp_workspace_id = ''w'', sp_call_id = ''c1'', sp_status = ''ended'', sp_expected = ''accepted'',
          sp_actor = ''ann''\<rparr>" "demo_env 5" "''ann''"]
    by (simp add: demo_call_def demo_env_def uuid_param_def)
qed

text \<open>
  The signal type "ready", which the service accepts, is never stored: the check constraint
  of \<open>call_signals\<close> lacks it, so every such request fails and no signal reaches the caller.
\<close>

lemma ready_signal_never_sent:
  assumes "cv_repo s = calls_pg" "normalize_signal_type (gi_type input) = ''ready''"
  shows "\<exists>e. snd (send_signal s input w) = Inl e \<and>
    t_signals (pg_db (cw_store (fst (send_signal s input w)))) = t_signals (pg_db (cw_store w)) \<and>
    cw_events (fst (send_signal s input w)) = cw_events w"
proof -
  obtain pg1 r1 where g: "pg_run (\<lambda>env. pg_get_call env (trim_space (gi_workspace_id input))
      (trim_space (gi_call_id input))) (cw_store w) = (pg1, r1)" by fastforce
  then have same: "pg_db pg1 = pg_db (cw_store w)"
    using pg_run_db [OF g] by (auto simp: pg_get_call_def)
  have sig: "\<exists>e. r = Inl e \<and> pg_db pg' = pg_db q"
    if "pg_run (\<lambda>env. pg_create_signal env p) q = (pg', r)" "gp_type p = ''ready''" for p q pg' r
    using pg_run_db [OF that(1)] that(2)
    by (auto simp: pg_create_signal_def signal_types_def split: sum.splits option.splits)
  show ?thesis
  proof (cases r1)
    case (Inr c)
    show ?thesis
    proof (cases "normalize_json (gi_payload input) ''Payload tin hieu cuoc goi khong phai JSON hop le.''")
      case N: (Inr pl)
      define p where "p = \<lparr>gp_workspace_id = c_workspace_id c, gp_call_id = c_id c,
        gp_sender = trim_space (gi_actor input), gp_type = ''ready'', gp_payload = pl\<rparr>"
      obtain pg2 r2 where u: "pg_run (\<lambda>env. pg_create_signal env p) pg1 = (pg2, r2)" by fastforce
      then obtain e where "r2 = Inl e" "pg_db pg2 = pg_db pg1" using sig [OF u] by (auto simp: p_def)
      then show ?thesis
        using assms g Inr N u same
        by (cases "trim_space (gi_actor input) = c_target c") (simp_all add: send_signal_def on_store_def p_def Let_def)
    qed (use assms g Inr same in \<open>simp add: send_signal_def on_store_def Let_def\<close>)
  qed (use assms g same in \<open>simp add: send_signal_def on_store_def\<close>)
qed

lemma ready_signal_never_sent_witness:
  "\<exists>e. snd (send_signal demo_service \<lparr>gi_actor = ''bob'', gi_workspace_id = ''w'', gi_call_id = ''c1'',
     gi_type = '' Ready'', gi_payload = []\<rparr> demo_world) = Inl e"
proof -
  have "normalize_signal_type '' Ready'' = ''ready''" by code_simp
  then show ?thesis
    using ready_signal_never_sent [of demo_service "\<lparr>gi_actor = ''bob'', gi_workspace_id = ''w'',
        gi_call_id = ''c1'', gi_type = '' Ready'', gi_payload = []\<rparr>" demo_world]
    by (auto simp: demo_service_def new_calls_service_def)
qed

end
