(* ===== verification/Ws_Manager.thy ===== *)
theory Ws_Manager
  imports Shared
begin

text \<open>
  \<open>platform/websocket/manager.go\<close>: connected clients, rooms and broadcasts on one node. Clients
  are heap objects (the maps hold pointers), their \<open>Send\<close> channels are bounded queues that can be
  closed, and a channel operation that would panic in Go gives \<open>None\<close>. A Go map is visited in an
  arbitrary order, so a broadcast takes the order it visits the room's members in.
\<close>

record 'p ws_event =
  we_type :: string
  we_room :: string
  we_user_id :: string
  we_payload :: "string \<rightharpoonup> 'p"
  we_timestamp :: "time option"

record 'p chan =
  ch_queue :: "'p ws_event list"
  ch_cap :: nat
  ch_closed :: bool

record 'p ws_client =
  wc_id :: string
  wc_user_id :: string
  wc_zone_id :: string
  wc_send :: "'p chan option"

record 'p ws_manager =
  wm_clients :: "string \<rightharpoonup> nat"
  wm_rooms :: "string \<rightharpoonup> string set"
  wm_heap :: "nat \<rightharpoonup> 'p ws_client"

definition new_ws_manager :: "'p ws_manager" where
  "new_ws_manager = \<lparr>wm_clients = Map.empty, wm_rooms = Map.empty, wm_heap = Map.empty\<rparr>"

definition make_chan :: "nat \<Rightarrow> 'p chan" where
  "make_chan n = \<lparr>ch_queue = [], ch_cap = n, ch_closed = False\<rparr>"

section \<open>Channels\<close>

text \<open>\<open>close(ch)\<close> of a nil or closed channel panics.\<close>

definition close_chan :: "'p chan option \<Rightarrow> 'p chan option" where
  "close_chan c = (case c of None \<Rightarrow> None | Some ch \<Rightarrow> if ch_closed ch then None else Some (ch\<lparr>ch_closed := True\<rparr>))"

text \<open>
  \<open>select { case ch <- ev: default: }\<close>: a closed channel panics, a nil or full one takes the
  default.
\<close>

definition try_send :: "'p ws_event \<Rightarrow> 'p chan option \<Rightarrow> 'p chan option option" where
  "try_send ev c =
    (case c of
       None \<Rightarrow> Some None
     | Some ch \<Rightarrow>
         if ch_closed ch then None
         else if length (ch_queue ch) < ch_cap ch then Some (Some (ch\<lparr>ch_queue := ch_queue ch @ [ev]\<rparr>))
         else Some (Some ch))"

section \<open>Rooms\<close>

definition user_room :: "string \<Rightarrow> string \<Rightarrow> string" where
  "user_room zone user =
    (let z = trim_space zone; u = trim_space user in
     if z = [] \<or> u = [] then [] else ''zone:'' @ z @ '':user:'' @ u)"

definition room_add :: "string \<Rightarrow> string \<Rightarrow> (string \<rightharpoonup> string set) \<Rightarrow> (string \<rightharpoonup> string set)" where
  "room_add room i rooms =
    rooms(room \<mapsto> insert i (case rooms room of None \<Rightarrow> {} | Some members \<Rightarrow> members))"

definition room_remove :: "string \<Rightarrow> string set option \<Rightarrow> string set option" where
  "room_remove i members =
    (case members of None \<Rightarrow> None | Some ms \<Rightarrow> if ms - {i} = {} then None else Some (ms - {i}))"

definition room_members :: "string \<Rightarrow> 'p ws_manager \<Rightarrow> string set" where
  "room_members room m = (case wm_rooms m room of None \<Rightarrow> {} | Some ms \<Rightarrow> ms)"

section \<open>Operations under the lock\<close>

definition own_room :: "'p ws_client \<Rightarrow> string" where
  "own_room c = user_room (wc_zone_id c) (wc_user_id c)"

definition ws_register :: "nat option \<Rightarrow> 'p ws_manager \<Rightarrow> 'p ws_manager \<times> go_error option" where
  "ws_register p m =
    (case Option.bind p (\<lambda>a. map_option (Pair a) (wm_heap m a)) of
       None \<Rightarrow> (m, Some (Plain ''ma client WebSocket la bat buoc''))
     | Some (a, c) \<Rightarrow>
       if wc_id c = [] then (m, Some (Plain ''ma client WebSocket la bat buoc''))
       else
         (let c1 = (case wc_send c of None \<Rightarrow> c\<lparr>wc_send := Some (make_chan 32)\<rparr> | Some _ \<Rightarrow> c);
              m1 = m\<lparr>wm_heap := (wm_heap m)(a \<mapsto> c1), wm_clients := (wm_clients m)(wc_id c1 \<mapsto> a)\<rparr>;
              room = own_room c1
          in ((if room \<noteq> [] then m1\<lparr>wm_rooms := room_add room (wc_id c1) (wm_rooms m1)\<rparr> else m1), None)))"

definition ws_unregister :: "string \<Rightarrow> 'p ws_manager \<Rightarrow> 'p ws_manager option" where
  "ws_unregister i m =
    (case (case Option.bind (wm_clients m i) (\<lambda>a. map_option (Pair a) (wm_heap m a)) of
             None \<Rightarrow> Some m
           | Some (a, c) \<Rightarrow>
               (case close_chan (wc_send c) of
                  None \<Rightarrow> None
                | Some ch \<Rightarrow> Some (m\<lparr>wm_heap := (wm_heap m)(a \<mapsto> c\<lparr>wc_send := Some ch\<rparr>),
                                     wm_clients := (wm_clients m)(i := None)\<rparr>))) of
       None \<Rightarrow> None
     | Some m1 \<Rightarrow> Some (m1\<lparr>wm_rooms := (\<lambda>r. room_remove i (wm_rooms m1 r))\<rparr>))"

definition ws_join :: "string \<Rightarrow> string \<Rightarrow> 'p ws_manager \<Rightarrow> 'p ws_manager" where
  "ws_join room i m =
    (case Option.bind (wm_clients m i) (wm_heap m) of
       None \<Rightarrow> m
     | Some c \<Rightarrow>
         if has_prefix room ''zone:'' \<and> contains room '':user:'' \<and> room \<noteq> own_room c then m
         else m\<lparr>wm_rooms := room_add room i (wm_rooms m)\<rparr>)"

definition ws_leave :: "string \<Rightarrow> string \<Rightarrow> 'p ws_manager \<Rightarrow> 'p ws_manager" where
  "ws_leave room i m = m\<lparr>wm_rooms := (wm_rooms m)(room := room_remove i (wm_rooms m room))\<rparr>"

definition ws_is_member :: "string \<Rightarrow> string \<Rightarrow> 'p ws_manager \<Rightarrow> bool" where
  "ws_is_member room i m \<longleftrightarrow> i \<in> room_members room m"

definition ws_is_user_member :: "string \<Rightarrow> string \<Rightarrow> 'p ws_manager \<Rightarrow> bool" where
  "ws_is_user_member room user m \<longleftrightarrow>
    (\<exists>i\<in>room_members room m. case Option.bind (wm_clients m i) (wm_heap m) of
       Some c \<Rightarrow> wc_user_id c = user | None \<Rightarrow> False)"

definition ws_stats :: "'p ws_manager \<Rightarrow> nat \<times> nat" where
  "ws_stats m = (card (dom (wm_clients m)), card (dom (wm_rooms m)))"

section \<open>Broadcast\<close>

definition stamp_event :: "time \<Rightarrow> string \<Rightarrow> 'p ws_event \<Rightarrow> 'p ws_event" where
  "stamp_event now room ev =
    (let e1 = (case we_timestamp ev of None \<Rightarrow> ev\<lparr>we_timestamp := Some now\<rparr> | Some _ \<Rightarrow> ev)
     in if we_room e1 = [] then e1\<lparr>we_room := room\<rparr> else e1)"

text \<open>The pointers collected under the read lock.\<close>

definition broadcast_targets :: "string list \<Rightarrow> 'p ws_manager \<Rightarrow> nat list" where
  "broadcast_targets order m = List.map_filter (wm_clients m) order"

text \<open>One iteration of the delivery loop, after the lock is released.\<close>

definition deliver_one :: "'p ws_event \<Rightarrow> nat \<Rightarrow> 'p ws_manager \<Rightarrow> 'p ws_manager option" where
  "deliver_one ev a m =
    (case wm_heap m a of
       None \<Rightarrow> Some m
     | Some c \<Rightarrow>
         (case try_send ev (wc_send c) of
            None \<Rightarrow> None
          | Some ch \<Rightarrow> Some (m\<lparr>wm_heap := (wm_heap m)(a \<mapsto> c\<lparr>wc_send := ch\<rparr>)\<rparr>)))"

datatype bc_result = BcOk | BcCancelled | BcPanic

text \<open>
  The loop over the targets when nothing else runs in between; \<open>stop\<close> is the number of
  iterations after which the \<open>ctx.Done\<close> case is taken, if it is.
\<close>

fun deliver_all :: "nat option \<Rightarrow> 'p ws_event \<Rightarrow> nat list \<Rightarrow> 'p ws_manager \<Rightarrow> 'p ws_manager \<times> bc_result" where
  "deliver_all stop ev [] m = (m, BcOk)"
| "deliver_all stop ev (a # as) m =
    (if stop = Some 0 then (m, BcCancelled)
     else (case deliver_one ev a m of
             None \<Rightarrow> (m, BcPanic)
           | Some m' \<Rightarrow> deliver_all (map_option (\<lambda>n. n - 1) stop) ev as m'))"

definition ws_broadcast ::
    "time \<Rightarrow> nat option \<Rightarrow> string list \<Rightarrow> string \<Rightarrow> 'p ws_event \<Rightarrow> 'p ws_manager \<Rightarrow> 'p ws_manager \<times> bc_result" where
  "ws_broadcast now stop order room ev m =
    deliver_all stop (stamp_event now room ev) (broadcast_targets order m) m"

text \<open>The orders a room's members can be visited in.\<close>

definition visit_order :: "string \<Rightarrow> 'p ws_manager \<Rightarrow> string list \<Rightarrow> bool" where
  "visit_order room m order \<longleftrightarrow> distinct order \<and> set order = room_members room m"

section \<open>Invariant\<close>

text \<open>
  Every registered id points to an open client of that id, no two ids to the same client, rooms
  are never empty and hold only registered ids.
\<close>

definition clients_ok :: "(string \<rightharpoonup> nat) \<Rightarrow> (nat \<rightharpoonup> 'p ws_client) \<Rightarrow> bool" where
  "clients_ok clients heap \<longleftrightarrow>
    (\<forall>i a. clients i = Some a \<longrightarrow>
       (\<exists>c ch. heap a = Some c \<and> wc_id c = i \<and> wc_send c = Some ch \<and> \<not> ch_closed ch))"

definition rooms_ok :: "string set \<Rightarrow> (string \<rightharpoonup> string set) \<Rightarrow> bool" where
  "rooms_ok ids rooms \<longleftrightarrow> (\<forall>r ms. rooms r = Some ms \<longrightarrow> ms \<noteq> {} \<and> ms \<subseteq> ids)"

definition ws_ok :: "'p ws_manager \<Rightarrow> bool" where
  "ws_ok m \<longleftrightarrow> clients_ok (wm_clients m) (wm_heap m) \<and> rooms_ok (dom (wm_clients m)) (wm_rooms m)"

lemma ws_okD:
  "ws_ok m \<Longrightarrow> wm_clients m i = Some a \<Longrightarrow>
    \<exists>c ch. wm_heap m a = Some c \<and> wc_id c = i \<and> wc_send c = Some ch \<and> \<not> ch_closed ch"
  by (simp add: ws_ok_def clients_ok_def)

lemma ws_ok_inj: "ws_ok m \<Longrightarrow> wm_clients m i = Some a \<Longrightarrow> wm_clients m j = Some a \<Longrightarrow> i = j"
  by (metis ws_okD option.inject)

lemma ws_ok_rooms: "ws_ok m \<Longrightarrow> room_members r m \<subseteq> dom (wm_clients m)"
  by (auto simp: ws_ok_def rooms_ok_def room_members_def split: option.splits)

lemma ws_ok_new [inv_intro]: "ws_ok new_ws_manager"
  by (simp add: ws_ok_def new_ws_manager_def clients_ok_def rooms_ok_def)

lemma rooms_ok_mono: "rooms_ok A rooms \<Longrightarrow> A \<subseteq> B \<Longrightarrow> rooms_ok B rooms"
  by (auto simp: rooms_ok_def)

lemma rooms_ok_add: "rooms_ok A rooms \<Longrightarrow> i \<in> A \<Longrightarrow> rooms_ok A (room_add x i rooms)"
  by (auto simp: rooms_ok_def room_add_def split: option.splits)

lemma rooms_ok_remove_all: "rooms_ok A rooms \<Longrightarrow> rooms_ok (A - {i}) (\<lambda>r. room_remove i (rooms r))"
  by (auto simp: rooms_ok_def room_remove_def split: option.splits if_splits)

lemma rooms_ok_remove: "rooms_ok A rooms \<Longrightarrow> rooms_ok A (rooms(x := room_remove i (rooms x)))"
  by (auto simp: rooms_ok_def room_remove_def split: option.splits if_splits)

text \<open>Registering a client whose object is not registered and whose channel is not closed.\<close>

lemma ws_ok_register [inv_intro]:
  assumes "ws_ok m" "wm_heap m a = Some c" "wm_clients m (wc_id c) = None"
    and "\<forall>ch. wc_send c = Some ch \<longrightarrow> \<not> ch_closed ch"
  shows "ws_ok (fst (ws_register (Some a) m))"
proof (cases "wc_id c = []")
  case False
  define c1 where "c1 = (case wc_send c of None \<Rightarrow> c\<lparr>wc_send := Some (make_chan 32)\<rparr> | Some _ \<Rightarrow> c)"
  have c1: "wc_id c1 = wc_id c" "\<exists>ch. wc_send c1 = Some ch \<and> \<not> ch_closed ch"
    using assms(4) by (auto simp: c1_def make_chan_def split: option.splits)
  have "wm_clients m i \<noteq> Some a" for i using ws_okD [OF assms(1), of i a] assms(2,3) by auto
  then have "clients_ok ((wm_clients m)(wc_id c1 \<mapsto> a)) ((wm_heap m)(a \<mapsto> c1))"
    using assms(1) c1 by (auto simp: ws_ok_def clients_ok_def)
  moreover have "rooms_ok (insert (wc_id c1) (dom (wm_clients m))) (wm_rooms m)"
    using assms(1) by (auto simp: ws_ok_def intro: rooms_ok_mono)
  ultimately show ?thesis
    using assms(2) False by (simp add: ws_register_def ws_ok_def rooms_ok_add Let_def flip: c1_def)
qed (use assms in \<open>simp add: ws_register_def\<close>)

lemma ws_unregister_ok:
  assumes "ws_ok m"
  obtains m' where "ws_unregister i m = Some m'" "ws_ok m'"
    "wm_clients m' = (wm_clients m)(i := None)"
proof (cases "wm_clients m i")
  case None
  have "rooms_ok (dom (wm_clients m) - {i}) (\<lambda>r. room_remove i (wm_rooms m r))"
    using assms by (simp add: ws_ok_def rooms_ok_remove_all)
  moreover have "dom (wm_clients m) - {i} = dom (wm_clients m)" using None by auto
  moreover have "(wm_clients m)(i := None) = wm_clients m" using None by auto
  ultimately show ?thesis
    using assms None that [of "m\<lparr>wm_rooms := (\<lambda>r. room_remove i (wm_rooms m r))\<rparr>"]
    by (simp add: ws_unregister_def ws_ok_def)
next
  case (Some a)
  from ws_okD [OF assms Some] obtain c ch
    where c: "wm_heap m a = Some c" "wc_id c = i" "wc_send c = Some ch" "\<not> ch_closed ch" by blast
  have "wm_clients m j = Some a \<Longrightarrow> j = i" for j using ws_ok_inj [OF assms _ Some] by blast
  then have "clients_ok ((wm_clients m)(i := None)) ((wm_heap m)(a \<mapsto> c\<lparr>wc_send := Some (ch\<lparr>ch_closed := True\<rparr>)\<rparr>))"
    using assms by (auto simp: ws_ok_def clients_ok_def)
  moreover have "rooms_ok (dom (wm_clients m) - {i}) (\<lambda>r. room_remove i (wm_rooms m r))"
    using assms by (simp add: ws_ok_def rooms_ok_remove_all)
  ultimately show ?thesis
    using Some c that
    by (simp add: ws_unregister_def close_chan_def ws_ok_def)
qed

lemma ws_ok_join [inv_intro]: "ws_ok m \<Longrightarrow> ws_ok (ws_join room i m)"
  by (auto simp: ws_join_def ws_ok_def intro!: rooms_ok_add split: option.splits bind_splits)

lemma ws_ok_leave [inv_intro]: "ws_ok m \<Longrightarrow> ws_ok (ws_leave room i m)"
  by (simp add: ws_leave_def ws_ok_def rooms_ok_remove)

section \<open>Delivery\<close>

text \<open>What one broadcast does to one channel.\<close>

definition offer :: "'p ws_event \<Rightarrow> 'p ws_client \<Rightarrow> 'p ws_client" where
  "offer ev c =
    (case wc_send c of
       Some ch \<Rightarrow> if \<not> ch_closed ch \<and> length (ch_queue ch) < ch_cap ch
                  then c\<lparr>wc_send := Some (ch\<lparr>ch_queue := ch_queue ch @ [ev]\<rparr>)\<rparr> else c
     | None \<Rightarrow> c)"

definition open_at :: "'p ws_manager \<Rightarrow> nat \<Rightarrow> bool" where
  "open_at m a \<longleftrightarrow> (\<exists>c ch. wm_heap m a = Some c \<and> wc_send c = Some ch \<and> \<not> ch_closed ch)"

lemma deliver_one_open:
  assumes "wm_heap m a = Some c" "wc_send c = Some ch" "\<not> ch_closed ch"
  shows "deliver_one ev a m = Some (m\<lparr>wm_heap := (wm_heap m)(a \<mapsto> offer ev c)\<rparr>)"
  using assms by (cases c) (auto simp: deliver_one_def try_send_def offer_def)

lemma offer_sel [simp]: "wc_id (offer ev c) = wc_id c" "wc_user_id (offer ev c) = wc_user_id c"
  "wc_zone_id (offer ev c) = wc_zone_id c"
  by (auto simp: offer_def split: option.split)

lemma offer_open: "wc_send c = Some ch \<Longrightarrow> \<not> ch_closed ch \<Longrightarrow> \<exists>ch'. wc_send (offer ev c) = Some ch' \<and> \<not> ch_closed ch'"
  by (auto simp: offer_def)

lemma deliver_all_open:
  assumes "\<forall>a\<in>set as. open_at m a" "distinct as"
  shows "deliver_all None ev as m =
    (m\<lparr>wm_heap := (\<lambda>a. if a \<in> set as then map_option (offer ev) (wm_heap m a) else wm_heap m a)\<rparr>, BcOk)"
  using assms
proof (induction as arbitrary: m)
  case (Cons a as)
  obtain c ch where c: "wm_heap m a = Some c" "wc_send c = Some ch" "\<not> ch_closed ch"
    using Cons.prems by (auto simp: open_at_def)
  let ?m = "m\<lparr>wm_heap := (wm_heap m)(a \<mapsto> offer ev c)\<rparr>"
  have "\<forall>b\<in>set as. open_at ?m b" using Cons.prems by (auto simp: open_at_def)
  then have "deliver_all None ev as ?m = (?m\<lparr>wm_heap :=
      (\<lambda>b. if b \<in> set as then map_option (offer ev) (wm_heap ?m b) else wm_heap ?m b)\<rparr>, BcOk)"
    using Cons by simp
  moreover have "(\<lambda>b. if b \<in> set as then map_option (offer ev) (wm_heap ?m b) else wm_heap ?m b) =
      (\<lambda>b. if b \<in> set (a # as) then map_option (offer ev) (wm_heap m b) else wm_heap m b)"
    using Cons.prems(2) c(1) by (auto simp: fun_eq_iff)
  ultimately show ?case using deliver_one_open [OF c] by simp
qed simp

lemma broadcast_targets_mem:
  "a \<in> set (broadcast_targets order m) \<longleftrightarrow> (\<exists>i\<in>set order. wm_clients m i = Some a)"
  by (induction order) (auto simp: broadcast_targets_def map_filter_simps split: option.splits)

lemma broadcast_targets_distinct:
  "ws_ok m \<Longrightarrow> distinct order \<Longrightarrow> distinct (broadcast_targets order m)"
proof (induction order)
  case (Cons i order)
  then show ?case
    using broadcast_targets_mem [of _ order m] ws_ok_inj [OF Cons.prems(1)]
    by (auto simp: broadcast_targets_def map_filter_simps split: option.splits)
qed (simp add: broadcast_targets_def map_filter_simps)

lemma broadcast_effect:
  assumes "ws_ok m" "visit_order room m order"
  shows "ws_broadcast now None order room ev m =
    (m\<lparr>wm_heap := (\<lambda>a. if \<exists>i\<in>room_members room m. wm_clients m i = Some a
        then map_option (offer (stamp_event now room ev)) (wm_heap m a) else wm_heap m a)\<rparr>, BcOk)"
proof -
  have "\<forall>a\<in>set (broadcast_targets order m). open_at m a"
    using ws_okD [OF assms(1)] by (auto simp: broadcast_targets_mem open_at_def) blast
  moreover have "distinct (broadcast_targets order m)"
    using assms by (simp add: broadcast_targets_distinct visit_order_def)
  ultimately show ?thesis
    using assms(2) by (simp add: ws_broadcast_def deliver_all_open broadcast_targets_mem visit_order_def)
qed

text \<open>
  C33. A broadcast that nothing else interrupts reaches exactly the room: it does not panic, every
  member's channel gets the event, with the room and a time filled in, if it has space left and
  drops it otherwise, whatever the visiting order, and nothing else changes.
\<close>

theorem broadcast_reaches_room:
  assumes "ws_ok m" "visit_order room m order"
  shows "ws_broadcast now None order room ev m =
    (m\<lparr>wm_heap := (\<lambda>a. if \<exists>i\<in>room_members room m. wm_clients m i = Some a
        then map_option (offer (stamp_event now room ev)) (wm_heap m a) else wm_heap m a)\<rparr>, BcOk)"
  using assms by (rule broadcast_effect)

definition demo_manager :: "string ws_manager" where
  "demo_manager = \<lparr>wm_clients = [''c'' \<mapsto> 0], wm_rooms = [''r'' \<mapsto> {''c''}],
     wm_heap = [0 \<mapsto> \<lparr>wc_id = ''c'', wc_user_id = ''u'', wc_zone_id = ''z'', wc_send = Some (make_chan 1)\<rparr>]\<rparr>"

theorem broadcast_reaches_room_witness:
  "snd (ws_broadcast 7 None [''c''] ''r'' \<lparr>we_type = ''T'', we_room = [], we_user_id = ''u'',
     we_payload = Map.empty, we_timestamp = None\<rparr> demo_manager) = BcOk"
proof -
  have "ws_ok demo_manager"
    by (auto simp: ws_ok_def demo_manager_def clients_ok_def rooms_ok_def make_chan_def)
  moreover have "visit_order ''r'' demo_manager [''c'']"
    by (simp add: visit_order_def room_members_def demo_manager_def)
  ultimately show ?thesis by (simp add: broadcast_reaches_room)
qed

end
