(* ===== verification/Calls_Realtime.thy ===== *)
theory Calls_Realtime
  imports Calls_Domain Ws_Manager
begin











end
