(* ===== verification/Cron_Schedule.thy ===== *)
theory Cron_Schedule
  imports Go_Time
begin

text \<open>
  \<open>cronjobs/application/schedule.go\<close>: the cron field parser and \<open>NextRun\<close>. The stepping loop
  \<open>for i := start; i <= end; i += step\<close> runs on 64-bit integers and is kept at that width;
  it is a partial function, and \<open>cron_fill_returns\<close> shows that it returns for all bounds
  and steps the parser can pass it.
\<close>

section \<open>Fields\<close>

record cron_field =
  cf_any :: bool
  cf_values :: "int set"

definition cron_matches :: "cron_field \<Rightarrow> int \<Rightarrow> bool" where
  "cron_matches f v \<longleftrightarrow> cf_any f \<or> v \<in> cf_values f"

definition parse_cron_number :: "string \<Rightarrow> int \<Rightarrow> int \<Rightarrow> int result" where
  "parse_cron_number value mn mx =
    (case atoi (trim_space value) of
       None \<Rightarrow> Inl (Plain ''khong phai so'')
     | Some n \<Rightarrow>
         if n < mn \<or> mx < n
         then Inl (Plain (''gia tri phai tu '' @ itoa mn @ '' den '' @ itoa mx))
         else Inr n)"

definition parse_cron_range :: "string \<Rightarrow> int \<Rightarrow> int \<Rightarrow> (int \<times> int) result" where
  "parse_cron_range value mn mx =
    (if value = ''*'' then Inr (mn, mx)
     else if contains value ''-'' then
       (case split_on (CHR ''-'') value of
          [a, b] \<Rightarrow>
            result_bind (parse_cron_number a mn mx) (\<lambda>start.
            result_bind (parse_cron_number b mn mx) (\<lambda>end.
            if end < start then Inl (Plain ''range bat dau lon hon ket thuc'')
            else Inr (start, end)))
        | _ \<Rightarrow> Inl (Plain ''range khong hop le''))
     else result_bind (parse_cron_number value mn mx) (\<lambda>n. Inr (n, n)))"

partial_function (option) cron_fill :: "int \<Rightarrow> int \<Rightarrow> int \<Rightarrow> int list option" where
  "cron_fill i e step =
    (if i \<le> e
     then Option.bind (cron_fill (wrap64 (i + step)) e step) (\<lambda>vs. Some (i # vs))
     else Some [])"

text \<open>
  One comma-separated part: its range and its step. The loop's values are \<open>the\<close> result of
  \<open>cron_fill\<close>, which is there for every part that parses (\<open>cron_part_returns\<close> below).
\<close>

definition parse_cron_part :: "string \<Rightarrow> int \<Rightarrow> int \<Rightarrow> ((int \<times> int) \<times> int) result" where
  "parse_cron_part part mn mx =
    (if contains part ''/'' then
       (case split_on (CHR ''/'') part of
          [r, st] \<Rightarrow>
            (case atoi st of
               None \<Rightarrow> Inl (Plain ''step phai la so duong'')
             | Some n \<Rightarrow>
                 if n \<le> 0 then Inl (Plain ''step phai la so duong'')
                 else result_bind (parse_cron_range r mn mx) (\<lambda>b. Inr (b, n)))
        | _ \<Rightarrow> Inl (Plain ''step khong hop le''))
     else result_bind (parse_cron_range part mn mx) (\<lambda>b. Inr (b, 1)))"

fun parse_cron_parts :: "string list \<Rightarrow> int \<Rightarrow> int \<Rightarrow> int set \<Rightarrow> (int set) result" where
  "parse_cron_parts [] mn mx acc = Inr acc"
| "parse_cron_parts (p # ps) mn mx acc =
    (let part = trim_space p in
     if part = [] then Inl (Plain ''gia tri rong'')
     else result_bind (parse_cron_part part mn mx) (\<lambda>((start, end), step).
       parse_cron_parts ps mn mx (acc \<union> set (the (cron_fill start end step)))))"

definition parse_cron_field :: "string \<Rightarrow> int \<Rightarrow> int \<Rightarrow> cron_field result" where
  "parse_cron_field value mn mx =
    (let v = trim_space value in
     if v = ''*'' then Inr \<lparr>cf_any = True, cf_values = {}\<rparr>
     else result_bind (parse_cron_parts (split_on (CHR '','') v) mn mx {}) (\<lambda>vs.
       if vs = {} then Inl (Plain ''khong co gia tri hop le'')
       else Inr \<lparr>cf_any = False, cf_values = vs\<rparr>))"

section \<open>NextRun\<close>

definition min_every_duration :: duration where "min_every_duration = 10 * ns_second"
definition max_every_duration :: duration where "max_every_duration = 366 * 24 * ns_hour"

text \<open>The five parsed fields; weekday 7 has become 0.\<close>

record cron_spec =
  cs_minute :: cron_field
  cs_hour :: cron_field
  cs_day :: cron_field
  cs_month :: cron_field
  cs_weekday :: cron_field

definition fold_sunday :: "cron_field \<Rightarrow> cron_field" where
  "fold_sunday f =
    (if 7 \<in> cf_values f then f\<lparr>cf_values := insert 0 (cf_values f) - {7}\<rparr> else f)"

definition wrap_err :: "string \<Rightarrow> 'a result \<Rightarrow> 'a result" where
  "wrap_err s m = map_error (Wrap s) m"

definition parse_cron_spec :: "string list \<Rightarrow> cron_spec result" where
  "parse_cron_spec fs =
    (case fs of
       [mi, ho, da, mo, wd] \<Rightarrow>
         result_bind (wrap_err ''truong phut khong hop le'' (parse_cron_field mi 0 59)) (\<lambda>minute.
         result_bind (wrap_err ''truong gio khong hop le'' (parse_cron_field ho 0 23)) (\<lambda>hour.
         result_bind (wrap_err ''truong ngay khong hop le'' (parse_cron_field da 1 31)) (\<lambda>day.
         result_bind (wrap_err ''truong thang khong hop le'' (parse_cron_field mo 1 12)) (\<lambda>month.
         result_bind (wrap_err ''truong thu khong hop le'' (parse_cron_field wd 0 7)) (\<lambda>weekday.
         Inr \<lparr>cs_minute = minute, cs_hour = hour, cs_day = day, cs_month = month,
              cs_weekday = fold_sunday weekday\<rparr>)))))
     | _ \<Rightarrow> Inl (Plain ''cron expression can 5 truong: phut gio ngay thang thu''))"

definition cron_due :: "cron_spec \<Rightarrow> time \<Rightarrow> bool" where
  "cron_due s t \<longleftrightarrow>
     cron_matches (cs_minute s) (minute_of t) \<and>
     cron_matches (cs_hour s) (hour_of t) \<and>
     cron_matches (cs_month s) (month_of t) \<and>
     cron_matches (cs_day s) (day_of t) \<and>
     cron_matches (cs_weekday s) (weekday t)"

function cron_search :: "(time \<Rightarrow> bool) \<Rightarrow> time \<Rightarrow> time \<Rightarrow> time option" where
  "cron_search due candidate deadline =
    (if candidate < deadline
     then if due candidate then Some candidate
          else cron_search due (candidate + ns_minute) deadline
     else None)"
  by pat_completeness auto
termination
  by (relation "measure (\<lambda>(due, c, d). nat (d - c))") (auto simp: ns_minute_def)

declare cron_search.simps [simp del]

definition next_run :: "string \<Rightarrow> time \<Rightarrow> time result" where
  "next_run schedule0 from_t =
    (let schedule = trim_space (to_lower schedule0) in
     if schedule = [] then Inl (Plain ''lich chay khong duoc de trong'')
     else if schedule = ''@hourly'' then Inr (truncate_to ns_hour from_t + ns_hour)
     else if schedule = ''@daily'' then
       Inr (date_midnight (year_of from_t) (month_of from_t) (day_of from_t + 1))
     else if schedule = ''@weekly'' then
       (let d0 = go_mod (8 - weekday from_t) 7;
            days_until_monday = (if d0 = 0 then 7 else d0)
        in Inr (date_midnight (year_of from_t) (month_of from_t)
                  (day_of from_t + days_until_monday)))
     else if has_prefix schedule ''@every '' then
       (case parse_duration (trim_space (trim_prefix schedule ''@every '')) of
          None \<Rightarrow> Inl (Plain ''lich @every phai nam trong khoang 10s den 8784h0m0s'')
        | Some d \<Rightarrow>
            if d < min_every_duration \<or> max_every_duration < d
            then Inl (Plain ''lich @every phai nam trong khoang 10s den 8784h0m0s'')
            else Inr (from_t + d))
     else result_bind (parse_cron_spec (str_fields schedule)) (\<lambda>spec.
       let candidate = truncate_to ns_minute from_t + ns_minute;
           deadline = candidate + 366 * 24 * ns_hour
       in case cron_search (cron_due spec) candidate deadline of
            Some t \<Rightarrow> Inr t
          | None \<Rightarrow> Inl (Plain ''khong tim thay lan chay ke tiep trong 366 ngay'')))"

section \<open>The stepping loop\<close>

declare cron_fill.simps [code]

lemma cron_fill_stop: "e < i \<Longrightarrow> cron_fill i e step = Some []"
  by (subst cron_fill.simps) simp

lemma cron_fill_step:
  "i \<le> e \<Longrightarrow> cron_fill (wrap64 (i + step)) e step = Some vs \<Longrightarrow> cron_fill i e step = Some (i # vs)"
  by (subst cron_fill.simps) simp

text \<open>Without overflow the loop yields the arithmetic progression from \<open>i\<close> up to \<open>e\<close>.\<close>

lemma cron_fill_progression:
  assumes "1 \<le> step" "step \<le> max_int64 - e" "min_int64 \<le> i"
  shows "\<exists>vs. cron_fill i e step = Some vs \<and>
           set vs = {v. i \<le> v \<and> v \<le> e \<and> step dvd v - i}"
  using assms
proof (induction "nat (e + 1 - i)" arbitrary: i rule: less_induct)
  case less
  show ?case
  proof (cases "i \<le> e")
    case True
    have w: "wrap64 (i + step) = i + step"
      using less.prems True by (intro wrap64_id) (simp add: in_int64_def)
    obtain vs where vs: "cron_fill (i + step) e step = Some vs"
        "set vs = {v. i + step \<le> v \<and> v \<le> e \<and> step dvd v - (i + step)}"
      using less.hyps [of "i + step"] less.prems True by force
    have dv: "step dvd v - (i + step) \<longleftrightarrow> step dvd v - i" for v
      by (metis diff_diff_eq dvd_diff_commute dvd_minus_iff dvd_add_triv_right_iff diff_add_cancel)
    have jump: "v = i \<or> i + step \<le> v" if "i \<le> v" "step dvd v - i" for v
      using that less.prems(1) zdvd_imp_le [of step "v - i"] by force
    have "insert i (set vs) = {v. i \<le> v \<and> v \<le> e \<and> step dvd v - i}"
      unfolding vs(2) dv using True less.prems(1) jump by fastforce
    then show ?thesis using cron_fill_step [OF True] vs(1) w by force
  next
    case False
    then show ?thesis by (auto simp: cron_fill_stop)
  qed
qed

text \<open>With overflow the counter falls by \<open>2 * (2^63 - step)\<close> every two rounds, and stops.\<close>

lemma cron_fill_overflow:
  assumes k: "k = max_int64 + 1 - step" "1 \<le> k" "k \<le> e" "e \<le> 1000" and i: "- k \<le> i" "i \<le> e"
  shows "cron_fill i e step \<noteq> None"
  using i
proof (induction "nat (i + k)" arbitrary: i rule: less_induct)
  case less
  note m = max_int64_def min_int64_def
  show ?case
  proof (cases "i < k")
    case True
    then have w: "wrap64 (i + step) = i + step"
      using k less.prems by (intro wrap64_id) (simp add: in_int64_def m)
    have "e < i + step" using k less.prems by (simp add: m)
    then show ?thesis
      using cron_fill_step [OF less.prems(2)] by (auto simp: w cron_fill_stop)
  next
    case False
    have w1: "wrap64 (i + step) = i - k - 9223372036854775808"
      using False k less.prems by (subst wrap64_over) (simp_all add: m)
    have w2: "wrap64 (i - k - 9223372036854775808 + step) = i - 2 * k"
      using False k less.prems by (subst wrap64_id) (simp_all add: in_int64_def m)
    have "cron_fill (i - 2 * k) e step \<noteq> None"
      using less.hyps [of "i - 2 * k"] less.prems False k by simp
    then obtain vs where "cron_fill (wrap64 (i - k - 9223372036854775808 + step)) e step = Some vs"
      unfolding w2 by blast
    then have "\<exists>us. cron_fill (wrap64 (i + step)) e step = Some us"
      unfolding w1 using cron_fill_step k less.prems by fastforce
    then show ?thesis using cron_fill_step [OF less.prems(2)] by blast
  qed
qed

lemma cron_fill_returns:
  assumes "1 \<le> step" "step \<le> max_int64" "0 \<le> i" "i \<le> e" "e \<le> 1000"
  shows "cron_fill i e step \<noteq> None"
proof (cases "step \<le> max_int64 - e")
  case True
  then show ?thesis using cron_fill_progression [of step e i] assms by (auto simp: min_int64_def)
next
  case False
  then show ?thesis using assms by (intro cron_fill_overflow [OF refl]) simp_all
qed

section \<open>What the parser accepts\<close>

lemma parse_cron_number_bounds:
  "parse_cron_number v mn mx = Inr n \<Longrightarrow> mn \<le> n \<and> n \<le> mx"
  by (auto simp: parse_cron_number_def split: option.splits if_splits)

lemma parse_cron_range_bounds:
  "parse_cron_range v mn mx = Inr (a, b) \<Longrightarrow> mn \<le> mx \<Longrightarrow> mn \<le> a \<and> a \<le> b \<and> b \<le> mx"
  by (auto simp: parse_cron_range_def result_bind_Inr_iff split: if_splits list.splits
      dest!: parse_cron_number_bounds)

lemma parse_cron_part_bounds:
  assumes "parse_cron_part v mn mx = Inr ((a, b), n)" "mn \<le> mx"
  shows "mn \<le> a \<and> a \<le> b \<and> b \<le> mx \<and> 1 \<le> n \<and> n \<le> max_int64"
  using assms
  by (auto simp: parse_cron_part_def result_bind_Inr_iff max_int64_def in_int64_def
      split: if_splits list.splits option.splits
      dest!: parse_cron_range_bounds atoi_range)

text \<open>
  The stepping loop of the cron field parser returns for every part the parser accepts,
  whatever the step, also where the 64-bit loop counter overflows.
\<close>

lemma cron_part_returns:
  assumes "parse_cron_part part mn mx = Inr ((start, end), step)"
    and "0 \<le> mn" "mn \<le> mx" "mx \<le> 1000"
  shows "\<exists>vs. cron_fill start end step = Some vs"
  using cron_fill_returns [of step start "end"] parse_cron_part_bounds [OF assms(1,3)] assms(2,4)
  by auto

lemma cron_part_returns_witness:
  "\<exists>vs. cron_fill 5 59 9223372036854775807 = Some vs"
proof -
  have "parse_cron_part ''5-59/9223372036854775807'' 0 59 = Inr ((5, 59), 9223372036854775807)" by code_simp
  from cron_part_returns [OF this] show ?thesis by simp
qed

text \<open>The meaning of a part: an arithmetic progression inside its range.\<close>

definition part_values :: "(int \<times> int) \<times> int \<Rightarrow> int set" where
  "part_values = (\<lambda>((a, b), n). {v. a \<le> v \<and> v \<le> b \<and> n dvd v - a})"

definition moderate_steps :: "string \<Rightarrow> int \<Rightarrow> int \<Rightarrow> bool" where
  "moderate_steps v mn mx \<longleftrightarrow>
     list_all (\<lambda>p. case parse_cron_part (trim_space p) mn mx of
        Inl _ \<Rightarrow> True | Inr (_, n) \<Rightarrow> n \<le> max_int64 - mx) (split_on (CHR '','') (trim_space v))"

lemma fill_part_values:
  assumes "parse_cron_part p mn mx = Inr ((a, b), n)" "0 \<le> mn" "mn \<le> mx" "n \<le> max_int64 - mx"
  shows "set (the (cron_fill a b n)) = part_values ((a, b), n)"
proof -
  have bd: "mn \<le> a \<and> a \<le> b \<and> b \<le> mx \<and> 1 \<le> n" using parse_cron_part_bounds [OF assms(1,3)] by simp
  then obtain vs where "cron_fill a b n = Some vs" "set vs = part_values ((a, b), n)"
    using cron_fill_progression [of n b a] assms(2,4) by (auto simp: part_values_def min_int64_def)
  then show ?thesis by simp
qed

lemma parse_cron_parts_values:
  assumes "0 \<le> mn" "mn \<le> mx" "parse_cron_parts ps mn mx acc = Inr vs"
    and "list_all (\<lambda>p. case parse_cron_part (trim_space p) mn mx of
        Inl _ \<Rightarrow> True | Inr (_, n) \<Rightarrow> n \<le> max_int64 - mx) ps"
  shows "vs = acc \<union> {v. \<exists>p\<in>set ps. \<exists>b. parse_cron_part (trim_space p) mn mx = Inr b \<and> v \<in> part_values b}"
  using assms(3,4)
proof (induction ps arbitrary: acc)
  case Nil
  then show ?case by simp
next
  case (Cons p ps)
  from Cons.prems(1) obtain a b n where part: "parse_cron_part (trim_space p) mn mx = Inr ((a, b), n)"
    and rest: "parse_cron_parts ps mn mx (acc \<union> set (the (cron_fill a b n))) = Inr vs"
    by (auto simp: Let_def result_bind_Inr_iff split: if_splits)
  have "set (the (cron_fill a b n)) = part_values ((a, b), n)"
    using fill_part_values [OF part assms(1,2)] Cons.prems(2) part by simp
  with Cons.IH [OF rest] Cons.prems(2) part show ?case by auto
qed

text \<open>
  A cron field that parses and is not \<open>*\<close> holds exactly the union of the progressions
  its parts denote (start, start + step, ... up to end), which is non-empty, and every value
  lies in the field's range, provided no step exceeds \<open>2^63 - 1 - max\<close>.
\<close>

lemma parse_cron_field_values:
  assumes "parse_cron_field v mn mx = Inr f" "0 \<le> mn" "mn \<le> mx" "trim_space v \<noteq> ''*''"
    and "moderate_steps v mn mx"
  shows "\<not> cf_any f \<and> cf_values f \<noteq> {} \<and> cf_values f \<subseteq> {mn..mx} \<and>
    cf_values f = (\<Union>b \<in> {b. \<exists>p\<in>set (split_on (CHR '','') (trim_space v)).
       parse_cron_part (trim_space p) mn mx = Inr b}. part_values b)"
proof -
  let ?ps = "split_on (CHR '','') (trim_space v)"
  from assms(1,4) obtain vs where vs: "parse_cron_parts ?ps mn mx {} = Inr vs" "vs \<noteq> {}"
      "f = \<lparr>cf_any = False, cf_values = vs\<rparr>"
    by (auto simp: parse_cron_field_def Let_def result_bind_Inr_iff split: if_splits)
  have eq: "vs = {v. \<exists>p\<in>set ?ps. \<exists>b. parse_cron_part (trim_space p) mn mx = Inr b \<and> v \<in> part_values b}"
    using parse_cron_parts_values [OF assms(2,3) vs(1)] assms(5) by (simp add: moderate_steps_def)
  have "vs \<subseteq> {mn..mx}"
    unfolding eq using parse_cron_part_bounds [OF _ assms(3)]
    by (fastforce simp: part_values_def)
  with vs(2,3) eq show ?thesis by auto
qed

lemma parse_cron_field_values_witness:
  "\<exists>f. parse_cron_field ''1-9/4'' 0 59 = Inr f \<and> cf_values f = {1, 5, 9}"
proof -
  have t: "trim_space ''1-9/4'' = ''1-9/4''" "split_on (CHR '','') ''1-9/4'' = [''1-9/4'']" by code_simp+
  have part: "parse_cron_part ''1-9/4'' 0 59 = Inr ((1, 9), 4)" by code_simp
  obtain vs where "cron_fill 1 9 4 = Some vs" "set vs = part_values ((1, 9), 4)"
    using cron_fill_progression [of 4 9 1] by (auto simp: part_values_def min_int64_def max_int64_def)
  moreover have pv: "part_values ((1, 9), 4) = {1, 5, 9}"
  proof -
    have "v = 1 \<or> v = 5 \<or> v = 9" if "1 \<le> v" "v \<le> 9" "4 dvd v - 1" for v :: int using that by presburger
    then show ?thesis by (auto simp: part_values_def)
  qed
  ultimately obtain f where f: "parse_cron_field ''1-9/4'' 0 59 = Inr f"
    using part by (simp add: parse_cron_field_def t)
  have "cf_values f = part_values ((1, 9), 4)"
    using parse_cron_field_values [OF f] part
    by (simp add: t moderate_steps_def max_int64_def)
  then show ?thesis using f pv by simp
qed

text \<open>
  The stepping loop overflows for steps near \<open>2^63\<close>: the accepted minute field
  \<open>59/9223372036854775807\<close>, which denotes minute 59 alone, also matches minute 57.
\<close>

lemma cron_step_overflow_matches_extra:
  "\<exists>f. parse_cron_field ''59/9223372036854775807'' 0 59 = Inr f \<and>
     part_values ((59, 59), 9223372036854775807) = {59} \<and> cron_matches f 57"
proof -
  have part: "parse_cron_part ''59/9223372036854775807'' 0 59 = Inr ((59, 59), 9223372036854775807)"
    by code_simp
  obtain vs where vs: "cron_fill 59 59 9223372036854775807 = Some vs"
    using cron_fill_returns [of 9223372036854775807 59 59] by (auto simp: max_int64_def)
  have "57 \<in> set vs"
    using vs by (auto simp: cron_fill.simps [of 59] cron_fill.simps [of "-9223372036854775750"]
        cron_fill.simps [of 57] wrap64_def Option.bind_eq_Some_conv)
  moreover have "split_on (CHR '','') ''59/9223372036854775807'' = [''59/9223372036854775807'']"
      "trim_space ''59/9223372036854775807'' = ''59/9223372036854775807''"
    by code_simp+
  ultimately show ?thesis
    using part vs by (auto simp: parse_cron_field_def cron_matches_def part_values_def Let_def)
qed

section \<open>The search for the next run\<close>

lemma cron_search_Some:
  "cron_search due c d = Some t \<Longrightarrow>
     due t \<and> c \<le> t \<and> t < d \<and> ns_minute dvd t - c \<and>
     (\<forall>u. c \<le> u \<and> u < t \<and> ns_minute dvd u - c \<longrightarrow> \<not> due u)"
proof (induction due c d rule: cron_search.induct)
  case (1 due c d)
  show ?case
  proof (cases "c < d \<and> \<not> due c")
    case True
    with "1.prems" have "cron_search due (c + ns_minute) d = Some t"
      by (simp add: cron_search.simps [of due c d])
    with 1 True have IH: "due t \<and> c + ns_minute \<le> t \<and> t < d \<and> ns_minute dvd t - (c + ns_minute) \<and>
       (\<forall>u. c + ns_minute \<le> u \<and> u < t \<and> ns_minute dvd u - (c + ns_minute) \<longrightarrow> \<not> due u)"
      by blast
    have dv: "ns_minute dvd u - (c + ns_minute) \<longleftrightarrow> ns_minute dvd u - c" for u
      by (metis diff_diff_eq dvd_diff_commute dvd_minus_iff dvd_add_triv_right_iff diff_add_cancel)
    have jump: "u = c \<or> c + ns_minute \<le> u" if "c \<le> u" "ns_minute dvd u - c" for u
      using that zdvd_imp_le [of ns_minute "u - c"] by (force simp: ns_minute_def)
    show ?thesis using IH True jump unfolding dv by (auto simp: ns_minute_def)
  next
    case False
    with "1.prems" show ?thesis by (auto simp: cron_search.simps [of due c d] split: if_splits)
  qed
qed

lemma cron_search_None:
  "cron_search due c d = None \<Longrightarrow> c \<le> u \<Longrightarrow> u < d \<Longrightarrow> ns_minute dvd u - c \<Longrightarrow> \<not> due u"
proof (induction due c d rule: cron_search.induct)
  case (1 due c d)
  from "1.prems" have c: "c < d" "\<not> due c" and rec: "cron_search due (c + ns_minute) d = None"
    by (auto simp: cron_search.simps [of due c d] split: if_splits)
  show ?case
  proof (cases "u = c")
    case False
    with "1.prems" have "c + ns_minute \<le> u"
      using zdvd_imp_le [of ns_minute "u - c"] by (force simp: ns_minute_def)
    moreover have "ns_minute dvd u - (c + ns_minute)"
      using "1.prems"(4) by (metis diff_diff_eq dvd_diff dvd_refl)
    ultimately show ?thesis using "1.IH" [OF c rec] "1.prems"(3) by blast
  qed (use c in simp)
qed

text \<open>The five-field schedules: those that are not one of the \<open>@\<close> forms.\<close>

definition cron_fields_form :: "string \<Rightarrow> bool" where
  "cron_fields_form schedule0 \<longleftrightarrow>
    (let s = trim_space (to_lower schedule0) in
     s \<noteq> [] \<and> s \<noteq> ''@hourly'' \<and> s \<noteq> ''@daily'' \<and> s \<noteq> ''@weekly'' \<and> \<not> has_prefix s ''@every '')"

definition search_limit :: "time \<Rightarrow> time" where
  "search_limit from_t = truncate_to ns_minute from_t + ns_minute + 366 * 24 * ns_hour"

lemma next_run_cron_eq:
  assumes "cron_fields_form schedule"
    and "parse_cron_spec (str_fields (trim_space (to_lower schedule))) = Inr spec"
  shows "next_run schedule from_t =
    (case cron_search (cron_due spec) (truncate_to ns_minute from_t + ns_minute) (search_limit from_t) of
       Some t \<Rightarrow> Inr t
     | None \<Rightarrow> Inl (Plain ''khong tim thay lan chay ke tiep trong 366 ngay''))"
  using assms by (simp add: next_run_def cron_fields_form_def search_limit_def Let_def)

lemma minute_grid:
  "ns_minute dvd u - (truncate_to ns_minute from_t + ns_minute) \<longleftrightarrow> ns_minute dvd u"
  "ns_minute dvd u \<Longrightarrow> from_t < u \<longleftrightarrow> truncate_to ns_minute from_t + ns_minute \<le> u"
proof -
  have d: "ns_minute dvd truncate_to ns_minute from_t + ns_minute" by simp
  then show "ns_minute dvd u - (truncate_to ns_minute from_t + ns_minute) \<longleftrightarrow> ns_minute dvd u"
    by (metis diff_add_cancel dvd_add dvd_diff)
  assume u: "ns_minute dvd u"
  have pos: "0 < ns_minute" by (simp add: ns_minute_def)
  show "from_t < u \<longleftrightarrow> truncate_to ns_minute from_t + ns_minute \<le> u"
  proof
    assume "from_t < u"
    then have "0 < u - truncate_to ns_minute from_t" using truncate_to_le [OF pos, of from_t] by simp
    moreover have "ns_minute dvd u - truncate_to ns_minute from_t" using u by simp
    ultimately show "truncate_to ns_minute from_t + ns_minute \<le> u"
      using zdvd_imp_le [of ns_minute "u - truncate_to ns_minute from_t"] by simp
  next
    assume "truncate_to ns_minute from_t + ns_minute \<le> u"
    then show "from_t < u" using truncate_to_gt [OF pos, of from_t] by simp
  qed
qed

text \<open>
  C30. For a five-field schedule that parses, \<open>NextRun\<close> returns exactly the first instant
  after \<open>from\<close> that is a whole minute and matches all five fields, within 366 days; it
  returns its "not found" error exactly when there is no such instant.
\<close>

theorem next_run_cron_least:
  assumes "cron_fields_form schedule"
    and "parse_cron_spec (str_fields (trim_space (to_lower schedule))) = Inr spec"
  shows "(next_run schedule from_t = Inr t \<longleftrightarrow>
      from_t < t \<and> t < search_limit from_t \<and> ns_minute dvd t \<and> cron_due spec t \<and>
      (\<forall>u. from_t < u \<and> u < t \<and> ns_minute dvd u \<longrightarrow> \<not> cron_due spec u)) \<and>
    ((\<exists>e. next_run schedule from_t = Inl e) \<longleftrightarrow>
      (\<forall>u. from_t < u \<and> u < search_limit from_t \<and> ns_minute dvd u \<longrightarrow> \<not> cron_due spec u))"
    (is "(_ \<longleftrightarrow> ?least t) \<and> ?missing")
proof -
  let ?s = "cron_search (cron_due spec) (truncate_to ns_minute from_t + ns_minute) (search_limit from_t)"
  note grid = minute_grid [of _ from_t]
  have some: "?least u" if "?s = Some u" for u
    using cron_search_Some [OF that] grid by auto
  have none: "\<not> cron_due spec u" if "?s = None" "from_t < u" "u < search_limit from_t" "ns_minute dvd u" for u
    using cron_search_None [OF that(1)] that grid by blast
  have uniq: "u = t" if "?least u" "?least t" for u
    using that by (meson linorder_neqE)
  have "next_run schedule from_t = Inr t \<longleftrightarrow> ?least t"
  proof (cases ?s)
    case None
    then show ?thesis using none [OF None] by (auto simp: next_run_cron_eq [OF assms])
  next
    case (Some u)
    then show ?thesis using some [OF Some] uniq by (auto simp: next_run_cron_eq [OF assms])
  qed
  moreover have ?missing
    by (cases ?s) (use none some in \<open>auto simp: next_run_cron_eq [OF assms]\<close>)
  ultimately show ?thesis by blast
qed

theorem next_run_cron_least_witness:
  "next_run ''1-59/2 0-6 * * Thu'' 0 \<noteq> Inr 60000000000 \<and>
   next_run ''1-59/2 0-6 1 * 4'' 0 = Inr 60000000000"
proof -
  let ?s = "''1-59/2 0-6 1 * 4''"
  have form: "cron_fields_form ?s" by code_simp
  obtain spec where spec: "parse_cron_spec (str_fields (trim_space (to_lower ?s))) = Inr spec"
    and due: "cron_due spec 60000000000"
  proof -
    have "case parse_cron_spec (str_fields (trim_space (to_lower ?s))) of
        Inl _ \<Rightarrow> False | Inr spec \<Rightarrow> cron_due spec 60000000000" by code_simp
    then show ?thesis using that by (auto split: sum.splits)
  qed
  have "ns_minute dvd u \<Longrightarrow> 0 < u \<Longrightarrow> ns_minute \<le> u" for u by (rule zdvd_imp_le)
  then have "next_run ?s 0 = Inr 60000000000"
    using next_run_cron_least [OF form spec, of 0 60000000000] due
    by (force simp: search_limit_def truncate_to_def ns_minute_def ns_hour_def)
  moreover have "next_run ''1-59/2 0-6 * * Thu'' 0 \<noteq> Inr 60000000000" by code_simp
  ultimately show ?thesis by simp
qed

lemma next_run_cron_bounds:
  assumes "cron_fields_form schedule"
    and "parse_cron_spec (str_fields (trim_space (to_lower schedule))) = Inr spec"
    and "next_run schedule from_t = Inr t"
  shows "from_t < t \<and> t < search_limit from_t"
proof -
  have "cron_search (cron_due spec) (truncate_to ns_minute from_t + ns_minute) (search_limit from_t) = Some t"
    using assms(3) by (simp add: next_run_cron_eq [OF assms(1,2)] split: option.splits)
  from cron_search_Some [OF this] show ?thesis
    using truncate_to_gt [of ns_minute from_t] by (simp add: ns_minute_def)
qed

section \<open>The named schedules\<close>

lemma weekday_range: "0 \<le> weekday t \<and> weekday t < 7"
  by (simp add: weekday_def)

lemma weekday_midnight: "weekday (d * ns_day) = (d + 719163) mod 7"
  by (simp add: weekday_def abs_day_def ns_day_def add.commute)

lemma day_bounds: "t div ns_day * ns_day \<le> t" "t < (t div ns_day + 1) * ns_day"
  using truncate_to_le [of ns_day t] truncate_to_gt [of ns_day t]
  by (simp_all add: truncate_to_def ns_day_def algebra_simps)

text \<open>The number of days \<open>NextRun\<close> adds for \<open>@weekly\<close>.\<close>

definition days_until_monday :: "time \<Rightarrow> int" where
  "days_until_monday t = (let d0 = go_mod (8 - weekday t) 7 in if d0 = 0 then 7 else d0)"

lemma days_until_monday_spec:
  "1 \<le> days_until_monday t \<and> days_until_monday t \<le> 7 \<and> (weekday t + days_until_monday t) mod 7 = 1"
proof -
  have w: "weekday t \<in> {0, 1, 2, 3, 4, 5, 6}" using weekday_range [of t] by auto
  then show ?thesis
    by (auto simp: days_until_monday_def go_mod_nonneg)
qed

text \<open>
  \<open>@daily\<close> schedules the next midnight, \<open>@hourly\<close> the next full hour, and \<open>@weekly\<close> the
  first Monday midnight after \<open>from\<close>, on the calendar arithmetic of \<open>time.Date\<close>.
\<close>

lemma next_run_named:
  "next_run ''@daily'' t = Inr ((t div ns_day + 1) * ns_day) \<and>
   next_run ''@hourly'' t = Inr ((t div ns_hour + 1) * ns_hour) \<and>
   next_run ''@weekly'' t = Inr ((t div ns_day + days_until_monday t) * ns_day) \<and>
   weekday ((t div ns_day + days_until_monday t) * ns_day) = 1 \<and>
   \<not> (\<exists>d. t div ns_day < d \<and> d < t div ns_day + days_until_monday t \<and> weekday (d * ns_day) = 1)"
proof -
  have n: "trim_space (to_lower ''@daily'') = ''@daily''" "trim_space (to_lower ''@hourly'') = ''@hourly''"
      "trim_space (to_lower ''@weekly'') = ''@weekly''"
    by code_simp+
  have eqs: "next_run ''@daily'' t = Inr ((t div ns_day + 1) * ns_day) \<and>
     next_run ''@hourly'' t = Inr ((t div ns_hour + 1) * ns_hour) \<and>
     next_run ''@weekly'' t = Inr ((t div ns_day + days_until_monday t) * ns_day)"
    by (simp add: next_run_def n Let_def date_midnight_civil truncate_to_def days_until_monday_def
        distrib_right del: to_lower.simps)
  have w: "weekday t = (t div ns_day + 719163) mod 7" by (simp add: weekday_def abs_day_def add.commute)
  have md: "weekday ((t div ns_day + k) * ns_day) = (weekday t + k) mod 7" for k
    unfolding weekday_midnight w mod_add_left_eq by (simp add: ac_simps)
  have no: "weekday (d * ns_day) \<noteq> 1" if "t div ns_day < d" "d < t div ns_day + days_until_monday t" for d
  proof
    assume one: "weekday (d * ns_day) = 1"
    define k where "k = d - t div ns_day"
    have k: "1 \<le> k" "k < days_until_monday t" using that by (simp_all add: k_def)
    have "(weekday t + k) mod 7 = (weekday t + days_until_monday t) mod 7"
      using md [of k] one days_until_monday_spec [of t] by (simp add: k_def)
    then have "7 dvd days_until_monday t - k" by (simp add: mod_eq_dvd_iff dvd_diff_commute)
    then show False using k days_until_monday_spec [of t] zdvd_imp_le by fastforce
  qed
  show ?thesis using eqs md [of "days_until_monday t"] days_until_monday_spec [of t] no by auto
qed

text \<open>
  Whatever the schedule, a successful \<open>NextRun\<close> lies strictly after \<open>from\<close> and at most
  366 days and one minute later, so a job that is rescheduled is never due at once.
\<close>

lemma next_run_after:
  assumes "next_run schedule from_t = Inr t"
  shows "from_t < t \<and> t \<le> from_t + 366 * ns_day + ns_minute"
proof -
  let ?s = "trim_space (to_lower schedule)"
  have pos: "0 < ns_minute" "0 < ns_hour" by (simp_all add: ns_defs)
  consider "?s = ''@hourly''" | "?s = ''@daily''" | "?s = ''@weekly''"
    | d where "t = from_t + d" "min_every_duration \<le> d" "d \<le> max_every_duration"
    | spec where "cron_fields_form schedule" "parse_cron_spec (str_fields ?s) = Inr spec"
  proof (cases "cron_fields_form schedule")
    case True
    then have "\<exists>spec. parse_cron_spec (str_fields ?s) = Inr spec"
      using assms by (auto simp: next_run_def cron_fields_form_def Let_def result_bind_Inr_iff)
    then show ?thesis using that(5) True by blast
  next
    case False
    then show ?thesis
      using that(1-4) assms
      by (auto simp: next_run_def cron_fields_form_def Let_def not_less split: if_splits option.splits)
  qed
  then show ?thesis
  proof cases
    case 1
    then have "t = truncate_to ns_hour from_t + ns_hour" using assms by (simp add: next_run_def)
    then show ?thesis
      using truncate_to_le [OF pos(2), of from_t] truncate_to_gt [OF pos(2), of from_t]
      by (simp add: ns_hour_def ns_day_def ns_minute_def)
  next
    case 2
    then have "t = (from_t div ns_day + 1) * ns_day"
      using assms by (simp add: next_run_def date_midnight_civil)
    then show ?thesis using day_bounds [of from_t] by (simp add: ns_day_def ns_minute_def)
  next
    case 3
    then have "t = (from_t div ns_day + days_until_monday from_t) * ns_day"
      using assms by (simp add: next_run_def date_midnight_civil days_until_monday_def Let_def)
    then show ?thesis using day_bounds [of from_t] days_until_monday_spec [of from_t]
      by (simp add: ns_day_def ns_minute_def)
  next
    case 4
    then show ?thesis by (simp add: min_every_duration_def max_every_duration_def ns_defs)
  next
    case 5
    then have "from_t < t \<and> t < search_limit from_t" using assms by (rule next_run_cron_bounds)
    then show ?thesis using truncate_to_le [OF pos(1), of from_t]
      by (simp add: search_limit_def ns_defs)
  qed
qed

end
