(* ===== verification/Go_Encoding.thy ===== *)
theory Go_Encoding
  imports Go_Json
begin

text \<open>
  \<open>encoding/base64\<close> (\<open>RawURLEncoding\<close>), \<open>encoding/hex\<close> and the writing side of
  \<open>encoding/json\<close> for flat objects, with the round trips through the readers.
\<close>

section \<open>base64.RawURLEncoding\<close>

abbreviation ibyte :: "char \<Rightarrow> int" where "ibyte c \<equiv> of_char c"

definition b64_char :: "int \<Rightarrow> char" where
  "b64_char v =
    (if v < 26 then char_of (65 + v) else if v < 52 then char_of (71 + v)
     else if v < 62 then char_of (v - 4) else if v = 62 then CHR ''-'' else CHR ''_'')"

definition b64_val :: "char \<Rightarrow> int option" where
  "b64_val c =
    (let x = ibyte c in
     if 65 \<le> x \<and> x \<le> 90 then Some (x - 65)
     else if 97 \<le> x \<and> x \<le> 122 then Some (x - 71)
     else if 48 \<le> x \<and> x \<le> 57 then Some (x + 4)
     else if c = CHR ''-'' then Some 62
     else if c = CHR ''_'' then Some 63
     else None)"

fun b64_encode :: "string \<Rightarrow> string" where
  "b64_encode [] = []"
| "b64_encode [a] = [b64_char (ibyte a div 4), b64_char (ibyte a mod 4 * 16)]"
| "b64_encode [a, b] =
    [b64_char (ibyte a div 4), b64_char (ibyte a mod 4 * 16 + ibyte b div 16),
     b64_char (ibyte b mod 16 * 4)]"
| "b64_encode (a # b # c # s) =
    [b64_char (ibyte a div 4), b64_char (ibyte a mod 4 * 16 + ibyte b div 16),
     b64_char (ibyte b mod 16 * 4 + ibyte c div 64), b64_char (ibyte c mod 64)] @ b64_encode s"

text \<open>
  The decoder skips carriage returns and line feeds, rejects padding and every other character
  outside the alphabet, and does not check unused trailing bits.
\<close>

fun b64_groups :: "int list \<Rightarrow> string option" where
  "b64_groups [] = Some []"
| "b64_groups [a] = None"
| "b64_groups [a, b] = Some [char_of (a * 4 + b div 16)]"
| "b64_groups [a, b, c] = Some [char_of (a * 4 + b div 16), char_of (b mod 16 * 16 + c div 4)]"
| "b64_groups (a # b # c # d # r) =
    map_option (\<lambda>t. [char_of (a * 4 + b div 16), char_of (b mod 16 * 16 + c div 4),
      char_of (c mod 4 * 64 + d)] @ t) (b64_groups r)"

definition b64_decode :: "string \<Rightarrow> string option" where
  "b64_decode s =
    (case those (map b64_val (filter (\<lambda>c. c \<noteq> CHR 0x0A \<and> c \<noteq> CHR 0x0D) s)) of
       None \<Rightarrow> None
     | Some vs \<Rightarrow> b64_groups vs)"

lemma ibyte_range: "0 \<le> ibyte c \<and> ibyte c < 256"
  by (cases c) (simp add: of_char_def horner_sum_eq_sum split: if_splits)

lemma ibyte_char_of [simp]: "0 \<le> v \<Longrightarrow> v < 256 \<Longrightarrow> ibyte (char_of v) = v"
  by (simp add: of_char_of)

lemma ibyte_eq_iff: "c = char_of v \<longleftrightarrow> ibyte c = v" if "0 \<le> v" "v < 256"
  using that by (metis char_of_char ibyte_char_of)

lemma b64_char_byte:
  "0 \<le> v \<Longrightarrow> v < 64 \<Longrightarrow> ibyte (b64_char v) =
    (if v < 26 then 65 + v else if v < 52 then 71 + v else if v < 62 then v - 4 else if v = 62 then 45 else 95)"
  by (simp add: b64_char_def)

lemma b64_val_char:
  assumes "0 \<le> v" "v < 64"
  shows "b64_val (b64_char v) = Some v"
proof -
  consider "v < 62" | "v = 62" | "v = 63" using assms by linarith
  then show ?thesis
    by cases (use assms in \<open>simp_all add: b64_val_def b64_char_byte Let_def b64_char_def\<close>)
qed

definition plain_char :: "char \<Rightarrow> bool" where
  "plain_char c \<longleftrightarrow> 45 \<le> ibyte c \<and> ibyte c \<le> 122 \<and> ibyte c \<noteq> 46"

lemma b64_char_plain:
  assumes "0 \<le> v" "v < 64"
  shows "plain_char (b64_char v)"
  using assms by (simp add: plain_char_def b64_char_byte)

lemma plain_char_simps:
  "\<not> plain_char (CHR 0x0A)" "\<not> plain_char (CHR 0x0D)" "\<not> plain_char (CHR ''.'')"
  by (simp_all add: plain_char_def)

lemma pack_range:
  fixes a b k n :: int
  assumes "0 \<le> a" "a < n" "0 \<le> b" "b < k"
  shows "0 \<le> a * k + b \<and> a * k + b < n * k"
proof -
  have "a * k \<le> (n - 1) * k" using assms by (intro mult_right_mono) simp_all
  then show ?thesis using assms by (simp add: left_diff_distrib)
qed

lemma div_range:
  fixes z n k :: int
  assumes "0 \<le> z" "z < n * k" "0 < k"
  shows "0 \<le> z div k \<and> z div k < n"
proof -
  have "z div k < n"
  proof (rule ccontr)
    assume "\<not> z div k < n"
    then have "n * k \<le> z div k * k" using assms by (intro mult_right_mono) simp_all
    also have "\<dots> \<le> z" using assms div_mult_mod_eq [of z k] pos_mod_sign [of k z] by linarith
    finally show False using assms by simp
  qed
  then show ?thesis using assms by (simp add: pos_imp_zdiv_nonneg_iff)
qed

lemma sextets:
  fixes x y :: int
  assumes "0 \<le> x" "x < 256" "0 \<le> y" "y < 256"
  shows "0 \<le> x div 4 \<and> x div 4 < 64" "0 \<le> x mod 4 * 16 \<and> x mod 4 * 16 < 64"
    "0 \<le> x mod 4 * 16 + y div 16 \<and> x mod 4 * 16 + y div 16 < 64"
    "0 \<le> x mod 16 * 4 \<and> x mod 16 * 4 < 64"
    "0 \<le> x mod 16 * 4 + y div 64 \<and> x mod 16 * 4 + y div 64 < 64"
    "0 \<le> x mod 64 \<and> x mod 64 < 64"
proof -
  note d = div_range
  have m: "0 \<le> x mod 4" "x mod 4 < 4" "0 \<le> x mod 16" "x mod 16 < 16"
    by (simp_all only: pos_mod_bound pos_mod_sign zero_less_numeral)
  show "0 \<le> x div 4 \<and> x div 4 < 64" using d [of x 64 4] assms by simp
  show "0 \<le> x mod 64 \<and> x mod 64 < 64" by simp
  show "0 \<le> x mod 4 * 16 \<and> x mod 4 * 16 < 64" using pack_range [OF m(1,2), of 0 16] by simp
  show "0 \<le> x mod 16 * 4 \<and> x mod 16 * 4 < 64" using pack_range [OF m(3,4), of 0 4] by simp
  show "0 \<le> x mod 4 * 16 + y div 16 \<and> x mod 4 * 16 + y div 16 < 64"
    using pack_range [OF m(1,2), of "y div 16" 16] d [of y 16 16] assms by simp
  show "0 \<le> x mod 16 * 4 + y div 64 \<and> x mod 16 * 4 + y div 64 < 64"
    using pack_range [OF m(3,4), of "y div 64" 4] d [of y 4 64] assms by simp
qed

lemma b64_encode_plain: "list_all plain_char (b64_encode s)"
proof (induction s rule: b64_encode.induct)
  case (2 a)
  then show ?case using sextets [of "ibyte a" 0] ibyte_range [of a] by (simp add: b64_char_plain)
next
  case (3 a b)
  then show ?case
    using sextets [of "ibyte a" "ibyte b"] sextets [of "ibyte b" 0] ibyte_range [of a] ibyte_range [of b]
    by (simp add: b64_char_plain)
next
  case (4 a b d s)
  then show ?case
    using sextets [of "ibyte a" "ibyte b"] sextets [of "ibyte b" "ibyte d"]
      sextets [of "ibyte d" 0] ibyte_range [of a] ibyte_range [of b] ibyte_range [of d]
    by (simp add: b64_char_plain)
qed simp

lemma unpack:
  fixes a b k :: int
  assumes "0 \<le> b" "b < k"
  shows "(a * k + b) div k = a" "(a * k + b) mod k = b"
  using assms by (simp_all add: add.commute)

lemma sextet_bytes:
  fixes x y z :: int
  assumes "0 \<le> x" "x < 256" "0 \<le> y" "y < 256" "0 \<le> z" "z < 256"
  shows "x div 4 * 4 + (x mod 4 * 16) div 16 = x"
    "x div 4 * 4 + (x mod 4 * 16 + y div 16) div 16 = x"
    "(x mod 4 * 16 + y div 16) mod 16 * 16 + (y mod 16 * 4) div 4 = y"
    "(x mod 4 * 16 + y div 16) mod 16 * 16 + (y mod 16 * 4 + z div 64) div 4 = y"
    "(y mod 16 * 4 + z div 64) mod 4 * 64 + z mod 64 = z"
proof -
  note q = div_range
  have d: "0 \<le> y div 16" "y div 16 < 16" "0 \<le> z div 64" "z div 64 < 4"
    using q [of y 16 16] q [of z 4 64] assms by simp_all
  have e: "(x mod 4 * 16) div 16 = x mod 4" "(y mod 16 * 4) div 4 = y mod 16" by simp_all
  show "x div 4 * 4 + (x mod 4 * 16) div 16 = x"
    by (simp only: e div_mult_mod_eq)
  show "x div 4 * 4 + (x mod 4 * 16 + y div 16) div 16 = x"
    by (simp only: unpack [OF d(1,2)] div_mult_mod_eq)
  show "(x mod 4 * 16 + y div 16) mod 16 * 16 + (y mod 16 * 4) div 4 = y"
    by (simp only: unpack [OF d(1,2)] e div_mult_mod_eq)
  show "(x mod 4 * 16 + y div 16) mod 16 * 16 + (y mod 16 * 4 + z div 64) div 4 = y"
    by (simp only: unpack [OF d(1,2)] unpack [OF d(3,4)] div_mult_mod_eq)
  show "(y mod 16 * 4 + z div 64) mod 4 * 64 + z mod 64 = z"
    by (simp only: unpack [OF d(3,4)] div_mult_mod_eq)
qed

lemma b64_encode_groups: "\<exists>vs. those (map b64_val (b64_encode s)) = Some vs \<and> b64_groups vs = Some s"
proof (induction s rule: b64_encode.induct)
  case (2 a)
  have r: "0 \<le> ibyte a" "ibyte a < 256" using ibyte_range [of a] by simp_all
  have v: "those (map b64_val (b64_encode [a])) = Some [ibyte a div 4, ibyte a mod 4 * 16]"
    using sextets [OF r, of 0] by (simp add: b64_val_char)
  show ?case by (intro exI conjI, rule v) (simp only: b64_groups.simps sextet_bytes(1) [OF r r r] char_of_char)
next
  case (3 a b)
  have r: "0 \<le> ibyte a" "ibyte a < 256" "0 \<le> ibyte b" "ibyte b < 256"
    using ibyte_range [of a] ibyte_range [of b] by simp_all
  have v: "those (map b64_val (b64_encode [a, b])) =
      Some [ibyte a div 4, ibyte a mod 4 * 16 + ibyte b div 16, ibyte b mod 16 * 4]"
    using sextets [OF r] sextets [OF r(3,4), of 0] by (simp add: b64_val_char)
  show ?case by (intro exI conjI, rule v) (simp only: b64_groups.simps sextet_bytes [OF r r(1,2)] char_of_char)
next
  case (4 a b c s)
  then obtain vs where vs: "those (map b64_val (b64_encode s)) = Some vs" "b64_groups vs = Some s" by blast
  have r: "0 \<le> ibyte a" "ibyte a < 256" "0 \<le> ibyte b" "ibyte b < 256" "0 \<le> ibyte c" "ibyte c < 256"
    using ibyte_range [of a] ibyte_range [of b] ibyte_range [of c] by simp_all
  have v: "those (map b64_val (b64_encode (a # b # c # s))) =
      Some ([ibyte a div 4, ibyte a mod 4 * 16 + ibyte b div 16, ibyte b mod 16 * 4 + ibyte c div 64,
        ibyte c mod 64] @ vs)"
    using sextets [OF r(1-4)] sextets [OF r(3-6)] sextets [OF r(5,6), of 0] vs
    by (simp add: b64_val_char)
  show ?case by (intro exI conjI, rule v) (simp only: append.simps b64_groups.simps vs option.map sextet_bytes [OF r] char_of_char)
qed simp

lemma b64_decode_encode: "b64_decode (b64_encode s) = Some s"
proof -
  have "filter (\<lambda>c. c \<noteq> CHR 0x0A \<and> c \<noteq> CHR 0x0D) (b64_encode s) = b64_encode s"
    using b64_encode_plain [of s] plain_char_simps by (auto simp: filter_id_conv list_all_iff)
  moreover obtain vs where "those (map b64_val (b64_encode s)) = Some vs" "b64_groups vs = Some s"
    using b64_encode_groups by blast
  ultimately show ?thesis by (simp add: b64_decode_def)
qed

section \<open>encoding/hex\<close>

definition hex_char :: "int \<Rightarrow> char" where
  "hex_char v = (if v < 10 then char_of (48 + v) else char_of (87 + v))"

definition hex_encode :: "string \<Rightarrow> string" where
  "hex_encode s = concat (map (\<lambda>c. [hex_char (ibyte c div 16), hex_char (ibyte c mod 16)]) s)"

section \<open>json.Marshal of strings and flat objects\<close>

text \<open>
  \<open>appendString\<close> with HTML escaping: quotes, backslashes, control bytes, \<open><\<close>, \<open>>\<close>, \<open>&\<close>,
  U+2028 and U+2029 are escaped; a byte that starts no valid rune becomes \<open>\ufffd\<close>.
\<close>

definition html_safe :: "char \<Rightarrow> bool" where
  "html_safe c \<longleftrightarrow> 32 \<le> byte c \<and> c \<notin> {CHR 0x22, CHR 0x5C, CHR ''<'', CHR ''>'', CHR ''&''}"

definition ascii_escape :: "char \<Rightarrow> string" where
  "ascii_escape c =
    (if html_safe c then [c]
     else if c = CHR 0x22 \<or> c = CHR 0x5C then [CHR 0x5C, c]
     else if c = CHR 0x08 then [CHR 0x5C, CHR ''b'']
     else if c = CHR 0x0C then [CHR 0x5C, CHR ''f'']
     else if c = CHR 0x0A then [CHR 0x5C, CHR ''n'']
     else if c = CHR 0x0D then [CHR 0x5C, CHR ''r'']
     else if c = CHR 0x09 then [CHR 0x5C, CHR ''t'']
     else [CHR 0x5C, CHR ''u'', CHR ''0'', CHR ''0'', hex_char (ibyte c div 16), hex_char (ibyte c mod 16)])"

definition rune_escape :: "string \<Rightarrow> string" where
  "rune_escape r =
    (if length r \<le> 1 then CHR 0x5C # ''ufffd''
     else if r = [CHR 0xE2, CHR 0x80, CHR 0xA8] then CHR 0x5C # ''u2028''
     else if r = [CHR 0xE2, CHR 0x80, CHR 0xA9] then CHR 0x5C # ''u2029''
     else r)"

definition json_escape :: "string \<Rightarrow> string" where
  "json_escape s = concat (map (\<lambda>r. if byte (hd r) < 128 then ascii_escape (hd r) else rune_escape r) (runes s))"

definition json_quote :: "string \<Rightarrow> string" where
  "json_quote s = CHR 0x22 # json_escape s @ [CHR 0x22]"

text \<open>\<open>strings.ToValidUTF8(s, "\uFFFD")\<close>, byte by byte: what a JSON round trip makes of a string.\<close>

definition to_valid_utf8 :: "string \<Rightarrow> string" where
  "to_valid_utf8 s = concat (map (\<lambda>r. if 128 \<le> byte (hd r) \<and> length r \<le> 1 then rune_error else r) (runes s))"

definition valid_utf8 :: "string \<Rightarrow> bool" where
  "valid_utf8 s \<longleftrightarrow> list_all (\<lambda>r. byte (hd r) < 128 \<or> 1 < length r) (runes s)"

lemma to_valid_utf8_id: "valid_utf8 s \<Longrightarrow> to_valid_utf8 s = s"
proof -
  assume "valid_utf8 s"
  then have "map (\<lambda>r. if 128 \<le> byte (hd r) \<and> length r \<le> 1 then rune_error else r) (runes s) = runes s"
    by (intro map_idI) (auto simp: valid_utf8_def list_all_iff)
  then show ?thesis using concat_runes [of s] by (simp add: to_valid_utf8_def)
qed

lemma valid_utf8_ascii: "\<forall>c\<in>set s. byte c < 128 \<Longrightarrow> valid_utf8 s"
  by (induction s) (simp_all add: valid_utf8_def runes_ascii)

text \<open>A multi-byte rune is recognised whatever follows it.\<close>

lemma rune_len_le: "rune_len (c # s) \<le> length (c # s)"
  by (auto simp: rune_len.simps Let_def split: list.splits)

lemma rune_len_shape:
  assumes "1 < rune_len (c # s)"
  shows "\<exists>x y. s = x @ y \<and> (\<forall>t. rune_len (c # x @ t) = Suc (length x))"
proof -
  have x: "\<not> (byte c < 194 \<or> 244 < byte c)" using assms by (auto simp: rune_len.simps)
  consider "byte c < 224" | "\<not> byte c < 224" "byte c < 240" | "\<not> byte c < 240" by linarith
  then show ?thesis
  proof cases
    case 1
    then obtain b y where "s = [b] @ y" "cont b" using assms x
      by (auto simp: rune_len.simps Let_def split: list.splits if_splits)
    moreover have "rune_len (c # [b] @ t) = Suc (length [b])" for t
      using 1 x \<open>cont b\<close> by (simp add: rune_len.simps)
    ultimately show ?thesis by blast
  next
    case 2
    then obtain b d y where s: "s = [b, d] @ y" and
        ok: "cont b \<and> cont d \<and> (byte c = 224 \<longrightarrow> 160 \<le> byte b) \<and> (byte c = 237 \<longrightarrow> byte b \<le> 159)"
      using assms x by (auto simp: rune_len.simps Let_def split: list.splits if_splits)
    have "rune_len (c # [b, d] @ t) = Suc (length [b, d])" for t
      using 2 x ok by (simp add: rune_len.simps)
    with s show ?thesis by blast
  next
    case 3
    then obtain b d e y where s: "s = [b, d, e] @ y" and
        ok: "cont b \<and> cont d \<and> cont e \<and> (byte c = 240 \<longrightarrow> 144 \<le> byte b) \<and> (byte c = 244 \<longrightarrow> byte b \<le> 143)"
      using assms x by (auto simp: rune_len.simps Let_def split: list.splits if_splits)
    have "rune_len (c # [b, d, e] @ t) = Suc (length [b, d, e])" for t
      using 3 x ok by (simp add: rune_len.simps)
    with s show ?thesis by blast
  qed
qed

lemma rune_len_take:
  assumes "1 < rune_len (c # s)"
  shows "rune_len (take (rune_len (c # s)) (c # s) @ t) = rune_len (c # s)"
proof -
  from rune_len_shape [OF assms] obtain x y
    where s: "s = x @ y" and n: "\<And>t. rune_len (c # x @ t) = Suc (length x)" by blast
  show ?thesis using n [of y] n [of t] by (simp add: s)
qed

lemma byte_ibyte: "byte c = nat (ibyte c)"
  by (metis nat_int of_nat_of_char)

lemma ibyte_less: "byte c < 128 \<Longrightarrow> ibyte c < 128"
  using byte_ibyte [of c] by linarith

lemma byte_eq_iff: "v < 256 \<Longrightarrow> c = char_of v \<longleftrightarrow> byte c = v" for v :: nat
  by (metis char_of_char of_char_of mod_less)

lemma rune_error_bytes: "rune_error = [char_of (239 :: nat), char_of (191 :: nat), char_of (189 :: nat)]"
  by (simp add: rune_error_def byte_eq_iff)

lemma bytes_eq:
  "CHR ''0'' = char_of (48 :: nat)" "CHR 0xE2 = char_of (226 :: nat)" "CHR 0x80 = char_of (128 :: nat)"
  "CHR 0xA8 = char_of (168 :: nat)" "CHR 0xA9 = char_of (169 :: nat)"
  by (simp_all add: byte_eq_iff)

lemma hex_val_char:
  assumes "0 \<le> v" "v < 16"
  shows "hex_val (hex_char v) = Some (nat v)"
proof (cases "v < 10")
  case True
  have "byte (hex_char v) = 48 + nat v"
    using assms True by (simp add: byte_ibyte hex_char_def nat_add_distrib)
  moreover have "nat v < 10" using assms True by linarith
  ultimately show ?thesis by (simp add: hex_val_def)
next
  case False
  have "byte (hex_char v) = 87 + nat v"
    using assms False by (simp add: byte_ibyte hex_char_def nat_add_distrib)
  moreover have "10 \<le> nat v" "nat v < 16" using assms False by linarith+
  ultimately show ?thesis by (simp add: hex_val_def)
qed

lemma js_str_ascii_escape:
  assumes "byte c < 128"
  shows "js_str (ascii_escape c @ t) = cons_str [c] (js_str t)"
proof (cases "html_safe c")
  case True
  then show ?thesis using assms by (simp add: ascii_escape_def html_safe_def)
next
  case False
  have c: "0 \<le> ibyte c div 16" "ibyte c div 16 < 16" "0 \<le> ibyte c mod 16" "ibyte c mod 16 < 16"
      "ibyte c < 128"
    using ibyte_less [OF assms] ibyte_range [of c] by simp_all
  have u: "utf8_encode (ibyte c) = [c]" using c by (simp add: utf8_encode_def flip: byte_ibyte)
  have h: "hex4 (CHR ''0'' # CHR ''0'' # hex_char (ibyte c div 16) # hex_char (ibyte c mod 16) # t) =
      Some (ibyte c, t)"
    using c by (simp add: hex_val_char) (simp add: hex_val_def)
  show ?thesis using False c u h
    by (auto simp: ascii_escape_def escape_char_def)
qed

lemma js_str_rune_escape:
  assumes "128 \<le> byte c"
  shows "js_str (rune_escape (take (rune_len (c # s)) (c # s)) @ t) =
    cons_str (if length (take (rune_len (c # s)) (c # s)) \<le> 1 then rune_error
      else take (rune_len (c # s)) (c # s)) (js_str t)"
proof -
  let ?n = "rune_len (c # s)" and ?r = "take (rune_len (c # s)) (c # s)"
  have len: "length ?r = ?n" using rune_len_le [of c s] by simp
  show ?thesis
  proof (cases "?n \<le> 1")
    case True
    have "hex4 (CHR ''f'' # CHR ''f'' # CHR ''f'' # CHR ''d'' # t) = Some (65533, t)"
      by (simp add: hex_val_def)
    then show ?thesis using True len by (simp add: rune_escape_def utf8_encode_def rune_error_bytes)
  next
    case False
    then obtain x where r: "?r = c # x" by (cases ?n) auto
    have h: "rune_len (c # x @ t) = ?n" using rune_len_take [of c s t] False r by simp
    have n: "length (c # x) = ?n" using len r by simp
    have tk: "take ?n (c # x @ t) = c # x" "drop (?n - 1) (x @ t) = t"
      by (simp_all flip: n)
    have "js_str (c # x @ t) = cons_str (c # x) (js_str t)"
      using assms False h tk by auto
    moreover have "hex4 (CHR ''2'' # CHR ''0'' # CHR ''2'' # CHR ''8'' # t) = Some (8232, t)"
        "hex4 (CHR ''2'' # CHR ''0'' # CHR ''2'' # CHR ''9'' # t) = Some (8233, t)"
      by (simp_all add: hex_val_def)
    moreover have "utf8_encode 8232 = [CHR 0xE2, CHR 0x80, CHR 0xA8]"
        "utf8_encode 8233 = [CHR 0xE2, CHR 0x80, CHR 0xA9]"
      by (simp_all add: utf8_encode_def bytes_eq)
    ultimately show ?thesis using False len
      by (auto simp: rune_escape_def r)
  qed
qed

lemma cons_str_assoc: "cons_str p (cons_str q m) = cons_str (p @ q) m"
  by (cases m) (auto simp: cons_str_def)

lemma cons_str_Nil [simp]: "cons_str [] m = m"
  by (cases m) (auto simp: cons_str_def)

lemma js_str_escape: "js_str (json_escape s @ t) = cons_str (to_valid_utf8 s) (js_str t)"
proof (induction s rule: runes.induct)
  case (1 s)
  show ?case
  proof (cases s)
    case (Cons c u)
    let ?r = "take (rune_len s) s" and ?d = "drop (rune_len s) s"
    have n: "0 < rune_len s" using rune_len_pos [of s] Cons by simp
    then have hd: "hd ?r = c" using Cons by (cases "rune_len s") auto
    have rs: "runes s = ?r # runes ?d" using Cons by (subst runes.simps) simp
    have IH: "js_str (json_escape ?d @ t) = cons_str (to_valid_utf8 ?d) (js_str t)"
      using 1 Cons by simp
    show ?thesis
    proof (cases "byte c < (128 :: nat)")
      case True
      then have "?r = [c]" using Cons by (simp add: rune_len_ascii)
      then have "json_escape s = ascii_escape c @ json_escape ?d" "to_valid_utf8 s = [c] @ to_valid_utf8 ?d"
        using rs True by (simp_all add: json_escape_def to_valid_utf8_def)
      then show ?thesis using IH True by (simp add: js_str_ascii_escape cons_str_assoc)
    next
      case False
      then have "json_escape s = rune_escape ?r @ json_escape ?d"
          "to_valid_utf8 s = (if length ?r \<le> 1 then rune_error else ?r) @ to_valid_utf8 ?d"
        using rs hd by (simp_all add: json_escape_def to_valid_utf8_def)
      moreover have "js_str (rune_escape ?r @ v) =
          cons_str (if length ?r \<le> 1 then rune_error else ?r) (js_str v)" for v
        using js_str_rune_escape [of c u v] False Cons by simp
      ultimately show ?thesis using IH by (simp only: append_assoc cons_str_assoc)
    qed
  qed (simp add: json_escape_def to_valid_utf8_def)
qed

text \<open>Atoms and flat objects. Object members are written in the order given.\<close>

fun json_atom :: "json \<Rightarrow> string" where
  "json_atom (JStr s) = json_quote s"
| "json_atom (JNum n) = n"
| "json_atom (JBool b) = (if b then ''true'' else ''false'')"
| "json_atom _ = ''null''"

fun json_print_members :: "(string \<times> json) list \<Rightarrow> string" where
  "json_print_members [] = []"
| "json_print_members [(k, v)] = json_quote k @ '':'' @ json_atom v"
| "json_print_members ((k, v) # ms) = json_quote k @ '':'' @ json_atom v @ '','' @ json_print_members ms"

definition json_object :: "(string \<times> json) list \<Rightarrow> string" where
  "json_object ms = ''{'' @ json_print_members ms @ ''}''"

text \<open>The atoms covered by the round trip: strings and integers.\<close>

definition flat_atom :: "json \<Rightarrow> bool" where
  "flat_atom v \<longleftrightarrow> (\<exists>s. v = JStr s) \<or> (\<exists>n. v = JNum (itoa n))"

fun valid_atom :: "json \<Rightarrow> json" where
  "valid_atom (JStr s) = JStr (to_valid_utf8 s)"
| "valid_atom v = v"

lemma nat_digits_no_zero: "0 < n \<Longrightarrow> hd (nat_digits n) \<noteq> CHR ''0''"
proof (induction n rule: nat_digits.induct)
  case (1 n)
  show ?case
  proof (cases "n < 10")
    case True
    have "byte (hd (nat_digits n)) = 48 + n" using True by (simp add: nat_digits.simps [of n] of_char_of)
    then show ?thesis using "1.prems" by auto
  next
    case False
    then show ?thesis using 1 nat_digits_val [of "n div 10"] by (simp add: nat_digits.simps [of n])
  qed
qed

lemma js_int_digits:
  assumes "\<not> is_digit c"
  shows "js_int (nat_digits n @ c # t) = Some (nat_digits n, c # t)"
proof (cases "n = 0")
  case True
  have "nat_digits 0 = ''0''" by (subst nat_digits.simps) (simp add: bytes_eq)
  then show ?thesis using True by (simp add: js_int_def has_prefix_def)
next
  case False
  obtain a u where d: "nat_digits n = a # u" using nat_digits_val [of n] by (cases "nat_digits n") auto
  then have "a \<noteq> CHR ''0''" using nat_digits_no_zero [of n] False by simp
  moreover have "takeWhile is_digit (nat_digits n @ c # t) = nat_digits n"
      "dropWhile is_digit (nat_digits n @ c # t) = c # t"
    using nat_digits_val [of n] assms by (simp_all add: list_all_iff)
  ultimately show ?thesis using d by (simp add: js_int_def has_prefix_def js_digits_def)
qed

lemma js_number_itoa:
  assumes "c = CHR '','' \<or> c = CHR ''}''"
  shows "js_number (itoa n @ c # t) = Some (itoa n, c # t)"
proof -
  have c: "\<not> is_digit c" "js_frac (c # t) = Some ([], c # t)" "js_exp (c # t) = Some ([], c # t)"
    using assms by (auto simp: is_digit_def js_frac_def js_exp_def has_prefix_def)
  obtain a u where d: "nat_digits (nat n) = a # u" "is_digit a"
    using nat_digits_val [of "nat n"] by (cases "nat_digits (nat n)") auto
  then have "a \<noteq> CHR ''-''" by (auto simp: is_digit_def)
  then show ?thesis
    using d c js_int_digits [OF c(1), of "nat n" t] js_int_digits [OF c(1), of "nat (- n)" t]
    by (simp add: js_number_def itoa_def has_prefix_def)
qed

lemma js_value_atom:
  assumes "flat_atom v" "c = CHR '','' \<or> c = CHR ''}''"
  shows "js_value (Suc n) d (json_atom v @ c # t) = Some (valid_atom v, c # t)"
proof -
  consider s where "v = JStr s" | m where "v = JNum (itoa m)" using assms(1) by (auto simp: flat_atom_def)
  then show ?thesis
  proof cases
    case 1
    then show ?thesis
      by (simp add: json_quote_def skip_ws_def json_ws_def js_str_escape) (simp add: cons_str_def)
  next
    case 2
    obtain a u where d: "itoa m = a # u" "is_digit a \<or> a = CHR ''-''"
    proof (cases "m < 0")
      case False
      then show ?thesis
        using that nat_digits_val [of "nat m"] by (cases "nat_digits (nat m)") (auto simp: itoa_def)
    qed (use that in \<open>simp add: itoa_def\<close>)
    have sk: "skip_ws (a # w) = a # w" for w
      using d(2) by (auto simp: skip_ws_def json_ws_def is_digit_def)
    have ne: "a \<noteq> CHR 0x7B" "a \<noteq> CHR 0x5B" "a \<noteq> CHR 0x22" "a \<noteq> CHR ''t''" "a \<noteq> CHR ''f''" "a \<noteq> CHR ''n''"
      using d(2) by (auto simp: is_digit_def)
    have "js_value (Suc n) d (a # w) = map_option (\<lambda>(t, u). (JNum t, u)) (js_number (a # w))" for w
      using ne by (simp add: sk has_prefix_def)
    then show ?thesis using js_number_itoa [OF assms(2), of m t] d(1) 2 by simp
  qed
qed

lemma js_members_print:
  assumes "ms \<noteq> []" "\<forall>(k, v)\<in>set ms. flat_atom v" "length ms < n"
  shows "js_members n d (json_print_members ms @ ''}'' @ t) =
    Some (map (\<lambda>(k, v). (to_valid_utf8 k, valid_atom v)) ms, t)"
  using assms
proof (induction ms arbitrary: n rule: json_print_members.induct)
  case (2 k v)
  then obtain m where n: "n = Suc (Suc m)" by (cases n; cases "n - 1") auto
  show ?case using 2
    by (simp add: n json_quote_def skip_ws_def json_ws_def js_str_escape js_value_atom cons_str_def
        del: js_value.simps)
next
  case (3 k v kv ms)
  then obtain m where n: "n = Suc (Suc m)" by (cases n; cases "n - 1") auto
  have "js_members (Suc m) d (json_print_members (kv # ms) @ ''}'' @ t) =
      Some (map (\<lambda>(k, v). (to_valid_utf8 k, valid_atom v)) (kv # ms), t)"
    using 3 n by (intro "3.IH") auto
  then show ?case using "3.prems"
    by (simp add: n json_quote_def skip_ws_def json_ws_def js_str_escape js_value_atom cons_str_def
        del: js_value.simps)
qed simp

lemma json_parse_object:
  assumes "ms \<noteq> []" "\<forall>(k, v)\<in>set ms. flat_atom v"
  shows "json_parse (json_object ms) = Some (JObj (map (\<lambda>(k, v). (to_valid_utf8 k, valid_atom v)) ms))"
proof -
  let ?s = "json_object ms"
  let ?n = "2 * length ?s + length ms + 5"
  obtain r where h: "json_print_members ms @ ''}'' = CHR 0x22 # r"
    using assms(1) by (cases ms rule: json_print_members.cases) (auto simp: json_quote_def)
  have "js_value (Suc m) max_nesting (''{'' @ CHR 0x22 # r) =
      map_option (\<lambda>(ms, t). (JObj ms, t)) (js_members m (max_nesting - 1) (CHR 0x22 # r))" for m
    by (simp add: skip_ws_def json_ws_def has_prefix_def max_nesting_def)
  then have "js_value (Suc ?n) max_nesting ?s = Some (JObj (map (\<lambda>(k, v). (to_valid_utf8 k, valid_atom v)) ms), [])"
    using js_members_print [OF assms, of ?n "max_nesting - 1" "[]"] h
    by (simp only: json_object_def append_Nil2) simp
  moreover have "js_value (2 * length ?s + 2) max_nesting ?s = js_value (Suc ?n) max_nesting ?s"
    by (rule js_fuel) simp_all
  ultimately show ?thesis by (simp add: json_parse_def skip_ws_def)
qed

end
