(* ===== verification/Go_Sha256.thy ===== *)
theory Go_Sha256
  imports Go_Encoding "HOL-Library.Word"
begin

text \<open>
  \<open>crypto/sha256\<close> and \<open>crypto/hmac\<close> as the token code uses them: SHA-256 on 32-bit words
  (FIPS 180-4) and HMAC (RFC 2104) with its 64-byte blocks.
\<close>

unbundle bit_operations_syntax

text \<open>
  The constants of the standard are computed from their definition instead of tabulated: the first
  32 bits of the fractional parts of the square roots (initial state) and cube roots (round
  constants) of the first primes.
\<close>

definition small_primes :: "int list" where
  "small_primes = filter (\<lambda>p. list_all (\<lambda>d. p mod d \<noteq> 0) [2..p - 1]) [2..311]"

definition root_floor :: "nat \<Rightarrow> int \<Rightarrow> int" where
  "root_floor e n = fold (\<lambda>b r. if (r + 2 ^ b) ^ e \<le> n then r + 2 ^ b else r) (rev [0..<40]) 0"

definition root_fraction :: "nat \<Rightarrow> int \<Rightarrow> 32 word" where
  "root_fraction e p = word_of_int (root_floor e (p * 2 ^ (32 * e)))"

definition sha_k :: "32 word list" where
  "sha_k = map (root_fraction 3) (take 64 small_primes)"

definition sha_init :: "32 word list" where
  "sha_init = map (root_fraction 2) [2, 3, 5, 7, 11, 13, 17, 19]"

definition rotr :: "nat \<Rightarrow> 32 word \<Rightarrow> 32 word" where
  "rotr n x = drop_bit n x OR push_bit (32 - n) x"

definition be_word :: "string \<Rightarrow> 32 word" where
  "be_word s = fold (\<lambda>c w. 256 * w + word_of_int (ibyte c)) s 0"

definition word_bytes :: "32 word \<Rightarrow> string" where
  "word_bytes w = map (\<lambda>i. char_of (uint (drop_bit i w) mod 256)) [24, 16, 8, 0]"

fun sha_words :: "nat \<Rightarrow> string \<Rightarrow> 32 word list" where
  "sha_words 0 s = []"
| "sha_words (Suc n) s = be_word (take 4 s) # sha_words n (drop 4 s)"

definition sha_extend :: "32 word list \<Rightarrow> 32 word list" where
  "sha_extend w =
    (let i = length w; a = w ! (i - 15); b = w ! (i - 2);
         s0 = rotr 7 a XOR rotr 18 a XOR drop_bit 3 a;
         s1 = rotr 17 b XOR rotr 19 b XOR drop_bit 10 b
     in w @ [s1 + w ! (i - 7) + s0 + w ! (i - 16)])"

fun sha_round :: "32 word \<times> 32 word \<Rightarrow> 32 word list \<Rightarrow> 32 word list" where
  "sha_round (k, w) [a, b, c, d, e, f, g, h] =
    (let s1 = rotr 6 e XOR rotr 11 e XOR rotr 25 e;
         ch = (e AND f) XOR (NOT e AND g);
         t1 = h + s1 + ch + k + w;
         s0 = rotr 2 a XOR rotr 13 a XOR rotr 22 a;
         maj = (a AND b) XOR (a AND c) XOR (b AND c)
     in [t1 + s0 + maj, a, b, c, d + t1, e, f, g])"
| "sha_round _ st = st"

definition sha_block :: "32 word list \<Rightarrow> string \<Rightarrow> 32 word list" where
  "sha_block st s =
    (let w = (sha_extend ^^ 48) (sha_words 16 s)
     in map2 (+) st (fold sha_round (zip sha_k w) st))"

fun sha_blocks :: "nat \<Rightarrow> 32 word list \<Rightarrow> string \<Rightarrow> 32 word list" where
  "sha_blocks 0 st s = st"
| "sha_blocks (Suc n) st s = sha_blocks n (sha_block st (take 64 s)) (drop 64 s)"

definition sha_pad :: "string \<Rightarrow> string" where
  "sha_pad s =
    s @ [CHR 0x80] @ replicate (nat ((55 - int (length s)) mod 64)) (CHR 0x00) @
      map (\<lambda>i. char_of (8 * int (length s) div 2 ^ (8 * i) mod 256)) [7, 6, 5, 4, 3, 2, 1, 0]"

definition sha256 :: "string \<Rightarrow> string" where
  "sha256 s = (let p = sha_pad s in concat (map word_bytes (sha_blocks (length p div 64) sha_init p)))"

definition xor_byte :: "int \<Rightarrow> char \<Rightarrow> char" where
  "xor_byte k c = char_of (ibyte c XOR k)"

definition hmac_sha256 :: "string \<Rightarrow> string \<Rightarrow> string" where
  "hmac_sha256 key msg =
    (let k0 = (if 64 < length key then sha256 key else key);
         k = k0 @ replicate (64 - length k0) (CHR 0x00)
     in sha256 (map (xor_byte 0x5C) k @ sha256 (map (xor_byte 0x36) k @ msg)))"

end
