(* ===== verification/Token_Manager.thy ===== *)
theory Token_Manager
  imports Go_Sha256 Shared
begin

text \<open>
  \<open>shared/auth/token.go\<close>: the manager that signs and verifies access tokens and makes refresh
  tokens. The clock and the random source are arguments; a \<open>Time\<close> is nanoseconds since 1970.
\<close>

abbreviation err_invalid_token :: go_error where "err_invalid_token \<equiv> Sentinel ''ErrInvalidToken''"
abbreviation err_expired_token :: go_error where "err_expired_token \<equiv> Sentinel ''ErrExpiredToken''"

record token_manager =
  tm_access_secret :: string
  tm_refresh_secret :: string
  tm_access_ttl :: duration
  tm_refresh_ttl :: duration

record access_claims =
  ac_subject :: string
  ac_email :: string
  ac_username :: string
  ac_zone_id :: string
  ac_workspace_id :: string
  ac_domain :: string
  ac_type :: string
  ac_issued_at :: int
  ac_expires_at :: int

definition default_access_secret :: string where
  "default_access_secret = ''dev_access_secret_local_only_do_not_use_in_production''"

definition default_refresh_secret :: string where
  "default_refresh_secret = ''dev_refresh_secret_local_only_do_not_use_in_production''"

definition new_token_manager :: "string \<Rightarrow> string \<Rightarrow> duration \<Rightarrow> duration \<Rightarrow> token_manager" where
  "new_token_manager access_secret refresh_secret access_ttl refresh_ttl =
    \<lparr>tm_access_secret = (if trim_space access_secret = [] then default_access_secret else access_secret),
     tm_refresh_secret = (if trim_space refresh_secret = [] then default_refresh_secret else refresh_secret),
     tm_access_ttl = (if access_ttl \<le> 0 then 15 * ns_minute else access_ttl),
     tm_refresh_ttl = (if refresh_ttl \<le> 0 then 30 * 24 * ns_hour else refresh_ttl)\<rparr>"

text \<open>\<open>Time.Unix\<close>.\<close>

definition unix :: "time \<Rightarrow> int" where
  "unix t = t div ns_second"

definition sign_hmac :: "string \<Rightarrow> string \<Rightarrow> string" where
  "sign_hmac message secret = hmac_sha256 secret message"

section \<open>Signing\<close>

text \<open>\<open>json.Marshal\<close> of the claims: struct order, empty \<open>omitempty\<close> fields left out.\<close>

definition omit_empty :: "string \<Rightarrow> string \<Rightarrow> (string \<times> json) list" where
  "omit_empty key value = (if value = [] then [] else [(key, JStr value)])"

definition claims_members :: "access_claims \<Rightarrow> (string \<times> json) list" where
  "claims_members c =
    [(''sub'', JStr (ac_subject c))] @ omit_empty ''email'' (ac_email c) @
    omit_empty ''username'' (ac_username c) @ omit_empty ''zone_id'' (ac_zone_id c) @
    omit_empty ''workspace_id'' (ac_workspace_id c) @ omit_empty ''domain'' (ac_domain c) @
    [(''typ'', JStr (ac_type c)), (''iat'', JNum (itoa (ac_issued_at c))),
     (''exp'', JNum (itoa (ac_expires_at c)))]"

definition token_header :: string where
  "token_header = json_object [(''alg'', JStr ''HS256''), (''typ'', JStr ''JWT'')]"

definition signed_part :: "access_claims \<Rightarrow> string" where
  "signed_part c = b64_encode token_header @ ''.'' @ b64_encode (json_object (claims_members c))"

definition sign_claims :: "token_manager \<Rightarrow> access_claims \<Rightarrow> string" where
  "sign_claims m c =
    (let message = signed_part c
     in message @ ''.'' @ b64_encode (sign_hmac message (tm_access_secret m)))"

definition zone_claims ::
    "token_manager \<Rightarrow> time \<Rightarrow> string \<Rightarrow> string \<Rightarrow> string \<Rightarrow> string \<Rightarrow> string \<Rightarrow> string \<Rightarrow> access_claims" where
  "zone_claims m now user email username zone workspace domain =
    \<lparr>ac_subject = user, ac_email = email, ac_username = username, ac_zone_id = trim_space zone,
     ac_workspace_id = trim_space workspace, ac_domain = to_lower (trim_space domain),
     ac_type = ''access'', ac_issued_at = unix now, ac_expires_at = unix (now + tm_access_ttl m)\<rparr>"

definition create_zone_access_token ::
    "token_manager \<Rightarrow> time \<Rightarrow> string \<Rightarrow> string \<Rightarrow> string \<Rightarrow> string \<Rightarrow> string \<Rightarrow> string \<Rightarrow> string \<times> time" where
  "create_zone_access_token m now user email username zone workspace domain =
    (sign_claims m (zone_claims m now user email username zone workspace domain), now + tm_access_ttl m)"

definition create_access_token ::
    "token_manager \<Rightarrow> time \<Rightarrow> string \<Rightarrow> string \<Rightarrow> string \<Rightarrow> string \<times> time" where
  "create_access_token m now user email username =
    create_zone_access_token m now user email username [] [] []"

section \<open>Verification\<close>

fun dec_int64 :: "int \<Rightarrow> json \<Rightarrow> int option" where
  "dec_int64 old JNull = Some old"
| "dec_int64 old (JNum lit) = atoi lit"
| "dec_int64 old _ = None"

definition decode_claims :: "string \<Rightarrow> access_claims option" where
  "decode_claims payload =
    Option.bind (json_members payload) (\<lambda>ms.
    Option.bind (dec_field dec_string ''sub'' [] ms) (\<lambda>sub.
    Option.bind (dec_field dec_string ''email'' [] ms) (\<lambda>email.
    Option.bind (dec_field dec_string ''username'' [] ms) (\<lambda>username.
    Option.bind (dec_field dec_string ''zone_id'' [] ms) (\<lambda>zone.
    Option.bind (dec_field dec_string ''workspace_id'' [] ms) (\<lambda>workspace.
    Option.bind (dec_field dec_string ''domain'' [] ms) (\<lambda>domain.
    Option.bind (dec_field dec_string ''typ'' [] ms) (\<lambda>typ.
    Option.bind (dec_field dec_int64 ''iat'' 0 ms) (\<lambda>iat.
    Option.bind (dec_field dec_int64 ''exp'' 0 ms) (\<lambda>exp.
    Some \<lparr>ac_subject = sub, ac_email = email, ac_username = username, ac_zone_id = zone,
      ac_workspace_id = workspace, ac_domain = domain, ac_type = typ, ac_issued_at = iat,
      ac_expires_at = exp\<rparr>))))))))))"

definition verify_access_token :: "token_manager \<Rightarrow> time \<Rightarrow> string \<Rightarrow> access_claims result" where
  "verify_access_token m now token =
    (case split_on (CHR ''.'') token of
       [p0, p1, p2] \<Rightarrow>
         (if b64_decode p2 \<noteq> Some (sign_hmac (p0 @ ''.'' @ p1) (tm_access_secret m))
          then Inl err_invalid_token
          else
            (case b64_decode p1 of
               None \<Rightarrow> Inl err_invalid_token
             | Some payload \<Rightarrow>
               (case decode_claims payload of
                  None \<Rightarrow> Inl err_invalid_token
                | Some claims \<Rightarrow>
                    if ac_type claims \<noteq> ''access'' \<or> ac_subject claims = [] then Inl err_invalid_token
                    else if ac_expires_at claims \<le> unix now then Inl err_expired_token
                    else Inr claims)))
     | _ \<Rightarrow> Inl err_invalid_token)"

section \<open>Refresh tokens\<close>

definition new_refresh_token :: "token_manager \<Rightarrow> time \<Rightarrow> string result \<Rightarrow> (string \<times> time) result" where
  "new_refresh_token m now rand =
    result_bind rand (\<lambda>b. Inr (''wtr_'' @ b64_encode b, now + tm_refresh_ttl m))"

definition hash_refresh_token :: "token_manager \<Rightarrow> string \<Rightarrow> string" where
  "hash_refresh_token m token = hex_encode (hmac_sha256 (tm_refresh_secret m) token)"

section \<open>Properties\<close>

definition clean_claims :: "access_claims \<Rightarrow> access_claims" where
  "clean_claims c = c\<lparr>ac_subject := to_valid_utf8 (ac_subject c), ac_email := to_valid_utf8 (ac_email c),
     ac_username := to_valid_utf8 (ac_username c), ac_zone_id := to_valid_utf8 (ac_zone_id c),
     ac_workspace_id := to_valid_utf8 (ac_workspace_id c), ac_domain := to_valid_utf8 (ac_domain c),
     ac_type := to_valid_utf8 (ac_type c)\<rparr>"

lemma ascii_names:
  "to_valid_utf8 ''sub'' = ''sub''" "to_valid_utf8 ''email'' = ''email''"
  "to_valid_utf8 ''username'' = ''username''" "to_valid_utf8 ''zone_id'' = ''zone_id''"
  "to_valid_utf8 ''workspace_id'' = ''workspace_id''" "to_valid_utf8 ''domain'' = ''domain''"
  "to_valid_utf8 ''typ'' = ''typ''" "to_valid_utf8 ''iat'' = ''iat''" "to_valid_utf8 ''exp'' = ''exp''"
  "to_valid_utf8 ''access'' = ''access''"
  by (rule to_valid_utf8_id, rule valid_utf8_ascii, simp)+

lemma fold_names:
  "fold_name ''sub'' = ''sub''" "fold_name ''email'' = ''email''"
  "fold_name ''username'' = ''username''" "fold_name ''zone_id'' = ''zone_id''"
  "fold_name ''workspace_id'' = ''workspace_id''" "fold_name ''domain'' = ''domain''"
  "fold_name ''typ'' = ''typ''" "fold_name ''iat'' = ''iat''" "fold_name ''exp'' = ''exp''"
  by code_simp+

lemma to_valid_utf8_Nil [simp]: "to_valid_utf8 [] = []"
  by (simp add: to_valid_utf8_def)

declare fold_name.simps(2) [simp del]

abbreviation seen_members :: "(string \<times> json) list \<Rightarrow> (string \<times> json) list" where
  "seen_members ms \<equiv> map (\<lambda>(k, v). (to_valid_utf8 k, valid_atom v)) ms"

lemma dec_field_append:
  "dec_field f k a (xs @ ys) = Option.bind (dec_field f k a xs) (\<lambda>b. dec_field f k b ys)"
  by (induction f k a xs rule: dec_field.induct) (auto split: option.splits)

lemma dec_field_other:
  "fold_name (to_valid_utf8 k') \<noteq> k \<Longrightarrow> dec_field f k a (seen_members (omit_empty k' v)) = Some a"
  by (simp add: omit_empty_def)

lemma dec_field_this:
  "fold_name (to_valid_utf8 k) = k \<Longrightarrow>
    dec_field dec_string k [] (seen_members (omit_empty k v)) = Some (to_valid_utf8 v)"
  by (simp add: omit_empty_def)

lemma decode_claims_members:
  assumes "in_int64 (ac_issued_at c)" "in_int64 (ac_expires_at c)"
  shows "decode_claims (json_object (claims_members c)) = Some (clean_claims c)"
proof -
  have flat: "\<forall>(k, v)\<in>set (claims_members c). flat_atom v"
    by (auto simp: claims_members_def omit_empty_def flat_atom_def)
  let ?ms = "seen_members (claims_members c)"
  have ms: "json_members (json_object (claims_members c)) = Some ?ms"
    using json_parse_object [OF _ flat] by (simp add: json_members_def claims_members_def)
  note names = ascii_names fold_names
  note app = claims_members_def map_append dec_field_append dec_field_other dec_field_this names
  have "dec_field dec_string ''sub'' [] ?ms = Some (to_valid_utf8 (ac_subject c))" by (simp add: app)
  moreover have "dec_field dec_string ''email'' [] ?ms = Some (to_valid_utf8 (ac_email c))" by (simp add: app)
  moreover have "dec_field dec_string ''username'' [] ?ms = Some (to_valid_utf8 (ac_username c))" by (simp add: app)
  moreover have "dec_field dec_string ''zone_id'' [] ?ms = Some (to_valid_utf8 (ac_zone_id c))" by (simp add: app)
  moreover have "dec_field dec_string ''workspace_id'' [] ?ms = Some (to_valid_utf8 (ac_workspace_id c))"
    by (simp add: app)
  moreover have "dec_field dec_string ''domain'' [] ?ms = Some (to_valid_utf8 (ac_domain c))" by (simp add: app)
  moreover have "dec_field dec_string ''typ'' [] ?ms = Some (to_valid_utf8 (ac_type c))" by (simp add: app)
  moreover have "dec_field dec_int64 ''iat'' 0 ?ms = Some (ac_issued_at c)"
    by (simp add: app atoi_itoa assms)
  moreover have "dec_field dec_int64 ''exp'' 0 ?ms = Some (ac_expires_at c)"
    by (simp add: app atoi_itoa assms)
  ultimately show ?thesis
    unfolding decode_claims_def ms by (simp add: clean_claims_def)
qed

lemma b64_no_dot: "CHR ''.'' \<notin> set (b64_encode s)"
  using b64_encode_plain [of s] plain_char_simps by (auto simp: list_all_iff)

lemma split_token:
  "split_on (CHR ''.'') (b64_encode h @ ''.'' @ b64_encode p @ ''.'' @ b64_encode g) =
    [b64_encode h, b64_encode p, b64_encode g]"
  using split_on_append [OF b64_no_dot, of h] split_on_append [OF b64_no_dot, of p]
  by (simp add: split_on_no_sep b64_no_dot)

lemma to_valid_utf8_empty: "to_valid_utf8 s = [] \<longleftrightarrow> s = []"
proof
  assume a: "to_valid_utf8 s = []"
  show "s = []"
  proof (rule ccontr)
    assume "s \<noteq> []"
    then have "runes s = take (rune_len s) s # runes (drop (rune_len s) s)" by (subst runes.simps) simp
    with a \<open>s \<noteq> []\<close> rune_len_pos [of s] show False
      by (auto simp: to_valid_utf8_def rune_error_def split: if_splits)
  qed
qed simp

lemma verify_created_token:
  assumes "user \<noteq> []" "in_int64 (unix now)" "in_int64 (unix (now + tm_access_ttl m))"
  shows "verify_access_token m t (fst (create_zone_access_token m now user email username zone workspace domain)) =
    (if unix t < unix (now + tm_access_ttl m)
     then Inr (clean_claims (zone_claims m now user email username zone workspace domain))
     else Inl err_expired_token)"
proof -
  let ?c = "zone_claims m now user email username zone workspace domain"
  have "decode_claims (json_object (claims_members ?c)) = Some (clean_claims ?c)"
    by (rule decode_claims_members) (simp_all add: zone_claims_def assms(2,3))
  moreover have "ac_subject (clean_claims ?c) \<noteq> []" "ac_type (clean_claims ?c) = ''access''"
      "ac_expires_at (clean_claims ?c) = unix (now + tm_access_ttl m)"
    using assms(1) by (simp_all add: clean_claims_def zone_claims_def to_valid_utf8_empty ascii_names)
  ultimately show ?thesis
    using split_token [of token_header "json_object (claims_members ?c)"]
    by (simp add: create_zone_access_token_def sign_claims_def signed_part_def verify_access_token_def Let_def
        b64_decode_encode)
qed

text \<open>A signed token survives the trimming of the headers it travels in.\<close>

lemma trim_space_ends:
  assumes "byte c < 128" "\<not> ascii_space c" "byte d < 128" "\<not> ascii_space d"
  shows "trim_space (c # s @ [d]) = c # s @ [d]"
proof -
  have "space_len (c # t) = 0" for t
    using assms(1,2) by (auto simp: space3_def split: list.splits)
  moreover have "space_len_rev (d # t) = 0" for t
    using assms(3,4) by (auto simp: space3_def split: list.splits)
  ultimately show ?thesis by (simp add: trim_space_def trim_left_def trim_right_def strip_id)
qed

lemma plain_char_ascii: "plain_char c \<Longrightarrow> byte c < 128 \<and> \<not> ascii_space c"
proof -
  assume "plain_char c"
  then have "45 \<le> ibyte c" "ibyte c \<le> 122" by (simp_all add: plain_char_def)
  then have "45 \<le> byte c" "byte c \<le> 122" using byte_ibyte [of c] by linarith+
  then show ?thesis by (simp add: ascii_space_def)
qed

lemma b64_encode_ends: "s \<noteq> [] \<Longrightarrow> plain_char (hd (b64_encode s)) \<and> plain_char (last (b64_encode s)) \<and> b64_encode s \<noteq> []"
proof -
  assume "s \<noteq> []"
  then have "b64_encode s \<noteq> []" by (cases s rule: b64_encode.cases) auto
  then show ?thesis using b64_encode_plain [of s] by (simp add: list_all_iff)
qed

definition bearer :: "string \<Rightarrow> string" where
  "bearer token = ''Bearer '' @ token"

lemma sha_blocks_length: "length st = 8 \<Longrightarrow> length (sha_blocks n st s) = 8"
proof (induction n st s rule: sha_blocks.induct)
  case (2 n st s)
  have round: "length (sha_round p x) = 8" if len: "length x = 8" for p x
  proof -
    obtain a b c d e f g h where "x = [a, b, c, d, e, f, g, h]"
      using len by (auto simp: length_Suc_conv numeral_eq_Suc)
    then show ?thesis by (cases p) (simp add: Let_def)
  qed
  have "length (fold sha_round ps x) = 8" if "length x = 8" for ps x
    using that by (induction ps arbitrary: x) (simp_all add: round)
  then show ?case using 2 by (simp add: sha_block_def Let_def)
qed simp

lemma sha256_length: "length (sha256 s) = 32"
  using sha_blocks_length [of sha_init "length (sha_pad s) div 64" "sha_pad s"]
  by (simp add: sha256_def Let_def length_concat word_bytes_def comp_def sha_init_def sum_list_triv)

lemma sign_hmac_nonempty: "sign_hmac x k \<noteq> []"
  using sha256_length by (metis hmac_sha256_def length_0_conv numeral_eq_iff rel_simps(76) sign_hmac_def zero_neq_numeral)

lemma bearer_token:
  shows "trim_space (bearer (sign_claims m c)) = bearer (sign_claims m c)"
    "trim_space (trim_prefix (bearer (sign_claims m c)) ''Bearer '') = sign_claims m c"
    "sign_claims m c \<noteq> []"
proof -
  let ?sig = "b64_encode (sign_hmac (signed_part c) (tm_access_secret m))"
  have h: "token_header \<noteq> []" by (simp add: token_header_def json_object_def)
  obtain a u where a: "sign_claims m c = a # u" "plain_char a" "u \<noteq> []" "plain_char (last u)"
  proof -
    obtain b v where bv: "b64_encode token_header = b # v" "plain_char b"
      using b64_encode_ends [OF h] by (cases "b64_encode token_header") auto
    show ?thesis
      by (rule that [of b "v @ ''.'' @ b64_encode (json_object (claims_members c)) @ ''.'' @ ?sig"])
        (use bv b64_encode_ends [OF sign_hmac_nonempty] in \<open>simp_all add: sign_claims_def signed_part_def\<close>)
  qed
  then have u: "u = butlast u @ [last u]" by simp
  show "sign_claims m c \<noteq> []" using a by simp
  have "trim_space (a # butlast u @ [last u]) = a # butlast u @ [last u]"
    using a plain_char_ascii by (intro trim_space_ends) auto
  then have t: "trim_space (sign_claims m c) = sign_claims m c" using a u by simp
  then show "trim_space (trim_prefix (bearer (sign_claims m c)) ''Bearer '') = sign_claims m c"
    by (simp add: bearer_def trim_prefix_def has_prefix_def)
  have "trim_space (CHR ''B'' # (''earer '' @ a # butlast u) @ [last u]) = CHR ''B'' # (''earer '' @ a # butlast u) @ [last u]"
    using a plain_char_ascii by (intro trim_space_ends) (auto simp: ascii_space_def)
  then show "trim_space (bearer (sign_claims m c)) = bearer (sign_claims m c)"
    using a u by (simp add: bearer_def)
qed

text \<open>
  C11. A token the manager creates for a user is accepted by the manager, with exactly the claims
  it was created with (invalid UTF-8 replaced, as JSON does), at every second before its expiry,
  and refused as expired from that second on.
\<close>

theorem token_round_trip:
  assumes "user \<noteq> []" "in_int64 (unix now)" "in_int64 (unix (now + tm_access_ttl m))"
  shows "verify_access_token m t (fst (create_zone_access_token m now user email username zone workspace domain)) =
    (if unix t < unix (now + tm_access_ttl m)
     then Inr (clean_claims (zone_claims m now user email username zone workspace domain))
     else Inl err_expired_token)"
  using assms by (rule verify_created_token)

theorem token_round_trip_witness:
  "\<exists>c. verify_access_token (new_token_manager ''s'' ''r'' 0 0) 5000000000
    (fst (create_zone_access_token (new_token_manager ''s'' ''r'' 0 0) 0 ''ann'' [] [] '' z '' [] [])) = Inr c
    \<and> ac_subject c = ''ann'' \<and> ac_expires_at c = 900"
proof -
  let ?m = "new_token_manager ''s'' ''r'' 0 0"
  have ttl: "tm_access_ttl ?m = 900 * ns_second" by (simp add: new_token_manager_def ns_minute_def ns_second_def)
  have "to_valid_utf8 ''ann'' = ''ann''" by (intro to_valid_utf8_id valid_utf8_ascii) simp
  then show ?thesis
    using token_round_trip [of "''ann''" 0 ?m 5000000000 "[]" "[]" "'' z ''" "[]" "[]"]
    by (simp add: ttl unix_def ns_second_def in_int64_def min_int64_def max_int64_def clean_claims_def
        zone_claims_def)
qed

text \<open>
  C31. Only authenticated, unexpired access tokens are accepted: a token that verifies has three
  parts, its signature part decodes to the HMAC of the first two under the access secret, and the
  claims returned are those of its payload, of type access, with a subject and not expired. So a
  token signed under another secret is accepted only if the two MACs coincide.
\<close>

theorem verify_access_token_sound:
  assumes "verify_access_token m now token = Inr claims"
  shows "(\<exists>p0 p1 p2 payload. split_on (CHR ''.'') token = [p0, p1, p2] \<and>
      b64_decode p2 = Some (sign_hmac (p0 @ ''.'' @ p1) (tm_access_secret m)) \<and>
      b64_decode p1 = Some payload \<and> decode_claims payload = Some claims) \<and>
    ac_type claims = ''access'' \<and> ac_subject claims \<noteq> [] \<and> unix now < ac_expires_at claims \<and>
    (token = sign_claims m' c \<longrightarrow>
       sign_hmac (signed_part c) (tm_access_secret m') = sign_hmac (signed_part c) (tm_access_secret m))"
proof -
  have sound: "(\<exists>p0 p1 p2 payload. split_on (CHR ''.'') token = [p0, p1, p2] \<and>
      b64_decode p2 = Some (sign_hmac (p0 @ ''.'' @ p1) (tm_access_secret m)) \<and>
      b64_decode p1 = Some payload \<and> decode_claims payload = Some claims) \<and>
    ac_type claims = ''access'' \<and> ac_subject claims \<noteq> [] \<and> unix now < ac_expires_at claims"
    using assms by (auto simp: verify_access_token_def split: list.splits option.splits if_splits)
  let ?msg = "signed_part c"
  have "sign_hmac ?msg (tm_access_secret m') = sign_hmac ?msg (tm_access_secret m)"
    if "token = sign_claims m' c"
    using sound that split_token [of token_header "json_object (claims_members c)"]
    by (simp add: sign_claims_def signed_part_def Let_def b64_decode_encode)
  with sound show ?thesis by (simp add: signed_part_def)
qed

theorem verify_access_token_sound_witness:
  "\<exists>claims. decode_claims (json_object (claims_members (zone_claims (new_token_manager ''s'' ''r'' 0 0) 0
      ''ann'' [] [] [] [] []))) = Some claims \<and> ac_type claims = ''access''"
proof -
  let ?m = "new_token_manager ''s'' ''r'' 0 0"
  let ?c = "zone_claims ?m 0 ''ann'' [] [] [] [] []"
  have ttl: "tm_access_ttl ?m = 900 * ns_second" by (simp add: new_token_manager_def ns_minute_def ns_second_def)
  have d: "decode_claims (json_object (claims_members ?c)) = Some (clean_claims ?c)"
    by (rule decode_claims_members)
      (simp_all add: zone_claims_def ttl unix_def ns_second_def in_int64_def min_int64_def max_int64_def)
  have "verify_access_token ?m 0 (sign_claims ?m ?c) = Inr (clean_claims ?c)"
    using d split_token [of token_header "json_object (claims_members ?c)"]
    by (simp add: sign_claims_def signed_part_def verify_access_token_def Let_def b64_decode_encode clean_claims_def
        zone_claims_def to_valid_utf8_empty ascii_names ttl unix_def ns_second_def)
  from verify_access_token_sound [OF this] d show ?thesis by blast
qed

text \<open>A token for the witnesses of the modules that read tokens.\<close>

definition demo_tokens :: token_manager where
  "demo_tokens = new_token_manager ''s'' ''r'' 0 0"

definition demo_claims :: access_claims where
  "demo_claims = zone_claims demo_tokens 0 ''ann'' [] [] ''z'' [] []"

definition demo_bearer :: string where
  "demo_bearer = bearer (sign_claims demo_tokens demo_claims)"

lemma demo_claims_sel:
  "ac_subject demo_claims = ''ann''" "ac_zone_id demo_claims = ''z''" "clean_claims demo_claims = demo_claims"
proof -
  have t: "trim_space ''z'' = ''z''" "to_lower [] = []" by code_simp+
  have "to_valid_utf8 ''ann'' = ''ann''" "to_valid_utf8 ''z'' = ''z''"
    by (intro to_valid_utf8_id valid_utf8_ascii, simp)+
  then show "ac_subject demo_claims = ''ann''" "ac_zone_id demo_claims = ''z''"
      "clean_claims demo_claims = demo_claims"
    by (simp_all add: demo_claims_def zone_claims_def clean_claims_def t ascii_names)
qed

lemma verify_demo_token: "verify_access_token demo_tokens 0 (sign_claims demo_tokens demo_claims) = Inr demo_claims"
proof -
  have ttl: "tm_access_ttl demo_tokens = 900 * ns_second"
    by (simp add: demo_tokens_def new_token_manager_def ns_minute_def ns_second_def)
  show ?thesis
    using verify_created_token [of "''ann''" 0 demo_tokens 0 "[]" "[]" "''z''" "[]" "[]"] demo_claims_sel(3)
    by (simp add: create_zone_access_token_def ttl unix_def ns_second_def in_int64_def min_int64_def
        max_int64_def demo_claims_def [symmetric])
qed

end
