(* ===== verification/Rate_Limit.thy ===== *)
theory Rate_Limit
  imports Token_Manager
begin

text \<open>
  \<open>shared/middleware/rate_limit.go\<close>: the fixed-window limiter. The closure's variables are the
  state; the body between \<open>mu.Lock\<close> and \<open>mu.Unlock\<close> is one step. A request carries the three
  clock readings the code takes for it: before the lock, in the token check, and in
  \<open>time.Until\<close>.
\<close>

record rl_entry =
  re_count :: int
  re_reset_at :: time

record rl_bucket =
  bk_key :: string
  bk_limit :: int

record rl_state =
  rs_entries :: "string \<rightharpoonup> rl_entry"
  rs_last_cleanup :: time

record rl_request =
  rq_method :: string
  rq_path :: string
  rq_client_ip :: string
  rq_authorization :: string
  rq_now :: time
  rq_verify_now :: time
  rq_until_now :: time

datatype rl_response =
    RlPass
  | RlNext (rn_limit: int) (rn_remaining: int) (rn_reset: int)
  | RlBlocked (rb_retry_after: int) (rb_limit: int)

abbreviation rl_window :: duration where "rl_window \<equiv> ns_minute"

section \<open>Buckets\<close>

definition strict_ip_rate_limit_route :: "string \<Rightarrow> string \<Rightarrow> bool" where
  "strict_ip_rate_limit_route meth path \<longleftrightarrow> meth = ''POST'' \<and>
     path \<in> {''/api/v1/auth/register'', ''/api/v1/auth/login'', ''/api/v1/auth/google'',
       ''/api/v1/auth/refresh''}"

definition verified_access_token_subject :: "string \<Rightarrow> token_manager option \<Rightarrow> time \<Rightarrow> string" where
  "verified_access_token_subject authorization0 tokens now =
    (case tokens of None \<Rightarrow> []
     | Some m \<Rightarrow>
       (let authorization = trim_space authorization0 in
        if \<not> has_prefix authorization ''Bearer '' then []
        else
          (let raw = trim_space (trim_prefix authorization ''Bearer '') in
           if raw = [] then []
           else (case verify_access_token m now raw of
                   Inl e \<Rightarrow> [] | Inr claims \<Rightarrow> trim_space (ac_subject claims)))))"

definition rate_limit_buckets :: "int \<Rightarrow> token_manager option \<Rightarrow> rl_request \<Rightarrow> rl_bucket list" where
  "rate_limit_buckets limit tokens r =
    (let ip = \<lparr>bk_key = ''ip:'' @ rq_client_ip r, bk_limit = limit\<rparr> in
     if strict_ip_rate_limit_route (rq_method r) (rq_path r) then [ip]
     else
       (let user = verified_access_token_subject (rq_authorization r) tokens (rq_verify_now r) in
        if user = [] then [ip]
        else [\<lparr>bk_key = ''user:'' @ user, bk_limit = limit\<rparr>, ip\<lparr>bk_limit := wrap64 (limit * 10)\<rparr>]))"

section \<open>One request\<close>

definition rl_cleanup :: "time \<Rightarrow> rl_state \<Rightarrow> rl_state" where
  "rl_cleanup now st =
    (if rl_window < now - rs_last_cleanup st
     then \<lparr>rs_entries = (\<lambda>k. case rs_entries st k of
              None \<Rightarrow> None | Some e \<Rightarrow> if re_reset_at e < now then None else Some e),
           rs_last_cleanup = now\<rparr>
     else st)"

text \<open>The entry a bucket is judged by: a new window if there is none or it is over.\<close>

definition rl_current :: "time \<Rightarrow> rl_state \<Rightarrow> rl_bucket \<Rightarrow> rl_entry" where
  "rl_current now st b =
    (case rs_entries st (bk_key b) of
       None \<Rightarrow> \<lparr>re_count = 0, re_reset_at = now + rl_window\<rparr>
     | Some e \<Rightarrow> if re_reset_at e < now then \<lparr>re_count = 0, re_reset_at = now + rl_window\<rparr> else e)"

definition rl_store :: "rl_bucket \<times> rl_entry \<Rightarrow> rl_state \<Rightarrow> rl_state" where
  "rl_store be st = st\<lparr>rs_entries := (rs_entries st)(bk_key (fst be) \<mapsto> snd be)\<rparr>"

definition rl_judge :: "rl_bucket list \<Rightarrow> rl_request \<Rightarrow> rl_state \<Rightarrow> rl_state \<times> rl_response" where
  "rl_judge buckets r st0 =
    (let st = rl_cleanup (rq_now r) st0;
         current = map (rl_current (rq_now r) st) buckets
     in case List.find (\<lambda>(b, e). bk_limit b \<le> re_count e) (zip buckets current) of
          Some (b, e) \<Rightarrow>
            (let retry = go_div (re_reset_at e - rq_until_now r) ns_second
             in (rl_store (b, e) st, RlBlocked (if retry < 1 then 1 else retry) (bk_limit b)))
        | None \<Rightarrow>
            (let counted = map (\<lambda>e. e\<lparr>re_count := re_count e + 1\<rparr>) current
             in (fold rl_store (zip buckets counted) st,
                 RlNext (bk_limit (hd buckets)) (bk_limit (hd buckets) - re_count (hd counted))
                   (unix (re_reset_at (hd counted))))))"

definition rate_limit ::
    "int \<Rightarrow> int \<Rightarrow> token_manager option \<Rightarrow> rl_request \<Rightarrow> rl_state \<Rightarrow> rl_state \<times> rl_response" where
  "rate_limit per_minute burst tokens r st =
    (let limit = wrap64 (per_minute + burst) in
     if limit \<le> 0 then (st, RlPass)
     else rl_judge (rate_limit_buckets limit tokens r) r st)"

text \<open>The requests in the order they take the lock, and their answers.\<close>

fun rl_run ::
    "int \<Rightarrow> int \<Rightarrow> token_manager option \<Rightarrow> rl_request list \<Rightarrow> rl_state \<Rightarrow> rl_state \<times> rl_response list" where
  "rl_run pm bu tokens [] st = (st, [])"
| "rl_run pm bu tokens (r # rs) st =
    (case rate_limit pm bu tokens r st of
       (st1, a) \<Rightarrow> (case rl_run pm bu tokens rs st1 of (st2, as) \<Rightarrow> (st2, a # as)))"

definition rl_init :: "time \<Rightarrow> rl_state" where
  "rl_init now = \<lparr>rs_entries = Map.empty, rs_last_cleanup = now\<rparr>"

section \<open>The window bound\<close>









lemma rl_judge_cases:
  assumes "rl_judge bs r st = (st', a)"
  obtains (blocked) b where "b \<in> set bs" "st' = rl_store (b, rl_current (rq_now r) (rl_cleanup (rq_now r) st) b)
      (rl_cleanup (rq_now r) st)" "\<exists>n. a = RlBlocked n (bk_limit b)"
      "bk_limit b \<le> re_count (rl_current (rq_now r) (rl_cleanup (rq_now r) st) b)"
  | (admitted) lim rem res where "a = RlNext lim rem res"
      "st' = fold rl_store (zip bs (map (\<lambda>b. (rl_current (rq_now r) (rl_cleanup (rq_now r) st) b)
        \<lparr>re_count := re_count (rl_current (rq_now r) (rl_cleanup (rq_now r) st) b) + 1\<rparr>) bs)) (rl_cleanup (rq_now r) st)"
      "\<forall>b\<in>set bs. re_count (rl_current (rq_now r) (rl_cleanup (rq_now r) st) b) < bk_limit b"
proof (cases "List.find (\<lambda>(b, e). bk_limit b \<le> re_count e)
    (zip bs (map (rl_current (rq_now r) (rl_cleanup (rq_now r) st)) bs))")
  case None
  then have "\<forall>b\<in>set bs. re_count (rl_current (rq_now r) (rl_cleanup (rq_now r) st) b) < bk_limit b"
    by (force simp: find_None_iff zip_map2 zip_same_conv_map)
  with None assms show ?thesis by (intro admitted) (auto simp: rl_judge_def Let_def comp_def)
next
  case (Some p)
  then obtain b e where p: "p = (b, e)" "(b, e) \<in> set (zip bs (map (rl_current (rq_now r) (rl_cleanup (rq_now r) st)) bs))"
      "bk_limit b \<le> re_count e"
    by (cases p) (auto dest!: find_Some_mem)
  then have "b \<in> set bs" "e = rl_current (rq_now r) (rl_cleanup (rq_now r) st) b"
    by (auto simp: zip_map2 zip_same_conv_map)
  with Some p assms show ?thesis by (intro blocked) (auto simp: rl_judge_def Let_def)
qed




definition effective_limit :: "int \<Rightarrow> int \<Rightarrow> int" where
  "effective_limit pm bu = wrap64 (pm + bu)"



definition demo_limit_request :: "string \<Rightarrow> string \<Rightarrow> string \<Rightarrow> time \<Rightarrow> rl_request" where
  "demo_limit_request meth path authorization now =
    \<lparr>rq_method = meth, rq_path = path, rq_client_ip = ''10.0.0.1'', rq_authorization = authorization,
     rq_now = now, rq_verify_now = now, rq_until_now = now\<rparr>"


section \<open>A refused request costs nothing\<close>

lemma rl_current_cleanup:
  "now \<le> now' \<Longrightarrow> rl_current now' (rl_cleanup now st) b = rl_current now' st b"
  by (auto simp: rl_current_def rl_cleanup_def split: option.splits)

text \<open>
  A refused request uses up no quota, and the removal of old entries changes none: what any
  bucket is judged by, at any later time, is the same after the request as before it. A refusal
  names a bucket that has reached its limit and a delay of at least one second.
\<close>

lemma blocked_request_neutral:
  assumes "rl_judge bs r st = (st', RlBlocked n lim)" "\<forall>b\<in>set bs. 0 < bk_limit b" "rq_now r \<le> now'"
  shows "rl_current now' st' b = rl_current now' st b \<and> 1 \<le> n \<and>
    (\<exists>b'\<in>set bs. bk_limit b' = lim \<and> lim \<le> re_count (rl_current (rq_now r) st b'))"
  using assms(1)
proof (cases rule: rl_judge_cases)
  let ?st = "rl_cleanup (rq_now r) st"
  case (blocked b')
  let ?e = "rl_current (rq_now r) ?st b'"
  have pos: "0 < re_count ?e" using blocked assms(2) by force
  then have e: "rs_entries ?st (bk_key b') = Some ?e"
    by (auto simp: rl_current_def split: option.splits if_splits)
  have "rl_store (b', ?e) ?st = ?st" using e by (cases ?st) (auto simp: rl_store_def)
  then have "rl_current now' st' b = rl_current now' st b"
    using blocked(2) rl_current_cleanup [OF assms(3)] by simp
  moreover have "1 \<le> n" using assms(1)
    by (auto simp: rl_judge_def Let_def split: option.splits prod.splits if_splits)
  moreover have "bk_limit b' = lim" "bk_limit b' \<le> re_count (rl_current (rq_now r) st b')"
    using blocked(3,4) rl_current_cleanup [of "rq_now r" "rq_now r"] by auto
  ultimately show ?thesis using blocked(1) by blast
qed simp

lemma blocked_request_neutral_witness:
  "\<exists>st' n. rl_judge [\<lparr>bk_key = ''ip:x'', bk_limit = 1\<rparr>] (demo_limit_request ''GET'' ''/'' [] 5)
      ((rl_init 0)\<lparr>rs_entries := [''ip:x'' \<mapsto> \<lparr>re_count = 1, re_reset_at = 9\<rparr>]\<rparr>) = (st', RlBlocked n 1) \<and> 1 \<le> n"
proof -
  let ?st = "(rl_init 0)\<lparr>rs_entries := [''ip:x'' \<mapsto> \<lparr>re_count = 1, re_reset_at = 9\<rparr>]\<rparr>"
  let ?r = "demo_limit_request ''GET'' ''/'' [] 5"
  obtain st' n where r: "rl_judge [\<lparr>bk_key = ''ip:x'', bk_limit = 1\<rparr>] ?r ?st = (st', RlBlocked n 1)"
    by (simp add: rl_judge_def rl_cleanup_def rl_current_def demo_limit_request_def rl_init_def Let_def
        ns_minute_def ns_second_def)
  then show ?thesis using blocked_request_neutral [OF r] by (auto simp: demo_limit_request_def)
qed

section \<open>Shared address buckets\<close>

definition authenticated_request :: "token_manager option \<Rightarrow> rl_request \<Rightarrow> bool" where
  "authenticated_request tokens r \<longleftrightarrow> \<not> strict_ip_rate_limit_route (rq_method r) (rq_path r) \<and>
     verified_access_token_subject (rq_authorization r) tokens (rq_verify_now r) \<noteq> []"

lemma authenticated_counts_ip:
  assumes "0 < effective_limit pm bu"
    and "\<forall>r\<in>set rs. authenticated_request tokens r \<and> rq_client_ip r = ip \<and> t \<le> rq_now r \<and> rq_now r \<le> t + rl_window"
    and "\<forall>a\<in>set (snd (rl_run pm bu tokens rs st)). \<exists>l m n. a = RlNext l m n"
    and "rs_entries st (''ip:'' @ ip) = Some \<lparr>re_count = c, re_reset_at = t + rl_window\<rparr>"
  shows "rs_entries (fst (rl_run pm bu tokens rs st)) (''ip:'' @ ip) =
    Some \<lparr>re_count = c + int (length rs), re_reset_at = t + rl_window\<rparr>"
  using assms(2-4)
proof (induction rs arbitrary: st c)
  case (Cons r rs)
  let ?bs = "rate_limit_buckets (effective_limit pm bu) tokens r"
  obtain st1 a where s1: "rate_limit pm bu tokens r st = (st1, a)" by fastforce
  obtain st2 as where s2: "rl_run pm bu tokens rs st1 = (st2, as)" by fastforce
  have j: "rl_judge ?bs r st = (st1, a)" using s1 assms(1) by (simp add: rate_limit_def effective_limit_def)
  obtain u l l' where bs: "?bs = [\<lparr>bk_key = ''user:'' @ u, bk_limit = l\<rparr>, \<lparr>bk_key = ''ip:'' @ ip, bk_limit = l'\<rparr>]"
    using Cons.prems(1) by (simp add: rate_limit_buckets_def authenticated_request_def Let_def)
  have "rq_now r \<le> t + rl_window" using Cons.prems(1) by simp
  then have cur: "rs_entries (rl_cleanup (rq_now r) st) (''ip:'' @ ip) = Some \<lparr>re_count = c, re_reset_at = t + rl_window\<rparr>"
    "rl_current (rq_now r) (rl_cleanup (rq_now r) st) \<lparr>bk_key = ''ip:'' @ ip, bk_limit = l'\<rparr> =
      \<lparr>re_count = c, re_reset_at = t + rl_window\<rparr>"
    using Cons.prems(3) by (simp_all add: rl_cleanup_def rl_current_def)
  have "\<exists>l m n. a = RlNext l m n" using Cons.prems(2) s1 s2 by simp
  with j have "rs_entries st1 (''ip:'' @ ip) = Some \<lparr>re_count = c + 1, re_reset_at = t + rl_window\<rparr>"
    by (cases rule: rl_judge_cases) (auto simp: bs cur [simplified] rl_store_def)
  from Cons.IH [OF _ _ this] Cons.prems s1 s2 show ?case by (simp add: algebra_simps)
qed simp

text \<open>
  The requests of signed-in users use up the address bucket that anonymous requests and the
  sign-in, sign-up and refresh routes are judged by: once as many authenticated requests as the
  plain limit have been admitted from an address in its window, a request of one of those routes
  from there is refused until the window ends, although the users' own quota is separate.
\<close>

lemma authenticated_traffic_blocks_login:
  assumes "0 < effective_limit pm bu"
    and "\<forall>r\<in>set rs. authenticated_request tokens r \<and> rq_client_ip r = ip \<and> t \<le> rq_now r \<and> rq_now r \<le> t + rl_window"
    and "\<forall>a\<in>set (snd (rl_run pm bu tokens rs st)). \<exists>l m n. a = RlNext l m n"
    and "rs_entries st (''ip:'' @ ip) = Some \<lparr>re_count = c, re_reset_at = t + rl_window\<rparr>"
    and "effective_limit pm bu \<le> c + int (length rs)"
    and "strict_ip_rate_limit_route (rq_method q) (rq_path q)" "rq_client_ip q = ip" "rq_now q \<le> t + rl_window"
  shows "\<exists>n. snd (rate_limit pm bu tokens q (fst (rl_run pm bu tokens rs st))) = RlBlocked n (effective_limit pm bu)"
proof -
  let ?st = "fst (rl_run pm bu tokens rs st)"
  let ?b = "\<lparr>bk_key = ''ip:'' @ ip, bk_limit = effective_limit pm bu\<rparr>"
  have "rl_current (rq_now q) (rl_cleanup (rq_now q) ?st) ?b =
      \<lparr>re_count = c + int (length rs), re_reset_at = t + rl_window\<rparr>"
    using authenticated_counts_ip [OF assms(1-4)] assms(8) by (simp add: rl_cleanup_def rl_current_def)
  moreover have "rate_limit_buckets (effective_limit pm bu) tokens q = [?b]"
    using assms(6,7) by (simp add: rate_limit_buckets_def)
  moreover have "rate_limit pm bu tokens q ?st = rl_judge (rate_limit_buckets (effective_limit pm bu) tokens q) q ?st"
    using assms(1) by (simp add: rate_limit_def effective_limit_def)
  ultimately show ?thesis using assms(5) by (simp add: rl_judge_def Let_def)
qed

lemma demo_bearer_subject: "verified_access_token_subject demo_bearer (Some demo_tokens) 0 = ''ann''"
proof -
  have "trim_space ''ann'' = ''ann''" by code_simp
  then show ?thesis
    using verify_demo_token
    by (simp add: verified_access_token_subject_def demo_bearer_def bearer_token Let_def demo_claims_sel)
      (simp add: bearer_def has_prefix_def)
qed

lemma authenticated_traffic_blocks_login_witness:
  "\<exists>n. snd (rate_limit 1 0 (Some demo_tokens) (demo_limit_request ''POST'' ''/api/v1/auth/refresh'' [] 5)
     (fst (rl_run 1 0 (Some demo_tokens) [demo_limit_request ''GET'' ''/api/v1/me'' demo_bearer 0]
       ((rl_init 0)\<lparr>rs_entries := [''ip:10.0.0.1'' \<mapsto> \<lparr>re_count = 0, re_reset_at = rl_window\<rparr>]\<rparr>)))) =
   RlBlocked n 1"
proof -
  let ?q = "demo_limit_request ''POST'' ''/api/v1/auth/refresh'' [] 5"
  let ?r = "demo_limit_request ''GET'' ''/api/v1/me'' demo_bearer 0"
  let ?st = "(rl_init 0)\<lparr>rs_entries := [''ip:10.0.0.1'' \<mapsto> \<lparr>re_count = 0, re_reset_at = rl_window\<rparr>]\<rparr>"
  have l: "effective_limit 1 0 = 1" by (simp add: effective_limit_def wrap64_def)
  have sub: "verified_access_token_subject (rq_authorization ?r) (Some demo_tokens) (rq_verify_now ?r) = ''ann''"
    by (simp add: demo_limit_request_def demo_bearer_subject)
  have auth: "authenticated_request (Some demo_tokens) ?r"
    by (simp add: authenticated_request_def sub) (simp add: demo_limit_request_def strict_ip_rate_limit_route_def)
  have "rate_limit_buckets 1 (Some demo_tokens) ?r =
      [\<lparr>bk_key = ''user:ann'', bk_limit = 1\<rparr>, \<lparr>bk_key = ''ip:10.0.0.1'', bk_limit = 10\<rparr>]"
    using sub by (simp add: rate_limit_buckets_def demo_limit_request_def strict_ip_rate_limit_route_def wrap64_def)
  then have "\<forall>a\<in>set (snd (rl_run 1 0 (Some demo_tokens) [?r] ?st)). \<exists>l m n. a = RlNext l m n"
    by (simp add: rate_limit_def wrap64_def rl_judge_def rl_cleanup_def rl_current_def rl_init_def
        demo_limit_request_def ns_minute_def ns_second_def Let_def split: prod.split)
  then show ?thesis
    using authenticated_traffic_blocks_login [of 1 0 "[?r]" "Some demo_tokens" "''10.0.0.1''" 0 ?st 0 ?q] auth
    by (simp add: l) (simp add: demo_limit_request_def strict_ip_rate_limit_route_def ns_minute_def ns_second_def)
qed

end
