(* ===== verification/Auth_Middleware.thy ===== *)
theory Auth_Middleware
  imports Token_Manager
begin

text \<open>
  \<open>shared/middleware/auth.go\<close> and \<open>permission.go\<close>. A request carries the parts of the gin
  context the handlers read; a handler that calls \<open>c.Next\<close> returns the identity it has put into
  the context, a handler that aborts returns the failure it has written. The zone and permission
  checkers are the functions behind their Go interfaces.
\<close>

record auth_request =
  aq_authorization :: string
  aq_host :: string
  aq_resolved_zone :: string
  aq_param_workspace :: string
  aq_query_workspace :: string
  aq_now :: time

record auth_identity =
  ai_user_id :: string
  ai_email :: string
  ai_username :: string
  ai_zone_id :: string
  ai_workspace_id :: string
  ai_zone_domain :: string

record zone_checker =
  zc_workspace_in_zone :: "string \<Rightarrow> string \<Rightarrow> bool result"
  zc_domain_active :: "string \<Rightarrow> string \<Rightarrow> bool result"
  zc_domain_recoverable :: "string \<Rightarrow> string \<Rightarrow> bool result"

section \<open>Hosts\<close>

text \<open>\<open>net.SplitHostPort\<close>, host part only: \<open>None\<close> is an error.\<close>

fun last_index :: "char \<Rightarrow> string \<Rightarrow> nat option" where
  "last_index c [] = None"
| "last_index c (x # s) =
    (case last_index c s of Some i \<Rightarrow> Some (Suc i) | None \<Rightarrow> if x = c then Some 0 else None)"

fun first_index :: "char \<Rightarrow> string \<Rightarrow> nat option" where
  "first_index c [] = None"
| "first_index c (x # s) = (if x = c then Some 0 else map_option Suc (first_index c s))"

definition split_host_port :: "string \<Rightarrow> string option" where
  "split_host_port hp =
    (case last_index (CHR '':'') hp of
       None \<Rightarrow> None
     | Some i \<Rightarrow>
       if has_prefix hp ''['' then
         (case first_index (CHR '']'') hp of
            None \<Rightarrow> None
          | Some e \<Rightarrow>
            if e + 1 = i \<and> CHR ''['' \<notin> set (drop 1 hp) \<and> CHR '']'' \<notin> set (drop (e + 1) hp)
            then Some (take (e - 1) (drop 1 hp)) else None)
       else
         (let host = take i hp in
          if CHR '':'' \<in> set host \<or> CHR ''['' \<in> set hp \<or> CHR '']'' \<in> set hp then None else Some host))"

definition trim_brackets :: "string \<Rightarrow> string" where
  "trim_brackets s =
    (let p = (\<lambda>c. c = CHR ''['' \<or> c = CHR '']'') in rev (dropWhile p (rev (dropWhile p s))))"

definition is_local_development_host :: "string \<Rightarrow> bool" where
  "is_local_development_host raw =
    (let host0 = to_lower (trim_space raw);
         host1 = (case split_host_port host0 of Some h \<Rightarrow> h | None \<Rightarrow> host0);
         host = trim_brackets host1
     in host = ''localhost'' \<or> host = ''127.0.0.1'' \<or> host = ''::1'')"

section \<open>Authentication\<close>

text \<open>The check of the request's host against the zone of the token.\<close>

definition check_zone_domain ::
    "pgconn_api \<Rightarrow> bool \<Rightarrow> zone_checker \<Rightarrow> string \<Rightarrow> string \<Rightarrow> http_failure option" where
  "check_zone_domain api allow_suspended zc zone host =
    (case zc_domain_active zc zone host of
       Inl e \<Rightarrow> Some (response_error api e)
     | Inr matches \<Rightarrow>
       if matches then None
       else if allow_suspended then
         (case zc_domain_recoverable zc zone host of
            Inl e \<Rightarrow> Some (response_error api e)
          | Inr m \<Rightarrow> if m then None else Some (fail 403 ''ZONE_DOMAIN_MISMATCH''))
       else Some (fail 403 ''ZONE_DOMAIN_MISMATCH''))"

definition request_workspace :: "auth_request \<Rightarrow> string" where
  "request_workspace q =
    (let w = trim_space (aq_param_workspace q)
     in if w = [] then trim_space (aq_query_workspace q) else w)"

definition check_zone_workspace ::
    "pgconn_api \<Rightarrow> zone_checker \<Rightarrow> string \<Rightarrow> string \<Rightarrow> http_failure option" where
  "check_zone_workspace api zc workspace zone =
    (case zc_workspace_in_zone zc workspace zone of
       Inl e \<Rightarrow> Some (response_error api e)
     | Inr m \<Rightarrow> if m then None else Some (fail 403 ''WORKSPACE_ZONE_MISMATCH''))"

definition auth_with_zone_policy ::
    "pgconn_api \<Rightarrow> token_manager \<Rightarrow> bool \<Rightarrow> zone_checker option \<Rightarrow> auth_request \<Rightarrow> http_failure + auth_identity" where
  "auth_with_zone_policy api tokens allow_suspended checker q =
    (let raw = trim_space (aq_authorization q) in
     if raw = [] then Inl (fail 401 ''UNAUTHORIZED'')
     else if \<not> has_prefix raw ''Bearer '' then Inl (fail 401 ''UNAUTHORIZED'')
     else
       (case verify_access_token tokens (aq_now q) (trim_space (trim_prefix raw ''Bearer '')) of
          Inl e \<Rightarrow> Inl (fail 401 ''UNAUTHORIZED'')
        | Inr claims \<Rightarrow>
          (let resolved = trim_space (aq_resolved_zone q) in
           if resolved \<noteq> [] \<and> ac_zone_id claims = [] then Inl (fail 401 ''TOKEN_ZONE_REQUIRED'')
           else if resolved \<noteq> [] \<and> ac_zone_id claims \<noteq> resolved then Inl (fail 403 ''ZONE_TOKEN_MISMATCH'')
           else
             (case (case checker of
                      Some zc \<Rightarrow>
                        if ac_zone_id claims \<noteq> [] \<and> \<not> is_local_development_host (aq_host q)
                        then check_zone_domain api allow_suspended zc (ac_zone_id claims) (aq_host q) else None
                    | None \<Rightarrow> None) of
                Some f \<Rightarrow> Inl f
              | None \<Rightarrow>
                (case (case checker of
                         Some zc \<Rightarrow>
                           if ac_zone_id claims \<noteq> [] \<and> request_workspace q \<noteq> []
                           then check_zone_workspace api zc (request_workspace q) (ac_zone_id claims) else None
                       | None \<Rightarrow> None) of
                   Some f \<Rightarrow> Inl f
                 | None \<Rightarrow>
                     Inr \<lparr>ai_user_id = ac_subject claims, ai_email = ac_email claims,
                       ai_username = ac_username claims, ai_zone_id = ac_zone_id claims,
                       ai_workspace_id = ac_workspace_id claims, ai_zone_domain = ac_domain claims\<rparr>)))))"

section \<open>Permissions\<close>



section \<open>Properties\<close>





definition quiet_api :: pgconn_api where
  "quiet_api = \<lparr>pc_timeout = \<lambda>_. False, pc_connection = \<lambda>_. False\<rparr>"

definition open_checker :: zone_checker where
  "open_checker = \<lparr>zc_workspace_in_zone = (\<lambda>w z. Inr (w = ''w'' \<and> z = ''z'')),
     zc_domain_active = (\<lambda>z h. Inr (z = ''z'' \<and> h = ''chat.example.org'')),
     zc_domain_recoverable = (\<lambda>z h. Inr False)\<rparr>"

definition demo_auth_request :: "string \<Rightarrow> string \<Rightarrow> auth_request" where
  "demo_auth_request host workspace = \<lparr>aq_authorization = demo_bearer, aq_host = host, aq_resolved_zone = [],
     aq_param_workspace = workspace, aq_query_workspace = [], aq_now = 0\<rparr>"

lemma demo_auth_token:
  "verify_access_token demo_tokens (aq_now (demo_auth_request h w))
     (trim_space (trim_prefix (trim_space (aq_authorization (demo_auth_request h w))) ''Bearer '')) = Inr demo_claims"
  by (simp add: demo_auth_request_def demo_bearer_def bearer_token verify_demo_token)

lemma demo_auth_header:
  "trim_space (aq_authorization (demo_auth_request h w)) \<noteq> []"
  "has_prefix (trim_space (aq_authorization (demo_auth_request h w))) ''Bearer ''"
  by (simp_all add: demo_auth_request_def demo_bearer_def bearer_token) (simp_all add: bearer_def has_prefix_def)


text \<open>
  The domain check can be switched off by the client: whatever the zone checker would answer
  (also for a suspended zone), a request that calls itself local and names no workspace is
  authenticated on the token alone, when no zone was resolved from its domain.
\<close>

lemma local_host_skips_domain_check:
  assumes "verify_access_token tokens (aq_now q)
      (trim_space (trim_prefix (trim_space (aq_authorization q)) ''Bearer '')) = Inr claims"
    and "has_prefix (trim_space (aq_authorization q)) ''Bearer ''"
    and "trim_space (aq_resolved_zone q) = []" "request_workspace q = []"
    and "is_local_development_host (aq_host q)"
  shows "\<exists>i. auth_with_zone_policy api tokens False (Some zc) q = Inr i \<and>
    ai_user_id i = ac_subject claims \<and> ai_zone_id i = ac_zone_id claims"
proof -
  have "trim_space (aq_authorization q) \<noteq> []" using assms(2) by (auto simp: has_prefix_def)
  then show ?thesis using assms by (simp add: auth_with_zone_policy_def Let_def)
qed

lemma local_host_skips_domain_check_witness:
  "\<exists>i. auth_with_zone_policy quiet_api demo_tokens False
      (Some (open_checker\<lparr>zc_domain_active := \<lambda>_ _. Inr False\<rparr>)) (demo_auth_request ''LOCALHOST:80'' []) = Inr i \<and>
    ai_zone_id i = ''z''"
proof -
  have "is_local_development_host ''LOCALHOST:80''" by code_simp
  then have "is_local_development_host (aq_host (demo_auth_request ''LOCALHOST:80'' []))"
      "trim_space (aq_resolved_zone (demo_auth_request ''LOCALHOST:80'' [])) = []"
      "request_workspace (demo_auth_request ''LOCALHOST:80'' []) = []"
    by (simp_all add: demo_auth_request_def request_workspace_def)
  from local_host_skips_domain_check [OF demo_auth_token demo_auth_header(2) this(2,3,1)]
  show ?thesis by (auto simp: demo_claims_sel)
qed

end
