(* ===== verification/Ws_Server.thy ===== *)
theory Ws_Server
  imports Ws_Manager Token_Manager
begin

text \<open>
  \<open>platform/websocket/delivery/http/handler.go\<close>: who may connect, which rooms a connection may
  join, and the node as a machine whose steps are the critical sections of the manager. A
  broadcast is two kinds of steps, the collection of its targets and one delivery per target,
  because the manager's lock is released in between.
\<close>

section \<open>Connecting\<close>

record ws_request =
  wq_authorization :: string
  wq_query :: "(string \<Rightarrow> string) option"
  wq_subprotocol :: string

definition bearer_token_of :: "string \<Rightarrow> string" where
  "bearer_token_of header0 =
    (let header = trim_space header0 in
     if \<not> has_prefix (to_lower header) ''bearer '' then [] else trim_space (drop 7 header))"

fun subprotocol_scan :: "string list \<Rightarrow> string" where
  "subprotocol_scan [] = []"
| "subprotocol_scan (part # rest) =
    (let protocol = trim_space part in
     if to_lower protocol = ''webtui.jwt'' \<or> to_lower protocol = ''webtui.token''
     then (case rest of [] \<Rightarrow> subprotocol_scan rest | next # _ \<Rightarrow> trim_space next)
     else if has_prefix protocol ''webtui.jwt.'' then trim_space (trim_prefix protocol ''webtui.jwt.'')
     else if has_prefix protocol ''webtui.token.'' then trim_space (trim_prefix protocol ''webtui.token.'')
     else subprotocol_scan rest)"

definition token_from_subprotocol :: "string \<Rightarrow> string" where
  "token_from_subprotocol header = subprotocol_scan (split_on (CHR '','') header)"

definition access_token_from_request :: "ws_request option \<Rightarrow> string" where
  "access_token_from_request req =
    (case req of None \<Rightarrow> []
     | Some r \<Rightarrow>
       (let t = bearer_token_of (wq_authorization r) in
        if t \<noteq> [] then t
        else (case wq_query r of
          None \<Rightarrow> token_from_subprotocol (wq_subprotocol r)
        | Some query \<Rightarrow>
            if trim_space (query ''access_token'') \<noteq> [] then trim_space (query ''access_token'')
            else if trim_space (query ''token'') \<noteq> [] then trim_space (query ''token'')
            else token_from_subprotocol (wq_subprotocol r))))"

definition authenticate_request :: "token_manager option \<Rightarrow> time \<Rightarrow> ws_request option \<Rightarrow> access_claims result" where
  "authenticate_request tokens now req =
    (case tokens of None \<Rightarrow> Inl err_invalid_token
     | Some tm \<Rightarrow>
       (let token = access_token_from_request req in
        if token = [] then Inl err_invalid_token else verify_access_token tm now token))"

text \<open>\<open>Connect\<close> up to the upgrade: the user and the zone the connection is served for.\<close>

definition ws_connect ::
    "bool \<Rightarrow> token_manager option \<Rightarrow> time \<Rightarrow> string \<Rightarrow> ws_request option \<Rightarrow> http_failure + string \<times> string" where
  "ws_connect has_manager tokens now resolved0 req =
    (if \<not> has_manager then Inl (fail 503 ''WEBSOCKET_DISABLED'')
     else case authenticate_request tokens now req of
       Inl e \<Rightarrow> Inl (fail 401 ''UNAUTHORIZED'')
     | Inr claims \<Rightarrow>
       (let resolved = trim_space resolved0 in
        if ac_zone_id claims = [] \<or> resolved = [] \<or> ac_zone_id claims \<noteq> resolved
        then Inl (fail 403 ''ZONE_TOKEN_MISMATCH'')
        else Inr (ac_subject claims, ac_zone_id claims)))"

section \<open>Commands\<close>

type_synonym room_zone_checker = "(string \<Rightarrow> string \<Rightarrow> bool result) option"
type_synonym room_authorizer = "(string \<Rightarrow> string \<Rightarrow> bool) option"

definition room_belongs_to_zone :: "room_zone_checker \<Rightarrow> string \<Rightarrow> string \<Rightarrow> bool" where
  "room_belongs_to_zone checker zone room =
    (case split_on (CHR '':'') (trim_space room) of
       [p0, p1, p2, p3] \<Rightarrow>
         p0 = ''workspace'' \<and> p2 = ''channel'' \<and>
         (case checker of
            None \<Rightarrow> trim_space zone \<noteq> []
          | Some check \<Rightarrow> check p1 (trim_space zone) = Inr True)
     | _ \<Rightarrow> False)"

record ws_command =
  wk_type :: string
  wk_room :: string

definition typing_event :: "string \<Rightarrow> string \<Rightarrow> string \<Rightarrow> string ws_event" where
  "typing_event ty room user =
    \<lparr>we_type = ty, we_room = room, we_user_id = user, we_payload = [''user_id'' \<mapsto> user], we_timestamp = None\<rparr>"

definition may_join :: "room_zone_checker \<Rightarrow> room_authorizer \<Rightarrow> string \<Rightarrow> string \<Rightarrow> string \<Rightarrow> bool" where
  "may_join checker authorizer zone user room \<longleftrightarrow>
     room_belongs_to_zone checker zone room \<and> (case authorizer of None \<Rightarrow> True | Some can \<Rightarrow> can user room)"

definition handle_command ::
    "room_zone_checker \<Rightarrow> room_authorizer \<Rightarrow> time \<Rightarrow> string list \<Rightarrow> string ws_client option \<Rightarrow> ws_command \<Rightarrow>
     string ws_manager \<Rightarrow> string ws_manager \<times> bc_result" where
  "handle_command checker authorizer now order client cmd m =
    (case client of None \<Rightarrow> (m, BcOk)
     | Some c \<Rightarrow>
       (let room = trim_space (wk_room cmd); ty = trim_space (wk_type cmd) in
        if room = [] then (m, BcOk)
        else if ty = ''join'' then
          (if \<not> may_join checker authorizer (wc_zone_id c) (wc_user_id c) room then (m, BcOk)
           else (ws_join room (wc_id c) m, BcOk))
        else if ty = ''leave'' then (ws_leave room (wc_id c) m, BcOk)
        else if ty = ''TypingStarted'' \<or> ty = ''TypingStopped'' then
          (if \<not> ws_is_member room (wc_id c) m then (m, BcOk)
           else ws_broadcast now None order room (typing_event ty room (wc_user_id c)) m)
        else (m, BcOk)))"

section \<open>The node\<close>

text \<open>
  A connection is served by a client object of its own with a random id, taken to be new. The
  broadcasts in flight are pairs of an event and the targets still to visit.
\<close>

record ws_server =
  sv_manager :: "string ws_manager"
  sv_flight :: "(string ws_event \<times> nat list) list"
  sv_panic :: bool

definition serve_client :: "string \<Rightarrow> string \<Rightarrow> string \<Rightarrow> string ws_client" where
  "serve_client i user zone =
    \<lparr>wc_id = i, wc_user_id = user, wc_zone_id = zone, wc_send = Some (make_chan 64)\<rparr>"

inductive server_step :: "room_zone_checker \<Rightarrow> room_authorizer \<Rightarrow> ws_server \<Rightarrow> ws_server \<Rightarrow> bool"
  for checker authorizer where
  srv_connect:
    "wm_heap (sv_manager s) a = None \<Longrightarrow> wm_clients (sv_manager s) i = None \<Longrightarrow> i \<noteq> [] \<Longrightarrow>
     server_step checker authorizer s (s\<lparr>sv_manager := fst (ws_register (Some a)
       ((sv_manager s)\<lparr>wm_heap := (wm_heap (sv_manager s))(a \<mapsto> serve_client i user zone)\<rparr>))\<rparr>)"
| srv_command:
    "wm_clients (sv_manager s) i = Some a \<Longrightarrow> wm_heap (sv_manager s) a = Some c \<Longrightarrow>
     visit_order (trim_space (wk_room cmd)) (sv_manager s) order \<Longrightarrow>
     handle_command checker authorizer now order (Some c) cmd (sv_manager s) = (m', BcOk) \<Longrightarrow>
     server_step checker authorizer s (s\<lparr>sv_manager := m'\<rparr>)"
| srv_disconnect:
    "ws_unregister i (sv_manager s) = Some m' \<Longrightarrow> server_step checker authorizer s (s\<lparr>sv_manager := m'\<rparr>)"
| srv_disconnect_panic:
    "ws_unregister i (sv_manager s) = None \<Longrightarrow> server_step checker authorizer s (s\<lparr>sv_panic := True\<rparr>)"
| srv_collect:
    "visit_order room (sv_manager s) order \<Longrightarrow>
     server_step checker authorizer s
       (s\<lparr>sv_flight := sv_flight s @ [(stamp_event now room ev, broadcast_targets order (sv_manager s))]\<rparr>)"
| srv_deliver:
    "sv_flight s = xs @ (ev, a # as) # ys \<Longrightarrow> deliver_one ev a (sv_manager s) = Some m' \<Longrightarrow>
     server_step checker authorizer s (s\<lparr>sv_manager := m', sv_flight := xs @ (ev, as) # ys\<rparr>)"
| srv_deliver_panic:
    "sv_flight s = xs @ (ev, a # as) # ys \<Longrightarrow> deliver_one ev a (sv_manager s) = None \<Longrightarrow>
     server_step checker authorizer s (s\<lparr>sv_panic := True\<rparr>)"

definition server_init :: ws_server where
  "server_init = \<lparr>sv_manager = new_ws_manager, sv_flight = [], sv_panic = False\<rparr>"

definition server_reachable :: "room_zone_checker \<Rightarrow> room_authorizer \<Rightarrow> ws_server \<Rightarrow> bool" where
  "server_reachable checker authorizer s \<longleftrightarrow> (server_step checker authorizer)\<^sup>*\<^sup>* server_init s"

section \<open>Who is in a room\<close>

text \<open>The membership a connection can have: its user's own room, or a room it may join.\<close>

definition member_ok :: "room_zone_checker \<Rightarrow> room_authorizer \<Rightarrow> string ws_manager \<Rightarrow> bool" where
  "member_ok checker authorizer m \<longleftrightarrow>
    (\<forall>r i a c. i \<in> room_members r m \<and> wm_clients m i = Some a \<and> wm_heap m a = Some c \<longrightarrow>
       r = own_room c \<or> may_join checker authorizer (wc_zone_id c) (wc_user_id c) r)"

lemma room_members_add: "room_members r (m\<lparr>wm_rooms := room_add x i (wm_rooms m)\<rparr>) =
    (if r = x then insert i (room_members r m) else room_members r m)"
  by (auto simp: room_members_def room_add_def split: option.splits)

lemma room_members_leave: "room_members r (ws_leave x i m) \<subseteq> room_members r m"
  by (auto simp: room_members_def ws_leave_def room_remove_def split: option.splits if_splits)

lemma room_members_unregister:
  "ws_unregister i m = Some m' \<Longrightarrow> room_members r m' = room_members r m - {i}"
  by (auto simp: room_members_def ws_unregister_def room_remove_def close_chan_def
      split: option.splits if_splits bind_splits) blast

text \<open>Steps that keep rooms and registrations and change only channels.\<close>

lemma member_ok_channels:
  assumes "member_ok checker authorizer m" "wm_rooms m' = wm_rooms m" "wm_clients m' = wm_clients m"
    and "\<And>a c'. wm_heap m' a = Some c' \<Longrightarrow> \<exists>c. wm_heap m a = Some c \<and> wc_user_id c' = wc_user_id c \<and> wc_zone_id c' = wc_zone_id c"
  shows "member_ok checker authorizer m'"
  unfolding member_ok_def
proof (intro allI impI)
  fix r i a c' assume h: "i \<in> room_members r m' \<and> wm_clients m' i = Some a \<and> wm_heap m' a = Some c'"
  then obtain c where c: "wm_heap m a = Some c" "wc_user_id c' = wc_user_id c" "wc_zone_id c' = wc_zone_id c"
    using assms(4) by blast
  moreover have "i \<in> room_members r m" "wm_clients m i = Some a"
    using h assms(2,3) by (simp_all add: room_members_def)
  ultimately have "r = own_room c \<or> may_join checker authorizer (wc_zone_id c) (wc_user_id c) r"
    using assms(1) unfolding member_ok_def by blast
  then show "r = own_room c' \<or> may_join checker authorizer (wc_zone_id c') (wc_user_id c') r"
    using c by (simp add: own_room_def)
qed

lemma member_ok_mono:
  assumes "member_ok checker authorizer m" "\<And>r. room_members r m' \<subseteq> room_members r m"
    and "\<And>i a c'. wm_clients m' i = Some a \<Longrightarrow> wm_heap m' a = Some c' \<Longrightarrow>
      \<exists>c. wm_clients m i = Some a \<and> wm_heap m a = Some c \<and> wc_user_id c' = wc_user_id c \<and> wc_zone_id c' = wc_zone_id c"
  shows "member_ok checker authorizer m'"
  unfolding member_ok_def
proof (intro allI impI)
  fix r i a c' assume h: "i \<in> room_members r m' \<and> wm_clients m' i = Some a \<and> wm_heap m' a = Some c'"
  then obtain c where c: "wm_clients m i = Some a" "wm_heap m a = Some c" "wc_user_id c' = wc_user_id c"
      "wc_zone_id c' = wc_zone_id c"
    using assms(3) by blast
  moreover have "i \<in> room_members r m" using h assms(2) by blast
  ultimately have "r = own_room c \<or> may_join checker authorizer (wc_zone_id c) (wc_user_id c) r"
    using assms(1) unfolding member_ok_def by blast
  then show "r = own_room c' \<or> may_join checker authorizer (wc_zone_id c') (wc_user_id c') r"
    using c by (simp add: own_room_def)
qed

lemma deliver_one_frame:
  assumes "deliver_one ev a m = Some m'"
  shows "wm_rooms m' = wm_rooms m" "wm_clients m' = wm_clients m"
    "wm_heap m' b = Some c' \<Longrightarrow> \<exists>c. wm_heap m b = Some c \<and> wc_id c' = wc_id c \<and>
       wc_user_id c' = wc_user_id c \<and> wc_zone_id c' = wc_zone_id c"
  using assms by (auto simp: deliver_one_def split: option.splits if_splits)

lemma try_send_open:
  "try_send ev c = Some c' \<Longrightarrow> c = Some ch \<Longrightarrow> \<not> ch_closed ch \<Longrightarrow> \<exists>ch'. c' = Some ch' \<and> \<not> ch_closed ch'"
  by (auto simp: try_send_def split: if_splits)

lemma ws_ok_deliver_one:
  assumes "ws_ok m" "deliver_one ev a m = Some m'"
  shows "ws_ok m'"
proof -
  have "\<exists>c ch. wm_heap m' b = Some c \<and> wc_id c = i \<and> wc_send c = Some ch \<and> \<not> ch_closed ch"
    if "wm_clients m i = Some b" for i b
  proof -
    from ws_okD [OF assms(1) that] obtain c ch
      where c: "wm_heap m b = Some c" "wc_id c = i" "wc_send c = Some ch" "\<not> ch_closed ch" by blast
    show ?thesis
    proof (cases "a = b")
      case True
      then obtain ch' where "try_send ev (wc_send c) = Some ch'"
          "m' = m\<lparr>wm_heap := (wm_heap m)(a \<mapsto> c\<lparr>wc_send := ch'\<rparr>)\<rparr>"
        using assms(2) c(1) by (auto simp: deliver_one_def split: option.splits)
      then show ?thesis using True c try_send_open by fastforce
    next
      case False
      then have "wm_heap m' b = wm_heap m b"
        using assms(2) by (auto simp: deliver_one_def split: option.splits)
      then show ?thesis using c by auto
    qed
  qed
  then show ?thesis
    using assms(1) deliver_one_frame(1,2) [OF assms(2)] by (simp add: ws_ok_def clients_ok_def)
qed

lemma server_join:
  assumes "ws_ok m" "member_ok checker authorizer m" "wm_clients m i = Some a" "wm_heap m a = Some c"
    and "may_join checker authorizer (wc_zone_id c) (wc_user_id c) room"
  shows "ws_ok (ws_join room (wc_id c) m) \<and> member_ok checker authorizer (ws_join room (wc_id c) m)"
proof -
  have id: "wc_id c = i" using ws_okD [OF assms(1,3)] assms(4) by auto
  have "member_ok checker authorizer (m\<lparr>wm_rooms := room_add room i (wm_rooms m)\<rparr>)"
    using assms by (auto simp: member_ok_def room_members_add split: if_splits)
  then show ?thesis
    using assms(1-4) id by (auto simp: ws_join_def intro: ws_ok_join [OF assms(1), unfolded ws_join_def])
      (use ws_ok_join [OF assms(1), of room i] assms(3,4) in \<open>auto simp: ws_join_def split: if_splits\<close>)
qed

lemma server_broadcast:
  assumes "ws_ok m" "member_ok checker authorizer m" "visit_order room m order"
  shows "ws_ok (fst (ws_broadcast now None order room ev m)) \<and>
    member_ok checker authorizer (fst (ws_broadcast now None order room ev m))"
proof -
  have keep: "ws_ok (fst (deliver_all None e as m)) \<and> member_ok checker authorizer (fst (deliver_all None e as m))"
    if "ws_ok m" "member_ok checker authorizer m" for e as m
    using that
  proof (induction as arbitrary: m)
    case (Cons a as)
    show ?case
    proof (cases "deliver_one e a m")
      case (Some m1)
      then have "ws_ok m1" using ws_ok_deliver_one Cons.prems by blast
      moreover have "member_ok checker authorizer m1"
        by (rule member_ok_channels [OF Cons.prems(2) deliver_one_frame(1,2) [OF Some]])
          (use deliver_one_frame(3) [OF Some] in blast)
      ultimately show ?thesis using Cons.IH Some by simp
    qed (use Cons.prems in simp)
  qed simp
  show ?thesis unfolding ws_broadcast_def by (rule keep [OF assms(1,2)])
qed

lemma server_command:
  assumes "ws_ok m" "member_ok checker authorizer m" "wm_clients m i = Some a" "wm_heap m a = Some c"
    and "visit_order (trim_space (wk_room cmd)) m order"
    and "handle_command checker authorizer now order (Some c) cmd m = (m', r)"
  shows "ws_ok m' \<and> member_ok checker authorizer m'"
proof -
  have "ws_ok (ws_leave x j m) \<and> member_ok checker authorizer (ws_leave x j m)" for x j
    using ws_ok_leave [OF assms(1)] member_ok_mono [OF assms(2) room_members_leave]
    by (auto simp: ws_leave_def)
  then show ?thesis
    using assms(6,1,2) server_join [OF assms(1-4)] server_broadcast [OF assms(1,2,5), of now]
    by (auto simp: handle_command_def Let_def split: if_splits) (metis fst_conv)+
qed

definition server_inv :: "room_zone_checker \<Rightarrow> room_authorizer \<Rightarrow> ws_server \<Rightarrow> bool" where
  "server_inv checker authorizer s \<longleftrightarrow> ws_ok (sv_manager s) \<and> member_ok checker authorizer (sv_manager s)"

lemma server_connect:
  assumes "ws_ok m" "member_ok checker authorizer m" "wm_heap m a = None" "wm_clients m i = None" "i \<noteq> []"
  shows "ws_ok (fst (ws_register (Some a) (m\<lparr>wm_heap := (wm_heap m)(a \<mapsto> serve_client i user zone)\<rparr>))) \<and>
    member_ok checker authorizer
      (fst (ws_register (Some a) (m\<lparr>wm_heap := (wm_heap m)(a \<mapsto> serve_client i user zone)\<rparr>)))"
proof -
  let ?c = "serve_client i user zone"
  let ?m = "m\<lparr>wm_heap := (wm_heap m)(a \<mapsto> ?c)\<rparr>"
  have fresh: "wm_clients m j \<noteq> Some a" for j using ws_okD [OF assms(1), of j a] assms(3) by auto
  have ok: "ws_ok ?m" using assms(1) fresh by (auto simp: ws_ok_def clients_ok_def)
  have okR: "ws_ok (fst (ws_register (Some a) ?m))"
    by (rule ws_ok_register [OF ok, where c = ?c]) (simp_all add: serve_client_def assms(4) make_chan_def)
  have "i \<notin> room_members r m" for r using ws_ok_rooms [OF assms(1)] assms(4) by blast
  moreover have R: "wm_clients (fst (ws_register (Some a) ?m)) = (wm_clients m)(i \<mapsto> a)"
    "wm_heap (fst (ws_register (Some a) ?m)) = (wm_heap m)(a \<mapsto> ?c)"
    using assms(5) by (simp_all add: ws_register_def serve_client_def Let_def)
  moreover have "room_members r (fst (ws_register (Some a) ?m)) =
      (if r = own_room ?c \<and> r \<noteq> [] then insert i (room_members r m) else room_members r m)" for r
    using assms(5) by (simp add: ws_register_def serve_client_def Let_def room_members_def)
      (simp add: room_add_def split: option.split)
  ultimately have "member_ok checker authorizer (fst (ws_register (Some a) ?m))"
    using assms(2) fresh unfolding member_ok_def by (auto split: if_splits)
  with okR show ?thesis by blast
qed

lemma server_step_inv:
  assumes "server_step checker authorizer s s'" "server_inv checker authorizer s"
  shows "server_inv checker authorizer s'"
  using assms
proof (induction rule: server_step.induct)
  case (srv_connect s a i user zone)
  then show ?case using server_connect [of "sv_manager s" checker authorizer a i user zone]
    by (simp add: server_inv_def)
next
  case (srv_command s i a c cmd order now m')
  then show ?case using server_command by (simp add: server_inv_def) blast
next
  case (srv_disconnect i s m')
  then have "ws_ok m' \<and> wm_clients m' = (wm_clients (sv_manager s))(i := None)"
    using ws_unregister_ok [of "sv_manager s" i] by (auto simp: server_inv_def)
  moreover have "member_ok checker authorizer m'"
  proof (rule member_ok_mono)
    show "member_ok checker authorizer (sv_manager s)" using srv_disconnect by (simp add: server_inv_def)
    show "room_members r m' \<subseteq> room_members r (sv_manager s)" for r
      using room_members_unregister [OF srv_disconnect(1)] by blast
    fix j b c' assume "wm_clients m' j = Some b" "wm_heap m' b = Some c'"
    then show "\<exists>c. wm_clients (sv_manager s) j = Some b \<and> wm_heap (sv_manager s) b = Some c \<and>
        wc_user_id c' = wc_user_id c \<and> wc_zone_id c' = wc_zone_id c"
      using srv_disconnect(1)
      by (auto simp: ws_unregister_def split: option.splits if_splits bind_splits)
  qed
  ultimately show ?case by (simp add: server_inv_def)
next
  case (srv_deliver s xs ev a as ys m')
  then have "ws_ok m'" using ws_ok_deliver_one by (auto simp: server_inv_def)
  moreover have "member_ok checker authorizer m'"
    by (rule member_ok_channels [OF _ deliver_one_frame(1,2) [OF srv_deliver(2)]])
      (use srv_deliver(3) deliver_one_frame(3) [OF srv_deliver(2)] in \<open>auto simp: server_inv_def\<close>)
  ultimately show ?case by (simp add: server_inv_def)
qed (simp_all add: server_inv_def)

lemma server_reachable_inv: "server_reachable checker authorizer s \<Longrightarrow> server_inv checker authorizer s"
  unfolding server_reachable_def
proof (induction rule: rtranclp_induct)
  case base
  have "member_ok checker authorizer new_ws_manager"
    by (simp add: member_ok_def room_members_def new_ws_manager_def)
  then show ?case by (simp add: server_inv_def server_init_def ws_ok_new)
qed (rule server_step_inv)


text \<open>A run for the witnesses: a connection of user \<open>ann\<close> in zone \<open>z\<close>, and what follows it.\<close>

definition run_connected :: ws_server where
  "run_connected = server_init\<lparr>sv_manager := fst (ws_register (Some 0)
     (new_ws_manager\<lparr>wm_heap := [0 \<mapsto> serve_client ''c'' ''ann'' ''z'']\<rparr>))\<rparr>"

lemma run_connected_reachable: "server_reachable checker authorizer run_connected"
proof -
  have "server_step checker authorizer server_init (server_init\<lparr>sv_manager := fst (ws_register (Some 0)
       ((sv_manager server_init)\<lparr>wm_heap := (wm_heap (sv_manager server_init))(0 \<mapsto> serve_client ''c'' ''ann'' ''z'')\<rparr>))\<rparr>)"
    by (rule srv_connect) (simp_all add: server_init_def new_ws_manager_def)
  then show ?thesis
    by (simp add: server_reachable_def run_connected_def server_init_def new_ws_manager_def r_into_rtranclp)
qed

lemma ann_room: "user_room ''z'' ''ann'' = ''zone:z:user:ann''"
proof -
  have "trim_space ''z'' = ''z''" "trim_space ''ann'' = ''ann''" by code_simp+
  then show ?thesis by (simp add: user_room_def)
qed

lemma run_connected_sel:
  "wm_clients (sv_manager run_connected) = [''c'' \<mapsto> 0]"
  "wm_heap (sv_manager run_connected) = [0 \<mapsto> serve_client ''c'' ''ann'' ''z'']"
  "wm_rooms (sv_manager run_connected) = [''zone:z:user:ann'' \<mapsto> {''c''}]"
  "sv_flight run_connected = []"
  by (simp_all add: run_connected_def ws_register_def new_ws_manager_def serve_client_def own_room_def
      ann_room server_init_def room_add_def Let_def)


section \<open>The delivery race\<close>

text \<open>
  A broadcast can crash the process: with any checkers, the node reaches a state in which a
  broadcast that has collected its targets sends on the channel of a connection that closed in
  between, which panics in Go (a select with a default does not help).
\<close>

lemma broadcast_race_panics:
  "\<exists>s. server_reachable checker authorizer s \<and> sv_panic s \<and> wm_clients (sv_manager s) = Map.empty"
proof -
  let ?s1 = run_connected
  let ?r = "''zone:z:user:ann''"
  let ?ev = "stamp_event 0 ?r (typing_event ''TypingStarted'' ?r ''ann'')"
  let ?s2 = "?s1\<lparr>sv_flight := [(?ev, [0])]\<rparr>"
  obtain m3 where m3: "ws_unregister ''c'' (sv_manager ?s1) = Some m3" "wm_clients m3 = Map.empty"
      "deliver_one ?ev 0 m3 = None"
    by (simp add: ws_unregister_def run_connected_sel serve_client_def make_chan_def close_chan_def
        deliver_one_def try_send_def)
  let ?s3 = "?s2\<lparr>sv_manager := m3\<rparr>"
  have "server_step checker authorizer ?s1 (?s1\<lparr>sv_flight := sv_flight ?s1 @
      [(?ev, broadcast_targets [''c''] (sv_manager ?s1))]\<rparr>)"
    by (rule srv_collect) (simp add: visit_order_def room_members_def run_connected_sel)
  then have "server_step checker authorizer ?s1 ?s2"
    by (simp add: run_connected_sel broadcast_targets_def map_filter_simps)
  moreover have "server_step checker authorizer ?s2 ?s3"
    by (rule srv_disconnect [of "''c''"]) (simp add: m3)
  moreover have "server_step checker authorizer ?s3 (?s3\<lparr>sv_panic := True\<rparr>)"
    by (rule srv_deliver_panic [of _ "[]" ?ev 0 "[]" "[]"]) (simp_all add: m3)
  ultimately have "(server_step checker authorizer)\<^sup>*\<^sup>* ?s1 (?s3\<lparr>sv_panic := True\<rparr>)"
    by (meson converse_rtranclp_into_rtranclp rtranclp.rtrancl_refl)
  then have "server_reachable checker authorizer (?s3\<lparr>sv_panic := True\<rparr>)"
    using run_connected_reachable [of checker authorizer] by (simp add: server_reachable_def)
  then show ?thesis using m3(2) by (intro exI [of _ "?s3\<lparr>sv_panic := True\<rparr>"]) simp
qed

text \<open>
  A disconnection never panics (no channel is closed twice), and leaves the connection in no
  room, in every reachable state.
\<close>

lemma disconnect_never_panics:
  assumes "server_reachable checker authorizer s"
  shows "\<exists>m'. ws_unregister i (sv_manager s) = Some m' \<and> wm_clients m' i = None \<and>
    (\<forall>r. i \<notin> room_members r m')"
proof -
  have "ws_ok (sv_manager s)" using server_reachable_inv [OF assms] by (simp add: server_inv_def)
  then obtain m' where "ws_unregister i (sv_manager s) = Some m'" "wm_clients m' = (wm_clients (sv_manager s))(i := None)"
    using ws_unregister_ok by blast
  then show ?thesis using room_members_unregister by fastforce
qed

lemma disconnect_never_panics_witness:
  "\<exists>m'. ws_unregister ''c'' (sv_manager run_connected) = Some m' \<and> ''c'' \<notin> room_members ''zone:z:user:ann'' m'"
  using disconnect_never_panics [OF run_connected_reachable [of None None], of "''c''"] by blast

end
