(* ===== verification/Outbox.thy ===== *)
theory Outbox
  imports Pg
begin

text \<open>
  \<open>modules/outbox\<close>: the worker that delivers outbox events (\<open>application/service.go\<close>) and its
  PostgreSQL queue (\<open>infrastructure/postgres/repository.go\<close>, table and trigger of migration
  000001). The handlers and the broker are functions on a state of their own.
\<close>

record outbox_row =
  oe_id :: string
  oe_aggregate_type :: string
  oe_aggregate_id :: string
  oe_event_type :: string
  oe_event_version :: int
  oe_payload :: string
  oe_status :: string
  oe_retry_count :: int
  oe_next_attempt_at :: "time option"
  oe_published_at :: "time option"
  oe_created_at :: time
  oe_updated_at :: time

record outbox_event =
  ox_id :: string
  ox_aggregate_type :: string
  ox_aggregate_id :: string
  ox_event_type :: string
  ox_event_version :: int
  ox_payload :: string
  ox_status :: string
  ox_retry_count :: int
  ox_created_at :: time

section \<open>The service\<close>

definition max_retries :: int where "max_retries = 5"

definition retry_delay :: "int \<Rightarrow> duration" where
  "retry_delay n =
    (let delay = wrap64 (wrap64 (wrap64 (n + 1) * 30) * ns_second)
     in if 5 * ns_minute < delay then 5 * ns_minute else delay)"

record 's outbox_repo =
  or_claim :: "int \<Rightarrow> 's \<Rightarrow> 's \<times> (outbox_event list) result"
  or_mark_published :: "string \<Rightarrow> 's \<Rightarrow> 's \<times> unit result"
  or_mark_failed :: "string \<Rightarrow> duration \<Rightarrow> int \<Rightarrow> string \<Rightarrow> 's \<Rightarrow> 's \<times> unit result"

record ('s, 'w) outbox_service =
  os_repo :: "'s outbox_repo"
  os_publisher :: "(outbox_event \<Rightarrow> 'w \<Rightarrow> 'w \<times> go_error option) option"
  os_handlers :: "(outbox_event \<Rightarrow> 'w \<Rightarrow> 'w \<times> go_error option) list"

fun run_handlers :: "(outbox_event \<Rightarrow> 'w \<Rightarrow> 'w \<times> go_error option) list \<Rightarrow> outbox_event \<Rightarrow> 'w \<Rightarrow> 'w \<times> go_error option" where
  "run_handlers [] ev w = (w, None)"
| "run_handlers (h # hs) ev w =
    (case h ev w of (w1, Some e) \<Rightarrow> (w1, Some e) | (w1, None) \<Rightarrow> run_handlers hs ev w1)"

definition process_event :: "('s, 'w) outbox_service \<Rightarrow> outbox_event \<Rightarrow> 'w \<Rightarrow> 'w \<times> go_error option" where
  "process_event s ev w =
    (case run_handlers (os_handlers s) ev w of
       (w1, Some e) \<Rightarrow> (w1, Some e)
     | (w1, None) \<Rightarrow> (case os_publisher s of None \<Rightarrow> (w1, None) | Some pub \<Rightarrow> pub ev w1))"

fun process_events :: "('s, 'w) outbox_service \<Rightarrow> outbox_event list \<Rightarrow> 's \<Rightarrow> 'w \<Rightarrow> 's \<times> 'w \<times> go_error option" where
  "process_events s [] st w = (st, w, None)"
| "process_events s (ev # evs) st w =
    (case process_event s ev w of
       (w1, Some e) \<Rightarrow>
         process_events s evs
           (fst (or_mark_failed (os_repo s) (ox_id ev) (retry_delay (ox_retry_count ev)) max_retries (err_text e) st)) w1
     | (w1, None) \<Rightarrow>
         (case or_mark_published (os_repo s) (ox_id ev) st of
            (st1, Inl e) \<Rightarrow> (st1, w1, Some e)
          | (st1, Inr _) \<Rightarrow> process_events s evs st1 w1))"

definition outbox_process :: "('s, 'w) outbox_service \<Rightarrow> int \<Rightarrow> 's \<Rightarrow> 'w \<Rightarrow> 's \<times> 'w \<times> int result" where
  "outbox_process s limit0 st w =
    (let limit = (if limit0 \<le> 0 then 20 else limit0) in
     case or_claim (os_repo s) limit st of
       (st1, Inl e) \<Rightarrow> (st1, w, Inl e)
     | (st1, Inr evs) \<Rightarrow>
         (case process_events s evs st1 w of
            (st2, w2, Some e) \<Rightarrow> (st2, w2, Inl e)
          | (st2, w2, None) \<Rightarrow> (st2, w2, Inr (int (length evs)))))"

section \<open>The queue in PostgreSQL\<close>

definition claimable :: "time \<Rightarrow> outbox_row \<Rightarrow> bool" where
  "claimable now r \<longleftrightarrow>
     oe_status r = ''pending'' \<or>
     oe_status r = ''failed'' \<and> (case oe_next_attempt_at r of None \<Rightarrow> True | Some t \<Rightarrow> t \<le> now) \<or>
     oe_status r = ''processing'' \<and> oe_updated_at r < now - 5 * ns_minute"

definition claim_row :: "time \<Rightarrow> outbox_row \<Rightarrow> outbox_row" where
  "claim_row now r = r\<lparr>oe_status := ''processing'', oe_updated_at := now\<rparr>"

definition publish_row :: "time \<Rightarrow> outbox_row \<Rightarrow> outbox_row" where
  "publish_row now r = r\<lparr>oe_status := ''published'', oe_published_at := Some now,
     oe_next_attempt_at := None, oe_updated_at := now\<rparr>"

definition fail_row :: "time \<Rightarrow> duration \<Rightarrow> int \<Rightarrow> outbox_row \<Rightarrow> outbox_row" where
  "fail_row now retry_after max_n r =
    r\<lparr>oe_retry_count := oe_retry_count r + 1,
      oe_status := (if max_n \<le> oe_retry_count r + 1 then ''dead'' else ''failed''),
      oe_next_attempt_at := (if max_n \<le> oe_retry_count r + 1 then None
        else Some (now + go_div retry_after ns_second * ns_second)),
      oe_updated_at := now\<rparr>"

definition event_of_row :: "outbox_row \<Rightarrow> outbox_event" where
  "event_of_row r =
    \<lparr>ox_id = oe_id r, ox_aggregate_type = oe_aggregate_type r, ox_aggregate_id = oe_aggregate_id r,
     ox_event_type = oe_event_type r, ox_event_version = oe_event_version r, ox_payload = oe_payload r,
     ox_status = oe_status r, ox_retry_count = oe_retry_count r, ox_created_at = oe_created_at r\<rparr>"

definition picked_ids :: "time \<Rightarrow> int \<Rightarrow> outbox_row list \<Rightarrow> string list" where
  "picked_ids now limit rows = map oe_id (order_limit oe_created_at limit (filter (claimable now) rows))"

definition pg_claim :: "pg_env \<Rightarrow> int \<Rightarrow> outbox_row list \<Rightarrow> outbox_row list \<times> (outbox_event list) result" where
  "pg_claim env limit rows =
    (let ids = picked_ids (pe_now env) limit rows;
         hit = (\<lambda>r. oe_id r \<in> set ids)
     in (update_where hit (claim_row (pe_now env)) rows,
         Inr (map (event_of_row \<circ> claim_row (pe_now env)) (filter hit rows))))"

definition pg_mark_published :: "pg_env \<Rightarrow> string \<Rightarrow> outbox_row list \<Rightarrow> outbox_row list \<times> unit result" where
  "pg_mark_published env i rows =
    (case uuid_param env i of
       Inl e \<Rightarrow> (rows, Inl e)
     | Inr u \<Rightarrow> (update_where (\<lambda>r. oe_id r = u) (publish_row (pe_now env)) rows, Inr ()))"

definition pg_mark_failed ::
    "pg_env \<Rightarrow> string \<Rightarrow> duration \<Rightarrow> int \<Rightarrow> string \<Rightarrow> outbox_row list \<Rightarrow> outbox_row list \<times> unit result" where
  "pg_mark_failed env i retry_after max_n reason rows =
    (case uuid_param env i of
       Inl e \<Rightarrow> (rows, Inl e)
     | Inr u \<Rightarrow> (update_where (\<lambda>r. oe_id r = u) (fail_row (pe_now env) retry_after max_n) rows, Inr ()))"

definition outbox_pg :: "outbox_row list pg outbox_repo" where
  "outbox_pg =
    \<lparr>or_claim = (\<lambda>n. pg_run (\<lambda>env. pg_claim env n)),
     or_mark_published = (\<lambda>i. pg_run (\<lambda>env. pg_mark_published env i)),
     or_mark_failed = (\<lambda>i d n reason. pg_run (\<lambda>env. pg_mark_failed env i d n reason))\<rparr>"

lemma row_ids [simp]:
  "oe_id (claim_row n x) = oe_id x" "oe_id (publish_row n x) = oe_id x" "oe_id (fail_row n d k x) = oe_id x"
  by (simp_all add: claim_row_def publish_row_def fail_row_def)

lemma update_ids: "(\<And>x. oe_id (f x) = oe_id x) \<Longrightarrow> oe_id ` set (update_where p f rs) = oe_id ` set rs"
  by (metis list.set_map map_update_where)

section \<open>What the service relies on\<close>

text \<open>
  The contract of the repository: ids stay unique, a claim takes at most the limit of claimable
  rows and returns them, and the two marks touch at most the row they name.
\<close>

locale outbox_repository =
  fixes repo :: "'s outbox_repo"
    and rows :: "'s \<Rightarrow> outbox_row list"
    and inv :: "'s \<Rightarrow> bool"
  assumes inv_distinct: "inv s \<Longrightarrow> distinct (map oe_id (rows s))"
    and claim_law: "inv s \<Longrightarrow> or_claim repo n s = (s', r) \<Longrightarrow>
      inv s' \<and> ((\<exists>e. r = Inl e) \<and> rows s' = rows s \<or>
        (\<exists>now ids. set ids \<subseteq> oe_id ` {x \<in> set (rows s). claimable now x} \<and> length ids \<le> nat n \<and>
           rows s' = update_where (\<lambda>x. oe_id x \<in> set ids) (claim_row now) (rows s) \<and>
           r = Inr (map (event_of_row \<circ> claim_row now) (filter (\<lambda>x. oe_id x \<in> set ids) (rows s)))))"
    and published_law: "inv s \<Longrightarrow> i \<in> oe_id ` set (rows s) \<Longrightarrow> or_mark_published repo i s = (s', r1) \<Longrightarrow>
      inv s' \<and> ((\<exists>e. r1 = Inl e) \<and> rows s' = rows s \<or>
        (\<exists>now. r1 = Inr () \<and> rows s' = update_where (\<lambda>x. oe_id x = i) (publish_row now) (rows s)))"
    and failed_law: "inv s \<Longrightarrow> i \<in> oe_id ` set (rows s) \<Longrightarrow> or_mark_failed repo i d k reason s = (s', r2) \<Longrightarrow>
      inv s' \<and> ((\<exists>e. r2 = Inl e) \<and> rows s' = rows s \<or>
        (\<exists>now. r2 = Inr () \<and> rows s' = update_where (\<lambda>x. oe_id x = i) (fail_row now d k) (rows s)))"
begin

lemma process_events_rows:
  assumes "inv st" "distinct (map ox_id evs)" "ox_id ` set evs \<subseteq> oe_id ` set (rows st)"
    and "os_repo s = repo" "process_events s evs st w = (st', w', e)"
  shows "inv st' \<and> list_all2 (\<lambda>x y. y = x \<or>
    (\<exists>ev\<in>set evs. ox_id ev = oe_id x \<and>
       (\<exists>now. y = publish_row now x \<or> y = fail_row now (retry_delay (ox_retry_count ev)) max_retries x)))
    (rows st) (rows st')"
  using assms(1-3,5)
proof (induction evs arbitrary: st w)
  case Nil
  then show ?case by (simp add: list_all2_same)
next
  case (Cons ev evs)
  let ?R = "\<lambda>evs x y. y = x \<or> (\<exists>ev\<in>set evs. ox_id ev = oe_id x \<and>
       (\<exists>now. y = publish_row now x \<or> y = fail_row now (retry_delay (ox_retry_count ev)) max_retries x))"
  have i: "ox_id ev \<in> oe_id ` set (rows st)" using Cons.prems(3) by simp
  have step: "list_all2 (?R (ev # evs)) (rows st) (rows st2)"
    if "inv st1" "list_all2 (?R evs) (rows st1) (rows st2)"
      and st1: "rows st1 = rows st \<or> (\<exists>f. rows st1 = update_where (\<lambda>x. oe_id x = ox_id ev) f (rows st) \<and>
        (\<forall>x. oe_id (f x) = oe_id x) \<and>
        (\<forall>x. \<exists>now. f x = publish_row now x \<or> f x = fail_row now (retry_delay (ox_retry_count ev)) max_retries x))"
    for st1 st2
    using st1
  proof (elim disjE exE conjE)
    assume "rows st1 = rows st"
    then show ?thesis using that(2) by (auto elim!: list_all2_mono)
  next
    fix f assume f: "rows st1 = update_where (\<lambda>x. oe_id x = ox_id ev) f (rows st)" "\<forall>x. oe_id (f x) = oe_id x"
      "\<forall>x. \<exists>now. f x = publish_row now x \<or> f x = fail_row now (retry_delay (ox_retry_count ev)) max_retries x"
    have "list_all2 (\<lambda>x. ?R evs (if oe_id x = ox_id ev then f x else x)) (rows st) (rows st2)"
      using that(2) f(1) by (simp add: update_where_def list_all2_map1)
    moreover have "?R (ev # evs) x y" if r: "?R evs (if oe_id x = ox_id ev then f x else x) y" for x y
    proof (cases "oe_id x = ox_id ev")
      case True
      moreover have "ox_id ev \<notin> ox_id ` set evs" using Cons.prems(2) by simp
      ultimately have "\<forall>e\<in>set evs. ox_id e \<noteq> oe_id (f x)" using f(2) by (metis image_eqI)
      then have "y = f x" using r True by auto
      then show ?thesis using f(3) True by auto
    qed (use r in auto)
    ultimately show ?thesis by (rule list_all2_mono)
  qed
  obtain w1 r where pe: "process_event s ev w = (w1, r)" by fastforce
  show ?case
  proof (cases r)
    case (Some er)
    obtain st1 rf where m: "or_mark_failed repo (ox_id ev) (retry_delay (ox_retry_count ev)) max_retries (err_text er) st = (st1, rf)"
      by fastforce
    from failed_law [OF Cons.prems(1) i m] have law: "inv st1" "rows st1 = rows st \<or>
        (\<exists>now. rows st1 = update_where (\<lambda>x. oe_id x = ox_id ev) (fail_row now (retry_delay (ox_retry_count ev)) max_retries) (rows st))"
      by auto
    have "oe_id ` set (rows st1) = oe_id ` set (rows st)"
      using law(2) by (elim disjE exE) (simp_all add: update_ids)
    then have "ox_id ` set evs \<subseteq> oe_id ` set (rows st1)" using Cons.prems(3) by simp
    with Cons.IH [OF law(1)] Cons.prems pe Some m assms(4)
    have "inv st' \<and> list_all2 (?R evs) (rows st1) (rows st')" by simp
    with step [OF law(1)] law(2) row_ids show ?thesis by blast
  next
    case None
    obtain st1 rp where m: "or_mark_published repo (ox_id ev) st = (st1, rp)" by fastforce
    from published_law [OF Cons.prems(1) i m] have law: "inv st1" "(\<exists>e. rp = Inl e) \<and> rows st1 = rows st \<or>
        (\<exists>now. rp = Inr () \<and> rows st1 = update_where (\<lambda>x. oe_id x = ox_id ev) (publish_row now) (rows st))"
      by auto
    show ?thesis
    proof (cases rp)
      case (Inl e')
      then have "st' = st1" "rows st1 = rows st" using Cons.prems pe None m law assms(4) by auto
      then show ?thesis using law(1) by (simp add: list_all2_same)
    next
      case (Inr u)
      have "oe_id ` set (rows st1) = oe_id ` set (rows st)"
      using law(2) by (elim disjE exE) (simp_all add: update_ids)
    then have "ox_id ` set evs \<subseteq> oe_id ` set (rows st1)" using Cons.prems(3) by simp
      with Cons.IH [OF law(1)] Cons.prems pe None m assms(4) Inr
      have "inv st' \<and> list_all2 (?R evs) (rows st1) (rows st')" by simp
      with step [OF law(1)] law(2) row_ids show ?thesis by blast
    qed
  qed
qed

text \<open>What one run of the worker does to a row.\<close>

lemma process_rows:
  assumes "inv st" "os_repo s = repo" "outbox_process s limit st w = (st', w', r)"
  shows "inv st' \<and> list_all2 (\<lambda>x y. y = x \<or> (\<exists>n1. claimable n1 x \<and>
      (y = claim_row n1 x \<or> (\<exists>n2. y = publish_row n2 (claim_row n1 x) \<or>
         y = fail_row n2 (retry_delay (oe_retry_count x)) max_retries (claim_row n1 x)))))
    (rows st) (rows st')"
proof -
  obtain st1 c where c: "or_claim repo (if limit \<le> 0 then 20 else limit) st = (st1, c)" by fastforce
  from claim_law [OF assms(1) c] have inv1: "inv st1" by blast
  from claim_law [OF assms(1) c] consider "\<exists>e. c = Inl e" "rows st1 = rows st"
    | now ids where "set ids \<subseteq> oe_id ` {x \<in> set (rows st). claimable now x}"
      "rows st1 = update_where (\<lambda>x. oe_id x \<in> set ids) (claim_row now) (rows st)"
      "c = Inr (map (event_of_row \<circ> claim_row now) (filter (\<lambda>x. oe_id x \<in> set ids) (rows st)))"
    by blast
  then show ?thesis
  proof cases
    case 1
    then have "st' = st1" using assms(2,3) c by (auto simp: outbox_process_def Let_def)
    then show ?thesis using 1 inv1 by (simp add: list_all2_same)
  next
    case 2
    let ?evs = "map (event_of_row \<circ> claim_row now) (filter (\<lambda>x. oe_id x \<in> set ids) (rows st))"
    obtain e where pe: "process_events s ?evs st1 w = (st', w', e)"
      using assms(2,3) c 2(3) by (auto simp: outbox_process_def Let_def split: prod.splits option.splits)
    have ev: "ox_id (event_of_row (claim_row n x)) = oe_id x" "oe_id (claim_row n x) = oe_id x"
        "ox_retry_count (event_of_row (claim_row n x)) = oe_retry_count x" for n x
      by (simp_all add: event_of_row_def claim_row_def)
    have m: "map ox_id ?evs = map oe_id (filter (\<lambda>x. oe_id x \<in> set ids) (rows st))"
      by (simp add: comp_def ev)
    have d: "distinct (map ox_id ?evs)"
      unfolding m using inv_distinct [OF assms(1)] by (simp add: distinct_map_filter)
    have sub: "ox_id ` set ?evs \<subseteq> oe_id ` set (rows st1)"
      unfolding 2(2) by (subst update_ids) (auto simp: ev)
    have claimed: "claimable now x" if x: "x \<in> set (rows st)" "oe_id x \<in> set ids" for x
    proof -
      obtain z where z: "z \<in> set (rows st)" "claimable now z" "oe_id z = oe_id x"
        using x(2) 2(1) by (auto simp: subset_iff image_iff)
      then have "z = x" using key_unique [OF inv_distinct [OF assms(1)] z(1) x(1)] by simp
      with z show ?thesis by simp
    qed
    note pr = process_events_rows [OF inv1 d sub assms(2) pe]
    have i: "inv st'" using pr by (rule conjunct1)
    have l: "list_all2 (\<lambda>x y. y = x \<or> (\<exists>ev\<in>set ?evs. ox_id ev = oe_id x \<and> (\<exists>now.
         y = publish_row now x \<or> y = fail_row now (retry_delay (ox_retry_count ev)) max_retries x)))
       (rows st1) (rows st')" using pr by (rule conjunct2)
    show ?thesis
    proof (intro conjI i, unfold list_all2_conv_all_nth, intro conjI allI impI)
      show "length (rows st) = length (rows st')"
        using list_all2_lengthD [OF l] 2(2) by simp
      fix k assume k: "k < length (rows st)"
      let ?x = "rows st ! k" and ?y = "rows st' ! k"
      have x1: "rows st1 ! k = (if oe_id ?x \<in> set ids then claim_row now ?x else ?x)"
        using k by (simp add: 2(2) update_where_def)
      have mem: "?x \<in> set (rows st)" using k by simp
      from l k 2(2) have yk: "?y = rows st1 ! k \<or> (\<exists>ev\<in>set ?evs. ox_id ev = oe_id (rows st1 ! k) \<and> (\<exists>now.
         ?y = publish_row now (rows st1 ! k) \<or> ?y = fail_row now (retry_delay (ox_retry_count ev)) max_retries (rows st1 ! k)))"
        by (simp add: list_all2_conv_all_nth)
      show "?y = ?x \<or> (\<exists>n1. claimable n1 ?x \<and> (?y = claim_row n1 ?x \<or> (\<exists>n2. ?y = publish_row n2 (claim_row n1 ?x) \<or>
         ?y = fail_row n2 (retry_delay (oe_retry_count ?x)) max_retries (claim_row n1 ?x))))"
      proof (cases "oe_id ?x \<in> set ids")
        case True
        have "ox_retry_count ev = oe_retry_count ?x" if e: "ev \<in> set ?evs" "ox_id ev = oe_id ?x" for ev
        proof -
          obtain z where "z \<in> set (rows st)" "ev = event_of_row (claim_row now z)" using e(1) by auto
          with e(2) mem show ?thesis
            using key_unique [OF inv_distinct [OF assms(1)], of z ?x] by (simp add: ev)
        qed
        note same = this
        have x1t: "rows st1 ! k = claim_row now ?x" using x1 True by simp
        from yk have "?y = claim_row now ?x \<or> (\<exists>n2. ?y = publish_row n2 (claim_row now ?x) \<or>
           ?y = fail_row n2 (retry_delay (oe_retry_count ?x)) max_retries (claim_row now ?x))"
          unfolding x1t row_ids using same by metis
        with claimed [OF mem True] show ?thesis by blast
      next
        case False
        then have "ox_id ev \<noteq> oe_id ?x" if "ev \<in> set ?evs" for ev using that by (auto simp: ev)
        then show ?thesis using yk x1 False by auto
      qed
    qed
  qed
qed

end

section \<open>The PostgreSQL queue meets the contract\<close>

definition outbox_row_ok :: "outbox_row \<Rightarrow> bool" where
  "outbox_row_ok r \<longleftrightarrow> 0 \<le> oe_retry_count r \<and>
     oe_status r \<in> {''pending'', ''processing'', ''published'', ''failed'', ''dead''} \<and>
     (oe_status r \<in> {''pending'', ''processing'', ''failed''} \<longrightarrow> oe_retry_count r < max_retries) \<and>
     (oe_status r = ''dead'' \<longrightarrow> max_retries \<le> oe_retry_count r)"

definition outbox_pg_inv :: "outbox_row list pg \<Rightarrow> bool" where
  "outbox_pg_inv s \<longleftrightarrow> distinct (map oe_id (pg_db s)) \<and>
     (\<forall>n. \<forall>r\<in>set (pg_db s). pe_uuid (pg_envs s n) (oe_id r) = Some (oe_id r))"

lemma pg_run_cases:
  assumes "pg_run f s = (s', r)"
  obtains e where "r = Inl e" "pg_db s' = pg_db s" "pg_envs s' = pg_envs s"
  | "f (pg_envs s (pg_tick s)) (pg_db s) = (pg_db s', r)" "pg_envs s' = pg_envs s"
  using assms by (auto simp: pg_run_def Let_def split: option.splits prod.splits)

lemma outbox_pg_inv_update:
  assumes "outbox_pg_inv s" "pg_envs s' = pg_envs s" "pg_db s' = update_where p f (pg_db s)" "\<And>x. oe_id (f x) = oe_id x"
  shows "outbox_pg_inv s'"
  using assms by (auto simp: outbox_pg_inv_def map_update_where set_update_where)

lemma outbox_pg_inv_same:
  "outbox_pg_inv s \<Longrightarrow> pg_envs s' = pg_envs s \<Longrightarrow> pg_db s' = pg_db s \<Longrightarrow> outbox_pg_inv s'"
  by (simp add: outbox_pg_inv_def)

interpretation opg: outbox_repository outbox_pg pg_db outbox_pg_inv
proof (unfold_locales, goal_cases)
  case (1 s)
  then show ?case by (simp add: outbox_pg_inv_def)
next
  case (2 s n s' r)
  from 2(2) have "pg_run (\<lambda>env. pg_claim env n) s = (s', r)" by (simp add: outbox_pg_def)
  then show ?case
  proof (cases rule: pg_run_cases)
    case (1 e)
    then show ?thesis using outbox_pg_inv_same [OF 2(1)] by blast
  next
    case env: 2
    let ?now = "pe_now (pg_envs s (pg_tick s))"
    let ?ids = "picked_ids ?now n (pg_db s)"
    have "length ?ids \<le> nat n" by (simp add: picked_ids_def length_order_limit)
    moreover have "set ?ids \<subseteq> oe_id ` {x \<in> set (pg_db s). claimable ?now x}"
      using set_order_limit [of oe_created_at n "filter (claimable ?now) (pg_db s)"]
      by (auto simp: picked_ids_def)
    moreover have "pg_db s' = update_where (\<lambda>x. oe_id x \<in> set ?ids) (claim_row ?now) (pg_db s)"
      "r = Inr (map (event_of_row \<circ> claim_row ?now) (filter (\<lambda>x. oe_id x \<in> set ?ids) (pg_db s)))"
      using env(1) by (simp_all add: pg_claim_def Let_def)
    moreover have "outbox_pg_inv s'"
      by (rule outbox_pg_inv_update [OF 2(1) env(2) calculation(3)]) simp
    ultimately show ?thesis by blast
  qed
next
  case (3 s i s' r)
  from 3(3) have "pg_run (\<lambda>env. pg_mark_published env i) s = (s', r)" by (simp add: outbox_pg_def)
  then show ?case
  proof (cases rule: pg_run_cases)
    case (1 e)
    then show ?thesis using outbox_pg_inv_same [OF 3(1)] by blast
  next
    case env: 2
    have "uuid_param (pg_envs s (pg_tick s)) i = Inr i"
      using 3(1,2) by (auto simp: outbox_pg_inv_def uuid_param_def)
    with env(1) have "pg_db s' = update_where (\<lambda>x. oe_id x = i) (publish_row (pe_now (pg_envs s (pg_tick s)))) (pg_db s)"
      "r = Inr ()" by (simp_all add: pg_mark_published_def)
    moreover have "outbox_pg_inv s'" by (rule outbox_pg_inv_update [OF 3(1) env(2) calculation(1)]) simp
    ultimately show ?thesis by blast
  qed
next
  case (4 s i d k reason s' r)
  from 4(3) have "pg_run (\<lambda>env. pg_mark_failed env i d k reason) s = (s', r)" by (simp add: outbox_pg_def)
  then show ?case
  proof (cases rule: pg_run_cases)
    case (1 e)
    then show ?thesis using outbox_pg_inv_same [OF 4(1)] by blast
  next
    case env: 2
    have "uuid_param (pg_envs s (pg_tick s)) i = Inr i"
      using 4(1,2) by (auto simp: outbox_pg_inv_def uuid_param_def)
    with env(1) have "pg_db s' = update_where (\<lambda>x. oe_id x = i) (fail_row (pe_now (pg_envs s (pg_tick s))) d k) (pg_db s)"
      "r = Inr ()" by (simp_all add: pg_mark_failed_def)
    moreover have "outbox_pg_inv s'" by (rule outbox_pg_inv_update [OF 4(1) env(2) calculation(1)]) simp
    ultimately show ?thesis by blast
  qed
qed

section \<open>Properties\<close>

text \<open>
  The delay before the next attempt is thirty seconds per attempt made, up to five minutes:
  no overflow for any retry count that can occur.
\<close>

lemma retry_delay_bounds:
  assumes "0 \<le> n" "n < 300000000"
  shows "retry_delay n = min ((n + 1) * 30 * ns_second) (5 * ns_minute) \<and>
    30 * ns_second \<le> retry_delay n \<and> retry_delay n \<le> 5 * ns_minute"
proof -
  have "wrap64 (n + 1) = n + 1" "wrap64 ((n + 1) * 30) = (n + 1) * 30"
      "wrap64 ((n + 1) * 30 * 1000000000) = (n + 1) * 30 * 1000000000"
    by (rule wrap64_id, use assms in \<open>simp add: in_int64_def min_int64_def max_int64_def\<close>)+
  then show ?thesis
    using assms by (simp add: retry_delay_def ns_second_def ns_minute_def Let_def min_def)
qed

lemma outbox_row_ok_steps:
  assumes "outbox_row_ok x" "claimable n x"
  shows "outbox_row_ok (claim_row m x)" "outbox_row_ok (publish_row k (claim_row m x))"
    "outbox_row_ok (fail_row k d max_retries (claim_row m x))"
  using assms by (auto simp: outbox_row_ok_def claimable_def claim_row_def publish_row_def fail_row_def)

text \<open>
  C12. One run of the outbox worker over PostgreSQL, whatever the handlers and the broker do and
  whichever statements fail: the ids stay unique and the rows well-formed; a row that was not
  due is left alone; a due row is, at most, claimed, and then marked published, or failed with one
  more retry and the delay of its count. So a row that is published, dead, waiting or held by
  another worker is never touched.
\<close>

theorem outbox_process_rows:
  assumes "outbox_pg_inv st" "\<forall>r\<in>set (pg_db st). outbox_row_ok r" "os_repo s = outbox_pg"
    and "outbox_process s limit st w = (st', w', res)"
  shows "outbox_pg_inv st' \<and> (\<forall>r\<in>set (pg_db st'). outbox_row_ok r) \<and>
    list_all2 (\<lambda>x y. y = x \<or> (\<exists>n1. claimable n1 x \<and>
      (y = claim_row n1 x \<or> (\<exists>n2. y = publish_row n2 (claim_row n1 x) \<or>
         y = fail_row n2 (retry_delay (oe_retry_count x)) max_retries (claim_row n1 x)))))
    (pg_db st) (pg_db st')"
proof -
  note pr = opg.process_rows [OF assms(1,3,4)]
  have "outbox_row_ok y" if y: "y \<in> set (pg_db st')" for y
  proof -
    from y obtain k where k: "k < length (pg_db st')" "y = pg_db st' ! k" by (auto simp: in_set_conv_nth)
    let ?x = "pg_db st ! k"
    have len: "k < length (pg_db st)" using list_all2_lengthD [OF conjunct2 [OF pr]] k(1) by simp
    then have ok: "outbox_row_ok ?x" using assms(2) by simp
    from list_all2_nthD [OF conjunct2 [OF pr] len] show ?thesis
      using ok outbox_row_ok_steps [OF ok] unfolding k(2) by metis
  qed
  then show ?thesis using pr by blast
qed

text \<open>A small queue for the witnesses.\<close>

definition demo_outbox_row :: "string \<Rightarrow> string \<Rightarrow> outbox_row" where
  "demo_outbox_row i st =
    \<lparr>oe_id = i, oe_aggregate_type = ''message'', oe_aggregate_id = ''m'', oe_event_type = ''MessageCreated'',
     oe_event_version = 1, oe_payload = ''{}'', oe_status = st, oe_retry_count = 0, oe_next_attempt_at = None,
     oe_published_at = None, oe_created_at = 0, oe_updated_at = 0\<rparr>"

definition outbox_env :: "time \<Rightarrow> pg_env" where
  "outbox_env now = \<lparr>pe_now = now, pe_fresh = ''f'', pe_uuid = Some, pe_jsonb = Some, pe_fail = None\<rparr>"

definition demo_outbox :: "outbox_row list pg" where
  "demo_outbox = \<lparr>pg_db = [demo_outbox_row ''a'' ''pending'', demo_outbox_row ''b'' ''dead''\<lparr>oe_retry_count := 5\<rparr>],
     pg_envs = (\<lambda>n. outbox_env (int n)), pg_tick = 0\<rparr>"

definition failing_worker :: "(outbox_row list pg, nat) outbox_service" where
  "failing_worker = \<lparr>os_repo = outbox_pg, os_publisher = Some (\<lambda>ev w. (Suc w, Some (Plain ''down''))), os_handlers = []\<rparr>"

theorem outbox_process_rows_witness:
  "list_all outbox_row_ok (pg_db (fst (outbox_process failing_worker 10 demo_outbox 0)))"
proof -
  have "outbox_pg_inv demo_outbox"
    by (simp add: outbox_pg_inv_def demo_outbox_def demo_outbox_row_def outbox_env_def)
  moreover have "\<forall>r\<in>set (pg_db demo_outbox). outbox_row_ok r"
    by (simp add: demo_outbox_def demo_outbox_row_def outbox_row_ok_def max_retries_def)
  moreover have "os_repo failing_worker = outbox_pg" by (simp add: failing_worker_def)
  moreover obtain st' w' res where "outbox_process failing_worker 10 demo_outbox 0 = (st', w', res)"
    by (metis prod_cases3)
  ultimately show ?thesis 
    using outbox_process_rows [of demo_outbox failing_worker 10 0 st' w' res] by (simp add: list_all_iff)
qed

definition failed_times :: "(nat \<Rightarrow> time) \<Rightarrow> nat \<Rightarrow> outbox_row \<Rightarrow> outbox_row" where
  "failed_times clock k r =
    fold (\<lambda>i r. fail_row (clock i) (retry_delay (oe_retry_count r)) max_retries (claim_row (clock i) r)) [0..<k] r"

lemma failed_times_Suc:
  "failed_times clock (Suc k) r = fail_row (clock k) (retry_delay (oe_retry_count (failed_times clock k r)))
     max_retries (claim_row (clock k) (failed_times clock k r))"
  by (simp add: failed_times_def)

lemma failed_times_count: "oe_retry_count (failed_times clock k r) = oe_retry_count r + int k"
proof (induction k)
  case (Suc k)
  then show ?case by (simp add: failed_times_Suc) (simp add: fail_row_def claim_row_def)
qed (simp add: failed_times_def)

text \<open>
  C35. Retries are bounded: a row that fails again and again is failed for the first four times,
  to be retried after the delay of its count, and dead from the fifth on; no later claim takes it.
\<close>

theorem retries_bounded:
  assumes "oe_retry_count r = 0" "0 < k"
  shows "(k < 5 \<longrightarrow> oe_status (failed_times clock k r) = ''failed'' \<and>
      oe_next_attempt_at (failed_times clock k r) = Some (clock (k - 1) + int k * 30 * ns_second)) \<and>
    (5 \<le> k \<longrightarrow> oe_status (failed_times clock k r) = ''dead'' \<and> \<not> claimable now (failed_times clock k r))"
proof -
  obtain j where j: "k = Suc j" using assms(2) by (cases k) auto
  have c: "oe_retry_count (failed_times clock j r) = int j"
    using failed_times_count [of clock j r] assms(1) by simp
  have row: "failed_times clock k r = fail_row (clock j) (retry_delay (int j)) max_retries
      (claim_row (clock j) (failed_times clock j r))"
    by (simp add: j failed_times_Suc c)
  have cnt: "oe_retry_count (claim_row (clock j) (failed_times clock j r)) = int j"
    by (simp add: claim_row_def c)
  have d: "go_div (retry_delay (int j)) ns_second * ns_second = int k * 30 * ns_second" if "k < 5"
  proof -
    have "int j = 0 \<or> int j = 1 \<or> int j = 2 \<or> int j = 3" using that j by linarith
    moreover have "retry_delay 0 = 30 * ns_second" "retry_delay 1 = 60 * ns_second" "retry_delay 2 = 90 * ns_second"
        "retry_delay 3 = 120 * ns_second"
      by (simp_all add: retry_delay_def wrap64_def ns_second_def ns_minute_def)
    moreover have "go_div (30 * ns_second) ns_second = 30" "go_div (60 * ns_second) ns_second = 60"
        "go_div (90 * ns_second) ns_second = 90" "go_div (120 * ns_second) ns_second = 120"
      by (simp_all add: go_div_def ns_second_def)
    ultimately show ?thesis using j by auto
  qed
  show ?thesis
    unfolding row using cnt d j
    by (auto simp: fail_row_def max_retries_def claimable_def)
qed

theorem retries_bounded_witness:
  "oe_status (failed_times (\<lambda>i. int i * ns_day) 5 (demo_outbox_row ''a'' ''pending'')) = ''dead''"
  using retries_bounded [of "demo_outbox_row ''a'' ''pending''" 5 "\<lambda>i. int i * ns_day" 0]
  by (simp add: demo_outbox_row_def)

text \<open>
  A worker that is too slow undoes a delivery: marking an event as failed does not look at
  its status, so when a second worker has claimed the event after five minutes and published it,
  the failure of the first one puts the published event back in the queue, and once the delay is
  over a claim hands it out again.
\<close>

lemma stale_failure_requeues:
  assumes "r \<in> set rows" "oe_status r = ''published''" "oe_retry_count r + 1 < max_retries"
    and "uuid_param env (oe_id r) = Inr (oe_id r)" "0 \<le> d"
    and "pe_now env + d \<le> pe_now env'" "int (length rows) \<le> limit"
  shows "\<exists>evs ev. snd (pg_claim env' limit (fst (pg_mark_failed env (oe_id r) d max_retries reason rows))) = Inr evs \<and>
    ev \<in> set evs \<and> ox_id ev = oe_id r"
proof -
  let ?rows = "fst (pg_mark_failed env (oe_id r) d max_retries reason rows)"
  let ?r = "fail_row (pe_now env) d max_retries r"
  have mem: "?r \<in> set ?rows" using assms(1,4) by (auto simp: pg_mark_failed_def set_update_where)
  have "go_div d ns_second * ns_second \<le> d"
    using assms(5) div_times_less_eq_dividend [of "nat d" "nat ns_second"]
    by (simp add: go_div_nonneg ns_second_def)
  then have "claimable (pe_now env') ?r"
    using assms(2,3,6) by (auto simp: claimable_def fail_row_def)
  then have due: "oe_id ?r \<in> oe_id ` set (filter (claimable (pe_now env')) ?rows)"
    using mem by (intro imageI) simp
  have "length (filter (claimable (pe_now env')) ?rows) \<le> nat limit"
  proof -
    have "length ?rows = length rows" by (simp add: pg_mark_failed_def assms(4))
    then show ?thesis using assms(7) length_filter_le [of "claimable (pe_now env')" ?rows] by linarith
  qed
  then have "set (picked_ids (pe_now env') limit ?rows) = oe_id ` set (filter (claimable (pe_now env')) ?rows)"
    by (simp add: picked_ids_def order_limit_def)
  with due have "oe_id ?r \<in> set (picked_ids (pe_now env') limit ?rows)" by (simp only:)
  then have "event_of_row (claim_row (pe_now env') ?r) \<in> set (map (event_of_row \<circ> claim_row (pe_now env'))
      (filter (\<lambda>x. oe_id x \<in> set (picked_ids (pe_now env') limit ?rows)) ?rows))"
    using mem by auto
  moreover have "ox_id (event_of_row (claim_row (pe_now env') ?r)) = oe_id r"
    by (simp add: event_of_row_def)
  ultimately show ?thesis unfolding pg_claim_def Let_def by (simp only: snd_conv) blast
qed

lemma stale_failure_requeues_witness:
  "\<exists>evs ev. snd (pg_claim (outbox_env (40 * ns_second)) 20 (fst (pg_mark_failed (outbox_env 0) ''a''
     (30 * ns_second) max_retries ''slow'' [demo_outbox_row ''a'' ''published'']))) = Inr evs \<and>
     ev \<in> set evs \<and> ox_id ev = ''a''"
  using stale_failure_requeues [of "demo_outbox_row ''a'' ''published''" "[demo_outbox_row ''a'' ''published'']"
      "outbox_env 0" "30 * ns_second" "outbox_env (40 * ns_second)" 20 "''slow''"]
  by (simp add: demo_outbox_row_def uuid_param_def outbox_env_def max_retries_def ns_second_def)

end
