(* ===== verification/Presence.thy ===== *)
theory Presence
  imports Pg Go_Json
begin

text \<open>
  \<open>modules/presence\<close>: heartbeats of devices. The service (\<open>application/service.go\<close>) over the
  \<open>Repository\<close> interface, and the PostgreSQL repository on the table \<open>user_presence\<close> with its two
  unique keys (migration 000001). Foreign keys are among the failures of the environment.
\<close>

record presence =
  pr_user_id :: string
  pr_workspace_id :: "string option"
  pr_device_id :: string
  pr_socket_id :: string
  pr_node_id :: string
  pr_status :: string
  pr_last_heartbeat_at :: time
  pr_connected_at :: time
  pr_metadata :: string

record presence_input =
  pn_actor :: string
  pn_workspace_id :: string
  pn_device_id :: string
  pn_socket_id :: string
  pn_node_id :: string
  pn_status :: string
  pn_metadata :: string

record presence_params =
  pp_user_id :: string
  pp_workspace_id :: string
  pp_device_id :: string
  pp_socket_id :: string
  pp_node_id :: string
  pp_status :: string
  pp_metadata :: string

record presence_dto =
  pd_user_id :: string
  pd_workspace_id :: "string option"
  pd_device_id :: string
  pd_socket_id :: string
  pd_node_id :: string
  pd_status :: string
  pd_last_heartbeat_at :: string
  pd_connected_at :: string
  pd_metadata :: string

record 's presence_repo =
  pq_upsert :: "presence_params \<Rightarrow> 's \<Rightarrow> 's \<times> presence result"
  pq_list :: "string \<Rightarrow> int \<Rightarrow> 's \<Rightarrow> 's \<times> (presence list) result"
  pq_mark_offline_stale :: "duration \<Rightarrow> 's \<Rightarrow> 's \<times> int result"

record 's presence_service =
  pv_repo :: "'s presence_repo"
  pv_checker :: "string \<Rightarrow> string \<Rightarrow> string \<Rightarrow> bool result"

section \<open>The service\<close>

definition normalize_presence_status :: "string \<Rightarrow> string" where
  "normalize_presence_status status =
    (if trim_space status = ''away'' then ''away''
     else if trim_space status = ''offline'' then ''offline'' else ''online'')"

definition normalize_presence_metadata :: "string \<Rightarrow> string result" where
  "normalize_presence_metadata value =
    (if length value = 0 \<or> trim_space value = [] \<or> trim_space value = ''null'' then Inr ''{}''
     else if \<not> json_valid value
     then Inl (bad_request ''VALIDATION_ERROR'' ''Metadata presence khong phai JSON hop le.'')
     else Inr value)"

definition to_presence_dto :: "presence \<Rightarrow> presence_dto" where
  "to_presence_dto p =
    \<lparr>pd_user_id = pr_user_id p, pd_workspace_id = pr_workspace_id p, pd_device_id = pr_device_id p,
     pd_socket_id = pr_socket_id p, pd_node_id = pr_node_id p, pd_status = pr_status p,
     pd_last_heartbeat_at = format_time (pr_last_heartbeat_at p),
     pd_connected_at = format_time (pr_connected_at p),
     pd_metadata = (if pr_metadata p = [] then ''{}'' else pr_metadata p)\<rparr>"

definition ensure_presence_member :: "'s presence_service \<Rightarrow> string \<Rightarrow> string \<Rightarrow> go_error option" where
  "ensure_presence_member s user workspace =
    (case pv_checker s (trim_space user) (trim_space workspace) ''workspace.view_members'' of
       Inl e \<Rightarrow> Some e
     | Inr allowed \<Rightarrow> if \<not> allowed then Some (forbidden ''Ban khong thuoc workspace nay.'') else None)"

definition presence_params_of :: "presence_input \<Rightarrow> string \<Rightarrow> presence_params" where
  "presence_params_of input metadata =
    (let device = trim_space (pn_device_id input); socket = trim_space (pn_socket_id input);
         node = trim_space (pn_node_id input)
     in \<lparr>pp_user_id = trim_space (pn_actor input), pp_workspace_id = trim_space (pn_workspace_id input),
         pp_device_id = device, pp_socket_id = (if socket = [] then device else socket),
         pp_node_id = (if node = [] then ''api-local'' else node),
         pp_status = normalize_presence_status (pn_status input), pp_metadata = metadata\<rparr>)"

definition heartbeat :: "'s presence_service \<Rightarrow> presence_input \<Rightarrow> 's \<Rightarrow> 's \<times> presence_dto result" where
  "heartbeat s input st =
    (case ensure_presence_member s (pn_actor input) (pn_workspace_id input) of
       Some e \<Rightarrow> (st, Inl e)
     | None \<Rightarrow>
         if trim_space (pn_device_id input) = []
         then (st, Inl (bad_request ''VALIDATION_ERROR'' ''Device ID khong duoc de trong.''))
         else (case normalize_presence_metadata (pn_metadata input) of
             Inl e \<Rightarrow> (st, Inl e)
           | Inr metadata \<Rightarrow>
               (case pq_upsert (pv_repo s) (presence_params_of input metadata) st of
                  (st1, Inl e) \<Rightarrow> (st1, Inl e)
                | (st1, Inr p) \<Rightarrow> (st1, Inr (to_presence_dto p)))))"

definition presence_list ::
    "'s presence_service \<Rightarrow> string \<Rightarrow> string \<Rightarrow> int \<Rightarrow> 's \<Rightarrow> 's \<times> (presence_dto list \<times> page_meta) result" where
  "presence_list s actor workspace limit0 st =
    (case ensure_presence_member s actor workspace of
       Some e \<Rightarrow> (st, Inl e)
     | None \<Rightarrow>
         (let limit = normalize_limit limit0 in
          case pq_list (pv_repo s) (trim_space workspace) (limit + 1) st of
            (st1, Inl e) \<Rightarrow> (st1, Inl e)
          | (st1, Inr ps) \<Rightarrow>
              (let has_more = limit < int (length ps);
                   page = (if has_more then take (nat limit) ps else ps)
               in (st1, Inr (map to_presence_dto page,
                     \<lparr>pm_next_cursor = [], pm_prev_cursor = [], pm_has_more = has_more\<rparr>)))))"

definition cleanup_stale :: "'s presence_service \<Rightarrow> duration \<Rightarrow> 's \<Rightarrow> 's \<times> int result" where
  "cleanup_stale s stale_after st =
    pq_mark_offline_stale (pv_repo s) (if stale_after \<le> 0 then 90 * ns_second else stale_after) st"

section \<open>The repository\<close>

definition presence_statuses :: "string list" where
  "presence_statuses = [''online'', ''away'', ''offline'']"

text \<open>The two unique keys: (user, device) and the socket.\<close>

definition presence_key :: "presence \<Rightarrow> string \<times> string" where
  "presence_key r = (pr_user_id r, pr_device_id r)"

definition presence_keys_ok :: "presence list \<Rightarrow> bool" where
  "presence_keys_ok rows \<longleftrightarrow> distinct (map presence_key rows) \<and> distinct (map pr_socket_id rows)"

text \<open>The parameters every statement encodes first: user, workspace and metadata.\<close>

definition presence_args :: "pg_env \<Rightarrow> presence_params \<Rightarrow> (string \<times> string \<times> string) result" where
  "presence_args env p =
    result_bind (uuid_param env (pp_user_id p)) (\<lambda>u.
    result_bind (uuid_param env (pp_workspace_id p)) (\<lambda>w.
    result_bind (jsonb_param env (pp_metadata p)) (\<lambda>m. Inr (u, w, m))))"

text \<open>
  An update of one row: the constraints are checked on the table it would leave, and a violation
  leaves the table as it was.
\<close>

definition checked_presence_update ::
    "(presence \<Rightarrow> bool) \<Rightarrow> (presence \<Rightarrow> presence) \<Rightarrow> presence \<Rightarrow> presence list \<Rightarrow> presence list \<times> presence result" where
  "checked_presence_update p f r rows =
    (if pr_status (f r) \<notin> set presence_statuses then (rows, Inl check_violation)
     else if \<not> presence_keys_ok (update_where p f rows) then (rows, Inl unique_violation)
     else (update_where p f rows, Inr (f r)))"

definition pg_presence_insert :: "pg_env \<Rightarrow> presence_params \<Rightarrow> presence list \<Rightarrow> presence list \<times> presence result" where
  "pg_presence_insert env p rows =
    (case presence_args env p of
       Inl e \<Rightarrow> (rows, Inl e)
     | Inr (u, w, m) \<Rightarrow>
       (let new = \<lparr>pr_user_id = u, pr_workspace_id = Some w, pr_device_id = pp_device_id p,
              pr_socket_id = pp_socket_id p, pr_node_id = pp_node_id p, pr_status = pp_status p,
              pr_last_heartbeat_at = pe_now env, pr_connected_at = pe_now env, pr_metadata = m\<rparr>;
            hit = (\<lambda>r. presence_key r = (u, pp_device_id p))
        in case List.find hit rows of
             Some r \<Rightarrow>
               checked_presence_update hit
                 (\<lambda>r. r\<lparr>pr_workspace_id := Some w, pr_socket_id := pp_socket_id p, pr_node_id := pp_node_id p,
                   pr_status := pp_status p, pr_last_heartbeat_at := pe_now env, pr_metadata := m\<rparr>) r rows
           | None \<Rightarrow>
               if pp_status p \<notin> set presence_statuses then (rows, Inl check_violation)
               else if pp_socket_id p \<in> pr_socket_id ` set rows then (rows, Inl unique_violation)
               else (rows @ [new], Inr new)))"

definition pg_presence_take_socket :: "pg_env \<Rightarrow> presence_params \<Rightarrow> presence list \<Rightarrow> presence list \<times> presence result" where
  "pg_presence_take_socket env p rows =
    (case presence_args env p of
       Inl e \<Rightarrow> (rows, Inl e)
     | Inr (u, w, m) \<Rightarrow>
       (let hit = (\<lambda>r. pr_socket_id r = pp_socket_id p)
        in case List.find hit rows of
             None \<Rightarrow> (rows, Inl err_no_rows)
           | Some r \<Rightarrow>
               checked_presence_update hit
                 (\<lambda>r. r\<lparr>pr_user_id := u, pr_workspace_id := Some w, pr_device_id := pp_device_id p,
                   pr_node_id := pp_node_id p, pr_status := pp_status p, pr_last_heartbeat_at := pe_now env,
                   pr_metadata := m\<rparr>) r rows))"

definition pg_presence_offline :: "pg_env \<Rightarrow> presence_params \<Rightarrow> presence list \<Rightarrow> presence list \<times> presence result" where
  "pg_presence_offline env p rows =
    (case presence_args env p of
       Inl e \<Rightarrow> (rows, Inl e)
     | Inr (u, w, m) \<Rightarrow>
       (let hit = (\<lambda>r. presence_key r = (u, pp_device_id p) \<and> pr_workspace_id r = Some w \<and>
                    pr_socket_id r = pp_socket_id p)
        in case List.find hit rows of
             None \<Rightarrow> (rows, Inl err_no_rows)
           | Some r \<Rightarrow>
               checked_presence_update hit
                 (\<lambda>r. r\<lparr>pr_status := ''offline'', pr_node_id := pp_node_id p,
                   pr_last_heartbeat_at := pe_now env, pr_metadata := m\<rparr>) r rows))"

definition pg_presence_find :: "pg_env \<Rightarrow> presence_params \<Rightarrow> presence list \<Rightarrow> presence list \<times> presence result" where
  "pg_presence_find env p rows =
    (rows, result_bind (uuid_param env (pp_user_id p)) (\<lambda>u.
       result_bind (uuid_param env (pp_workspace_id p)) (\<lambda>w.
       case List.find (\<lambda>r. presence_key r = (u, pp_device_id p) \<and> pr_workspace_id r = Some w) rows of
         None \<Rightarrow> Inl err_no_rows | Some r \<Rightarrow> Inr r)))"

definition mark_socket_offline :: "presence_params \<Rightarrow> presence list pg \<Rightarrow> presence list pg \<times> presence result" where
  "mark_socket_offline p s =
    (case pg_run (\<lambda>env. pg_presence_offline env p) s of
       (s1, Inr r) \<Rightarrow> (s1, Inr r)
     | (s1, Inl e) \<Rightarrow>
         if \<not> errors_is e ''pgx.ErrNoRows'' then (s1, Inl e)
         else pg_run (\<lambda>env. pg_presence_find env p) s1)"

definition presence_upsert :: "presence_params \<Rightarrow> presence list pg \<Rightarrow> presence list pg \<times> presence result" where
  "presence_upsert p s =
    (if pp_status p = ''offline'' then mark_socket_offline p s
     else case pg_run (\<lambda>env. pg_presence_insert env p) s of
         (s1, Inr r) \<Rightarrow> (s1, Inr r)
       | (s1, Inl e) \<Rightarrow>
           if is_unique_violation e then pg_run (\<lambda>env. pg_presence_take_socket env p) s1
           else (s1, Inl e))"

definition presence_rank :: "presence \<Rightarrow> int" where
  "presence_rank r = (if pr_status r = ''online'' then 1 else if pr_status r = ''away'' then 2 else 3)"

definition presence_order :: "presence list \<Rightarrow> presence list" where
  "presence_order rows = sort_key presence_rank (sort_key (\<lambda>r. - pr_last_heartbeat_at r) rows)"

definition pg_presence_list :: "pg_env \<Rightarrow> string \<Rightarrow> int \<Rightarrow> presence list \<Rightarrow> presence list \<times> (presence list) result" where
  "pg_presence_list env workspace limit rows =
    (rows, result_bind (uuid_param env workspace) (\<lambda>w.
       Inr (take (nat limit) (presence_order (filter (\<lambda>r. pr_workspace_id r = Some w) rows)))))"

definition stale_presence :: "time \<Rightarrow> duration \<Rightarrow> presence \<Rightarrow> bool" where
  "stale_presence now stale_after r \<longleftrightarrow>
     (pr_status r = ''online'' \<or> pr_status r = ''away'') \<and>
     pr_last_heartbeat_at r < now - go_div stale_after ns_second * ns_second"

definition pg_mark_offline_stale :: "pg_env \<Rightarrow> duration \<Rightarrow> presence list \<Rightarrow> presence list \<times> int result" where
  "pg_mark_offline_stale env stale_after rows =
    (let hit = stale_presence (pe_now env) stale_after
     in (update_where hit (\<lambda>r. r\<lparr>pr_status := ''offline''\<rparr>) rows, Inr (int (length (filter hit rows)))))"

definition presence_pg :: "presence list pg presence_repo" where
  "presence_pg =
    \<lparr>pq_upsert = presence_upsert,
     pq_list = (\<lambda>w n. pg_run (\<lambda>env. pg_presence_list env w n)),
     pq_mark_offline_stale = (\<lambda>d. pg_run (\<lambda>env. pg_mark_offline_stale env d))\<rparr>"

end
