(* ===== verification/Presence_Props.thy ===== *)
theory Presence_Props
  imports Presence
begin

text \<open>
  What the presence service relies on (a locale, interpreted on the PostgreSQL repository) and the
  properties of heartbeats and of the clean-up of stale devices.
\<close>

section \<open>Single statements\<close>

definition presence_ok :: "presence list \<Rightarrow> bool" where
  "presence_ok rows \<longleftrightarrow>
     presence_keys_ok rows \<and> list_all (\<lambda>r. pr_status r \<in> set presence_statuses) rows"

text \<open>
  A heartbeat with parameters \<open>p\<close> writes only rows of its device and socket, and drops only rows
  that had its device or its socket.
\<close>

definition presence_step :: "presence_params \<Rightarrow> presence list \<Rightarrow> presence list \<Rightarrow> bool" where
  "presence_step p rows rows' \<longleftrightarrow>
     (\<forall>r'\<in>set rows'. r' \<in> set rows \<or>
        pr_device_id r' = pp_device_id p \<and> pr_socket_id r' = pp_socket_id p \<and> pr_status r' = pp_status p) \<and>
     (\<forall>r\<in>set rows. r \<in> set rows' \<or> pr_device_id r = pp_device_id p \<or> pr_socket_id r = pp_socket_id p)"

lemma presence_step_refl [simp]: "presence_step p rows rows"
  by (simp add: presence_step_def)

definition presence_effect :: "presence_params \<Rightarrow> presence list \<Rightarrow> presence list \<Rightarrow> presence result \<Rightarrow> bool" where
  "presence_effect p rows rows' r \<longleftrightarrow>
     presence_ok rows' \<and> presence_step p rows rows' \<and> (\<forall>e. r = Inl e \<longrightarrow> rows' = rows) \<and>
     (\<forall>q. r = Inr q \<longrightarrow> q \<in> set rows' \<and> pr_device_id q = pp_device_id p)"

lemma presence_effect_fail [simp]: "presence_ok rows \<Longrightarrow> presence_effect p rows rows (Inl e)"
  by (simp add: presence_effect_def)

lemma find_unique_row:
  "presence_keys_ok rows \<Longrightarrow> List.find (\<lambda>r. presence_key r = k) rows = Some r \<Longrightarrow>
   x \<in> set rows \<Longrightarrow> presence_key x = k \<Longrightarrow> x = r"
  by (auto simp: presence_keys_ok_def distinct_map dest!: find_Some_mem dest: inj_onD)

lemma checked_update_effect:
  assumes "presence_ok rows" "checked_presence_update hit f r rows = (rows', q)"
    and "r \<in> set rows" "hit r" "\<And>x. x \<in> set rows \<Longrightarrow> hit x \<Longrightarrow> x = r"
    and "pr_device_id (f r) = pp_device_id p" "pr_socket_id (f r) = pp_socket_id p" "pr_status (f r) = pp_status p"
    and "pr_device_id r = pp_device_id p \<or> pr_socket_id r = pp_socket_id p"
  shows "presence_effect p rows rows' q"
proof (cases "pr_status (f r) \<in> set presence_statuses \<and> presence_keys_ok (update_where hit f rows)")
  case True
  then have q: "rows' = update_where hit f rows" "q = Inr (f r)"
    using assms(2) by (simp_all add: checked_presence_update_def)
  have "presence_ok rows'"
    using True assms(1,5) q(1) by (auto simp: presence_ok_def list_all_iff set_update_where)
  moreover have "presence_step p rows rows'"
    unfolding presence_step_def q(1) set_update_where using assms(5-9) by (auto simp: image_iff)
  ultimately show ?thesis
    using q assms(3,4,6) by (auto simp: presence_effect_def set_update_where image_iff)
next
  case False
  then have "rows' = rows" "\<exists>e. q = Inl e" using assms(2) by (auto simp: checked_presence_update_def split: if_splits)
  then show ?thesis using assms(1) by auto
qed

lemma insert_effect:
  assumes "presence_ok rows" "pg_presence_insert env p rows = (rows', r)"
  shows "presence_effect p rows rows' r"
proof (cases "presence_args env p")
  case (Inl e)
  then show ?thesis using assms by (auto simp: pg_presence_insert_def)
next
  case (Inr a)
  obtain u w m where a: "a = (u, w, m)" by (cases a)
  let ?hit = "\<lambda>r. presence_key r = (u, pp_device_id p)"
  show ?thesis
  proof (cases "List.find ?hit rows")
    case None
    define new where "new = \<lparr>pr_user_id = u, pr_workspace_id = Some w, pr_device_id = pp_device_id p,
      pr_socket_id = pp_socket_id p, pr_node_id = pp_node_id p, pr_status = pp_status p,
      pr_last_heartbeat_at = pe_now env, pr_connected_at = pe_now env, pr_metadata = m\<rparr>"
    have key: "presence_key new \<notin> presence_key ` set rows"
      using None by (auto simp: find_None_iff new_def presence_key_def)
    have eq: "(rows', r) = (if pp_status p \<notin> set presence_statuses then (rows, Inl check_violation)
        else if pp_socket_id p \<in> pr_socket_id ` set rows then (rows, Inl unique_violation)
        else (rows @ [new], Inr new))"
      using assms(2) unfolding pg_presence_insert_def Inr a new_def Let_def by (simp add: None)
    consider e where "rows' = rows" "r = Inl e"
      | "rows' = rows @ [new]" "r = Inr new" "pp_status p \<in> set presence_statuses"
        "pp_socket_id p \<notin> pr_socket_id ` set rows"
      using eq by (metis Pair_inject)
    then show ?thesis
    proof cases
      case 2
      have "pr_socket_id new = pp_socket_id p" "pr_status new = pp_status p" "pr_device_id new = pp_device_id p"
        by (simp_all add: new_def)
      with 2 key assms(1) show ?thesis
        by (simp add: presence_effect_def presence_step_def presence_ok_def presence_keys_ok_def)
    qed (use assms(1) in simp)
  next
    case (Some x)
    then have x: "x \<in> set rows" "?hit x" by (auto dest: find_Some_mem)
    have d: "pr_device_id x = pp_device_id p" using x(2) by (simp add: presence_key_def)
    have keys: "presence_keys_ok rows" using assms(1) by (simp add: presence_ok_def)
    let ?f = "\<lambda>r. r\<lparr>pr_workspace_id := Some w, pr_socket_id := pp_socket_id p, pr_node_id := pp_node_id p,
        pr_status := pp_status p, pr_last_heartbeat_at := pe_now env, pr_metadata := m\<rparr>"
    have "checked_presence_update ?hit ?f x rows = (rows', r)"
      using assms(2) Inr a Some by (simp add: pg_presence_insert_def)
    then show ?thesis
    proof (rule checked_update_effect [OF assms(1)])
      show "y = x" if "y \<in> set rows" "?hit y" for y by (rule find_unique_row [OF keys Some that])
    qed (simp_all add: d x(1) x(2))
  qed
qed

lemma find_unique_socket:
  "presence_keys_ok rows \<Longrightarrow> x \<in> set rows \<Longrightarrow> y \<in> set rows \<Longrightarrow> pr_socket_id x = pr_socket_id y \<Longrightarrow> x = y"
  by (auto simp: presence_keys_ok_def distinct_map dest: inj_onD)

lemma take_socket_effect:
  assumes "presence_ok rows" "pg_presence_take_socket env p rows = (rows', r)"
  shows "presence_effect p rows rows' r"
proof (cases "presence_args env p")
  case (Inl e)
  then show ?thesis using assms by (auto simp: pg_presence_take_socket_def)
next
  case (Inr a)
  obtain u w m where a: "a = (u, w, m)" by (cases a)
  let ?hit = "\<lambda>r. pr_socket_id r = pp_socket_id p"
  have keys: "presence_keys_ok rows" using assms(1) by (simp add: presence_ok_def)
  show ?thesis
  proof (cases "List.find ?hit rows")
    case None
    then show ?thesis using assms Inr a by (auto simp: pg_presence_take_socket_def)
  next
    case (Some x)
    then have x: "x \<in> set rows" "?hit x" by (auto dest: find_Some_mem)
    let ?f = "\<lambda>r. r\<lparr>pr_user_id := u, pr_workspace_id := Some w, pr_device_id := pp_device_id p,
        pr_node_id := pp_node_id p, pr_status := pp_status p, pr_last_heartbeat_at := pe_now env,
        pr_metadata := m\<rparr>"
    have "checked_presence_update ?hit ?f x rows = (rows', r)"
      using assms(2) Inr a Some by (simp add: pg_presence_take_socket_def)
    then show ?thesis
      by (rule checked_update_effect [OF assms(1)]) (use x find_unique_socket [OF keys] in \<open>auto\<close>)
  qed
qed

lemma offline_effect:
  assumes "presence_ok rows" "pp_status p = ''offline''" "pg_presence_offline env p rows = (rows', r)"
  shows "presence_effect p rows rows' r"
proof (cases "presence_args env p")
  case (Inl e)
  then show ?thesis using assms by (auto simp: pg_presence_offline_def)
next
  case (Inr a)
  obtain u w m where a: "a = (u, w, m)" by (cases a)
  let ?hit = "\<lambda>r. presence_key r = (u, pp_device_id p) \<and> pr_workspace_id r = Some w \<and> pr_socket_id r = pp_socket_id p"
  have keys: "presence_keys_ok rows" using assms(1) by (simp add: presence_ok_def)
  show ?thesis
  proof (cases "List.find ?hit rows")
    case None
    then show ?thesis using assms Inr a by (auto simp: pg_presence_offline_def Let_def)
  next
    case (Some x)
    then have x: "x \<in> set rows" "?hit x" by (auto dest: find_Some_mem)
    have d: "pr_device_id x = pp_device_id p" using x(2) by (simp add: presence_key_def)
    let ?f = "\<lambda>r. r\<lparr>pr_status := ''offline'', pr_node_id := pp_node_id p,
        pr_last_heartbeat_at := pe_now env, pr_metadata := m\<rparr>"
    have "checked_presence_update ?hit ?f x rows = (rows', r)"
      using assms(3) Inr a Some by (simp add: pg_presence_offline_def Let_def)
    then show ?thesis
      by (rule checked_update_effect [OF assms(1)])
        (use x d find_unique_socket [OF keys] assms(2) in \<open>auto\<close>)
  qed
qed

lemma find_effect:
  assumes "presence_ok rows" "pg_presence_find env p rows = (rows', r)"
  shows "presence_effect p rows rows' r"
proof (cases r)
  case (Inl e)
  then show ?thesis using assms by (auto simp: pg_presence_find_def)
next
  case (Inr q)
  then obtain u w where
    "List.find (\<lambda>r. presence_key r = (u, pp_device_id p) \<and> pr_workspace_id r = Some w) rows = Some q"
    using assms(2) by (auto simp: pg_presence_find_def result_bind_Inr_iff split: option.splits)
  then have "q \<in> set rows" "pr_device_id q = pp_device_id p"
    by (auto simp: presence_key_def dest: find_Some_mem)
  then show ?thesis using assms Inr by (auto simp: pg_presence_find_def presence_effect_def)
qed

section \<open>What the service relies on\<close>

text \<open>
  The contract of the repository: the keys stay unique, an upsert touches only rows of its device
  and socket and returns the row it left, a failed one changes nothing; a clean-up only marks rows
  without a recent heartbeat.
\<close>

definition mark_stale :: "time \<Rightarrow> duration \<Rightarrow> presence list \<Rightarrow> presence list" where
  "mark_stale now d rows = update_where (stale_presence now d) (\<lambda>r. r\<lparr>pr_status := ''offline''\<rparr>) rows"

locale presence_store =
  fixes repo :: "'s presence_repo"
    and rows :: "'s \<Rightarrow> presence list"
    and inv :: "'s \<Rightarrow> bool"
  assumes upsert_law: "inv s \<Longrightarrow> pq_upsert repo p s = (s', r) \<Longrightarrow> inv s' \<and> presence_effect p (rows s) (rows s') r"
    and list_law: "inv s \<Longrightarrow> pq_list repo w n s = (s', r1) \<Longrightarrow> inv s' \<and> rows s' = rows s \<and>
      (\<forall>ps. r1 = Inr ps \<longrightarrow> set ps \<subseteq> set (rows s) \<and> length ps \<le> nat n \<and> sorted (map presence_rank ps))"
    and stale_law: "inv s \<Longrightarrow> pq_mark_offline_stale repo d s = (s', r2) \<Longrightarrow> inv s' \<and>
      ((\<exists>e. r2 = Inl e) \<and> rows s' = rows s \<or>
       (\<exists>now. rows s' = mark_stale now d (rows s) \<and> r2 = Inr (int (length (filter (stale_presence now d) (rows s))))))"
begin

lemma heartbeat_table:
  assumes "inv st" "pv_repo s = repo" "heartbeat s input st = (st', r)"
  shows "inv st' \<and> (\<forall>e. r = Inl e \<longrightarrow> rows st' = rows st) \<and>
    (\<forall>d. r = Inr d \<longrightarrow> pv_checker s (trim_space (pn_actor input)) (trim_space (pn_workspace_id input))
         ''workspace.view_members'' = Inr True \<and>
       (\<exists>meta q. presence_effect (presence_params_of input meta) (rows st) (rows st') (Inr q) \<and> d = to_presence_dto q))"
proof (cases "ensure_presence_member s (pn_actor input) (pn_workspace_id input)")
  case (Some e)
  then show ?thesis using assms by (auto simp: heartbeat_def)
next
  case None
  then have member: "pv_checker s (trim_space (pn_actor input)) (trim_space (pn_workspace_id input))
      ''workspace.view_members'' = Inr True"
    by (auto simp: ensure_presence_member_def split: sum.splits if_splits)
  show ?thesis
  proof (cases "trim_space (pn_device_id input) = [] \<or> (\<exists>e. normalize_presence_metadata (pn_metadata input) = Inl e)")
    case True
    then have "st' = st" "\<exists>e. r = Inl e" using assms None by (auto simp: heartbeat_def split: if_splits)
    then show ?thesis using assms(1) by auto
  next
    case False
    then obtain m where m: "normalize_presence_metadata (pn_metadata input) = Inr m"
      by (cases "normalize_presence_metadata (pn_metadata input)") auto
    obtain q where q: "pq_upsert repo (presence_params_of input m) st = (st', q)"
        "r = (case q of Inl e \<Rightarrow> Inl e | Inr p \<Rightarrow> Inr (to_presence_dto p))"
      using assms(2,3) None False m by (auto simp: heartbeat_def split: prod.splits sum.splits)
    show ?thesis
      using upsert_law [OF assms(1) q(1)] q(2) member
      by (cases q) (auto simp: presence_effect_def)
  qed
qed

end

section \<open>The PostgreSQL repository keeps the contract\<close>

lemma pg_run_presence:
  assumes "presence_ok (pg_db s)" "pg_run f s = (s', r)"
    and "\<And>env rows' r'. f env (pg_db s) = (rows', r') \<Longrightarrow> presence_effect p (pg_db s) rows' r'"
  shows "presence_effect p (pg_db s) (pg_db s') r"
  using pg_run_db [OF assms(2)] assms(1,3) by auto

lemma presence_upsert_effect:
  assumes "presence_ok (pg_db s)" "presence_upsert p s = (s', r)"
  shows "presence_effect p (pg_db s) (pg_db s') r"
proof (cases "pp_status p = ''offline''")
  case True
  obtain s1 r1 where 1: "pg_run (\<lambda>env. pg_presence_offline env p) s = (s1, r1)" by fastforce
  have e1: "presence_effect p (pg_db s) (pg_db s1) r1"
    by (rule pg_run_presence [OF assms(1) 1]) (rule offline_effect [OF assms(1) True])
  show ?thesis
  proof (cases "\<exists>e. r1 = Inl e \<and> errors_is e ''pgx.ErrNoRows''")
    case True
    then have "pg_db s1 = pg_db s" using e1 by (auto simp: presence_effect_def)
    with assms(1) have ok1: "presence_ok (pg_db s1)" by simp
    have "pg_db s1 = pg_db s" by fact
    moreover have run: "pg_run (\<lambda>env. pg_presence_find env p) s1 = (s', r)"
      using assms(2) True \<open>pp_status p = ''offline''\<close> 1
      by (auto simp: presence_upsert_def mark_socket_offline_def)
    moreover have "presence_effect p (pg_db s1) (pg_db s') r"
      by (rule pg_run_presence [OF ok1 run]) (rule find_effect [OF ok1])
    ultimately show ?thesis by simp
  next
    case False
    then show ?thesis
      using assms(2) \<open>pp_status p = ''offline''\<close> 1 e1
      by (auto simp: presence_upsert_def mark_socket_offline_def split: sum.splits)
  qed
next
  case False
  obtain s1 r1 where 1: "pg_run (\<lambda>env. pg_presence_insert env p) s = (s1, r1)" by fastforce
  have e1: "presence_effect p (pg_db s) (pg_db s1) r1"
    by (rule pg_run_presence [OF assms(1) 1]) (rule insert_effect [OF assms(1)])
  show ?thesis
  proof (cases "\<exists>e. r1 = Inl e \<and> is_unique_violation e")
    case True
    then have "pg_db s1 = pg_db s" using e1 by (auto simp: presence_effect_def)
    with assms(1) have ok1: "presence_ok (pg_db s1)" by simp
    have "pg_db s1 = pg_db s" by fact
    moreover have run: "pg_run (\<lambda>env. pg_presence_take_socket env p) s1 = (s', r)"
      using assms(2) True False 1 by (auto simp: presence_upsert_def)
    moreover have "presence_effect p (pg_db s1) (pg_db s') r"
      by (rule pg_run_presence [OF ok1 run]) (rule take_socket_effect [OF ok1])
    ultimately show ?thesis by simp
  next
    case no: False
    then show ?thesis
      using assms(2) False 1 e1 by (auto simp: presence_upsert_def split: sum.splits)
  qed
qed

lemma sorted_take: "sorted xs \<Longrightarrow> sorted (take n xs)"
  by (metis append_take_drop_id sorted_append)

lemma presence_ok_mark_stale: "presence_ok rows \<Longrightarrow> presence_ok (mark_stale now d rows)"
  by (auto simp: presence_ok_def mark_stale_def presence_keys_ok_def map_update_where presence_key_def
      list_all_iff set_update_where presence_statuses_def)

interpretation ppg: presence_store presence_pg pg_db "\<lambda>s. presence_ok (pg_db s)"
proof
  fix s :: "presence list pg" and p s' r
  assume "presence_ok (pg_db s)" "pq_upsert presence_pg p s = (s', r)"
  then show "presence_ok (pg_db s') \<and> presence_effect p (pg_db s) (pg_db s') r"
    using presence_upsert_effect [of s p s' r] by (simp add: presence_pg_def presence_effect_def)
next
  fix s :: "presence list pg" and w n s' r1
  assume ok: "presence_ok (pg_db s)" and l: "pq_list presence_pg w n s = (s', r1)"
  have db: "pg_db s' = pg_db s"
    using pg_run_db [of "\<lambda>env. pg_presence_list env w n" s s' r1] l
    by (auto simp: presence_pg_def pg_presence_list_def)
  have "set ps \<subseteq> set (pg_db s) \<and> length ps \<le> nat n \<and> sorted (map presence_rank ps)" if ps: "r1 = Inr ps" for ps
  proof -
    obtain w' where "ps = take (nat n) (presence_order (filter (\<lambda>r. pr_workspace_id r = Some w') (pg_db s)))"
      using pg_run_Inr [of "\<lambda>env. pg_presence_list env w n" s s' ps] l ps
      by (auto simp: presence_pg_def pg_presence_list_def result_bind_Inr_iff)
    then show ?thesis
      by (auto simp: presence_order_def take_map [symmetric] sorted_take dest: in_set_takeD)
  qed
  with db ok show "presence_ok (pg_db s') \<and> pg_db s' = pg_db s \<and>
      (\<forall>ps. r1 = Inr ps \<longrightarrow> set ps \<subseteq> set (pg_db s) \<and> length ps \<le> nat n \<and> sorted (map presence_rank ps))"
    by simp
next
  fix s :: "presence list pg" and d s' r2
  assume ok: "presence_ok (pg_db s)" and m: "pq_mark_offline_stale presence_pg d s = (s', r2)"
  let ?now = "pe_now (pg_envs s (pg_tick s))"
  from m have "pg_run (\<lambda>env. pg_mark_offline_stale env d) s = (s', r2)" by (simp add: presence_pg_def)
  from pg_run_db [OF this] consider e where "r2 = Inl e" "pg_db s' = pg_db s"
    | "pg_db s' = mark_stale ?now d (pg_db s)" "r2 = Inr (int (length (filter (stale_presence ?now d) (pg_db s))))"
    by (auto simp: pg_mark_offline_stale_def mark_stale_def Let_def)
  then show "presence_ok (pg_db s') \<and> ((\<exists>e. r2 = Inl e) \<and> pg_db s' = pg_db s \<or>
      (\<exists>now. pg_db s' = mark_stale now d (pg_db s) \<and> r2 = Inr (int (length (filter (stale_presence now d) (pg_db s))))))"
    by cases (use ok presence_ok_mark_stale in auto)
qed

section \<open>Properties\<close>


definition demo_presence :: "string \<Rightarrow> string \<Rightarrow> string \<Rightarrow> time \<Rightarrow> presence" where
  "demo_presence user device socket t =
    \<lparr>pr_user_id = user, pr_workspace_id = Some ''w'', pr_device_id = device, pr_socket_id = socket,
     pr_node_id = ''n'', pr_status = ''online'', pr_last_heartbeat_at = t, pr_connected_at = 0,
     pr_metadata = ''{}''\<rparr>"

definition demo_presence_pg :: "presence list pg" where
  "demo_presence_pg =
    \<lparr>pg_db = [demo_presence ''ann'' ''phone'' ''s1'' 0, demo_presence ''bob'' ''tab'' ''s2'' 0],
     pg_envs = demo_env, pg_tick = 5\<rparr>"

definition demo_presence_service :: "presence list pg presence_service" where
  "demo_presence_service = \<lparr>pv_repo = presence_pg, pv_checker = (\<lambda>_ _ _. Inr True)\<rparr>"

lemma demo_presence_ok: "presence_ok (pg_db demo_presence_pg)" "quiet_pg demo_presence_pg"
  by (simp_all add: demo_presence_pg_def demo_presence_def presence_ok_def presence_keys_ok_def presence_key_def
      presence_statuses_def quiet_pg_def demo_env_def)


text \<open>
  A clean-up with the default of 90 seconds for a non-positive age marks offline exactly the
  online and away devices whose last heartbeat is older than the age (in whole seconds), reports
  their number, and leaves every other device as it was.
\<close>

lemma stale_devices_offline:
  assumes "presence_ok (pg_db st)" "pv_repo s = presence_pg" "cleanup_stale s d0 st = (st', Inr n)"
    and "d = (if d0 \<le> 0 then 90 * ns_second else d0)"
  shows "\<exists>now. n = int (length (filter (stale_presence now d) (pg_db st))) \<and>
    pg_db st' = map (\<lambda>r. if stale_presence now d r then r\<lparr>pr_status := ''offline''\<rparr> else r) (pg_db st) \<and>
    list_all (\<lambda>r. \<not> stale_presence now d r) (pg_db st')"
proof -
  have "pq_mark_offline_stale presence_pg d st = (st', Inr n)"
    using assms(2-4) by (simp add: cleanup_stale_def)
  from ppg.stale_law [OF assms(1) this] obtain now where "pg_db st' = mark_stale now d (pg_db st)"
      "n = int (length (filter (stale_presence now d) (pg_db st)))"
    by auto
  then show ?thesis
    by (intro exI [of _ now]) (auto simp: mark_stale_def update_where_def list_all_iff stale_presence_def)
qed

lemma stale_devices_offline_witness:
  "\<exists>now. (0 :: int) = int (length (filter (stale_presence now (90 * ns_second)) (pg_db demo_presence_pg)))"
proof -
  have "cleanup_stale demo_presence_service 0 demo_presence_pg =
      (demo_presence_pg\<lparr>pg_tick := 6\<rparr>, Inr 0)"
    by (simp add: cleanup_stale_def demo_presence_service_def presence_pg_def pg_run_def Let_def
        pg_mark_offline_stale_def demo_presence_pg_def demo_env_def demo_presence_def stale_presence_def
        ns_second_def go_div_nonneg)
  from stale_devices_offline [OF demo_presence_ok(1) _ this refl] show ?thesis
    by (auto simp: demo_presence_service_def)
qed

text \<open>
  The socket name is chosen by the client and unique across all users: a heartbeat of a device
  without a row that names the socket of another device takes that device's row over, so the other
  device, of whatever user, disappears from the table.
\<close>

lemma presence_socket_takeover:
  assumes "presence_ok (pg_db s)" "quiet_pg s" "v \<in> set (pg_db s)" "pp_socket_id p = pr_socket_id v"
    and "(pp_user_id p, pp_device_id p) \<notin> presence_key ` set (pg_db s)"
    and "pp_status p = ''online'' \<or> pp_status p = ''away''"
  shows "\<exists>s' q. presence_upsert p s = (s', Inr q) \<and> presence_key q = (pp_user_id p, pp_device_id p) \<and>
    q \<in> set (pg_db s') \<and> presence_key v \<notin> presence_key ` set (pg_db s') \<and>
    length (pg_db s') = length (pg_db s)"
proof -
  let ?rows = "pg_db s" and ?hit = "\<lambda>r :: presence. pr_socket_id r = pp_socket_id p"
  define f :: "nat \<Rightarrow> presence \<Rightarrow> presence" where "f = (\<lambda>n r. r\<lparr>pr_user_id := pp_user_id p, pr_workspace_id := Some (pp_workspace_id p),
    pr_device_id := pp_device_id p, pr_node_id := pp_node_id p, pr_status := pp_status p,
    pr_last_heartbeat_at := pe_now (pg_envs s n), pr_metadata := pp_metadata p\<rparr>)"
  let ?s1 = "s\<lparr>pg_db := ?rows, pg_tick := Suc (pg_tick s)\<rparr>" and ?f = "f (Suc (pg_tick s))"
  have keys: "presence_keys_ok ?rows" using assms(1) by (simp add: presence_ok_def)
  have args: "presence_args (pg_envs s n) p = Inr (pp_user_id p, pp_workspace_id p, pp_metadata p)" for n
    using assms(2) by (simp add: presence_args_def uuid_param_def jsonb_param_def quiet_pg_def)
  have st: "pp_status p \<in> set presence_statuses" using assms(6) by (auto simp: presence_statuses_def)
  have "List.find (\<lambda>r. presence_key r = (pp_user_id p, pp_device_id p)) ?rows = None"
    using assms(5) by (force simp: find_None_iff)
  then have "pg_presence_insert (pg_envs s (pg_tick s)) p ?rows = (?rows, Inl unique_violation)"
    using assms(3,4) st args by (auto simp: pg_presence_insert_def)
  from pg_run_quiet [of s "\<lambda>env. pg_presence_insert env p", OF assms(2) this]
  have 1: "pg_run (\<lambda>env. pg_presence_insert env p) s = (?s1, Inl unique_violation)" .
  obtain w where w: "List.find ?hit ?rows = Some w"
    using assms(3,4) by (metis (mono_tags, lifting) find_None_iff option.exhaust)
  have hits: "x \<in> set ?rows \<Longrightarrow> ?hit x \<Longrightarrow> x = v" for x
    using find_unique_socket [OF keys _ assms(3)] assms(4) by simp
  then have "w = v" using find_Some_mem [OF w] by simp
  have upd: "update_where ?hit ?f ?rows = map (\<lambda>r. if r = v then ?f v else r) ?rows"
    unfolding update_where_def by (rule map_cong) (use hits assms(4) in auto)
  have new: "presence_key (?f v) = (pp_user_id p, pp_device_id p)" by (simp add: f_def presence_key_def)
  have "distinct (map presence_key (map (\<lambda>r. if r = v then ?f v else r) ?rows))"
    using keys assms(5) new by (auto simp: presence_keys_ok_def distinct_map inj_on_def image_iff)
  moreover have "map pr_socket_id (update_where ?hit ?f ?rows) = map pr_socket_id ?rows"
    by (rule map_update_where) (simp add: f_def)
  ultimately have ok: "presence_keys_ok (update_where ?hit ?f ?rows)"
    using keys upd by (metis presence_keys_ok_def)
  have "pg_presence_take_socket (pg_envs ?s1 (pg_tick ?s1)) p (pg_db ?s1) = (update_where ?hit ?f ?rows, Inr (?f v))"
    using args w \<open>w = v\<close> ok st
    by (simp add: pg_presence_take_socket_def checked_presence_update_def f_def)
  from pg_run_quiet [of ?s1 "\<lambda>env. pg_presence_take_socket env p", OF _ this] assms(2)
  have 2: "pg_run (\<lambda>env. pg_presence_take_socket env p) ?s1 =
      (?s1\<lparr>pg_db := update_where ?hit ?f ?rows, pg_tick := Suc (Suc (pg_tick s))\<rparr>, Inr (?f v))"
    by simp
  have "is_unique_violation unique_violation" by (simp add: is_unique_violation_def unique_violation_def)
  then have "presence_upsert p s = (?s1\<lparr>pg_db := update_where ?hit ?f ?rows, pg_tick := Suc (Suc (pg_tick s))\<rparr>, Inr (?f v))"
    using 1 2 assms(6) by (auto simp: presence_upsert_def)
  moreover have "presence_key v \<notin> presence_key ` set (update_where ?hit ?f ?rows)"
  proof -
    have "presence_key v \<noteq> presence_key (?f v)" using assms(3,5) new by (metis image_eqI)
    then show ?thesis
      using keys assms(3) by (auto simp: upd presence_keys_ok_def distinct_map dest: inj_onD)
  qed
  ultimately show ?thesis using new assms(3) by (auto simp: upd)
qed

lemma presence_socket_takeover_witness:
  "\<exists>s' q. presence_upsert \<lparr>pp_user_id = ''eve'', pp_workspace_id = ''w'', pp_device_id = ''d'',
      pp_socket_id = ''s1'', pp_node_id = ''n'', pp_status = ''online'', pp_metadata = ''{}''\<rparr> demo_presence_pg =
      (s', Inr q) \<and> pr_user_id q = ''eve'' \<and>
    presence_key (demo_presence ''ann'' ''phone'' ''s1'' 0) \<notin> presence_key ` set (pg_db s')"
  using presence_socket_takeover [OF demo_presence_ok, of "demo_presence ''ann'' ''phone'' ''s1'' 0"
    "\<lparr>pp_user_id = ''eve'', pp_workspace_id = ''w'', pp_device_id = ''d'',
      pp_socket_id = ''s1'', pp_node_id = ''n'', pp_status = ''online'', pp_metadata = ''{}''\<rparr>"]
  by (auto simp: demo_presence_pg_def demo_presence_def presence_key_def)

end
