(* ===== verification/Go_Url.thy ===== *)
theory Go_Url
  imports Go_Json
begin

text \<open>
  \<open>net/url.ParseRequestURI\<close> and \<open>net/url.Parse\<close> (Go 1.25) as far as the code looks at its result: whether the text
  parses, the scheme and the host. Query and fragment are not split further.
\<close>

datatype url_mode = UPath | UHost | UZone | UUser

definition alnum :: "char \<Rightarrow> bool" where
  "alnum c \<longleftrightarrow> is_digit c \<or> (97 \<le> byte c \<and> byte c \<le> 122) \<or> (65 \<le> byte c \<and> byte c \<le> 90)"

text \<open>\<open>shouldEscape\<close> for the host and zone modes.\<close>

definition host_reserved :: "char \<Rightarrow> bool" where
  "host_reserved c \<longleftrightarrow> \<not> (alnum c \<or> c \<in> set ''!$&()*+,;=:[]<>-_.~'' \<or> c = CHR 0x27 \<or> c = CHR 0x22)"

fun url_unescape :: "url_mode \<Rightarrow> string \<Rightarrow> string option" where
  "url_unescape m [] = Some []"
| "url_unescape m (c # s) =
    (if c = CHR ''%'' then
       (case s of
          x # y # r \<Rightarrow>
            (case (hex_val x, hex_val y) of
               (Some a, Some b) \<Rightarrow>
                 (let v = char_of (16 * a + b); is25 = (x = CHR ''2'' \<and> y = CHR ''5'')
                  in if m = UHost \<and> a < 8 \<and> \<not> is25 then None
                     else if m = UZone \<and> \<not> is25 \<and> v \<noteq> CHR '' '' \<and> host_reserved v then None
                     else map_option (Cons v) (url_unescape m r))
             | _ \<Rightarrow> None)
        | _ \<Rightarrow> None)
     else if (m = UHost \<or> m = UZone) \<and> byte c < 128 \<and> host_reserved c then None
     else map_option (Cons c) (url_unescape m s))"

text \<open>\<open>getScheme\<close>: scheme and rest; \<open>None\<close> for a missing scheme before a colon.\<close>

fun url_get_scheme :: "string \<Rightarrow> string \<Rightarrow> (string \<times> string) option" where
  "url_get_scheme seen [] = Some ([], seen)"
| "url_get_scheme seen (c # s) =
    (if alnum c \<and> \<not> is_digit c then url_get_scheme (seen @ [c]) s
     else if is_digit c \<or> c \<in> set ''+-.'' then
       (if seen = [] then Some ([], c # s) else url_get_scheme (seen @ [c]) s)
     else if c = CHR '':'' then (if seen = [] then None else Some (seen, s))
     else Some ([], seen @ c # s))"

definition valid_optional_port :: "string \<Rightarrow> bool" where
  "valid_optional_port p \<longleftrightarrow> p = [] \<or> hd p = CHR '':'' \<and> list_all is_digit (tl p)"

text \<open>\<open>strings.LastIndex\<close> of one byte, as the text before it and the text from it on.\<close>

definition split_last :: "char \<Rightarrow> string \<Rightarrow> (string \<times> string) option" where
  "split_last d s =
    (if d \<in> set s
     then (let t = rev (takeWhile (\<lambda>c. c \<noteq> d) (rev s)) in Some (take (length s - Suc (length t)) s, d # t))
     else None)"

fun split_zone :: "string \<Rightarrow> (string \<times> string) option" where
  "split_zone [] = None"
| "split_zone (c # s) =
    (if take 3 (c # s) = ''%25'' then Some ([], c # s)
     else map_option (\<lambda>(a, b). (c # a, b)) (split_zone s))"

definition url_parse_host :: "string \<Rightarrow> string option" where
  "url_parse_host host =
    (if has_prefix host ''['' then
       (case split_last (CHR '']'') host of
          None \<Rightarrow> None
        | Some (inner, rest) \<Rightarrow>
            if \<not> valid_optional_port (tl rest) then None
            else (case split_zone inner of
                None \<Rightarrow> url_unescape UHost host
              | Some (addr, zone) \<Rightarrow>
                  Option.bind (url_unescape UHost addr) (\<lambda>a.
                  Option.bind (url_unescape UZone zone) (\<lambda>z.
                  map_option (\<lambda>p. a @ z @ p) (url_unescape UHost rest)))))
     else case split_last (CHR '':'') host of
         Some (_, port) \<Rightarrow> if valid_optional_port port then url_unescape UHost host else None
       | None \<Rightarrow> url_unescape UHost host)"

definition valid_userinfo :: "string \<Rightarrow> bool" where
  "valid_userinfo s \<longleftrightarrow> list_all (\<lambda>c. alnum c \<or> c \<in> set ''-._:~!$&()*+,;=%@'' \<or> c = CHR 0x27) s"

definition url_parse_authority :: "string \<Rightarrow> string option" where
  "url_parse_authority authority =
    (case split_last (CHR ''@'') authority of
       None \<Rightarrow> url_parse_host authority
     | Some (user, rest) \<Rightarrow>
         Option.bind (url_parse_host (tl rest)) (\<lambda>host.
           if valid_userinfo user \<and> url_unescape UUser user \<noteq> None then Some host else None))"

text \<open>
  \<open>parse\<close>: scheme and host of a URL without its fragment, for \<open>ParseRequestURI\<close> (\<open>via\<close>) and for
  \<open>Parse\<close>.
\<close>

definition url_parse_core :: "bool \<Rightarrow> string \<Rightarrow> (string \<times> string) option" where
  "url_parse_core via raw =
    (if list_ex (\<lambda>c. byte c < 32 \<or> byte c = 127) raw \<or> (raw = [] \<and> via) then None
     else if raw = ''*'' then Some ([], [])
     else Option.bind (url_get_scheme [] raw) (\<lambda>(scheme0, rest0).
       let scheme = to_lower scheme0; rest = takeWhile (\<lambda>c. c \<noteq> CHR ''?'') rest0
       in if \<not> has_prefix rest ''/'' \<and> scheme \<noteq> [] then Some (scheme, [])
          else if \<not> has_prefix rest ''/'' \<and> (via \<or> CHR '':'' \<in> set (takeWhile (\<lambda>c. c \<noteq> CHR ''/'') rest)) then None
          else if (scheme \<noteq> [] \<or> \<not> via \<and> \<not> has_prefix rest ''///'') \<and> has_prefix rest ''//''
          then (let auth = takeWhile (\<lambda>c. c \<noteq> CHR ''/'') (drop 2 rest);
                    path = dropWhile (\<lambda>c. c \<noteq> CHR ''/'') (drop 2 rest)
                in Option.bind (url_parse_authority auth) (\<lambda>host.
                   if url_unescape UPath path = None then None else Some (scheme, host)))
          else if url_unescape UPath rest = None then None else Some (scheme, [])))"

definition parse_request_uri :: "string \<Rightarrow> (string \<times> string) option" where
  "parse_request_uri raw = url_parse_core True raw"

definition url_parse :: "string \<Rightarrow> (string \<times> string) option" where
  "url_parse raw =
    (let fragment = drop 1 (dropWhile (\<lambda>c. c \<noteq> CHR ''#'') raw)
     in if url_unescape UPath fragment = None then None
        else url_parse_core False (takeWhile (\<lambda>c. c \<noteq> CHR ''#'') raw))"

end
