(* ===== verification/Cron_Jobs.thy ===== *)
theory Cron_Jobs
  imports Cron_Schedule Go_Encoding Go_Url Shared
begin

text \<open>
  \<open>modules/cronjobs\<close>: the service (\<open>application/service.go\<close>) and the runners
  (\<open>application/runner.go\<close>), over the \<open>Repository\<close> interface. What a runner reaches outside the
  process, an HTTP server or a script, is a function on a state \<open>'w\<close> of its own, which also
  carries the clock.
\<close>

section \<open>Data\<close>

record cron_job =
  kj_id :: string
  kj_name :: string
  kj_description :: "string option"
  kj_schedule :: string
  kj_runner :: string
  kj_status :: string
  kj_payload :: string
  kj_last_run_at :: "time option"
  kj_next_run_at :: "time option"
  kj_locked_at :: "time option"
  kj_locked_by :: "string option"
  kj_created_at :: time
  kj_updated_at :: time

record cron_run =
  kr_id :: string
  kr_job_id :: string
  kr_status :: string
  kr_started_at :: time
  kr_finished_at :: "time option"
  kr_log :: "string option"
  kr_error :: "string option"

definition err_cron_not_found :: go_error where "err_cron_not_found = Sentinel ''ErrCronJobNotFound''"
definition err_cron_exists :: go_error where "err_cron_exists = Sentinel ''ErrCronJobAlreadyExists''"

record cron_save_params =
  ks_id :: string
  ks_name :: string
  ks_description :: string
  ks_schedule :: string
  ks_runner :: string
  ks_status :: string
  ks_payload :: string
  ks_next_run_at :: "time option"

record cron_finish_params =
  kf_run_id :: string
  kf_job_id :: string
  kf_status :: string
  kf_log :: string
  kf_error :: string
  kf_next_run_at :: "time option"

record cron_list_input =
  kl_actor :: string
  kl_workspace_id :: string
  kl_status :: string
  kl_limit :: int

record cron_save_input =
  ki_actor :: string
  ki_workspace_id :: string
  ki_job_id :: string
  ki_name :: string
  ki_description :: string
  ki_schedule :: string
  ki_runner :: string
  ki_status :: string
  ki_payload :: string

record cron_job_dto =
  kd_id :: string
  kd_name :: string
  kd_description :: "string option"
  kd_schedule :: string
  kd_runner :: string
  kd_status :: string
  kd_payload :: string
  kd_last_run_at :: "string option"
  kd_next_run_at :: "string option"
  kd_locked_at :: "string option"
  kd_locked_by :: "string option"
  kd_created_at :: string
  kd_updated_at :: string

record cron_run_dto =
  ke_id :: string
  ke_job_id :: string
  ke_status :: string
  ke_started_at :: string
  ke_finished_at :: "string option"
  ke_log :: "string option"
  ke_error :: "string option"
  ke_duration_ms :: "int option"

definition default_cron_limit :: int where "default_cron_limit = 20"
definition cron_lock_ttl :: duration where "cron_lock_ttl = 5 * ns_minute"
definition max_run_log_length :: nat where "max_run_log_length = 8000"

record 's cron_repo =
  kq_list :: "string \<Rightarrow> int \<Rightarrow> 's \<Rightarrow> 's \<times> (cron_job list) result"
  kq_get :: "string \<Rightarrow> 's \<Rightarrow> 's \<times> cron_job result"
  kq_create :: "cron_save_params \<Rightarrow> 's \<Rightarrow> 's \<times> cron_job result"
  kq_update :: "cron_save_params \<Rightarrow> 's \<Rightarrow> 's \<times> cron_job result"
  kq_delete :: "string \<Rightarrow> 's \<Rightarrow> 's \<times> unit result"
  kq_list_runs :: "string \<Rightarrow> int \<Rightarrow> 's \<Rightarrow> 's \<times> (cron_run list) result"
  kq_claim_due :: "int \<Rightarrow> string \<Rightarrow> duration \<Rightarrow> 's \<Rightarrow> 's \<times> (cron_job list) result"
  kq_start_run :: "string \<Rightarrow> 's \<Rightarrow> 's \<times> cron_run result"
  kq_finish_run :: "cron_finish_params \<Rightarrow> 's \<Rightarrow> 's \<times> unit result"
  kq_cleanup_sessions :: "duration \<Rightarrow> 's \<Rightarrow> 's \<times> int result"
  kq_cleanup_outbox :: "duration \<Rightarrow> 's \<Rightarrow> 's \<times> int result"
  kq_cleanup_uploads :: "duration \<Rightarrow> 's \<Rightarrow> 's \<times> int result"
  kq_cleanup_presence :: "duration \<Rightarrow> 's \<Rightarrow> 's \<times> int result"

text \<open>
  An outgoing request of the HTTP runner and what \<open>http.NewRequestWithContext\<close> with
  \<open>client.Do\<close> makes of it: the rendered URL, the status code and the body. The raw body of the
  payload is kept as the JSON value it is the text of. A script ends with its combined output and
  one of: success, an error, or its deadline.
\<close>

record http_call =
  hc_method :: string
  hc_url :: string
  hc_content_type :: bool
  hc_headers :: "string \<rightharpoonup> string"
  hc_body :: "json option"
  hc_timeout :: duration

record http_reply =
  hr_url :: string
  hr_status :: int
  hr_body :: string

datatype script_end = ScriptOk | ScriptError string | ScriptDeadline

record ('s, 'w) cron_service =
  kv_repo :: "'s cron_repo"
  kv_checker :: "(string \<Rightarrow> string \<Rightarrow> string \<Rightarrow> bool result) option"
  kv_now :: "'w \<Rightarrow> time"
  kv_scripts :: "string \<rightharpoonup> string"
  kv_http :: "http_call \<Rightarrow> 'w \<Rightarrow> 'w \<times> http_reply result"
  kv_exec :: "string \<Rightarrow> string list \<Rightarrow> duration \<Rightarrow> 'w \<Rightarrow> 'w \<times> string \<times> script_end"

section \<open>Runners\<close>

record run_result =
  kx_status :: string
  kx_log :: string
  kx_error :: string

definition run_failed :: "string \<Rightarrow> run_result" where
  "run_failed e = \<lparr>kx_status = ''failed'', kx_log = [], kx_error = e\<rparr>"

record http_payload =
  kh_method :: string
  kh_url :: string
  kh_headers :: "string \<rightharpoonup> string"
  kh_body :: "json option"

record cleanup_payload =
  ku_task :: string
  ku_older_than :: string

record script_payload =
  kt_name :: string
  kt_args :: "string list"
  kt_timeout :: string

definition decode_http_payload :: "string \<Rightarrow> http_payload option" where
  "decode_http_payload s =
    Option.bind (json_members s) (\<lambda>ms.
    Option.bind (dec_field dec_string ''method'' [] ms) (\<lambda>me.
    Option.bind (dec_field dec_string ''url'' [] ms) (\<lambda>u.
    Option.bind (dec_field dec_string_map ''headers'' Map.empty ms) (\<lambda>h.
    Option.bind (dec_field dec_raw ''body'' None ms) (\<lambda>b.
      Some \<lparr>kh_method = me, kh_url = u, kh_headers = h, kh_body = b\<rparr>)))))"

definition decode_cleanup_payload :: "string \<Rightarrow> cleanup_payload option" where
  "decode_cleanup_payload s =
    Option.bind (json_members s) (\<lambda>ms.
    Option.bind (dec_field dec_string ''task'' [] ms) (\<lambda>t.
    Option.bind (dec_field dec_string ''older_than'' [] ms) (\<lambda>d.
      Some \<lparr>ku_task = t, ku_older_than = d\<rparr>)))"

definition decode_script_payload :: "string \<Rightarrow> script_payload option" where
  "decode_script_payload s =
    Option.bind (json_members s) (\<lambda>ms.
    Option.bind (dec_field dec_string ''name'' [] ms) (\<lambda>n.
    Option.bind (dec_field dec_string_list ''args'' [] ms) (\<lambda>a.
    Option.bind (dec_field dec_string ''timeout'' [] ms) (\<lambda>t.
      Some \<lparr>kt_name = n, kt_args = a, kt_timeout = t\<rparr>))))"

definition allowed_http_method :: "string \<Rightarrow> bool" where
  "allowed_http_method m \<longleftrightarrow> m \<in> set [''GET'', ''POST'', ''PUT'', ''PATCH'', ''DELETE'']"

definition cleanup_retention :: "string \<Rightarrow> duration" where
  "cleanup_retention task =
    (if task = ''cleanup_expired_sessions'' then 7 * 24 * ns_hour
     else if task = ''cleanup_dead_outbox'' then 30 * 24 * ns_hour
     else if task = ''cleanup_failed_uploads'' then 24 * ns_hour
     else if task = ''cleanup_old_presence'' then 7 * 24 * ns_hour
     else 30 * 24 * ns_hour)"

text \<open>
  \<open>truncateRunLog\<close>: a long log becomes its first 8000 runes, re-encoded; a shorter one is returned
  as it is.
\<close>

definition truncate_run_log :: "string \<Rightarrow> string" where
  "truncate_run_log value0 =
    (let value = trim_space value0 in
     if length (runes value) \<le> max_run_log_length then value
     else to_valid_utf8 (concat (take max_run_log_length (runes value))))"

definition http_log :: "string \<Rightarrow> http_reply \<Rightarrow> string" where
  "http_log method reply =
    ''HTTP '' @ method @ '' '' @ hr_url reply @ '' tra ve status '' @ itoa (hr_status reply) @ ''. Body: '' @
    trim_space (take max_run_log_length (hr_body reply))"

definition execute_http :: "('s, 'w) cron_service \<Rightarrow> string \<Rightarrow> 'w \<Rightarrow> 'w \<times> run_result" where
  "execute_http s payload w =
    (case decode_http_payload payload of
       None \<Rightarrow> (w, run_failed ''Payload HTTP khong phai JSON hop le.'')
     | Some p \<Rightarrow>
       (let m0 = to_upper (trim_space (kh_method p)); m = (if m0 = [] then ''POST'' else m0) in
        case kv_http s \<lparr>hc_method = m, hc_url = trim_space (kh_url p), hc_content_type = (kh_body p \<noteq> None),
            hc_headers = kh_headers p, hc_body = kh_body p, hc_timeout = 20 * ns_second\<rparr> w of
          (w1, Inl e) \<Rightarrow> (w1, run_failed (err_text e))
        | (w1, Inr reply) \<Rightarrow>
            (let log = truncate_run_log (http_log m reply) in
             if hr_status reply < 200 \<or> 300 \<le> hr_status reply
             then (w1, \<lparr>kx_status = ''failed'', kx_log = log, kx_error = ''HTTP status '' @ itoa (hr_status reply)\<rparr>)
             else (w1, \<lparr>kx_status = ''success'', kx_log = log, kx_error = []\<rparr>))))"

definition run_cleanup :: "('s, 'w) cron_service \<Rightarrow> string \<Rightarrow> duration \<Rightarrow> 's \<Rightarrow> 's \<times> int result" where
  "run_cleanup s task older_than st =
    (if task = ''cleanup_expired_sessions'' then kq_cleanup_sessions (kv_repo s) older_than st
     else if task = ''cleanup_dead_outbox'' then kq_cleanup_outbox (kv_repo s) older_than st
     else if task = ''cleanup_failed_uploads'' then kq_cleanup_uploads (kv_repo s) older_than st
     else if task = ''cleanup_old_presence'' then kq_cleanup_presence (kv_repo s) older_than st
     else (st, Inl (Plain ''tac vu cleanup khong nam trong allowlist'')))"

definition execute_cleanup :: "('s, 'w) cron_service \<Rightarrow> string \<Rightarrow> 's \<Rightarrow> 's \<times> run_result" where
  "execute_cleanup s payload st =
    (case decode_cleanup_payload payload of
       None \<Rightarrow> (st, run_failed ''Payload cleanup khong phai JSON hop le.'')
     | Some p \<Rightarrow>
       (let task = trim_space (ku_task p); text = trim_space (ku_older_than p);
            parsed = parse_duration text
        in if text \<noteq> [] \<and> (parsed = None \<or> the parsed < ns_hour)
           then (st, run_failed ''older_than phai la duration hop le va toi thieu 1h.'')
           else case run_cleanup s task (if text = [] then cleanup_retention task else the parsed) st of
               (st1, Inl e) \<Rightarrow> (st1, run_failed (err_text e))
             | (st1, Inr count) \<Rightarrow>
                 (st1, \<lparr>kx_status = ''success'',
                    kx_log = ''Cleanup '' @ task @ '' hoan tat, da xu ly '' @ itoa count @ '' ban ghi.'', kx_error = []\<rparr>)))"

text \<open>A timeout of a script: at most ten minutes, one minute by default.\<close>

definition script_timeout :: "string \<Rightarrow> duration option" where
  "script_timeout s =
    (if trim_space s = [] then Some ns_minute
     else case parse_duration (trim_space s) of
         None \<Rightarrow> None
       | Some d \<Rightarrow> if d \<le> 0 \<or> 10 * ns_minute < d then None else Some d)"

definition script_path :: "('s, 'w) cron_service \<Rightarrow> string \<Rightarrow> string" where
  "script_path s name = (case kv_scripts s name of None \<Rightarrow> [] | Some p \<Rightarrow> p)"

definition execute_script :: "('s, 'w) cron_service \<Rightarrow> string \<Rightarrow> 'w \<Rightarrow> 'w \<times> run_result" where
  "execute_script s payload w =
    (case decode_script_payload payload of
       None \<Rightarrow> (w, run_failed ''Payload script khong phai JSON hop le.'')
     | Some p \<Rightarrow>
       (let path = script_path s (to_lower (trim_space (kt_name p))) in
        if path = [] then (w, run_failed ''Script khong nam trong allowlist.'')
        else case script_timeout (kt_timeout p) of
            None \<Rightarrow> (w, run_failed ''timeout script phai hop le va khong qua 10m.'')
          | Some timeout \<Rightarrow>
              (case kv_exec s path (kt_args p) timeout w of
                 (w1, out, fin) \<Rightarrow>
                   (w1, (case fin of
                      ScriptOk \<Rightarrow> \<lparr>kx_status = ''success'', kx_log = truncate_run_log out, kx_error = []\<rparr>
                    | ScriptError e \<Rightarrow> \<lparr>kx_status = ''failed'', kx_log = truncate_run_log out, kx_error = e\<rparr>
                    | ScriptDeadline \<Rightarrow> \<lparr>kx_status = ''failed'', kx_log = truncate_run_log out,
                        kx_error = ''Script chay qua thoi gian cho phep.''\<rparr>)))))"

definition execute_job :: "('s, 'w) cron_service \<Rightarrow> cron_job \<Rightarrow> 's \<Rightarrow> 'w \<Rightarrow> 's \<times> 'w \<times> run_result" where
  "execute_job s job st w =
    (let runner = trim_space (kj_runner job) in
     if runner = ''http'' then (case execute_http s (kj_payload job) w of (w1, r) \<Rightarrow> (st, w1, r))
     else if runner = ''builtin_cleanup'' \<or> runner = ''worker''
     then (case execute_cleanup s (kj_payload job) st of (st1, r) \<Rightarrow> (st1, w, r))
     else if runner = ''script'' then (case execute_script s (kj_payload job) w of (w1, r) \<Rightarrow> (st, w1, r))
     else (st, w, run_failed ''Runner cronjob khong duoc ho tro.''))"

section \<open>Validation of a saved job\<close>

definition valid_cron_status :: "string \<Rightarrow> bool" where
  "valid_cron_status st \<longleftrightarrow> st \<in> set [''active'', ''paused'', ''disabled'']"

definition valid_cron_runner :: "string \<Rightarrow> bool" where
  "valid_cron_runner r \<longleftrightarrow> r \<in> set [''http'', ''builtin_cleanup'', ''worker'', ''script'']"

definition cleanup_tasks :: "string list" where
  "cleanup_tasks =
    [''cleanup_expired_sessions'', ''cleanup_dead_outbox'', ''cleanup_failed_uploads'', ''cleanup_old_presence'']"

definition validate_http_payload :: "string \<Rightarrow> go_error option" where
  "validate_http_payload payload =
    (case decode_http_payload payload of
       None \<Rightarrow> Some (Plain ''payload HTTP khong phai JSON hop le'')
     | Some p \<Rightarrow>
       (let m0 = to_upper (trim_space (kh_method p)); m = (if m0 = [] then ''POST'' else m0) in
        if \<not> allowed_http_method m then Some (Plain ''method HTTP khong duoc ho tro'')
        else case parse_request_uri (trim_space (kh_url p)) of
            None \<Rightarrow> Some (Plain ''url HTTP khong hop le'')
          | Some (scheme, host) \<Rightarrow>
              if scheme = [] \<or> host = [] \<or> (scheme \<noteq> ''http'' \<and> scheme \<noteq> ''https'')
              then Some (Plain ''url HTTP khong hop le'') else None))"

definition validate_cleanup_payload :: "string \<Rightarrow> go_error option" where
  "validate_cleanup_payload payload =
    (case decode_cleanup_payload payload of
       None \<Rightarrow> Some (Plain ''payload cleanup khong phai JSON hop le'')
     | Some p \<Rightarrow>
       (let text = trim_space (ku_older_than p); parsed = parse_duration text in
        if trim_space (ku_task p) \<notin> set cleanup_tasks
        then Some (Plain ''tac vu cleanup khong nam trong allowlist'')
        else if text \<noteq> [] \<and> (parsed = None \<or> the parsed < ns_hour)
        then Some (Plain ''older_than phai la duration hop le va toi thieu 1h'') else None))"

definition bad_script_arg :: "string \<Rightarrow> bool" where
  "bad_script_arg a \<longleftrightarrow> contains_any a [CHR 0x00, CHR 0x0D, CHR 0x0A] \<or> 256 < rune_count a"

definition validate_script_payload :: "('s, 'w) cron_service \<Rightarrow> string \<Rightarrow> go_error option" where
  "validate_script_payload s payload =
    (case decode_script_payload payload of
       None \<Rightarrow> Some (Plain ''payload script khong phai JSON hop le'')
     | Some p \<Rightarrow>
       (let name = to_lower (trim_space (kt_name p)) in
        if name = [] \<or> script_path s name = [] then Some (Plain ''script khong nam trong allowlist'')
        else if 20 < length (kt_args p) then Some (Plain ''script chi duoc nhan toi da 20 tham so'')
        else if list_ex bad_script_arg (kt_args p) then Some (Plain ''tham so script khong hop le'')
        else if script_timeout (kt_timeout p) = None
        then Some (Plain ''timeout script phai hop le va khong qua 10m'') else None))"

definition validate_runner_payload :: "('s, 'w) cron_service \<Rightarrow> string \<Rightarrow> string \<Rightarrow> go_error option" where
  "validate_runner_payload s runner payload =
    (if runner = ''http'' then validate_http_payload payload
     else if runner = ''builtin_cleanup'' \<or> runner = ''worker'' then validate_cleanup_payload payload
     else if runner = ''script'' then validate_script_payload s payload
     else Some (Plain ''runner khong duoc ho tro''))"

definition cron_invalid :: "string \<Rightarrow> 'a result" where
  "cron_invalid message = Inl (bad_request ''VALIDATION_ERROR'' message)"

definition trim_save_input :: "cron_save_params \<Rightarrow> cron_save_params" where
  "trim_save_input p =
    (let runner = trim_space (ks_runner p); status = trim_space (ks_status p)
     in p\<lparr>ks_name := trim_space (ks_name p), ks_description := trim_space (ks_description p),
       ks_schedule := trim_space (ks_schedule p),
       ks_runner := (if runner = [] then ''builtin_cleanup'' else runner),
       ks_status := (if status = [] then ''active'' else status)\<rparr>)"

definition default_payload :: "string \<Rightarrow> string" where
  "default_payload p =
    (if length p = 0 \<or> trim_space p = [] \<or> trim_space p = ''null'' then ''{}'' else p)"

definition normalize_save_input ::
    "('s, 'w) cron_service \<Rightarrow> time \<Rightarrow> cron_save_params \<Rightarrow> cron_save_params result" where
  "normalize_save_input s now input0 =
    (let input = trim_save_input input0; payload = default_payload (ks_payload input) in
     if ks_name input = [] \<or> 120 < rune_count (ks_name input)
     then cron_invalid ''Ten cronjob phai dai tu 1 den 120 ky tu.''
     else if ks_id input = [] \<and> ks_schedule input = []
     then cron_invalid ''Lich chay cronjob khong duoc de trong.''
     else if \<not> valid_cron_status (ks_status input)
     then cron_invalid ''Trang thai cronjob khong hop le.''
     else if \<not> valid_cron_runner (ks_runner input)
     then cron_invalid ''Runner cronjob khong duoc ho tro.''
     else if \<not> json_valid payload
     then cron_invalid ''Payload cronjob khong phai JSON hop le.''
     else case validate_runner_payload s (ks_runner input) payload of
         Some e \<Rightarrow> cron_invalid (err_text e @ ''.'')
       | None \<Rightarrow>
           (case next_run (ks_schedule input) now of
              Inl e \<Rightarrow> cron_invalid (err_text e @ ''.'')
            | Inr next \<Rightarrow>
                Inr (input\<lparr>ks_payload := payload,
                  ks_next_run_at := (if ks_status input = ''active'' then Some next else ks_next_run_at input)\<rparr>)))"

text \<open>
  \<open>normalizeScriptAllowlist\<close> over the entries in the order the map iteration visits them.
\<close>

definition normalize_script_allowlist :: "(string \<times> string) list \<Rightarrow> (string \<rightharpoonup> string)" where
  "normalize_script_allowlist values =
    fold (\<lambda>(n, p) m. let name = to_lower (trim_space n); path = trim_space p
            in if name = [] \<or> path = [] then m else m(name \<mapsto> path)) values Map.empty"

section \<open>The service\<close>

definition ensure_manage_permission :: "('s, 'w) cron_service \<Rightarrow> string \<Rightarrow> string \<Rightarrow> go_error option" where
  "ensure_manage_permission s user workspace =
    (case kv_checker s of
       None \<Rightarrow> None
     | Some check \<Rightarrow>
         (case check (trim_space user) (trim_space workspace) ''cronjob.manage'' of
            Inl e \<Rightarrow> Some e
          | Inr allowed \<Rightarrow> if \<not> allowed then Some (forbidden ''Ban khong co quyen quan ly cronjob.'') else None))"

definition normalize_cron_limit :: "int \<Rightarrow> int" where
  "normalize_cron_limit limit = (if limit \<le> 0 \<or> 100 < limit then 50 else limit)"

definition normalize_status_filter :: "string \<Rightarrow> string" where
  "normalize_status_filter status =
    (if valid_cron_status (trim_space status) then trim_space status else [])"

definition map_cron_job_error :: "go_error \<Rightarrow> go_error" where
  "map_cron_job_error e =
    (if errors_is e ''ErrCronJobNotFound'' then not_found ''CRON_JOB_NOT_FOUND'' ''Khong tim thay cronjob.''
     else if errors_is e ''ErrCronJobAlreadyExists''
     then conflict ''CRON_JOB_ALREADY_EXISTS'' ''Ten cronjob da ton tai.''
     else e)"

definition to_cron_job_dto :: "cron_job \<Rightarrow> cron_job_dto" where
  "to_cron_job_dto j =
    \<lparr>kd_id = kj_id j, kd_name = kj_name j, kd_description = kj_description j, kd_schedule = kj_schedule j,
     kd_runner = kj_runner j, kd_status = kj_status j,
     kd_payload = (if kj_payload j = [] then ''{}'' else kj_payload j),
     kd_last_run_at = format_optional_time (kj_last_run_at j),
     kd_next_run_at = format_optional_time (kj_next_run_at j),
     kd_locked_at = format_optional_time (kj_locked_at j), kd_locked_by = kj_locked_by j,
     kd_created_at = format_time (kj_created_at j), kd_updated_at = format_time (kj_updated_at j)\<rparr>"

definition to_cron_run_dto :: "cron_run \<Rightarrow> cron_run_dto" where
  "to_cron_run_dto r =
    \<lparr>ke_id = kr_id r, ke_job_id = kr_job_id r, ke_status = kr_status r,
     ke_started_at = format_time (kr_started_at r),
     ke_finished_at = format_optional_time (kr_finished_at r), ke_log = kr_log r, ke_error = kr_error r,
     ke_duration_ms = map_option (\<lambda>f. go_div (f - kr_started_at r) 1000000) (kr_finished_at r)\<rparr>"

definition last_run_snapshot :: "time \<Rightarrow> cron_run \<Rightarrow> string \<Rightarrow> string \<Rightarrow> string \<Rightarrow> cron_run" where
  "last_run_snapshot now run status log_text error_text =
    run\<lparr>kr_status := status, kr_finished_at := Some now,
      kr_log := (if trim_space log_text \<noteq> [] then Some log_text else kr_log run),
      kr_error := (if trim_space error_text \<noteq> [] then Some error_text else kr_error run)\<rparr>"

text \<open>What \<open>runJob\<close> records of a run: error text, status and the next due time.\<close>

definition run_error_text :: "run_result \<Rightarrow> time result \<Rightarrow> string" where
  "run_error_text r next =
    (case next of
       Inr _ \<Rightarrow> kx_error r
     | Inl e \<Rightarrow> (if kx_error r \<noteq> [] then kx_error r @ ''; '' else kx_error r) @ err_text e)"

definition run_status :: "run_result \<Rightarrow> string \<Rightarrow> string" where
  "run_status r error_text =
    (if error_text \<noteq> [] then ''failed'' else if kx_status r = [] then ''success'' else kx_status r)"

definition next_run_ptr :: "cron_job \<Rightarrow> time result \<Rightarrow> time option" where
  "next_run_ptr job next =
    (case next of Inr t \<Rightarrow> if kj_status job = ''active'' then Some t else None | Inl _ \<Rightarrow> None)"

definition run_job :: "('s, 'w) cron_service \<Rightarrow> cron_job \<Rightarrow> 's \<Rightarrow> 'w \<Rightarrow> 's \<times> 'w \<times> cron_run result" where
  "run_job s job st w =
    (case kq_start_run (kv_repo s) (kj_id job) st of
       (st1, Inl e) \<Rightarrow> (st1, w, Inl e)
     | (st1, Inr run) \<Rightarrow>
       (case execute_job s job st1 w of
          (st2, w2, result) \<Rightarrow>
            (let next = next_run (kj_schedule job) (kv_now s w2);
                 error_text = run_error_text result next;
                 status = run_status result error_text
             in case kq_finish_run (kv_repo s)
                   \<lparr>kf_run_id = kr_id run, kf_job_id = kj_id job, kf_status = status, kf_log = kx_log result,
                    kf_error = error_text, kf_next_run_at = next_run_ptr job next\<rparr> st2 of
                 (st3, Inl e) \<Rightarrow> (st3, w2, Inl e)
               | (st3, Inr _) \<Rightarrow>
                   (st3, w2, Inr (last_run_snapshot (kv_now s w2) run status (kx_log result) error_text)))))"

fun run_jobs :: "('s, 'w) cron_service \<Rightarrow> cron_job list \<Rightarrow> 's \<Rightarrow> 'w \<Rightarrow> 's \<times> 'w \<times> go_error option" where
  "run_jobs s [] st w = (st, w, None)"
| "run_jobs s (job # jobs) st w =
    (case run_job s job st w of
       (st1, w1, Inl e) \<Rightarrow> (st1, w1, Some e)
     | (st1, w1, Inr _) \<Rightarrow> run_jobs s jobs st1 w1)"

definition process_due :: "('s, 'w) cron_service \<Rightarrow> int \<Rightarrow> string \<Rightarrow> 's \<Rightarrow> 'w \<Rightarrow> 's \<times> 'w \<times> int result" where
  "process_due s limit0 node0 st w =
    (let limit = (if limit0 \<le> 0 then default_cron_limit else limit0);
         node = (if trim_space node0 = [] then ''worker'' else node0)
     in case kq_claim_due (kv_repo s) limit node cron_lock_ttl st of
         (st1, Inl e) \<Rightarrow> (st1, w, Inl e)
       | (st1, Inr jobs) \<Rightarrow>
           (case run_jobs s jobs st1 w of
              (st2, w2, Some e) \<Rightarrow> (st2, w2, Inl e)
            | (st2, w2, None) \<Rightarrow> (st2, w2, Inr (int (length jobs)))))"

definition cron_run_now ::
    "('s, 'w) cron_service \<Rightarrow> string \<Rightarrow> string \<Rightarrow> string \<Rightarrow> 's \<Rightarrow> 'w \<Rightarrow> 's \<times> 'w \<times> cron_run_dto result" where
  "cron_run_now s actor workspace job_id st w =
    (case ensure_manage_permission s actor workspace of
       Some e \<Rightarrow> (st, w, Inl e)
     | None \<Rightarrow>
         (case kq_get (kv_repo s) (trim_space job_id) st of
            (st1, Inl e) \<Rightarrow> (st1, w, Inl (map_cron_job_error e))
          | (st1, Inr job) \<Rightarrow>
              (case run_job s job st1 w of
                 (st2, w2, Inl e) \<Rightarrow> (st2, w2, Inl e)
               | (st2, w2, Inr run) \<Rightarrow> (st2, w2, Inr (to_cron_run_dto run)))))"

definition cron_list ::
    "('s, 'w) cron_service \<Rightarrow> cron_list_input \<Rightarrow> 's \<Rightarrow> 's \<times> (cron_job_dto list) result" where
  "cron_list s input st =
    (case ensure_manage_permission s (kl_actor input) (kl_workspace_id input) of
       Some e \<Rightarrow> (st, Inl e)
     | None \<Rightarrow>
         (case kq_list (kv_repo s) (normalize_status_filter (kl_status input)) (normalize_cron_limit (kl_limit input)) st of
            (st1, Inl e) \<Rightarrow> (st1, Inl e)
          | (st1, Inr jobs) \<Rightarrow> (st1, Inr (map to_cron_job_dto jobs))))"

definition save_params_of :: "string \<Rightarrow> cron_save_input \<Rightarrow> cron_save_params" where
  "save_params_of i input =
    \<lparr>ks_id = i, ks_name = ki_name input, ks_description = ki_description input,
     ks_schedule = ki_schedule input, ks_runner = ki_runner input, ks_status = ki_status input,
     ks_payload = ki_payload input, ks_next_run_at = None\<rparr>"

definition finish_save :: "'s \<times> cron_job result \<Rightarrow> 's \<times> cron_job_dto result" where
  "finish_save x =
    (case x of (st, Inl e) \<Rightarrow> (st, Inl (map_cron_job_error e)) | (st, Inr j) \<Rightarrow> (st, Inr (to_cron_job_dto j)))"

definition cron_create ::
    "('s, 'w) cron_service \<Rightarrow> cron_save_input \<Rightarrow> time \<Rightarrow> 's \<Rightarrow> 's \<times> cron_job_dto result" where
  "cron_create s input now st =
    (case ensure_manage_permission s (ki_actor input) (ki_workspace_id input) of
       Some e \<Rightarrow> (st, Inl e)
     | None \<Rightarrow>
         (case normalize_save_input s now (save_params_of [] input) of
            Inl e \<Rightarrow> (st, Inl e)
          | Inr params \<Rightarrow> finish_save (kq_create (kv_repo s) params st)))"

definition cron_update ::
    "('s, 'w) cron_service \<Rightarrow> cron_save_input \<Rightarrow> time \<Rightarrow> 's \<Rightarrow> 's \<times> cron_job_dto result" where
  "cron_update s input now st =
    (case ensure_manage_permission s (ki_actor input) (ki_workspace_id input) of
       Some e \<Rightarrow> (st, Inl e)
     | None \<Rightarrow>
         if trim_space (ki_job_id input) = [] then (st, cron_invalid ''Thieu cronjob_id.'')
         else (case normalize_save_input s now (save_params_of (trim_space (ki_job_id input)) input) of
             Inl e \<Rightarrow> (st, Inl e)
           | Inr params \<Rightarrow> finish_save (kq_update (kv_repo s) params st)))"

definition cron_delete ::
    "('s, 'w) cron_service \<Rightarrow> string \<Rightarrow> string \<Rightarrow> string \<Rightarrow> 's \<Rightarrow> 's \<times> unit result" where
  "cron_delete s actor workspace job_id st =
    (case ensure_manage_permission s actor workspace of
       Some e \<Rightarrow> (st, Inl e)
     | None \<Rightarrow>
         (case kq_delete (kv_repo s) (trim_space job_id) st of
            (st1, r) \<Rightarrow> (st1, map_error map_cron_job_error r)))"

definition cron_list_runs ::
    "('s, 'w) cron_service \<Rightarrow> string \<Rightarrow> string \<Rightarrow> string \<Rightarrow> int \<Rightarrow> 's \<Rightarrow> 's \<times> (cron_run_dto list) result" where
  "cron_list_runs s actor workspace job_id limit st =
    (case ensure_manage_permission s actor workspace of
       Some e \<Rightarrow> (st, Inl e)
     | None \<Rightarrow>
         (case kq_list_runs (kv_repo s) (trim_space job_id) (normalize_cron_limit limit) st of
            (st1, Inl e) \<Rightarrow> (st1, Inl e)
          | (st1, Inr runs) \<Rightarrow> (st1, Inr (map to_cron_run_dto runs))))"

end
