(* ===== verification/Pg_Tx.thy ===== *)
theory Pg_Tx
  imports Pg Go_Encoding
begin

text \<open>
  Transactions of several statements. A statement is a function on the tables that returns the new
  tables and a result; \<open>tx_bind\<close> runs one after the other and stops at the first error, as the
  repositories' early returns do; \<open>in_tx\<close> is \<open>Begin\<close>, the statements and \<open>Commit\<close>, with the
  deferred \<open>Rollback\<close> undoing everything when a statement failed. The statements of a transaction
  share one environment (\<open>now()\<close> is the time the transaction began). \<open>pg_run\<close> of a transaction is one
  step: the rows it decides on are locked until it commits, and a failure for a reason outside the model
  (\<open>pe_fail\<close>), at whatever statement, also rolls it back.
\<close>

type_synonym ('db, 'a) stmt = "'db \<Rightarrow> 'db \<times> 'a result"

definition tx_return :: "'a \<Rightarrow> ('db, 'a) stmt" where
  "tx_return x db = (db, Inr x)"

definition tx_fail :: "go_error \<Rightarrow> ('db, 'a) stmt" where
  "tx_fail e db = (db, Inl e)"

definition tx_bind :: "('db, 'a) stmt \<Rightarrow> ('a \<Rightarrow> ('db, 'b) stmt) \<Rightarrow> ('db, 'b) stmt" where
  "tx_bind f g db =
    (case f db of
       (db1, Inl e) \<Rightarrow> (db1, Inl e)
     | (db1, Inr x) \<Rightarrow> g x db1)"

abbreviation tx_then :: "('db, 'a) stmt \<Rightarrow> ('db, 'b) stmt \<Rightarrow> ('db, 'b) stmt" where
  "tx_then f g \<equiv> tx_bind f (\<lambda>_. g)"

definition tx_lift :: "'a result \<Rightarrow> ('db, 'a) stmt" where
  "tx_lift r db = (db, r)"

definition in_tx :: "('db, 'a) stmt \<Rightarrow> ('db, 'a) stmt" where
  "in_tx f db =
    (case f db of
       (db1, Inl e) \<Rightarrow> (db, Inl e)
     | (db1, Inr x) \<Rightarrow> (db1, Inr x))"

definition tx_map_error :: "(go_error \<Rightarrow> go_error) \<Rightarrow> ('db, 'a) stmt \<Rightarrow> ('db, 'a) stmt" where
  "tx_map_error h f db = (case f db of (db1, r) \<Rightarrow> (db1, map_error h r))"

text \<open>\<open>_ = f(...)\<close>: the result is dropped, the effect stays.\<close>

definition tx_ignore :: "('db, 'a) stmt \<Rightarrow> ('db, unit) stmt" where
  "tx_ignore f db = (fst (f db), Inr ())"

text \<open>A check that failed with an error ends the operation.\<close>

definition checked :: "go_error option \<Rightarrow> ('w, 'a) stmt \<Rightarrow> ('w, 'a) stmt" where
  "checked e f = (case e of Some err \<Rightarrow> tx_fail err | None \<Rightarrow> f)"

text \<open>\<open>x, err := f(...)\<close> where the code goes on with the error.\<close>

definition tx_try :: "('db, 'a) stmt \<Rightarrow> ('db, 'a result) stmt" where
  "tx_try f db = (case f db of (db1, r) \<Rightarrow> (db1, Inr r))"

text \<open>The effect without the result.\<close>

definition ended :: "('s, 'a) stmt \<Rightarrow> ('s, unit) stmt" where
  "ended f = tx_bind f (\<lambda>_. tx_return ())"

lemma tx_bind_Inr:
  "tx_bind f g db = (db', Inr y) \<longleftrightarrow> (\<exists>db1 x. f db = (db1, Inr x) \<and> g x db1 = (db', Inr y))"
  by (auto simp: tx_bind_def split: prod.splits sum.splits)

lemma tx_map_error_Inr [simp]: "tx_map_error h f db = (db', Inr y) \<longleftrightarrow> f db = (db', Inr y)"
  by (auto simp: tx_map_error_def split: prod.splits)

lemma in_tx_Inr [simp]: "in_tx f db = (db', Inr y) \<longleftrightarrow> f db = (db', Inr y)"
  by (auto simp: in_tx_def split: prod.splits sum.splits)

lemma in_tx_Inl: "in_tx f db = (db', Inl e) \<Longrightarrow> db' = db"
  by (auto simp: in_tx_def split: prod.splits sum.splits)

lemma tx_simps [simp]:
  "tx_return x db = (db', r) \<longleftrightarrow> db' = db \<and> r = Inr x"
  "tx_fail e db = (db', r) \<longleftrightarrow> db' = db \<and> r = Inl e"
  "tx_lift q db = (db', r) \<longleftrightarrow> db' = db \<and> r = q"
  by (auto simp: tx_return_def tx_fail_def tx_lift_def)

section \<open>Pre- and postconditions of statements\<close>

text \<open>
  \<open>tx_ok P f Q\<close>: a statement that returns a value in a state with \<open>P\<close> leaves a state with \<open>Q\<close>. A
  transaction that fails leaves its state, so this is all a committed change has to satisfy.
\<close>

definition tx_ok :: "('db \<Rightarrow> bool) \<Rightarrow> ('db, 'a) stmt \<Rightarrow> ('a \<Rightarrow> 'db \<Rightarrow> bool) \<Rightarrow> bool" where
  "tx_ok P f Q \<longleftrightarrow> (\<forall>db db' x. P db \<longrightarrow> f db = (db', Inr x) \<longrightarrow> Q x db')"

lemma tx_okI: "(\<And>db db' x. P db \<Longrightarrow> f db = (db', Inr x) \<Longrightarrow> Q x db') \<Longrightarrow> tx_ok P f Q"
  by (simp add: tx_ok_def)

lemma tx_okD: "tx_ok P f Q \<Longrightarrow> P db \<Longrightarrow> f db = (db', Inr x) \<Longrightarrow> Q x db'"
  by (simp add: tx_ok_def)

lemma tx_ok_bind: "tx_ok P f R \<Longrightarrow> (\<And>x. tx_ok (R x) (g x) Q) \<Longrightarrow> tx_ok P (tx_bind f g) Q"
  by (fastforce simp: tx_ok_def tx_bind_Inr)

lemma tx_ok_lift: "(\<And>x. r = Inr x \<Longrightarrow> tx_ok P (g x) Q) \<Longrightarrow> tx_ok P (tx_bind (tx_lift r) g) Q"
  by (auto simp: tx_ok_def tx_bind_Inr)

lemma tx_ok_fail [simp]: "tx_ok P (tx_fail e) Q"
  by (simp add: tx_ok_def)

lemma tx_ok_return: "(\<And>db. P db \<Longrightarrow> Q x db) \<Longrightarrow> tx_ok P (tx_return x) Q"
  by (simp add: tx_ok_def)

lemma tx_ok_weaken: "tx_ok P f Q \<Longrightarrow> (\<And>db. P' db \<Longrightarrow> P db) \<Longrightarrow> (\<And>x db. Q x db \<Longrightarrow> Q' x db) \<Longrightarrow> tx_ok P' f Q'"
  unfolding tx_ok_def by blast

lemma tx_ok_if:
  "(c \<Longrightarrow> tx_ok P f Q) \<Longrightarrow> (\<not> c \<Longrightarrow> tx_ok P g Q) \<Longrightarrow> tx_ok P (if c then f else g) Q"
  by simp

lemma pg_run_tx:
  assumes "tx_ok P (f (pg_envs s (pg_tick s))) Q" "P (pg_db s)"
    and "pg_run (\<lambda>env. in_tx (f env)) s = (s', Inr x)"
  shows "Q x (pg_db s')"
  using tx_okD [OF assms(1,2)] pg_run_Inr [OF assms(3)] by simp

lemma pg_run_tx_Inl: "pg_run (\<lambda>env. in_tx (f env)) s = (s', Inl e) \<Longrightarrow> pg_db s' = pg_db s"
  by (auto simp: pg_run_def Let_def dest: in_tx_Inl split: option.splits prod.splits)

section \<open>What statements change\<close>

text \<open>
  \<open>tx_rel R f\<close>: whatever the statement returns, \<open>R\<close> holds between the state before and after it. The
  rules follow the structure of a statement; \<open>tx_keeps v\<close> says that the part \<open>v\<close> stays as it was.
\<close>

definition tx_rel :: "('db \<Rightarrow> 'db \<Rightarrow> bool) \<Rightarrow> ('db, 'a) stmt \<Rightarrow> bool" where
  "tx_rel R f \<longleftrightarrow> (\<forall>db db' r. f db = (db', r) \<longrightarrow> R db db')"

abbreviation tx_keeps :: "('db \<Rightarrow> 'v) \<Rightarrow> ('db, 'a) stmt \<Rightarrow> bool" where
  "tx_keeps v f \<equiv> tx_rel (\<lambda>db db'. v db' = v db) f"

definition preorder_rel :: "('db \<Rightarrow> 'db \<Rightarrow> bool) \<Rightarrow> bool" where
  "preorder_rel R \<longleftrightarrow> (\<forall>a. R a a) \<and> (\<forall>a b c. R a b \<longrightarrow> R b c \<longrightarrow> R a c)"

lemma preorder_keeps [simp]: "preorder_rel (\<lambda>db db'. v db' = v db)"
  by (simp add: preorder_rel_def)

lemma tx_relI: "(\<And>db db' r. f db = (db', r) \<Longrightarrow> R db db') \<Longrightarrow> tx_rel R f"
  by (simp add: tx_rel_def)

lemma tx_relD: "tx_rel R f \<Longrightarrow> f db = (db', r) \<Longrightarrow> R db db'"
  by (simp add: tx_rel_def)

lemma tx_rel_bind:
  assumes "preorder_rel R" "tx_rel R f" "\<And>x. tx_rel R (g x)"
  shows "tx_rel R (tx_bind f g)"
proof (rule tx_relI)
  fix db db' r assume eq: "tx_bind f g db = (db', r)"
  obtain db1 q where f: "f db = (db1, q)" by (cases "f db")
  have 1: "R db db1" by (rule tx_relD [OF assms(2) f])
  show "R db db'"
  proof (cases q)
    case (Inl e)
    with eq f 1 show ?thesis by (simp add: tx_bind_def)
  next
    case (Inr x)
    with eq f have "g x db1 = (db', r)" by (simp add: tx_bind_def)
    from tx_relD [OF assms(3) this] 1 assms(1) show ?thesis unfolding preorder_rel_def by blast
  qed
qed

lemma tx_rel_base:
  assumes "preorder_rel R"
  shows "tx_rel R (tx_return x)" "tx_rel R (tx_fail e)" "tx_rel R (tx_lift q)" "tx_rel R (\<lambda>db. (db, h db))"
  using assms by (auto simp: tx_rel_def preorder_rel_def)

lemma tx_rel_map_error: "tx_rel R f \<Longrightarrow> tx_rel R (tx_map_error h f)"
  by (auto simp: tx_rel_def tx_map_error_def split: prod.splits)

lemma tx_rel_in_tx: "preorder_rel R \<Longrightarrow> tx_rel R f \<Longrightarrow> tx_rel R (in_tx f)"
  by (auto simp: tx_rel_def preorder_rel_def in_tx_def split: prod.splits sum.splits)

lemma tx_rel_checked: "preorder_rel R \<Longrightarrow> tx_rel R f \<Longrightarrow> tx_rel R (checked e f)"
  by (auto simp: checked_def tx_rel_base split: option.split)

lemma tx_rel_try: "tx_rel R f \<Longrightarrow> tx_rel R (tx_try f)"
  by (auto simp: tx_rel_def tx_try_def split: prod.splits)

lemma tx_rel_ignore: "tx_rel R f \<Longrightarrow> tx_rel R (tx_ignore f)"
  unfolding tx_rel_def tx_ignore_def by (metis fst_conv prod.collapse)

lemma tx_rel_ended: "preorder_rel R \<Longrightarrow> tx_rel R f \<Longrightarrow> tx_rel R (ended f)"
  unfolding ended_def by (intro tx_rel_bind tx_rel_base)

lemma tx_rel_case_prod: "(\<And>a b. tx_rel R (f a b)) \<Longrightarrow> tx_rel R (case_prod f x)"
  by (cases x) simp

lemma tx_rel_if: "tx_rel R f \<Longrightarrow> tx_rel R g \<Longrightarrow> tx_rel R (if c then f else g)"
  by simp

lemma tx_rel_if_db: "tx_rel R f \<Longrightarrow> tx_rel R g \<Longrightarrow> tx_rel R (\<lambda>db. if c db then f db else g db)"
  by (auto simp: tx_rel_def)

lemmas tx_rel_intros = tx_rel_bind tx_rel_base tx_rel_map_error tx_rel_in_tx tx_rel_case_prod tx_rel_if

lemma pg_run_rel:
  assumes "\<And>env. tx_rel R (f env)" "preorder_rel R" "pg_run f s = (s', r)"
  shows "R (pg_db s) (pg_db s')"
  using pg_run_db [OF assms(3)] assms(2) tx_relD [OF assms(1)] by (auto simp: preorder_rel_def)

lemma pg_run_envs: "pg_run f s = (s', r) \<Longrightarrow> pg_envs s' = pg_envs s"
  by (auto simp: pg_run_def Let_def split: option.splits prod.splits)

section \<open>Parameters and errors\<close>

text \<open>A text parameter is valid UTF-8 without NUL.\<close>

definition pg_text_ok :: "string \<Rightarrow> bool" where
  "pg_text_ok s \<longleftrightarrow> valid_utf8 s \<and> CHR 0x00 \<notin> set s"

definition encoding_error :: go_error where
  "encoding_error = PgErr ''22021'' ''invalid byte sequence for encoding UTF8''"

definition text_params :: "string list \<Rightarrow> unit result" where
  "text_params ts = (if list_all pg_text_ok ts then Inr () else Inl encoding_error)"

lemma text_params_Inr [simp]: "text_params ts = Inr u \<longleftrightarrow> list_all pg_text_ok ts"
  by (simp add: text_params_def)

text \<open>\<open>NULLIF($1, '')::uuid\<close>.\<close>

definition uuid_or_null :: "pg_env \<Rightarrow> string \<Rightarrow> string option result" where
  "uuid_or_null env s =
    (if s = [] then Inr None
     else case pe_uuid env s of
         None \<Rightarrow> Inl (PgErr ''22P02'' ''invalid input syntax for type uuid'')
       | Some u \<Rightarrow> Inr (Some u))"

text \<open>The text a \<open>citext\<close> value is compared by; the case of ASCII letters is folded.\<close>

definition citext :: "string \<Rightarrow> string" where
  "citext s = map lower_char s"

text \<open>The sort key of a text in the collation of the database.\<close>

type_synonym collation = "string \<Rightarrow> string"

definition fk_violation :: go_error where
  "fk_violation = PgErr ''23503'' ''violates foreign key constraint''"

end
