(* ===== verification/Cron_Pg.thy ===== *)
theory Cron_Pg
  imports Cron_Jobs Outbox Presence Pg_Tx
begin

text \<open>
  \<open>cronjobs/infrastructure/postgres/repository.go\<close>: the statements on \<open>cron_jobs\<close> and
  \<open>cron_job_runs\<close> (migrations 000001 and 000004), and the clean-ups of sessions, outbox events,
  uploads and presence. Text parameters must be valid UTF-8 without NUL, as PostgreSQL requires.
  \<open>coll\<close> is the collation of the database as a sort key of names.
\<close>

record session_row =
  se_id :: string
  se_expires_at :: time
  se_revoked_at :: "time option"

record file_row =
  fr_id :: string
  fr_status :: string
  fr_created_at :: time
  fr_updated_at :: time
  fr_deleted_at :: "time option"

record cron_db =
  kb_jobs :: "cron_job list"
  kb_runs :: "cron_run list"
  kb_sessions :: "session_row list"
  kb_outbox :: "outbox_row list"
  kb_files :: "file_row list"
  kb_presence :: "presence list"

definition cron_statuses :: "string list" where
  "cron_statuses = [''active'', ''paused'', ''disabled'']"

definition cron_run_statuses :: "string list" where
  "cron_run_statuses = [''running'', ''success'', ''failed'', ''cancelled'']"

definition seconds_ago :: "pg_env \<Rightarrow> duration \<Rightarrow> time" where
  "seconds_ago env d = pe_now env - go_div d ns_second * ns_second"

section \<open>Jobs\<close>

definition scan_cron_job :: "cron_job option \<Rightarrow> cron_job result" where
  "scan_cron_job r = (case r of None \<Rightarrow> Inl err_cron_not_found | Some j \<Rightarrow> Inr j)"

definition nulls_last :: "cron_job \<Rightarrow> int" where
  "nulls_last j = (if kj_next_run_at j = None then 1 else 0)"

definition next_run_key :: "cron_job \<Rightarrow> time" where
  "next_run_key j = (case kj_next_run_at j of None \<Rightarrow> 0 | Some t \<Rightarrow> t)"

definition pg_cron_list ::
    "(string \<Rightarrow> int) \<Rightarrow> pg_env \<Rightarrow> string \<Rightarrow> int \<Rightarrow> cron_db \<Rightarrow> cron_db \<times> (cron_job list) result" where
  "pg_cron_list coll env status limit db =
    (db, Inr (take (nat limit)
       (sort_key nulls_last (sort_key next_run_key (sort_key (coll \<circ> kj_name)
         (filter (\<lambda>j. status = [] \<or> kj_status j = status) (kb_jobs db)))))))"

definition pg_cron_get :: "pg_env \<Rightarrow> string \<Rightarrow> cron_db \<Rightarrow> cron_db \<times> cron_job result" where
  "pg_cron_get env i db =
    (db, result_bind (uuid_param env i) (\<lambda>u. scan_cron_job (List.find (\<lambda>j. kj_id j = u) (kb_jobs db))))"

text \<open>The parameters of a saved job: texts that PostgreSQL accepts and the canonical payload.\<close>

definition cron_save_args :: "pg_env \<Rightarrow> cron_save_params \<Rightarrow> string result" where
  "cron_save_args env p =
    result_bind (jsonb_param env (ks_payload p)) (\<lambda>pl.
      if list_all pg_text_ok [ks_name p, ks_description p, ks_schedule p, ks_runner p, ks_status p]
      then Inr pl else Inl encoding_error)"

definition pg_cron_create :: "pg_env \<Rightarrow> cron_save_params \<Rightarrow> cron_db \<Rightarrow> cron_db \<times> cron_job result" where
  "pg_cron_create env p db =
    (case cron_save_args env p of
       Inl e \<Rightarrow> (db, Inl e)
     | Inr pl \<Rightarrow>
       (let row = \<lparr>kj_id = pe_fresh env, kj_name = ks_name p, kj_description = nullif_empty (ks_description p),
              kj_schedule = ks_schedule p, kj_runner = ks_runner p, kj_status = ks_status p,
              kj_payload = pl, kj_last_run_at = None,
              kj_next_run_at = map_option pg_time (ks_next_run_at p), kj_locked_at = None, kj_locked_by = None,
              kj_created_at = pe_now env, kj_updated_at = pe_now env\<rparr>
        in if ks_status p \<notin> set cron_statuses then (db, Inl check_violation)
           else if ks_name p \<in> kj_name ` set (kb_jobs db) then (db, Inl err_cron_exists)
           else (db\<lparr>kb_jobs := kb_jobs db @ [row]\<rparr>, Inr row)))"

definition saved_job :: "pg_env \<Rightarrow> cron_save_params \<Rightarrow> string \<Rightarrow> cron_job \<Rightarrow> cron_job" where
  "saved_job env p pl j =
    j\<lparr>kj_name := ks_name p, kj_description := nullif_empty (ks_description p), kj_schedule := ks_schedule p,
      kj_runner := ks_runner p, kj_status := ks_status p, kj_payload := pl,
      kj_next_run_at := map_option pg_time (ks_next_run_at p), kj_locked_at := None, kj_locked_by := None,
      kj_updated_at := pe_now env\<rparr>"

definition pg_cron_update :: "pg_env \<Rightarrow> cron_save_params \<Rightarrow> cron_db \<Rightarrow> cron_db \<times> cron_job result" where
  "pg_cron_update env p db =
    (case result_bind (uuid_param env (ks_id p)) (\<lambda>u. result_bind (cron_save_args env p) (\<lambda>pl. Inr (u, pl))) of
       Inl e \<Rightarrow> (db, Inl e)
     | Inr (u, pl) \<Rightarrow>
         (case List.find (\<lambda>j. kj_id j = u) (kb_jobs db) of
            None \<Rightarrow> (db, scan_cron_job None)
          | Some j \<Rightarrow>
              if ks_status p \<notin> set cron_statuses then (db, Inl check_violation)
              else if list_ex (\<lambda>k. kj_id k \<noteq> u \<and> kj_name k = ks_name p) (kb_jobs db)
              then (db, Inl err_cron_exists)
              else (db\<lparr>kb_jobs := update_where (\<lambda>j. kj_id j = u) (saved_job env p pl) (kb_jobs db)\<rparr>,
                    scan_cron_job (Some (saved_job env p pl j)))))"

text \<open>Deleting a job deletes its runs.\<close>

definition pg_cron_delete :: "pg_env \<Rightarrow> string \<Rightarrow> cron_db \<Rightarrow> cron_db \<times> unit result" where
  "pg_cron_delete env i db =
    (case uuid_param env i of
       Inl e \<Rightarrow> (db, Inl e)
     | Inr u \<Rightarrow>
         if \<not> list_ex (\<lambda>j. kj_id j = u) (kb_jobs db) then (db, Inl err_cron_not_found)
         else (db\<lparr>kb_jobs := filter (\<lambda>j. kj_id j \<noteq> u) (kb_jobs db),
                  kb_runs := filter (\<lambda>r. kr_job_id r \<noteq> u) (kb_runs db)\<rparr>, Inr ()))"

definition cron_claimable :: "time \<Rightarrow> duration \<Rightarrow> cron_job \<Rightarrow> bool" where
  "cron_claimable now ttl j \<longleftrightarrow>
     kj_status j = ''active'' \<and>
     (case kj_next_run_at j of None \<Rightarrow> False | Some t \<Rightarrow> t \<le> now) \<and>
     (case kj_locked_at j of None \<Rightarrow> True | Some t \<Rightarrow> t < now - go_div ttl ns_second * ns_second)"

definition lock_job :: "time \<Rightarrow> string \<Rightarrow> cron_job \<Rightarrow> cron_job" where
  "lock_job now node j = j\<lparr>kj_locked_at := Some now, kj_locked_by := Some node, kj_updated_at := now\<rparr>"

definition due_ids :: "time \<Rightarrow> duration \<Rightarrow> int \<Rightarrow> cron_job list \<Rightarrow> string list" where
  "due_ids now ttl limit jobs = map kj_id (order_limit next_run_key limit (filter (cron_claimable now ttl) jobs))"

definition pg_claim_due ::
    "pg_env \<Rightarrow> int \<Rightarrow> string \<Rightarrow> duration \<Rightarrow> cron_db \<Rightarrow> cron_db \<times> (cron_job list) result" where
  "pg_claim_due env limit node ttl db =
    (let ids = due_ids (pe_now env) ttl limit (kb_jobs db);
         hit = (\<lambda>j. kj_id j \<in> set ids)
     in if \<not> pg_text_ok node then (db, Inl encoding_error)
        else (db\<lparr>kb_jobs := update_where hit (lock_job (pe_now env) node) (kb_jobs db)\<rparr>,
              Inr (map (lock_job (pe_now env) node) (filter hit (kb_jobs db)))))"

section \<open>Runs\<close>

definition pg_list_runs :: "pg_env \<Rightarrow> string \<Rightarrow> int \<Rightarrow> cron_db \<Rightarrow> cron_db \<times> (cron_run list) result" where
  "pg_list_runs env i limit db =
    (db, result_bind (uuid_param env i) (\<lambda>u.
       Inr (order_limit (\<lambda>r. - kr_started_at r) limit (filter (\<lambda>r. kr_job_id r = u) (kb_runs db)))))"

definition foreign_key_violation :: go_error where
  "foreign_key_violation = PgErr ''23503'' ''insert or update violates foreign key constraint''"

definition pg_start_run :: "pg_env \<Rightarrow> string \<Rightarrow> cron_db \<Rightarrow> cron_db \<times> cron_run result" where
  "pg_start_run env i db =
    (case uuid_param env i of
       Inl e \<Rightarrow> (db, Inl e)
     | Inr u \<Rightarrow>
       (let row = \<lparr>kr_id = pe_fresh env, kr_job_id = u, kr_status = ''running'', kr_started_at = pe_now env,
              kr_finished_at = None, kr_log = None, kr_error = None\<rparr>
        in if u \<notin> kj_id ` set (kb_jobs db) then (db, Inl foreign_key_violation)
           else (db\<lparr>kb_runs := kb_runs db @ [row]\<rparr>, Inr row)))"

definition finish_run_row :: "time \<Rightarrow> cron_finish_params \<Rightarrow> cron_run \<Rightarrow> cron_run" where
  "finish_run_row now p r =
    r\<lparr>kr_status := kf_status p, kr_finished_at := Some now, kr_log := nullif_empty (kf_log p),
      kr_error := nullif_empty (kf_error p)\<rparr>"

definition finish_job_row :: "time \<Rightarrow> cron_finish_params \<Rightarrow> cron_job \<Rightarrow> cron_job" where
  "finish_job_row now p j =
    j\<lparr>kj_last_run_at := Some now, kj_next_run_at := map_option pg_time (kf_next_run_at p),
      kj_locked_at := None, kj_locked_by := None, kj_updated_at := now\<rparr>"

text \<open>Both updates are one transaction: an error in either changes nothing.\<close>

definition pg_finish_run :: "pg_env \<Rightarrow> cron_finish_params \<Rightarrow> cron_db \<Rightarrow> cron_db \<times> unit result" where
  "pg_finish_run env p db =
    (case result_bind (uuid_param env (kf_run_id p)) (\<lambda>r. result_bind (uuid_param env (kf_job_id p)) (\<lambda>j. Inr (r, j))) of
       Inl e \<Rightarrow> (db, Inl e)
     | Inr (r, j) \<Rightarrow>
         if \<not> list_all pg_text_ok [kf_status p, kf_log p, kf_error p] then (db, Inl encoding_error)
         else if kf_status p \<notin> set cron_run_statuses \<and> r \<in> kr_id ` set (kb_runs db)
         then (db, Inl check_violation)
         else (db\<lparr>kb_runs := update_where (\<lambda>x. kr_id x = r) (finish_run_row (pe_now env) p) (kb_runs db),
                  kb_jobs := update_where (\<lambda>x. kj_id x = j) (finish_job_row (pe_now env) p) (kb_jobs db)\<rparr>, Inr ()))"

section \<open>Clean-ups\<close>

definition old_session :: "time \<Rightarrow> session_row \<Rightarrow> bool" where
  "old_session before r \<longleftrightarrow>
     se_expires_at r < before \<or> (case se_revoked_at r of None \<Rightarrow> False | Some t \<Rightarrow> t < before)"

definition pg_cleanup_sessions :: "pg_env \<Rightarrow> duration \<Rightarrow> cron_db \<Rightarrow> cron_db \<times> int result" where
  "pg_cleanup_sessions env d db =
    (let old = old_session (seconds_ago env d)
     in (db\<lparr>kb_sessions := filter (\<lambda>r. \<not> old r) (kb_sessions db)\<rparr>, Inr (int (length (filter old (kb_sessions db))))))"

definition dead_event :: "time \<Rightarrow> outbox_row \<Rightarrow> bool" where
  "dead_event before r \<longleftrightarrow>
     (oe_status r = ''published'' \<or> oe_status r = ''dead'') \<and> oe_updated_at r < before"

definition pg_cleanup_outbox :: "pg_env \<Rightarrow> duration \<Rightarrow> cron_db \<Rightarrow> cron_db \<times> int result" where
  "pg_cleanup_outbox env d db =
    (let old = dead_event (seconds_ago env d)
     in (db\<lparr>kb_outbox := filter (\<lambda>r. \<not> old r) (kb_outbox db)\<rparr>, Inr (int (length (filter old (kb_outbox db))))))"

definition failed_upload :: "time \<Rightarrow> file_row \<Rightarrow> bool" where
  "failed_upload before r \<longleftrightarrow>
     (fr_status r = ''uploading'' \<or> fr_status r = ''failed'') \<and> fr_deleted_at r = None \<and> fr_created_at r < before"

definition pg_cleanup_uploads :: "pg_env \<Rightarrow> duration \<Rightarrow> cron_db \<Rightarrow> cron_db \<times> int result" where
  "pg_cleanup_uploads env d db =
    (let old = failed_upload (seconds_ago env d)
     in (db\<lparr>kb_files := update_where old
               (\<lambda>r. r\<lparr>fr_status := ''deleted'', fr_deleted_at := Some (pe_now env), fr_updated_at := pe_now env\<rparr>)
               (kb_files db)\<rparr>, Inr (int (length (filter old (kb_files db))))))"

definition old_presence :: "time \<Rightarrow> presence \<Rightarrow> bool" where
  "old_presence before r \<longleftrightarrow> pr_status r = ''offline'' \<and> pr_last_heartbeat_at r < before"

definition pg_cleanup_presence :: "pg_env \<Rightarrow> duration \<Rightarrow> cron_db \<Rightarrow> cron_db \<times> int result" where
  "pg_cleanup_presence env d db =
    (let old = old_presence (seconds_ago env d)
     in (db\<lparr>kb_presence := filter (\<lambda>r. \<not> old r) (kb_presence db)\<rparr>,
         Inr (int (length (filter old (kb_presence db))))))"

definition cron_pg :: "(string \<Rightarrow> int) \<Rightarrow> cron_db pg cron_repo" where
  "cron_pg coll =
    \<lparr>kq_list = (\<lambda>st n. pg_run (\<lambda>env. pg_cron_list coll env st n)),
     kq_get = (\<lambda>i. pg_run (\<lambda>env. pg_cron_get env i)),
     kq_create = (\<lambda>p. pg_run (\<lambda>env. pg_cron_create env p)),
     kq_update = (\<lambda>p. pg_run (\<lambda>env. pg_cron_update env p)),
     kq_delete = (\<lambda>i. pg_run (\<lambda>env. pg_cron_delete env i)),
     kq_list_runs = (\<lambda>i n. pg_run (\<lambda>env. pg_list_runs env i n)),
     kq_claim_due = (\<lambda>n node ttl. pg_run (\<lambda>env. pg_claim_due env n node ttl)),
     kq_start_run = (\<lambda>i. pg_run (\<lambda>env. pg_start_run env i)),
     kq_finish_run = (\<lambda>p. pg_run (\<lambda>env. pg_finish_run env p)),
     kq_cleanup_sessions = (\<lambda>d. pg_run (\<lambda>env. pg_cleanup_sessions env d)),
     kq_cleanup_outbox = (\<lambda>d. pg_run (\<lambda>env. pg_cleanup_outbox env d)),
     kq_cleanup_uploads = (\<lambda>d. pg_run (\<lambda>env. pg_cleanup_uploads env d)),
     kq_cleanup_presence = (\<lambda>d. pg_run (\<lambda>env. pg_cleanup_presence env d))\<rparr>"

end
