(* ===== verification/Cron_Props.thy ===== *)
theory Cron_Props
  imports Cron_Pg
begin

text \<open>
  What the cron worker relies on (the locale \<open>cron_store\<close>, interpreted on the PostgreSQL
  repository) and the properties of jobs: validation, the lock of a claimed job, rescheduling.
\<close>

section \<open>The contract of the repository\<close>

definition finish_laws :: "time \<Rightarrow> time option \<Rightarrow> cron_job \<Rightarrow> cron_job" where
  "finish_laws now nxt j =
    j\<lparr>kj_last_run_at := Some now, kj_next_run_at := map_option pg_time nxt,
      kj_locked_at := None, kj_locked_by := None, kj_updated_at := now\<rparr>"

lemma finish_laws_sel [simp]:
  "kj_id (finish_laws now nxt j) = kj_id j" "kj_status (finish_laws now nxt j) = kj_status j"
  "kj_schedule (finish_laws now nxt j) = kj_schedule j" "kj_locked_at (finish_laws now nxt j) = None"
  "kj_next_run_at (finish_laws now nxt j) = map_option pg_time nxt"
  by (simp_all add: finish_laws_def)

lemma lock_job_sel [simp]:
  "kj_id (lock_job now node j) = kj_id j" "kj_status (lock_job now node j) = kj_status j"
  "kj_schedule (lock_job now node j) = kj_schedule j" "kj_locked_at (lock_job now node j) = Some now"
  "kj_next_run_at (lock_job now node j) = kj_next_run_at j"
  by (simp_all add: lock_job_def)

text \<open>The row a run of \<open>job\<close> leaves: unlocked, with the next time its schedule gives at some clock.\<close>

definition rescheduled :: "('s, 'w) cron_service \<Rightarrow> cron_job \<Rightarrow> cron_job \<Rightarrow> cron_job \<Rightarrow> bool" where
  "rescheduled s job x y \<longleftrightarrow>
     (\<exists>now w. y = finish_laws now (next_run_ptr job (next_run (kj_schedule job) (kv_now s w))) x)"

lemma rescheduled_lock: "rescheduled s (lock_job n node x) (lock_job n node x) y \<longleftrightarrow> rescheduled s x x y"
proof -
  have "finish_laws now t (lock_job n node x) = finish_laws now t x"
      "next_run_ptr (lock_job n node x) r = next_run_ptr x r" for now t r
    by (simp_all add: finish_laws_def lock_job_def next_run_ptr_def split: sum.split)
  then show ?thesis by (simp add: rescheduled_def)
qed

text \<open>
  A claim locks at most the limit of claimable jobs and returns them; finishing a run touches only
  the job it names; the other operations of a run leave the jobs alone.
\<close>

locale cron_store =
  fixes repo :: "'s cron_repo"
    and jobs :: "'s \<Rightarrow> cron_job list"
    and inv :: "'s \<Rightarrow> bool"
  assumes inv_distinct: "inv s \<Longrightarrow> distinct (map kj_id (jobs s))"
    and claim_law: "inv s \<Longrightarrow> kq_claim_due repo n node ttl s = (s', r) \<Longrightarrow>
      inv s' \<and> ((\<exists>e. r = Inl e) \<and> jobs s' = jobs s \<or>
        (\<exists>now ids. set ids \<subseteq> kj_id ` {j \<in> set (jobs s). cron_claimable now ttl j} \<and> length ids \<le> nat n \<and>
           jobs s' = update_where (\<lambda>j. kj_id j \<in> set ids) (lock_job now node) (jobs s) \<and>
           r = Inr (map (lock_job now node) (filter (\<lambda>j. kj_id j \<in> set ids) (jobs s)))))"
    and start_law: "inv s \<Longrightarrow> kq_start_run repo i s = (s', r1) \<Longrightarrow> inv s' \<and> jobs s' = jobs s"
    and finish_law: "inv s \<Longrightarrow> kf_job_id p \<in> kj_id ` set (jobs s) \<Longrightarrow> kq_finish_run repo p s = (s', r2) \<Longrightarrow>
      inv s' \<and> ((\<exists>e. r2 = Inl e) \<and> jobs s' = jobs s \<or>
        (\<exists>now. r2 = Inr () \<and>
           jobs s' = update_where (\<lambda>j. kj_id j = kf_job_id p) (finish_laws now (kf_next_run_at p)) (jobs s)))"
    and cleanup_law: "inv s \<Longrightarrow> f \<in> {kq_cleanup_sessions repo, kq_cleanup_outbox repo, kq_cleanup_uploads repo,
        kq_cleanup_presence repo} \<Longrightarrow> f d s = (s', r3) \<Longrightarrow> inv s' \<and> jobs s' = jobs s"
begin

lemma execute_job_keeps:
  assumes "inv st" "kv_repo s = repo" "execute_job s job st w = (st', w', r)"
  shows "inv st' \<and> jobs st' = jobs st"
proof -
  have "inv st1 \<and> jobs st1 = jobs st" if "run_cleanup s task d st = (st1, r1)" for task d st1 r1
    using that assms(1,2) cleanup_law [of st]
    by (auto simp: run_cleanup_def split: if_splits)
  then have "inv st1 \<and> jobs st1 = jobs st" if "execute_cleanup s pl st = (st1, r1)" for pl st1 r1
    using that assms(1) by (auto simp: execute_cleanup_def Let_def split: option.splits if_splits prod.splits sum.splits)
  then show ?thesis
    using assms(1,3) by (auto simp: execute_job_def Let_def split: if_splits prod.splits)
qed

lemma run_job_effect:
  assumes "inv st" "kv_repo s = repo" "kj_id job \<in> kj_id ` set (jobs st)" "run_job s job st w = (st', w', r)"
  shows "inv st' \<and> (jobs st' = jobs st \<and> (\<exists>e. r = Inl e) \<or>
    (\<exists>f. jobs st' = update_where (\<lambda>x. kj_id x = kj_id job) f (jobs st) \<and> (\<forall>x. rescheduled s job x (f x)) \<and> (\<exists>q. r = Inr q)))"
proof -
  obtain st1 r1 where 1: "kq_start_run repo (kj_id job) st = (st1, r1)" by fastforce
  note s1 = start_law [OF assms(1) 1]
  show ?thesis
  proof (cases r1)
    case (Inl e)
    then show ?thesis using assms(2,4) 1 s1 by (auto simp: run_job_def)
  next
    case (Inr run)
    obtain st2 w2 res where 2: "execute_job s job st1 w = (st2, w2, res)" by (metis prod_cases3)
    have s2: "inv st2 \<and> jobs st2 = jobs st" using execute_job_keeps [OF _ assms(2) 2] s1 by simp
    let ?next = "next_run (kj_schedule job) (kv_now s w2)"
    let ?p = "\<lparr>kf_run_id = kr_id run, kf_job_id = kj_id job, kf_status = run_status res (run_error_text res ?next),
      kf_log = kx_log res, kf_error = run_error_text res ?next, kf_next_run_at = next_run_ptr job ?next\<rparr>"
    obtain st3 r3 where 3: "kq_finish_run repo ?p st2 = (st3, r3)" by fastforce
    have fin: "inv st3 \<and> ((\<exists>e. r3 = Inl e) \<and> jobs st3 = jobs st \<or> (\<exists>now. r3 = Inr () \<and>
        jobs st3 = update_where (\<lambda>j. kj_id j = kj_id job) (finish_laws now (next_run_ptr job ?next)) (jobs st)))"
      using finish_law [OF _ _ 3] s2 assms(3) by simp
    have st3: "st' = st3" "r3 = Inl e \<Longrightarrow> r = Inl e" "r3 = Inr () \<Longrightarrow> \<exists>q. r = Inr q" for e
      using assms(2,4) 1 Inr 2 3 by (auto simp: run_job_def Let_def split: sum.splits)
    have "rescheduled s job x (finish_laws now (next_run_ptr job ?next) x)" for now x
      by (auto simp: rescheduled_def)
    with fin st3 show ?thesis by blast
  qed
qed

text \<open>A batch that ran to its end has rescheduled every job of it and touched no other.\<close>

lemma run_jobs_effect:
  assumes "inv st" "kv_repo s = repo" "distinct (map kj_id js)" "kj_id ` set js \<subseteq> kj_id ` set (jobs st)"
    and "run_jobs s js st w = (st', w', None)"
  shows "inv st' \<and> list_all2 (\<lambda>x y. if kj_id x \<in> kj_id ` set js
    then \<exists>j\<in>set js. kj_id j = kj_id x \<and> rescheduled s j x y else y = x) (jobs st) (jobs st')"
  using assms(1,3-5)
proof (induction js arbitrary: st w)
  case Nil
  then show ?case by (simp add: list_all2_same)
next
  case (Cons j js)
  obtain st1 w1 r1 where 1: "run_job s j st w = (st1, w1, r1)" by (metis prod_cases3)
  have ok: "\<exists>q. r1 = Inr q" and rest: "run_jobs s js st1 w1 = (st', w', None)"
    using Cons.prems(4) 1 by (auto split: sum.splits)
  have mem: "kj_id j \<in> kj_id ` set (jobs st)" using Cons.prems(3) by simp
  from run_job_effect [OF Cons.prems(1) assms(2) mem 1] ok obtain f where inv1: "inv st1"
      and f: "jobs st1 = update_where (\<lambda>x. kj_id x = kj_id j) f (jobs st)" "\<forall>x. rescheduled s j x (f x)"
    by auto
  have ids: "kj_id (f x) = kj_id x" for x using f(2) by (auto simp: rescheduled_def dest!: spec [of _ x])
  have "kj_id ` set (jobs st1) = kj_id ` set (jobs st)"
    by (metis f(1) ids image_set map_update_where)
  then have "kj_id ` set js \<subseteq> kj_id ` set (jobs st1)" using Cons.prems(3) by simp
  with Cons.IH [OF inv1 _ _ rest] Cons.prems(2) have IH: "inv st'"
    "list_all2 (\<lambda>x y. if kj_id x \<in> kj_id ` set js then \<exists>j\<in>set js. kj_id j = kj_id x \<and> rescheduled s j x y else y = x)
       (jobs st1) (jobs st')" by simp_all
  from IH(2) have "list_all2 (\<lambda>x y. let z = (if kj_id x = kj_id j then f x else x) in
      if kj_id z \<in> kj_id ` set js then \<exists>j\<in>set js. kj_id j = kj_id z \<and> rescheduled s j z y else y = z)
      (jobs st) (jobs st')"
    by (simp add: f(1) update_where_def list_all2_map1 Let_def)
  then have "list_all2 (\<lambda>x y. if kj_id x \<in> kj_id ` set (j # js)
      then \<exists>i\<in>set (j # js). kj_id i = kj_id x \<and> rescheduled s i x y else y = x) (jobs st) (jobs st')"
  proof (rule list_all2_mono)
    fix x y
    assume a: "let z = (if kj_id x = kj_id j then f x else x) in
      if kj_id z \<in> kj_id ` set js then \<exists>j\<in>set js. kj_id j = kj_id z \<and> rescheduled s j z y else y = z"
    show "if kj_id x \<in> kj_id ` set (j # js)
      then \<exists>i\<in>set (j # js). kj_id i = kj_id x \<and> rescheduled s i x y else y = x"
    proof (cases "kj_id x = kj_id j")
      case True
      have "kj_id j \<notin> kj_id ` set js" using Cons.prems(2) by simp
      then have "y = f x" using a True ids by (simp add: Let_def)
      then show ?thesis using f(2) True by auto
    qed (use a in \<open>auto simp: Let_def\<close>)
  qed
  with IH(1) show ?case by simp
qed

lemma process_due_effect:
  assumes "inv st" "kv_repo s = repo" "process_due s limit node st w = (st', w', Inr k)"
  shows "inv st' \<and> k \<le> (if limit \<le> 0 then 20 else limit) \<and>
    list_all2 (\<lambda>x y. y = x \<or> (\<exists>n. cron_claimable n cron_lock_ttl x \<and> rescheduled s x x y)) (jobs st) (jobs st')"
proof -
  let ?n = "if limit \<le> 0 then default_cron_limit else limit"
  let ?node = "if trim_space node = [] then ''worker'' else node"
  obtain st1 c where c: "kq_claim_due repo ?n ?node cron_lock_ttl st = (st1, c)" by fastforce
  obtain js where js: "c = Inr js" using assms(2,3) c by (cases c) (auto simp: process_due_def Let_def)
  from claim_law [OF assms(1) c] js obtain now ids where inv1: "inv st1"
      and ids: "set ids \<subseteq> kj_id ` {j \<in> set (jobs st). cron_claimable now cron_lock_ttl j}" "length ids \<le> nat ?n"
      "jobs st1 = update_where (\<lambda>j. kj_id j \<in> set ids) (lock_job now ?node) (jobs st)"
      "js = map (lock_job now ?node) (filter (\<lambda>j. kj_id j \<in> set ids) (jobs st))"
    by auto
  have run: "run_jobs s js st1 w = (st', w', None)" "k = int (length js)"
    using assms(2,3) c js by (auto simp: process_due_def Let_def split: prod.splits option.splits)
  have keys: "map kj_id js = map kj_id (filter (\<lambda>j. kj_id j \<in> set ids) (jobs st))"
    by (simp add: ids(4) comp_def)
  have d: "distinct (map kj_id js)"
    unfolding keys by (rule distinct_map_filter [OF inv_distinct [OF assms(1)]])
  have kjs: "kj_id ` set js = kj_id ` {j \<in> set (jobs st). kj_id j \<in> set ids}"
    unfolding ids(4) by (auto simp: image_iff)
  have "map kj_id (jobs st1) = map kj_id (jobs st)" unfolding ids(3) by (rule map_update_where) simp
  then have "kj_id ` set (jobs st1) = kj_id ` set (jobs st)" by (metis image_set)
  then have sub: "kj_id ` set js \<subseteq> kj_id ` set (jobs st1)" unfolding kjs by auto
  note eff = run_jobs_effect [OF inv1 assms(2) d sub run(1)]
  have "length js \<le> length ids"
  proof -
    have "length js = card (kj_id ` set js)" using distinct_card [OF d] by simp
    also have "\<dots> \<le> card (set ids)" unfolding kjs by (intro card_mono) auto
    also have "\<dots> \<le> length ids" by (rule card_length)
    finally show ?thesis .
  qed
  then have k: "k \<le> (if limit \<le> 0 then 20 else limit)"
    using ids(2) run(2) by (simp add: default_cron_limit_def split: if_splits)
  have claimed: "cron_claimable now cron_lock_ttl x" if x: "x \<in> set (jobs st)" "kj_id x \<in> set ids" for x
  proof -
    obtain z where z: "z \<in> set (jobs st)" "cron_claimable now cron_lock_ttl z" "kj_id z = kj_id x"
      using x(2) ids(1) by (auto simp: subset_iff image_iff)
    then show ?thesis using key_unique [OF inv_distinct [OF assms(1)] z(1) x(1)] by simp
  qed
  have "list_all2 (\<lambda>x y. x \<in> set (jobs st) \<longrightarrow> y = x \<or> (\<exists>n. cron_claimable n cron_lock_ttl x \<and> rescheduled s x x y))
      (jobs st) (jobs st')"
  proof (rule list_all2_mono [where P = "\<lambda>x y. let z = (if kj_id x \<in> set ids then lock_job now ?node x else x) in
      if kj_id z \<in> kj_id ` set js then \<exists>j\<in>set js. kj_id j = kj_id z \<and> rescheduled s j z y else y = z"])
    show "list_all2 (\<lambda>x y. let z = (if kj_id x \<in> set ids then lock_job now ?node x else x) in
      if kj_id z \<in> kj_id ` set js then \<exists>j\<in>set js. kj_id j = kj_id z \<and> rescheduled s j z y else y = z)
      (jobs st) (jobs st')"
      using eff by (simp add: ids(3) update_where_def list_all2_map1 Let_def)
  next
    fix x y
    assume a: "let z = (if kj_id x \<in> set ids then lock_job now ?node x else x) in
      if kj_id z \<in> kj_id ` set js then \<exists>j\<in>set js. kj_id j = kj_id z \<and> rescheduled s j z y else y = z"
    show "x \<in> set (jobs st) \<longrightarrow> y = x \<or> (\<exists>n. cron_claimable n cron_lock_ttl x \<and> rescheduled s x x y)"
    proof (cases "x \<in> set (jobs st) \<and> kj_id x \<in> set ids")
      case True
      then have "kj_id x \<in> kj_id ` set js" unfolding kjs by auto
      then obtain j where j: "j \<in> set js" "kj_id j = kj_id x" "rescheduled s j (lock_job now ?node x) y"
        using a True by (auto simp: Let_def)
      then obtain z where "z \<in> set (jobs st)" "j = lock_job now ?node z" unfolding ids(4) by auto
      then have "j = lock_job now ?node x"
        using j(2) True key_unique [OF inv_distinct [OF assms(1)], of z x] by simp
      then have "rescheduled s x x y" using j(3) by (simp add: rescheduled_lock)
      then show ?thesis using claimed True by blast
    next
      case False
      have "kj_id x \<notin> set ids \<Longrightarrow> kj_id x \<notin> kj_id ` set js" unfolding kjs by auto
      then have "kj_id x \<notin> set ids \<Longrightarrow> y = x" using a by (auto simp: Let_def)
      then show ?thesis using False by blast
    qed
  qed
  then have "list_all2 (\<lambda>x y. y = x \<or> (\<exists>n. cron_claimable n cron_lock_ttl x \<and> rescheduled s x x y)) (jobs st) (jobs st')"
    by (auto simp: list_all2_conv_all_nth)
  with eff k show ?thesis by simp
qed

end

section \<open>The PostgreSQL repository keeps the contract\<close>

definition cron_pg_inv :: "cron_db pg \<Rightarrow> bool" where
  "cron_pg_inv s \<longleftrightarrow> distinct (map kj_id (kb_jobs (pg_db s))) \<and>
     (\<forall>n. \<forall>j\<in>set (kb_jobs (pg_db s)). pe_uuid (pg_envs s n) (kj_id j) = Some (kj_id j))"

lemma cron_pg_inv_update:
  assumes "cron_pg_inv s" "pg_envs s' = pg_envs s" "kb_jobs (pg_db s') = update_where p f (kb_jobs (pg_db s))"
    and "\<And>x. kj_id (f x) = kj_id x"
  shows "cron_pg_inv s'"
  using assms by (auto simp: cron_pg_inv_def map_update_where set_update_where)

lemma cron_pg_inv_same:
  "cron_pg_inv s \<Longrightarrow> pg_envs s' = pg_envs s \<Longrightarrow> kb_jobs (pg_db s') = kb_jobs (pg_db s) \<Longrightarrow> cron_pg_inv s'"
  by (simp add: cron_pg_inv_def)

lemma pg_run_jobs_same:
  assumes "cron_pg_inv s" "pg_run f s = (s', r)" "\<And>env db' r'. f env (pg_db s) = (db', r') \<Longrightarrow> kb_jobs db' = kb_jobs (pg_db s)"
  shows "cron_pg_inv s' \<and> kb_jobs (pg_db s') = kb_jobs (pg_db s)"
  using assms(2)
proof (cases rule: pg_run_cases)
  case (1 e)
  then show ?thesis using cron_pg_inv_same [OF assms(1)] by simp
next
  case 2
  then show ?thesis using cron_pg_inv_same [OF assms(1)] assms(3) by metis
qed

lemma finish_job_row_laws: "finish_job_row now p = finish_laws now (kf_next_run_at p)"
  by (simp add: finish_job_row_def finish_laws_def fun_eq_iff)

lemma pg_finish_run_jobs:
  assumes "pg_finish_run env p db = (db', r)" "uuid_param env (kf_job_id p) = Inr (kf_job_id p)"
  shows "kb_jobs db' = (case r of Inl _ \<Rightarrow> kb_jobs db
    | Inr _ \<Rightarrow> update_where (\<lambda>j. kj_id j = kf_job_id p) (finish_laws (pe_now env) (kf_next_run_at p)) (kb_jobs db))"
proof (cases "uuid_param env (kf_run_id p)")
  case (Inr u)
  then show ?thesis
    using assms by (auto simp: pg_finish_run_def finish_job_row_laws split: if_splits)
qed (use assms in \<open>auto simp: pg_finish_run_def\<close>)

interpretation kpg: cron_store "cron_pg coll" "\<lambda>s. kb_jobs (pg_db s)" cron_pg_inv for coll
proof (unfold_locales, goal_cases)
  case (1 s)
  then show ?case by (simp add: cron_pg_inv_def)
next
  case (2 s n node ttl s' r)
  from 2(2) have "pg_run (\<lambda>env. pg_claim_due env n node ttl) s = (s', r)" by (simp add: cron_pg_def)
  then show ?case
  proof (cases rule: pg_run_cases)
    case (1 e)
    then show ?thesis using cron_pg_inv_same [OF 2(1)] by simp
  next
    case env: 2
    let ?now = "pe_now (pg_envs s (pg_tick s))"
    let ?ids = "due_ids ?now ttl n (kb_jobs (pg_db s))"
    show ?thesis
    proof (cases "pg_text_ok node")
      case False
      then show ?thesis using env cron_pg_inv_same [OF 2(1)] by (auto simp: pg_claim_due_def Let_def)
    next
      case True
      have "length ?ids \<le> nat n" by (simp add: due_ids_def length_order_limit)
      moreover have "set ?ids \<subseteq> kj_id ` {j \<in> set (kb_jobs (pg_db s)). cron_claimable ?now ttl j}"
        using set_order_limit [of next_run_key n "filter (cron_claimable ?now ttl) (kb_jobs (pg_db s))"]
        by (auto simp: due_ids_def)
      moreover have "kb_jobs (pg_db s') = update_where (\<lambda>x. kj_id x \<in> set ?ids) (lock_job ?now node) (kb_jobs (pg_db s))"
        "r = Inr (map (lock_job ?now node) (filter (\<lambda>x. kj_id x \<in> set ?ids) (kb_jobs (pg_db s))))"
        using env(1) [symmetric] True by (simp_all add: pg_claim_due_def Let_def)
      moreover have "cron_pg_inv s'"
        by (rule cron_pg_inv_update [OF 2(1) env(2) calculation(3)]) simp
      ultimately show ?thesis by blast
    qed
  qed
next
  case (3 s i s' r)
  from 3(2) have "pg_run (\<lambda>env. pg_start_run env i) s = (s', r)" by (simp add: cron_pg_def)
  then show ?case
    by (rule pg_run_jobs_same [OF 3(1)]) (auto simp: pg_start_run_def Let_def split: sum.splits if_splits)
next
  case (4 s p s' r)
  from 4(3) have "pg_run (\<lambda>env. pg_finish_run env p) s = (s', r)" by (simp add: cron_pg_def)
  then show ?case
  proof (cases rule: pg_run_cases)
    case (1 e)
    then show ?thesis using cron_pg_inv_same [OF 4(1)] by simp
  next
    case env: 2
    have u: "uuid_param (pg_envs s (pg_tick s)) (kf_job_id p) = Inr (kf_job_id p)"
      using 4(1,2) by (auto simp: cron_pg_inv_def uuid_param_def)
    from env(1) have "pg_finish_run (pg_envs s (pg_tick s)) p (pg_db s) = (pg_db s', r)" .
    note jobs = pg_finish_run_jobs [OF this u]
    show ?thesis
    proof (cases r)
      case (Inl e)
      then show ?thesis using cron_pg_inv_same [OF 4(1) env(2)] jobs by simp
    next
      case (Inr x)
      then have upd: "kb_jobs (pg_db s') = update_where (\<lambda>j. kj_id j = kf_job_id p)
          (finish_laws (pe_now (pg_envs s (pg_tick s))) (kf_next_run_at p)) (kb_jobs (pg_db s))"
        using jobs by simp
      have "cron_pg_inv s'" by (rule cron_pg_inv_update [OF 4(1) env(2) upd]) simp
      then show ?thesis using Inr upd by auto
    qed
  qed
next
  case (5 s f d s' r)
  then consider "pg_run (\<lambda>env. pg_cleanup_sessions env d) s = (s', r)" | "pg_run (\<lambda>env. pg_cleanup_outbox env d) s = (s', r)"
    | "pg_run (\<lambda>env. pg_cleanup_uploads env d) s = (s', r)" | "pg_run (\<lambda>env. pg_cleanup_presence env d) s = (s', r)"
    by (auto simp: cron_pg_def)
  then show ?case
    by cases (use pg_run_jobs_same [OF 5(1)] in \<open>force simp: pg_cleanup_sessions_def pg_cleanup_outbox_def
      pg_cleanup_uploads_def pg_cleanup_presence_def Let_def\<close>)+
qed

end
