(* ===== verification/Cron_Safety.thy ===== *)
theory Cron_Safety
  imports Cron_Props
begin

text \<open>
  The properties of cron jobs: what is saved, what a runner may touch, the lock, rescheduling, and
  the places where a job is run twice or never again.
\<close>

section \<open>Rescheduling\<close>


definition demo_job :: "string \<Rightarrow> string \<Rightarrow> string \<Rightarrow> time \<Rightarrow> cron_job" where
  "demo_job i runner payload due =
    \<lparr>kj_id = i, kj_name = i, kj_description = None, kj_schedule = ''@every 1h'', kj_runner = runner,
     kj_status = ''active'', kj_payload = payload, kj_last_run_at = None, kj_next_run_at = Some due,
     kj_locked_at = None, kj_locked_by = None, kj_created_at = 0, kj_updated_at = 0\<rparr>"

definition demo_cron_pg :: "cron_job list \<Rightarrow> cron_db pg" where
  "demo_cron_pg js =
    \<lparr>pg_db = \<lparr>kb_jobs = js, kb_runs = [], kb_sessions = [], kb_outbox = [], kb_files = [], kb_presence = []\<rparr>,
     pg_envs = demo_env, pg_tick = 1\<rparr>"

definition demo_cron_service :: "(cron_db pg, time) cron_service" where
  "demo_cron_service =
    \<lparr>kv_repo = cron_pg (\<lambda>_. 0), kv_checker = None, kv_now = (\<lambda>w. w), kv_scripts = [''sync'' \<mapsto> ''/opt/sync''],
     kv_http = (\<lambda>c w. (w, Inl (Plain ''offline''))),
     kv_exec = (\<lambda>p args d w. (w + d, [CHR 0x00], ScriptOk))\<rparr>"



section \<open>The lock\<close>

text \<open>The statements other workers and requests may interleave with a running job.\<close>

datatype cron_stmt =
    SClaim int string
  | SCreate cron_save_params
  | SUpdate cron_save_params
  | SDelete string
  | SStart string
  | SFinish cron_finish_params
  | SCleanup "pg_env \<Rightarrow> duration \<Rightarrow> cron_db \<Rightarrow> cron_db \<times> int result" duration

fun cron_exec :: "pg_env \<Rightarrow> cron_stmt \<Rightarrow> cron_db \<Rightarrow> cron_db \<times> string list" where
  "cron_exec env (SClaim n node) db =
    (case pg_claim_due env n node cron_lock_ttl db of
       (db', Inr js) \<Rightarrow> (db', map kj_id js) | (db', Inl _) \<Rightarrow> (db', []))"
| "cron_exec env (SCreate p) db = (fst (pg_cron_create env p db), [])"
| "cron_exec env (SUpdate p) db = (fst (pg_cron_update env p db), [])"
| "cron_exec env (SDelete i) db = (fst (pg_cron_delete env i db), [])"
| "cron_exec env (SStart i) db = (fst (pg_start_run env i db), [])"
| "cron_exec env (SFinish p) db = (fst (pg_finish_run env p db), [])"
| "cron_exec env (SCleanup f d) db = (fst (f env d db), [])"

text \<open>The ids handed out by a sequence of statements, each with its environment.\<close>

fun handed_out :: "(pg_env \<times> cron_stmt) list \<Rightarrow> cron_db \<Rightarrow> string list" where
  "handed_out [] db = []"
| "handed_out ((env, x) # tr) db = snd (cron_exec env x db) @ handed_out tr (fst (cron_exec env x db))"

text \<open>A statement that neither finishes nor edits job \<open>i\<close>, nor creates a job with its id.\<close>

fun leaves_job :: "string \<Rightarrow> pg_env \<times> cron_stmt \<Rightarrow> bool" where
  "leaves_job i (env, SCreate p) = (pe_fresh env \<noteq> i)"
| "leaves_job i (env, SUpdate p) = (pe_uuid env (ks_id p) \<noteq> Some i)"
| "leaves_job i (env, SFinish p) = (pe_uuid env (kf_job_id p) \<noteq> Some i)"
| "leaves_job i (env, SCleanup f d) =
    (f = pg_cleanup_sessions \<or> f = pg_cleanup_outbox \<or> f = pg_cleanup_uploads \<or> f = pg_cleanup_presence)"
| "leaves_job i (env, _) = True"

definition locked_since :: "string \<Rightarrow> time \<Rightarrow> cron_db \<Rightarrow> bool" where
  "locked_since i t db \<longleftrightarrow> (\<forall>j\<in>set (kb_jobs db). kj_id j = i \<longrightarrow> kj_locked_at j = Some t)"

lemma not_claimable_locked:
  "kj_locked_at j = Some t \<Longrightarrow> now \<le> t + cron_lock_ttl \<Longrightarrow> \<not> cron_claimable now cron_lock_ttl j"
  by (simp add: cron_claimable_def cron_lock_ttl_def ns_defs go_div_nonneg)

lemma due_ids_locked:
  assumes "locked_since i t db" "now \<le> t + cron_lock_ttl"
  shows "i \<notin> set (due_ids now cron_lock_ttl n (kb_jobs db))"
proof
  assume "i \<in> set (due_ids now cron_lock_ttl n (kb_jobs db))"
  then obtain j where j: "j \<in> set (kb_jobs db)" "cron_claimable now cron_lock_ttl j" "kj_id j = i"
    using set_order_limit [of next_run_key n] by (fastforce simp: due_ids_def)
  then have "kj_locked_at j = Some t" using assms(1) by (simp add: locked_since_def)
  then show False using not_claimable_locked [OF _ assms(2)] j(2) by blast
qed

lemma locked_since_update:
  assumes "locked_since i t db" "\<And>j. p j \<Longrightarrow> kj_id (f j) = i \<Longrightarrow> kj_id j = i \<and> kj_locked_at (f j) = kj_locked_at j"
  shows "locked_since i t (db\<lparr>kb_jobs := update_where p f (kb_jobs db)\<rparr>)"
  using assms by (auto simp: locked_since_def set_update_where split: if_splits)

lemma pg_cron_update_cases:
  "fst (pg_cron_update env p db) = db \<or> (\<exists>u pl. pe_uuid env (ks_id p) = Some u \<and>
     fst (pg_cron_update env p db) = db\<lparr>kb_jobs := update_where (\<lambda>j. kj_id j = u) (saved_job env p pl) (kb_jobs db)\<rparr>)"
  by (cases "pe_uuid env (ks_id p)"; cases "cron_save_args env p")
    (auto simp: pg_cron_update_def uuid_param_def split: option.splits)

lemma exec_keeps_lock:
  assumes "locked_since i t db" "leaves_job i (env, x)" "pe_now env \<le> t + cron_lock_ttl"
  shows "locked_since i t (fst (cron_exec env x db)) \<and> i \<notin> set (snd (cron_exec env x db))"
proof (cases x)
  case (SClaim n node)
  have ids: "i \<notin> set (due_ids (pe_now env) cron_lock_ttl n (kb_jobs db))" by (rule due_ids_locked [OF assms(1,3)])
  then have "locked_since i t (db\<lparr>kb_jobs := update_where
      (\<lambda>j. kj_id j \<in> set (due_ids (pe_now env) cron_lock_ttl n (kb_jobs db))) (lock_job (pe_now env) node) (kb_jobs db)\<rparr>)"
    by (intro locked_since_update [OF assms(1)]) auto
  then show ?thesis using ids SClaim assms(1) by (auto simp: pg_claim_due_def Let_def)
next
  case (SCreate p)
  then show ?thesis
    using assms(1,2) by (auto simp: pg_cron_create_def Let_def locked_since_def split: sum.splits)
next
  case (SUpdate p)
  show ?thesis
  proof (cases "fst (pg_cron_update env p db) = db")
    case False
    then obtain u pl where "pe_uuid env (ks_id p) = Some u"
        "fst (pg_cron_update env p db) = db\<lparr>kb_jobs := update_where (\<lambda>j. kj_id j = u) (saved_job env p pl) (kb_jobs db)\<rparr>"
      using pg_cron_update_cases [of env p db] by auto
    moreover have "kj_id (saved_job env p pl j) = kj_id j" for j by (simp add: saved_job_def)
    ultimately show ?thesis
      using SUpdate assms(1,2) locked_since_update [OF assms(1), of "\<lambda>j. kj_id j = u" "saved_job env p pl"] by simp
  qed (use SUpdate assms(1) in simp)
next
  case (SDelete k)
  then show ?thesis
    using assms(1) by (auto simp: pg_cron_delete_def locked_since_def split: sum.splits)
next
  case (SStart k)
  have "kb_jobs (fst (pg_start_run env k db)) = kb_jobs db"
    by (auto simp: pg_start_run_def Let_def split: sum.splits)
  then show ?thesis using SStart assms(1) by (simp add: locked_since_def)
next
  case (SFinish p)
  show ?thesis
  proof (cases "kb_jobs (fst (pg_finish_run env p db)) = kb_jobs db")
    case False
    then obtain u where u: "pe_uuid env (kf_job_id p) = Some u"
        "kb_jobs (fst (pg_finish_run env p db)) = update_where (\<lambda>j. kj_id j = u) (finish_job_row (pe_now env) p) (kb_jobs db)"
      by (auto simp: pg_finish_run_def uuid_param_def result_bind_Inr_iff split: sum.splits option.splits if_splits)
    moreover have "kj_id (finish_job_row (pe_now env) p j) = kj_id j" for j by (simp add: finish_job_row_def)
    ultimately show ?thesis
      using SFinish assms(2)
        locked_since_update [OF assms(1), of "\<lambda>j. kj_id j = u" "finish_job_row (pe_now env) p"]
      by (simp add: locked_since_def)
  qed (use SFinish assms(1) in \<open>simp add: locked_since_def\<close>)
next
  case (SCleanup f d)
  then have "kb_jobs (fst (f env d db)) = kb_jobs db"
    using assms(2) by (auto simp: pg_cleanup_sessions_def pg_cleanup_outbox_def pg_cleanup_uploads_def
        pg_cleanup_presence_def Let_def)
  then show ?thesis using SCleanup assms(1) by (simp add: locked_since_def)
qed

lemma handed_out_locked:
  assumes "locked_since i t db"
    and "list_all (\<lambda>(env, x). leaves_job i (env, x) \<and> pe_now env \<le> t + cron_lock_ttl) tr"
  shows "i \<notin> set (handed_out tr db)"
  using assms by (induction tr db rule: handed_out.induct) (auto simp: exec_keeps_lock)

text \<open>
  C13. The lock is exclusive: once a worker has claimed a job, no sequence of statements of other
  workers and requests (claims, creations, edits and ends of other jobs, deletions, clean-ups)
  hands the job out again within the lock time of five minutes, unless the job itself is finished
  or edited.
\<close>

theorem cron_lock_exclusive:
  assumes "pg_claim_due env n node cron_lock_ttl db = (db', Inr js)" "j \<in> set js"
    and "list_all (\<lambda>(e, x). leaves_job (kj_id j) (e, x) \<and> pe_now e \<le> pe_now env + cron_lock_ttl) tr"
  shows "kj_id j \<notin> set (handed_out tr db')"
proof (rule handed_out_locked [OF _ assms(3)])
  show "locked_since (kj_id j) (pe_now env) db'"
    using assms(1,2) by (auto simp: pg_claim_due_def Let_def locked_since_def set_update_where split: if_splits)
qed

theorem cron_lock_exclusive_witness:
  "''j'' \<notin> set (handed_out [(demo_env 3, SClaim 5 ''b''), (demo_env 4, SClaim 5 ''c'')]
     (fst (pg_claim_due (demo_env 1) 5 ''a'' cron_lock_ttl (pg_db (demo_cron_pg [demo_job ''j'' ''worker'' ''{}'' 5])))))"
proof -
  let ?db = "pg_db (demo_cron_pg [demo_job ''j'' ''worker'' ''{}'' 5])"
  have "snd (pg_claim_due (demo_env 1) 5 ''a'' cron_lock_ttl ?db) =
      Inr [lock_job 1000 ''a'' (demo_job ''j'' ''worker'' ''{}'' 5)]" by code_simp
  then have c: "pg_claim_due (demo_env 1) 5 ''a'' cron_lock_ttl ?db =
      (fst (pg_claim_due (demo_env 1) 5 ''a'' cron_lock_ttl ?db),
       Inr [lock_job 1000 ''a'' (demo_job ''j'' ''worker'' ''{}'' 5)])"
    by (metis prod.collapse)
  have i: "kj_id (lock_job 1000 ''a'' (demo_job ''j'' ''worker'' ''{}'' 5)) = ''j''" by (simp add: demo_job_def)
  show ?thesis
    using cron_lock_exclusive [OF c, of "lock_job 1000 ''a'' (demo_job ''j'' ''worker'' ''{}'' 5)"
      "[(demo_env 3, SClaim 5 ''b''), (demo_env 4, SClaim 5 ''c'')]"] i
    by (simp add: demo_env_def cron_lock_ttl_def ns_defs del: handed_out.simps)
qed

text \<open>
  A script may run for ten minutes, but its lock lasts five: a second worker is handed a
  job that is still running, so the script is executed twice at the same time.
\<close>

lemma script_outlives_lock:
  "script_timeout ''10m'' = Some (10 * ns_minute) \<and> cron_lock_ttl < 10 * ns_minute \<and>
   (let db = pg_db (demo_cron_pg [demo_job ''j'' ''script'' ''{}'' 5]);
        a = demo_env 1; b = (demo_env 1)\<lparr>pe_now := 6 * ns_minute\<rparr>;
        (db1, r1) = pg_claim_due a 20 ''a'' cron_lock_ttl db;
        db2 = fst (pg_start_run a ''j'' db1)
    in r1 = Inr [lock_job (pe_now a) ''a'' (demo_job ''j'' ''script'' ''{}'' 5)] \<and>
       map kr_status (kb_runs db2) = [''running''] \<and>
       snd (pg_claim_due b 20 ''b'' cron_lock_ttl db2) =
         Inr [lock_job (pe_now b) ''b'' (lock_job (pe_now a) ''a'' (demo_job ''j'' ''script'' ''{}'' 5))])"
  by code_simp

section \<open>What is saved and what is run\<close>

lemma script_timeout_range: "script_timeout x = Some d \<Longrightarrow> 0 < d \<and> d \<le> 10 * ns_minute"
  by (auto simp: script_timeout_def ns_minute_def split: option.splits if_splits)



text \<open>
  Whatever the stored payload, a run is confined: it reaches the outside only by one HTTP call
  with an explicit 20-second limit, or by one script of the allowlist with a timeout of at most ten
  minutes; it changes the database only by one of the four clean-ups, which spares everything
  younger than an hour.
\<close>

lemma runner_confined:
  assumes "execute_job s job st w = (st', w', r)"
  shows "(st' = st \<and> w' = w) \<or>
    (st' = st \<and> (\<exists>c reply. hc_timeout c = 20 * ns_second \<and> kv_http s c w = (w', reply))) \<or>
    (st' = st \<and> (\<exists>name path args d out fin. kv_scripts s name = Some path \<and> path \<noteq> [] \<and>
       0 < d \<and> d \<le> 10 * ns_minute \<and> kv_exec s path args d w = (w', out, fin))) \<or>
    (w' = w \<and> (\<exists>task d count. task \<in> set cleanup_tasks \<and> ns_hour \<le> d \<and> run_cleanup s task d st = (st', count)))"
proof -
  let ?r = "trim_space (kj_runner job)" and ?p = "kj_payload job"
  consider (http) "?r = ''http''" | (cleanup) "?r = ''builtin_cleanup'' \<or> ?r = ''worker''"
    | (script) "?r = ''script''" | (other) "?r \<notin> {''http'', ''builtin_cleanup'', ''worker'', ''script''}" by auto
  then show ?thesis
  proof cases
    case http
    then have "execute_http s ?p w = (w', r)" "st' = st" using assms by (auto simp: execute_job_def split: prod.splits)
    then show ?thesis by (auto simp: execute_http_def Let_def split: option.splits prod.splits sum.splits if_splits)
  next
    case script
    then have "execute_script s ?p w = (w', r)" "st' = st" using assms by (auto simp: execute_job_def split: prod.splits)
    then show ?thesis
      using script_timeout_range
      by (fastforce simp: execute_script_def script_path_def Let_def split: option.splits prod.splits if_splits)
  next
    case cleanup
    then have x: "execute_cleanup s ?p st = (st', r)" "w' = w" using assms by (auto simp: execute_job_def split: prod.splits)
    show ?thesis
    proof (cases "st' = st")
      case False
      obtain p where p: "decode_cleanup_payload ?p = Some p" using x(1) False by (auto simp: execute_cleanup_def split: option.splits)
      let ?task = "trim_space (ku_task p)" and ?text = "trim_space (ku_older_than p)"
      let ?d = "if ?text = [] then cleanup_retention ?task else the (parse_duration ?text)"
      have d: "ns_hour \<le> ?d" and run: "\<exists>c. run_cleanup s ?task ?d st = (st', c)"
        using x(1) False p
        by (auto simp: execute_cleanup_def Let_def cleanup_retention_def ns_hour_def not_less
            split: if_splits prod.splits sum.splits)
      have "?task \<in> set cleanup_tasks" using run False by (auto simp: run_cleanup_def cleanup_tasks_def split: if_splits)
      with d run x(2) show ?thesis by blast
    qed (use x(2) in simp)
  next
    case other
    then show ?thesis using assms by (simp add: execute_job_def)
  qed
qed

lemma runner_confined_witness:
  "\<exists>path args d out fin. kv_scripts demo_cron_service ''sync'' = Some path \<and> d \<le> 10 * ns_minute \<and>
     kv_exec demo_cron_service path args d 0 = (300000000000, out, fin)"
proof -
  let ?job = "demo_job ''j'' ''script'' ''{\"name\":\"SYNC\",\"timeout\":\"5m\"}'' 5"
  let ?x = "execute_job demo_cron_service ?job (demo_cron_pg [?job]) 0"
  have w: "fst (snd ?x) = 300000000000" by code_simp
  obtain st' r where x: "?x = (st', 300000000000, r)" using w by (metis prod.collapse)
  have "kv_http demo_cron_service c 0 = (0, Inl (Plain ''offline''))" for c by (simp add: demo_cron_service_def)
  moreover have "kv_scripts demo_cron_service name = Some path \<longleftrightarrow> name = ''sync'' \<and> path = ''/opt/sync''" for name path
    by (auto simp: demo_cron_service_def)
  ultimately show ?thesis using runner_confined [OF x] by auto
qed

section \<open>Jobs that never end\<close>

lemma finish_text_error:
  assumes "quiet_pg s" "\<not> pg_text_ok (kf_log p)"
  shows "kq_finish_run (cron_pg coll) p s = (s\<lparr>pg_tick := Suc (pg_tick s)\<rparr>, Inl encoding_error)"
  using assms by (simp add: cron_pg_def pg_run_def quiet_pg_def pg_finish_run_def uuid_param_def Let_def)

text \<open>
  When the output of a script is not valid UTF-8 or holds a NUL byte, the end of its run cannot
  be stored: the job keeps its lock and its due time, its run stays "running", the error stops the
  remaining jobs of the batch, and once the lock is stale the job is due again, so its script is
  executed again and again.
\<close>

lemma unstorable_log_blocks_job:
  assumes "quiet_pg st" "kv_repo s = cron_pg coll" "kj_id job \<in> kj_id ` set (kb_jobs (pg_db st))"
    and "trim_space (kj_runner job) = ''script''" "execute_script s (kj_payload job) w = (w', r)"
    and "\<not> pg_text_ok (kx_log r)"
  shows "\<exists>st'. run_jobs s (job # jobs) st w = (st', w', Some encoding_error) \<and>
    kb_jobs (pg_db st') = kb_jobs (pg_db st) \<and> kr_status (last (kb_runs (pg_db st'))) = ''running''"
proof -
  let ?env = "pg_envs st (pg_tick st)"
  define row where "row = \<lparr>kr_id = pe_fresh ?env, kr_job_id = kj_id job, kr_status = ''running'',
    kr_started_at = pe_now ?env, kr_finished_at = None, kr_log = None, kr_error = None\<rparr>"
  define st1 where "st1 = st\<lparr>pg_db := (pg_db st)\<lparr>kb_runs := kb_runs (pg_db st) @ [row]\<rparr>, pg_tick := Suc (pg_tick st)\<rparr>"
  have "pg_start_run ?env (kj_id job) (pg_db st) = ((pg_db st)\<lparr>kb_runs := kb_runs (pg_db st) @ [row]\<rparr>, Inr row)"
    using assms(1,3) by (simp add: pg_start_run_def uuid_param_def quiet_pg_def row_def Let_def)
  from pg_run_quiet [of st "\<lambda>env. pg_start_run env (kj_id job)", OF assms(1) this]
  have 1: "kq_start_run (cron_pg coll) (kj_id job) st = (st1, Inr row)" by (simp add: cron_pg_def st1_def)
  have 2: "execute_job s job st1 w = (st1, w', r)" using assms(4,5) by (simp add: execute_job_def)
  have q: "quiet_pg st1" using assms(1) by (simp add: st1_def)
  have "run_job s job st w = (st1\<lparr>pg_tick := Suc (pg_tick st1)\<rparr>, w', Inl encoding_error)"
    using assms(2,6) 1 2 finish_text_error [OF q] by (simp add: run_job_def Let_def)
  then show ?thesis by (simp add: st1_def row_def)
qed

lemma unstorable_log_blocks_job_witness:
  "\<exists>st'. run_jobs demo_cron_service [demo_job ''j'' ''script'' ''{\"name\":\"sync\"}'' 5, demo_job ''k'' ''worker'' ''{}'' 5]
     (demo_cron_pg [demo_job ''j'' ''script'' ''{\"name\":\"sync\"}'' 5, demo_job ''k'' ''worker'' ''{}'' 5]) 0 =
     (st', 60000000000, Some encoding_error)"
proof -
  let ?j = "demo_job ''j'' ''script'' ''{\"name\":\"sync\"}'' 5" and ?k = "demo_job ''k'' ''worker'' ''{}'' 5"
  have x: "execute_script demo_cron_service (kj_payload ?j) 0 =
      (60000000000, \<lparr>kx_status = ''success'', kx_log = [CHR 0x00], kx_error = []\<rparr>)" by code_simp
  have q: "quiet_pg (demo_cron_pg [?j, ?k])" by (simp add: quiet_pg_def demo_cron_pg_def demo_env_def)
  have m: "kj_id ?j \<in> kj_id ` set (kb_jobs (pg_db (demo_cron_pg [?j, ?k])))" by (simp add: demo_cron_pg_def)
  have r: "trim_space (kj_runner ?j) = ''script''" by code_simp
  have svc: "kv_repo demo_cron_service = cron_pg (\<lambda>_. 0)" by (simp add: demo_cron_service_def)
  have bad: "\<not> pg_text_ok (kx_log \<lparr>kx_status = ''success'', kx_log = [CHR 0x00], kx_error = []\<rparr>)"
    by (simp add: pg_text_ok_def)
  from unstorable_log_blocks_job [OF q svc m r x bad, of "[?k]"] show ?thesis by blast
qed










end
