(* ===== verification/Go_Net.thy ===== *)
theory Go_Net
  imports Go_Url
begin

text \<open>
  \<open>net.ParseIP\<close> (is the text an address without a zone?) and \<open>net.SplitHostPort\<close>, as Go 1.25
  implements them.
\<close>

section \<open>Addresses\<close>

definition ipv4_field :: "string \<Rightarrow> bool" where
  "ipv4_field f \<longleftrightarrow> f \<noteq> [] \<and> list_all is_digit f \<and> digits_val f \<le> 255 \<and> (length f = 1 \<or> hd f \<noteq> CHR ''0'')"

definition is_ipv4 :: "string \<Rightarrow> bool" where
  "is_ipv4 s \<longleftrightarrow> length (split_on (CHR ''.'') s) = 4 \<and> list_all ipv4_field (split_on (CHR ''.'') s)"

definition is_hex :: "char \<Rightarrow> bool" where
  "is_hex c \<longleftrightarrow> hex_val c \<noteq> None"

text \<open>
  The groups of an IPv6 address that still fit (\<open>n\<close>), with \<open>el\<close> telling whether \<open>::\<close> was seen.
\<close>

fun ipv6_groups :: "nat \<Rightarrow> bool \<Rightarrow> string \<Rightarrow> bool" where
  "ipv6_groups 0 el s = False"
| "ipv6_groups (Suc n) el s =
    (let ds = takeWhile is_hex s; rest = dropWhile is_hex s
     in if ds = [] \<or> 4 < length ds then False
        else if rest = [] then (if n = 0 then \<not> el else el)
        else if hd rest = CHR ''.'' then
          n \<noteq> 0 \<and> (el \<or> n = 1) \<and> is_ipv4 s \<and> (if n = 1 then \<not> el else el)
        else if hd rest \<noteq> CHR '':'' \<or> length rest = 1 then False
        else if hd (tl rest) = CHR '':''
        then \<not> el \<and> (if tl (tl rest) = [] then n \<noteq> 0 else ipv6_groups n True (tl (tl rest)))
        else ipv6_groups n el (tl rest))"

definition is_ipv6 :: "string \<Rightarrow> bool" where
  "is_ipv6 s \<longleftrightarrow>
     (if has_prefix s ''::'' then drop 2 s = [] \<or> ipv6_groups 8 True (drop 2 s) else ipv6_groups 8 False s)"

definition is_ip :: "string \<Rightarrow> bool" where
  "is_ip s \<longleftrightarrow>
     (case dropWhile (\<lambda>c. c \<notin> set ''.:%'') s of
        [] \<Rightarrow> False
      | c # _ \<Rightarrow> if c = CHR ''.'' then is_ipv4 s
                 else if c = CHR '':'' then CHR ''%'' \<notin> set s \<and> is_ipv6 s else False)"

section \<open>SplitHostPort\<close>

definition net_split_host_port :: "string \<Rightarrow> (string \<times> string) option" where
  "net_split_host_port s =
    (case split_last (CHR '':'') s of
       None \<Rightarrow> None
     | Some (before_colon, colon_port) \<Rightarrow>
         if has_prefix s ''['' then
           (let host = takeWhile (\<lambda>c. c \<noteq> CHR '']'') (tl s);
                after = drop (length host + 2) s
            in if CHR '']'' \<notin> set s \<or> length s < length host + 2 \<or> length host + 2 \<noteq> length before_colon then None
               else if CHR ''['' \<in> set (tl s) \<or> CHR '']'' \<in> set after then None
               else Some (host, tl colon_port))
         else if CHR '':'' \<in> set before_colon \<or> CHR ''['' \<in> set s \<or> CHR '']'' \<in> set s then None
         else Some (before_colon, tl colon_port))"

end
