(* ===== verification/Tenancy_Domain.thy ===== *)
theory Tenancy_Domain
  imports Go_Net Shared
begin

text \<open>
  \<open>NormalizeDomain\<close> of \<open>tenancy/application/service.go\<close>: the one function every lookup of a zone
  by domain goes through.
\<close>

definition err_domain_invalid :: go_error where "err_domain_invalid = Sentinel ''ErrDomainInvalid''"

section \<open>The domain pattern\<close>

definition label_char :: "char \<Rightarrow> bool" where
  "label_char c \<longleftrightarrow> is_digit c \<or> (97 \<le> byte c \<and> byte c \<le> 122) \<or> c = CHR ''-''"

definition fqdn_label :: "string \<Rightarrow> bool" where
  "fqdn_label l \<longleftrightarrow> l \<noteq> [] \<and> length l \<le> 63 \<and> list_all label_char l \<and> hd l \<noteq> CHR ''-'' \<and> last l \<noteq> CHR ''-''"

definition fqdn_tld :: "string \<Rightarrow> bool" where
  "fqdn_tld l \<longleftrightarrow> 2 \<le> length l \<and> length l \<le> 63 \<and> list_all (\<lambda>c. 97 \<le> byte c \<and> byte c \<le> 122) l"

text \<open>\<open>fqdnPattern.MatchString\<close>: at least one label, then the top-level domain.\<close>

definition is_fqdn :: "string \<Rightarrow> bool" where
  "is_fqdn s \<longleftrightarrow>
     (let ls = split_on (CHR ''.'') s
      in 2 \<le> length ls \<and> list_all fqdn_label (butlast ls) \<and> fqdn_tld (last ls))"

section \<open>Normalisation\<close>

definition trim_cut :: "string \<Rightarrow> string \<Rightarrow> string" where
  "trim_cut cs s = rev (dropWhile (\<lambda>c. c \<in> set cs) (rev (dropWhile (\<lambda>c. c \<in> set cs) s)))"

definition trim_suffix :: "string \<Rightarrow> string \<Rightarrow> string" where
  "trim_suffix s suf =
    (if length suf \<le> length s \<and> drop (length s - length suf) s = suf then take (length s - length suf) s else s)"

text \<open>The host part: of a URL, or what stands before the first slash.\<close>

definition domain_host :: "string \<Rightarrow> string option" where
  "domain_host value =
    (if contains value ''://'' then map_option snd (url_parse value)
     else Some (takeWhile (\<lambda>c. c \<noteq> CHR ''/'') value))"

definition drop_port :: "string \<Rightarrow> string" where
  "drop_port host =
    (case net_split_host_port host of
       Some (h, _) \<Rightarrow> h
     | None \<Rightarrow>
         (case split_last (CHR '':'') host of
            None \<Rightarrow> host
          | Some (before_colon, colon_port) \<Rightarrow> if atoi (tl colon_port) = None then host else before_colon))"

definition normalize_domain :: "string \<Rightarrow> string result" where
  "normalize_domain raw =
    (let value = to_lower (trim_space raw) in
     if value = [] then Inl err_domain_invalid
     else case domain_host value of
         None \<Rightarrow> Inl err_domain_invalid
       | Some host0 \<Rightarrow>
           if CHR ''@'' \<in> set host0 then Inl err_domain_invalid
           else
             (let host = trim_cut ''[]'' (drop_port (trim_suffix host0 ''.''))
              in if host = ''localhost'' then Inr host
                 else if is_ip host then Inr host
                 else if 253 < length host \<or> contains_any host '' _*'' \<or> \<not> is_fqdn host
                 then Inl err_domain_invalid
                 else Inr host))"

end
