(* ===== verification/Auth_Domain.thy ===== *)
theory Auth_Domain
  imports Tenancy_Domain Token_Manager
begin

text \<open>
  The data of the auth module: \<open>auth/domain/model.go\<close>, the inputs, parameters and DTOs of
  \<open>auth/application/service.go\<close>, and its pure functions (normalisation of the inputs, device names,
  user names of Google accounts). \<open>net/mail.ParseAddress\<close> enters as the predicate that tells whether it
  accepts a text.
\<close>

section \<open>Errors, users and sessions\<close>

definition err_user_not_found :: go_error where "err_user_not_found = Sentinel ''ErrUserNotFound''"
definition err_user_exists :: go_error where "err_user_exists = Sentinel ''ErrUserAlreadyExists''"
definition err_session_not_found :: go_error where "err_session_not_found = Sentinel ''ErrSessionNotFound''"
definition err_session_expired :: go_error where "err_session_expired = Sentinel ''ErrSessionExpired''"
definition err_session_revoked :: go_error where "err_session_revoked = Sentinel ''ErrSessionRevoked''"
definition err_zone_not_found :: go_error where "err_zone_not_found = Sentinel ''ErrZoneNotFound''"
definition err_zone_access_denied :: go_error where "err_zone_access_denied = Sentinel ''ErrZoneAccessDenied''"
definition err_registration_closed :: go_error where "err_registration_closed = Sentinel ''ErrRegistrationClosed''"
definition err_invite_required :: go_error where "err_invite_required = Sentinel ''ErrInviteRequired''"

lemmas auth_error_defs [go_defs] = err_user_not_found_def err_user_exists_def err_session_not_found_def
  err_session_expired_def err_session_revoked_def err_zone_not_found_def err_zone_access_denied_def
  err_registration_closed_def err_invite_required_def

record user =
  ur_id :: string
  ur_email :: string
  ur_username :: string
  ur_display_name :: string
  ur_password_hash :: string
  ur_avatar_url :: "string option"
  ur_status :: string
  ur_locale :: string
  ur_timezone :: string
  ur_email_verified_at :: "time option"
  ur_last_seen_at :: "time option"
  ur_registration_ip :: "string option"
  ur_registration_device :: "string option"
  ur_last_ip :: "string option"
  ur_device_name :: "string option"
  ur_created_at :: time
  ur_updated_at :: time

record session =
  sn_id :: string
  sn_user_id :: string
  sn_zone_id :: string
  sn_workspace_id :: string
  sn_domain :: string
  sn_hash :: string
  sn_device_name :: "string option"
  sn_ip_address :: "string option"
  sn_user_agent :: "string option"
  sn_expires_at :: time
  sn_revoked_at :: "time option"
  sn_created_at :: time
  sn_updated_at :: time

definition session_active :: "time \<Rightarrow> session \<Rightarrow> go_error option" where
  "session_active now s =
    (if sn_id s = [] then Some err_session_not_found
     else if sn_revoked_at s \<noteq> None then Some err_session_revoked
     else if \<not> now < sn_expires_at s then Some err_session_expired
     else None)"

section \<open>Inputs and parameters\<close>

record register_input =
  ri_email :: string
  ri_username :: string
  ri_display_name :: string
  ri_domain :: string
  ri_invite_token :: string
  ri_password :: string
  ri_device_name :: string
  ri_ip_address :: string
  ri_user_agent :: string

record login_input =
  li_identifier :: string
  li_password :: string
  li_domain :: string
  li_device_name :: string
  li_ip_address :: string
  li_user_agent :: string

record google_input =
  gl_subject :: string
  gl_email :: string
  gl_email_verified :: bool
  gl_display_name :: string
  gl_avatar_url :: string
  gl_domain :: string
  gl_device_name :: string
  gl_ip_address :: string
  gl_user_agent :: string

record refresh_input =
  rf_token :: string
  rf_domain :: string

record zone_access =
  za_zone_id :: string
  za_zone_slug :: string
  za_zone_name :: string
  za_zone_kind :: string
  za_zone_status :: string
  za_mode :: string
  za_workspace_id :: string
  za_workspace_slug :: string
  za_domain :: string

record create_user_params =
  up_email :: string
  up_username :: string
  up_display_name :: string
  up_password_hash :: string
  up_device_name :: string
  up_ip_address :: string
  up_user_agent :: string
  up_avatar_url :: string
  up_email_verified :: bool
  up_zone :: zone_access
  up_invite_token :: string

record last_login_params =
  ll_user_id :: string
  ll_seen_at :: time
  ll_device_name :: string
  ll_ip_address :: string
  ll_user_agent :: string

record create_session_params =
  cx_user_id :: string
  cx_zone_id :: string
  cx_workspace_id :: string
  cx_domain :: string
  cx_hash :: string
  cx_device_name :: string
  cx_ip_address :: string
  cx_user_agent :: string
  cx_expires_at :: time

record rotate_params =
  ro_session_id :: string
  ro_user_id :: string
  ro_hash :: string
  ro_expires_at :: time

text \<open>The metadata map is its entries in the order of the keys, as \<open>json.Marshal\<close> writes it.\<close>

record audit_event =
  av_actor :: string
  av_zone_id :: string
  av_workspace_id :: string
  av_action :: string
  av_entity_type :: string
  av_entity_id :: string
  av_ip_address :: string
  av_user_agent :: string
  av_metadata :: "(string \<times> string) list"

section \<open>Results\<close>

record token_dto =
  td_access_token :: string
  td_refresh_token :: string
  td_token_type :: string
  td_access_expires_at :: string
  td_refresh_expires_at :: string

record auth_zone_dto =
  tz_id :: string
  tz_slug :: string
  tz_name :: string
  tz_kind :: string
  tz_domain :: string
  tz_workspace_id :: string

record user_dto =
  ud_id :: string
  ud_email :: string
  ud_username :: string
  ud_display_name :: string
  ud_avatar_url :: "string option"
  ud_status :: string
  ud_locale :: string
  ud_timezone :: string
  ud_email_verified_at :: "string option"
  ud_last_seen_at :: "string option"
  ud_registration_ip :: "string option"
  ud_registration_device :: "string option"
  ud_last_ip :: "string option"
  ud_device_name :: "string option"
  ud_created_at :: string
  ud_updated_at :: string

record session_dto =
  sd_id :: string
  sd_zone_id :: string
  sd_workspace_id :: string
  sd_domain :: string
  sd_device_name :: "string option"
  sd_ip_address :: "string option"
  sd_user_agent :: "string option"
  sd_expires_at :: string
  sd_revoked_at :: "string option"
  sd_created_at :: string

record auth_result =
  ar_user :: user_dto
  ar_tokens :: token_dto
  ar_zone :: auth_zone_dto
  ar_session_id :: string
  ar_refresh_until :: string

record refresh_result =
  rr_tokens :: token_dto
  rr_zone :: auth_zone_dto
  rr_session_id :: string
  rr_refresh_until :: string

definition to_user_dto :: "user \<Rightarrow> user_dto" where
  "to_user_dto u =
    \<lparr>ud_id = ur_id u, ud_email = ur_email u, ud_username = ur_username u,
     ud_display_name = ur_display_name u, ud_avatar_url = ur_avatar_url u, ud_status = ur_status u,
     ud_locale = ur_locale u, ud_timezone = ur_timezone u,
     ud_email_verified_at = format_optional_time (ur_email_verified_at u),
     ud_last_seen_at = format_optional_time (ur_last_seen_at u),
     ud_registration_ip = ur_registration_ip u, ud_registration_device = ur_registration_device u,
     ud_last_ip = ur_last_ip u, ud_device_name = ur_device_name u,
     ud_created_at = format_time (ur_created_at u), ud_updated_at = format_time (ur_updated_at u)\<rparr>"

definition to_session_dto :: "session \<Rightarrow> session_dto" where
  "to_session_dto s =
    \<lparr>sd_id = sn_id s, sd_zone_id = sn_zone_id s, sd_workspace_id = sn_workspace_id s,
     sd_domain = sn_domain s, sd_device_name = sn_device_name s, sd_ip_address = sn_ip_address s,
     sd_user_agent = sn_user_agent s, sd_expires_at = format_time (sn_expires_at s),
     sd_revoked_at = format_optional_time (sn_revoked_at s), sd_created_at = format_time (sn_created_at s)\<rparr>"

definition to_auth_zone_dto :: "zone_access \<Rightarrow> auth_zone_dto" where
  "to_auth_zone_dto t =
    \<lparr>tz_id = za_zone_id t, tz_slug = za_zone_slug t, tz_name = za_zone_name t, tz_kind = za_zone_kind t,
     tz_domain = za_domain t, tz_workspace_id = za_workspace_id t\<rparr>"

section \<open>Normalisation\<close>

definition unknown_device :: string where
  "unknown_device = ''Thiet bi khong xac dinh''"

definition device_of :: "string \<Rightarrow> string" where
  "device_of ua =
    (if contains ua ''iphone'' then ''iPhone''
     else if contains ua ''ipad'' then ''iPad''
     else if contains ua ''android'' then ''Android''
     else if contains ua ''windows'' then ''Windows''
     else if contains ua ''macintosh'' \<or> contains ua ''mac os'' then ''macOS''
     else if contains ua ''linux'' then ''Linux''
     else unknown_device)"

definition browser_of :: "string \<Rightarrow> string" where
  "browser_of ua =
    (if contains ua ''edg/'' then ''Edge''
     else if contains ua ''opr/'' \<or> contains ua ''opera'' then ''Opera''
     else if contains ua ''firefox/'' then ''Firefox''
     else if contains ua ''chrome/'' \<or> contains ua ''crios/'' then ''Chrome''
     else if contains ua ''safari/'' then ''Safari''
     else [])"

definition detect_device_name :: "string \<Rightarrow> string" where
  "detect_device_name user_agent =
    (let ua = to_lower (trim_space user_agent) in
     if ua = [] then unknown_device
     else if browser_of ua = [] then device_of ua
     else device_of ua @ '' - '' @ browser_of ua)"

definition normalize_client_info :: "string \<Rightarrow> string \<Rightarrow> string \<Rightarrow> string \<times> string \<times> string" where
  "normalize_client_info device ip user_agent =
    (let ua = trim_space user_agent; name = trim_space device
     in (if name = [] then detect_device_name ua else name, trim_space ip, ua))"

definition username_first :: "char \<Rightarrow> bool" where
  "username_first c \<longleftrightarrow> is_digit c \<or> (97 \<le> byte c \<and> byte c \<le> 122)"

definition username_char :: "char \<Rightarrow> bool" where
  "username_char c \<longleftrightarrow> username_first c \<or> c \<in> set ''_.-''"

text \<open>\<open>usernamePattern\<close>.\<close>

definition valid_username :: "string \<Rightarrow> bool" where
  "valid_username s \<longleftrightarrow>
     s \<noteq> [] \<and> username_first (hd s) \<and> 2 \<le> length (tl s) \<and> length (tl s) \<le> 39 \<and> list_all username_char (tl s)"

definition trim_register_input :: "register_input \<Rightarrow> register_input" where
  "trim_register_input i =
    (case normalize_client_info (ri_device_name i) (ri_ip_address i) (ri_user_agent i) of
       (device, ip, ua) \<Rightarrow>
         i\<lparr>ri_email := to_lower (trim_space (ri_email i)),
           ri_username := to_lower (trim_space (ri_username i)),
           ri_display_name := trim_space (ri_display_name i), ri_domain := trim_space (ri_domain i),
           ri_invite_token := trim_space (ri_invite_token i), ri_password := trim_space (ri_password i),
           ri_device_name := device, ri_ip_address := ip, ri_user_agent := ua\<rparr>)"

definition normalize_register :: "(string \<Rightarrow> bool) \<Rightarrow> register_input \<Rightarrow> register_input result" where
  "normalize_register parse_address input0 =
    (let input = trim_register_input input0 in
     if \<not> parse_address (ri_email input)
     then Inl (bad_request ''VALIDATION_ERROR'' ''Email khong dung dinh dang.'')
     else if \<not> valid_username (ri_username input)
     then Inl (bad_request ''VALIDATION_ERROR'' ''Username phai dai 3-40 ky tu.'')
     else if ri_display_name input = [] \<or> 120 < rune_count (ri_display_name input)
     then Inl (bad_request ''VALIDATION_ERROR'' ''Ten hien thi phai dai tu 1 den 120 ky tu.'')
     else case normalize_domain (ri_domain input) of
         Inl e \<Rightarrow> Inl (bad_request ''INVALID_DOMAIN'' ''Domain server khong dung dinh dang.'')
       | Inr domain \<Rightarrow>
           if rune_count (ri_password input) < 8
           then Inl (bad_request ''VALIDATION_ERROR'' ''Mat khau phai co it nhat 8 ky tu.'')
           else Inr (input\<lparr>ri_domain := domain\<rparr>))"

definition normalize_login :: "login_input \<Rightarrow> login_input" where
  "normalize_login i =
    (case normalize_client_info (li_device_name i) (li_ip_address i) (li_user_agent i) of
       (device, ip, ua) \<Rightarrow>
         i\<lparr>li_identifier := to_lower (trim_space (li_identifier i)), li_password := trim_space (li_password i),
           li_domain := trim_space (li_domain i), li_device_name := device, li_ip_address := ip,
           li_user_agent := ua\<rparr>)"

definition normalize_google :: "google_input \<Rightarrow> google_input" where
  "normalize_google i =
    (case normalize_client_info (gl_device_name i) (gl_ip_address i) (gl_user_agent i) of
       (device, ip, ua) \<Rightarrow>
         i\<lparr>gl_subject := trim_space (gl_subject i), gl_email := to_lower (trim_space (gl_email i)),
           gl_display_name := trim_space (gl_display_name i), gl_avatar_url := trim_space (gl_avatar_url i),
           gl_device_name := device, gl_ip_address := ip, gl_user_agent := ua\<rparr>)"

text \<open>The runs of bytes outside \<open>[a-z0-9_.-]\<close> become one dash each.\<close>

fun dash_runs :: "bool \<Rightarrow> string \<Rightarrow> string" where
  "dash_runs open [] = []"
| "dash_runs open (c # s) =
    (if username_char c then c # dash_runs False s
     else if open then dash_runs True s else CHR ''-'' # dash_runs True s)"

definition email_local :: "string \<Rightarrow> string" where
  "email_local email = hd (split_on (CHR ''@'') email)"

definition google_username :: "string \<Rightarrow> string \<Rightarrow> string" where
  "google_username email subject =
    (let name = trim_cut ''-._'' (dash_runs False (to_lower (email_local email)));
         local = (if name = [] then ''google-user'' else name)
     in take 27 local @ ''-'' @ hex_encode (take 4 (sha256 subject)))"

end
