(* ===== verification/Auth_Service.thy ===== *)
theory Auth_Service
  imports Auth_Domain Pg_Tx
begin

text \<open>
  \<open>auth/application/service.go\<close> over its \<open>Repository\<close> interface. An operation is a function on the
  state of the repository; \<open>tx_bind\<close> is a call followed by \<open>if err != nil\<close> with an early return. One
  request reads the clocks of the token manager and of the service, the random source and
  \<open>bcrypt.GenerateFromPassword\<close> (whose salt is random) at most once each for one purpose; \<open>auth_env\<close>
  holds what they return. \<open>bcrypt.CompareHashAndPassword\<close> and \<open>mail.ParseAddress\<close> are functions of the
  service.
\<close>

record 's auth_repo =
  ag_create_user :: "create_user_params \<Rightarrow> ('s, user) stmt"
  ag_resolve_zone :: "string \<Rightarrow> ('s, zone_access) stmt"
  ag_ensure_access :: "string \<Rightarrow> zone_access \<Rightarrow> ('s, unit) stmt"
  ag_find_user_by_id :: "string \<Rightarrow> ('s, user) stmt"
  ag_find_user :: "string \<Rightarrow> ('s, user) stmt"
  ag_update_last_login :: "last_login_params \<Rightarrow> ('s, unit) stmt"
  ag_create_session :: "create_session_params \<Rightarrow> ('s, session) stmt"
  ag_find_session :: "string \<Rightarrow> ('s, session) stmt"
  ag_rotate_session :: "rotate_params \<Rightarrow> ('s, session) stmt"
  ag_revoke_by_hash :: "string \<Rightarrow> time \<Rightarrow> ('s, unit) stmt"
  ag_revoke_by_id :: "string \<Rightarrow> string \<Rightarrow> string \<Rightarrow> time \<Rightarrow> ('s, unit) stmt"
  ag_revoke_all :: "string \<Rightarrow> string \<Rightarrow> time \<Rightarrow> ('s, unit) stmt"
  ag_list_sessions :: "string \<Rightarrow> string \<Rightarrow> ('s, session list) stmt"
  ag_record_audit :: "audit_event \<Rightarrow> ('s, unit) stmt"

record 's auth_service =
  az_repo :: "'s auth_repo"
  az_tokens :: token_manager
  az_parse_address :: "string \<Rightarrow> bool"
  az_verify :: "string \<Rightarrow> string \<Rightarrow> bool"

record auth_env =
  ax_now_access :: time
  ax_now_refresh :: time
  ax_now :: time
  ax_refresh_rand :: "string result"
  ax_password_rand :: "string result"
  ax_hash :: "string \<Rightarrow> string result"

section \<open>Zones\<close>

definition zone_error :: "go_error \<Rightarrow> go_error" where
  "zone_error e =
    (if errors_is e ''ErrZoneNotFound'' then not_found ''ZONE_NOT_FOUND'' ''Domain chua san sang cho dang nhap.''
     else if errors_is e ''ErrZoneAccessDenied''
     then forbidden ''Tai khoan khong co quyen truy cap zone nay.''
     else if errors_is e ''ErrRegistrationClosed''
     then forbidden ''Zone nay khong cho phep dang ky tai khoan moi.''
     else e)"

definition resolve_zone_access :: "'s auth_service \<Rightarrow> string \<Rightarrow> ('s, zone_access) stmt" where
  "resolve_zone_access s raw =
    (case normalize_domain raw of
       Inl _ \<Rightarrow> tx_fail (bad_request ''INVALID_DOMAIN'' ''Domain server khong dung dinh dang.'')
     | Inr domain \<Rightarrow> tx_map_error zone_error (ag_resolve_zone (az_repo s) domain))"

definition access_error :: "go_error \<Rightarrow> go_error" where
  "access_error e =
    (if errors_is e ''ErrZoneAccessDenied'' then forbidden ''Tai khoan khong phai thanh vien cua zone nay.''
     else if errors_is e ''ErrZoneNotFound''
     then not_found ''ZONE_NOT_FOUND'' ''Zone hoac workspace khong con kha dung.''
     else e)"

definition ensure_zone_workspace_access :: "'s auth_service \<Rightarrow> string \<Rightarrow> zone_access \<Rightarrow> ('s, unit) stmt" where
  "ensure_zone_workspace_access s user target =
    tx_map_error access_error (ag_ensure_access (az_repo s) user target)"

section \<open>Tokens\<close>

definition token_dto_of :: "string \<Rightarrow> string \<Rightarrow> time \<Rightarrow> time \<Rightarrow> token_dto" where
  "token_dto_of access refresh access_expires refresh_expires =
    \<lparr>td_access_token = access, td_refresh_token = refresh, td_token_type = ''Bearer'',
     td_access_expires_at = format_time access_expires, td_refresh_expires_at = format_time refresh_expires\<rparr>"

definition access_token_for :: "'s auth_service \<Rightarrow> auth_env \<Rightarrow> user \<Rightarrow> zone_access \<Rightarrow> string \<times> time" where
  "access_token_for s x user target =
    create_zone_access_token (az_tokens s) (ax_now_access x) (ur_id user) (ur_email user) (ur_username user)
      (za_zone_id target) (za_workspace_id target) (za_domain target)"

definition refresh_token_for :: "'s auth_service \<Rightarrow> auth_env \<Rightarrow> (string \<times> time) result" where
  "refresh_token_for s x =
    (case new_refresh_token (az_tokens s) (ax_now_refresh x) (ax_refresh_rand x) of
       Inl _ \<Rightarrow> Inl (internal ''Khong tao duoc refresh token.'')
     | Inr r \<Rightarrow> Inr r)"

definition session_params_of ::
    "'s auth_service \<Rightarrow> user \<Rightarrow> zone_access \<Rightarrow> string \<times> string \<times> string \<Rightarrow> string \<times> time \<Rightarrow> create_session_params"
where
  "session_params_of s user target client refresh =
    (case client of (device, ip, agent) \<Rightarrow>
       \<lparr>cx_user_id = ur_id user, cx_zone_id = za_zone_id target, cx_workspace_id = za_workspace_id target,
        cx_domain = za_domain target, cx_hash = hash_refresh_token (az_tokens s) (fst refresh),
        cx_device_name = trim_space device, cx_ip_address = trim_space ip, cx_user_agent = trim_space agent,
        cx_expires_at = snd refresh\<rparr>)"

definition issue_tokens ::
    "'s auth_service \<Rightarrow> auth_env \<Rightarrow> user \<Rightarrow> zone_access \<Rightarrow> string \<times> string \<times> string \<Rightarrow> ('s, auth_result) stmt" where
  "issue_tokens s x user target client =
    tx_bind (tx_lift (refresh_token_for s x)) (\<lambda>refresh.
    tx_bind (ag_create_session (az_repo s) (session_params_of s user target client refresh)) (\<lambda>sess.
    tx_return
      \<lparr>ar_user = to_user_dto user,
       ar_tokens = token_dto_of (fst (access_token_for s x user target)) (fst refresh)
         (snd (access_token_for s x user target)) (sn_expires_at sess),
       ar_zone = to_auth_zone_dto target, ar_session_id = sn_id sess,
       ar_refresh_until = format_time (sn_expires_at sess)\<rparr>))"

section \<open>Audit\<close>

definition user_event :: "string \<Rightarrow> zone_access \<Rightarrow> string \<Rightarrow> string \<Rightarrow> string \<Rightarrow> (string \<times> string) list \<Rightarrow> audit_event" where
  "user_event action target user ip agent metadata =
    \<lparr>av_actor = user, av_zone_id = za_zone_id target, av_workspace_id = za_workspace_id target,
     av_action = action, av_entity_type = ''user'', av_entity_id = user, av_ip_address = ip,
     av_user_agent = agent, av_metadata = metadata\<rparr>"

definition failed_login_event :: "string \<Rightarrow> login_input \<Rightarrow> zone_access \<Rightarrow> string \<Rightarrow> audit_event" where
  "failed_login_event user input target reason =
    user_event ''auth.login_failed'' target user (li_ip_address input) (li_user_agent input)
      [(''domain'', za_domain target),
       (''identifier_sha256'', hex_encode (sha256 (to_lower (trim_space (li_identifier input))))),
       (''reason'', reason)]"

definition record_failed_login :: "'s auth_service \<Rightarrow> string \<Rightarrow> login_input \<Rightarrow> zone_access \<Rightarrow> string \<Rightarrow> ('s, unit) stmt" where
  "record_failed_login s user input target reason =
    tx_ignore (ag_record_audit (az_repo s) (failed_login_event user input target reason))"

definition refused_login :: "'s auth_service \<Rightarrow> string \<Rightarrow> login_input \<Rightarrow> zone_access \<Rightarrow> string \<Rightarrow> go_error \<Rightarrow> ('s, 'a) stmt" where
  "refused_login s user input target reason e =
    tx_then (record_failed_login s user input target reason) (tx_fail e)"

section \<open>Registration\<close>

definition create_user_error :: "go_error \<Rightarrow> go_error" where
  "create_user_error e =
    (if errors_is e ''ErrUserAlreadyExists'' then conflict ''USER_ALREADY_EXISTS'' ''Email hoac username da ton tai.''
     else if errors_is e ''ErrInviteRequired''
     then forbidden ''Zone nay yeu cau invite token hop le de dang ky.''
     else if errors_is e ''ErrRegistrationClosed''
     then forbidden ''Zone nay dang dong dang ky tai khoan moi.''
     else e)"

definition registered_params :: "register_input \<Rightarrow> string \<Rightarrow> zone_access \<Rightarrow> create_user_params" where
  "registered_params n hash target =
    \<lparr>up_email = ri_email n, up_username = ri_username n, up_display_name = ri_display_name n,
     up_password_hash = hash, up_device_name = ri_device_name n, up_ip_address = ri_ip_address n,
     up_user_agent = ri_user_agent n, up_avatar_url = [], up_email_verified = False, up_zone = target,
     up_invite_token = ri_invite_token n\<rparr>"

definition auth_register :: "'s auth_service \<Rightarrow> auth_env \<Rightarrow> register_input \<Rightarrow> ('s, auth_result) stmt" where
  "auth_register s x input =
    tx_bind (tx_lift (normalize_register (az_parse_address s) input)) (\<lambda>n.
    tx_bind (resolve_zone_access s (ri_domain n)) (\<lambda>target.
    if za_zone_status target \<noteq> ''active''
    then tx_fail (forbidden ''Zone dang tam dung va khong nhan dang ky moi.'')
    else
    tx_bind (tx_lift (map_error (\<lambda>_. internal ''Khong hash duoc mat khau.'') (ax_hash x (ri_password n)))) (\<lambda>hash.
    tx_bind (tx_map_error create_user_error
      (ag_create_user (az_repo s) (registered_params n hash target))) (\<lambda>user.
    tx_bind (issue_tokens s x user target (ri_device_name n, ri_ip_address n, ri_user_agent n)) (\<lambda>result.
    tx_then (tx_ignore (ag_record_audit (az_repo s)
      (user_event ''auth.register'' target (ur_id user) (ri_ip_address n) (ri_user_agent n)
        [(''domain'', za_domain target)])))
    (tx_return result))))))"

section \<open>Sign-in\<close>

definition bad_credentials :: go_error where
  "bad_credentials = unauthorized ''Email, username hoac mat khau khong dung.''"

definition account_unavailable :: go_error where
  "account_unavailable = forbidden ''Tai khoan chua san sang hoac da bi khoa.''"

text \<open>What sign-in and Google sign-in do once the user is known.\<close>

definition finish_login ::
    "'s auth_service \<Rightarrow> auth_env \<Rightarrow> user \<Rightarrow> zone_access \<Rightarrow> string \<times> string \<times> string \<Rightarrow> string \<Rightarrow> (string \<times> string) list \<Rightarrow>
     ('s, auth_result) stmt" where
  "finish_login s x user target client action metadata =
    (case client of (device, ip, agent) \<Rightarrow>
    tx_then (ensure_zone_workspace_access s (ur_id user) target)
    (tx_bind (issue_tokens s x user target client) (\<lambda>result.
     tx_then (tx_ignore (ag_update_last_login (az_repo s)
       \<lparr>ll_user_id = ur_id user, ll_seen_at = ax_now x, ll_device_name = device, ll_ip_address = ip,
        ll_user_agent = agent\<rparr>))
     (tx_then (tx_ignore (ag_record_audit (az_repo s) (user_event action target (ur_id user) ip agent metadata)))
      (tx_return result)))))"

definition auth_login :: "'s auth_service \<Rightarrow> auth_env \<Rightarrow> login_input \<Rightarrow> ('s, auth_result) stmt" where
  "auth_login s x input0 =
    (let input = normalize_login input0 in
     if li_identifier input = [] \<or> trim_space (li_password input) = []
     then tx_fail (bad_request ''VALIDATION_ERROR'' ''Thong tin dang nhap khong duoc de trong.'')
     else
     tx_bind (resolve_zone_access s (li_domain input)) (\<lambda>target st.
     case ag_find_user (az_repo s) (li_identifier input) st of
       (st1, Inl e) \<Rightarrow>
         if errors_is e ''ErrUserNotFound''
         then refused_login s [] input target ''invalid_credentials'' bad_credentials st1
         else (st1, Inl e)
     | (st1, Inr user) \<Rightarrow>
         if ur_status user \<noteq> ''active''
         then refused_login s (ur_id user) input target (''account_'' @ ur_status user) account_unavailable st1
         else if \<not> az_verify s (ur_password_hash user) (li_password input)
         then refused_login s (ur_id user) input target ''invalid_credentials'' bad_credentials st1
         else finish_login s x user target (li_device_name input, li_ip_address input, li_user_agent input)
           ''auth.login'' [(''domain'', za_domain target)] st1))"

definition google_params :: "google_input \<Rightarrow> string \<Rightarrow> zone_access \<Rightarrow> create_user_params" where
  "google_params i hash target =
    \<lparr>up_email = gl_email i, up_username = google_username (gl_email i) (gl_subject i),
     up_display_name = (if gl_display_name i = [] then email_local (gl_email i) else gl_display_name i),
     up_password_hash = hash, up_device_name = gl_device_name i, up_ip_address = gl_ip_address i,
     up_user_agent = gl_user_agent i, up_avatar_url = gl_avatar_url i, up_email_verified = True,
     up_zone = target, up_invite_token = []\<rparr>"

definition google_password_hash :: "auth_env \<Rightarrow> string result" where
  "google_password_hash x =
    map_error (\<lambda>_. internal ''Khong tao duoc thong tin tai khoan Google.'')
      (result_bind (ax_password_rand x) (\<lambda>b. ax_hash x (b64_encode b)))"

text \<open>The existing user, or a new one; a lost race for the email finds the winner's.\<close>

definition google_user :: "'s auth_service \<Rightarrow> auth_env \<Rightarrow> google_input \<Rightarrow> zone_access \<Rightarrow> ('s, user) stmt" where
  "google_user s x i target st =
    (case ag_find_user (az_repo s) (gl_email i) st of
       (st1, Inr user) \<Rightarrow> (st1, Inr user)
     | (st1, Inl e) \<Rightarrow>
         if \<not> errors_is e ''ErrUserNotFound'' then (st1, Inl e)
         else if za_zone_status target \<noteq> ''active''
         then (st1, Inl (forbidden ''Zone dang tam dung va khong nhan tai khoan Google moi.''))
         else (case google_password_hash x of
             Inl e' \<Rightarrow> (st1, Inl e')
           | Inr hash \<Rightarrow>
               (case ag_create_user (az_repo s) (google_params i hash target) st1 of
                  (st2, Inr user) \<Rightarrow> (st2, Inr user)
                | (st2, Inl e') \<Rightarrow>
                    if errors_is e' ''ErrUserAlreadyExists'' then ag_find_user (az_repo s) (gl_email i) st2
                    else (st2, Inl e'))))"

definition login_with_google :: "'s auth_service \<Rightarrow> auth_env \<Rightarrow> google_input \<Rightarrow> ('s, auth_result) stmt" where
  "login_with_google s x input0 =
    (let i = normalize_google input0 in
     if gl_subject i = [] \<or> \<not> gl_email_verified i
     then tx_fail (unauthorized ''Tai khoan Google chua xac minh email.'')
     else if \<not> az_parse_address s (gl_email i)
     then tx_fail (unauthorized ''Google khong tra ve email hop le.'')
     else
     tx_bind (resolve_zone_access s (gl_domain i)) (\<lambda>target.
     tx_bind (google_user s x i target) (\<lambda>user.
     if ur_status user \<noteq> ''active'' then tx_fail account_unavailable
     else finish_login s x user target (gl_device_name i, gl_ip_address i, gl_user_agent i)
       ''auth.google_login'' [(''domain'', za_domain target), (''provider'', ''google'')])))"

section \<open>Refresh\<close>

definition session_over :: go_error where
  "session_over = unauthorized ''Phien dang nhap khong con hieu luc.''"

text \<open>
  The zone of a refresh: the one the session's domain resolves to now, which must still be the
  session's, and the requested domain must be of the same zone.
\<close>

definition refresh_target :: "'s auth_service \<Rightarrow> session \<Rightarrow> string \<Rightarrow> ('s, zone_access) stmt" where
  "refresh_target s sess domain =
    tx_bind (tx_map_error (\<lambda>_. unauthorized ''Zone cua phien dang nhap khong con kha dung.'')
      (resolve_zone_access s (sn_domain sess))) (\<lambda>target.
    if za_zone_id target \<noteq> sn_zone_id sess \<or> za_workspace_id target \<noteq> sn_workspace_id sess
    then tx_fail (unauthorized ''Phien dang nhap khong khop zone hien tai.'')
    else if trim_space domain = [] then tx_return target
    else
    tx_bind (tx_map_error (\<lambda>_. forbidden ''Refresh token khong thuoc domain hien tai.'')
      (resolve_zone_access s domain)) (\<lambda>requested.
    if za_zone_id requested \<noteq> za_zone_id target
    then tx_fail (forbidden ''Refresh token khong thuoc domain hien tai.'')
    else tx_return requested))"

definition session_lookup_error :: "go_error \<Rightarrow> go_error" where
  "session_lookup_error e =
    (if errors_is e ''ErrSessionNotFound'' then unauthorized ''Refresh token khong hop le.'' else e)"

definition refresh_user_error :: "go_error \<Rightarrow> go_error" where
  "refresh_user_error e =
    (if errors_is e ''ErrUserNotFound'' then unauthorized ''Nguoi dung khong con ton tai.'' else e)"

definition rotate_error :: "go_error \<Rightarrow> go_error" where
  "rotate_error e = (if errors_is e ''ErrSessionNotFound'' then session_over else e)"

text \<open>The checks of \<open>Refresh\<close> before it makes new tokens.\<close>

definition refresh_checks :: "'s auth_service \<Rightarrow> auth_env \<Rightarrow> refresh_input \<Rightarrow> ('s, session \<times> zone_access \<times> user) stmt" where
  "refresh_checks s x input =
    (let token = trim_space (rf_token input) in
     if token = []
     then tx_fail (bad_request ''VALIDATION_ERROR'' ''Refresh token khong duoc de trong.'')
     else
     tx_bind (tx_map_error session_lookup_error
       (ag_find_session (az_repo s) (hash_refresh_token (az_tokens s) token))) (\<lambda>sess.
     if session_active (ax_now x) sess \<noteq> None then tx_fail session_over
     else
     tx_bind (refresh_target s sess (rf_domain input)) (\<lambda>target.
     tx_bind (tx_map_error refresh_user_error (ag_find_user_by_id (az_repo s) (sn_user_id sess))) (\<lambda>user.
     if ur_status user \<noteq> ''active'' then tx_fail account_unavailable
     else
     tx_then (ensure_zone_workspace_access s (ur_id user) target)
     (tx_return (sess, target, user))))))"

text \<open>The rest: new tokens, and the session takes the hash of the new refresh token.\<close>

definition refresh_rotate ::
    "'s auth_service \<Rightarrow> auth_env \<Rightarrow> session \<times> zone_access \<times> user \<Rightarrow> ('s, refresh_result) stmt" where
  "refresh_rotate s x c =
    (case c of (sess, target, user) \<Rightarrow>
     tx_bind (tx_lift (refresh_token_for s x)) (\<lambda>refresh.
     tx_bind (tx_map_error rotate_error
       (ag_rotate_session (az_repo s)
         \<lparr>ro_session_id = sn_id sess, ro_user_id = ur_id user,
          ro_hash = hash_refresh_token (az_tokens s) (fst refresh), ro_expires_at = snd refresh\<rparr>)) (\<lambda>sess'.
     tx_return
       \<lparr>rr_tokens = token_dto_of (fst (access_token_for s x user target)) (fst refresh)
          (snd (access_token_for s x user target)) (sn_expires_at sess'),
        rr_zone = to_auth_zone_dto target, rr_session_id = sn_id sess',
        rr_refresh_until = format_time (sn_expires_at sess')\<rparr>)))"

definition auth_refresh :: "'s auth_service \<Rightarrow> auth_env \<Rightarrow> refresh_input \<Rightarrow> ('s, refresh_result) stmt" where
  "auth_refresh s x input = tx_bind (refresh_checks s x input) (refresh_rotate s x)"

section \<open>Sessions and profile\<close>

definition logout_event :: "session \<Rightarrow> audit_event" where
  "logout_event sess =
    \<lparr>av_actor = sn_user_id sess, av_zone_id = sn_zone_id sess, av_workspace_id = sn_workspace_id sess,
     av_action = ''auth.logout'', av_entity_type = ''user_session'', av_entity_id = sn_id sess,
     av_ip_address = [], av_user_agent = [], av_metadata = []\<rparr>"

definition auth_logout :: "'s auth_service \<Rightarrow> auth_env \<Rightarrow> string \<Rightarrow> ('s, unit) stmt" where
  "auth_logout s x raw st =
    (let token = trim_space raw; hash = hash_refresh_token (az_tokens s) token in
     if token = []
     then (st, Inl (bad_request ''VALIDATION_ERROR'' ''Refresh token khong duoc de trong.''))
     else case ag_find_session (az_repo s) hash st of
         (st1, Inl e) \<Rightarrow>
           if \<not> errors_is e ''ErrSessionNotFound'' then (st1, Inl e)
           else ag_revoke_by_hash (az_repo s) hash (ax_now x) st1
       | (st1, Inr sess) \<Rightarrow>
           tx_then (ag_revoke_by_hash (az_repo s) hash (ax_now x))
             (if sn_id sess \<noteq> [] then tx_ignore (ag_record_audit (az_repo s) (logout_event sess))
              else tx_return ()) st1)"

definition auth_me :: "'s auth_service \<Rightarrow> string \<Rightarrow> string \<Rightarrow> ('s, user_dto) stmt" where
  "auth_me s user_id domain =
    tx_bind (resolve_zone_access s domain) (\<lambda>target.
    tx_bind (tx_map_error (\<lambda>e. if errors_is e ''ErrUserNotFound''
        then not_found ''USER_NOT_FOUND'' ''Khong tim thay nguoi dung.'' else e)
      (ag_find_user_by_id (az_repo s) user_id)) (\<lambda>user.
    tx_then (ensure_zone_workspace_access s (ur_id user) target)
    (tx_return (to_user_dto user))))"

definition auth_list_sessions :: "'s auth_service \<Rightarrow> string \<Rightarrow> string \<Rightarrow> ('s, session_dto list) stmt" where
  "auth_list_sessions s user_id zone_id =
    tx_bind (ag_list_sessions (az_repo s) user_id (trim_space zone_id)) (\<lambda>ss.
    tx_return (map to_session_dto ss))"

definition session_event :: "string \<Rightarrow> string \<Rightarrow> string \<Rightarrow> string \<Rightarrow> string \<Rightarrow> audit_event" where
  "session_event action user_id zone_id entity entity_id =
    \<lparr>av_actor = user_id, av_zone_id = trim_space zone_id, av_workspace_id = [], av_action = action,
     av_entity_type = entity, av_entity_id = entity_id, av_ip_address = [], av_user_agent = [],
     av_metadata = []\<rparr>"

definition revoke_session :: "'s auth_service \<Rightarrow> auth_env \<Rightarrow> string \<Rightarrow> string \<Rightarrow> string \<Rightarrow> ('s, unit) stmt" where
  "revoke_session s x user_id zone_id session_id =
    (if trim_space session_id = []
     then tx_fail (bad_request ''VALIDATION_ERROR'' ''session_id khong duoc de trong.'')
     else
     tx_then (tx_map_error (\<lambda>e. if errors_is e ''ErrSessionNotFound''
         then not_found ''SESSION_NOT_FOUND'' ''Khong tim thay phien dang nhap.'' else e)
       (ag_revoke_by_id (az_repo s) user_id zone_id session_id (ax_now x)))
     (tx_ignore (ag_record_audit (az_repo s)
       (session_event ''auth.revoke_session'' user_id zone_id ''user_session'' (trim_space session_id)))))"

definition revoke_all_sessions :: "'s auth_service \<Rightarrow> auth_env \<Rightarrow> string \<Rightarrow> string \<Rightarrow> ('s, unit) stmt" where
  "revoke_all_sessions s x user_id zone_id =
    tx_then (ag_revoke_all (az_repo s) user_id zone_id (ax_now x))
    (tx_ignore (ag_record_audit (az_repo s)
      (session_event ''auth.revoke_all_sessions'' user_id zone_id ''user'' user_id)))"

end
