(* ===== verification/Auth_Contract.thy ===== *)
theory Auth_Contract
  imports Auth_Service
begin

text \<open>
  The contract between the auth service and its repository, and what the service guarantees over every
  repository that keeps it. \<open>account st i u\<close>: the identifier names the user; \<open>target st t\<close>: a stored
  zone and workspace; \<open>member st t u\<close>: an active membership in the workspace, both usable; \<open>holds st h s\<close>: the session
  the hash of a refresh token names; \<open>same\<close>: nothing stored has changed.
\<close>

locale auth_store =
  fixes repo :: "'s auth_repo"
    and ok :: "'s \<Rightarrow> bool"
    and same :: "'s \<Rightarrow> 's \<Rightarrow> bool"
    and account :: "'s \<Rightarrow> string \<Rightarrow> user \<Rightarrow> bool"
    and known :: "'s \<Rightarrow> string \<Rightarrow> bool"
    and target :: "'s \<Rightarrow> zone_access \<Rightarrow> bool"
    and member :: "'s \<Rightarrow> zone_access \<Rightarrow> string \<Rightarrow> bool"
    and holds :: "'s \<Rightarrow> string \<Rightarrow> session \<Rightarrow> bool"
  assumes same_refl: "same st st"
    and same_trans: "same st st1 \<Longrightarrow> same st1 st2 \<Longrightarrow> same st st2"
    and same_ok: "same st st' \<Longrightarrow> ok st \<Longrightarrow> ok st'"
    and same_account: "same st st' \<Longrightarrow> account st' = account st"
    and same_known: "same st st' \<Longrightarrow> known st' = known st"
    and same_target: "same st st' \<Longrightarrow> target st' = target st"
    and same_member: "same st st' \<Longrightarrow> member st' = member st"
    and same_holds: "same st st' \<Longrightarrow> holds st' = holds st"
    and holds_unique: "ok st \<Longrightarrow> holds st h sess \<Longrightarrow> holds st h sess' \<Longrightarrow> sess = sess'"
    and account_known: "account st i u \<Longrightarrow> known st (ur_id u)"
    and resolve_same: "ag_resolve_zone repo d st = (st', rz) \<Longrightarrow> same st st'"
    and resolve_target: "ag_resolve_zone repo d st = (st', Inr t) \<Longrightarrow> target st t"
    and find_user_same: "ag_find_user repo i st = (st', ru) \<Longrightarrow> same st st'"
    and find_user_account: "ag_find_user repo i st = (st', Inr u) \<Longrightarrow> account st i u"
    and find_id_same: "ag_find_user_by_id repo i st = (st', ru) \<Longrightarrow> same st st'"
    and find_session_same: "ag_find_session repo h st = (st', rs) \<Longrightarrow> same st st'"
    and find_session_holds: "ok st \<Longrightarrow> ag_find_session repo h st = (st', Inr sess) \<Longrightarrow> holds st h sess"
    and ensure_ok: "ok st \<Longrightarrow> ag_ensure_access repo uid t st = (st', rn) \<Longrightarrow> ok st'"
    and ensure_holds: "ag_ensure_access repo uid t st = (st', rn) \<Longrightarrow> holds st' = holds st"
    and ensure_account: "ag_ensure_access repo uid t st = (st', rn) \<Longrightarrow> account st' = account st"
    and ensure_target: "ag_ensure_access repo uid t st = (st', rn) \<Longrightarrow> target st' = target st"
    and ensure_member: "ok st \<Longrightarrow> known st uid \<Longrightarrow> target st t \<Longrightarrow>
      ag_ensure_access repo uid t st = (st', Inr n) \<Longrightarrow> member st' t uid"
    and create_member: "ag_create_session repo p st = (st', rs) \<Longrightarrow> member st' = member st"
    and create_ok: "ok st \<Longrightarrow> ag_create_session repo p st = (st', rs) \<Longrightarrow> ok st'"
    and create_holds: "ok st \<Longrightarrow> ag_create_session repo p st = (st', Inr sess) \<Longrightarrow>
      holds st' (cx_hash p) sess \<and> sn_revoked_at sess = None \<and> (\<forall>old. \<not> holds st (cx_hash p) old)"
    and create_user_of: "ok st \<Longrightarrow> known st (cx_user_id p) \<Longrightarrow> target st t \<Longrightarrow> cx_zone_id p = za_zone_id t \<Longrightarrow>
      cx_workspace_id p = za_workspace_id t \<Longrightarrow> ag_create_session repo p st = (st', Inr sess) \<Longrightarrow>
      sn_user_id sess = cx_user_id p \<and> sn_zone_id sess = za_zone_id t \<and> sn_workspace_id sess = za_workspace_id t \<and>
      sn_domain sess = cx_domain p"
    and login_member: "ag_update_last_login repo l st = (st', rn) \<Longrightarrow> member st' = member st \<and> holds st' = holds st"
    and audit_member: "ag_record_audit repo e st = (st', rn) \<Longrightarrow> member st' = member st \<and> holds st' = holds st"
    and rotate_holds: "ok st \<Longrightarrow> holds st h sess \<Longrightarrow> ro_session_id q = sn_id sess \<Longrightarrow>
      ag_rotate_session repo q st = (st', Inr sess') \<Longrightarrow>
      holds st' (ro_hash q) sess' \<and> sn_id sess' = sn_id sess \<and> sn_revoked_at sess' = None \<and>
      (h \<noteq> ro_hash q \<longrightarrow> (\<forall>x. \<not> holds st' h x))"
    and rotate_ok: "ok st \<Longrightarrow> ag_rotate_session repo q st = (st', rs) \<Longrightarrow> ok st'"
begin

lemma resolve_zone_access_calls:
  assumes "az_repo s = repo" "resolve_zone_access s d st = (st', r)"
  shows "st' = st \<and> (\<exists>e. r = Inl e) \<or> (\<exists>n r0. ag_resolve_zone repo n st = (st', r0) \<and> r = map_error zone_error r0)"
proof (cases "normalize_domain d")
  case (Inl e)
  with assms(2) show ?thesis by (auto simp: resolve_zone_access_def)
next
  case (Inr n)
  with assms show ?thesis
    by (auto simp: resolve_zone_access_def tx_map_error_def split: prod.splits)
qed

lemma resolve_zone_same: "az_repo s = repo \<Longrightarrow> resolve_zone_access s d st = (st', r) \<Longrightarrow> same st st'"
  using resolve_zone_access_calls resolve_same same_refl by blast

lemma resolve_zone_target:
  assumes "az_repo s = repo" "resolve_zone_access s d st = (st', Inr t)"
  shows "target st' t"
proof -
  obtain n where "ag_resolve_zone repo n st = (st', Inr t)"
    using resolve_zone_access_calls [OF assms] by (metis map_error_Inr_iff sum.distinct(1))
  then show ?thesis using resolve_target resolve_same same_target
    by (metis (no_types, lifting))
qed

text \<open>What a signed-in user holds: an account, a membership and a session of the zone.\<close>

lemma issue_tokens_session:
  assumes "az_repo s = repo" "ok st" "known st (ur_id u)" "target st t"
    and "issue_tokens s x u t c st = (st', Inr r)"
  shows "\<exists>sess. holds st' (hash_refresh_token (az_tokens s) (td_refresh_token (ar_tokens r))) sess \<and>
    sn_user_id sess = ur_id u \<and> sn_zone_id sess = za_zone_id t \<and> sn_workspace_id sess = za_workspace_id t \<and>
    sn_domain sess = za_domain t \<and> sn_revoked_at sess = None \<and> sn_id sess = ar_session_id r \<and> member st' = member st \<and>
    td_access_token (ar_tokens r) = fst (access_token_for s x u t)"
proof -
  obtain dev ip agent where c: "c = (dev, ip, agent)" by (cases c)
  obtain refresh sess where sess:
      "ag_create_session repo (session_params_of s u t c refresh) st = (st', Inr sess)"
    and r: "ar_session_id r = sn_id sess" "td_refresh_token (ar_tokens r) = fst refresh"
      "td_access_token (ar_tokens r) = fst (access_token_for s x u t)"
    using assms(1,5) by (auto simp: issue_tokens_def tx_bind_Inr token_dto_of_def)
  let ?p = "session_params_of s u t c refresh"
  have p: "cx_user_id ?p = ur_id u" "cx_zone_id ?p = za_zone_id t" "cx_workspace_id ?p = za_workspace_id t"
    "cx_domain ?p = za_domain t" "cx_hash ?p = hash_refresh_token (az_tokens s) (fst refresh)"
    by (simp_all add: session_params_of_def c)
  have "sn_user_id sess = ur_id u \<and> sn_zone_id sess = za_zone_id t \<and> sn_workspace_id sess = za_workspace_id t \<and>
      sn_domain sess = za_domain t"
    using create_user_of [OF assms(2) _ assms(4) p(2,3) sess] assms(3) by (simp add: p)
  moreover have "holds st' (cx_hash ?p) sess \<and> sn_revoked_at sess = None"
    using create_holds [OF assms(2) sess] by simp
  ultimately show ?thesis
    using create_member [OF sess] r p by metis
qed

lemma finish_login_signed_in:
  assumes "az_repo s = repo" "ok st" "account st i u" "target st t"
    and "finish_login s x u t c action meta st = (st', Inr r)"
  shows "\<exists>sess. holds st' (hash_refresh_token (az_tokens s) (td_refresh_token (ar_tokens r))) sess \<and>
    sn_user_id sess = ur_id u \<and> sn_zone_id sess = za_zone_id t \<and> sn_workspace_id sess = za_workspace_id t \<and>
    sn_domain sess = za_domain t \<and> sn_revoked_at sess = None \<and> sn_id sess = ar_session_id r \<and>
    member st' t (ur_id u) \<and> td_access_token (ar_tokens r) = fst (access_token_for s x u t)"
proof -
  obtain dev ip agent where c: "c = (dev, ip, agent)" by (cases c)
  obtain st1 st2 l e where s1: "ag_ensure_access repo (ur_id u) t st = (st1, Inr ())"
    and s2: "issue_tokens s x u t c st1 = (st2, Inr r)"
    and s3: "st' = fst (ag_record_audit repo e (fst (ag_update_last_login repo l st2)))"
    using assms(1,5)
    by (auto simp: finish_login_def c tx_bind_Inr ensure_zone_workspace_access_def tx_ignore_def)
  have "known st (ur_id u)" by (rule account_known [OF assms(3)])
  then have mem: "member st1 t (ur_id u)" by (rule ensure_member [OF assms(2) _ assms(4) s1])
  have ok1: "ok st1" and t1: "target st1 t"
    using ensure_ok [OF assms(2) s1] ensure_target [OF s1] assms(4) by auto
  have "known st1 (ur_id u)" using account_known ensure_account [OF s1] assms(3) by metis
  from issue_tokens_session [OF assms(1) ok1 this t1 s2] obtain sess where sess:
      "holds st2 (hash_refresh_token (az_tokens s) (td_refresh_token (ar_tokens r))) sess"
      "sn_user_id sess = ur_id u" "sn_zone_id sess = za_zone_id t" "sn_workspace_id sess = za_workspace_id t"
      "sn_domain sess = za_domain t" "sn_revoked_at sess = None" "sn_id sess = ar_session_id r" "member st2 = member st1"
      "td_access_token (ar_tokens r) = fst (access_token_for s x u t)" by auto
  have "member st' = member st2 \<and> holds st' = holds st2"
    using s3 login_member audit_member by (metis prod.collapse)
  with sess mem show ?thesis by auto
qed

text \<open>Sign-in with a password.\<close>

lemma login_signed_in:
  assumes "az_repo s = repo" "ok st" "auth_login s x input st = (st', Inr r)"
  shows "\<exists>u t st1. same st st1 \<and> account st (to_lower (trim_space (li_identifier input))) u \<and> ur_status u = ''active'' \<and>
    az_verify s (ur_password_hash u) (trim_space (li_password input)) \<and> member st' t (ur_id u) \<and>
    resolve_zone_access s (trim_space (li_domain input)) st = (st1, Inr t) \<and>
    td_access_token (ar_tokens r) = fst (access_token_for s x u t) \<and>
    (\<exists>sess. holds st' (hash_refresh_token (az_tokens s) (td_refresh_token (ar_tokens r))) sess \<and>
      sn_user_id sess = ur_id u \<and> sn_zone_id sess = za_zone_id t \<and> sn_workspace_id sess = za_workspace_id t \<and>
      sn_domain sess = za_domain t \<and> sn_revoked_at sess = None \<and> sn_id sess = ar_session_id r)"
proof -
  define i where "i = normalize_login input"
  have i: "li_identifier i = to_lower (trim_space (li_identifier input))" "li_domain i = trim_space (li_domain input)"
    "li_password i = trim_space (li_password input)"
    by (simp_all add: i_def normalize_login_def split: prod.splits)
  obtain t st1 where t: "resolve_zone_access s (li_domain i) st = (st1, Inr t)"
    and rest: "(case ag_find_user repo (li_identifier i) st1 of
       (st1, Inl e) \<Rightarrow>
         if errors_is e ''ErrUserNotFound''
         then refused_login s [] i t ''invalid_credentials'' bad_credentials st1
         else (st1, Inl e)
     | (st1, Inr user) \<Rightarrow>
         if ur_status user \<noteq> ''active''
         then refused_login s (ur_id user) i t (''account_'' @ ur_status user) account_unavailable st1
         else if \<not> az_verify s (ur_password_hash user) (li_password i)
         then refused_login s (ur_id user) i t ''invalid_credentials'' bad_credentials st1
         else finish_login s x user t (li_device_name i, li_ip_address i, li_user_agent i)
           ''auth.login'' [(''domain'', za_domain t)] st1) = (st', Inr r)"
    using assms(1,3) unfolding auth_login_def Let_def i_def [symmetric]
    by (auto simp: tx_bind_Inr split: if_splits)
  have refused: "refused_login s a i t b e st2 \<noteq> (st', Inr r)" for a b e and st2 :: 's
    by (simp add: refused_login_def tx_bind_Inr)
  obtain u st2 where u: "ag_find_user repo (li_identifier i) st1 = (st2, Inr u)" "ur_status u = ''active''"
      "az_verify s (ur_password_hash u) (li_password i)"
    and f: "finish_login s x u t (li_device_name i, li_ip_address i, li_user_agent i)
       ''auth.login'' [(''domain'', za_domain t)] st2 = (st', Inr r)"
    using rest refused by (auto split: prod.splits sum.splits if_splits)
  have s1: "same st st1" by (rule resolve_zone_same [OF assms(1) t])
  have s2: "same st1 st2" by (rule find_user_same [OF u(1)])
  have a1: "account st1 (li_identifier i) u" by (rule find_user_account [OF u(1)])
  have a: "account st (li_identifier i) u" using a1 same_account [OF s1] by simp
  have a2: "account st2 (li_identifier i) u" using a1 same_account [OF s2] by simp
  have t2: "target st2 t" using resolve_zone_target [OF assms(1) t] same_target [OF s2] by simp
  have ok2: "ok st2" using same_ok s1 s2 assms(2) by blast
  show ?thesis
    using finish_login_signed_in [OF assms(1) ok2 a2 t2 f] s1 a u t unfolding i by blast
qed

text \<open>A refresh consumes its token: the session is found under the new token only.\<close>

lemma refresh_checks_session:
  assumes "az_repo s = repo" "ok st" "refresh_checks s x i st = (st', Inr (sess, t, u))"
  shows "ok st' \<and> holds st' = holds st \<and> sn_revoked_at sess = None \<and> ax_now x < sn_expires_at sess \<and>
    holds st (hash_refresh_token (az_tokens s) (trim_space (rf_token i))) sess \<and> ur_status u = ''active''"
proof -
  let ?h = "hash_refresh_token (az_tokens s) (trim_space (rf_token i))"
  obtain st1 st2 st3 where f: "ag_find_session repo ?h st = (st1, Inr sess)" "session_active (ax_now x) sess = None"
    and r: "refresh_target s sess (rf_domain i) st1 = (st2, Inr t)"
    and u: "ag_find_user_by_id repo (sn_user_id sess) st2 = (st3, Inr u)" "ur_status u = ''active''"
    and e: "ag_ensure_access repo (ur_id u) t st3 = (st', Inr ())"
    using assms(1,3)
    by (auto simp: refresh_checks_def Let_def tx_bind_Inr ensure_zone_workspace_access_def split: if_splits)
  have s2: "same st1 st2"
    using r resolve_zone_same [OF assms(1)]
    by (auto simp: refresh_target_def tx_bind_Inr split: if_splits) (meson same_trans)
  have same: "same st st1" "same st2 st3"
    using find_session_same [OF f(1)] find_id_same [OF u(1)] by simp_all
  have "holds st3 = holds st" using same_holds s2 same by metis
  moreover have "ok st3" using same_ok s2 same assms(2) by metis
  ultimately show ?thesis
    using ensure_ok [OF _ e] ensure_holds [OF e] find_session_holds [OF assms(2) f(1)] f(2) u(2)
    by (auto simp: session_active_def split: if_splits)
qed

lemma refresh_consumes:
  assumes "az_repo s = repo" "ok st" "auth_refresh s x i st = (st', Inr r)"
    and "td_refresh_token (rr_tokens r) = token"
  shows "\<exists>sess sess'. holds st (hash_refresh_token (az_tokens s) (trim_space (rf_token i))) sess \<and>
    sn_revoked_at sess = None \<and> ax_now x < sn_expires_at sess \<and>
    holds st' (hash_refresh_token (az_tokens s) token) sess' \<and> sn_id sess' = sn_id sess \<and>
    sn_id sess' = rr_session_id r \<and> sn_revoked_at sess' = None \<and> ok st' \<and>
    (hash_refresh_token (az_tokens s) token \<noteq> hash_refresh_token (az_tokens s) (trim_space (rf_token i)) \<longrightarrow>
      (\<forall>y. \<not> holds st' (hash_refresh_token (az_tokens s) (trim_space (rf_token i))) y))"
proof -
  let ?h = "hash_refresh_token (az_tokens s) (trim_space (rf_token i))"
  obtain st1 sess t u where c: "refresh_checks s x i st = (st1, Inr (sess, t, u))"
    and rot: "refresh_rotate s x (sess, t, u) st1 = (st', Inr r)"
    using assms(3) by (auto simp: auth_refresh_def tx_bind_Inr)
  note cc = refresh_checks_session [OF assms(1,2) c]
  have ok1: "ok st1" and h1: "holds st1 ?h sess" using cc by auto
  obtain fresh expires sess' where q: "ag_rotate_session repo
        \<lparr>ro_session_id = sn_id sess, ro_user_id = ur_id u,
          ro_hash = hash_refresh_token (az_tokens s) fresh, ro_expires_at = expires\<rparr> st1 = (st', Inr sess')"
    and r: "rr_session_id r = sn_id sess'" "token = fresh"
    using rot assms(1,4) by (auto simp: refresh_rotate_def tx_bind_Inr token_dto_of_def)
  show ?thesis
    using rotate_holds [OF ok1 h1 _ q] rotate_ok [OF ok1 q] cc r by auto
qed

text \<open>A token whose session is unknown, revoked or expired changes nothing.\<close>

lemma refresh_unusable_token:
  assumes "az_repo s = repo" "ok st"
    and "\<And>y. holds st (hash_refresh_token (az_tokens s) (trim_space (rf_token i))) y \<Longrightarrow>
      session_active (ax_now x) y \<noteq> None"
  shows "\<exists>e st'. auth_refresh s x i st = (st', Inl e) \<and> same st st'"
proof (cases "trim_space (rf_token i) = []")
  case True
  then show ?thesis by (simp add: auth_refresh_def refresh_checks_def tx_bind_def tx_fail_def same_refl)
next
  case False
  let ?h = "hash_refresh_token (az_tokens s) (trim_space (rf_token i))"
  obtain st' r where f: "ag_find_session repo ?h st = (st', r)" by (cases "ag_find_session repo ?h st")
  have "(\<exists>e. r = Inl e) \<or> (\<exists>y. r = Inr y \<and> session_active (ax_now x) y \<noteq> None)"
    using find_session_holds [OF assms(2)] f assms(3) by (cases r) auto
  with f False assms(1) find_session_same [OF f] show ?thesis
    by (auto simp: auth_refresh_def refresh_checks_def tx_bind_def tx_map_error_def tx_fail_def)
qed

end

end
