(* ===== verification/Auth_Pg.thy ===== *)
theory Auth_Pg
  imports Auth_Service "HOL-Library.List_Lexorder" "HOL-Library.Char_ord" "HOL-Library.Product_Lexorder"
begin

text \<open>
  \<open>auth/infrastructure/postgres/repository.go\<close>: the statements on users, sessions, zones, workspaces,
  members, roles, channels, invites and the audit log, over the schema of migrations 000001, 000003,
  000021, 000022 and 000026 with its unique keys, foreign keys and triggers. Columns the statements
  neither read nor decide on are left out. A \<open>citext\<close> value is compared in lower case (ASCII letters;
  other letters depend on the locale of the database and compare exactly here). The cast of a text to
  \<open>inet\<close> is a function of the configuration: the host of the address, or nothing where the server
  rejects the text.
\<close>

record auth_pg_config =
  yp_default_workspace :: string
  yp_inet :: "string \<Rightarrow> string option"

section \<open>Tables\<close>

record user_row = user +
  uw_registration_agent :: "string option"
  uw_last_agent :: "string option"
  uw_deleted_at :: "time option"

record auth_session_row =
  sw_id :: string
  sw_user_id :: string
  sw_zone_id :: "string option"
  sw_workspace_id :: "string option"
  sw_domain :: "string option"
  sw_hash :: string
  sw_device_name :: "string option"
  sw_ip_address :: "string option"
  sw_user_agent :: "string option"
  sw_expires_at :: time
  sw_revoked_at :: "time option"
  sw_created_at :: time
  sw_updated_at :: time

record zone_row =
  zw_id :: string
  zw_slug :: string
  zw_name :: string
  zw_kind :: string
  zw_status :: string
  zw_mode :: string
  zw_primary_workspace :: "string option"
  zw_created_at :: time
  zw_updated_at :: time
  zw_deleted_at :: "time option"

record domain_row =
  dw_zone_id :: string
  dw_domain :: string
  dw_kind :: string
  dw_status :: string
  dw_deleted_at :: "time option"

record auth_workspace_row =
  ww_id :: string
  ww_zone_id :: string
  ww_slug :: string
  ww_status :: string
  ww_owner_id :: "string option"
  ww_created_at :: time
  ww_updated_at :: time
  ww_deleted_at :: "time option"

record member_row =
  mw_workspace_id :: string
  mw_user_id :: string
  mw_status :: string
  mw_joined_at :: "time option"
  mw_updated_at :: time

record role_row =
  ow_id :: string
  ow_workspace_id :: "string option"
  ow_code :: string
  ow_is_system :: bool
  ow_created_at :: time
  ow_deleted_at :: "time option"

record member_role_row =
  qw_workspace_id :: string
  qw_user_id :: string
  qw_role_id :: string
  qw_assigned_by :: "string option"

text \<open>\<open>hw_bot_mode\<close> is \<open>settings->>'bot_session_mode'\<close>.\<close>

record auth_channel_row =
  hw_id :: string
  hw_workspace_id :: string
  hw_type :: string
  hw_status :: string
  hw_bot_mode :: "string option"
  hw_deleted_at :: "time option"

record auth_channel_member_row =
  nw_channel_id :: string
  nw_user_id :: string
  nw_status :: string

record invite_row =
  iw_id :: string
  iw_workspace_id :: string
  iw_email :: string
  iw_role_id :: "string option"
  iw_token_hash :: string
  iw_expires_at :: time
  iw_accepted_at :: "time option"
  iw_revoked_at :: "time option"
  iw_created_at :: time

record quota_row =
  tw_zone_id :: string
  tw_max_members :: int
  tw_mode :: string

record audit_row =
  lw_zone_id :: "string option"
  lw_workspace_id :: "string option"
  lw_actor :: "string option"
  lw_action :: string
  lw_entity_type :: string
  lw_entity_id :: "string option"
  lw_ip_address :: "string option"
  lw_user_agent :: "string option"
  lw_metadata :: string
  lw_created_at :: time

record auth_db =
  ab_users :: "user_row list"
  ab_sessions :: "auth_session_row list"
  ab_zones :: "zone_row list"
  ab_domains :: "domain_row list"
  ab_workspaces :: "auth_workspace_row list"
  ab_members :: "member_row list"
  ab_roles :: "role_row list"
  ab_member_roles :: "member_role_row list"
  ab_channels :: "auth_channel_row list"
  ab_channel_members :: "auth_channel_member_row list"
  ab_invites :: "invite_row list"
  ab_quotas :: "quota_row list"
  ab_audit :: "audit_row list"

section \<open>Parameters\<close>

definition uuid2 :: "pg_env \<Rightarrow> string \<Rightarrow> string \<Rightarrow> (string \<times> string) result" where
  "uuid2 env a b = result_bind (uuid_param env a) (\<lambda>a'. result_bind (uuid_param env b) (\<lambda>b'. Inr (a', b')))"

definition inet_or_null :: "auth_pg_config \<Rightarrow> string \<Rightarrow> string option result" where
  "inet_or_null cfg s =
    (if s = [] then Inr None
     else case yp_inet cfg s of
         None \<Rightarrow> Inl (PgErr ''22P02'' ''invalid input syntax for type inet'')
       | Some h \<Rightarrow> Inr (Some h))"

section \<open>Zones and domains\<close>

definition zone_open :: "zone_row \<Rightarrow> bool" where
  "zone_open z \<longleftrightarrow> (zw_status z = ''active'' \<or> zw_status z = ''suspended'') \<and> zw_deleted_at z = None"

definition domain_usable :: "domain_row \<Rightarrow> bool" where
  "domain_usable d \<longleftrightarrow> (dw_status d = ''verified'' \<or> dw_status d = ''active'') \<and> dw_deleted_at d = None"

definition domain_rank :: "domain_row \<Rightarrow> int" where
  "domain_rank d = (if dw_kind d = ''primary'' then 0 else 2) + (if dw_status d = ''active'' then 0 else 1)"

definition zone_access_of :: "zone_row \<Rightarrow> auth_workspace_row \<Rightarrow> string \<Rightarrow> zone_access" where
  "zone_access_of z w domain =
    \<lparr>za_zone_id = zw_id z, za_zone_slug = zw_slug z, za_zone_name = zw_name z, za_zone_kind = zw_kind z,
     za_zone_status = zw_status z, za_mode = zw_mode z, za_workspace_id = ww_id w,
     za_workspace_slug = ww_slug w, za_domain = domain\<rparr>"

text \<open>The joins of \<open>resolveZoneAccessByDomain\<close>.\<close>

definition domain_targets :: "auth_db \<Rightarrow> string \<Rightarrow> (int \<times> zone_access) list" where
  "domain_targets db domain =
    [(domain_rank d, zone_access_of z w (dw_domain d)).
       d \<leftarrow> ab_domains db, citext (dw_domain d) = citext domain \<and> domain_usable d,
       z \<leftarrow> ab_zones db, zw_id z = dw_zone_id d \<and> zone_open z,
       w \<leftarrow> ab_workspaces db, Some (ww_id w) = zw_primary_workspace z \<and> ww_zone_id w = zw_id z \<and>
         (ww_status w = ''active'' \<or> ww_status w = ''suspended'') \<and> ww_deleted_at w = None]"

definition pg_resolve_by_domain :: "string \<Rightarrow> (auth_db, zone_access) stmt" where
  "pg_resolve_by_domain domain db =
    (db, if \<not> pg_text_ok domain then Inl encoding_error
         else case sort_key fst (domain_targets db domain) of
             [] \<Rightarrow> Inl err_zone_not_found
           | t # _ \<Rightarrow> Inr (snd t))"

definition zone_kind_rank :: "zone_row \<Rightarrow> int" where
  "zone_kind_rank z = (if zw_kind z = ''vpsttt_internal'' then 0 else 1)"

definition zone_main_domain :: "auth_db \<Rightarrow> string \<Rightarrow> domain_row option" where
  "zone_main_domain db zone =
    (case sort_key domain_rank (filter (\<lambda>d. dw_zone_id d = zone \<and> domain_usable d) (ab_domains db)) of
       [] \<Rightarrow> None | d # _ \<Rightarrow> Some d)"

definition local_targets :: "auth_db \<Rightarrow> string option \<Rightarrow> zone_access list" where
  "local_targets db workspace =
    [zone_access_of z w (dw_domain d).
       z \<leftarrow> sort_key (\<lambda>z. (zone_kind_rank z, zw_created_at z, zw_id z)) (ab_zones db),
       zw_status z = ''active'' \<and> zw_deleted_at z = None,
       w \<leftarrow> ab_workspaces db, Some (ww_id w) = zw_primary_workspace z \<and> ww_zone_id w = zw_id z \<and>
         ww_status w = ''active'' \<and> ww_deleted_at w = None \<and> (workspace = None \<or> workspace = Some (ww_id w)),
       d \<leftarrow> (case zone_main_domain db (zw_id z) of None \<Rightarrow> [] | Some d \<Rightarrow> [d])]"

text \<open>What the code makes of the at most two rows.\<close>

definition pick_local_target :: "string \<Rightarrow> zone_access list \<Rightarrow> zone_access result" where
  "pick_local_target default_workspace targets =
    (let internals = filter (\<lambda>t. za_zone_kind t = ''vpsttt_internal'') targets in
     if default_workspace = [] \<and> length internals = 1 then Inr (hd internals)
     else if length targets \<noteq> 1 then Inl err_zone_not_found
     else Inr (hd targets))"

definition pg_resolve_local :: "auth_pg_config \<Rightarrow> pg_env \<Rightarrow> (auth_db, zone_access) stmt" where
  "pg_resolve_local cfg env db =
    (db,
     if yp_default_workspace cfg = [] then pick_local_target [] (take 2 (local_targets db None))
     else result_bind (uuid_param env (yp_default_workspace cfg)) (\<lambda>w.
       pick_local_target (yp_default_workspace cfg) (take 2 (local_targets db (Some w)))))"

definition pg_resolve_zone :: "auth_pg_config \<Rightarrow> string \<Rightarrow> (auth_db pg, zone_access) stmt" where
  "pg_resolve_zone cfg domain s =
    (case pg_run (\<lambda>_. pg_resolve_by_domain domain) s of
       (s1, Inr t) \<Rightarrow> (s1, Inr t)
     | (s1, Inl e) \<Rightarrow>
         if \<not> errors_is e ''ErrZoneNotFound'' \<or> (domain \<noteq> ''localhost'' \<and> \<not> is_ip domain) then (s1, Inl e)
         else pg_run (pg_resolve_local cfg) s1)"

section \<open>Membership\<close>

text \<open>The trigger \<open>enforce_zone_member_quota\<close> for a row that becomes active.\<close>

definition counts_as_member :: "member_row \<Rightarrow> bool" where
  "counts_as_member m \<longleftrightarrow> mw_status m = ''active'' \<or> mw_status m = ''invited''"

definition zone_members :: "auth_db \<Rightarrow> string \<Rightarrow> member_row list" where
  "zone_members db zone =
    filter (\<lambda>m. counts_as_member m \<and>
      list_ex (\<lambda>w. ww_id w = mw_workspace_id m \<and> ww_zone_id w = zone) (ab_workspaces db)) (ab_members db)"

definition member_quota_ok :: "auth_db \<Rightarrow> string \<Rightarrow> string \<Rightarrow> bool" where
  "member_quota_ok db workspace user =
    (case List.find (\<lambda>w. ww_id w = workspace) (ab_workspaces db) of
       None \<Rightarrow> True
     | Some w \<Rightarrow>
         list_ex (\<lambda>m. mw_user_id m = user) (zone_members db (ww_zone_id w)) \<or>
         (case List.find (\<lambda>q. tw_zone_id q = ww_zone_id w) (ab_quotas db) of
            None \<Rightarrow> True
          | Some q \<Rightarrow>
              tw_mode q \<noteq> ''hard'' \<or>
              int (length (remdups (map mw_user_id (zone_members db (ww_zone_id w))))) < tw_max_members q))"

definition quota_exceeded :: go_error where
  "quota_exceeded = PgErr ''P0001'' ''ZONE_QUOTA_EXCEEDED:members''"

definition is_member :: "string \<Rightarrow> string \<Rightarrow> member_row \<Rightarrow> bool" where
  "is_member workspace user m \<longleftrightarrow> mw_workspace_id m = workspace \<and> mw_user_id m = user"

definition active_member :: "auth_db \<Rightarrow> string \<Rightarrow> string \<Rightarrow> bool" where
  "active_member db workspace user \<longleftrightarrow>
     list_ex (\<lambda>m. is_member workspace user m \<and> mw_status m = ''active'') (ab_members db)"

text \<open>
  The upsert of a membership; \<open>revive\<close> lists the states of an existing row that it makes active.
\<close>

definition pg_upsert_member ::
    "string list \<Rightarrow> pg_env \<Rightarrow> string \<Rightarrow> string \<Rightarrow> (auth_db, unit) stmt" where
  "pg_upsert_member revive env workspace user db =
    (if \<not> member_quota_ok db workspace user then (db, Inl quota_exceeded)
     else if list_ex (is_member workspace user) (ab_members db)
     then (db\<lparr>ab_members := update_where (\<lambda>m. is_member workspace user m \<and> mw_status m \<in> set revive)
         (\<lambda>m. m\<lparr>mw_status := ''active'',
            mw_joined_at := (case mw_joined_at m of None \<Rightarrow> Some (pe_now env) | j \<Rightarrow> j),
            mw_updated_at := pe_now env\<rparr>) (ab_members db)\<rparr>, Inr ())
     else if workspace \<notin> ww_id ` set (ab_workspaces db) \<or> user \<notin> ur_id ` set (ab_users db)
     then (db, Inl fk_violation)
     else (db\<lparr>ab_members := ab_members db @
         [\<lparr>mw_workspace_id = workspace, mw_user_id = user, mw_status = ''active'',
           mw_joined_at = Some (pe_now env), mw_updated_at = pe_now env\<rparr>]\<rparr>, Inr ()))"

definition default_workspace_unavailable :: go_error where
  "default_workspace_unavailable =
    new_app_error ''DEFAULT_WORKSPACE_UNAVAILABLE'' ''Workspace mac dinh chua san sang.'' 503"

definition has_role_row :: "auth_db \<Rightarrow> string \<Rightarrow> string \<Rightarrow> bool" where
  "has_role_row db workspace user \<longleftrightarrow>
     list_ex (\<lambda>q. qw_workspace_id q = workspace \<and> qw_user_id q = user) (ab_member_roles db)"

text \<open>The member has a role that is not deleted and satisfies \<open>p\<close>.\<close>

definition has_live_role :: "(role_row \<Rightarrow> bool) \<Rightarrow> auth_db \<Rightarrow> string \<Rightarrow> string \<Rightarrow> bool" where
  "has_live_role p db workspace user \<longleftrightarrow>
     list_ex (\<lambda>q. qw_workspace_id q = workspace \<and> qw_user_id q = user \<and>
       list_ex (\<lambda>role. ow_id role = qw_role_id q \<and> ow_deleted_at role = None \<and> p role) (ab_roles db)) (ab_member_roles db)"

text \<open>The oldest live system role with the given code.\<close>

definition system_roles :: "auth_db \<Rightarrow> string \<Rightarrow> role_row list" where
  "system_roles db code =
    sort_key ow_created_at (filter (\<lambda>role. citext (ow_code role) = citext code \<and> ow_workspace_id role = None \<and>
      ow_is_system role \<and> ow_deleted_at role = None) (ab_roles db))"

text \<open>\<open>INSERT ... ON CONFLICT (workspace_id, user_id, role_id) DO NOTHING\<close>.\<close>

definition grant_role :: "string \<Rightarrow> string \<Rightarrow> string option \<Rightarrow> string \<Rightarrow> (auth_db, unit) stmt" where
  "grant_role workspace user assigned_by role db =
    (if list_ex (\<lambda>q. qw_workspace_id q = workspace \<and> qw_user_id q = user \<and> qw_role_id q = role) (ab_member_roles db)
     then (db, Inr ())
     else if \<not> list_ex (is_member workspace user) (ab_members db) \<or> role \<notin> ow_id ` set (ab_roles db)
     then (db, Inl fk_violation)
     else (db\<lparr>ab_member_roles := ab_member_roles db @
         [\<lparr>qw_workspace_id = workspace, qw_user_id = user, qw_role_id = role, qw_assigned_by = assigned_by\<rparr>]\<rparr>, Inr ()))"

definition pg_grant_system_role :: "string \<Rightarrow> string \<Rightarrow> string \<Rightarrow> string option \<Rightarrow> (auth_db, unit) stmt" where
  "pg_grant_system_role code workspace user assigned_by db =
    (case system_roles db code of
       [] \<Rightarrow> (db, Inr ())
     | role # _ \<Rightarrow> grant_role workspace user assigned_by (ow_id role) db)"

definition joinable_channel :: "string \<Rightarrow> auth_channel_row \<Rightarrow> bool" where
  "joinable_channel workspace c \<longleftrightarrow>
     hw_workspace_id c = workspace \<and> hw_type c = ''public'' \<and> hw_status c = ''active'' \<and>
     hw_deleted_at c = None \<and> (case hw_bot_mode c of None \<Rightarrow> [] | Some m \<Rightarrow> m) \<noteq> ''private''"

definition in_channel :: "string \<Rightarrow> string \<Rightarrow> auth_channel_member_row \<Rightarrow> bool" where
  "in_channel channel user n \<longleftrightarrow> nw_channel_id n = channel \<and> nw_user_id n = user"

definition pg_join_public_channels :: "string \<Rightarrow> string \<Rightarrow> (auth_db, unit) stmt" where
  "pg_join_public_channels workspace user db =
    (db\<lparr>ab_channel_members := ab_channel_members db @
       [\<lparr>nw_channel_id = hw_id c, nw_user_id = user, nw_status = ''active''\<rparr>.
          c \<leftarrow> ab_channels db, joinable_channel workspace c \<and>
            \<not> list_ex (in_channel (hw_id c) user) (ab_channel_members db)]\<rparr>, Inr ())"

definition repair_workspace_access :: "pg_env \<Rightarrow> string \<Rightarrow> string \<Rightarrow> (auth_db, unit) stmt" where
  "repair_workspace_access env user0 workspace0 =
    tx_bind (tx_lift (uuid2 env workspace0 user0)) (\<lambda>(workspace, user).
    tx_then (\<lambda>db. if has_role_row db workspace user then (db, Inr ())
       else pg_grant_system_role ''workspace_member'' workspace user None db)
    (tx_then (\<lambda>db. if has_live_role (\<lambda>_. True) db workspace user then (db, Inr ())
       else (db, Inl default_workspace_unavailable))
    (pg_join_public_channels workspace user)))"

definition add_workspace_membership :: "pg_env \<Rightarrow> string \<Rightarrow> string \<Rightarrow> string \<Rightarrow> (auth_db, unit) stmt" where
  "add_workspace_membership env user0 workspace0 invite_role =
    tx_bind (tx_lift (uuid2 env workspace0 user0)) (\<lambda>(workspace, user).
    tx_then (pg_upsert_member [''invited'', ''left''] env workspace user)
    (tx_then (\<lambda>db. if active_member db workspace user then (db, Inr ()) else (db, Inl err_zone_access_denied))
    (tx_then
      (if invite_role = [] then tx_return ()
       else tx_bind (tx_lift (uuid_param env invite_role)) (grant_role workspace user None))
    (repair_workspace_access env user0 workspace0))))"

section \<open>Registration\<close>

definition scan_null :: go_error where
  "scan_null = Plain ''can't scan into dest: cannot scan NULL into *string''"

text \<open>The zone and the workspace, both active, as they are when the transaction locks them.\<close>

definition registration_zone :: "string \<Rightarrow> string \<Rightarrow> auth_db \<Rightarrow> zone_row option" where
  "registration_zone zone workspace db =
    List.find (\<lambda>z. zw_id z = zone \<and> zw_status z = ''active'' \<and> zw_deleted_at z = None \<and>
      list_ex (\<lambda>w. ww_id w = workspace \<and> ww_zone_id w = zw_id z \<and> ww_status w = ''active'' \<and>
        ww_deleted_at w = None) (ab_workspaces db)) (ab_zones db)"

definition lock_registration_target :: "pg_env \<Rightarrow> zone_access \<Rightarrow> (auth_db, zone_access) stmt" where
  "lock_registration_target env target db =
    (db, result_bind (uuid2 env (za_zone_id target) (za_workspace_id target)) (\<lambda>(zone, workspace).
       case registration_zone zone workspace db of
         None \<Rightarrow> Inl err_registration_closed
       | Some z \<Rightarrow> Inr (target\<lparr>za_zone_kind := zw_kind z, za_zone_status := zw_status z, za_mode := zw_mode z\<rparr>)))"

definition open_invite :: "time \<Rightarrow> string \<Rightarrow> string \<Rightarrow> string \<Rightarrow> invite_row \<Rightarrow> bool" where
  "open_invite now workspace email hash i \<longleftrightarrow>
     iw_workspace_id i = workspace \<and> citext (iw_email i) = citext email \<and> iw_token_hash i = hash \<and>
     iw_accepted_at i = None \<and> iw_revoked_at i = None \<and> now < iw_expires_at i"

definition invite_hash :: "string \<Rightarrow> string" where
  "invite_hash token = hex_encode (sha256 (trim_space token))"

definition pg_find_invite :: "pg_env \<Rightarrow> string \<Rightarrow> string \<Rightarrow> string \<Rightarrow> (auth_db, string \<times> string) stmt" where
  "pg_find_invite env workspace0 email hash db =
    (db, result_bind (uuid_param env workspace0) (\<lambda>workspace.
       result_bind (text_params [email, hash]) (\<lambda>_.
       case sort_key (\<lambda>i. - iw_created_at i) (filter (open_invite (pe_now env) workspace email hash) (ab_invites db)) of
         [] \<Rightarrow> Inl err_invite_required
       | i # _ \<Rightarrow> (case iw_role_id i of None \<Rightarrow> Inl scan_null | Some role \<Rightarrow> Inr (iw_id i, role)))))"

text \<open>The switch on the registration mode: the invite and its role, empty when none is used.\<close>

definition registration_invite :: "pg_env \<Rightarrow> string \<Rightarrow> string \<Rightarrow> zone_access \<Rightarrow> (auth_db, string \<times> string) stmt" where
  "registration_invite env email invite_token target =
    (if za_mode target = ''open'' then tx_return ([], [])
     else if za_mode target = ''invite_only'' then
       (if trim_space invite_token = [] then tx_fail err_invite_required
        else pg_find_invite env (za_workspace_id target) (to_lower (trim_space email)) (invite_hash invite_token))
     else tx_fail err_registration_closed)"

definition ownerless :: "string \<Rightarrow> auth_workspace_row \<Rightarrow> bool" where
  "ownerless workspace w \<longleftrightarrow> ww_id w = workspace \<and> ww_owner_id w = None \<and> ww_deleted_at w = None"

definition claim_initial_workspace_ownership :: "pg_env \<Rightarrow> string \<Rightarrow> string \<Rightarrow> (auth_db, bool) stmt" where
  "claim_initial_workspace_ownership env user0 workspace0 =
    tx_bind (tx_lift (uuid2 env workspace0 user0)) (\<lambda>(workspace, user) db.
    if \<not> list_ex (ownerless workspace) (ab_workspaces db) then (db, Inr False)
    else if user \<notin> ur_id ` set (ab_users db) then (db, Inl fk_violation)
    else
    tx_then (pg_grant_system_role ''workspace_owner'' workspace user (Some user))
      (\<lambda>db. if has_live_role (\<lambda>role. citext (ow_code role) = ''workspace_owner'') db workspace user then (db, Inr True)
        else (db, Inl default_workspace_unavailable))
      (db\<lparr>ab_workspaces := update_where (ownerless workspace)
        (\<lambda>w. w\<lparr>ww_owner_id := Some user, ww_updated_at := pe_now env\<rparr>) (ab_workspaces db)\<rparr>))"

definition pg_close_open_zone :: "pg_env \<Rightarrow> string \<Rightarrow> (auth_db, unit) stmt" where
  "pg_close_open_zone env zone0 =
    tx_bind (tx_lift (uuid_param env zone0)) (\<lambda>zone db.
    (db\<lparr>ab_zones := update_where (\<lambda>z. zw_id z = zone \<and> zw_mode z = ''open'' \<and> zw_deleted_at z = None)
       (\<lambda>z. z\<lparr>zw_mode := ''invite_only'', zw_updated_at := pe_now env\<rparr>) (ab_zones db)\<rparr>, Inr ()))"

definition pg_accept_invite :: "pg_env \<Rightarrow> string \<Rightarrow> (auth_db, unit) stmt" where
  "pg_accept_invite env invite0 =
    tx_bind (tx_lift (uuid_param env invite0)) (\<lambda>invite db.
    (db\<lparr>ab_invites := update_where (\<lambda>i. iw_id i = invite \<and> iw_accepted_at i = None)
       (\<lambda>i. i\<lparr>iw_accepted_at := Some (pe_now env)\<rparr>) (ab_invites db)\<rparr>, Inr ()))"

text \<open>The ownership step: only an internal or dedicated zone hands a workspace without owner over.\<close>

definition registration_claim :: "pg_env \<Rightarrow> string \<Rightarrow> zone_access \<Rightarrow> (auth_db, unit) stmt" where
  "registration_claim env user target =
    (if za_zone_kind target = ''vpsttt_internal'' \<or> za_zone_kind target = ''customer_dedicated'' then
       tx_bind (claim_initial_workspace_ownership env user (za_workspace_id target)) (\<lambda>claimed.
       if claimed \<and> za_zone_kind target = ''customer_dedicated'' then pg_close_open_zone env (za_zone_id target)
       else tx_return ())
     else tx_return ())"

definition provision_registration_access ::
    "pg_env \<Rightarrow> string \<Rightarrow> string \<Rightarrow> string \<Rightarrow> zone_access \<Rightarrow> (auth_db, unit) stmt" where
  "provision_registration_access env user email invite_token target0 =
    tx_bind (lock_registration_target env target0) (\<lambda>target.
    tx_bind (registration_invite env email invite_token target) (\<lambda>(invite, invite_role).
    tx_then (add_workspace_membership env user (za_workspace_id target) invite_role)
    (tx_then (registration_claim env user target)
    (if invite \<noteq> [] then pg_accept_invite env invite else tx_return ()))))"

definition email_or_name_taken :: "auth_db \<Rightarrow> string \<Rightarrow> string \<Rightarrow> bool" where
  "email_or_name_taken db email username \<longleftrightarrow>
     list_ex (\<lambda>u. uw_deleted_at u = None \<and>
       (citext (ur_email u) = citext email \<or> citext (ur_username u) = citext username)) (ab_users db)"

definition new_user_row :: "pg_env \<Rightarrow> create_user_params \<Rightarrow> string option \<Rightarrow> user_row" where
  "new_user_row env p ip =
    \<lparr>ur_id = pe_fresh env, ur_email = up_email p, ur_username = up_username p,
     ur_display_name = up_display_name p, ur_password_hash = up_password_hash p,
     ur_avatar_url = nullif_empty (up_avatar_url p), ur_status = ''active'', ur_locale = ''vi-VN'',
     ur_timezone = ''Asia/Ho_Chi_Minh'',
     ur_email_verified_at = (if up_email_verified p then Some (pe_now env) else None),
     ur_last_seen_at = Some (pe_now env), ur_registration_ip = ip,
     ur_registration_device = nullif_empty (up_device_name p), ur_last_ip = ip,
     ur_device_name = nullif_empty (up_device_name p), ur_created_at = pe_now env, ur_updated_at = pe_now env,
     uw_registration_agent = nullif_empty (up_user_agent p), uw_last_agent = nullif_empty (up_user_agent p),
     uw_deleted_at = None\<rparr>"

definition pg_insert_user :: "auth_pg_config \<Rightarrow> pg_env \<Rightarrow> create_user_params \<Rightarrow> (auth_db, user) stmt" where
  "pg_insert_user cfg env p =
    tx_then (tx_lift (text_params [up_email p, up_username p, up_display_name p, up_password_hash p,
      up_ip_address p, up_device_name p, up_user_agent p, up_avatar_url p]))
    (tx_bind (tx_lift (inet_or_null cfg (up_ip_address p))) (\<lambda>ip db.
     if email_or_name_taken db (up_email p) (up_username p) \<or> pe_fresh env \<in> ur_id ` set (ab_users db)
     then (db, Inl unique_violation)
     else (db\<lparr>ab_users := ab_users db @ [new_user_row env p ip]\<rparr>, Inr (user.truncate (new_user_row env p ip)))))"

definition insert_user_error :: "go_error \<Rightarrow> go_error" where
  "insert_user_error e = (if is_unique_violation e then err_user_exists else e)"

definition pg_create_user :: "auth_pg_config \<Rightarrow> pg_env \<Rightarrow> create_user_params \<Rightarrow> (auth_db, user) stmt" where
  "pg_create_user cfg env p =
    in_tx
      (tx_bind (tx_map_error insert_user_error (pg_insert_user cfg env p)) (\<lambda>user.
       tx_then (provision_registration_access env (ur_id user) (up_email p) (up_invite_token p) (up_zone p))
       (tx_return user)))"

section \<open>Access\<close>

text \<open>A suspended zone keeps its suspended workspace reachable.\<close>

definition valid_zone_target :: "auth_db \<Rightarrow> string \<Rightarrow> string \<Rightarrow> bool" where
  "valid_zone_target db zone workspace \<longleftrightarrow>
     list_ex (\<lambda>z. zw_id z = zone \<and> zone_open z \<and>
       list_ex (\<lambda>w. ww_id w = workspace \<and> ww_zone_id w = zw_id z \<and> ww_deleted_at w = None \<and>
         ww_status w = (if zw_status z = ''suspended'' then ''suspended'' else ''active'')) (ab_workspaces db)) (ab_zones db)"

definition validate_zone_target :: "pg_env \<Rightarrow> zone_access \<Rightarrow> (auth_db, unit) stmt" where
  "validate_zone_target env target =
    tx_bind (tx_lift (uuid2 env (za_zone_id target) (za_workspace_id target))) (\<lambda>(zone, workspace) db.
    if valid_zone_target db zone workspace then (db, Inr ()) else (db, Inl err_zone_not_found))"

definition pg_ensure_access :: "pg_env \<Rightarrow> string \<Rightarrow> zone_access \<Rightarrow> (auth_db, unit) stmt" where
  "pg_ensure_access env user0 target =
    in_tx
      (tx_then (validate_zone_target env target)
      (tx_bind (tx_lift (uuid2 env (za_workspace_id target) user0)) (\<lambda>(workspace, user) db.
       case List.find (is_member workspace user) (ab_members db) of
         None \<Rightarrow>
           if za_zone_status target \<noteq> ''active'' \<or> za_mode target \<noteq> ''open'' then (db, Inl err_zone_access_denied)
           else add_workspace_membership env user0 (za_workspace_id target) [] db
       | Some m \<Rightarrow>
           if mw_status m \<noteq> ''active'' then (db, Inl err_zone_access_denied)
           else repair_workspace_access env user0 (za_workspace_id target) db)))"

section \<open>Users\<close>

definition scan_user :: "user_row option \<Rightarrow> user result" where
  "scan_user r = (case r of None \<Rightarrow> Inl err_user_not_found | Some u \<Rightarrow> Inr (user.truncate u))"

definition pg_find_user_by_id :: "pg_env \<Rightarrow> string \<Rightarrow> (auth_db, user) stmt" where
  "pg_find_user_by_id env id0 db =
    (db, result_bind (uuid_param env id0) (\<lambda>i.
       scan_user (List.find (\<lambda>u. ur_id u = i \<and> uw_deleted_at u = None) (ab_users db))))"

definition identified_by :: "string \<Rightarrow> user_row \<Rightarrow> bool" where
  "identified_by identifier u \<longleftrightarrow>
     (citext (ur_email u) = citext identifier \<or> citext (ur_username u) = citext identifier) \<and> uw_deleted_at u = None"

definition pg_find_user :: "string \<Rightarrow> (auth_db, user) stmt" where
  "pg_find_user identifier db =
    (db, result_bind (text_params [identifier]) (\<lambda>_.
       scan_user (List.find (identified_by identifier) (ab_users db))))"

definition pg_update_last_login :: "auth_pg_config \<Rightarrow> pg_env \<Rightarrow> last_login_params \<Rightarrow> (auth_db, unit) stmt" where
  "pg_update_last_login cfg env p =
    tx_bind (tx_lift (uuid_param env (ll_user_id p))) (\<lambda>i.
    tx_then (tx_lift (text_params [ll_ip_address p, ll_device_name p, ll_user_agent p]))
    (tx_bind (tx_lift (inet_or_null cfg (ll_ip_address p))) (\<lambda>ip db.
    (db\<lparr>ab_users := update_where (\<lambda>u. ur_id u = i \<and> uw_deleted_at u = None)
       (\<lambda>u. u\<lparr>ur_last_seen_at := Some (pg_time (ll_seen_at p)), ur_last_ip := ip,
          ur_device_name := nullif_empty (ll_device_name p), uw_last_agent := nullif_empty (ll_user_agent p),
          ur_updated_at := pe_now env\<rparr>) (ab_users db)\<rparr>, Inr ()))))"

section \<open>Sessions\<close>

text \<open>A column of a session from before the zones may be NULL, which \<open>Scan\<close> into a string refuses.\<close>

definition scan_session :: "auth_session_row \<Rightarrow> session result" where
  "scan_session r =
    (case (sw_zone_id r, sw_workspace_id r, sw_domain r) of
       (Some zone, Some workspace, Some domain) \<Rightarrow>
         Inr \<lparr>sn_id = sw_id r, sn_user_id = sw_user_id r, sn_zone_id = zone, sn_workspace_id = workspace,
           sn_domain = domain, sn_hash = sw_hash r, sn_device_name = sw_device_name r,
           sn_ip_address = sw_ip_address r, sn_user_agent = sw_user_agent r, sn_expires_at = sw_expires_at r,
           sn_revoked_at = sw_revoked_at r, sn_created_at = sw_created_at r, sn_updated_at = sw_updated_at r\<rparr>
     | _ \<Rightarrow> Inl scan_null)"

definition scan_session_row :: "auth_session_row option \<Rightarrow> session result" where
  "scan_session_row r = (case r of None \<Rightarrow> Inl err_session_not_found | Some x \<Rightarrow> scan_session x)"

definition new_session_row ::
    "pg_env \<Rightarrow> create_session_params \<Rightarrow> string \<Rightarrow> string \<Rightarrow> string \<Rightarrow> string option \<Rightarrow> auth_session_row" where
  "new_session_row env p user zone workspace ip =
    \<lparr>sw_id = pe_fresh env, sw_user_id = user, sw_zone_id = Some zone, sw_workspace_id = Some workspace,
     sw_domain = Some (cx_domain p), sw_hash = cx_hash p, sw_device_name = nullif_empty (cx_device_name p),
     sw_ip_address = ip, sw_user_agent = nullif_empty (cx_user_agent p),
     sw_expires_at = pg_time (cx_expires_at p), sw_revoked_at = None, sw_created_at = pe_now env,
     sw_updated_at = pe_now env\<rparr>"

definition pg_create_session :: "auth_pg_config \<Rightarrow> pg_env \<Rightarrow> create_session_params \<Rightarrow> (auth_db, session) stmt" where
  "pg_create_session cfg env p =
    tx_bind (tx_lift (uuid_param env (cx_user_id p))) (\<lambda>user.
    tx_bind (tx_lift (uuid2 env (cx_zone_id p) (cx_workspace_id p))) (\<lambda>(zone, workspace).
    tx_then (tx_lift (text_params [cx_domain p, cx_hash p, cx_device_name p, cx_ip_address p, cx_user_agent p]))
    (tx_bind (tx_lift (inet_or_null cfg (cx_ip_address p))) (\<lambda>ip db.
    if pe_fresh env \<in> sw_id ` set (ab_sessions db) \<or> cx_hash p \<in> sw_hash ` set (ab_sessions db)
    then (db, Inl unique_violation)
    else if user \<notin> ur_id ` set (ab_users db) \<or> zone \<notin> zw_id ` set (ab_zones db) \<or>
      workspace \<notin> ww_id ` set (ab_workspaces db)
    then (db, Inl fk_violation)
    else (db\<lparr>ab_sessions := ab_sessions db @ [new_session_row env p user zone workspace ip]\<rparr>,
      scan_session (new_session_row env p user zone workspace ip))))))"

definition pg_find_session :: "string \<Rightarrow> (auth_db, session) stmt" where
  "pg_find_session hash db =
    (db, result_bind (text_params [hash]) (\<lambda>_.
       scan_session_row (List.find (\<lambda>r. sw_hash r = hash) (ab_sessions db))))"

definition rotatable :: "string \<Rightarrow> string \<Rightarrow> auth_session_row \<Rightarrow> bool" where
  "rotatable sid user r \<longleftrightarrow> sw_id r = sid \<and> sw_user_id r = user \<and> sw_revoked_at r = None"

definition rotated :: "pg_env \<Rightarrow> rotate_params \<Rightarrow> auth_session_row \<Rightarrow> auth_session_row" where
  "rotated env p r =
    r\<lparr>sw_hash := ro_hash p, sw_expires_at := pg_time (ro_expires_at p), sw_revoked_at := None,
      sw_updated_at := pe_now env\<rparr>"

definition pg_rotate_session :: "pg_env \<Rightarrow> rotate_params \<Rightarrow> (auth_db, session) stmt" where
  "pg_rotate_session env p =
    tx_bind (tx_lift (uuid2 env (ro_session_id p) (ro_user_id p))) (\<lambda>(sid, user).
    tx_then (tx_lift (text_params [ro_hash p])) (\<lambda>db.
    case List.find (rotatable sid user) (ab_sessions db) of
      None \<Rightarrow> (db, Inl err_session_not_found)
    | Some r \<Rightarrow>
        if list_ex (\<lambda>x. sw_hash x = ro_hash p \<and> sw_id x \<noteq> sid) (ab_sessions db) then (db, Inl unique_violation)
        else (db\<lparr>ab_sessions := update_where (rotatable sid user) (rotated env p) (ab_sessions db)\<rparr>,
          scan_session (rotated env p r))))"

definition revoke_where ::
    "pg_env \<Rightarrow> time \<Rightarrow> (auth_session_row \<Rightarrow> bool) \<Rightarrow> auth_db \<Rightarrow> auth_db" where
  "revoke_where env t p db =
    db\<lparr>ab_sessions := update_where (\<lambda>r. p r \<and> sw_revoked_at r = None)
      (\<lambda>r. r\<lparr>sw_revoked_at := Some (pg_time t), sw_updated_at := pe_now env\<rparr>) (ab_sessions db)\<rparr>"

definition pg_revoke_by_hash :: "pg_env \<Rightarrow> string \<Rightarrow> time \<Rightarrow> (auth_db, unit) stmt" where
  "pg_revoke_by_hash env hash t =
    tx_then (tx_lift (text_params [hash])) (\<lambda>db. (revoke_where env t (\<lambda>r. sw_hash r = hash) db, Inr ()))"

definition session_of :: "string \<Rightarrow> string \<Rightarrow> auth_session_row \<Rightarrow> bool" where
  "session_of user zone r \<longleftrightarrow> sw_user_id r = user \<and> sw_zone_id r = Some zone"

definition pg_revoke_by_id :: "pg_env \<Rightarrow> string \<Rightarrow> string \<Rightarrow> string \<Rightarrow> time \<Rightarrow> (auth_db, unit) stmt" where
  "pg_revoke_by_id env user0 zone0 sid0 t =
    tx_bind (tx_lift (uuid_param env sid0)) (\<lambda>sid.
    tx_bind (tx_lift (uuid2 env user0 zone0)) (\<lambda>(user, zone) db.
    if list_ex (\<lambda>r. sw_id r = sid \<and> session_of user zone r \<and> sw_revoked_at r = None) (ab_sessions db)
    then (revoke_where env t (\<lambda>r. sw_id r = sid \<and> session_of user zone r) db, Inr ())
    else (db, Inl err_session_not_found)))"

definition pg_revoke_all :: "pg_env \<Rightarrow> string \<Rightarrow> string \<Rightarrow> time \<Rightarrow> (auth_db, unit) stmt" where
  "pg_revoke_all env user0 zone0 t =
    tx_bind (tx_lift (uuid2 env user0 zone0)) (\<lambda>(user, zone) db.
    (revoke_where env t (session_of user zone) db, Inr ()))"

fun scan_sessions :: "auth_session_row list \<Rightarrow> session list result" where
  "scan_sessions [] = Inr []"
| "scan_sessions (r # rs) =
    result_bind (scan_session r) (\<lambda>s. result_bind (scan_sessions rs) (\<lambda>ss. Inr (s # ss)))"

definition pg_list_sessions :: "pg_env \<Rightarrow> string \<Rightarrow> string \<Rightarrow> (auth_db, session list) stmt" where
  "pg_list_sessions env user0 zone0 db =
    (db, result_bind (uuid2 env user0 zone0) (\<lambda>(user, zone).
       scan_sessions (sort_key (\<lambda>r. - sw_created_at r) (filter (session_of user zone) (ab_sessions db)))))"

section \<open>Audit log\<close>

definition audit_zone :: "auth_db \<Rightarrow> string option \<Rightarrow> string option \<Rightarrow> string option" where
  "audit_zone db zone workspace =
    (case (zone, workspace) of
       (None, Some w) \<Rightarrow> map_option ww_zone_id (List.find (\<lambda>r. ww_id r = w) (ab_workspaces db))
     | _ \<Rightarrow> zone)"

definition known_ref :: "string set \<Rightarrow> string option \<Rightarrow> bool" where
  "known_ref ids r \<longleftrightarrow> (case r of None \<Rightarrow> True | Some i \<Rightarrow> i \<in> ids)"

definition pg_record_audit :: "auth_pg_config \<Rightarrow> pg_env \<Rightarrow> audit_event \<Rightarrow> (auth_db, unit) stmt" where
  "pg_record_audit cfg env e =
    tx_then (tx_lift (text_params [av_zone_id e, av_workspace_id e, av_actor e, av_action e, av_entity_type e,
      av_entity_id e, av_ip_address e, av_user_agent e]))
    (tx_bind (tx_lift (jsonb_param env (json_object (map (\<lambda>(k, v). (k, JStr v)) (av_metadata e))))) (\<lambda>metadata.
    tx_bind (tx_lift (uuid_or_null env (av_zone_id e))) (\<lambda>zone0.
    tx_bind (tx_lift (uuid_or_null env (av_workspace_id e))) (\<lambda>workspace.
    tx_bind (tx_lift (uuid_or_null env (av_actor e))) (\<lambda>actor.
    tx_bind (tx_lift (uuid_or_null env (av_entity_id e))) (\<lambda>entity.
    tx_bind (tx_lift (inet_or_null cfg (av_ip_address e))) (\<lambda>ip db.
    let zone = audit_zone db zone0 workspace in
    if \<not> known_ref (zw_id ` set (ab_zones db)) zone \<or> \<not> known_ref (ww_id ` set (ab_workspaces db)) workspace \<or>
      \<not> known_ref (ur_id ` set (ab_users db)) actor
    then (db, Inl fk_violation)
    else (db\<lparr>ab_audit := ab_audit db @
        [\<lparr>lw_zone_id = zone, lw_workspace_id = workspace, lw_actor = actor, lw_action = av_action e,
          lw_entity_type = av_entity_type e, lw_entity_id = entity, lw_ip_address = ip,
          lw_user_agent = nullif_empty (av_user_agent e), lw_metadata = metadata,
          lw_created_at = pe_now env\<rparr>]\<rparr>, Inr ()))))))))"

section \<open>The default workspace\<close>

definition resolve_implicit_workspace_id :: "string list \<Rightarrow> string result" where
  "resolve_implicit_workspace_id ids =
    (case ids of [i] \<Rightarrow> Inr i | _ \<Rightarrow> Inl default_workspace_unavailable)"

definition live_workspace :: "auth_workspace_row \<Rightarrow> bool" where
  "live_workspace w \<longleftrightarrow> ww_status w = ''active'' \<and> ww_deleted_at w = None"

definition resolve_default_workspace_id :: "auth_pg_config \<Rightarrow> pg_env \<Rightarrow> (auth_db, string) stmt" where
  "resolve_default_workspace_id cfg env db =
    (db,
     if yp_default_workspace cfg \<noteq> [] then
       result_bind (uuid_param env (yp_default_workspace cfg)) (\<lambda>i.
         if list_ex (\<lambda>w. ww_id w = i \<and> live_workspace w) (ab_workspaces db) then Inr i
         else Inl default_workspace_unavailable)
     else resolve_implicit_workspace_id
       (take 2 (map ww_id (sort_key (\<lambda>w. (ww_created_at w, ww_id w)) (filter live_workspace (ab_workspaces db))))))"

definition ensure_default_workspace_membership :: "auth_pg_config \<Rightarrow> pg_env \<Rightarrow> string \<Rightarrow> (auth_db, unit) stmt" where
  "ensure_default_workspace_membership cfg env user0 =
    in_tx
      (tx_bind (resolve_default_workspace_id cfg env) (\<lambda>workspace.
       tx_bind (tx_lift (uuid_param env user0)) (\<lambda>user.
       tx_then (\<lambda>db. if list_ex (\<lambda>u. ur_id u = user \<and> ur_status u = ''active'' \<and> uw_deleted_at u = None) (ab_users db)
         then pg_upsert_member [''invited''] env workspace user db else (db, Inr ()))
       (tx_then (\<lambda>db. if active_member db workspace user then (db, Inr ())
         else (db, Inl (new_app_error ''WORKSPACE_ACCESS_DISABLED'' ''Quyen truy cap workspace da bi vo hieu hoa.'' 403)))
       (repair_workspace_access env user0 workspace)))))"

section \<open>The repository\<close>

definition auth_pg :: "auth_pg_config \<Rightarrow> auth_db pg auth_repo" where
  "auth_pg cfg =
    \<lparr>ag_create_user = (\<lambda>p. pg_run (\<lambda>env. pg_create_user cfg env p)),
     ag_resolve_zone = pg_resolve_zone cfg,
     ag_ensure_access = (\<lambda>u t. pg_run (\<lambda>env. pg_ensure_access env u t)),
     ag_find_user_by_id = (\<lambda>i. pg_run (\<lambda>env. pg_find_user_by_id env i)),
     ag_find_user = (\<lambda>i. pg_run (\<lambda>_. pg_find_user i)),
     ag_update_last_login = (\<lambda>p. pg_run (\<lambda>env. pg_update_last_login cfg env p)),
     ag_create_session = (\<lambda>p. pg_run (\<lambda>env. pg_create_session cfg env p)),
     ag_find_session = (\<lambda>h. pg_run (\<lambda>_. pg_find_session h)),
     ag_rotate_session = (\<lambda>p. pg_run (\<lambda>env. pg_rotate_session env p)),
     ag_revoke_by_hash = (\<lambda>h t. pg_run (\<lambda>env. pg_revoke_by_hash env h t)),
     ag_revoke_by_id = (\<lambda>u z i t. pg_run (\<lambda>env. pg_revoke_by_id env u z i t)),
     ag_revoke_all = (\<lambda>u z t. pg_run (\<lambda>env. pg_revoke_all env u z t)),
     ag_list_sessions = (\<lambda>u z. pg_run (\<lambda>env. pg_list_sessions env u z)),
     ag_record_audit = (\<lambda>e. pg_run (\<lambda>env. pg_record_audit cfg env e))\<rparr>"

end
