(* ===== verification/Auth_Props.thy ===== *)
theory Auth_Props
  imports Auth_Contract Auth_Pg
begin

text \<open>
  What the statements of the auth repository keep, the interpretation of the contract on it, and the
  properties of registration, sign-in and refresh.
\<close>

section \<open>What statements keep\<close>

text \<open>
  No statement drops a user, zone, workspace or invite, or changes a revoked session, an owned workspace,
  an accepted invite or a zone that is not open; the keys of the sessions stay unique.
\<close>

definition sessions_ok :: "auth_db \<Rightarrow> bool" where
  "sessions_ok db \<longleftrightarrow> distinct (map sw_id (ab_sessions db)) \<and> distinct (map sw_hash (ab_sessions db))"

definition auth_grows :: "auth_db \<Rightarrow> auth_db \<Rightarrow> bool" where
  "auth_grows db db' \<longleftrightarrow>
     (\<exists>ids. map ur_id (ab_users db') = map ur_id (ab_users db) @ ids) \<and>
     map zw_id (ab_zones db') = map zw_id (ab_zones db) \<and>
     map (\<lambda>z. (zw_id z, zw_deleted_at z)) (ab_zones db') = map (\<lambda>z. (zw_id z, zw_deleted_at z)) (ab_zones db) \<and>
     map ww_id (ab_workspaces db') = map ww_id (ab_workspaces db) \<and>
     (\<forall>r\<in>set (ab_sessions db). sw_revoked_at r \<noteq> None \<longrightarrow> r \<in> set (ab_sessions db')) \<and>
     (\<forall>w\<in>set (ab_workspaces db). ww_owner_id w \<noteq> None \<longrightarrow> w \<in> set (ab_workspaces db')) \<and>
     (\<forall>i\<in>set (ab_invites db). iw_accepted_at i \<noteq> None \<longrightarrow> i \<in> set (ab_invites db')) \<and>
     map iw_token_hash (ab_invites db') = map iw_token_hash (ab_invites db) \<and>
     (\<forall>z\<in>set (ab_zones db). zw_mode z \<noteq> ''open'' \<longrightarrow> z \<in> set (ab_zones db')) \<and>
     (sessions_ok db \<longrightarrow> sessions_ok db')"

lemma auth_grows_refl [simp]: "auth_grows db db"
  by (auto simp: auth_grows_def)

lemma auth_grows_preorder [simp]: "preorder_rel auth_grows"
proof -
  have "auth_grows a c" if 1: "auth_grows a b" and 2: "auth_grows b c" for a b c
  proof -
    have "\<exists>ids. map ur_id (ab_users c) = map ur_id (ab_users a) @ ids"
      using 1 2 unfolding auth_grows_def by (metis append_assoc)
    with 1 2 show ?thesis unfolding auth_grows_def by auto
  qed
  then show ?thesis unfolding preorder_rel_def by auto
qed

lemma auth_grows_other:
  "ab_users db' = ab_users db \<Longrightarrow> ab_zones db' = ab_zones db \<Longrightarrow> ab_workspaces db' = ab_workspaces db \<Longrightarrow>
   ab_sessions db' = ab_sessions db \<Longrightarrow> ab_invites db' = ab_invites db \<Longrightarrow> auth_grows db db'"
  by (auto simp: auth_grows_def sessions_ok_def)

lemma kept_row: "r \<in> set rows \<Longrightarrow> \<not> p r \<Longrightarrow> r \<in> set (update_where p f rows)"
  by (force simp: set_update_where)

subsection \<open>Membership\<close>

text \<open>The membership statements touch only members, their roles and their channels.\<close>

abbreviation core :: "auth_db \<Rightarrow> _" where
  "core db \<equiv> (ab_users db, ab_sessions db, ab_zones db, ab_workspaces db, ab_invites db, ab_domains db)"

lemma core_grows: "tx_keeps core f \<Longrightarrow> tx_rel auth_grows f"
  by (rule tx_relI, drule (1) tx_relD) (simp add: auth_grows_other)

lemma upsert_member_core: "tx_keeps core (pg_upsert_member revive env w u)"
  by (rule tx_relI) (auto simp: pg_upsert_member_def split: if_splits)

lemma grant_role_core: "tx_keeps core (grant_role w u a role)"
  by (rule tx_relI) (auto simp: grant_role_def split: if_splits)

lemma grant_system_role_core: "tx_keeps core (pg_grant_system_role code w u a)"
  by (rule tx_relI) (auto simp: pg_grant_system_role_def split: list.splits dest: tx_relD [OF grant_role_core])

lemma join_channels_core: "tx_keeps core (pg_join_public_channels w u)"
  by (rule tx_relI) (auto simp: pg_join_public_channels_def)

lemma check_core: "tx_keeps core (\<lambda>db. if c db then (db, Inr ()) else (db, Inl e))"
  by (rule tx_relI) (auto split: if_splits)

lemma unless_core: "tx_keeps core f \<Longrightarrow> tx_keeps core (\<lambda>db. if c db then (db, Inr ()) else f db)"
  by (auto simp: tx_rel_def)

lemma repair_core: "tx_keeps core (repair_workspace_access env u w)"
  unfolding repair_workspace_access_def
  by (intro tx_rel_intros preorder_keeps unless_core check_core grant_system_role_core join_channels_core)

lemma add_membership_core: "tx_keeps core (add_workspace_membership env u w role)"
  unfolding add_workspace_membership_def
  by (intro tx_rel_intros preorder_keeps upsert_member_core check_core grant_role_core repair_core)

lemma validate_core: "tx_keeps core (validate_zone_target env t)"
  unfolding validate_zone_target_def
  by (intro tx_rel_intros preorder_keeps check_core)

lemma ensure_access_core: "tx_keeps core (pg_ensure_access env u t)"
proof -
  have "tx_keeps core (\<lambda>db. case List.find (is_member w v) (ab_members db) of
         None \<Rightarrow>
           if za_zone_status t \<noteq> ''active'' \<or> za_mode t \<noteq> ''open'' then (db, Inl err_zone_access_denied)
           else add_workspace_membership env u (za_workspace_id t) [] db
       | Some m \<Rightarrow>
           if mw_status m \<noteq> ''active'' then (db, Inl err_zone_access_denied)
           else repair_workspace_access env u (za_workspace_id t) db)" for w v
    by (rule tx_relI)
      (auto split: option.splits if_splits dest: tx_relD [OF add_membership_core] tx_relD [OF repair_core])
  then show ?thesis
    unfolding pg_ensure_access_def by (intro tx_rel_intros preorder_keeps validate_core)
qed

subsection \<open>Registration\<close>

lemma insert_user_grows: "tx_rel auth_grows (pg_insert_user cfg env p)"
  unfolding pg_insert_user_def
  by (intro tx_rel_intros auth_grows_preorder, rule tx_relI)
    (auto simp: auth_grows_def sessions_ok_def split: if_splits)

lemma claim_grows: "tx_rel auth_grows (claim_initial_workspace_ownership env u w)"
proof -
  have own: "auth_grows db (db\<lparr>ab_workspaces := update_where (ownerless w)
      (\<lambda>r. r\<lparr>ww_owner_id := Some u, ww_updated_at := t\<rparr>) (ab_workspaces db)\<rparr>)" for db w u t
    unfolding auth_grows_def
    by (auto simp: sessions_ok_def ownerless_def intro: map_update_where intro!: kept_row)
  have rest: "tx_rel auth_grows (tx_then (pg_grant_system_role code w u a)
      (\<lambda>db. if c db then (db, Inr True) else (db, Inl e)))" for code w u a c e
    by (intro tx_rel_intros auth_grows_preorder core_grows grant_system_role_core) (auto simp: tx_rel_def)
  have "tx_rel auth_grows (\<lambda>db. if \<not> list_ex (ownerless w) (ab_workspaces db) then (db, Inr False)
    else if u \<notin> ur_id ` set (ab_users db) then (db, Inl fk_violation)
    else tx_then (pg_grant_system_role ''workspace_owner'' w u (Some u))
      (\<lambda>db. if has_live_role (\<lambda>role. citext (ow_code role) = ''workspace_owner'') db w u then (db, Inr True)
        else (db, Inl default_workspace_unavailable))
      (db\<lparr>ab_workspaces := update_where (ownerless w)
        (\<lambda>r. r\<lparr>ww_owner_id := Some u, ww_updated_at := pe_now env\<rparr>) (ab_workspaces db)\<rparr>))" for w u
    using own auth_grows_preorder
    by (auto intro!: tx_relI split: if_splits dest!: tx_relD [OF rest] simp: preorder_rel_def) blast
  then show ?thesis
    unfolding claim_initial_workspace_ownership_def by (intro tx_rel_intros auth_grows_preorder)
qed

lemma close_zone_grows: "tx_rel auth_grows (pg_close_open_zone env z)"
  unfolding pg_close_open_zone_def
  by (intro tx_rel_intros auth_grows_preorder, rule tx_relI)
    (auto simp: auth_grows_def sessions_ok_def map_update_where intro!: kept_row)

lemma accept_invite_grows: "tx_rel auth_grows (pg_accept_invite env i)"
  unfolding pg_accept_invite_def
  by (intro tx_rel_intros auth_grows_preorder, rule tx_relI)
    (auto simp: auth_grows_def sessions_ok_def map_update_where intro!: kept_row)

lemma lock_target_grows: "tx_rel auth_grows (lock_registration_target env t)"
  unfolding lock_registration_target_def by (rule tx_rel_base(4)) simp

lemma registration_invite_grows: "tx_rel auth_grows (registration_invite env email token t)"
  unfolding registration_invite_def pg_find_invite_def
  by (intro tx_rel_intros auth_grows_preorder)

lemma provision_grows: "tx_rel auth_grows (provision_registration_access env u email token t)"
  unfolding provision_registration_access_def registration_claim_def
  by (intro tx_rel_intros auth_grows_preorder lock_target_grows registration_invite_grows claim_grows
      close_zone_grows accept_invite_grows core_grows add_membership_core)

lemma create_user_grows: "tx_rel auth_grows (pg_create_user cfg env p)"
  unfolding pg_create_user_def by (intro tx_rel_intros auth_grows_preorder insert_user_grows provision_grows)

subsection \<open>Sessions, users and the audit log\<close>

lemma update_last_login_grows: "tx_rel auth_grows (pg_update_last_login cfg env p)"
  unfolding pg_update_last_login_def
  by (intro tx_rel_intros auth_grows_preorder, rule tx_relI)
    (auto simp: auth_grows_def sessions_ok_def map_update_where)

lemma create_session_grows: "tx_rel auth_grows (pg_create_session cfg env p)"
proof -
  have "tx_rel auth_grows (\<lambda>db. if pe_fresh env \<in> sw_id ` set (ab_sessions db) \<or> cx_hash p \<in> sw_hash ` set (ab_sessions db)
    then (db, Inl unique_violation)
    else if u \<notin> ur_id ` set (ab_users db) \<or> z \<notin> zw_id ` set (ab_zones db) \<or> w \<notin> ww_id ` set (ab_workspaces db)
    then (db, Inl fk_violation)
    else (db\<lparr>ab_sessions := ab_sessions db @ [new_session_row env p u z w ip]\<rparr>,
      scan_session (new_session_row env p u z w ip)))" for u z w ip
    by (rule tx_relI) (auto simp: auth_grows_def sessions_ok_def new_session_row_def split: if_splits)
  then show ?thesis unfolding pg_create_session_def by (intro tx_rel_intros auth_grows_preorder)
qed

lemma rotate_sessions_ok:
  assumes "sessions_ok db" "\<not> list_ex (\<lambda>x. sw_hash x = ro_hash p \<and> sw_id x \<noteq> sid) (ab_sessions db)"
  shows "sessions_ok (db\<lparr>ab_sessions := update_where (rotatable sid user) (rotated env p) (ab_sessions db)\<rparr>)"
proof -
  let ?rows = "ab_sessions db"
  let ?new = "update_where (rotatable sid user) (rotated env p) ?rows"
  have ids: "map sw_id ?new = map sw_id ?rows" by (rule map_update_where) (simp add: rotated_def)
  have "distinct (map sw_hash ?new)"
    unfolding update_where_def map_map distinct_map
  proof (intro conjI inj_onI)
    show "distinct ?rows" using assms(1) by (simp add: sessions_ok_def distinct_map)
    fix a b assume ab: "a \<in> set ?rows" "b \<in> set ?rows"
      and eq: "(sw_hash \<circ> (\<lambda>r. if rotatable sid user r then rotated env p r else r)) a =
        (sw_hash \<circ> (\<lambda>r. if rotatable sid user r then rotated env p r else r)) b"
    have other: "sw_id x = sid" if "x \<in> set ?rows" "sw_hash x = ro_hash p" for x
      using assms(2) that by (auto simp: list_ex_iff)
    have "sw_id a = sw_id b \<or> sw_hash a = sw_hash b"
      using eq ab other by (auto simp: rotatable_def rotated_def split: if_splits)
    then show "a = b" using assms(1) ab key_unique unfolding sessions_ok_def by metis
  qed
  with ids assms(1) show ?thesis by (simp add: sessions_ok_def)
qed

lemma rotate_session_grows: "tx_rel auth_grows (pg_rotate_session env p)"
proof -
  have "tx_rel auth_grows (\<lambda>db. case List.find (rotatable sid user) (ab_sessions db) of
      None \<Rightarrow> (db, Inl err_session_not_found)
    | Some r \<Rightarrow>
        if list_ex (\<lambda>x. sw_hash x = ro_hash p \<and> sw_id x \<noteq> sid) (ab_sessions db) then (db, Inl unique_violation)
        else (db\<lparr>ab_sessions := update_where (rotatable sid user) (rotated env p) (ab_sessions db)\<rparr>,
          scan_session (rotated env p r)))" for sid user
  proof (rule tx_relI)
    fix db db' :: auth_db and r
    assume eq: "(case List.find (rotatable sid user) (ab_sessions db) of
        None \<Rightarrow> (db, Inl err_session_not_found)
      | Some r \<Rightarrow>
        if list_ex (\<lambda>x. sw_hash x = ro_hash p \<and> sw_id x \<noteq> sid) (ab_sessions db) then (db, Inl unique_violation)
        else (db\<lparr>ab_sessions := update_where (rotatable sid user) (rotated env p) (ab_sessions db)\<rparr>,
          scan_session (rotated env p r))) = (db', r)"
    show "auth_grows db db'"
    proof (cases "db' = db")
      case False
      with eq have db': "db' = db\<lparr>ab_sessions := update_where (rotatable sid user) (rotated env p) (ab_sessions db)\<rparr>"
        and fresh: "\<not> list_ex (\<lambda>x. sw_hash x = ro_hash p \<and> sw_id x \<noteq> sid) (ab_sessions db)"
        by (auto split: option.splits if_splits)
      show ?thesis
        using rotate_sessions_ok [OF _ fresh] unfolding auth_grows_def db'
        by (auto simp: rotatable_def intro!: kept_row)
    qed simp
  qed
  then show ?thesis unfolding pg_rotate_session_def by (intro tx_rel_intros auth_grows_preorder)
qed

lemma revoke_where_grows: "auth_grows db (revoke_where env t p db)"
proof -
  have "map sw_id (ab_sessions (revoke_where env t p db)) = map sw_id (ab_sessions db)"
    and "map sw_hash (ab_sessions (revoke_where env t p db)) = map sw_hash (ab_sessions db)"
    by (simp_all add: revoke_where_def map_update_where)
  then show ?thesis
    unfolding auth_grows_def sessions_ok_def by (auto simp: revoke_where_def intro!: kept_row)
qed

lemma revoke_grows:
  "tx_rel auth_grows (pg_revoke_by_hash env h t)"
  "tx_rel auth_grows (pg_revoke_by_id env u z i t)"
  "tx_rel auth_grows (pg_revoke_all env u z t)"
  unfolding pg_revoke_by_hash_def pg_revoke_by_id_def pg_revoke_all_def
  by (intro tx_rel_intros auth_grows_preorder, rule tx_relI, auto simp: revoke_where_grows split: if_splits)+

lemma record_audit_core: "tx_keeps (\<lambda>db. (core db, ab_members db)) (pg_record_audit cfg env e)"
  unfolding pg_record_audit_def Let_def
  by (intro tx_rel_intros preorder_keeps, rule tx_relI) (auto split: if_splits)

lemma record_audit_grows: "tx_rel auth_grows (pg_record_audit cfg env e)"
  by (rule core_grows, rule tx_relI, drule tx_relD [OF record_audit_core]) simp

lemma default_membership_grows: "tx_rel auth_grows (ensure_default_workspace_membership cfg env u)"
  unfolding ensure_default_workspace_membership_def resolve_default_workspace_id_def
  by (intro tx_rel_intros auth_grows_preorder tx_rel_if_db core_grows upsert_member_core check_core repair_core)

section \<open>Any sequence of statements\<close>

text \<open>The statements of concurrent requests, in any order and with any parameters.\<close>

inductive auth_step :: "auth_pg_config \<Rightarrow> auth_db \<Rightarrow> auth_db \<Rightarrow> bool" for cfg :: auth_pg_config where
  created: "pg_create_user cfg env p db = (db', ru) \<Longrightarrow> auth_step cfg db db'"
| ensured: "pg_ensure_access env u t db = (db', rn) \<Longrightarrow> auth_step cfg db db'"
| seen: "pg_update_last_login cfg env l db = (db', rn) \<Longrightarrow> auth_step cfg db db'"
| opened: "pg_create_session cfg env c db = (db', rs) \<Longrightarrow> auth_step cfg db db'"
| rotated: "pg_rotate_session env q db = (db', rs) \<Longrightarrow> auth_step cfg db db'"
| revoked_hash: "pg_revoke_by_hash env h now db = (db', rn) \<Longrightarrow> auth_step cfg db db'"
| revoked_id: "pg_revoke_by_id env u z i now db = (db', rn) \<Longrightarrow> auth_step cfg db db'"
| revoked_all: "pg_revoke_all env u z now db = (db', rn) \<Longrightarrow> auth_step cfg db db'"
| audited: "pg_record_audit cfg env e db = (db', rn) \<Longrightarrow> auth_step cfg db db'"
| defaulted: "ensure_default_workspace_membership cfg env u db = (db', rn) \<Longrightarrow> auth_step cfg db db'"

lemma auth_step_grows: "auth_step cfg db db' \<Longrightarrow> auth_grows db db'"
proof (induction rule: auth_step.induct)
  case (ensured env u t db db' rn)
  then show ?case using tx_relD [OF core_grows [OF ensure_access_core]] by blast
qed (blast intro: tx_relD [OF create_user_grows] tx_relD [OF update_last_login_grows]
    tx_relD [OF create_session_grows] tx_relD [OF rotate_session_grows] tx_relD [OF revoke_grows(1)]
    tx_relD [OF revoke_grows(2)] tx_relD [OF revoke_grows(3)] tx_relD [OF record_audit_grows]
    tx_relD [OF default_membership_grows])+

lemma auth_steps_grow: "(auth_step cfg)\<^sup>*\<^sup>* db db' \<Longrightarrow> auth_grows db db'"
proof (induction rule: rtranclp_induct)
  case (step y z)
  then show ?case using auth_step_grows auth_grows_preorder unfolding preorder_rel_def by blast
qed simp

section \<open>The contract holds of the repository\<close>

definition stored_ids :: "auth_db \<Rightarrow> string set" where
  "stored_ids db = ur_id ` set (ab_users db) \<union> zw_id ` set (ab_zones db) \<union> ww_id ` set (ab_workspaces db) \<union>
    sw_id ` set (ab_sessions db) \<union> iw_id ` set (ab_invites db)"

text \<open>The canonical texts of the stored and of the generated identifiers encode to themselves.\<close>

definition ids_encode :: "auth_db pg \<Rightarrow> bool" where
  "ids_encode st \<longleftrightarrow> (\<forall>n. (\<forall>x\<in>stored_ids (pg_db st). pe_uuid (pg_envs st n) x = Some x) \<and>
     (\<forall>m. pe_uuid (pg_envs st n) (pe_fresh (pg_envs st m)) = Some (pe_fresh (pg_envs st m))))"

definition auth_ok :: "auth_db pg \<Rightarrow> bool" where
  "auth_ok st \<longleftrightarrow> sessions_ok (pg_db st) \<and> ids_encode st"

definition auth_same :: "auth_db pg \<Rightarrow> auth_db pg \<Rightarrow> bool" where
  "auth_same st st' \<longleftrightarrow> pg_db st' = pg_db st \<and> pg_envs st' = pg_envs st"

definition auth_account :: "auth_db pg \<Rightarrow> string \<Rightarrow> user \<Rightarrow> bool" where
  "auth_account st i u \<longleftrightarrow> (\<exists>r\<in>set (ab_users (pg_db st)). identified_by i r \<and> u = user.truncate r)"

definition auth_known :: "auth_db pg \<Rightarrow> string \<Rightarrow> bool" where
  "auth_known st uid \<longleftrightarrow> uid \<in> ur_id ` set (ab_users (pg_db st))"

definition auth_target :: "auth_db pg \<Rightarrow> zone_access \<Rightarrow> bool" where
  "auth_target st t \<longleftrightarrow> za_zone_id t \<in> zw_id ` set (ab_zones (pg_db st)) \<and>
     za_workspace_id t \<in> ww_id ` set (ab_workspaces (pg_db st))"

definition auth_member :: "auth_db pg \<Rightarrow> zone_access \<Rightarrow> string \<Rightarrow> bool" where
  "auth_member st t uid \<longleftrightarrow> valid_zone_target (pg_db st) (za_zone_id t) (za_workspace_id t) \<and>
     active_member (pg_db st) (za_workspace_id t) uid"

definition auth_holds :: "auth_db pg \<Rightarrow> string \<Rightarrow> session \<Rightarrow> bool" where
  "auth_holds st h s \<longleftrightarrow> (\<exists>r\<in>set (ab_sessions (pg_db st)). sw_hash r = h \<and> scan_session r = Inr s)"

lemmas auth_view_defs = auth_account_def auth_known_def auth_target_def auth_member_def auth_holds_def

subsection \<open>Reading statements\<close>

lemma pg_read_same:
  assumes "pg_run f st = (st', r)" "\<And>env db. fst (f env db) = db"
  shows "auth_same st st'"
proof -
  have "pg_db st' = pg_db st"
    using pg_run_db [OF assms(1)] assms(2) [of "pg_envs st (pg_tick st)" "pg_db st"] by auto
  then show ?thesis using pg_run_envs [OF assms(1)] by (simp add: auth_same_def)
qed

lemma resolve_by_domain_db: "pg_resolve_by_domain d db = (db', r) \<Longrightarrow> db' = db"
  by (simp add: pg_resolve_by_domain_def)

lemma resolve_local_db: "pg_resolve_local cfg env db = (db', r) \<Longrightarrow> db' = db"
  by (simp add: pg_resolve_local_def)

lemma pg_resolve_zone_same: "pg_resolve_zone cfg d st = (st', r) \<Longrightarrow> auth_same st st'"
proof -
  assume eq: "pg_resolve_zone cfg d st = (st', r)"
  obtain s1 q where 1: "pg_run (\<lambda>_. pg_resolve_by_domain d) st = (s1, q)"
    by (cases "pg_run (\<lambda>_. pg_resolve_by_domain d) st")
  have s1: "auth_same st s1" by (rule pg_read_same [OF 1]) (simp add: pg_resolve_by_domain_def)
  have "st' = s1 \<or> pg_run (pg_resolve_local cfg) s1 = (st', r)"
    using eq 1 by (auto simp: pg_resolve_zone_def split: sum.splits if_splits)
  then show ?thesis
  proof
    assume "pg_run (pg_resolve_local cfg) s1 = (st', r)"
    from pg_read_same [OF this] have "auth_same s1 st'" by (simp add: pg_resolve_local_def)
    with s1 show ?thesis by (simp add: auth_same_def)
  qed (use s1 in simp)
qed

definition stored_target :: "auth_db \<Rightarrow> zone_access \<Rightarrow> bool" where
  "stored_target db t \<longleftrightarrow> za_zone_id t \<in> zw_id ` set (ab_zones db) \<and> za_workspace_id t \<in> ww_id ` set (ab_workspaces db)"

lemma domain_targets_stored: "(k, t) \<in> set (domain_targets db d) \<Longrightarrow> stored_target db t"
  by (auto simp: domain_targets_def stored_target_def zone_access_of_def intro: rev_image_eqI)

lemma local_targets_stored: "t \<in> set (local_targets db w) \<Longrightarrow> stored_target db t"
  by (auto simp: local_targets_def stored_target_def zone_access_of_def)

lemma pick_local_target_mem: "pick_local_target w ts = Inr t \<Longrightarrow> t \<in> set ts"
proof -
  assume p: "pick_local_target w ts = Inr t"
  have one: "hd xs \<in> set xs" if "length xs = 1" for xs :: "zone_access list"
    using that by (cases xs) auto
  show ?thesis
    using p one [of ts] one [of "filter (\<lambda>t. za_zone_kind t = ''vpsttt_internal'') ts"]
    by (auto simp: pick_local_target_def Let_def split: if_splits)
qed

lemma resolve_by_domain_stored: "pg_resolve_by_domain d db = (db', Inr t) \<Longrightarrow> stored_target db t"
proof -
  assume a: "pg_resolve_by_domain d db = (db', Inr t)"
  then obtain k ts where "sort_key fst (domain_targets db d) = (k, t) # ts"
    by (auto simp: pg_resolve_by_domain_def split: if_splits list.splits)
  then have "(k, t) \<in> set (domain_targets db d)" by (metis list.set_intros(1) set_sort)
  then show ?thesis by (rule domain_targets_stored)
qed

lemma resolve_local_stored: "pg_resolve_local cfg env db = (db', Inr t) \<Longrightarrow> stored_target db t"
  by (auto simp: pg_resolve_local_def result_bind_Inr_iff split: if_splits
      dest!: pick_local_target_mem in_set_takeD local_targets_stored)

lemma pg_resolve_zone_target: "pg_resolve_zone cfg d st = (st', Inr t) \<Longrightarrow> auth_target st t"
proof -
  assume eq: "pg_resolve_zone cfg d st = (st', Inr t)"
  obtain s1 q where run: "pg_run (\<lambda>_. pg_resolve_by_domain d) st = (s1, q)"
    by (cases "pg_run (\<lambda>_. pg_resolve_by_domain d) st")
  have s1: "pg_db s1 = pg_db st"
    using pg_read_same [OF run] by (simp add: pg_resolve_by_domain_def auth_same_def)
  consider "q = Inr t" | "pg_run (pg_resolve_local cfg) s1 = (st', Inr t)"
    using eq run by (auto simp: pg_resolve_zone_def split: sum.splits if_splits)
  then have "stored_target (pg_db st) t"
  proof cases
    case 1
    show ?thesis by (rule resolve_by_domain_stored [OF pg_run_Inr [OF run [unfolded 1]]])
  next
    case 2
    show ?thesis using resolve_local_stored [OF pg_run_Inr [OF 2]] s1 by simp
  qed
  then show ?thesis by (simp add: auth_target_def stored_target_def)
qed

subsection \<open>Access\<close>

lemma members_keep:
  "tx_keeps ab_members (grant_role w u a role)"
  "tx_keeps ab_members (pg_grant_system_role code w u a)"
  "tx_keeps ab_members (pg_join_public_channels w u)"
  by (auto simp: tx_rel_def grant_role_def pg_grant_system_role_def pg_join_public_channels_def
      split: if_splits list.splits)

lemma check_keeps: "tx_keeps v (\<lambda>db. if c db then (db, Inr ()) else (db, Inl e))"
  by (rule tx_relI) (auto split: if_splits)

lemma unless_keeps: "tx_keeps v f \<Longrightarrow> tx_keeps v (\<lambda>db. if c db then (db, Inr ()) else f db)"
  by (auto simp: tx_rel_def)

lemma repair_members: "tx_keeps ab_members (repair_workspace_access env u w)"
  unfolding repair_workspace_access_def
  by (intro tx_rel_intros preorder_keeps unless_keeps check_keeps members_keep)

lemma repair_role:
  assumes "repair_workspace_access env u w db = (db', Inr n)" "uuid2 env w u = Inr (w', u')"
  shows "has_live_role (\<lambda>_. True) db' w' u'"
  using assms
  by (auto simp: repair_workspace_access_def tx_bind_Inr pg_join_public_channels_def has_live_role_def
      split: if_splits)

lemma add_membership_active:
  assumes "add_workspace_membership env u w role db = (db', Inr n)" "uuid2 env w u = Inr (w', u')"
  shows "active_member db' w' u' \<and> has_live_role (\<lambda>_. True) db' w' u'"
proof -
  obtain db1 db2 where 1: "active_member db1 w' u'"
    and 2: "(if role = [] then tx_return () else tx_bind (tx_lift (uuid_param env role)) (grant_role w' u' None)) db1 =
      (db2, Inr ())"
    and 3: "repair_workspace_access env u w db2 = (db', Inr ())"
    using assms by (auto simp: add_workspace_membership_def tx_bind_Inr split: if_splits)
  have "tx_keeps ab_members (if role = [] then tx_return ()
      else tx_bind (tx_lift (uuid_param env role)) (grant_role w' u' None))"
    by (intro tx_rel_intros preorder_keeps members_keep)
  then have "ab_members db2 = ab_members db1" using 2 by (rule tx_relD)
  moreover have "ab_members db' = ab_members db2" by (rule tx_relD [OF repair_members 3])
  ultimately show ?thesis using 1 repair_role [OF 3 assms(2)] by (simp add: active_member_def)
qed

lemma ensure_access_member:
  assumes "pg_ensure_access env u t db = (db', Inr n)"
    and "uuid2 env (za_zone_id t) (za_workspace_id t) = Inr (z', w')" "uuid2 env (za_workspace_id t) u = Inr (w', u')"
  shows "valid_zone_target db' z' w' \<and> active_member db' w' u' \<and> has_live_role (\<lambda>_. True) db' w' u'"
proof -
  have valid: "valid_zone_target db z' w'"
    and rest: "(case List.find (is_member w' u') (ab_members db) of
         None \<Rightarrow>
           if za_zone_status t \<noteq> ''active'' \<or> za_mode t \<noteq> ''open'' then (db, Inl err_zone_access_denied)
           else add_workspace_membership env u (za_workspace_id t) [] db
       | Some m \<Rightarrow>
           if mw_status m \<noteq> ''active'' then (db, Inl err_zone_access_denied)
           else repair_workspace_access env u (za_workspace_id t) db) = (db', Inr n)"
    using assms by (auto simp: pg_ensure_access_def validate_zone_target_def tx_bind_Inr split: if_splits)
  have core: "core db' = core db" by (rule tx_relD [OF ensure_access_core assms(1)])
  have "active_member db' w' u' \<and> has_live_role (\<lambda>_. True) db' w' u'"
  proof (cases "List.find (is_member w' u') (ab_members db)")
    case None
    with rest have "add_workspace_membership env u (za_workspace_id t) [] db = (db', Inr n)"
      by (simp split: if_splits)
    from add_membership_active [OF this assms(3)] show ?thesis .
  next
    case (Some m)
    then have m: "m \<in> set (ab_members db)" "is_member w' u' m" by (auto dest: find_Some_mem)
    have r: "repair_workspace_access env u (za_workspace_id t) db = (db', Inr n)" "mw_status m = ''active''"
      using rest Some by (auto split: if_splits)
    have "ab_members db' = ab_members db" by (rule tx_relD [OF repair_members r(1)])
    with m r(2) repair_role [OF r(1) assms(3)] show ?thesis by (auto simp: active_member_def list_ex_iff)
  qed
  with valid core show ?thesis by (simp add: valid_zone_target_def)
qed

subsection \<open>Sessions\<close>

lemma ids_encode_uuid2:
  "ids_encode st \<Longrightarrow> a \<in> stored_ids (pg_db st) \<Longrightarrow> b \<in> stored_ids (pg_db st) \<Longrightarrow>
   uuid2 (pg_envs st n) a b = Inr (a, b)"
  by (simp add: ids_encode_def uuid2_def uuid_param_def)

lemma ids_encode_mono:
  assumes "ids_encode st" "pg_envs st' = pg_envs st"
    and "stored_ids (pg_db st') \<subseteq> stored_ids (pg_db st) \<union> range (\<lambda>m. pe_fresh (pg_envs st m))"
  shows "ids_encode st'"
  unfolding ids_encode_def assms(2)
proof (intro allI conjI ballI)
  fix n m x
  show "pe_uuid (pg_envs st n) (pe_fresh (pg_envs st m)) = Some (pe_fresh (pg_envs st m))"
    using assms(1) by (simp add: ids_encode_def)
  assume "x \<in> stored_ids (pg_db st')"
  then have "x \<in> stored_ids (pg_db st) \<or> x \<in> range (\<lambda>m. pe_fresh (pg_envs st m))" using assms(3) by blast
  then show "pe_uuid (pg_envs st n) x = Some x" using assms(1) by (auto simp: ids_encode_def)
qed

lemma create_session_row:
  assumes "pg_create_session cfg env p db = (db', r)"
  shows "db' = db \<and> (\<exists>e. r = Inl e) \<or>
    (\<exists>u z w ip. uuid_param env (cx_user_id p) = Inr u \<and> uuid2 env (cx_zone_id p) (cx_workspace_id p) = Inr (z, w) \<and>
      cx_hash p \<notin> sw_hash ` set (ab_sessions db) \<and> pe_fresh env \<notin> sw_id ` set (ab_sessions db) \<and>
      db' = db\<lparr>ab_sessions := ab_sessions db @ [new_session_row env p u z w ip]\<rparr> \<and>
      r = scan_session (new_session_row env p u z w ip))"
  using assms
  by (auto simp: pg_create_session_def tx_bind_def tx_lift_def split: sum.splits prod.splits if_splits)

lemma new_session_scan:
  "\<exists>s. scan_session (new_session_row env p u z w ip) = Inr s \<and> sn_revoked_at s = None \<and> sn_user_id s = u \<and>
     sn_zone_id s = z \<and> sn_workspace_id s = w \<and> sn_domain s = cx_domain p"
  by (simp add: scan_session_def new_session_row_def)

lemma rotate_session_row:
  assumes "pg_rotate_session env q db = (db', r)"
  shows "db' = db \<and> (\<exists>e. r = Inl e) \<or>
    (\<exists>sid u row. uuid2 env (ro_session_id q) (ro_user_id q) = Inr (sid, u) \<and>
      row \<in> set (ab_sessions db) \<and> rotatable sid u row \<and>
      \<not> list_ex (\<lambda>x. sw_hash x = ro_hash q \<and> sw_id x \<noteq> sid) (ab_sessions db) \<and>
      db' = db\<lparr>ab_sessions := update_where (rotatable sid u) (rotated env q) (ab_sessions db)\<rparr> \<and>
      r = scan_session (rotated env q row))"
  using assms
  by (auto simp: pg_rotate_session_def tx_bind_def tx_lift_def dest!: find_Some_mem
      split: sum.splits prod.splits if_splits option.splits)

lemma scan_rotated:
  "scan_session (rotated env q row) = Inr s \<Longrightarrow> sn_id s = sw_id row \<and> sn_revoked_at s = None \<and> sn_hash s = ro_hash q"
  by (auto simp: scan_session_def rotated_def split: option.splits)

lemma scan_id: "scan_session row = Inr s \<Longrightarrow> sn_id s = sw_id row \<and> sn_revoked_at s = sw_revoked_at row"
  by (auto simp: scan_session_def split: option.splits)

lemma holds_after_rotate:
  assumes ok: "auth_ok st" and h: "auth_holds st h s" and id: "ro_session_id q = sn_id s"
    and run: "pg_run (\<lambda>env. pg_rotate_session env q) st = (st', Inr s')"
  shows "auth_holds st' (ro_hash q) s' \<and> sn_id s' = sn_id s \<and> sn_revoked_at s' = None \<and>
    (h \<noteq> ro_hash q \<longrightarrow> (\<forall>x. \<not> auth_holds st' h x))"
proof -
  let ?env = "pg_envs st (pg_tick st)" and ?rows = "ab_sessions (pg_db st)"
  have keys: "distinct (map sw_id ?rows)" "distinct (map sw_hash ?rows)"
    using ok by (simp_all add: auth_ok_def sessions_ok_def)
  obtain r0 where r0: "r0 \<in> set ?rows" "sw_hash r0 = h" "scan_session r0 = Inr s"
    using h by (auto simp: auth_holds_def)
  have "pg_rotate_session ?env q (pg_db st) = (pg_db st', Inr s')" by (rule pg_run_Inr [OF run])
  then obtain sid u row where q: "uuid2 ?env (ro_session_id q) (ro_user_id q) = Inr (sid, u)"
      "row \<in> set ?rows" "rotatable sid u row"
      "pg_db st' = (pg_db st)\<lparr>ab_sessions := update_where (rotatable sid u) (rotated ?env q) ?rows\<rparr>"
      "scan_session (rotated ?env q row) = Inr s'"
    using rotate_session_row by fastforce
  have "pe_uuid ?env (sn_id s) = Some (sn_id s)"
    using ok r0 scan_id [OF r0(3)] by (auto simp: auth_ok_def ids_encode_def stored_ids_def)
  then have "sid = sn_id s"
    using q(1) id by (auto simp: uuid2_def uuid_param_def result_bind_Inr_iff)
  then have row: "row = r0"
    using q(2,3) r0 scan_id [OF r0(3)] key_unique [OF keys(1)] by (auto simp: rotatable_def)
  have in': "rotated ?env q row \<in> set (ab_sessions (pg_db st'))"
    using q(2-4) by (auto simp: set_update_where)
  have "auth_holds st' (ro_hash q) s'"
    unfolding auth_holds_def by (rule rev_bexI [OF in']) (simp add: q(5), simp add: rotated_def)
  moreover have "\<not> auth_holds st' h x" if ne: "h \<noteq> ro_hash q" for x
  proof
    assume "auth_holds st' h x"
    then obtain y where y: "y \<in> set ?rows" "\<not> rotatable sid u y" "sw_hash y = h"
      using ne q(4) by (auto simp: auth_holds_def set_update_where rotated_def split: if_splits)
    then show False using key_unique [OF keys(2)] r0 row q(3) by metis
  qed
  ultimately show ?thesis using scan_rotated [OF q(5)] scan_id [OF r0(3)] row by simp
qed

subsection \<open>The laws\<close>

lemma auth_pg_simps [simp]:
  "ag_create_user (auth_pg cfg) p = pg_run (\<lambda>env. pg_create_user cfg env p)"
  "ag_resolve_zone (auth_pg cfg) = pg_resolve_zone cfg"
  "ag_ensure_access (auth_pg cfg) u t = pg_run (\<lambda>env. pg_ensure_access env u t)"
  "ag_find_user_by_id (auth_pg cfg) i = pg_run (\<lambda>env. pg_find_user_by_id env i)"
  "ag_find_user (auth_pg cfg) i = pg_run (\<lambda>_. pg_find_user i)"
  "ag_update_last_login (auth_pg cfg) l = pg_run (\<lambda>env. pg_update_last_login cfg env l)"
  "ag_create_session (auth_pg cfg) c = pg_run (\<lambda>env. pg_create_session cfg env c)"
  "ag_find_session (auth_pg cfg) h = pg_run (\<lambda>_. pg_find_session h)"
  "ag_rotate_session (auth_pg cfg) q = pg_run (\<lambda>env. pg_rotate_session env q)"
  "ag_revoke_by_hash (auth_pg cfg) h now = pg_run (\<lambda>env. pg_revoke_by_hash env h now)"
  "ag_record_audit (auth_pg cfg) e = pg_run (\<lambda>env. pg_record_audit cfg env e)"
  by (simp_all add: auth_pg_def)

lemma scan_user_Inr: "scan_user r = Inr u \<longleftrightarrow> (\<exists>row. r = Some row \<and> u = user.truncate row)"
  by (auto simp: scan_user_def split: option.splits)

lemma pg_find_user_account:
  "pg_run (\<lambda>_. pg_find_user i) st = (st', Inr u) \<Longrightarrow> auth_account st i u"
  by (drule pg_run_Inr)
    (auto simp: pg_find_user_def result_bind_Inr_iff scan_user_Inr auth_account_def dest!: find_Some_mem)

lemma scan_session_row_Inr: "scan_session_row r = Inr s \<longleftrightarrow> (\<exists>row. r = Some row \<and> scan_session row = Inr s)"
  by (auto simp: scan_session_row_def split: option.splits)

lemma pg_find_session_holds:
  "pg_run (\<lambda>_. pg_find_session h) st = (st', Inr s) \<Longrightarrow> auth_holds st h s"
  by (drule pg_run_Inr)
    (auto simp: pg_find_session_def result_bind_Inr_iff scan_session_row_Inr auth_holds_def dest!: find_Some_mem)

lemma ensure_core:
  assumes "pg_run (\<lambda>env. pg_ensure_access env u t) st = (st', r)"
  shows "core (pg_db st') = core (pg_db st)" "pg_envs st' = pg_envs st"
  using pg_run_rel [OF ensure_access_core preorder_keeps assms] pg_run_envs [OF assms] by auto

lemma ensure_frame:
  assumes "pg_run (\<lambda>env. pg_ensure_access env u t) st = (st', r)"
  shows "auth_holds st' = auth_holds st \<and> auth_account st' = auth_account st \<and> auth_target st' = auth_target st"
proof -
  have "ab_users (pg_db st') = ab_users (pg_db st)" "ab_sessions (pg_db st') = ab_sessions (pg_db st)"
    "ab_zones (pg_db st') = ab_zones (pg_db st)" "ab_workspaces (pg_db st') = ab_workspaces (pg_db st)"
    using ensure_core(1) [OF assms] by simp_all
  then show ?thesis by (intro conjI ext) (simp_all add: auth_view_defs)
qed

lemma pg_ensure_ok:
  assumes "pg_run (\<lambda>env. pg_ensure_access env u t) st = (st', r)" "auth_ok st"
  shows "auth_ok st'"
proof -
  note c = ensure_core [OF assms(1)]
  have "ids_encode st'"
    by (rule ids_encode_mono) (use assms(2) c in \<open>auto simp: auth_ok_def stored_ids_def\<close>)
  with assms(2) c show ?thesis by (simp add: auth_ok_def sessions_ok_def)
qed

lemma pg_ensure_member:
  assumes "auth_ok st" "auth_known st u" "auth_target st t"
    and run: "pg_run (\<lambda>env. pg_ensure_access env u t) st = (st', Inr n)"
  shows "auth_member st' t u"
proof -
  have ids: "za_zone_id t \<in> stored_ids (pg_db st)" "za_workspace_id t \<in> stored_ids (pg_db st)" "u \<in> stored_ids (pg_db st)"
    using assms(2,3) by (auto simp: auth_known_def auth_target_def stored_ids_def)
  have enc: "ids_encode st" using assms(1) by (simp add: auth_ok_def)
  show ?thesis
    using ensure_access_member [OF pg_run_Inr [OF run] ids_encode_uuid2 [OF enc ids(1,2)] ids_encode_uuid2 [OF enc ids(2,3)]]
    by (simp add: auth_member_def)
qed

lemma create_session_frame:
  assumes "pg_run (\<lambda>env. pg_create_session cfg env p) st = (st', r)"
  shows "pg_envs st' = pg_envs st \<and> ab_members (pg_db st') = ab_members (pg_db st) \<and>
    ab_users (pg_db st') = ab_users (pg_db st) \<and> ab_zones (pg_db st') = ab_zones (pg_db st) \<and>
    ab_workspaces (pg_db st') = ab_workspaces (pg_db st) \<and> ab_invites (pg_db st') = ab_invites (pg_db st) \<and>
    sw_id ` set (ab_sessions (pg_db st')) \<subseteq> sw_id ` set (ab_sessions (pg_db st)) \<union> range (\<lambda>m. pe_fresh (pg_envs st m))"
proof -
  from pg_run_db [OF assms] consider "pg_db st' = pg_db st"
    | "pg_create_session cfg (pg_envs st (pg_tick st)) p (pg_db st) = (pg_db st', r)" by blast
  then show ?thesis
  proof cases
    case 1
    then show ?thesis using pg_run_envs [OF assms] by auto
  next
    case 2
    from create_session_row [OF this] pg_run_envs [OF assms] show ?thesis by (auto simp: new_session_row_def)
  qed
qed

lemma create_session_ok:
  assumes "auth_ok st" "pg_run (\<lambda>env. pg_create_session cfg env p) st = (st', r)"
  shows "auth_ok st'"
proof -
  note f = create_session_frame [OF assms(2)]
  have "ids_encode st'"
    by (rule ids_encode_mono) (use assms(1) f in \<open>auto simp: auth_ok_def stored_ids_def\<close>)
  moreover have "auth_grows (pg_db st) (pg_db st')"
    by (rule pg_run_rel [OF create_session_grows auth_grows_preorder assms(2)])
  ultimately show ?thesis using assms(1) by (simp add: auth_ok_def auth_grows_def)
qed

lemma create_session_holds:
  assumes "pg_run (\<lambda>env. pg_create_session cfg env p) st = (st', Inr s)"
  shows "auth_holds st' (cx_hash p) s \<and> sn_revoked_at s = None \<and> (\<forall>old. \<not> auth_holds st (cx_hash p) old)"
proof -
  let ?env = "pg_envs st (pg_tick st)"
  obtain u z w ip where c: "cx_hash p \<notin> sw_hash ` set (ab_sessions (pg_db st))"
      "pg_db st' = (pg_db st)\<lparr>ab_sessions := ab_sessions (pg_db st) @ [new_session_row ?env p u z w ip]\<rparr>"
      "Inr s = scan_session (new_session_row ?env p u z w ip)"
    using create_session_row [OF pg_run_Inr [OF assms]] by auto
  have "sw_hash (new_session_row ?env p u z w ip) = cx_hash p" by (simp add: new_session_row_def)
  moreover have "\<forall>r\<in>set (ab_sessions (pg_db st)). sw_hash r \<noteq> cx_hash p" using c(1) by force
  ultimately show ?thesis
    using c(2,3) new_session_scan [of ?env p u z w ip] by (auto simp: auth_holds_def intro: rev_bexI)
qed

lemma create_session_user:
  assumes "auth_ok st" "auth_known st (cx_user_id p)" "auth_target st t"
    and "cx_zone_id p = za_zone_id t" "cx_workspace_id p = za_workspace_id t"
    and run: "pg_run (\<lambda>env. pg_create_session cfg env p) st = (st', Inr s)"
  shows "sn_user_id s = cx_user_id p \<and> sn_zone_id s = za_zone_id t \<and> sn_workspace_id s = za_workspace_id t \<and>
    sn_domain s = cx_domain p"
proof -
  let ?env = "pg_envs st (pg_tick st)"
  obtain u z w ip where c: "uuid_param ?env (cx_user_id p) = Inr u"
      "uuid2 ?env (cx_zone_id p) (cx_workspace_id p) = Inr (z, w)"
      "Inr s = scan_session (new_session_row ?env p u z w ip)"
    using create_session_row [OF pg_run_Inr [OF run]] by auto
  have enc: "ids_encode st" using assms(1) by (simp add: auth_ok_def)
  have ids: "za_zone_id t \<in> stored_ids (pg_db st)" "za_workspace_id t \<in> stored_ids (pg_db st)"
      "cx_user_id p \<in> stored_ids (pg_db st)"
    using assms(2,3) by (auto simp: auth_known_def auth_target_def stored_ids_def)
  have "pe_uuid ?env (cx_user_id p) = Some (cx_user_id p)" using enc ids(3) by (simp add: ids_encode_def)
  then have "u = cx_user_id p" "z = za_zone_id t" "w = za_workspace_id t"
    using c(1,2) ids_encode_uuid2 [OF enc ids(1,2)] assms(4,5) by (auto simp: uuid_param_def)
  then show ?thesis using new_session_scan [of ?env p u z w ip] c(3) by auto
qed

lemma member_frame:
  "ab_members (pg_db st') = ab_members (pg_db st) \<Longrightarrow> ab_zones (pg_db st') = ab_zones (pg_db st) \<Longrightarrow>
   ab_workspaces (pg_db st') = ab_workspaces (pg_db st) \<Longrightarrow> auth_member st' = auth_member st"
  by (intro ext) (simp add: auth_member_def valid_zone_target_def active_member_def)

lemma last_login_frame: "tx_keeps (\<lambda>db. (ab_sessions db, ab_members db, ab_zones db, ab_workspaces db)) (pg_update_last_login cfg env l)"
  unfolding pg_update_last_login_def by (intro tx_rel_intros preorder_keeps, rule tx_relI) auto

lemma last_login_member:
  assumes "pg_run (\<lambda>env. pg_update_last_login cfg env l) st = (st', r)"
  shows "auth_member st' = auth_member st \<and> auth_holds st' = auth_holds st"
  using pg_run_rel [OF last_login_frame preorder_keeps assms] member_frame [of st' st]
  by (auto simp: auth_holds_def fun_eq_iff)

lemma pg_audit_member:
  assumes "pg_run (\<lambda>env. pg_record_audit cfg env e) st = (st', r)"
  shows "auth_member st' = auth_member st \<and> auth_holds st' = auth_holds st"
  using pg_run_rel [OF record_audit_core preorder_keeps assms] member_frame [of st' st]
  by (auto simp: auth_holds_def fun_eq_iff)

lemma pg_rotate_ok:
  assumes "auth_ok st" "pg_run (\<lambda>env. pg_rotate_session env q) st = (st', r)"
  shows "auth_ok st'"
proof -
  have "tx_keeps (\<lambda>db. (ab_users db, ab_zones db, ab_workspaces db, ab_invites db, map sw_id (ab_sessions db)))
      (pg_rotate_session env q)" for env
  proof (rule tx_relI)
    fix db db' :: auth_db and r assume "pg_rotate_session env q db = (db', r)"
    from rotate_session_row [OF this]
    show "(ab_users db', ab_zones db', ab_workspaces db', ab_invites db', map sw_id (ab_sessions db')) =
        (ab_users db, ab_zones db, ab_workspaces db, ab_invites db, map sw_id (ab_sessions db))"
      by (auto simp: map_update_where rotated_def)
  qed
  from pg_run_rel [OF this preorder_keeps assms(2)]
  have "stored_ids (pg_db st') = stored_ids (pg_db st)"
    unfolding stored_ids_def by (metis (no_types, lifting) Pair_inject list.set_map)
  then have "ids_encode st'"
    using assms(1) by (intro ids_encode_mono [OF _ pg_run_envs [OF assms(2)]]) (auto simp: auth_ok_def)
  moreover have "auth_grows (pg_db st) (pg_db st')"
    by (rule pg_run_rel [OF rotate_session_grows auth_grows_preorder assms(2)])
  ultimately show ?thesis using assms(1) by (simp add: auth_ok_def auth_grows_def)
qed

lemma pg_holds_unique:
  "auth_ok st \<Longrightarrow> auth_holds st h s \<Longrightarrow> auth_holds st h s' \<Longrightarrow> s = s'"
  unfolding auth_holds_def auth_ok_def sessions_ok_def by (metis key_unique sum.inject(2))

interpretation apg: auth_store "auth_pg cfg" auth_ok auth_same auth_account auth_known auth_target
  auth_member auth_holds for cfg
proof
  fix st st' st1 st2 :: "auth_db pg"
  show "auth_same st st" by (simp add: auth_same_def)
  show "auth_same st st1 \<Longrightarrow> auth_same st1 st2 \<Longrightarrow> auth_same st st2" by (simp add: auth_same_def)
  show "auth_same st st' \<Longrightarrow> auth_ok st \<Longrightarrow> auth_ok st'"
    by (simp add: auth_same_def auth_ok_def ids_encode_def)
  show "auth_same st st' \<Longrightarrow> auth_account st' = auth_account st" "auth_same st st' \<Longrightarrow> auth_known st' = auth_known st"
    "auth_same st st' \<Longrightarrow> auth_target st' = auth_target st" "auth_same st st' \<Longrightarrow> auth_member st' = auth_member st"
    "auth_same st st' \<Longrightarrow> auth_holds st' = auth_holds st"
    by (auto simp: auth_same_def auth_view_defs fun_eq_iff)
  show "auth_ok st \<Longrightarrow> auth_holds st h s \<Longrightarrow> auth_holds st h s' \<Longrightarrow> s = s'" for h s s' by (rule pg_holds_unique)
  show "auth_account st i u \<Longrightarrow> auth_known st (ur_id u)" for i u
    by (auto simp: auth_account_def auth_known_def user.truncate_def)
  show "ag_resolve_zone (auth_pg cfg) d st = (st', rz) \<Longrightarrow> auth_same st st'" for d rz
    by (simp add: pg_resolve_zone_same)
  show "ag_resolve_zone (auth_pg cfg) d st = (st', Inr t) \<Longrightarrow> auth_target st t" for d t
    by (simp add: pg_resolve_zone_target)
  show "ag_find_user (auth_pg cfg) i st = (st', ru) \<Longrightarrow> auth_same st st'" for i ru
    by (simp, erule pg_read_same) (simp add: pg_find_user_def)
  show "ag_find_user (auth_pg cfg) i st = (st', Inr u) \<Longrightarrow> auth_account st i u" for i u
    by (simp add: pg_find_user_account)
  show "ag_find_user_by_id (auth_pg cfg) i st = (st', ru) \<Longrightarrow> auth_same st st'" for i ru
    by (simp, erule pg_read_same) (simp add: pg_find_user_by_id_def)
  show "ag_find_session (auth_pg cfg) h st = (st', rs) \<Longrightarrow> auth_same st st'" for h rs
    by (simp, erule pg_read_same) (simp add: pg_find_session_def)
  show "auth_ok st \<Longrightarrow> ag_find_session (auth_pg cfg) h st = (st', Inr sess) \<Longrightarrow> auth_holds st h sess" for h sess
    by (simp add: pg_find_session_holds)
  show "auth_ok st \<Longrightarrow> ag_ensure_access (auth_pg cfg) uid t st = (st', rn) \<Longrightarrow> auth_ok st'" for uid t rn
    by (simp add: pg_ensure_ok)
  show "ag_ensure_access (auth_pg cfg) uid t st = (st', rn) \<Longrightarrow> auth_holds st' = auth_holds st"
    "ag_ensure_access (auth_pg cfg) uid t st = (st', rn) \<Longrightarrow> auth_account st' = auth_account st"
    "ag_ensure_access (auth_pg cfg) uid t st = (st', rn) \<Longrightarrow> auth_target st' = auth_target st" for uid t rn
    using ensure_frame [of uid t st st' rn] by simp_all
  show "auth_ok st \<Longrightarrow> auth_known st uid \<Longrightarrow> auth_target st t \<Longrightarrow> ag_ensure_access (auth_pg cfg) uid t st = (st', Inr n) \<Longrightarrow>
      auth_member st' t uid" for uid t n
    by (simp add: pg_ensure_member)
  show "ag_create_session (auth_pg cfg) p st = (st', rs) \<Longrightarrow> auth_member st' = auth_member st" for p rs
    using create_session_frame [of cfg p st st' rs] member_frame [of st' st] by simp
  show "auth_ok st \<Longrightarrow> ag_create_session (auth_pg cfg) p st = (st', rs) \<Longrightarrow> auth_ok st'" for p rs
    by (simp add: create_session_ok)
  show "auth_ok st \<Longrightarrow> ag_create_session (auth_pg cfg) p st = (st', Inr sess) \<Longrightarrow>
      auth_holds st' (cx_hash p) sess \<and> sn_revoked_at sess = None \<and> (\<forall>old. \<not> auth_holds st (cx_hash p) old)" for p sess
    by (simp add: create_session_holds)
  show "auth_ok st \<Longrightarrow> auth_known st (cx_user_id p) \<Longrightarrow> auth_target st t \<Longrightarrow> cx_zone_id p = za_zone_id t \<Longrightarrow>
      cx_workspace_id p = za_workspace_id t \<Longrightarrow> ag_create_session (auth_pg cfg) p st = (st', Inr sess) \<Longrightarrow>
      sn_user_id sess = cx_user_id p \<and> sn_zone_id sess = za_zone_id t \<and> sn_workspace_id sess = za_workspace_id t \<and>
      sn_domain sess = cx_domain p" for p t sess
    using create_session_user [of st p t cfg st' sess] by simp
  show "ag_update_last_login (auth_pg cfg) l st = (st', rn) \<Longrightarrow> auth_member st' = auth_member st \<and> auth_holds st' = auth_holds st" for l rn
    by (simp add: last_login_member)
  show "ag_record_audit (auth_pg cfg) e st = (st', rn) \<Longrightarrow> auth_member st' = auth_member st \<and> auth_holds st' = auth_holds st" for e rn
    by (simp add: pg_audit_member)
  show "auth_ok st \<Longrightarrow> auth_holds st h sess \<Longrightarrow> ro_session_id q = sn_id sess \<Longrightarrow>
      ag_rotate_session (auth_pg cfg) q st = (st', Inr sess') \<Longrightarrow>
      auth_holds st' (ro_hash q) sess' \<and> sn_id sess' = sn_id sess \<and> sn_revoked_at sess' = None \<and>
      (h \<noteq> ro_hash q \<longrightarrow> (\<forall>x. \<not> auth_holds st' h x))" for h q sess sess'
    using holds_after_rotate [of st h sess q st' sess'] by simp
  show "auth_ok st \<Longrightarrow> ag_rotate_session (auth_pg cfg) q st = (st', rs) \<Longrightarrow> auth_ok st'" for q rs
    by (simp add: pg_rotate_ok)
qed

end
