(* ===== verification/Auth_Safety.thy ===== *)
theory Auth_Safety
  imports Auth_Props
begin

text \<open>
  The properties of sign-in, refresh and registration over the PostgreSQL repository, and the runs that
  show where the code falls short.
\<close>

section \<open>Registration step by step\<close>

lemma create_user_atomic: "pg_create_user cfg env p db = (db', Inl e) \<Longrightarrow> db' = db"
  unfolding pg_create_user_def by (rule in_tx_Inl)

lemma create_user_steps:
  assumes "pg_create_user cfg env p db = (db', Inr u)"
  shows "\<exists>ip target invite role db1 db2 db3.
    u = user.truncate (new_user_row env p ip) \<and>
    \<not> email_or_name_taken db (up_email p) (up_username p) \<and> pe_fresh env \<notin> ur_id ` set (ab_users db) \<and>
    db1 = db\<lparr>ab_users := ab_users db @ [new_user_row env p ip]\<rparr> \<and>
    lock_registration_target env (up_zone p) db1 = (db1, Inr target) \<and>
    registration_invite env (up_email p) (up_invite_token p) target db1 = (db1, Inr (invite, role)) \<and>
    add_workspace_membership env (pe_fresh env) (za_workspace_id target) role db1 = (db2, Inr ()) \<and>
    registration_claim env (pe_fresh env) target db2 = (db3, Inr ()) \<and>
    (if invite \<noteq> [] then pg_accept_invite env invite else tx_return ()) db3 = (db', Inr ())"
proof -
  have id: "ur_id (user.truncate (new_user_row env p ip)) = pe_fresh env" for ip
    by (simp add: new_user_row_def user.truncate_def)
  have reads: "lock_registration_target env t d = (d', Inr t') \<Longrightarrow> d' = d"
    "registration_invite env e k t d = (d', Inr q) \<Longrightarrow> d' = d" for t t' d d' e k q
    by (auto simp: lock_registration_target_def registration_invite_def pg_find_invite_def split: if_splits)
  obtain db1 where ins: "pg_insert_user cfg env p db = (db1, Inr u)"
    and prov: "provision_registration_access env (ur_id u) (up_email p) (up_invite_token p) (up_zone p) db1 = (db', Inr ())"
    using assms by (auto simp: pg_create_user_def tx_bind_Inr)
  obtain ip where u: "u = user.truncate (new_user_row env p ip)" "\<not> email_or_name_taken db (up_email p) (up_username p)"
      "pe_fresh env \<notin> ur_id ` set (ab_users db)" "db1 = db\<lparr>ab_users := ab_users db @ [new_user_row env p ip]\<rparr>"
    using ins by (auto simp: pg_insert_user_def tx_bind_Inr split: if_splits)
  obtain target da invite role dc db2 db3 where
      "lock_registration_target env (up_zone p) db1 = (da, Inr target)"
      "registration_invite env (up_email p) (up_invite_token p) target da = (dc, Inr (invite, role))"
      "add_workspace_membership env (pe_fresh env) (za_workspace_id target) role dc = (db2, Inr ())"
      "registration_claim env (pe_fresh env) target db2 = (db3, Inr ())"
      "(if invite \<noteq> [] then pg_accept_invite env invite else tx_return ()) db3 = (db', Inr ())"
    using prov u(1) by (auto simp: provision_registration_access_def tx_bind_Inr id)
  with u reads show ?thesis by metis
qed

text \<open>What the steps after the membership keep: members, roles and, except for one acceptance, invites.\<close>

definition roles_grow :: "auth_db \<Rightarrow> auth_db \<Rightarrow> bool" where
  "roles_grow db db' \<longleftrightarrow> ab_members db' = ab_members db \<and> ab_roles db' = ab_roles db \<and>
     set (ab_member_roles db) \<subseteq> set (ab_member_roles db')"

lemma roles_grow_preorder [simp]: "preorder_rel roles_grow"
  by (auto simp: preorder_rel_def roles_grow_def)

lemma roles_grow_live: "roles_grow db db' \<Longrightarrow> has_live_role p db w u \<Longrightarrow> has_live_role p db' w u"
  by (auto simp: roles_grow_def has_live_role_def list_ex_iff)

lemma roles_grow_member: "roles_grow db db' \<Longrightarrow> active_member db' w u = active_member db w u"
  by (simp add: roles_grow_def active_member_def)

lemma grant_roles_grow: "tx_rel roles_grow (pg_grant_system_role code w u a)"
  by (auto simp: tx_rel_def roles_grow_def pg_grant_system_role_def grant_role_def split: list.splits if_splits)

lemma claim_roles_grow: "tx_rel roles_grow (claim_initial_workspace_ownership env u w)"
proof -
  have "tx_rel roles_grow (\<lambda>db. if \<not> list_ex (ownerless w) (ab_workspaces db) then (db, Inr False)
    else if u \<notin> ur_id ` set (ab_users db) then (db, Inl fk_violation)
    else tx_then (pg_grant_system_role ''workspace_owner'' w u (Some u))
      (\<lambda>db. if has_live_role (\<lambda>role. citext (ow_code role) = ''workspace_owner'') db w u then (db, Inr True)
        else (db, Inl default_workspace_unavailable))
      (db\<lparr>ab_workspaces := update_where (ownerless w)
        (\<lambda>r. r\<lparr>ww_owner_id := Some u, ww_updated_at := pe_now env\<rparr>) (ab_workspaces db)\<rparr>))" for w u
    by (rule tx_relI)
      (auto simp: tx_bind_def roles_grow_def split: if_splits prod.splits sum.splits
        dest!: tx_relD [OF grant_roles_grow])
  then show ?thesis
    unfolding claim_initial_workspace_ownership_def by (intro tx_rel_intros roles_grow_preorder)
qed

lemma update_roles_grow:
  "tx_rel roles_grow (pg_close_open_zone env z)" "tx_rel roles_grow (pg_accept_invite env i)"
  unfolding pg_close_open_zone_def pg_accept_invite_def
  by (intro tx_rel_intros roles_grow_preorder, rule tx_relI, auto simp: roles_grow_def)+

lemma registration_claim_roles_grow: "tx_rel roles_grow (registration_claim env u t)"
  unfolding registration_claim_def
  by (intro tx_rel_intros roles_grow_preorder claim_roles_grow update_roles_grow)

lemma grant_invites: "tx_keeps ab_invites (pg_grant_system_role code w u a)"
  by (auto simp: tx_rel_def pg_grant_system_role_def grant_role_def split: list.splits if_splits)

lemma claim_invites: "tx_keeps ab_invites (claim_initial_workspace_ownership env u w)"
  unfolding claim_initial_workspace_ownership_def
  by (intro tx_rel_intros preorder_keeps, rule tx_relI)
    (auto simp: tx_bind_def split: if_splits prod.splits sum.splits dest!: tx_relD [OF grant_invites])

lemma registration_claim_invites: "tx_keeps ab_invites (registration_claim env u t)"
proof -
  have "tx_keeps ab_invites (pg_close_open_zone env z)" for z
    unfolding pg_close_open_zone_def by (intro tx_rel_intros preorder_keeps, rule tx_relI) auto
  then show ?thesis
    unfolding registration_claim_def by (intro tx_rel_intros preorder_keeps claim_invites)
qed

text \<open>The server's identifiers as the registration relies on them.\<close>

definition registration_env :: "pg_env \<Rightarrow> auth_db \<Rightarrow> bool" where
  "registration_env env db \<longleftrightarrow> pe_uuid env (pe_fresh env) = Some (pe_fresh env) \<and>
     list_all (\<lambda>i. iw_id i \<noteq> [] \<and> pe_uuid env (iw_id i) = Some (iw_id i)) (ab_invites db)"

definition accepted_in :: "auth_db \<Rightarrow> time \<Rightarrow> invite_row \<Rightarrow> bool" where
  "accepted_in db now i \<longleftrightarrow> list_ex (\<lambda>j. j = i\<lparr>iw_accepted_at := Some now\<rparr>) (ab_invites db)"

lemma registration_invite_cases:
  assumes "registration_invite env email token target db = (db', Inr (invite, role))"
    and "uuid_param env (za_workspace_id target) = Inr w"
  shows "za_mode target = ''open'' \<and> invite = [] \<or>
    za_mode target = ''invite_only'' \<and> trim_space token \<noteq> [] \<and> (\<exists>i\<in>set (ab_invites db).
      open_invite (pe_now env) w (to_lower (trim_space email)) (invite_hash token) i \<and> invite = iw_id i \<and>
      iw_role_id i = Some role)"
proof (cases "za_mode target = ''open''")
  case False
  with assms(1) have m: "za_mode target = ''invite_only''" "trim_space token \<noteq> []"
    and f: "pg_find_invite env (za_workspace_id target) (to_lower (trim_space email)) (invite_hash token) db =
      (db', Inr (invite, role))"
    by (auto simp: registration_invite_def split: if_splits)
  let ?open = "open_invite (pe_now env) w (to_lower (trim_space email)) (invite_hash token)"
  obtain i xs where i: "sort_key (\<lambda>i. - iw_created_at i) (filter ?open (ab_invites db)) = i # xs"
    "invite = iw_id i" "iw_role_id i = Some role"
    using f assms(2) by (auto simp: pg_find_invite_def result_bind_Inr_iff split: list.splits option.splits)
  then have "i \<in> set (filter ?open (ab_invites db))" by (metis list.set_intros(1) set_sort)
  with i m show ?thesis by auto
qed (use assms in \<open>auto simp: registration_invite_def\<close>)

lemma accept_invite_row:
  assumes "pg_accept_invite env (iw_id i) db = (db', Inr ())" "pe_uuid env (iw_id i) = Some (iw_id i)"
    and "i \<in> set (ab_invites db)" "iw_accepted_at i = None"
  shows "accepted_in db' (pe_now env) i"
  using assms
  by (auto simp: pg_accept_invite_def tx_bind_Inr uuid_param_def accepted_in_def list_ex_iff set_update_where
      image_iff intro!: bexI [of _ i])

lemma registration_effect:
  assumes "pg_create_user cfg env p db = (db', Inr u)" "registration_env env db"
  shows "\<exists>zone w z. uuid2 env (za_zone_id (up_zone p)) (za_workspace_id (up_zone p)) = Inr (zone, w) \<and>
    registration_zone zone w db = Some z \<and> ur_id u = pe_fresh env \<and> ur_id u \<notin> ur_id ` set (ab_users db) \<and>
    \<not> email_or_name_taken db (up_email p) (up_username p) \<and>
    active_member db' w (ur_id u) \<and> has_live_role (\<lambda>_. True) db' w (ur_id u) \<and>
    (zw_mode z = ''open'' \<or> zw_mode z = ''invite_only'' \<and> trim_space (up_invite_token p) \<noteq> [] \<and> (\<exists>i\<in>set (ab_invites db).
       open_invite (pe_now env) w (to_lower (trim_space (up_email p))) (invite_hash (up_invite_token p)) i \<and>
       accepted_in db' (pe_now env) i))"
proof -
  obtain ip target invite role db1 db2 db3 where
      u: "u = user.truncate (new_user_row env p ip)" "\<not> email_or_name_taken db (up_email p) (up_username p)"
        "pe_fresh env \<notin> ur_id ` set (ab_users db)" "db1 = db\<lparr>ab_users := ab_users db @ [new_user_row env p ip]\<rparr>"
    and lock: "lock_registration_target env (up_zone p) db1 = (db1, Inr target)"
    and invite: "registration_invite env (up_email p) (up_invite_token p) target db1 = (db1, Inr (invite, role))"
    and mem: "add_workspace_membership env (pe_fresh env) (za_workspace_id target) role db1 = (db2, Inr ())"
    and claim: "registration_claim env (pe_fresh env) target db2 = (db3, Inr ())"
    and acc: "(if invite \<noteq> [] then pg_accept_invite env invite else tx_return ()) db3 = (db', Inr ())"
    using create_user_steps [OF assms(1)] by blast
  obtain zone w z where z: "uuid2 env (za_zone_id (up_zone p)) (za_workspace_id (up_zone p)) = Inr (zone, w)"
      "registration_zone zone w db = Some z" "za_mode target = zw_mode z"
      "za_workspace_id target = za_workspace_id (up_zone p)"
    using lock u(4) by (auto simp: lock_registration_target_def result_bind_Inr_iff registration_zone_def
        split: option.splits)
  have w: "uuid_param env (za_workspace_id target) = Inr w"
    using z(1,4) by (auto simp: uuid2_def result_bind_Inr_iff)
  have fresh: "pe_uuid env (pe_fresh env) = Some (pe_fresh env)" using assms(2) by (simp add: registration_env_def)
  have m: "active_member db2 w (pe_fresh env) \<and> has_live_role (\<lambda>_. True) db2 w (pe_fresh env)"
    using add_membership_active [OF mem] w fresh by (simp add: uuid2_def uuid_param_def)
  have "tx_rel roles_grow (if invite \<noteq> [] then pg_accept_invite env invite else tx_return ())"
    by (intro tx_rel_intros roles_grow_preorder update_roles_grow)
  from tx_relD [OF this acc] tx_relD [OF registration_claim_roles_grow claim]
  have "roles_grow db2 db'" using roles_grow_preorder unfolding preorder_rel_def by blast
  then have m': "active_member db' w (pe_fresh env) \<and> has_live_role (\<lambda>_. True) db' w (pe_fresh env)"
    using m roles_grow_live roles_grow_member by blast
  have "core db2 = core db1" by (rule tx_relD [OF add_membership_core mem])
  then have inv3: "ab_invites db3 = ab_invites db"
    using tx_relD [OF registration_claim_invites claim] u(4) by simp
  have gate: "zw_mode z = ''open'' \<or> zw_mode z = ''invite_only'' \<and> trim_space (up_invite_token p) \<noteq> [] \<and> (\<exists>i\<in>set (ab_invites db).
      open_invite (pe_now env) w (to_lower (trim_space (up_email p))) (invite_hash (up_invite_token p)) i \<and>
      accepted_in db' (pe_now env) i)"
    using registration_invite_cases [OF invite w]
  proof
    assume "za_mode target = ''invite_only'' \<and> trim_space (up_invite_token p) \<noteq> [] \<and> (\<exists>i\<in>set (ab_invites db1).
      open_invite (pe_now env) w (to_lower (trim_space (up_email p))) (invite_hash (up_invite_token p)) i \<and> invite = iw_id i \<and>
      iw_role_id i = Some role)"
    then obtain i where i: "za_mode target = ''invite_only''" "trim_space (up_invite_token p) \<noteq> []" "i \<in> set (ab_invites db)"
        "open_invite (pe_now env) w (to_lower (trim_space (up_email p))) (invite_hash (up_invite_token p)) i" "invite = iw_id i"
      using u(4) by auto
    have id: "iw_id i \<noteq> []" "pe_uuid env (iw_id i) = Some (iw_id i)"
      using assms(2) i(3) by (auto simp: registration_env_def list_all_iff)
    have "accepted_in db' (pe_now env) i"
      using accept_invite_row [OF _ id(2)] acc i id(1) inv3 by (auto simp: open_invite_def)
    with i z(3) show ?thesis by auto
  qed (use z(3) in auto)
  have "ur_id u = pe_fresh env" by (simp add: u(1) new_user_row_def user.truncate_def)
  with z u m' gate show ?thesis by (intro exI conjI) simp_all
qed

lemma registration_effect_at:
  assumes "pg_create_user cfg env p db = (db', Inr u)" "registration_env env db"
    and "uuid2 env (za_zone_id (up_zone p)) (za_workspace_id (up_zone p)) = Inr (zone, w)"
  shows "\<exists>z. registration_zone zone w db = Some z \<and>
    (zw_mode z = ''open'' \<or> trim_space (up_invite_token p) \<noteq> [] \<and> (\<exists>i\<in>set (ab_invites db).
       open_invite (pe_now env) w (to_lower (trim_space (up_email p))) (invite_hash (up_invite_token p)) i \<and>
       accepted_in db' (pe_now env) i))"
proof -
  obtain zone' w' z where e: "uuid2 env (za_zone_id (up_zone p)) (za_workspace_id (up_zone p)) = Inr (zone', w')"
      "registration_zone zone' w' db = Some z"
      "zw_mode z = ''open'' \<or> zw_mode z = ''invite_only'' \<and> trim_space (up_invite_token p) \<noteq> [] \<and> (\<exists>i\<in>set (ab_invites db).
       open_invite (pe_now env) w' (to_lower (trim_space (up_email p))) (invite_hash (up_invite_token p)) i \<and>
       accepted_in db' (pe_now env) i)"
    using registration_effect [OF assms(1,2)] by blast
  then have "zone' = zone" "w' = w" using assms(3) by simp_all
  with e show ?thesis by blast
qed

section \<open>The first registration of a dedicated zone\<close>

lemma grant_zones: "tx_keeps (\<lambda>db. (ab_zones db, ab_workspaces db)) (pg_grant_system_role code w u a)"
  by (auto simp: tx_rel_def pg_grant_system_role_def grant_role_def split: list.splits if_splits)

lemma claim_effect:
  assumes "claim_initial_workspace_ownership env u0 w0 db = (db', Inr b)" "uuid2 env w0 u0 = Inr (w, u)"
    and "list_ex (ownerless w) (ab_workspaces db)"
  shows "b \<and> ab_zones db' = ab_zones db \<and> has_live_role (\<lambda>role. citext (ow_code role) = ''workspace_owner'') db' w u \<and>
    list_ex (\<lambda>r. ww_id r = w \<and> ww_owner_id r = Some u) (ab_workspaces db')"
proof -
  let ?db1 = "db\<lparr>ab_workspaces := update_where (ownerless w)
        (\<lambda>r. r\<lparr>ww_owner_id := Some u, ww_updated_at := pe_now env\<rparr>) (ab_workspaces db)\<rparr>"
  obtain db2 n where g: "pg_grant_system_role ''workspace_owner'' w u (Some u) ?db1 = (db2, Inr n)"
    and r: "has_live_role (\<lambda>role. citext (ow_code role) = ''workspace_owner'') db2 w u" "db' = db2" b
    using assms by (auto simp: claim_initial_workspace_ownership_def tx_bind_Inr split: if_splits)
  have keep: "(ab_zones db2, ab_workspaces db2) = (ab_zones ?db1, ab_workspaces ?db1)"
    by (rule tx_relD [OF grant_zones g])
  obtain x where x: "x \<in> set (ab_workspaces db)" "ownerless w x" using assms(3) by (auto simp: list_ex_iff)
  have "x\<lparr>ww_owner_id := Some u, ww_updated_at := pe_now env\<rparr> \<in> set (ab_workspaces ?db1)"
    using x by (auto simp: set_update_where intro!: image_eqI [of _ _ x])
  then have "list_ex (\<lambda>r. ww_id r = w \<and> ww_owner_id r = Some u) (ab_workspaces ?db1)"
    using x(2) unfolding list_ex_iff by (intro bexI) (auto simp: ownerless_def)
  with keep r show ?thesis by simp
qed

lemma close_zone_effect:
  assumes "pg_close_open_zone env zone0 db = (db', Inr n)" "uuid_param env zone0 = Inr zone"
  shows "ab_workspaces db' = ab_workspaces db \<and>
    (\<forall>z\<in>set (ab_zones db'). zw_id z = zone \<and> zw_deleted_at z = None \<longrightarrow> zw_mode z \<noteq> ''open'')"
proof -
  have db': "db' = db\<lparr>ab_zones := update_where (\<lambda>z. zw_id z = zone \<and> zw_mode z = ''open'' \<and> zw_deleted_at z = None)
       (\<lambda>z. z\<lparr>zw_mode := ''invite_only'', zw_updated_at := pe_now env\<rparr>) (ab_zones db)\<rparr>"
    using assms by (simp add: pg_close_open_zone_def tx_bind_Inr)
  have "\<forall>z\<in>set (ab_zones db'). zw_id z = zone \<and> zw_deleted_at z = None \<longrightarrow> zw_mode z \<noteq> ''open''"
    unfolding db' by (auto simp: ball_update_where)
  then show ?thesis by (simp add: db')
qed

lemma accept_zones: "tx_keeps (\<lambda>db. (ab_zones db, ab_workspaces db)) (pg_accept_invite env i)"
  unfolding pg_accept_invite_def by (intro tx_rel_intros preorder_keeps, rule tx_relI) auto

lemma dedicated_claim:
  assumes "pg_create_user cfg env p db = (db', Inr u)" "pe_uuid env (pe_fresh env) = Some (pe_fresh env)"
    and "uuid2 env (za_zone_id (up_zone p)) (za_workspace_id (up_zone p)) = Inr (zone, w)"
    and "registration_zone zone w db = Some z" "zw_kind z = ''customer_dedicated''"
    and "list_ex (ownerless w) (ab_workspaces db)"
  shows "list_ex (\<lambda>r. ww_id r = w \<and> ww_owner_id r = Some (ur_id u)) (ab_workspaces db') \<and>
    has_live_role (\<lambda>role. citext (ow_code role) = ''workspace_owner'') db' w (ur_id u) \<and>
    (\<forall>z\<in>set (ab_zones db'). zw_id z = zone \<and> zw_deleted_at z = None \<longrightarrow> zw_mode z \<noteq> ''open'')"
proof -
  obtain ip target invite role db1 db2 db3 where
      u: "u = user.truncate (new_user_row env p ip)" "db1 = db\<lparr>ab_users := ab_users db @ [new_user_row env p ip]\<rparr>"
    and lock: "lock_registration_target env (up_zone p) db1 = (db1, Inr target)"
    and mem: "add_workspace_membership env (pe_fresh env) (za_workspace_id target) role db1 = (db2, Inr ())"
    and claim: "registration_claim env (pe_fresh env) target db2 = (db3, Inr ())"
    and acc: "(if invite \<noteq> [] then pg_accept_invite env invite else tx_return ()) db3 = (db', Inr ())"
    using create_user_steps [OF assms(1)] by blast
  have t: "za_zone_kind target = ''customer_dedicated''" "za_workspace_id target = za_workspace_id (up_zone p)"
      "za_zone_id target = za_zone_id (up_zone p)"
    using lock u(2) assms(3,4,5) by (auto simp: lock_registration_target_def registration_zone_def)
  have id: "ur_id u = pe_fresh env" by (simp add: u(1) new_user_row_def user.truncate_def)
  have params: "uuid2 env (za_workspace_id target) (pe_fresh env) = Inr (w, pe_fresh env)"
      "uuid_param env (za_zone_id target) = Inr zone"
    using assms(2,3) t by (auto simp: uuid2_def uuid_param_def result_bind_Inr_iff split: option.splits)
  have core: "core db2 = core db1" by (rule tx_relD [OF add_membership_core mem])
  obtain dc b where c: "claim_initial_workspace_ownership env (pe_fresh env) (za_workspace_id target) db2 = (dc, Inr b)"
    and cl: "b \<Longrightarrow> pg_close_open_zone env (za_zone_id target) dc = (db3, Inr ())"
    using claim t(1) by (auto simp: registration_claim_def tx_bind_Inr split: if_splits)
  have "list_ex (ownerless w) (ab_workspaces db2)" using assms(6) core u(2) by simp
  note ce = claim_effect [OF c params(1) this]
  note close = close_zone_effect [OF cl params(2)]
  have grow: "roles_grow dc db3" using tx_relD [OF update_roles_grow(1)] cl ce by blast
  have accept: "tx_keeps (\<lambda>db. (ab_zones db, ab_workspaces db)) (if invite \<noteq> [] then pg_accept_invite env invite else tx_return ())"
    "tx_rel roles_grow (if invite \<noteq> [] then pg_accept_invite env invite else tx_return ())"
    by (intro tx_rel_intros preorder_keeps accept_zones, intro tx_rel_intros roles_grow_preorder update_roles_grow)
  have "(ab_zones db', ab_workspaces db') = (ab_zones db3, ab_workspaces db3)" "roles_grow db3 db'"
    using tx_relD [OF accept(1) acc] tx_relD [OF accept(2) acc] by simp_all
  then show ?thesis
    using ce close grow roles_grow_live id by auto
qed

section \<open>Properties\<close>

text \<open>The keys the schema declares.\<close>

definition auth_keys :: "auth_db \<Rightarrow> bool" where
  "auth_keys db \<longleftrightarrow> distinct (map zw_id (ab_zones db)) \<and> distinct (map iw_token_hash (ab_invites db)) \<and>
     distinct (map ww_id (ab_workspaces db))"

lemma auth_keys_grow: "auth_grows db db' \<Longrightarrow> auth_keys db \<Longrightarrow> auth_keys db'"
  by (simp add: auth_keys_def auth_grows_def)

lemma registration_zone_mem: "registration_zone zone w db = Some z \<Longrightarrow> z \<in> set (ab_zones db) \<and> zw_id z = zone \<and> zw_deleted_at z = None"
  by (auto simp: registration_zone_def dest: find_Some_mem)


text \<open>
  C6. A password sign-in that returns tokens is justified: the identifier names an account that is
  active and whose hash the password matches, the domain resolves to a zone and workspace that are
  stored, usable and where the account is an active member; the session stored under the hash of the
  returned refresh token is that user's, bound to that zone, workspace and domain, and not revoked;
  and the access token is the signature of claims that name that user and that zone.
\<close>

theorem login_sound:
  assumes "az_repo s = auth_pg cfg" "auth_ok st" "auth_login s x input st = (st', Inr r)"
  shows "\<exists>u t st1. auth_account st (to_lower (trim_space (li_identifier input))) u \<and> ur_status u = ''active'' \<and>
    az_verify s (ur_password_hash u) (trim_space (li_password input)) \<and>
    resolve_zone_access s (trim_space (li_domain input)) st = (st1, Inr t) \<and>
    valid_zone_target (pg_db st') (za_zone_id t) (za_workspace_id t) \<and>
    active_member (pg_db st') (za_workspace_id t) (ur_id u) \<and>
    list_ex (\<lambda>row. sw_hash row = hash_refresh_token (az_tokens s) (td_refresh_token (ar_tokens r)) \<and>
      sw_id row = ar_session_id r \<and> sw_user_id row = ur_id u \<and> sw_zone_id row = Some (za_zone_id t) \<and>
      sw_workspace_id row = Some (za_workspace_id t) \<and> sw_domain row = Some (za_domain t) \<and>
      sw_revoked_at row = None) (ab_sessions (pg_db st')) \<and>
    td_access_token (ar_tokens r) = sign_claims (az_tokens s) (zone_claims (az_tokens s) (ax_now_access x)
      (ur_id u) (ur_email u) (ur_username u) (za_zone_id t) (za_workspace_id t) (za_domain t))"
proof -
  obtain u t st1 sess where l:
      "auth_account st (to_lower (trim_space (li_identifier input))) u" "ur_status u = ''active''"
      "az_verify s (ur_password_hash u) (trim_space (li_password input))" "auth_member st' t (ur_id u)"
      "resolve_zone_access s (trim_space (li_domain input)) st = (st1, Inr t)"
      "td_access_token (ar_tokens r) = fst (access_token_for s x u t)"
      "auth_holds st' (hash_refresh_token (az_tokens s) (td_refresh_token (ar_tokens r))) sess"
      "sn_user_id sess = ur_id u" "sn_zone_id sess = za_zone_id t" "sn_workspace_id sess = za_workspace_id t"
      "sn_domain sess = za_domain t" "sn_revoked_at sess = None" "sn_id sess = ar_session_id r"
    using apg.login_signed_in [OF assms] by blast
  obtain row where row: "row \<in> set (ab_sessions (pg_db st'))" "scan_session row = Inr sess"
      "sw_hash row = hash_refresh_token (az_tokens s) (td_refresh_token (ar_tokens r))"
    using l(7) by (auto simp: auth_holds_def)
  have "sw_id row = ar_session_id r \<and> sw_user_id row = ur_id u \<and> sw_zone_id row = Some (za_zone_id t) \<and>
      sw_workspace_id row = Some (za_workspace_id t) \<and> sw_domain row = Some (za_domain t) \<and> sw_revoked_at row = None"
    using row(2) l(8-13) by (auto simp: scan_session_def split: option.splits)
  moreover have "td_access_token (ar_tokens r) = sign_claims (az_tokens s) (zone_claims (az_tokens s) (ax_now_access x)
      (ur_id u) (ur_email u) (ur_username u) (za_zone_id t) (za_workspace_id t) (za_domain t))"
    using l(6) by (simp add: access_token_for_def create_zone_access_token_def)
  ultimately show ?thesis
    using l(1-5) row(1,3) unfolding list_ex_iff auth_member_def by blast
qed

text \<open>
  C9. A refresh token is used up by its first success: the session it named, not revoked and not
  expired, is now stored under the hash of the new token, and every later refresh with the old
  token, with whatever clock, random bytes and domain, is refused and changes nothing (unless the
  two tokens have the same HMAC).
\<close>

theorem refresh_single_use:
  assumes "az_repo s = auth_pg cfg" "auth_ok st" "auth_refresh s x i st = (st1, Inr r)"
    and "trim_space (rf_token i') = trim_space (rf_token i)"
  shows "list_ex (\<lambda>row. sw_hash row = hash_refresh_token (az_tokens s) (trim_space (rf_token i)) \<and>
      sw_revoked_at row = None \<and> ax_now x < sw_expires_at row \<and>
      list_ex (\<lambda>row'. sw_id row' = sw_id row \<and> sw_id row' = rr_session_id r \<and> sw_revoked_at row' = None \<and>
        sw_hash row' = hash_refresh_token (az_tokens s) (td_refresh_token (rr_tokens r)))
        (ab_sessions (pg_db st1))) (ab_sessions (pg_db st)) \<and>
    (hash_refresh_token (az_tokens s) (td_refresh_token (rr_tokens r)) =
       hash_refresh_token (az_tokens s) (trim_space (rf_token i)) \<or>
     (\<exists>e st2. auth_refresh s x' i' st1 = (st2, Inl e) \<and> pg_db st2 = pg_db st1))"
proof -
  obtain sess sess' where c: "auth_holds st (hash_refresh_token (az_tokens s) (trim_space (rf_token i))) sess"
      "sn_revoked_at sess = None" "ax_now x < sn_expires_at sess"
      "auth_holds st1 (hash_refresh_token (az_tokens s) (td_refresh_token (rr_tokens r))) sess'" "sn_id sess' = sn_id sess"
      "sn_id sess' = rr_session_id r" "auth_ok st1"
      "hash_refresh_token (az_tokens s) (td_refresh_token (rr_tokens r)) =
        hash_refresh_token (az_tokens s) (trim_space (rf_token i)) \<or>
       (\<forall>y. \<not> auth_holds st1 (hash_refresh_token (az_tokens s) (trim_space (rf_token i))) y)"
    and alive: "sn_revoked_at sess' = None"
    using apg.refresh_consumes [OF assms(1-3) refl] by blast
  obtain row row' where rows: "row \<in> set (ab_sessions (pg_db st))" "scan_session row = Inr sess"
      "sw_hash row = hash_refresh_token (az_tokens s) (trim_space (rf_token i))"
      "row' \<in> set (ab_sessions (pg_db st1))" "scan_session row' = Inr sess'"
      "sw_hash row' = hash_refresh_token (az_tokens s) (td_refresh_token (rr_tokens r))"
    using c(1,4) by (auto simp: auth_holds_def)
  have scans: "sn_id sess = sw_id row" "sn_revoked_at sess = sw_revoked_at row" "sn_expires_at sess = sw_expires_at row"
      "sn_id sess' = sw_id row'" "sn_revoked_at sess' = sw_revoked_at row'"
    using rows(2,5) by (auto simp: scan_session_def split: option.splits)
  have "\<exists>e st2. auth_refresh s x' i' st1 = (st2, Inl e) \<and> auth_same st1 st2"
    if "hash_refresh_token (az_tokens s) (td_refresh_token (rr_tokens r)) \<noteq>
      hash_refresh_token (az_tokens s) (trim_space (rf_token i))"
    by (rule apg.refresh_unusable_token [OF assms(1) c(7)]) (use that c(8) assms(4) in simp)
  moreover have "list_ex (\<lambda>row. sw_hash row = hash_refresh_token (az_tokens s) (trim_space (rf_token i)) \<and>
      sw_revoked_at row = None \<and> ax_now x < sw_expires_at row \<and>
      list_ex (\<lambda>row'. sw_id row' = sw_id row \<and> sw_id row' = rr_session_id r \<and> sw_revoked_at row' = None \<and>
        sw_hash row' = hash_refresh_token (az_tokens s) (td_refresh_token (rr_tokens r)))
        (ab_sessions (pg_db st1))) (ab_sessions (pg_db st))"
    unfolding list_ex_iff using rows c(2,3,5,6) alive scans by (intro bexI [of _ row] conjI bexI [of _ row']) simp_all
  ultimately show ?thesis unfolding auth_same_def by blast
qed


text \<open>
  C10. Registration is all or nothing and obeys the zone: an error leaves the database as it was; an
  account is created only for an email and username nobody has, in a zone and workspace that are
  active when the transaction holds them, as an active member with a role; and unless the zone is
  open then, it used up an invite of that workspace for that email that was not accepted, revoked
  or expired.
\<close>

theorem registration_gated:
  assumes "pg_create_user cfg env p db = (db', r)" "registration_env env db"
  shows "case r of Inl e \<Rightarrow> db' = db
    | Inr u \<Rightarrow> (\<exists>zone w z. uuid2 env (za_zone_id (up_zone p)) (za_workspace_id (up_zone p)) = Inr (zone, w) \<and>
      registration_zone zone w db = Some z \<and> ur_id u \<notin> ur_id ` set (ab_users db) \<and>
      \<not> email_or_name_taken db (up_email p) (up_username p) \<and>
      active_member db' w (ur_id u) \<and> has_live_role (\<lambda>_. True) db' w (ur_id u) \<and>
      (zw_mode z = ''open'' \<or> zw_mode z = ''invite_only'' \<and> trim_space (up_invite_token p) \<noteq> [] \<and>
        (\<exists>i\<in>set (ab_invites db).
          open_invite (pe_now env) w (to_lower (trim_space (up_email p))) (invite_hash (up_invite_token p)) i \<and>
          accepted_in db' (pe_now env) i)))"
proof (cases r)
  case (Inl e)
  then show ?thesis using create_user_atomic assms(1) by simp
next
  case (Inr u)
  from registration_effect [OF assms(1)[unfolded Inr] assms(2)] Inr show ?thesis by auto
qed


text \<open>
  The first registration in a dedicated zone whose workspace has no owner takes it over for good:
  the new account is the owner and holds a live owner role, and however the requests go on it stays
  the owner, and nobody registers in that zone without an invite token again.
\<close>

lemma first_registration_owns:
  assumes "pg_create_user cfg env p db = (db1, Inr u)" "registration_env env db" "auth_keys db"
    and "uuid2 env (za_zone_id (up_zone p)) (za_workspace_id (up_zone p)) = Inr (zone, w)"
    and "registration_zone zone w db = Some z" "zw_kind z = ''customer_dedicated''"
    and "list_ex (ownerless w) (ab_workspaces db)"
    and "(auth_step cfg)\<^sup>*\<^sup>* db1 db2" "registration_env env2 db2"
    and "uuid2 env2 (za_zone_id (up_zone p2)) (za_workspace_id (up_zone p2)) = Inr (zone, w)"
    and "trim_space (up_invite_token p2) = []"
  shows "has_live_role (\<lambda>role. citext (ow_code role) = ''workspace_owner'') db1 w (ur_id u) \<and>
    list_ex (\<lambda>r. ww_id r = w \<and> ww_owner_id r = Some (ur_id u)) (ab_workspaces db2) \<and>
    (\<exists>e. pg_create_user cfg env2 p2 db2 = (db2, Inl e))"
proof -
  have fresh: "pe_uuid env (pe_fresh env) = Some (pe_fresh env)" using assms(2) by (simp add: registration_env_def)
  note c = dedicated_claim [OF assms(1) fresh assms(4-7)]
  have g1: "auth_grows db db1" by (rule tx_relD [OF create_user_grows assms(1)])
  have g: "auth_grows db1 db2" by (rule auth_steps_grow [OF assms(8)])
  have keys: "auth_keys db1" "auth_keys db2"
    using auth_keys_grow [OF g1 assms(3)] auth_keys_grow [OF g] by auto
  have "list_ex (\<lambda>r. ww_id r = w \<and> ww_owner_id r = Some (ur_id u)) (ab_workspaces db2)"
    using c g unfolding list_ex_iff auth_grows_def by (metis option.distinct(1))
  moreover have "\<exists>e. pg_create_user cfg env2 p2 db2 = (db2, Inl e)"
  proof (cases "pg_create_user cfg env2 p2 db2")
    case (Pair db3 r)
    show ?thesis
    proof (cases r)
      case (Inl e)
      then show ?thesis using create_user_atomic Pair by blast
    next
      case (Inr u2)
      obtain z2 where z2: "registration_zone zone w db2 = Some z2" and o2: "zw_mode z2 = ''open''"
        using registration_effect_at [OF Pair[unfolded Inr] assms(9,10)] assms(11) by blast
      have "(zone, None) \<in> set (map (\<lambda>z. (zw_id z, zw_deleted_at z)) (ab_zones db1))"
        using registration_zone_mem [OF assms(5)] g1 unfolding auth_grows_def by force
      then obtain z1 where z1: "z1 \<in> set (ab_zones db1)" "zw_id z1 = zone" "zw_deleted_at z1 = None" by auto
      then have shut: "zw_mode z1 \<noteq> ''open''" using c by blast
      then have "z1 \<in> set (ab_zones db2)" using g z1(1) by (auto simp: auth_grows_def)
      then have "z2 = z1"
        using key_unique [of zw_id "ab_zones db2" z2 z1] registration_zone_mem [OF z2] z1(2) keys(2)
        by (simp add: auth_keys_def)
      with shut o2 show ?thesis by simp
    qed
  qed
  ultimately show ?thesis using c by blast
qed

end
