(* ===== verification/Auth_Demo.thy ===== *)
theory Auth_Demo
  imports Auth_Safety
begin

text \<open>
  A small database on which the properties of the auth module are run: an active zone \<open>z\<close> on
  \<open>chat.io\<close> with workspace \<open>w\<close>, the account \<open>ann\<close> with a session, an invite and the two system roles.
\<close>

definition demo_user :: user_row where
  "demo_user =
    \<lparr>ur_id = ''ann'', ur_email = ''ann@x.io'', ur_username = ''ann'', ur_display_name = ''Ann'',
     ur_password_hash = ''secret123'', ur_avatar_url = None, ur_status = ''active'', ur_locale = ''vi-VN'',
     ur_timezone = ''Asia/Ho_Chi_Minh'', ur_email_verified_at = None, ur_last_seen_at = None,
     ur_registration_ip = None, ur_registration_device = None, ur_last_ip = None, ur_device_name = None,
     ur_created_at = 0, ur_updated_at = 0, uw_registration_agent = None, uw_last_agent = None,
     uw_deleted_at = None\<rparr>"

definition demo_zone :: "string \<Rightarrow> string \<Rightarrow> zone_row" where
  "demo_zone kind mode =
    \<lparr>zw_id = ''z'', zw_slug = ''z'', zw_name = ''Z'', zw_kind = kind, zw_status = ''active'', zw_mode = mode,
     zw_primary_workspace = Some ''w'', zw_created_at = 0, zw_updated_at = 0, zw_deleted_at = None\<rparr>"

definition demo_domain :: domain_row where
  "demo_domain =
    \<lparr>dw_zone_id = ''z'', dw_domain = ''chat.io'', dw_kind = ''primary'', dw_status = ''active'', dw_deleted_at = None\<rparr>"

definition demo_workspace :: auth_workspace_row where
  "demo_workspace =
    \<lparr>ww_id = ''w'', ww_zone_id = ''z'', ww_slug = ''w'', ww_status = ''active'', ww_owner_id = None,
     ww_created_at = 0, ww_updated_at = 0, ww_deleted_at = None\<rparr>"

definition demo_role :: "string \<Rightarrow> string \<Rightarrow> role_row" where
  "demo_role rid code =
    \<lparr>ow_id = rid, ow_workspace_id = None, ow_code = code, ow_is_system = True, ow_created_at = 0, ow_deleted_at = None\<rparr>"

definition demo_session :: "time option \<Rightarrow> auth_session_row" where
  "demo_session revoked =
    \<lparr>sw_id = ''s0'', sw_user_id = ''ann'', sw_zone_id = Some ''z'', sw_workspace_id = Some ''w'',
     sw_domain = Some ''chat.io'', sw_hash = hash_refresh_token demo_tokens ''old'', sw_device_name = None,
     sw_ip_address = None, sw_user_agent = None, sw_expires_at = 1000000, sw_revoked_at = revoked,
     sw_created_at = 0, sw_updated_at = 0\<rparr>"

definition demo_invite :: invite_row where
  "demo_invite =
    \<lparr>iw_id = ''i'', iw_workspace_id = ''w'', iw_email = ''bob@x.io'', iw_role_id = Some ''r1'',
     iw_token_hash = invite_hash ''tok'', iw_expires_at = 1000000, iw_accepted_at = None, iw_revoked_at = None,
     iw_created_at = 0\<rparr>"

definition demo_auth_db :: "string \<Rightarrow> string \<Rightarrow> auth_session_row list \<Rightarrow> auth_db" where
  "demo_auth_db kind mode sessions =
    \<lparr>ab_users = [demo_user], ab_sessions = sessions, ab_zones = [demo_zone kind mode], ab_domains = [demo_domain],
     ab_workspaces = [demo_workspace],
     ab_members = [\<lparr>mw_workspace_id = ''w'', mw_user_id = ''ann'', mw_status = ''active'', mw_joined_at = None, mw_updated_at = 0\<rparr>],
     ab_roles = [demo_role ''r1'' ''workspace_member'', demo_role ''r2'' ''workspace_owner''],
     ab_member_roles = [\<lparr>qw_workspace_id = ''w'', qw_user_id = ''ann'', qw_role_id = ''r1'', qw_assigned_by = None\<rparr>],
     ab_channels = [], ab_channel_members = [], ab_invites = [demo_invite], ab_quotas = [], ab_audit = []\<rparr>"

definition demo_config :: auth_pg_config where
  "demo_config = \<lparr>yp_default_workspace = [], yp_inet = (\<lambda>_. None)\<rparr>"

definition demo_auth_service :: "auth_db pg auth_service" where
  "demo_auth_service =
    \<lparr>az_repo = auth_pg demo_config, az_tokens = demo_tokens, az_parse_address = (\<lambda>_. True), az_verify = (=)\<rparr>"

definition demo_auth_env :: auth_env where
  "demo_auth_env =
    \<lparr>ax_now_access = 0, ax_now_refresh = 0, ax_now = 0, ax_refresh_rand = Inr ''a'', ax_password_rand = Inr ''b'',
     ax_hash = Inr\<rparr>"

definition demo_pg :: "'db \<Rightarrow> 'db pg" where
  "demo_pg db = \<lparr>pg_db = db, pg_envs = demo_env, pg_tick = 0\<rparr>"

lemmas demo_defs = demo_user_def demo_zone_def demo_domain_def demo_workspace_def demo_role_def demo_session_def
  demo_invite_def demo_auth_db_def demo_config_def demo_auth_service_def demo_auth_env_def

section \<open>Evaluation\<close>

lemma demo_run:
  "pg_run f \<lparr>pg_db = db, pg_envs = demo_env, pg_tick = n\<rparr> =
    (case f (demo_env n) db of (db', r) \<Rightarrow> (\<lparr>pg_db = db', pg_envs = demo_env, pg_tick = Suc n\<rparr>, r))"
  by (simp add: pg_run_def demo_env_def)

lemma demo_uuid [simp]: "uuid_param (demo_env n) x = Inr x" "uuid2 (demo_env n) x y = Inr (x, y)"
  "uuid_or_null (demo_env n) x = Inr (nullif_empty x)" "jsonb_param (demo_env n) x = Inr x"
  by (simp_all add: uuid_param_def uuid2_def uuid_or_null_def jsonb_param_def demo_env_def nullif_empty_def)

lemma ascii_text_ok: "\<forall>c\<in>set s. byte c < 128 \<and> c \<noteq> CHR 0x00 \<Longrightarrow> pg_text_ok s"
  by (auto simp: pg_text_ok_def intro: valid_utf8_ascii)

lemma hex_text_ok: "pg_text_ok (hex_encode s)"
proof (rule ascii_text_ok, intro ballI)
  fix c assume "c \<in> set (hex_encode s)"
  then obtain x where x: "c = hex_char (ibyte x div 16) \<or> c = hex_char (ibyte x mod 16)"
    by (auto simp: hex_encode_def)
  have "ibyte x div 16 \<in> {0..<16}" "ibyte x mod 16 \<in> {0..<16}" using ibyte_range [of x] by auto
  then obtain v where v: "c = hex_char v" "0 \<le> v" "v < 16" using x by fastforce
  have "48 \<le> ibyte c \<and> ibyte c < 128" using v by (simp add: hex_char_def)
  then have "48 \<le> byte c \<and> byte c < 128" using byte_ibyte [of c] by linarith
  then show "byte c < 128 \<and> c \<noteq> CHR 0x00" by auto
qed

lemma hash_text_ok [simp]: "pg_text_ok (hash_refresh_token m t)" "pg_text_ok (invite_hash t)"
  by (simp_all add: hash_refresh_token_def invite_hash_def hex_text_ok)

lemma demo_texts [simp]:
  "pg_text_ok []" "pg_text_ok ''ann''" "pg_text_ok ''chat.io''" "pg_text_ok ''z''" "pg_text_ok ''w''"
  "pg_text_ok ''user''" "pg_text_ok ''auth.login''" "pg_text_ok ''pc''"
  by (rule ascii_text_ok, simp)+

lemma demo_citext [simp]:
  "citext ''ann'' = ''ann''" "citext ''ann@x.io'' = ''ann@x.io''" "citext ''chat.io'' = ''chat.io''"
  "citext ''workspace_member'' = ''workspace_member''" "citext ''workspace_owner'' = ''workspace_owner''"
  "citext ''bob@x.io'' = ''bob@x.io''" "citext ''bob'' = ''bob''"
  by code_simp+

lemma demo_domain_norm [simp]: "normalize_domain ''chat.io'' = Inr ''chat.io''"
  by code_simp

lemma demo_strings [simp]:
  "trim_space ''ann'' = ''ann''" "to_lower ''ann'' = ''ann''" "trim_space ''secret123'' = ''secret123''"
  "trim_space ''chat.io'' = ''chat.io''" "trim_space ''pc'' = ''pc''" "trim_space ''old'' = ''old''" "trim_space [] = []"
  "normalize_client_info ''pc'' [] [] = (''pc'', [], [])"
  by code_simp+

abbreviation demo_st :: "'db \<Rightarrow> nat \<Rightarrow> 'db pg" where
  "demo_st db n \<equiv> \<lparr>pg_db = db, pg_envs = demo_env, pg_tick = n\<rparr>"

definition demo_target :: "string \<Rightarrow> string \<Rightarrow> zone_access" where
  "demo_target kind mode = zone_access_of (demo_zone kind mode) demo_workspace ''chat.io''"

lemma demo_resolve:
  "resolve_zone_access demo_auth_service ''chat.io'' (demo_st (demo_auth_db kind mode ss) n) =
    (demo_st (demo_auth_db kind mode ss) (Suc n), Inr (demo_target kind mode))"
  by (simp add: resolve_zone_access_def tx_map_error_def demo_auth_service_def pg_resolve_zone_def demo_run
      pg_resolve_by_domain_def domain_targets_def demo_auth_db_def demo_domain_def domain_usable_def demo_zone_def
      zone_open_def demo_workspace_def demo_target_def)

lemma demo_find_user:
  "pg_run (\<lambda>_. pg_find_user ''ann'') (demo_st (demo_auth_db kind mode ss) n) =
    (demo_st (demo_auth_db kind mode ss) (Suc n), Inr (user.truncate demo_user))"
  by (simp add: demo_run pg_find_user_def text_params_def scan_user_def identified_by_def demo_auth_db_def demo_user_def)

lemma demo_ensure:
  "pg_run (\<lambda>env. pg_ensure_access env ''ann'' (demo_target kind mode)) (demo_st (demo_auth_db kind mode ss) n) =
    (demo_st (demo_auth_db kind mode ss) (Suc n), Inr ())"
  by (simp add: demo_run pg_ensure_access_def in_tx_def tx_bind_def tx_lift_def validate_zone_target_def
      valid_zone_target_def demo_target_def zone_access_of_def demo_auth_db_def demo_zone_def demo_workspace_def
      zone_open_def is_member_def repair_workspace_access_def has_role_row_def has_live_role_def demo_role_def
      pg_join_public_channels_def)

definition demo_login :: login_input where
  "demo_login = \<lparr>li_identifier = ''ann'', li_password = ''secret123'', li_domain = ''chat.io'', li_device_name = ''pc'',
     li_ip_address = [], li_user_agent = []\<rparr>"

definition demo_refresh_expiry :: time where
  "demo_refresh_expiry = tm_refresh_ttl demo_tokens"

definition demo_refresh_token :: string where
  "demo_refresh_token = ''wtr_'' @ b64_encode ''a''"

lemma demo_token: "refresh_token_for demo_auth_service demo_auth_env = Inr (demo_refresh_token, demo_refresh_expiry)"
  by (simp add: refresh_token_for_def new_refresh_token_def demo_auth_service_def demo_auth_env_def
      demo_refresh_token_def demo_refresh_expiry_def)

lemma demo_create_session:
  assumes "cx_user_id p = ''ann''" "cx_zone_id p = ''z''" "cx_workspace_id p = ''w''" "cx_domain p = ''chat.io''"
    and "cx_hash p = hash_refresh_token demo_tokens h" "cx_device_name p = ''pc''" "cx_ip_address p = []" "cx_user_agent p = []"
  shows "\<exists>db' sess. pg_run (\<lambda>env. pg_create_session demo_config env p) (demo_st (demo_auth_db kind mode []) n) =
    (demo_st db' (Suc n), Inr sess)"
  using assms
  by (simp add: demo_run pg_create_session_def tx_bind_def tx_lift_def text_params_def inet_or_null_def
      demo_auth_db_def demo_user_def demo_zone_def demo_workspace_def scan_session_def new_session_row_def)

lemma demo_service_simps:
  "az_repo demo_auth_service = auth_pg demo_config" "az_verify demo_auth_service = (=)"
  "az_tokens demo_auth_service = demo_tokens" "li_identifier demo_login = ''ann''"
  "li_password demo_login = ''secret123''" "li_domain demo_login = ''chat.io''"
  by (simp_all add: demo_auth_service_def demo_login_def)

lemma demo_login_runs:
  "\<exists>st' r. auth_login demo_auth_service demo_auth_env demo_login (demo_st (demo_auth_db kind mode []) 0) = (st', Inr r)"
proof -
  let ?t = "demo_target kind mode" and ?u = "user.truncate demo_user"
  have n: "normalize_login demo_login = demo_login"
    by (simp add: normalize_login_def demo_login_def del: to_lower.simps)
  have id: "ur_id ?u = ''ann''" "ur_status ?u = ''active''" "ur_password_hash ?u = ''secret123''"
    by (simp_all add: user.truncate_def demo_user_def)
  let ?p = "session_params_of demo_auth_service ?u ?t (''pc'', [], []) (demo_refresh_token, demo_refresh_expiry)"
  obtain db' sess where c: "pg_run (\<lambda>env. pg_create_session demo_config env ?p) (demo_st (demo_auth_db kind mode []) (Suc (Suc (Suc 0)))) =
      (demo_st db' (Suc (Suc (Suc (Suc 0)))), Inr sess)"
    using demo_create_session [of ?p demo_refresh_token kind mode "Suc (Suc (Suc 0))"]
    by (auto simp: session_params_of_def id demo_target_def zone_access_of_def demo_zone_def demo_workspace_def
        demo_auth_service_def)
  have repo: "az_repo demo_auth_service = auth_pg demo_config" "az_verify demo_auth_service = (=)"
    by (simp_all add: demo_auth_service_def)
  have steps: "resolve_zone_access demo_auth_service ''chat.io'' (demo_st (demo_auth_db kind mode []) 0) =
      (demo_st (demo_auth_db kind mode []) (Suc 0), Inr ?t)"
    "pg_run (\<lambda>_. pg_find_user ''ann'') (demo_st (demo_auth_db kind mode []) (Suc 0)) =
      (demo_st (demo_auth_db kind mode []) (Suc (Suc 0)), Inr ?u)"
    "pg_run (\<lambda>env. pg_ensure_access env ''ann'' ?t) (demo_st (demo_auth_db kind mode []) (Suc (Suc 0))) =
      (demo_st (demo_auth_db kind mode []) (Suc (Suc (Suc 0))), Inr ())"
    by (simp_all add: demo_resolve demo_find_user demo_ensure)
  have finish: "\<exists>st' r. finish_login demo_auth_service demo_auth_env ?u ?t (''pc'', [], []) ''auth.login''
      [(''domain'', za_domain ?t)] (demo_st (demo_auth_db kind mode []) (Suc (Suc 0))) = (st', Inr r)"
    by (simp add: finish_login_def tx_bind_def ensure_zone_workspace_access_def tx_map_error_def repo id steps(3)
        issue_tokens_def tx_lift_def demo_token c tx_return_def tx_ignore_def)
  then show ?thesis
    by (simp add: auth_login_def Let_def n tx_bind_def, simp add: demo_login_def steps repo id)
qed

lemma demo_ok: "auth_ok (demo_st (demo_auth_db kind mode ss) n)" if "length ss \<le> 1"
  using that by (cases ss) (auto simp: auth_ok_def sessions_ok_def demo_auth_db_def ids_encode_def demo_env_def)

theorem login_sound_witness:
  "\<exists>st' r (u :: user). auth_login demo_auth_service demo_auth_env demo_login (demo_st (demo_auth_db ''customer_saas'' ''open'' []) 0) =
      (st', Inr r) \<and> ur_password_hash u = ''secret123'' \<and> active_member (pg_db st') ''w'' (ur_id u) \<and>
    list_ex (\<lambda>row. sw_hash row = hash_refresh_token demo_tokens (td_refresh_token (ar_tokens r)) \<and>
      sw_zone_id row = Some ''z'') (ab_sessions (pg_db st'))"
proof -
  let ?st = "demo_st (demo_auth_db ''customer_saas'' ''open'' []) 0"
  obtain st' r where run: "auth_login demo_auth_service demo_auth_env demo_login ?st = (st', Inr r)"
    using demo_login_runs by blast
  have repo: "az_repo demo_auth_service = auth_pg demo_config" by (simp add: demo_auth_service_def)
  have ok: "auth_ok ?st" by (rule demo_ok) simp
  obtain u :: user and t :: zone_access and st1 where l: "ur_password_hash u = ''secret123''"
      "resolve_zone_access demo_auth_service ''chat.io'' ?st = (st1, Inr t)"
      "active_member (pg_db st') (za_workspace_id t) (ur_id u)"
      "list_ex (\<lambda>row. sw_hash row = hash_refresh_token demo_tokens (td_refresh_token (ar_tokens r)) \<and>
        sw_zone_id row = Some (za_zone_id t)) (ab_sessions (pg_db st'))"
    using login_sound [OF repo ok run, unfolded demo_service_simps demo_strings list_ex_iff]
    unfolding list_ex_iff by blast
  have "t = demo_target ''customer_saas'' ''open''" using l(2) demo_resolve by simp
  then have "za_workspace_id t = ''w''" "za_zone_id t = ''z''"
    by (simp_all add: demo_target_def zone_access_of_def demo_zone_def demo_workspace_def)
  with l run show ?thesis by (intro exI [of _ st'] exI [of _ r] exI [of _ u]) simp
qed

section \<open>Refresh\<close>

definition demo_refresh :: refresh_input where
  "demo_refresh = \<lparr>rf_token = ''old'', rf_domain = []\<rparr>"

lemma demo_find_session:
  "pg_run (\<lambda>_. pg_find_session (hash_refresh_token demo_tokens ''old''))
      (demo_st (demo_auth_db kind mode [demo_session None]) n) =
    (demo_st (demo_auth_db kind mode [demo_session None]) (Suc n), scan_session (demo_session None))"
  by (simp add: demo_run pg_find_session_def text_params_def scan_session_row_def demo_auth_db_def demo_session_def)

lemma demo_find_by_id:
  "pg_run (\<lambda>env. pg_find_user_by_id env ''ann'') (demo_st (demo_auth_db kind mode ss) n) =
    (demo_st (demo_auth_db kind mode ss) (Suc n), Inr (user.truncate demo_user))"
  by (simp add: demo_run pg_find_user_by_id_def scan_user_def demo_auth_db_def demo_user_def)

lemma demo_rotate:
  assumes "ro_session_id q = ''s0''" "ro_user_id q = ''ann''" "ro_hash q = hash_refresh_token demo_tokens h"
  shows "\<exists>st' sess. pg_run (\<lambda>env. pg_rotate_session env q) (demo_st (demo_auth_db kind mode [demo_session None]) n) =
    (st', Inr sess)"
  using assms
  by (simp add: demo_run pg_rotate_session_def tx_bind_def tx_lift_def text_params_def rotatable_def rotated_def
      demo_auth_db_def demo_session_def scan_session_def)

lemma demo_refresh_runs:
  "\<exists>st' r. auth_refresh demo_auth_service demo_auth_env demo_refresh
      (demo_st (demo_auth_db kind mode [demo_session None]) 0) = (st', Inr r)"
proof -
  let ?t = "demo_target kind mode" and ?u = "user.truncate demo_user" and ?ss = "[demo_session None]"
  obtain sess where sess: "scan_session (demo_session None) = Inr sess" "sn_domain sess = ''chat.io''"
      "sn_zone_id sess = ''z''" "sn_workspace_id sess = ''w''" "sn_user_id sess = ''ann''" "sn_id sess = ''s0''"
      "sn_revoked_at sess = None" "sn_expires_at sess = 1000000"
    by (simp add: scan_session_def demo_session_def)
  have id: "ur_id ?u = ''ann''" "ur_status ?u = ''active''"
    by (simp_all add: user.truncate_def demo_user_def)
  have t: "za_zone_id ?t = ''z''" "za_workspace_id ?t = ''w''"
    by (simp_all add: demo_target_def zone_access_of_def demo_zone_def demo_workspace_def)
  have repo: "az_repo demo_auth_service = auth_pg demo_config" "az_tokens demo_auth_service = demo_tokens"
    by (simp_all add: demo_auth_service_def)
  have active: "session_active (ax_now demo_auth_env) sess = None"
    by (simp add: session_active_def sess demo_auth_env_def)
  have checks: "refresh_checks demo_auth_service demo_auth_env demo_refresh (demo_st (demo_auth_db kind mode ?ss) 0) =
      (demo_st (demo_auth_db kind mode ?ss) (Suc (Suc (Suc (Suc 0)))), Inr (sess, ?t, ?u))"
    by (simp add: refresh_checks_def demo_refresh_def Let_def tx_bind_def tx_map_error_def repo demo_find_session sess
        active refresh_target_def demo_resolve t demo_find_by_id id ensure_zone_workspace_access_def
        demo_ensure tx_return_def)
  show ?thesis
    using demo_rotate [of "\<lparr>ro_session_id = ''s0'', ro_user_id = ''ann'',
        ro_hash = hash_refresh_token demo_tokens demo_refresh_token, ro_expires_at = demo_refresh_expiry\<rparr>"
        demo_refresh_token kind mode "Suc (Suc (Suc (Suc 0)))"]
    by (auto simp: auth_refresh_def tx_bind_def checks refresh_rotate_def tx_lift_def demo_token tx_map_error_def
        repo sess id tx_return_def)
qed

lemma demo_refresh_token: "trim_space (rf_token demo_refresh) = ''old''"
  by (simp add: demo_refresh_def)

theorem refresh_single_use_witness:
  "\<exists>st1 r. auth_refresh demo_auth_service demo_auth_env demo_refresh
      (demo_st (demo_auth_db ''customer_saas'' ''open'' [demo_session None]) 0) = (st1, Inr r) \<and>
    (hash_refresh_token demo_tokens (td_refresh_token (rr_tokens r)) = hash_refresh_token demo_tokens ''old'' \<or>
     (\<exists>e st2. auth_refresh demo_auth_service demo_auth_env demo_refresh st1 = (st2, Inl e) \<and> pg_db st2 = pg_db st1))"
proof -
  let ?st = "demo_st (demo_auth_db ''customer_saas'' ''open'' [demo_session None]) 0"
  obtain st1 r where run: "auth_refresh demo_auth_service demo_auth_env demo_refresh ?st = (st1, Inr r)"
    using demo_refresh_runs by blast
  have repo: "az_repo demo_auth_service = auth_pg demo_config" by (simp add: demo_auth_service_def)
  have ok: "auth_ok ?st" by (rule demo_ok) simp
  from refresh_single_use [OF repo ok run refl, of demo_auth_env, unfolded demo_refresh_token demo_service_simps] run
  show ?thesis by blast
qed


section \<open>Registration\<close>

definition demo_signup :: "string \<Rightarrow> string \<Rightarrow> create_user_params" where
  "demo_signup kind mode =
    \<lparr>up_email = ''bob@x.io'', up_username = ''bob'', up_display_name = ''Bob'', up_password_hash = ''h'',
     up_device_name = [], up_ip_address = [], up_user_agent = [], up_avatar_url = [], up_email_verified = False,
     up_zone = demo_target kind mode, up_invite_token = (if mode = ''open'' then [] else ''tok'')\<rparr>"

lemma demo_signup_texts [simp]:
  "pg_text_ok ''bob@x.io''" "pg_text_ok ''bob''" "pg_text_ok ''Bob''" "pg_text_ok ''h''" "pg_text_ok ''tok''"
  by (rule ascii_text_ok, simp)+

lemma demo_signup_strings [simp]:
  "to_lower (trim_space ''bob@x.io'') = ''bob@x.io''" "trim_space ''tok'' = ''tok''"
  by code_simp+

lemmas demo_signup_simps = pg_create_user_def in_tx_def tx_bind_def tx_map_error_def pg_insert_user_def tx_lift_def user.truncate_def
  text_params_def inet_or_null_def email_or_name_taken_def new_user_row_def demo_signup_def demo_target_def
  zone_access_of_def demo_auth_db_def demo_zone_def demo_workspace_def demo_user_def demo_role_def demo_invite_def
  provision_registration_access_def lock_registration_target_def registration_zone_def registration_invite_def
  pg_find_invite_def open_invite_def add_workspace_membership_def pg_upsert_member_def member_quota_ok_def
  is_member_def active_member_def tx_return_def repair_workspace_access_def has_role_row_def has_live_role_def
  grant_role_def pg_grant_system_role_def system_roles_def pg_join_public_channels_def registration_claim_def
  claim_initial_workspace_ownership_def ownerless_def update_where_def pg_close_open_zone_def pg_accept_invite_def

lemma demo_fresh: "pe_fresh (demo_env 0) = ''id''" "pe_now (demo_env 0) = 0"
  by (simp_all add: demo_env_def)

lemma demo_invited_runs:
  "\<exists>db' u. pg_create_user demo_config (demo_env 0) (demo_signup ''customer_saas'' ''invite_only'')
    (demo_auth_db ''customer_saas'' ''invite_only'' []) = (db', Inr u) \<and>
    list_all (\<lambda>i. iw_id i \<noteq> []) (ab_invites db')"
  by (simp add: demo_signup_simps demo_fresh del: to_lower.simps)

lemma demo_dedicated_runs:
  "\<exists>db' u. pg_create_user demo_config (demo_env 0) (demo_signup ''customer_dedicated'' ''open'')
    (demo_auth_db ''customer_dedicated'' ''open'' []) = (db', Inr u) \<and>
    list_all (\<lambda>i. iw_id i \<noteq> []) (ab_invites db')"
  by (simp add: demo_signup_simps demo_fresh del: to_lower.simps)

lemma demo_registration_env: "list_all (\<lambda>i. iw_id i \<noteq> []) (ab_invites db) \<Longrightarrow> registration_env (demo_env n) db"
  by (simp add: registration_env_def demo_env_def)

lemma demo_start:
  "registration_env (demo_env n) (demo_auth_db kind mode [])" "auth_keys (demo_auth_db kind mode [])"
  "uuid2 (demo_env n) (za_zone_id (up_zone (demo_signup kind mode))) (za_workspace_id (up_zone (demo_signup kind mode))) =
    Inr (''z'', ''w'')"
  "registration_zone ''z'' ''w'' (demo_auth_db kind mode []) = Some (demo_zone kind mode)"
  "list_ex (ownerless ''w'') (ab_workspaces (demo_auth_db kind mode []))"
  "za_zone_id (up_zone (demo_signup kind mode)) = ''z''" "za_workspace_id (up_zone (demo_signup kind mode)) = ''w''"
  by (simp_all add: registration_env_def demo_env_def demo_auth_db_def demo_invite_def auth_keys_def demo_zone_def
      demo_workspace_def demo_signup_def demo_target_def zone_access_of_def registration_zone_def ownerless_def uuid2_def
      uuid_param_def)

theorem registration_gated_witness:
  "\<exists>db' (u :: user). pg_create_user demo_config (demo_env 0) (demo_signup ''customer_saas'' ''invite_only'')
      (demo_auth_db ''customer_saas'' ''invite_only'' []) = (db', Inr u) \<and>
    active_member db' ''w'' (ur_id u) \<and> has_live_role (\<lambda>_. True) db' ''w'' (ur_id u) \<and>
    list_ex (accepted_in db' 0) (ab_invites (demo_auth_db ''customer_saas'' ''invite_only'' []))"
proof -
  obtain db' u where run: "pg_create_user demo_config (demo_env 0) (demo_signup ''customer_saas'' ''invite_only'')
      (demo_auth_db ''customer_saas'' ''invite_only'' []) = (db', Inr u)"
    using demo_invited_runs by blast
  have "zw_mode (demo_zone ''customer_saas'' ''invite_only'') = ''invite_only''" by (simp add: demo_zone_def)
  with registration_gated [OF run demo_start(1)] run show ?thesis
    by (auto simp: demo_start list_ex_iff demo_fresh)
qed


theorem first_registration_owns_witness:
  "\<exists>db1 (u :: user). pg_create_user demo_config (demo_env 0) (demo_signup ''customer_dedicated'' ''open'')
      (demo_auth_db ''customer_dedicated'' ''open'' []) = (db1, Inr u) \<and>
    has_live_role (\<lambda>role. citext (ow_code role) = ''workspace_owner'') db1 ''w'' (ur_id u) \<and>
    list_ex (\<lambda>r. ww_id r = ''w'' \<and> ww_owner_id r = Some (ur_id u)) (ab_workspaces db1)"
proof -
  let ?p = "demo_signup ''customer_dedicated'' ''open''"
  obtain db1 u where run: "pg_create_user demo_config (demo_env 0) ?p
      (demo_auth_db ''customer_dedicated'' ''open'' []) = (db1, Inr u)" and env: "registration_env (demo_env 1) db1"
    using demo_dedicated_runs demo_registration_env by blast
  have z: "zw_kind (demo_zone ''customer_dedicated'' ''open'') = ''customer_dedicated''" by (simp add: demo_zone_def)
  have p2: "trim_space (up_invite_token ?p) = []" by (simp add: demo_signup_def)
  from first_registration_owns [OF run demo_start(1,2) demo_start(3) demo_start(4) z demo_start(5)
      rtranclp.rtrancl_refl env demo_start(3) p2] run
  show ?thesis by blast
qed

end
