(* ===== verification/Go_Marshal.thy ===== *)
theory Go_Marshal
  imports Go_Encoding "HOL-Library.AList" "HOL-Library.List_Lexorder" "HOL-Library.Char_ord"
begin

text \<open>
  What \<open>json.Marshal\<close> makes of a value \<open>json.Unmarshal\<close> decoded into \<open>map[string]any\<close>: numbers go
  through \<open>float64\<close> (\<open>strconv.ParseFloat\<close> and the shortest decimal that reads back as the same number),
  objects lose all but the last member of a name and are written in the order of their keys. The
  second half shows that the parser reads back what the printer writes.
\<close>

section \<open>float64\<close>

text \<open>The number of bits of a positive integer, and a fraction times a power of ten or two.\<close>

function bit_count :: "int \<Rightarrow> int" where
  "bit_count n = (if n \<le> 0 then 0 else 1 + bit_count (n div 2))"
  by pat_completeness auto
termination
  by (relation "measure nat") auto

declare bit_count.simps [simp del]

definition scale :: "int \<Rightarrow> int \<times> int \<Rightarrow> int \<Rightarrow> int \<times> int" where
  "scale base q k = (if 0 \<le> k then (fst q * base ^ nat k, snd q) else (fst q, snd q * base ^ nat (- k)))"

text \<open>
  The float64 nearest to the positive fraction \<open>a / b\<close>, ties to even, as \<open>(n, e)\<close> for \<open>n * 2 ^ e\<close>: \<open>n\<close> has
  53 bits unless \<open>e\<close> is -1074. \<open>None\<close>: out of range.
\<close>

definition float_exponent :: "int \<times> int \<Rightarrow> int" where
  "float_exponent q =
    (let k0 = bit_count (fst q) - bit_count (snd q)
     in case scale 2 q (- k0) of (a, b) \<Rightarrow> max (- 1074) ((if b \<le> a then k0 else k0 - 1) - 52))"

definition float_of :: "int \<times> int \<Rightarrow> (int \<times> int) option" where
  "float_of q =
    (case scale 2 q (- float_exponent q) of (a, b) \<Rightarrow>
       (let n = a div b; r = a mod b;
            n' = (if b < 2 * r \<or> 2 * r = b \<and> odd n then n + 1 else n);
            (m, e) = (if n' = 9007199254740992 then (4503599627370496, float_exponent q + 1)
                      else (n', float_exponent q))
        in if 971 < e then None else Some (m, e)))"

definition decimal_exponent :: "int \<times> int \<Rightarrow> int" where
  "decimal_exponent q =
    (let x = int (length (itoa (fst q))) - int (length (itoa (snd q)))
     in case scale 10 q (- x) of (a, b) \<Rightarrow> if b \<le> a then x + 1 else x)"

text \<open>A decimal of \<open>p\<close> digits that reads back as \<open>f\<close>, the nearest if there are two.\<close>

definition digits_at :: "int \<times> int \<Rightarrow> int \<times> int \<Rightarrow> int \<Rightarrow> int \<Rightarrow> int option" where
  "digits_at f q x p =
    (case scale 10 q (p - x) of (a, b) \<Rightarrow>
       (let d = a div b; r = a mod b;
            good = (\<lambda>c. float_of (scale 10 (c, 1) (x - p)) = Some f)
        in if good d \<and> (2 * r \<le> b \<or> \<not> good (d + 1)) then Some d
           else if good (d + 1) then Some (d + 1)
           else None))"

fun shortest_from :: "nat \<Rightarrow> int \<times> int \<Rightarrow> int \<times> int \<Rightarrow> int \<Rightarrow> int \<Rightarrow> int \<times> int" where
  "shortest_from 0 f q x p = (1, 1)"
| "shortest_from (Suc n) f q x p =
    (case digits_at f q x p of
       Some c \<Rightarrow> (c, int (length (itoa c)) - p + x)
     | None \<Rightarrow> shortest_from n f q x (p + 1))"

text \<open>The shortest digits of \<open>f\<close> and the position of the decimal point; 17 digits always suffice.\<close>

definition shortest :: "int \<times> int \<Rightarrow> string \<times> int" where
  "shortest f =
    (let q = scale 2 (fst f, 1) (snd f)
     in case shortest_from 17 f q (decimal_exponent q) 1 of (c, dp) \<Rightarrow>
       (let ds = rev (dropWhile (\<lambda>d. d = CHR ''0'') (rev (itoa c)))
        in (if ds = [] then ''1'' else ds, dp)))"

text \<open>The \<open>floatEncoder\<close> of \<open>encoding/json\<close>: exponent form below 1e-6 and from 1e21 on.\<close>

definition float_digits :: "string \<Rightarrow> int \<Rightarrow> string" where
  "float_digits ds dp =
    (if dp \<le> - 6 \<or> 22 \<le> dp then
       take 1 ds @ (if drop 1 ds = [] then [] else ''.'' @ drop 1 ds) @
       (if dp \<le> 0 then ''e-'' @ nat_digits (nat (1 - dp)) else ''e+'' @ nat_digits (nat (dp - 1)))
     else if dp \<le> 0 then ''0.'' @ replicate (nat (- dp)) (CHR ''0'') @ ds
     else if length ds \<le> nat dp then ds @ replicate (nat dp - length ds) (CHR ''0'')
     else take (nat dp) ds @ ''.'' @ drop (nat dp) ds)"

text \<open>The value of a JSON number literal, without its sign, as a fraction.\<close>

definition literal_value :: "string \<Rightarrow> int \<times> int" where
  "literal_value s =
    (let a = takeWhile is_digit s; s1 = dropWhile is_digit s;
         b = (if has_prefix s1 ''.'' then takeWhile is_digit (drop 1 s1) else []);
         s2 = (if has_prefix s1 ''.'' then dropWhile is_digit (drop 1 s1) else s1);
         s3 = drop 1 s2;
         e = (if s2 = [] then 0
              else if has_prefix s3 ''-'' then - digits_val (drop 1 s3)
              else digits_val (if has_prefix s3 ''+'' then drop 1 s3 else s3))
     in scale 10 (digits_val (a @ b), 1) (e - int (length b)))"

definition float_text :: "string \<Rightarrow> string option" where
  "float_text s =
    (let neg = has_prefix s ''-'';
         q = literal_value (if neg then drop 1 s else s);
         sign = (if neg then ''-'' else [])
     in if fst q = 0 then Some (sign @ ''0'')
        else case float_of q of
          None \<Rightarrow> None
        | Some f \<Rightarrow>
            Some (sign @ (if fst f = 0 then ''0'' else case shortest f of (ds, dp) \<Rightarrow> float_digits ds dp)))"

section \<open>Values\<close>

text \<open>A Go map read from an object and its members in the order of the keys.\<close>

definition go_map :: "(string \<times> 'v) list \<Rightarrow> (string \<times> 'v) list" where
  "go_map ms = sort_key fst (AList.clearjunk (rev ms))"

text \<open>Decoding into \<open>any\<close>; \<open>None\<close>: a number out of range.\<close>

fun any_value :: "json \<Rightarrow> json option" where
  "any_value (JNum s) = map_option JNum (float_text s)"
| "any_value (JArr vs) = map_option JArr (those (map any_value vs))"
| "any_value (JObj ms) =
    map_option (\<lambda>vs. JObj (go_map (zip (map fst ms) vs))) (those (map (\<lambda>m. any_value (snd m)) ms))"
| "any_value v = Some v"

fun comma_sep :: "string list \<Rightarrow> string" where
  "comma_sep [] = []"
| "comma_sep [x] = x"
| "comma_sep (x # y # xs) = x @ '','' @ comma_sep (y # xs)"

fun json_print :: "json \<Rightarrow> string" where
  "json_print (JArr vs) = ''['' @ comma_sep (map json_print vs) @ '']''"
| "json_print (JObj ms) = ''{'' @ comma_sep (map (\<lambda>m. json_quote (fst m) @ '':'' @ json_print (snd m)) ms) @ ''}''"
| "json_print v = json_atom v"

text \<open>\<open>json.Unmarshal\<close> into a \<open>map[string]any\<close>: \<open>null\<close> leaves the nil map.\<close>

definition unmarshal_map :: "string \<Rightarrow> (string \<times> json) list option" where
  "unmarshal_map s =
    (case json_parse s of
       Some (JObj ms) \<Rightarrow> (case any_value (JObj ms) of Some (JObj m) \<Rightarrow> Some m | _ \<Rightarrow> None)
     | Some JNull \<Rightarrow> Some []
     | _ \<Rightarrow> None)"

definition map_put :: "string \<Rightarrow> json \<Rightarrow> (string \<times> json) list \<Rightarrow> (string \<times> json) list" where
  "map_put k v m = go_map (m @ [(k, v)])"

section \<open>What the printer writes of a number is a number\<close>

definition js_sep :: "char \<Rightarrow> bool" where
  "js_sep z \<longleftrightarrow> z = CHR '','' \<or> z = CHR ''}'' \<or> z = CHR '']''"

lemma js_sep_simps:
  assumes "js_sep z"
  shows "\<not> is_digit z" "z \<noteq> CHR ''.''" "z \<noteq> CHR ''e''" "z \<noteq> CHR ''E''" "skip_ws (z # u) = z # u"
  using assms by (auto simp: js_sep_def is_digit_def skip_ws_def json_ws_def)

definition digits :: "string \<Rightarrow> bool" where
  "digits ds \<longleftrightarrow> ds \<noteq> [] \<and> list_all is_digit ds"

lemma js_digits_run:
  "digits ds \<Longrightarrow> \<not> is_digit z \<Longrightarrow> js_digits (ds @ z # t) = Some (ds, z # t)"
  by (auto simp: digits_def js_digits_def list_all_iff dropWhile_append2)

lemma js_number_shape:
  assumes "digits a" "hd a \<noteq> CHR ''0'' \<or> a = ''0''" "b = [] \<or> (\<exists>ds. digits ds \<and> b = CHR ''.'' # ds)"
    and "c = [] \<or> (\<exists>s ds. digits ds \<and> (s = CHR ''+'' \<or> s = CHR ''-'') \<and> c = CHR ''e'' # s # ds)"
    and z: "js_sep z" and sign: "sign = [] \<or> sign = ''-''"
  shows "js_number ((sign @ a @ b @ c) @ z # t) = Some (sign @ a @ b @ c, z # t)"
proof -
  note z = js_sep_simps [OF z]
  have c: "js_exp (c @ z # t) = Some (c, z # t)"
    using assms(4) z js_digits_run [OF _ z(1)] by (auto simp: js_exp_def has_prefix_def cons_str_def)
  have nd: "\<exists>y w. c @ z # t = y # w \<and> \<not> is_digit y \<and> y \<noteq> CHR ''.''"
    using assms(4) z by (auto simp: is_digit_def)
  have b: "js_frac (b @ c @ z # t) = Some (b, c @ z # t)"
    using assms(3) nd js_digits_run by (fastforce simp: js_frac_def has_prefix_def cons_str_def)
  have "\<exists>y w. b @ c @ z # t = y # w \<and> \<not> is_digit y" using assms(3) nd by (auto simp: is_digit_def)
  then have a: "js_int (a @ b @ c @ z # t) = Some (a, b @ c @ z # t)"
    using assms(1,2) js_digits_run [OF assms(1)] by (cases a) (auto simp: js_int_def has_prefix_def digits_def)
  have "hd a \<noteq> CHR ''-''" "a \<noteq> []" using assms(1) by (cases a; auto simp: digits_def is_digit_def)+
  then have "\<not> has_prefix (a @ u) ''-''" for u by (cases a) (auto simp: has_prefix_def)
  moreover have "has_prefix (CHR ''-'' # u) ''-''" for u by (simp add: has_prefix_def)
  ultimately show ?thesis using a b c sign by (auto simp: js_number_def)
qed

lemma digits_simps [simp]:
  "digits (nat_digits n)" "digits (a @ b) \<longleftrightarrow> (a = [] \<or> digits a) \<and> (b = [] \<or> digits b) \<and> (a \<noteq> [] \<or> b \<noteq> [])"
  "digits (replicate n (CHR ''0'')) \<longleftrightarrow> 0 < n"
proof -
  show "digits (nat_digits n)" using nat_digits_val [of n] by (auto simp: digits_def list_all_iff)
  show "digits (a @ b) \<longleftrightarrow> (a = [] \<or> digits a) \<and> (b = [] \<or> digits b) \<and> (a \<noteq> [] \<or> b \<noteq> [])"
    by (auto simp: digits_def)
  show "digits (replicate n (CHR ''0'')) \<longleftrightarrow> 0 < n" by (auto simp: digits_def list_all_iff is_digit_def)
qed

lemma zeros_digits [simp]: "list_all is_digit (replicate n (CHR ''0''))"
  by (simp add: list_all_iff is_digit_def)

lemma digits_take_drop: "digits ds \<Longrightarrow> 0 < n \<Longrightarrow> digits (take n ds)" "digits ds \<Longrightarrow> n < length ds \<Longrightarrow> digits (drop n ds)"
  by (auto simp: digits_def list_all_iff dest: in_set_takeD in_set_dropD)

lemma js_number_float_digits:
  assumes ds: "digits ds" "hd ds \<noteq> CHR ''0''" and z: "js_sep z" and sign: "sign = [] \<or> sign = ''-''"
  shows "js_number ((sign @ float_digits ds dp) @ z # t) = Some (sign @ float_digits ds dp, z # t)"
proof -
  have hd_take: "0 < n \<Longrightarrow> hd (take n ds) \<noteq> CHR ''0''" for n using ds by (cases ds; cases n) (auto simp: digits_def)
  have zero: "digits ''0''" by (simp add: digits_def is_digit_def)
  have ne: "ds \<noteq> []" using ds(1) by (simp add: digits_def)
  consider "dp \<le> - 6 \<or> 22 \<le> dp" | "- 6 < dp" "dp \<le> 0" | "0 < dp" "dp < 22" "length ds \<le> nat dp" | "0 < dp" "dp < 22" "nat dp < length ds"
    by linarith
  then show ?thesis
  proof cases
    case 1
    define b where "b = (if drop 1 ds = [] then [] else ''.'' @ drop 1 ds)"
    define c where "c = (if dp \<le> 0 then ''e-'' @ nat_digits (nat (1 - dp)) else ''e+'' @ nat_digits (nat (dp - 1)))"
    have "float_digits ds dp = take 1 ds @ b @ c" using 1 by (simp add: float_digits_def b_def c_def)
    moreover have "b = [] \<or> (\<exists>ds. digits ds \<and> b = CHR ''.'' # ds)"
      using digits_take_drop(2) [OF ds(1), of 1] by (auto simp: b_def)
    moreover have "c = [] \<or> (\<exists>s ds. digits ds \<and> (s = CHR ''+'' \<or> s = CHR ''-'') \<and> c = CHR ''e'' # s # ds)"
      by (auto simp: c_def)
    ultimately show ?thesis
      using js_number_shape [OF digits_take_drop(1) [OF ds(1)] disjI1 [OF hd_take] _ _ z sign, of 1 b c t] by simp
  next
    case 2
    then show ?thesis
      using js_number_shape [OF zero _ _ _ z sign, of "CHR ''.'' # replicate (nat (- dp)) (CHR ''0'') @ ds" "[]" t] ds(1) ne 2(2)
      by (auto simp: float_digits_def less_le)
  next
    case 3
    have "hd (ds @ replicate (nat dp - length ds) (CHR ''0'')) \<noteq> CHR ''0''" using ds by (cases ds) (auto simp: digits_def)
    then show ?thesis
      using js_number_shape [of "ds @ replicate (nat dp - length ds) (CHR ''0'')" "[]" "[]" z sign t] 3 ds(1) z sign
      by (auto simp: float_digits_def digits_def)
  next
    case 4
    then show ?thesis
      using js_number_shape [OF digits_take_drop(1) [OF ds(1), of "nat dp"] disjI1 [OF hd_take] _ _ z sign,
          of "CHR ''.'' # drop (nat dp) ds" "[]" t] digits_take_drop(2) [OF ds(1)]
      by (simp add: float_digits_def)
  qed
qed

lemma scale_pos: "0 < base \<Longrightarrow> 0 < snd q \<Longrightarrow> 0 < snd (scale base q k)"
  "0 < base \<Longrightarrow> 0 \<le> fst q \<Longrightarrow> 0 \<le> fst (scale base q k)"
  by (simp_all add: scale_def)

lemma float_of_cases:
  assumes "float_of q = Some f"
  shows "\<exists>e n. (n = fst (scale 2 q e) div snd (scale 2 q e) \<or> n = fst (scale 2 q e) div snd (scale 2 q e) + 1 \<and>
      snd (scale 2 q e) \<le> 2 * (fst (scale 2 q e) mod snd (scale 2 q e))) \<and>
    (fst f = n \<or> n = 9007199254740992 \<and> fst f = 4503599627370496)"
proof -
  obtain a b where "scale 2 q (- float_exponent q) = (a, b)" by (cases "scale 2 q (- float_exponent q)")
  with assms show ?thesis
    by (rule_tac exI [of _ "- float_exponent q"],
      rule_tac exI [of _ "if b < 2 * (a mod b) \<or> 2 * (a mod b) = b \<and> odd (a div b) then a div b + 1 else a div b"])
      (auto simp: float_of_def Let_def split: if_splits)
qed

lemma float_of_nonneg:
  assumes "float_of q = Some f" "0 \<le> fst q" "0 < snd q"
  shows "0 \<le> fst f"
proof -
  have "0 \<le> fst (scale 2 q k) div snd (scale 2 q k)" for k
    using scale_pos [of 2 q k] assms by (simp add: pos_imp_zdiv_nonneg_iff)
  then show ?thesis using float_of_cases [OF assms(1)] by (smt (verit))
qed

lemma float_of_zero:
  assumes "0 < snd q" "fst q = 0" "float_of q = Some f"
  shows "fst f = 0"
proof -
  have z: "fst (scale 2 q k) = 0" "0 < snd (scale 2 q k)" for k
    using scale_pos(1) [of 2 q k] assms by (simp_all add: scale_def)
  from float_of_cases [OF assms(3)] obtain e n where
    "n = 0 \<or> snd (scale 2 q e) \<le> 0" "fst f = n \<or> n = 9007199254740992" by (auto simp: z(1))
  with z(2) [of e] show ?thesis by auto
qed

lemma digits_at_pos:
  assumes "digits_at f q x p = Some c" "fst f \<noteq> 0" "0 \<le> fst q" "0 < snd q"
  shows "0 < c"
proof -
  obtain a b where ab: "scale 10 q (p - x) = (a, b)" by (cases "scale 10 q (p - x)")
  then have "0 \<le> a div b" using scale_pos [of 10 q "p - x"] assms(3,4) by (simp add: pos_imp_zdiv_nonneg_iff)
  moreover have "float_of (scale 10 (c, 1) (x - p)) = Some f" "c = a div b \<or> c = a div b + 1"
    using assms(1) by (auto simp: digits_at_def ab Let_def split: if_splits)
  moreover have "c \<noteq> 0"
    using calculation(2) float_of_zero [of "scale 10 (c, 1) (x - p)" f] assms(2) scale_pos(1) [of 10 "(c, 1)" "x - p"]
    by (auto simp: scale_def split: if_splits)
  ultimately show ?thesis by auto
qed

lemma shortest_from_pos:
  "fst f \<noteq> 0 \<Longrightarrow> 0 \<le> fst q \<Longrightarrow> 0 < snd q \<Longrightarrow> 0 < fst (shortest_from n f q x p)"
  by (induction n f q x p rule: shortest_from.induct) (auto split: option.splits dest: digits_at_pos)

lemma shortest_digits:
  assumes "0 < fst f"
  shows "digits (fst (shortest f)) \<and> hd (fst (shortest f)) \<noteq> CHR ''0''"
proof -
  let ?q = "scale 2 (fst f, 1) (snd f)"
  obtain c dp where c: "shortest_from 17 f ?q (decimal_exponent ?q) 1 = (c, dp)" by (cases "shortest_from 17 f ?q (decimal_exponent ?q) 1")
  have "0 < c"
    using shortest_from_pos [of f ?q 17 "decimal_exponent ?q" 1] c assms scale_pos [of 2 "(fst f, 1)" "snd f"] by simp
  then have d: "digits (itoa c)" "hd (itoa c) \<noteq> CHR ''0''" using nat_digits_no_zero [of "nat c"] by (simp_all add: itoa_def)
  then obtain a u where i: "itoa c = a # u" "a \<noteq> CHR ''0''" by (cases "itoa c") (auto simp: digits_def)
  let ?ds = "rev (dropWhile (\<lambda>d. d = CHR ''0'') (rev (itoa c)))"
  have "?ds = a # rev (dropWhile (\<lambda>d. d = CHR ''0'') (rev u))" using i by (simp add: dropWhile_append)
  moreover have "list_all is_digit ?ds" using d(1) by (auto simp: digits_def list_all_iff dest: set_dropWhileD)
  ultimately show ?thesis using i c by (auto simp: shortest_def digits_def is_digit_def Let_def)
qed

lemma literal_value_range: "0 \<le> fst (literal_value s) \<and> 0 < snd (literal_value s)"
proof -
  have "list_all is_digit (takeWhile is_digit u)" for u
    by (auto simp: list_all_iff dest: set_takeWhileD)
  then have "0 \<le> digits_val (takeWhile is_digit u @ (if c then takeWhile is_digit v else []))" for u v c
    by (intro digits_val_nonneg) simp
  then show ?thesis unfolding literal_value_def Let_def by (intro conjI scale_pos) simp_all
qed

lemma float_text_number:
  assumes "float_text s = Some t" "js_sep z"
  shows "js_number (t @ z # u) = Some (t, z # u)"
proof -
  let ?sign = "if has_prefix s ''-'' then ''-'' else []"
  have sign: "?sign = [] \<or> ?sign = ''-''" by simp
  have zero: "js_number ((?sign @ ''0'') @ z # u) = Some (?sign @ ''0'', z # u)"
    using js_number_shape [of "''0''" "[]" "[]" z ?sign u] assms(2) sign by (auto simp: digits_def is_digit_def)
  consider "t = ?sign @ ''0''" | f where "float_of (literal_value (if has_prefix s ''-'' then drop 1 s else s)) = Some f" "fst f \<noteq> 0"
      "t = ?sign @ float_digits (fst (shortest f)) (snd (shortest f))"
    using assms(1) by (auto simp: float_text_def Let_def split: if_splits option.splits prod.splits)
  then show ?thesis
  proof cases
    case 2
    have "0 < fst f" using float_of_nonneg [OF 2(1)] literal_value_range 2(2) by (simp add: order.not_eq_order_implies_strict)
    then show ?thesis
      using js_number_float_digits [OF _ _ assms(2) sign, of "fst (shortest f)" "snd (shortest f)" u] shortest_digits 2(3) by simp
  qed (use zero in simp)
qed

section \<open>The parser reads back what the printer writes\<close>

text \<open>Values the parser accepts below nesting depth \<open>d\<close>, with numbers as \<open>Marshal\<close> writes them.\<close>

fun printable :: "int \<Rightarrow> json \<Rightarrow> bool" where
  "printable d (JNum s) = (\<exists>t. float_text t = Some s)"
| "printable d (JArr vs) = (0 < d \<and> list_all (printable (d - 1)) vs)"
| "printable d (JObj ms) = (0 < d \<and> list_all (\<lambda>m. printable (d - 1) (snd m)) ms)"
| "printable d _ = True"

text \<open>The value with every string as a reader sees it.\<close>

fun utf8_value :: "json \<Rightarrow> json" where
  "utf8_value (JStr s) = JStr (to_valid_utf8 s)"
| "utf8_value (JArr vs) = JArr (map utf8_value vs)"
| "utf8_value (JObj ms) = JObj (map (\<lambda>m. (to_valid_utf8 (fst m), utf8_value (snd m))) ms)"
| "utf8_value v = v"

lemma js_number_head:
  "js_number s = Some (t, r) \<Longrightarrow> t \<noteq> [] \<Longrightarrow> \<exists>c w. s = c # w \<and> (is_digit c \<or> c = CHR ''-'')"
  by (cases s) (auto simp: js_number_def js_int_def js_digits_def has_prefix_def Let_def Option.bind_eq_Some_conv
      is_digit_def split: if_splits)

lemma js_number_nonempty: "js_number s = Some (t, r) \<Longrightarrow> t \<noteq> []"
  by (auto simp: js_number_def js_int_def js_digits_def Let_def Option.bind_eq_Some_conv split: if_splits)

lemma float_text_head:
  assumes "float_text s = Some t"
  shows "\<exists>c w. t = c # w \<and> (is_digit c \<or> c = CHR ''-'')"
proof -
  have n: "js_number (t @ CHR '','' # []) = Some (t, CHR '','' # [])"
    by (rule float_text_number [OF assms]) (simp add: js_sep_def)
  then obtain c w where "t = c # w" using js_number_nonempty [OF n] by (cases t) auto
  then show ?thesis using js_number_head [OF n] by auto
qed

lemma json_print_head:
  assumes "printable d v"
  shows "\<exists>c w. json_print v = c # w \<and> \<not> json_ws c \<and> c \<noteq> CHR 0x5D \<and> c \<noteq> CHR 0x7D"
proof (cases v)
  case (JNum s)
  then show ?thesis using assms float_text_head by (fastforce simp: json_ws_def is_digit_def)
qed (auto simp: json_quote_def json_ws_def)

lemma skip_ws_head: "\<not> json_ws c \<Longrightarrow> skip_ws (c # w) = c # w"
  by (simp add: skip_ws_def)

definition reads_back :: "int \<Rightarrow> json \<Rightarrow> bool" where
  "reads_back d v \<longleftrightarrow> (\<forall>n z u. js_sep z \<longrightarrow> 2 * length (json_print v @ z # u) + 1 \<le> n \<longrightarrow>
     js_value n d (json_print v @ z # u) = Some (utf8_value v, z # u))"

lemma comma_sep_Cons: "comma_sep (x # xs) = x @ (if xs = [] then [] else CHR '','' # comma_sep xs)"
  by (cases xs) simp_all

lemma js_elems_print:
  assumes "vs \<noteq> []" "\<forall>v\<in>set vs. reads_back d v"
    and "2 * length (comma_sep (map json_print vs) @ CHR 0x5D # t) + 2 \<le> n"
  shows "js_elems n d (comma_sep (map json_print vs) @ CHR 0x5D # t) = Some (map utf8_value vs, t)"
  using assms
proof (induction vs arbitrary: n)
  case (Cons v vs)
  from Cons.prems(3) obtain m where n: "n = Suc m" by (cases n) auto
  have rb: "js_value m d (json_print v @ z # u) = Some (utf8_value v, z # u)"
    if "js_sep z" "2 * length (json_print v @ z # u) + 1 \<le> m" for z u
    using Cons.prems(2) that by (simp add: reads_back_def)
  have sep: "js_sep (CHR 0x5D)" "js_sep (CHR '','')" by (simp_all add: js_sep_def)
  show ?case
  proof (cases "vs = []")
    case True
    then show ?thesis using Cons.prems(3) rb [OF sep(1), of t] by (simp add: n js_sep_simps(5) [OF sep(1)])
  next
    case False
    have "js_elems m d (comma_sep (map json_print vs) @ CHR 0x5D # t) = Some (map utf8_value vs, t)"
      using Cons.prems False by (intro Cons.IH) (auto simp: n comma_sep_Cons)
    then show ?thesis
      using Cons.prems(3) False rb [OF sep(2), of "comma_sep (map json_print vs) @ CHR 0x5D # t"]
      by (simp add: n comma_sep_Cons js_sep_simps(5) [OF sep(2)])
  qed
qed simp

abbreviation print_member :: "string \<times> json \<Rightarrow> string" where
  "print_member m \<equiv> json_quote (fst m) @ '':'' @ json_print (snd m)"

lemma js_members_print_any:
  assumes "ms \<noteq> []" "\<forall>m\<in>set ms. reads_back d (snd m)"
    and "2 * length (comma_sep (map print_member ms) @ CHR 0x7D # t) + 2 \<le> n"
  shows "js_members n d (comma_sep (map print_member ms) @ CHR 0x7D # t) =
    Some (map (\<lambda>m. (to_valid_utf8 (fst m), utf8_value (snd m))) ms, t)"
  using assms
proof (induction ms arbitrary: n)
  case (Cons m ms)
  from Cons.prems(3) obtain i where n: "n = Suc i" by (cases n) auto
  have rb: "js_value i d (json_print (snd m) @ z # u) = Some (utf8_value (snd m), z # u)"
    if "js_sep z" "2 * length (json_print (snd m) @ z # u) + 1 \<le> i" for z u
    using Cons.prems(2) that by (simp add: reads_back_def)
  have key: "js_str (json_escape (fst m) @ CHR 0x22 # u) = Some (to_valid_utf8 (fst m), u)" for u
    using js_str_escape [of "fst m" "CHR 0x22 # u"] by (simp add: cons_str_def)
  have ws: "skip_ws (CHR 0x22 # u) = CHR 0x22 # u" "skip_ws (CHR '':'' # u) = CHR '':'' # u" for u
    by (simp_all add: skip_ws_def json_ws_def)
  have sep: "js_sep (CHR 0x7D)" "js_sep (CHR '','')" by (simp_all add: js_sep_def)
  show ?case
  proof (cases "ms = []")
    case True
    then show ?thesis
      using Cons.prems(3) rb [OF sep(1), of t]
      by (simp add: n json_quote_def key ws js_sep_simps(5) [OF sep(1)])
  next
    case False
    have "js_members i d (comma_sep (map print_member ms) @ CHR 0x7D # t) =
        Some (map (\<lambda>m. (to_valid_utf8 (fst m), utf8_value (snd m))) ms, t)"
      using Cons.prems False by (intro Cons.IH) (auto simp: n comma_sep_Cons json_quote_def)
    then show ?thesis
      using Cons.prems(3) False rb [OF sep(2), of "comma_sep (map print_member ms) @ CHR 0x7D # t"]
      by (simp add: n comma_sep_Cons json_quote_def key ws js_sep_simps(5) [OF sep(2)])
  qed
qed simp

lemma comma_sep_head: "x = c # w \<Longrightarrow> \<exists>w'. comma_sep (x # xs) = c # w'"
  by (cases xs) auto

lemma reads_back_printable: "printable d v \<Longrightarrow> reads_back d v"
proof (induction v arbitrary: d)
  case (JNum s)
  then obtain t where t: "float_text t = Some s" by auto
  obtain c w where s: "s = c # w" "is_digit c \<or> c = CHR ''-''" using float_text_head [OF t] by blast
  have c: "\<not> json_ws c" "c \<noteq> CHR 0x7B" "c \<noteq> CHR 0x5B" "c \<noteq> CHR 0x22" "c \<noteq> CHR ''t''" "c \<noteq> CHR ''f''" "c \<noteq> CHR ''n''"
    using s(2) by (auto simp: is_digit_def json_ws_def)
  have "js_value (Suc n) d (s @ u) = map_option (\<lambda>(t, u). (JNum t, u)) (js_number (s @ u))" for n u
    using c by (simp add: s(1) skip_ws_head has_prefix_def)
  show ?case unfolding reads_back_def
  proof (intro allI impI)
    fix n z u assume z: "js_sep z" and n: "2 * length (json_print (JNum s) @ z # u) + 1 \<le> n"
    obtain m where m: "n = Suc m" using n by (cases n) auto
    show "js_value n d (json_print (JNum s) @ z # u) = Some (utf8_value (JNum s), z # u)"
      using float_text_number [OF t z, of u] \<open>\<And>n u. js_value (Suc n) d (s @ u) = _\<close> by (simp only: m) simp
  qed
next
  case (JArr vs)
  show ?case unfolding reads_back_def
  proof (intro allI impI)
    fix n z u assume z: "js_sep z" and n: "2 * length (json_print (JArr vs) @ z # u) + 1 \<le> n"
    obtain m where m: "n = Suc m" using n by (cases n) auto
    have d: "0 < d" "\<forall>v\<in>set vs. reads_back (d - 1) v" using JArr by (auto simp: list_all_iff)
    have ws: "skip_ws (CHR 0x5B # u) = CHR 0x5B # u" "skip_ws (CHR 0x5D # u) = CHR 0x5D # u" for u
      by (simp_all add: skip_ws_def json_ws_def)
    show "js_value n d (json_print (JArr vs) @ z # u) = Some (utf8_value (JArr vs), z # u)"
    proof (cases vs)
      case Nil
      then show ?thesis using d by (simp add: m ws has_prefix_def)
    next
      case (Cons v vs')
      obtain c w where c: "json_print v = c # w" "\<not> json_ws c" "c \<noteq> CHR 0x5D"
        using json_print_head [of "d - 1" v] JArr.prems Cons by (auto simp: list_all_iff)
      obtain w' where w': "comma_sep (map json_print vs) = c # w'"
        using comma_sep_head [OF c(1)] Cons by auto
      have "\<not> has_prefix (skip_ws (comma_sep (map json_print vs) @ CHR 0x5D # z # u)) [CHR 0x5D]"
        using c w' by (simp add: skip_ws_head has_prefix_def)
      moreover have "js_elems m (d - 1) (comma_sep (map json_print vs) @ CHR 0x5D # z # u) = Some (map utf8_value vs, z # u)"
        using n d Cons by (intro js_elems_print) (auto simp: m)
      ultimately show ?thesis using d by (simp add: m ws)
    qed
  qed
next
  case (JObj ms)
  show ?case unfolding reads_back_def
  proof (intro allI impI)
    fix n z u assume z: "js_sep z" and n: "2 * length (json_print (JObj ms) @ z # u) + 1 \<le> n"
    obtain i where i: "n = Suc i" using n by (cases n) auto
    have d: "0 < d" "\<forall>m\<in>set ms. reads_back (d - 1) (snd m)"
      using JObj by (fastforce simp: list_all_iff snds.simps)+
    have ws: "skip_ws (CHR 0x7B # u) = CHR 0x7B # u" "skip_ws (CHR 0x7D # u) = CHR 0x7D # u" for u
      by (simp_all add: skip_ws_def json_ws_def)
    show "js_value n d (json_print (JObj ms) @ z # u) = Some (utf8_value (JObj ms), z # u)"
    proof (cases ms)
      case Nil
      then show ?thesis using d by (simp add: i ws has_prefix_def)
    next
      case (Cons m ms')
      obtain w' where w': "comma_sep (map print_member ms) = CHR 0x22 # w'"
        using comma_sep_head [of "print_member m" "CHR 0x22"] Cons by (auto simp: json_quote_def)
      have "\<not> has_prefix (skip_ws (comma_sep (map print_member ms) @ CHR 0x7D # z # u)) [CHR 0x7D]"
        using w' by (simp add: skip_ws_def json_ws_def has_prefix_def)
      moreover have "js_members i (d - 1) (comma_sep (map print_member ms) @ CHR 0x7D # z # u) =
          Some (map (\<lambda>m. (to_valid_utf8 (fst m), utf8_value (snd m))) ms, z # u)"
        using n d Cons by (intro js_members_print_any) (auto simp: i)
      ultimately show ?thesis using d by (simp add: i ws)
    qed
  qed
next
  case (JStr s)
  have "js_str (json_escape s @ CHR 0x22 # u) = Some (to_valid_utf8 s, u)" for u
    using js_str_escape [of s "CHR 0x22 # u"] by (simp add: cons_str_def)
  then show ?case by (auto simp: reads_back_def json_quote_def skip_ws_def json_ws_def dest!: Suc_le_D)
next
  case (JBool b)
  show ?case unfolding reads_back_def
  proof (intro allI impI)
    fix n z u assume "2 * length (json_print (JBool b) @ z # u) + 1 \<le> n"
    then obtain m where m: "n = Suc m" by (cases n) auto
    show "js_value n d (json_print (JBool b) @ z # u) = Some (utf8_value (JBool b), z # u)"
      by (cases b) (simp_all add: m skip_ws_def json_ws_def has_prefix_def)
  qed
qed (auto simp: reads_back_def skip_ws_def json_ws_def has_prefix_def dest!: Suc_le_D)

lemma js_value_object:
  "0 < d \<Longrightarrow> \<not> has_prefix (skip_ws w) [CHR 0x7D] \<Longrightarrow>
    js_value (Suc k) d (CHR 0x7B # w) = map_option (\<lambda>(ms, t). (JObj ms, t)) (js_members k (d - 1) w)"
  by (simp add: skip_ws_head json_ws_def)

lemma json_parse_print:
  assumes "printable max_nesting (JObj ms)"
  shows "json_parse (json_print (JObj ms)) = Some (utf8_value (JObj ms))"
proof -
  let ?s = "json_print (JObj ms)"
  let ?n = "2 * length ?s + 5"
  have d: "0 < max_nesting" "\<forall>m\<in>set ms. reads_back (max_nesting - 1) (snd m)"
    using assms reads_back_printable by (auto simp: list_all_iff)
  have v: "js_value (Suc ?n) max_nesting ?s = Some (utf8_value (JObj ms), [])"
  proof (cases ms)
    case Nil
    have "skip_ws ''{}'' = ''{}''" "skip_ws ''}'' = ''}''" by (simp_all add: skip_ws_def json_ws_def)
    then have "js_value (Suc k) max_nesting ''{}'' = Some (JObj [], [])" for k
      using d by (simp add: has_prefix_def)
    from this [of ?n] Nil show ?thesis by simp
  next
    case (Cons m ms')
    obtain w where w: "comma_sep (map print_member ms) = CHR 0x22 # w"
      using comma_sep_head [of "print_member m" "CHR 0x22"] Cons by (auto simp: json_quote_def)
    have "\<not> has_prefix (skip_ws (comma_sep (map print_member ms) @ CHR 0x7D # [])) [CHR 0x7D]"
      using w by (simp add: skip_ws_def json_ws_def has_prefix_def)
    moreover have "js_members ?n (max_nesting - 1) (comma_sep (map print_member ms) @ CHR 0x7D # []) =
        Some (map (\<lambda>m. (to_valid_utf8 (fst m), utf8_value (snd m))) ms, [])"
      using d Cons by (intro js_members_print_any) simp_all
    ultimately show ?thesis using js_value_object [OF d(1), of _ ?n] by simp
  qed
  have "js_value (2 * length ?s + 2) max_nesting ?s = js_value (Suc ?n) max_nesting ?s"
    by (rule js_fuel) simp_all
  then show ?thesis by (simp only: json_parse_def v) (simp add: skip_ws_def)
qed

section \<open>What was parsed can be printed\<close>

fun nested :: "int \<Rightarrow> json \<Rightarrow> bool" where
  "nested d (JArr vs) = (0 < d \<and> list_all (nested (d - 1)) vs)"
| "nested d (JObj ms) = (0 < d \<and> list_all (\<lambda>m. nested (d - 1) (snd m)) ms)"
| "nested d _ = True"

lemma js_value_nested:
  "js_value n d s = Some (v, r) \<Longrightarrow> nested d v"
  "js_elems n d s = Some (vs, r) \<Longrightarrow> list_all (nested d) vs"
  "js_members n d s = Some (ms, r) \<Longrightarrow> list_all (\<lambda>m. nested d (snd m)) ms"
proof (induction n d s and n d s and n d s arbitrary: v r and vs r and ms r
    rule: js_value_js_elems_js_members.induct)
  case (2 n d s0)
  then show ?case by (auto split: list.splits if_splits)
next
  case (4 n d s)
  then show ?case by (fastforce split: option.splits list.splits if_splits prod.splits)
next
  case (6 n d s)
  then show ?case by (fastforce split: option.splits list.splits if_splits prod.splits)
qed simp_all

lemma map_of_go_map: "map_of (go_map ms) = map_of (rev ms)"
proof -
  have "map_of (sort_key fst xs) = map_of xs" if "distinct (map fst xs)" for xs :: "(string \<times> 'a) list"
    using that by (intro map_of_inject_set [THEN iffD2]) (auto simp: distinct_map)
  then show ?thesis by (simp add: go_map_def map_of_clearjunk)
qed

lemma distinct_go_map: "distinct (map fst (go_map ms))"
  using distinct_clearjunk [of "rev ms"] by (simp add: go_map_def distinct_map)

lemma set_go_map: "set (go_map ms) \<subseteq> set ms"
proof
  fix x assume "x \<in> set (go_map ms)"
  then have "map_of (rev ms) (fst x) = Some (snd x)"
    using distinct_go_map map_of_go_map by (metis map_of_is_SomeI prod.collapse)
  then show "x \<in> set ms" using map_of_SomeD by fastforce
qed

lemma those_map_all:
  "those (map f xs) = Some ys \<Longrightarrow> \<forall>x\<in>set xs. \<forall>y. f x = Some y \<longrightarrow> P y \<Longrightarrow> list_all P ys"
  by (induction xs arbitrary: ys) (auto split: option.splits)

lemma any_value_printable: "any_value v = Some w \<Longrightarrow> nested d v \<Longrightarrow> printable d w"
proof (induction v arbitrary: w d rule: any_value.induct)
  case (2 vs)
  then obtain ws where ws: "those (map any_value vs) = Some ws" "w = JArr ws" by auto
  then show ?case using those_map_all [OF ws(1), of "printable (d - 1)"] 2 by (auto simp: list_all_iff)
next
  case (3 ms)
  then obtain ws where ws: "those (map (\<lambda>m. any_value (snd m)) ms) = Some ws" "w = JObj (go_map (zip (map fst ms) ws))"
    by auto
  have "list_all (printable (d - 1)) ws"
    using those_map_all [OF ws(1), of "printable (d - 1)"] 3 by (fastforce simp: list_all_iff)
  then have "\<forall>m\<in>set (go_map (zip (map fst ms) ws)). printable (d - 1) (snd m)"
    using set_go_map by (fastforce simp: list_all_iff dest: set_zip_rightD)
  then show ?case using 3(3) ws by (simp add: list_all_iff)
qed auto

lemma unmarshal_map_printable:
  assumes "unmarshal_map s = Some m"
  shows "printable max_nesting (JObj m)"
proof -
  consider "m = []" | ms where "json_parse s = Some (JObj ms)" "any_value (JObj ms) = Some (JObj m)"
    using assms by (auto simp: unmarshal_map_def split: option.splits json.splits simp del: any_value.simps)
  then show ?thesis
  proof cases
    case 2
    then have "nested max_nesting (JObj ms)"
      by (auto simp: json_parse_def dest!: js_value_nested split: option.splits if_splits simp del: js_value.simps)
    then show ?thesis using any_value_printable 2 by blast
  qed (simp add: max_nesting_def)
qed

lemma map_put_printable: "printable d (JObj m) \<Longrightarrow> printable (d - 1) v \<Longrightarrow> printable d (JObj (map_put k v m))"
  using set_go_map [of "m @ [(k, v)]"] by (auto simp: map_put_def list_all_iff)

section \<open>Looking a member up in the printed object\<close>

text \<open>\<open>value ->> 'k'\<close> on the canonical text of a \<open>jsonb\<close> value.\<close>

fun spaced_sep :: "string list \<Rightarrow> string" where
  "spaced_sep [] = []"
| "spaced_sep [x] = x"
| "spaced_sep (x # y # xs) = x @ '', '' @ spaced_sep (y # xs)"

fun jsonb_print :: "json \<Rightarrow> string" where
  "jsonb_print (JArr vs) = ''['' @ spaced_sep (map jsonb_print vs) @ '']''"
| "jsonb_print (JObj ms) =
    ''{'' @ spaced_sep (map (\<lambda>m. json_quote (fst m) @ '': '' @ jsonb_print (snd m)) ms) @ ''}''"
| "jsonb_print v = json_atom v"

definition jsonb_member :: "string \<Rightarrow> string \<Rightarrow> string option" where
  "jsonb_member k s =
    (case json_parse s of
       Some (JObj ms) \<Rightarrow>
         (case map_of (rev ms) k of
            None \<Rightarrow> None
          | Some JNull \<Rightarrow> None
          | Some (JStr t) \<Rightarrow> Some t
          | Some v \<Rightarrow> Some (jsonb_print v))
     | _ \<Rightarrow> None)"

lemma to_valid_utf8_ascii_iff:
  assumes "\<forall>c\<in>set t. byte c < 128"
  shows "to_valid_utf8 s = t \<longleftrightarrow> s = t"
proof
  assume eq: "to_valid_utf8 s = t"
  let ?f = "\<lambda>r. if 128 \<le> byte (hd r) \<and> length r \<le> 1 then rune_error else r"
  have "?f r = r" if "r \<in> set (runes s)" for r
  proof -
    have "set (?f r) \<subseteq> set t" using that unfolding eq [symmetric] to_valid_utf8_def set_concat set_map by blast
    then have "\<forall>c\<in>set (?f r). byte c < 128" using assms by blast
    then show ?thesis by (auto simp: rune_error_def split: if_splits)
  qed
  then have "map ?f (runes s) = runes s" by (simp add: map_idI)
  then show "s = t" using eq concat_runes [of s] by (simp add: to_valid_utf8_def)
next
  assume "s = t"
  then show "to_valid_utf8 s = t" using valid_utf8_ascii [OF assms] to_valid_utf8_id by simp
qed

lemma jsonb_member_put:
  assumes "printable max_nesting (JObj m)" "\<forall>c\<in>set k. byte c < 128"
  shows "jsonb_member k (json_print (JObj (map_put k (JStr v) m))) = Some (to_valid_utf8 v)"
proof -
  let ?m = "map_put k (JStr v) m"
  let ?ms = "map (\<lambda>m. (to_valid_utf8 (fst m), utf8_value (snd m))) ?m"
  have p: "printable max_nesting (JObj ?m)" by (rule map_put_printable [OF assms(1)]) simp
  have k: "to_valid_utf8 x = k \<longleftrightarrow> x = k" for x by (rule to_valid_utf8_ascii_iff [OF assms(2)])
  have dist: "distinct (map fst ?m)" by (simp add: map_put_def distinct_go_map)
  have mem: "(k, JStr v) \<in> set ?m"
    using map_of_go_map [of "m @ [(k, JStr v)]"] by (auto simp: map_put_def intro: map_of_SomeD)
  have "(k, JStr (to_valid_utf8 v)) \<in> set (rev ?ms)" using mem k by force
  then obtain w where w: "map_of (rev ?ms) k = Some w" by (metis map_of_eq_None_iff option.exhaust fst_conv image_eqI)
  then have "(k, w) \<in> set ?ms" using map_of_SomeD by fastforce
  then obtain y x where "(y, x) \<in> set ?m" "k = to_valid_utf8 y" "w = utf8_value x" by auto
  with k [of y] have "(k, x) \<in> set ?m" "w = utf8_value x" by simp_all
  moreover have "x = JStr v" using calculation(1) mem dist by (meson eq_key_imp_eq_value)
  ultimately show ?thesis using w json_parse_print [OF p] by (simp add: jsonb_member_def)
qed

end
