(* ===== verification/Msg_Domain.thy ===== *)
theory Msg_Domain
  imports Go_Marshal Go_Time Shared
begin

text \<open>
  The data of the messages module (\<open>messages/domain/model.go\<close>, inputs, parameters and DTOs of
  \<open>messages/application/service.go\<close>) and the pure part of the service. An input whose fields are those
  of the repository parameters shares their record.
\<close>

section \<open>Messages\<close>

definition err_message_not_found :: go_error where "err_message_not_found = Sentinel ''ErrMessageNotFound''"
definition err_msg_channel_not_found :: go_error where "err_msg_channel_not_found = Sentinel ''ErrChannelNotFound''"
definition err_mention_not_found :: go_error where "err_mention_not_found = Sentinel ''ErrMentionNotFound''"
definition err_reaction_not_found :: go_error where "err_reaction_not_found = Sentinel ''ErrReactionNotFound''"
definition err_pin_not_found :: go_error where "err_pin_not_found = Sentinel ''ErrPinNotFound''"

lemmas message_errors [go_defs] = err_message_not_found_def err_msg_channel_not_found_def err_mention_not_found_def
  err_reaction_not_found_def err_pin_not_found_def

record reaction_summary =
  ry_emoji :: string
  ry_count :: int
  ry_by_me :: bool

text \<open>A row of \<open>messages\<close>, and a message as the repository returns it.\<close>

record message_row =
  mg_id :: string
  mg_workspace_id :: string
  mg_channel_id :: string
  mg_sender_id :: "string option"
  mg_parent_id :: "string option"
  mg_thread_root_id :: "string option"
  mg_kind :: string
  mg_body :: string
  mg_metadata :: string
  mg_edited_at :: "time option"
  mg_deleted_at :: "time option"
  mg_created_at :: time
  mg_updated_at :: time

record message = message_row +
  mg_mentions :: "string list"
  mg_reactions :: "reaction_summary list"

section \<open>Inputs and parameters\<close>

record send_input =
  xi_actor :: string
  xi_workspace_id :: string
  xi_channel_id :: string
  xi_parent_id :: string
  xi_client_message_id :: string
  xi_kind :: string
  xi_body :: string
  xi_metadata :: string
  xi_mentioned :: "string list"

record send_params =
  xp_workspace_id :: string
  xp_channel_id :: string
  xp_sender_id :: string
  xp_parent_id :: string
  xp_client_message_id :: string
  xp_kind :: string
  xp_body :: string
  xp_metadata :: string
  xp_mentioned :: "string list"

record message_ref =
  xr_workspace_id :: string
  xr_channel_id :: string
  xr_message_id :: string
  xr_actor :: string

record message_list_params =
  xl_workspace_id :: string
  xl_channel_id :: string
  xl_actor :: string
  xl_limit :: int
  xl_before_id :: string

record thread_params =
  xt_workspace_id :: string
  xt_channel_id :: string
  xt_actor :: string
  xt_message_id :: string
  xt_limit :: int

record search_input =
  xs_actor :: string
  xs_workspace_id :: string
  xs_query :: string
  xs_channel_id :: string
  xs_sender_id :: string
  xs_kind :: string
  xs_date_from :: string
  xs_date_to :: string
  xs_limit :: int

record search_params =
  xq_workspace_id :: string
  xq_actor :: string
  xq_query :: string
  xq_channel_id :: string
  xq_sender_id :: string
  xq_kind :: string
  xq_date_from :: "time option"
  xq_date_to :: "time option"
  xq_limit :: int

record forward_params =
  xf_workspace_id :: string
  xf_source_channel_id :: string
  xf_message_id :: string
  xf_target_channel_id :: string
  xf_actor :: string

record message_update_params =
  xv_workspace_id :: string
  xv_channel_id :: string
  xv_message_id :: string
  xv_actor :: string
  xv_body :: string
  xv_mentioned :: "string list"

record message_update_input =
  xu_actor :: string
  xu_workspace_id :: string
  xu_channel_id :: string
  xu_message_id :: string
  xu_body :: string

record pins_params =
  xn_workspace_id :: string
  xn_channel_id :: string
  xn_actor :: string

record reaction_params =
  xa_workspace_id :: string
  xa_channel_id :: string
  xa_message_id :: string
  xa_actor :: string
  xa_emoji :: string

section \<open>DTOs\<close>

record reaction_dto =
  xe_emoji :: string
  xe_count :: int
  xe_by_me :: bool

record message_dto =
  xd_id :: string
  xd_workspace_id :: string
  xd_channel_id :: string
  xd_sender_id :: "string option"
  xd_parent_id :: "string option"
  xd_thread_root_id :: "string option"
  xd_kind :: string
  xd_body :: string
  xd_metadata :: string
  xd_edited_at :: "string option"
  xd_deleted_at :: "string option"
  xd_created_at :: string
  xd_updated_at :: string
  xd_mentions :: "string list"
  xd_reactions :: "reaction_dto list"

text \<open>A realtime event; its payload is the message under the key \<open>message\<close>.\<close>

record message_event =
  xm_type :: string
  xm_workspace_id :: string
  xm_channel_id :: string
  xm_message_id :: string
  xm_message :: message_dto

text \<open>\<open>shared/botauto\<close>.\<close>

record bot_input =
  bi_actor :: string
  bi_workspace_id :: string
  bi_channel_id :: string
  bi_message_id :: string
  bi_body :: string

record bot_message =
  bm_id :: string
  bm_workspace_id :: string
  bm_channel_id :: string
  bm_bot_id :: string
  bm_kind :: string
  bm_body :: string
  bm_metadata :: string
  bm_created_at :: string

text \<open>\<open>Format(time.RFC3339Nano)\<close> of a UTC time: the fraction without trailing zeros.\<close>

definition format_time_nano :: "time \<Rightarrow> string" where
  "format_time_nano t =
    (let ns = t mod ns_second
     in butlast (format_time t) @
        (if ns = 0 then [] else ''.'' @ rev (dropWhile (\<lambda>c. c = CHR ''0'') (rev (pad 9 ns)))) @ ''Z'')"

definition to_reaction_dto :: "reaction_summary \<Rightarrow> reaction_dto" where
  "to_reaction_dto r = \<lparr>xe_emoji = ry_emoji r, xe_count = ry_count r, xe_by_me = ry_by_me r\<rparr>"

definition to_message_dto :: "message \<Rightarrow> message_dto" where
  "to_message_dto m =
    \<lparr>xd_id = mg_id m, xd_workspace_id = mg_workspace_id m, xd_channel_id = mg_channel_id m,
     xd_sender_id = mg_sender_id m, xd_parent_id = mg_parent_id m, xd_thread_root_id = mg_thread_root_id m,
     xd_kind = mg_kind m, xd_body = mg_body m,
     xd_metadata = (if mg_metadata m = [] then ''{}'' else mg_metadata m),
     xd_edited_at = map_option format_time_nano (mg_edited_at m),
     xd_deleted_at = map_option format_time_nano (mg_deleted_at m),
     xd_created_at = format_time_nano (mg_created_at m), xd_updated_at = format_time_nano (mg_updated_at m),
     xd_mentions = mg_mentions m, xd_reactions = map to_reaction_dto (mg_reactions m)\<rparr>"

text \<open>The DTO a deletion or an unpinning publishes: only the identifiers are set.\<close>

definition bare_message_dto :: "string \<Rightarrow> string \<Rightarrow> string \<Rightarrow> message_dto" where
  "bare_message_dto i workspace channel =
    \<lparr>xd_id = i, xd_workspace_id = workspace, xd_channel_id = channel, xd_sender_id = None, xd_parent_id = None,
     xd_thread_root_id = None, xd_kind = [], xd_body = [], xd_metadata = [], xd_edited_at = None,
     xd_deleted_at = None, xd_created_at = [], xd_updated_at = [], xd_mentions = [], xd_reactions = []\<rparr>"

definition auto_bot_message_dto :: "time \<Rightarrow> bot_message \<Rightarrow> message_dto" where
  "auto_bot_message_dto now m =
    (let created = (if trim_space (bm_created_at m) = [] then format_time now else bm_created_at m);
         kind = (if trim_space (bm_kind m) = [] then ''bot'' else trim_space (bm_kind m))
     in (bare_message_dto (bm_id m) (bm_workspace_id m) (bm_channel_id m))
       \<lparr>xd_kind := kind, xd_body := bm_body m,
        xd_metadata := (if bm_metadata m = [] then ''{}'' else bm_metadata m),
        xd_created_at := created, xd_updated_at := created\<rparr>)"

section \<open>Normalisation\<close>

definition normalize_message_metadata :: "string \<Rightarrow> string result" where
  "normalize_message_metadata value =
    (if value = [] \<or> trim_space value = [] \<or> trim_space value = ''null'' then Inr ''{}''
     else if \<not> json_valid value
     then Inl (bad_request ''VALIDATION_ERROR'' ''Metadata cua tin nhan khong phai JSON hop le.'')
     else Inr value)"

definition normalize_client_message_id :: "string \<Rightarrow> string" where
  "normalize_client_message_id value =
    (let v = trim_space value in if 128 < length v then take 128 v else v)"

definition with_client_message_id :: "string \<Rightarrow> string \<Rightarrow> string result" where
  "with_client_message_id metadata client_id =
    (case (if metadata = [] then Some [] else unmarshal_map metadata) of
       None \<Rightarrow> Inl (bad_request ''VALIDATION_ERROR'' ''Metadata cua tin nhan khong phai JSON object hop le.'')
     | Some m \<Rightarrow> Inr (json_print (JObj (map_put ''client_message_id'' (JStr client_id) m))))"

definition is_hex :: "char \<Rightarrow> bool" where
  "is_hex c \<longleftrightarrow> hex_val c \<noteq> None"

text \<open>\<open>[0-9a-fA-F]{8}-[0-9a-fA-F]{4}-...\<close>, 36 bytes.\<close>

definition uuid_shape :: "string \<Rightarrow> bool" where
  "uuid_shape s \<longleftrightarrow> length s = 36 \<and>
     list_all (\<lambda>(i, c). if i \<in> {8, 13, 18, 23} then c = CHR ''-'' else is_hex c) (enumerate 0 s)"

definition is_uuid :: "string \<Rightarrow> bool" where
  "is_uuid s \<longleftrightarrow> uuid_shape (trim_space s)"

text \<open>\<open>mentionPattern.FindAllStringSubmatch\<close>: a match has 39 bytes, and the search goes on behind it.\<close>

function mentions_in :: "string \<Rightarrow> string list" where
  "mentions_in s =
    (if s = [] then []
     else if has_prefix s ''<@'' \<and> uuid_shape (take 36 (drop 2 s)) \<and> has_prefix (drop 38 s) ''>''
     then take 36 (drop 2 s) # mentions_in (drop 39 s)
     else mentions_in (tl s))"
  by pat_completeness auto
termination
  by (relation "measure length") (auto simp: has_prefix_def)

declare mentions_in.simps [simp del]

definition add_mention :: "string \<Rightarrow> string list \<Rightarrow> string list" where
  "add_mention i result = (let v = to_lower (trim_space i) in if v = [] \<or> v \<in> set result then result else result @ [v])"

definition normalize_mentions :: "string \<Rightarrow> string list \<Rightarrow> string list" where
  "normalize_mentions body ids = sort (fold add_mention (ids @ mentions_in body) [])"

definition clean_message_ref :: "message_ref \<Rightarrow> message_ref" where
  "clean_message_ref r =
    \<lparr>xr_workspace_id = trim_space (xr_workspace_id r), xr_channel_id = trim_space (xr_channel_id r),
     xr_message_id = trim_space (xr_message_id r), xr_actor = trim_space (xr_actor r)\<rparr>"

definition message_owned_by :: "message \<Rightarrow> string \<Rightarrow> bool" where
  "message_owned_by m user \<longleftrightarrow> mg_sender_id m = Some (trim_space user)"

definition valid_body :: "string \<Rightarrow> bool" where
  "valid_body body \<longleftrightarrow> body \<noteq> [] \<and> rune_count body \<le> 8000"

definition bad_body :: go_error where
  "bad_body = bad_request ''VALIDATION_ERROR'' ''Noi dung tin nhan phai dai tu 1 den 8000 ky tu.''"

definition map_message_error :: "go_error \<Rightarrow> go_error" where
  "map_message_error err =
    (if errors_is err ''ErrMessageNotFound'' then not_found ''MESSAGE_NOT_FOUND'' ''Khong tim thay tin nhan.''
     else if errors_is err ''ErrChannelNotFound''
     then not_found ''CHANNEL_NOT_FOUND'' ''Khong tim thay kenh hoac ban chua thuoc kenh.''
     else if errors_is err ''ErrMentionNotFound''
     then bad_request ''INVALID_MENTION'' ''Mot hoac nhieu user duoc nhac chua thuoc kenh.''
     else if errors_is err ''ErrPinNotFound'' then not_found ''MESSAGE_PIN_NOT_FOUND'' ''Khong tim thay tin ghim.''
     else if errors_is err ''ErrReactionNotFound'' then not_found ''REACTION_NOT_FOUND'' ''Khong tim thay reaction.''
     else err)"

text \<open>\<open>time.Parse("2006-01-02", value)\<close>.\<close>

definition parse_date :: "string \<Rightarrow> time option" where
  "parse_date s =
    (let y = digits_val (take 4 s); m = digits_val (take 2 (drop 5 s)); d = digits_val (drop 8 s)
     in if length s = 10 \<and> list_all (\<lambda>(i, c). if i \<in> {4, 7} then c = CHR ''-'' else is_digit c) (enumerate 0 s) \<and>
          1 \<le> m \<and> m \<le> 12 \<and> 1 \<le> d \<and> d \<le> month_lengths y ! nat (m - 1)
        then Some (date_midnight y m d) else None)"

definition parse_search_date :: "string \<Rightarrow> bool \<Rightarrow> time option result" where
  "parse_search_date value end_exclusive =
    (let v = trim_space value
     in if v = [] then Inr None
        else case parse_date v of
          None \<Rightarrow> Inl (bad_request ''VALIDATION_ERROR'' ''Ngay tim kiem phai co dinh dang YYYY-MM-DD.'')
        | Some t \<Rightarrow> Inr (Some (if end_exclusive then t + ns_day else t)))"

end
