(* ===== verification/Msg_Service.thy ===== *)
theory Msg_Service
  imports Msg_Domain Pg_Tx
begin

text \<open>
  \<open>messages/application/service.go\<close> over its \<open>Repository\<close> interface. The world holds the repository's
  state and the realtime events handed to the publisher, in order. The permission checker, the auto
  responders (functions that may change the repository's state: they store their own answers) and the two
  readings of the clock are parameters; a nil publisher is \<open>False\<close>. Logging is left out.
\<close>

record 's message_repo =
  mr_send :: "send_params \<Rightarrow> ('s, message) stmt"
  mr_get :: "message_ref \<Rightarrow> ('s, message) stmt"
  mr_list :: "message_list_params \<Rightarrow> ('s, message list) stmt"
  mr_list_thread :: "thread_params \<Rightarrow> ('s, message list) stmt"
  mr_search :: "search_params \<Rightarrow> ('s, message list) stmt"
  mr_forward :: "forward_params \<Rightarrow> ('s, message) stmt"
  mr_update :: "message_update_params \<Rightarrow> ('s, message) stmt"
  mr_delete :: "message_ref \<Rightarrow> ('s, unit) stmt"
  mr_list_pins :: "pins_params \<Rightarrow> ('s, message list) stmt"
  mr_pin :: "message_ref \<Rightarrow> ('s, message) stmt"
  mr_unpin :: "message_ref \<Rightarrow> ('s, unit) stmt"
  mr_add_reaction :: "reaction_params \<Rightarrow> ('s, message) stmt"
  mr_remove_reaction :: "reaction_params \<Rightarrow> ('s, message) stmt"

record 's message_service =
  mv_repo :: "'s message_repo"
  mv_checker :: "string \<Rightarrow> string \<Rightarrow> string \<Rightarrow> bool result"
  mv_realtime :: bool
  mv_responders :: "(bot_input \<Rightarrow> ('s, bot_message list) stmt) option list"

record 's message_world =
  mw_store :: 's
  mw_events :: "message_event list"

text \<open>\<open>time.Now()\<close> before the message is stored, and when a bot message without a time is published.\<close>

record message_env =
  mx_started_at :: time
  mx_now :: time

definition in_store :: "('s, 'a) stmt \<Rightarrow> ('s message_world, 'a) stmt" where
  "in_store f w = (case f (mw_store w) of (st, r) \<Rightarrow> (w\<lparr>mw_store := st\<rparr>, r))"

definition ensure_permission :: "'s message_service \<Rightarrow> string \<Rightarrow> string \<Rightarrow> string \<Rightarrow> go_error option" where
  "ensure_permission s user workspace permission =
    (case mv_checker s (trim_space user) (trim_space workspace) permission of
       Inl e \<Rightarrow> Some e
     | Inr allowed \<Rightarrow> if allowed then None else Some (forbidden ''Ban khong co quyen thuc hien thao tac nay.''))"

definition publish_message :: "'s message_service \<Rightarrow> string \<Rightarrow> message_dto \<Rightarrow> 's message_world \<Rightarrow> 's message_world" where
  "publish_message s ty d w =
    (if \<not> mv_realtime s then w
     else w\<lparr>mw_events := mw_events w @
       [\<lparr>xm_type = ty, xm_workspace_id = xd_workspace_id d, xm_channel_id = xd_channel_id d,
         xm_message_id = xd_id d, xm_message = d\<rparr>]\<rparr>)"

text \<open>Store, then publish the DTO of the stored message.\<close>

definition publishing :: "'s message_service \<Rightarrow> string \<Rightarrow> ('s, message) stmt \<Rightarrow> ('s message_world, message_dto) stmt" where
  "publishing s ty f =
    tx_bind (tx_map_error map_message_error (in_store f)) (\<lambda>m w.
    (publish_message s ty (to_message_dto m) w, Inr (to_message_dto m)))"

section \<open>Send\<close>

fun publish_bot_messages :: "'s message_service \<Rightarrow> time \<Rightarrow> bot_message list \<Rightarrow> 's message_world \<Rightarrow> 's message_world" where
  "publish_bot_messages s now [] w = w"
| "publish_bot_messages s now (m # ms) w =
    publish_bot_messages s now ms (publish_message s ''MessageCreated'' (auto_bot_message_dto now m) w)"

fun run_auto_responders ::
    "'s message_service \<Rightarrow> time \<Rightarrow> (bot_input \<Rightarrow> ('s, bot_message list) stmt) option list \<Rightarrow> bot_input \<Rightarrow>
     's message_world \<Rightarrow> 's message_world" where
  "run_auto_responders s now [] input w = w"
| "run_auto_responders s now (None # rs) input w = run_auto_responders s now rs input w"
| "run_auto_responders s now (Some handle # rs) input w =
    (case in_store (handle input) w of
       (w1, Inl e) \<Rightarrow> run_auto_responders s now rs input w1
     | (w1, Inr ms) \<Rightarrow> run_auto_responders s now rs input (publish_bot_messages s now ms w1))"

text \<open>The checks of \<open>Send\<close> and the parameters it passes on.\<close>

definition send_kind :: "string \<Rightarrow> string" where
  "send_kind kind = (if trim_space kind = [] then ''text'' else trim_space kind)"

definition send_metadata :: "string \<Rightarrow> string \<Rightarrow> string result" where
  "send_metadata value client_id =
    result_bind (normalize_message_metadata value) (\<lambda>md.
      if client_id \<noteq> [] then with_client_message_id md client_id else Inr md)"

definition send_params_of :: "send_input \<Rightarrow> send_params result" where
  "send_params_of i =
    (let kind = send_kind (xi_kind i); body = trim_space (xi_body i);
         client_id = normalize_client_message_id (xi_client_message_id i)
     in if kind \<noteq> ''text'' \<and> kind \<noteq> ''file'' \<and> kind \<noteq> ''event''
        then Inl (bad_request ''VALIDATION_ERROR'' ''Loai tin nhan chi duoc la text hoac file/media.'')
        else if \<not> valid_body body then Inl bad_body
        else map_sum id (\<lambda>md.
          \<lparr>xp_workspace_id = trim_space (xi_workspace_id i), xp_channel_id = trim_space (xi_channel_id i),
           xp_sender_id = trim_space (xi_actor i), xp_parent_id = trim_space (xi_parent_id i),
           xp_client_message_id = client_id, xp_kind = kind, xp_body = body, xp_metadata = md,
           xp_mentioned = normalize_mentions body (xi_mentioned i)\<rparr>)
          (send_metadata (xi_metadata i) client_id))"

text \<open>A retry answers with the stored message but publishes nothing.\<close>

definition duplicate_retry :: "message_env \<Rightarrow> send_params \<Rightarrow> message \<Rightarrow> bool" where
  "duplicate_retry x p m \<longleftrightarrow> xp_client_message_id p \<noteq> [] \<and> mg_created_at m < mx_started_at x"

definition announce_sent :: "'s message_service \<Rightarrow> message_env \<Rightarrow> send_params \<Rightarrow> message \<Rightarrow> 's message_world \<Rightarrow> 's message_world" where
  "announce_sent s x p m w =
    (let d = to_message_dto m; w1 = publish_message s ''MessageCreated'' d w
     in if xp_kind p = ''text''
        then run_auto_responders s (mx_now x) (mv_responders s)
          \<lparr>bi_actor = xp_sender_id p, bi_workspace_id = xd_workspace_id d, bi_channel_id = xd_channel_id d,
           bi_message_id = xd_id d, bi_body = xp_body p\<rparr> w1
        else w1)"

definition message_send :: "'s message_service \<Rightarrow> message_env \<Rightarrow> send_input \<Rightarrow> ('s message_world, message_dto) stmt" where
  "message_send s x i =
    checked (ensure_permission s (xi_actor i) (xi_workspace_id i) ''message.send'')
    (tx_bind (tx_lift (send_params_of i)) (\<lambda>p.
     tx_bind (tx_map_error map_message_error (in_store (mr_send (mv_repo s) p))) (\<lambda>m w.
     (if duplicate_retry x p m then w else announce_sent s x p m w, Inr (to_message_dto m)))))"

section \<open>Reading\<close>

definition message_get :: "'s message_service \<Rightarrow> message_ref \<Rightarrow> ('s message_world, message_dto) stmt" where
  "message_get s r =
    tx_bind (tx_map_error map_message_error (in_store (mr_get (mv_repo s) (clean_message_ref r)))) (\<lambda>m.
    tx_return (to_message_dto m))"

text \<open>One row more than the page is read to see whether there is a next one.\<close>

definition cut_page :: "int \<Rightarrow> message list \<Rightarrow> message list" where
  "cut_page limit ms = (if limit < int (length ms) then take (nat limit) ms else ms)"

definition page_info :: "bool \<Rightarrow> string \<Rightarrow> page_meta" where
  "page_info further next = \<lparr>pm_next_cursor = next, pm_prev_cursor = [], pm_has_more = further\<rparr>"

definition message_list :: "'s message_service \<Rightarrow> message_list_params \<Rightarrow> ('s message_world, message_dto list \<times> page_meta) stmt" where
  "message_list s p =
    checked (ensure_permission s (xl_actor p) (xl_workspace_id p) ''message.send'')
    (let limit = normalize_limit (xl_limit p) in
     tx_bind (tx_map_error map_message_error (in_store (mr_list (mv_repo s)
       \<lparr>xl_workspace_id = trim_space (xl_workspace_id p), xl_channel_id = trim_space (xl_channel_id p),
        xl_actor = trim_space (xl_actor p), xl_limit = limit + 1, xl_before_id = trim_space (xl_before_id p)\<rparr>))) (\<lambda>ms.
     let further = limit < int (length ms); page = cut_page limit ms
     in tx_return (map to_message_dto page,
       page_info further (if further \<and> page \<noteq> [] then mg_id (last page) else []))))"

definition message_list_thread :: "'s message_service \<Rightarrow> thread_params \<Rightarrow> ('s message_world, message_dto list \<times> page_meta) stmt" where
  "message_list_thread s p =
    checked (ensure_permission s (xt_actor p) (xt_workspace_id p) ''message.send'')
    (let limit = normalize_limit (xt_limit p) in
     tx_bind (tx_map_error map_message_error (in_store (mr_list_thread (mv_repo s)
       \<lparr>xt_workspace_id = trim_space (xt_workspace_id p), xt_channel_id = trim_space (xt_channel_id p),
        xt_actor = trim_space (xt_actor p), xt_message_id = trim_space (xt_message_id p), xt_limit = limit + 1\<rparr>))) (\<lambda>ms.
     tx_return (map to_message_dto (cut_page limit ms), page_info (limit < int (length ms)) [])))"

definition search_kinds :: "string list" where
  "search_kinds = [[], ''text'', ''file'', ''system'', ''bot'', ''event'']"

definition search_params_of :: "search_input \<Rightarrow> search_params result" where
  "search_params_of i =
    (let kind = to_lower (trim_space (xs_kind i))
     in if trim_space (xs_query i) = []
        then Inl (bad_request ''VALIDATION_ERROR'' ''Tu khoa tim kiem khong duoc de trong.'')
        else if kind \<notin> set search_kinds
        then Inl (bad_request ''VALIDATION_ERROR'' ''Loai noi dung tim kiem khong hop le.'')
        else result_bind (parse_search_date (xs_date_from i) False) (\<lambda>date_from.
          result_bind (parse_search_date (xs_date_to i) True) (\<lambda>date_to.
          if (case (date_from, date_to) of (Some a, Some b) \<Rightarrow> \<not> a < b | _ \<Rightarrow> False)
          then Inl (bad_request ''VALIDATION_ERROR'' ''Khoang ngay tim kiem khong hop le.'')
          else Inr \<lparr>xq_workspace_id = trim_space (xs_workspace_id i), xq_actor = trim_space (xs_actor i),
            xq_query = trim_space (xs_query i), xq_channel_id = trim_space (xs_channel_id i),
            xq_sender_id = trim_space (xs_sender_id i), xq_kind = kind, xq_date_from = date_from,
            xq_date_to = date_to, xq_limit = normalize_limit (xs_limit i) + 1\<rparr>)))"

definition message_search :: "'s message_service \<Rightarrow> search_input \<Rightarrow> ('s message_world, message_dto list \<times> page_meta) stmt" where
  "message_search s i =
    checked (ensure_permission s (xs_actor i) (xs_workspace_id i) ''message.send'')
    (tx_bind (tx_lift (search_params_of i)) (\<lambda>p.
     tx_bind (tx_map_error map_message_error (in_store (mr_search (mv_repo s) p))) (\<lambda>ms.
     let limit = normalize_limit (xs_limit i)
     in tx_return (map to_message_dto (cut_page limit ms), page_info (limit < int (length ms)) []))))"

section \<open>Changing\<close>

definition message_forward :: "'s message_service \<Rightarrow> forward_params \<Rightarrow> ('s message_world, message_dto) stmt" where
  "message_forward s p =
    checked (ensure_permission s (xf_actor p) (xf_workspace_id p) ''message.send'')
    (let q = \<lparr>xf_workspace_id = trim_space (xf_workspace_id p), xf_source_channel_id = trim_space (xf_source_channel_id p),
           xf_message_id = trim_space (xf_message_id p), xf_target_channel_id = trim_space (xf_target_channel_id p),
           xf_actor = trim_space (xf_actor p)\<rparr>
     in if xf_target_channel_id q = []
        then tx_fail (bad_request ''VALIDATION_ERROR'' ''Ban can chon kenh nhan tin nhan chuyen tiep.'')
        else publishing s ''MessageCreated'' (mr_forward (mv_repo s) q))"

definition message_update :: "'s message_service \<Rightarrow> message_update_input \<Rightarrow> ('s message_world, message_dto) stmt" where
  "message_update s i =
    (let r = clean_message_ref \<lparr>xr_workspace_id = xu_workspace_id i, xr_channel_id = xu_channel_id i,
           xr_message_id = xu_message_id i, xr_actor = xu_actor i\<rparr>;
         body = trim_space (xu_body i)
     in tx_bind (tx_map_error map_message_error (in_store (mr_get (mv_repo s) r))) (\<lambda>m.
        if \<not> message_owned_by m (xr_actor r)
        then tx_fail (forbidden ''Ban chi co the sua tin nhan cua chinh minh.'')
        else if \<not> valid_body body then tx_fail bad_body
        else publishing s ''MessageUpdated'' (mr_update (mv_repo s)
          \<lparr>xv_workspace_id = xr_workspace_id r, xv_channel_id = xr_channel_id r, xv_message_id = xr_message_id r,
           xv_actor = xr_actor r, xv_body = body, xv_mentioned = normalize_mentions body []\<rparr>)))"

text \<open>Publishing an event that names a message and nothing else.\<close>

definition publishing_bare :: "'s message_service \<Rightarrow> string \<Rightarrow> message_ref \<Rightarrow> ('s, unit) stmt \<Rightarrow> ('s message_world, unit) stmt" where
  "publishing_bare s ty r f =
    tx_bind (tx_map_error map_message_error (in_store f)) (\<lambda>_ w.
    (publish_message s ty (bare_message_dto (xr_message_id r) (xr_workspace_id r) (xr_channel_id r)) w, Inr ()))"

definition message_delete :: "'s message_service \<Rightarrow> message_ref \<Rightarrow> ('s message_world, unit) stmt" where
  "message_delete s i =
    (let r = clean_message_ref i
     in if \<not> (is_uuid (xr_workspace_id r) \<and> is_uuid (xr_channel_id r) \<and> is_uuid (xr_message_id r) \<and> is_uuid (xr_actor r))
        then tx_fail (bad_request ''VALIDATION_ERROR'' ''Ma dinh danh tin nhan khong hop le.'')
        else tx_bind (tx_map_error map_message_error (in_store (mr_get (mv_repo s) r))) (\<lambda>m.
          checked (if message_owned_by m (xr_actor r) then None
                   else ensure_permission s (xr_actor i) (xr_workspace_id i) ''message.manage'')
          (publishing_bare s ''MessageDeleted'' r (mr_delete (mv_repo s) r))))"

definition message_list_pins :: "'s message_service \<Rightarrow> pins_params \<Rightarrow> ('s message_world, message_dto list) stmt" where
  "message_list_pins s p =
    checked (ensure_permission s (xn_actor p) (xn_workspace_id p) ''message.send'')
    (tx_bind (tx_map_error map_message_error (in_store (mr_list_pins (mv_repo s)
       \<lparr>xn_workspace_id = trim_space (xn_workspace_id p), xn_channel_id = trim_space (xn_channel_id p),
        xn_actor = trim_space (xn_actor p)\<rparr>))) (\<lambda>ms.
     tx_return (map to_message_dto ms)))"

definition message_pin :: "'s message_service \<Rightarrow> message_ref \<Rightarrow> ('s message_world, message_dto) stmt" where
  "message_pin s i =
    checked (ensure_permission s (xr_actor i) (xr_workspace_id i) ''message.send'')
    (publishing s ''MessagePinned'' (mr_pin (mv_repo s) (clean_message_ref i)))"

definition message_unpin :: "'s message_service \<Rightarrow> message_ref \<Rightarrow> ('s message_world, unit) stmt" where
  "message_unpin s i =
    checked (ensure_permission s (xr_actor i) (xr_workspace_id i) ''message.send'')
    (publishing_bare s ''MessageUnpinned'' (clean_message_ref i) (mr_unpin (mv_repo s) (clean_message_ref i)))"

definition validate_reaction :: "'s message_service \<Rightarrow> reaction_params \<Rightarrow> reaction_params result" where
  "validate_reaction s i =
    (case ensure_permission s (xa_actor i) (xa_workspace_id i) ''message.send'' of
       Some e \<Rightarrow> Inl e
     | None \<Rightarrow>
         let emoji = trim_space (xa_emoji i)
         in if emoji = [] \<or> 32 < rune_count emoji then Inl (bad_request ''VALIDATION_ERROR'' ''Reaction khong hop le.'')
            else Inr \<lparr>xa_workspace_id = trim_space (xa_workspace_id i), xa_channel_id = trim_space (xa_channel_id i),
              xa_message_id = trim_space (xa_message_id i), xa_actor = trim_space (xa_actor i), xa_emoji = emoji\<rparr>)"

definition message_add_reaction :: "'s message_service \<Rightarrow> reaction_params \<Rightarrow> ('s message_world, message_dto) stmt" where
  "message_add_reaction s i =
    tx_bind (tx_lift (validate_reaction s i)) (\<lambda>p. publishing s ''ReactionChanged'' (mr_add_reaction (mv_repo s) p))"

definition message_remove_reaction :: "'s message_service \<Rightarrow> reaction_params \<Rightarrow> ('s message_world, message_dto) stmt" where
  "message_remove_reaction s i =
    tx_bind (tx_lift (validate_reaction s i)) (\<lambda>p. publishing s ''ReactionChanged'' (mr_remove_reaction (mv_repo s) p))"

end
