(* ===== verification/Msg_Pg.thy ===== *)
theory Msg_Pg
  imports Msg_Service "HOL-Library.Product_Lexorder"
begin

text \<open>
  \<open>messages/infrastructure/postgres/repository.go\<close>. Identifiers are kept in the canonical text of their
  \<open>uuid\<close>, whose byte order is the server's order. A transaction is one step; what a method does on the
  pool before or after it are steps of their own. What the server and the driver decide is the
  configuration: the collation order of emojis, full-text matching and rank, and whether the query mode
  of the driver accepts a parameter whose type the statement does not determine (the default, prepared
  statements, does not: SQLSTATE 42P18).
\<close>

section \<open>Tables\<close>

record msg_channel_row =
  ya_id :: string
  ya_workspace_id :: string
  ya_status :: string
  ya_deleted_at :: "time option"

record msg_member_row =
  yb_channel_id :: string
  yb_user_id :: string
  yb_status :: string

record direct_row =
  yc_id :: string
  yc_workspace_id :: string
  yc_channel_id :: string
  yc_last_message_id :: "string option"
  yc_updated_at :: time
  yc_archived_at :: "time option"

record direct_member_row =
  yd_direct_id :: string
  yd_user_id :: string

record mention_row =
  ye_workspace_id :: string
  ye_message_id :: string
  ye_user_id :: string

record reaction_row =
  yf_workspace_id :: string
  yf_message_id :: string
  yf_user_id :: string
  yf_emoji :: string

record pin_row =
  yg_workspace_id :: string
  yg_channel_id :: string
  yg_message_id :: string
  yg_pinned_by :: string
  yg_created_at :: time

record attachment_row =
  yh_workspace_id :: string
  yh_message_id :: string
  yh_file_id :: string
  yh_sort_order :: int

record search_row =
  yi_workspace_id :: string
  yi_source_id :: string
  yi_body :: string
  yi_metadata :: string

record msg_outbox_row =
  yj_aggregate_type :: string
  yj_aggregate_id :: string
  yj_event_type :: string
  yj_payload :: string

record msg_audit_row =
  yk_workspace_id :: string
  yk_actor :: string
  yk_action :: string
  yk_entity_id :: string
  yk_metadata :: string

record message_db =
  yz_messages :: "message_row list"
  yz_channels :: "msg_channel_row list"
  yz_members :: "msg_member_row list"
  yz_directs :: "direct_row list"
  yz_direct_members :: "direct_member_row list"
  yz_mentions :: "mention_row list"
  yz_reactions :: "reaction_row list"
  yz_pins :: "pin_row list"
  yz_attachments :: "attachment_row list"
  yz_search :: "search_row list"
  yz_outbox :: "msg_outbox_row list"
  yz_audit :: "msg_audit_row list"

record message_pg_config =
  yq_emoji_rank :: "string \<Rightarrow> int"
  yq_match :: "string \<Rightarrow> string \<Rightarrow> bool"
  yq_rank :: "string \<Rightarrow> string \<Rightarrow> int"
  yq_untyped :: bool

definition uuid3 :: "pg_env \<Rightarrow> string \<Rightarrow> string \<Rightarrow> string \<Rightarrow> (string \<times> string \<times> string) result" where
  "uuid3 env a b c =
    result_bind (uuid_param env a) (\<lambda>a. result_bind (uuid_param env b) (\<lambda>b.
    result_bind (uuid_param env c) (\<lambda>c. Inr (a, b, c))))"

definition uuid4 :: "pg_env \<Rightarrow> string \<Rightarrow> string \<Rightarrow> string \<Rightarrow> string \<Rightarrow> (string \<times> string \<times> string \<times> string) result" where
  "uuid4 env a b c d =
    result_bind (uuid_param env a) (\<lambda>a. result_bind (uuid3 env b c d) (\<lambda>(b, c, d). Inr (a, b, c, d)))"

text \<open>A member of the channel who may read and write.\<close>

definition member_in :: "message_db \<Rightarrow> string \<Rightarrow> string \<Rightarrow> bool" where
  "member_in db channel user \<longleftrightarrow>
     list_ex (\<lambda>m. yb_channel_id m = channel \<and> yb_user_id m = user \<and> yb_status m \<in> {''active'', ''muted''})
       (yz_members db)"

section \<open>Reading\<close>

text \<open>\<open>scanMessage\<close> on a query that returns at most one row.\<close>

definition scan_message :: "message_row option \<Rightarrow> message_row result" where
  "scan_message row = (case row of None \<Rightarrow> Inl err_message_not_found | Some m \<Rightarrow> Inr m)"

definition is_live :: "string \<Rightarrow> string \<Rightarrow> string \<Rightarrow> message_row \<Rightarrow> bool" where
  "is_live workspace channel i m \<longleftrightarrow>
     mg_workspace_id m = workspace \<and> mg_channel_id m = channel \<and> mg_id m = i \<and> mg_deleted_at m = None"

definition pg_select_message :: "pg_env \<Rightarrow> message_ref \<Rightarrow> (message_db, message_row) stmt" where
  "pg_select_message env r db =
    (db, result_bind (uuid4 env (xr_workspace_id r) (xr_channel_id r) (xr_message_id r) (xr_actor r))
      (\<lambda>(w, c, i, u).
        scan_message (List.find (\<lambda>m. is_live w c i m \<and> member_in db c u) (yz_messages db))))"

definition pg_message_mentions :: "pg_env \<Rightarrow> string \<Rightarrow> string \<Rightarrow> (message_db, string list) stmt" where
  "pg_message_mentions env workspace message db =
    (db, result_bind (uuid_param env workspace) (\<lambda>w. result_bind (uuid_param env message) (\<lambda>i.
      Inr (sort (map ye_user_id
        (filter (\<lambda>r. ye_workspace_id r = w \<and> ye_message_id r = i) (yz_mentions db)))))))"

text \<open>\<open>GROUP BY emoji ORDER BY emoji\<close> with \<open>count(*)\<close> and \<open>COALESCE(bool_or(user_id = actor), false)\<close>.\<close>

definition summarize_reactions :: "message_pg_config \<Rightarrow> string option \<Rightarrow> reaction_row list \<Rightarrow> reaction_summary list" where
  "summarize_reactions cfg actor rows =
    map (\<lambda>e. \<lparr>ry_emoji = e, ry_count = int (length (filter (\<lambda>r. yf_emoji r = e) rows)),
        ry_by_me = list_ex (\<lambda>r. yf_emoji r = e \<and> actor = Some (yf_user_id r)) rows\<rparr>)
      (sort_key (yq_emoji_rank cfg) (remdups (map yf_emoji rows)))"

definition pg_message_reactions ::
    "message_pg_config \<Rightarrow> pg_env \<Rightarrow> string \<Rightarrow> string \<Rightarrow> string \<Rightarrow> (message_db, reaction_summary list) stmt" where
  "pg_message_reactions cfg env workspace message actor db =
    (db, result_bind (uuid_param env workspace) (\<lambda>w. result_bind (uuid_param env message) (\<lambda>i.
      result_bind (uuid_or_null env actor) (\<lambda>u.
      Inr (summarize_reactions cfg u
        (filter (\<lambda>r. yf_workspace_id r = w \<and> yf_message_id r = i) (yz_reactions db)))))))"

definition with_relations :: "message_row \<Rightarrow> string list \<Rightarrow> reaction_summary list \<Rightarrow> message" where
  "with_relations row mentions reactions =
    message_row.extend row \<lparr>mg_mentions = mentions, mg_reactions = reactions\<rparr>"

definition hydrate_message :: "message_pg_config \<Rightarrow> message_row \<Rightarrow> string \<Rightarrow> (message_db pg, message) stmt" where
  "hydrate_message cfg row actor =
    tx_bind (pg_run (\<lambda>env. pg_message_mentions env (mg_workspace_id row) (mg_id row))) (\<lambda>mentions.
    tx_bind (pg_run (\<lambda>env. pg_message_reactions cfg env (mg_workspace_id row) (mg_id row) actor)) (\<lambda>reactions.
    tx_return (with_relations row mentions reactions)))"

definition pg_message_get :: "message_pg_config \<Rightarrow> message_ref \<Rightarrow> (message_db pg, message) stmt" where
  "pg_message_get cfg r =
    tx_bind (pg_run (\<lambda>env. pg_select_message env r)) (\<lambda>row. hydrate_message cfg row (xr_actor r))"

section \<open>Hydrating a page\<close>

definition pg_mentions_batch :: "pg_env \<Rightarrow> string \<Rightarrow> string list \<Rightarrow> (message_db, (string \<times> string) list) stmt" where
  "pg_mentions_batch env workspace ids db =
    (db, result_bind (uuid_param env workspace) (\<lambda>w.
      Inr (sort (map (\<lambda>r. (ye_message_id r, ye_user_id r))
        (filter (\<lambda>r. ye_workspace_id r = w \<and> ye_message_id r \<in> set ids) (yz_mentions db))))))"

definition pg_reactions_batch ::
    "message_pg_config \<Rightarrow> pg_env \<Rightarrow> string \<Rightarrow> string list \<Rightarrow> string \<Rightarrow> (message_db, (string \<times> reaction_summary) list) stmt" where
  "pg_reactions_batch cfg env workspace ids actor db =
    (db, result_bind (uuid_param env workspace) (\<lambda>w. result_bind (uuid_or_null env actor) (\<lambda>u.
      let rows = filter (\<lambda>r. yf_workspace_id r = w \<and> yf_message_id r \<in> set ids) (yz_reactions db)
      in Inr (map (\<lambda>(i, e). (i, \<lparr>ry_emoji = e,
             ry_count = int (length (filter (\<lambda>r. yf_message_id r = i \<and> yf_emoji r = e) rows)),
             ry_by_me = list_ex (\<lambda>r. yf_message_id r = i \<and> yf_emoji r = e \<and> u = Some (yf_user_id r)) rows\<rparr>))
           (sort_key (\<lambda>(i, e). (i, yq_emoji_rank cfg e)) (remdups (map (\<lambda>r. (yf_message_id r, yf_emoji r)) rows)))))))"

text \<open>The map \<open>messageID -> values\<close> the rows are appended to.\<close>

definition values_of :: "string \<Rightarrow> (string \<times> 'v) list \<Rightarrow> 'v list" where
  "values_of i rows = map snd (filter (\<lambda>r. fst r = i) rows)"

text \<open>\<open>pgtype.UUID.Scan\<close> of every identifier.\<close>

fun scan_uuids :: "pg_env \<Rightarrow> string list \<Rightarrow> string list result" where
  "scan_uuids env [] = Inr []"
| "scan_uuids env (i # is) =
    result_bind (uuid_param env i) (\<lambda>u. result_bind (scan_uuids env is) (\<lambda>us. Inr (u # us)))"

definition hydrate_messages ::
    "message_pg_config \<Rightarrow> message_row list \<Rightarrow> string \<Rightarrow> (message_db pg, message list) stmt" where
  "hydrate_messages cfg rows actor =
    (if rows = [] then tx_return []
     else
     tx_bind (pg_run (\<lambda>env. tx_bind (tx_lift (scan_uuids env (map mg_id rows)))
       (\<lambda>ids. pg_mentions_batch env (mg_workspace_id (hd rows)) ids))) (\<lambda>mentions.
     tx_bind (pg_run (\<lambda>env. tx_bind (tx_lift (scan_uuids env (map mg_id rows)))
       (\<lambda>ids. pg_reactions_batch cfg env (mg_workspace_id (hd rows)) ids actor))) (\<lambda>reactions.
     tx_return (map (\<lambda>row. with_relations row (values_of (mg_id row) mentions) (values_of (mg_id row) reactions)) rows))))"

section \<open>Pages\<close>

text \<open>Older messages first; \<open>(created_at, id) < (created_at, id)\<close> is the row comparison of SQL.\<close>

definition timeline_key :: "message_row \<Rightarrow> time \<times> string" where
  "timeline_key m = (mg_created_at m, mg_id m)"

definition visible :: "message_db \<Rightarrow> string \<Rightarrow> string \<Rightarrow> string \<Rightarrow> message_row list" where
  "visible db workspace channel user =
    filter (\<lambda>m. mg_workspace_id m = workspace \<and> mg_channel_id m = channel \<and> mg_deleted_at m = None \<and>
      member_in db channel user) (yz_messages db)"

definition newest_first :: "message_row list \<Rightarrow> message_row list" where
  "newest_first rows = rev (sort_key timeline_key rows)"

definition pg_list_rows :: "pg_env \<Rightarrow> message_list_params \<Rightarrow> (message_db, message_row list) stmt" where
  "pg_list_rows env p db =
    (db, result_bind (uuid3 env (xl_workspace_id p) (xl_channel_id p) (xl_actor p)) (\<lambda>(w, c, u).
      result_bind (uuid_or_null env (xl_before_id p)) (\<lambda>before_id.
      let before_rows = filter (\<lambda>b. mg_workspace_id b = w \<and> before_id = Some (mg_id b)) (yz_messages db)
      in Inr (take (nat (xl_limit p)) (newest_first
        (filter (\<lambda>m. xl_before_id p = [] \<or> list_ex (\<lambda>b. timeline_key m < timeline_key b) before_rows)
          (visible db w c u)))))))"

definition pg_message_list :: "message_pg_config \<Rightarrow> message_list_params \<Rightarrow> (message_db pg, message list) stmt" where
  "pg_message_list cfg p =
    tx_bind (pg_run (\<lambda>env. pg_list_rows env p)) (\<lambda>rows. hydrate_messages cfg rows (xl_actor p))"

definition thread_root :: "message_row \<Rightarrow> string" where
  "thread_root m = (case mg_thread_root_id m of None \<Rightarrow> mg_id m | Some r \<Rightarrow> r)"

definition pg_thread_rows :: "pg_env \<Rightarrow> thread_params \<Rightarrow> (message_db, message_row list) stmt" where
  "pg_thread_rows env p db =
    (db, result_bind (uuid4 env (xt_workspace_id p) (xt_channel_id p) (xt_actor p) (xt_message_id p)) (\<lambda>(w, c, u, i).
      let roots = map thread_root (filter (is_live w c i) (yz_messages db))
      in Inr (take (nat (xt_limit p)) (sort_key timeline_key
        (filter (\<lambda>m. list_ex (\<lambda>r. mg_id m = r \<or> mg_thread_root_id m = Some r) roots) (visible db w c u))))))"

definition pg_message_list_thread :: "message_pg_config \<Rightarrow> thread_params \<Rightarrow> (message_db pg, message list) stmt" where
  "pg_message_list_thread cfg p =
    tx_bind (pg_run (\<lambda>env. pg_thread_rows env p)) (\<lambda>rows.
    if rows = [] then tx_fail err_message_not_found else hydrate_messages cfg rows (xt_actor p))"

definition pg_search_rows :: "message_pg_config \<Rightarrow> pg_env \<Rightarrow> search_params \<Rightarrow> (message_db, message_row list) stmt" where
  "pg_search_rows cfg env p db =
    (db, result_bind (uuid_param env (xq_workspace_id p)) (\<lambda>w. result_bind (uuid_param env (xq_actor p)) (\<lambda>u.
      result_bind (text_params [xq_query p, xq_kind p]) (\<lambda>_.
      result_bind (uuid_or_null env (xq_channel_id p)) (\<lambda>channel.
      result_bind (uuid_or_null env (xq_sender_id p)) (\<lambda>sender.
      Inr (take (nat (xq_limit p)) (sort_key (\<lambda>m. (- yq_rank cfg (xq_query p) (mg_body m), - mg_created_at m))
        (filter (\<lambda>m. mg_workspace_id m = w \<and> mg_deleted_at m = None \<and> member_in db (mg_channel_id m) u \<and>
            yq_match cfg (xq_query p) (mg_body m) \<and>
            (case channel of None \<Rightarrow> True | Some c \<Rightarrow> mg_channel_id m = c) \<and>
            (case sender of None \<Rightarrow> True | Some s \<Rightarrow> mg_sender_id m = Some s) \<and>
            (xq_kind p = [] \<or> mg_kind m = xq_kind p) \<and>
            (case xq_date_from p of None \<Rightarrow> True | Some t \<Rightarrow> pg_time t \<le> mg_created_at m) \<and>
            (case xq_date_to p of None \<Rightarrow> True | Some t \<Rightarrow> mg_created_at m < pg_time t)) (yz_messages db))))))))))"

definition pg_message_search :: "message_pg_config \<Rightarrow> search_params \<Rightarrow> (message_db pg, message list) stmt" where
  "pg_message_search cfg p =
    tx_bind (pg_run (\<lambda>env. pg_search_rows cfg env p)) (\<lambda>rows. hydrate_messages cfg rows (xq_actor p))"

definition pg_pin_rows :: "pg_env \<Rightarrow> pins_params \<Rightarrow> (message_db, message_row list) stmt" where
  "pg_pin_rows env p db =
    (db, result_bind (uuid3 env (xn_workspace_id p) (xn_channel_id p) (xn_actor p)) (\<lambda>(w, c, u).
      Inr (concat (map (\<lambda>pin.
          filter (\<lambda>m. mg_workspace_id m = yg_workspace_id pin \<and> mg_id m = yg_message_id pin \<and> mg_deleted_at m = None \<and>
            member_in db (yg_channel_id pin) u) (yz_messages db))
        (sort_key (\<lambda>pin. - yg_created_at pin)
          (filter (\<lambda>pin. yg_workspace_id pin = w \<and> yg_channel_id pin = c) (yz_pins db)))))))"

definition pg_message_list_pins :: "message_pg_config \<Rightarrow> pins_params \<Rightarrow> (message_db pg, message list) stmt" where
  "pg_message_list_pins cfg p =
    tx_bind (pg_run (\<lambda>env. pg_pin_rows env p)) (\<lambda>rows. hydrate_messages cfg rows (xn_actor p))"

section \<open>Side tables of a message\<close>

definition pg_insert_msg_outbox ::
    "pg_env \<Rightarrow> string \<Rightarrow> string \<Rightarrow> string \<Rightarrow> (string \<times> json) list \<Rightarrow> (message_db, unit) stmt" where
  "pg_insert_msg_outbox env aggregate_type aggregate_id event_type payload =
    tx_bind (tx_lift (uuid_param env aggregate_id)) (\<lambda>i.
    tx_bind (tx_lift (jsonb_param env (json_print (JObj (go_map payload))))) (\<lambda>text db.
    (db\<lparr>yz_outbox := yz_outbox db @ [\<lparr>yj_aggregate_type = aggregate_type, yj_aggregate_id = i,
       yj_event_type = event_type, yj_payload = text\<rparr>]\<rparr>, Inr ())))"

text \<open>
  The audit rows of this module; their metadata are built from parameters whose type the statement does
  not determine. The trigger that fills \<open>zone_id\<close> is left out with that column.
\<close>

definition untyped_parameter :: go_error where
  "untyped_parameter = PgErr ''42P18'' ''could not determine data type of parameter''"

definition pg_message_audit ::
    "message_pg_config \<Rightarrow> pg_env \<Rightarrow> string \<Rightarrow> string \<Rightarrow> string \<Rightarrow> string \<Rightarrow> (string \<times> string) list \<Rightarrow> (message_db, unit) stmt" where
  "pg_message_audit cfg env workspace actor action entity metadata =
    (if \<not> yq_untyped cfg then tx_fail untyped_parameter
     else
     tx_bind (tx_lift (uuid3 env workspace actor entity)) (\<lambda>(w, u, i).
     tx_then (tx_lift (text_params (map snd metadata))) (\<lambda>db.
     (db\<lparr>yz_audit := yz_audit db @ [\<lparr>yk_workspace_id = w, yk_actor = u, yk_action = action, yk_entity_id = i,
        yk_metadata = jsonb_print (JObj (map (\<lambda>(k, v). (k, JStr v)) metadata))\<rparr>]\<rparr>, Inr ()))))"

definition search_metadata :: "message_row \<Rightarrow> json" where
  "search_metadata m =
    JObj [(''channel_id'', JStr (mg_channel_id m)), (''kind'', JStr (mg_kind m)),
      (''sender_id'', case mg_sender_id m of None \<Rightarrow> JNull | Some s \<Rightarrow> JStr s)]"

definition is_search_doc :: "string \<Rightarrow> string \<Rightarrow> search_row \<Rightarrow> bool" where
  "is_search_doc workspace source d \<longleftrightarrow> yi_workspace_id d = workspace \<and> yi_source_id d = source"

definition upsert_search_document :: "pg_env \<Rightarrow> message_row \<Rightarrow> (message_db, unit) stmt" where
  "upsert_search_document env m =
    tx_bind (tx_lift (uuid_param env (mg_workspace_id m))) (\<lambda>w.
    tx_bind (tx_lift (uuid_param env (mg_id m))) (\<lambda>i.
    tx_then (tx_lift (text_params [mg_body m]))
    (tx_bind (tx_lift (jsonb_param env (json_print (search_metadata m)))) (\<lambda>md db.
    (if list_ex (is_search_doc w i) (yz_search db)
     then db\<lparr>yz_search := update_where (is_search_doc w i) (\<lambda>d. d\<lparr>yi_body := mg_body m, yi_metadata := md\<rparr>) (yz_search db)\<rparr>
     else db\<lparr>yz_search := yz_search db @ [\<lparr>yi_workspace_id = w, yi_source_id = i, yi_body = mg_body m, yi_metadata = md\<rparr>]\<rparr>,
     Inr ())))))"

definition is_mention :: "string \<Rightarrow> string \<Rightarrow> mention_row \<Rightarrow> bool" where
  "is_mention workspace message r \<longleftrightarrow> ye_workspace_id r = workspace \<and> ye_message_id r = message"

fun insert_mentions :: "pg_env \<Rightarrow> string \<Rightarrow> string \<Rightarrow> string \<Rightarrow> string list \<Rightarrow> (message_db, unit) stmt" where
  "insert_mentions env workspace channel message [] = tx_return ()"
| "insert_mentions env workspace channel message (user # users) =
    tx_then
      (tx_bind (tx_lift (uuid4 env workspace message channel user)) (\<lambda>(w, i, c, u) db.
       if member_in db c u \<and> \<not> list_ex (\<lambda>r. is_mention w i r \<and> ye_user_id r = u) (yz_mentions db)
       then (db\<lparr>yz_mentions := yz_mentions db @ [\<lparr>ye_workspace_id = w, ye_message_id = i, ye_user_id = u\<rparr>]\<rparr>, Inr ())
       else (db, Inl err_mention_not_found)))
      (insert_mentions env workspace channel message users)"

definition replace_mentions :: "pg_env \<Rightarrow> string \<Rightarrow> string \<Rightarrow> string \<Rightarrow> string list \<Rightarrow> (message_db, unit) stmt" where
  "replace_mentions env workspace channel message users =
    tx_then
      (tx_bind (tx_lift (uuid_param env workspace)) (\<lambda>w. tx_bind (tx_lift (uuid_param env message)) (\<lambda>i db.
       (db\<lparr>yz_mentions := filter (\<lambda>r. \<not> is_mention w i r) (yz_mentions db)\<rparr>, Inr ()))))
      (insert_mentions env workspace channel message users)"

text \<open>The trigger on \<open>direct_conversations\<close> overrides the \<open>updated_at\<close> of the statement.\<close>

definition touch_direct :: "pg_env \<Rightarrow> message_row \<Rightarrow> (message_db, unit) stmt" where
  "touch_direct env m =
    tx_bind (tx_lift (uuid3 env (mg_workspace_id m) (mg_channel_id m) (mg_id m))) (\<lambda>(w, c, i) db.
    (db\<lparr>yz_directs := update_where (\<lambda>d. yc_workspace_id d = w \<and> yc_channel_id d = c \<and> yc_archived_at d = None)
       (\<lambda>d. d\<lparr>yc_last_message_id := Some i, yc_updated_at := pe_now env\<rparr>) (yz_directs db)\<rparr>, Inr ()))"

definition upsert_direct_member :: "string \<Rightarrow> message_db \<Rightarrow> string \<Rightarrow> message_db" where
  "upsert_direct_member channel db user =
    (if list_ex (\<lambda>m. yb_channel_id m = channel \<and> yb_user_id m = user) (yz_members db)
     then db\<lparr>yz_members := update_where (\<lambda>m. yb_channel_id m = channel \<and> yb_user_id m = user \<and>
         yb_status m \<in> {''left'', ''removed'', ''invited''}) (\<lambda>m. m\<lparr>yb_status := ''active''\<rparr>) (yz_members db)\<rparr>
     else db\<lparr>yz_members := yz_members db @ [\<lparr>yb_channel_id = channel, yb_user_id = user, yb_status = ''active''\<rparr>]\<rparr>)"

text \<open>Every participant of the sender's direct conversation becomes a member of its channel again.\<close>

definition ensure_direct_members :: "pg_env \<Rightarrow> string \<Rightarrow> string \<Rightarrow> string \<Rightarrow> (message_db, unit) stmt" where
  "ensure_direct_members env workspace channel user =
    tx_bind (tx_lift (uuid3 env workspace channel user)) (\<lambda>(w, c, u) db.
    (let conv = filter (\<lambda>d. yc_workspace_id d = w \<and> yc_channel_id d = c \<and>
           list_ex (\<lambda>m. yd_direct_id m = yc_id d \<and> yd_user_id m = u) (yz_direct_members db)) (yz_directs db);
         users = sort (remdups (concat (map (\<lambda>d.
           map yd_user_id (filter (\<lambda>m. yd_direct_id m = yc_id d) (yz_direct_members db))) conv)))
     in (foldl (upsert_direct_member c) db users, Inr ())))"

section \<open>Inserting\<close>

definition client_id_of :: "message_row \<Rightarrow> string option" where
  "client_id_of m = jsonb_member ''client_message_id'' (mg_metadata m)"

text \<open>The key of the partial unique index \<open>messages_client_message_id_idx\<close>, for the rows it covers.\<close>

definition client_key :: "message_row \<Rightarrow> (string \<times> string \<times> string \<times> string) option" where
  "client_key m =
    (case (mg_deleted_at m, mg_sender_id m, client_id_of m) of
       (None, Some s, Some k) \<Rightarrow>
         if sql_trim k \<noteq> [] then Some (mg_workspace_id m, mg_channel_id m, s, k) else None
     | _ \<Rightarrow> None)"

definition message_check :: "message_row \<Rightarrow> bool" where
  "message_check m \<longleftrightarrow> mg_kind m \<in> {''text'', ''file'', ''system'', ''bot'', ''event''} \<and>
     (mg_kind m = ''text'' \<longrightarrow> sql_trim (mg_body m) \<noteq> []) \<and> mg_thread_root_id m \<noteq> Some (mg_id m)"

definition message_exists :: "message_db \<Rightarrow> string \<Rightarrow> string \<Rightarrow> bool" where
  "message_exists db workspace i \<longleftrightarrow>
     list_ex (\<lambda>m. mg_workspace_id m = workspace \<and> mg_id m = i) (yz_messages db)"

definition reference_ok :: "message_db \<Rightarrow> string \<Rightarrow> string option \<Rightarrow> bool" where
  "reference_ok db workspace r \<longleftrightarrow> (case r of None \<Rightarrow> True | Some i \<Rightarrow> message_exists db workspace i)"

definition pg_insert_message :: "message_row \<Rightarrow> (message_db, message_row) stmt" where
  "pg_insert_message m db =
    (if \<not> message_check m then (db, Inl check_violation)
     else if message_exists db (mg_workspace_id m) (mg_id m) \<or>
       client_key m \<noteq> None \<and> client_key m \<in> client_key ` set (yz_messages db)
     then (db, Inl unique_violation)
     else if \<not> reference_ok db (mg_workspace_id m) (mg_parent_id m) \<or>
       \<not> reference_ok db (mg_workspace_id m) (mg_thread_root_id m)
     then (db, Inl fk_violation)
     else (db\<lparr>yz_messages := yz_messages db @ [m]\<rparr>, Inr m))"

definition channel_open :: "message_db \<Rightarrow> string \<Rightarrow> string \<Rightarrow> bool" where
  "channel_open db workspace channel \<longleftrightarrow>
     list_ex (\<lambda>c. ya_id c = channel \<and> ya_workspace_id c = workspace \<and> ya_status c = ''active'' \<and> ya_deleted_at c = None)
       (yz_channels db)"

definition new_message_row ::
    "pg_env \<Rightarrow> string \<Rightarrow> string \<Rightarrow> string \<Rightarrow> string option \<Rightarrow> string option \<Rightarrow> string \<Rightarrow> string \<Rightarrow> string \<Rightarrow> message_row" where
  "new_message_row env workspace channel sender parent root kind body metadata =
    \<lparr>mg_id = pe_fresh env, mg_workspace_id = workspace, mg_channel_id = channel, mg_sender_id = Some sender,
     mg_parent_id = parent, mg_thread_root_id = root, mg_kind = kind, mg_body = body, mg_metadata = metadata,
     mg_edited_at = None, mg_deleted_at = None, mg_created_at = pe_now env, mg_updated_at = pe_now env\<rparr>"

definition pg_send_insert :: "pg_env \<Rightarrow> send_params \<Rightarrow> string \<Rightarrow> (message_db, message_row) stmt" where
  "pg_send_insert env p root =
    tx_bind (tx_lift (uuid3 env (xp_workspace_id p) (xp_channel_id p) (xp_sender_id p))) (\<lambda>(w, c, u).
    tx_bind (tx_lift (uuid_or_null env (xp_parent_id p))) (\<lambda>parent.
    tx_bind (tx_lift (uuid_or_null env root)) (\<lambda>root.
    tx_then (tx_lift (text_params [xp_kind p, xp_body p]))
    (tx_bind (tx_lift (jsonb_param env (xp_metadata p))) (\<lambda>md db.
     if channel_open db w c \<and> member_in db c u
     then pg_insert_message (new_message_row env w c u parent root (xp_kind p) (xp_body p) md) db
     else (db, Inl err_message_not_found))))))"

section \<open>Send\<close>

text \<open>What the transaction of \<open>Send\<close> ends with: the identifier of an earlier message, a lost race, a new row.\<close>

datatype send_outcome = Existing string | Raced | Created message_row

definition pg_thread_root :: "pg_env \<Rightarrow> send_params \<Rightarrow> (message_db, string) stmt" where
  "pg_thread_root env p db =
    (db, if xp_parent_id p = [] then Inr []
      else result_bind (uuid3 env (xp_workspace_id p) (xp_channel_id p) (xp_parent_id p)) (\<lambda>(w, c, i).
        case List.find (is_live w c i) (yz_messages db) of
          None \<Rightarrow> Inl err_message_not_found
        | Some m \<Rightarrow> Inr (thread_root m)))"

definition pg_client_message :: "pg_env \<Rightarrow> send_params \<Rightarrow> (message_db, string) stmt" where
  "pg_client_message env p db =
    (db, result_bind (uuid3 env (xp_workspace_id p) (xp_channel_id p) (xp_sender_id p)) (\<lambda>(w, c, u).
      result_bind (text_params [xp_client_message_id p]) (\<lambda>_.
      case sort_key (\<lambda>m. - mg_created_at m)
        (filter (\<lambda>m. mg_workspace_id m = w \<and> mg_channel_id m = c \<and> mg_sender_id m = Some u \<and>
           client_id_of m = Some (xp_client_message_id p) \<and> mg_deleted_at m = None) (yz_messages db)) of
        [] \<Rightarrow> Inl err_no_rows
      | m # _ \<Rightarrow> Inr (mg_id m))))"

definition client_message_before :: "pg_env \<Rightarrow> send_params \<Rightarrow> (message_db, string option) stmt" where
  "client_message_before env p db =
    (if xp_client_message_id p = [] then (db, Inr None)
     else case pg_client_message env p db of
         (db1, Inr i) \<Rightarrow> (db1, Inr (Some i))
       | (db1, Inl e) \<Rightarrow>
           if errors_is e ''pgx.ErrNoRows'' then (db1, Inr None)
           else (db1, Inl (Wrap ''message send check idempotency'' e)))"

definition send_payload :: "send_params \<Rightarrow> string \<Rightarrow> message_row \<Rightarrow> (string \<times> json) list" where
  "send_payload p root m =
    [(''workspace_id'', JStr (mg_workspace_id m)), (''channel_id'', JStr (mg_channel_id m)), (''message_id'', JStr (mg_id m)),
     (''sender_id'', JStr (xp_sender_id p)), (''parent_id'', JStr (xp_parent_id p)), (''thread_root_id'', JStr root),
     (''mentioned_user_ids'', JArr (map JStr (xp_mentioned p)))]"

definition send_insert_error :: "send_params \<Rightarrow> go_error \<Rightarrow> send_outcome result" where
  "send_insert_error p e =
    (if xp_client_message_id p \<noteq> [] \<and> is_unique_violation e then Inr Raced
     else if errors_is e ''ErrMessageNotFound'' then Inl err_msg_channel_not_found
     else Inl (Wrap ''message send insert message'' e))"

definition send_relations :: "pg_env \<Rightarrow> send_params \<Rightarrow> string \<Rightarrow> message_row \<Rightarrow> (message_db, send_outcome) stmt" where
  "send_relations env p root m =
    tx_then (tx_map_error (Wrap ''message send touch direct conversation'') (touch_direct env m))
    (tx_then (tx_map_error (Wrap ''message send replace mentions'')
      (replace_mentions env (mg_workspace_id m) (mg_channel_id m) (mg_id m) (xp_mentioned p)))
    (tx_then (tx_map_error (Wrap ''message send upsert search document'') (upsert_search_document env m))
    (tx_then (tx_map_error (Wrap ''message send insert outbox'')
      (pg_insert_msg_outbox env ''message'' (mg_id m) ''MessageCreated'' (send_payload p root m)))
    (tx_return (Created m)))))"

definition send_statements :: "pg_env \<Rightarrow> send_params \<Rightarrow> (message_db, send_outcome) stmt" where
  "send_statements env p =
    tx_bind (pg_thread_root env p) (\<lambda>root.
    tx_then (tx_map_error (Wrap ''message send repair direct channel members'')
      (ensure_direct_members env (xp_workspace_id p) (xp_channel_id p) (xp_sender_id p)))
    (tx_bind (client_message_before env p) (\<lambda>existing.
     case existing of
       Some i \<Rightarrow> tx_return (Existing i)
     | None \<Rightarrow> (\<lambda>db. case pg_send_insert env p root db of
           (db1, Inl e) \<Rightarrow> (db1, send_insert_error p e)
         | (db1, Inr m) \<Rightarrow> send_relations env p root m db1))))"

text \<open>Only a created message is committed; the other outcomes return before the commit and roll back.\<close>

definition pg_send_tx :: "pg_env \<Rightarrow> send_params \<Rightarrow> (message_db, send_outcome) stmt" where
  "pg_send_tx env p db =
    (case send_statements env p db of
       (db1, Inr (Created m)) \<Rightarrow> (db1, Inr (Created m))
     | (db1, r) \<Rightarrow> (db, r))"

definition sent_ref :: "send_params \<Rightarrow> string \<Rightarrow> message_ref" where
  "sent_ref p i =
    \<lparr>xr_workspace_id = xp_workspace_id p, xr_channel_id = xp_channel_id p, xr_message_id = i, xr_actor = xp_sender_id p\<rparr>"

definition or_minimal :: "message_row \<Rightarrow> ('s, message) stmt \<Rightarrow> ('s, message) stmt" where
  "or_minimal m f st =
    (case f st of (st1, Inr x) \<Rightarrow> (st1, Inr x) | (st1, Inl e) \<Rightarrow> (st1, Inr (with_relations m [] [])))"

definition pg_message_send :: "message_pg_config \<Rightarrow> send_params \<Rightarrow> (message_db pg, message) stmt" where
  "pg_message_send cfg p =
    tx_bind (pg_run (\<lambda>env. pg_send_tx env p)) (\<lambda>outcome.
    case outcome of
      Existing i \<Rightarrow> tx_map_error (Wrap ''message send check idempotency'') (pg_message_get cfg (sent_ref p i))
    | Raced \<Rightarrow> tx_bind (pg_run (\<lambda>env. pg_client_message env p)) (\<lambda>i. pg_message_get cfg (sent_ref p i))
    | Created m \<Rightarrow> or_minimal m (pg_message_get cfg (sent_ref p (mg_id m))))"

section \<open>Forward\<close>

text \<open>\<open>metadata || jsonb_build_object(k, v)\<close>: two objects are merged, anything else becomes an array.\<close>

definition jsonb_append :: "string \<Rightarrow> string \<Rightarrow> json \<Rightarrow> json" where
  "jsonb_append metadata k v =
    (case json_parse metadata of
       Some (JObj ms) \<Rightarrow> JObj (filter (\<lambda>m. fst m \<noteq> k) ms @ [(k, v)])
     | Some (JArr vs) \<Rightarrow> JArr (vs @ [JObj [(k, v)]])
     | Some x \<Rightarrow> JArr [x, JObj [(k, v)]]
     | None \<Rightarrow> JObj [(k, v)])"

definition forwarded_from :: "message_row \<Rightarrow> json" where
  "forwarded_from m =
    JObj [(''message_id'', JStr (mg_id m)), (''channel_id'', JStr (mg_channel_id m)),
      (''sender_id'', case mg_sender_id m of None \<Rightarrow> JNull | Some s \<Rightarrow> JStr s)]"

definition pg_forward_insert :: "pg_env \<Rightarrow> forward_params \<Rightarrow> (message_db, message_row) stmt" where
  "pg_forward_insert env p =
    tx_bind (tx_lift (uuid4 env (xf_workspace_id p) (xf_source_channel_id p) (xf_message_id p) (xf_actor p)))
      (\<lambda>(w, source, i, u).
    tx_bind (tx_lift (uuid_param env (xf_target_channel_id p))) (\<lambda>target db.
    case List.find (\<lambda>m. is_live w source i m \<and> member_in db source u) (yz_messages db) of
      None \<Rightarrow> (db, Inl err_message_not_found)
    | Some m \<Rightarrow>
        if \<not> (channel_open db w target \<and> member_in db target u) then (db, Inl err_message_not_found)
        else tx_bind (tx_lift (jsonb_param env (json_print (jsonb_append (mg_metadata m) ''forwarded_from'' (forwarded_from m)))))
          (\<lambda>md. pg_insert_message (new_message_row env w target u None None (mg_kind m) (mg_body m) md)) db))"

definition copy_attachments :: "pg_env \<Rightarrow> string \<Rightarrow> string \<Rightarrow> string \<Rightarrow> (message_db, unit) stmt" where
  "copy_attachments env workspace source target =
    tx_bind (tx_lift (uuid3 env workspace source target)) (\<lambda>(w, i, j) db.
    (db\<lparr>yz_attachments := yz_attachments db @
       map (\<lambda>a. a\<lparr>yh_message_id := j\<rparr>)
         (filter (\<lambda>a. yh_workspace_id a = w \<and> yh_message_id a = i) (yz_attachments db))\<rparr>, Inr ()))"

definition pg_forward_tx :: "message_pg_config \<Rightarrow> pg_env \<Rightarrow> forward_params \<Rightarrow> (message_db, message_row) stmt" where
  "pg_forward_tx cfg env p =
    in_tx (tx_bind (pg_forward_insert env p) (\<lambda>m.
      tx_then (tx_map_error (Wrap ''message forward touch direct conversation'') (touch_direct env m))
      (tx_then (copy_attachments env (xf_workspace_id p) (xf_message_id p) (mg_id m))
      (tx_then (upsert_search_document env m)
      (tx_then (pg_insert_msg_outbox env ''message'' (mg_id m) ''MessageCreated''
        [(''workspace_id'', JStr (mg_workspace_id m)), (''channel_id'', JStr (mg_channel_id m)),
         (''message_id'', JStr (mg_id m)), (''sender_id'', JStr (xf_actor p)),
         (''forwarded_message_id'', JStr (xf_message_id p))])
      (tx_then (pg_message_audit cfg env (xf_workspace_id p) (xf_actor p) ''message.forward'' (mg_id m)
        [(''source_message_id'', xf_message_id p), (''source_channel_id'', xf_source_channel_id p),
         (''target_channel_id'', xf_target_channel_id p)])
      (tx_return m)))))))"

definition pg_message_forward :: "message_pg_config \<Rightarrow> forward_params \<Rightarrow> (message_db pg, message) stmt" where
  "pg_message_forward cfg p =
    tx_bind (pg_run (\<lambda>env. pg_forward_tx cfg env p)) (\<lambda>m.
    pg_message_get cfg \<lparr>xr_workspace_id = xf_workspace_id p, xr_channel_id = xf_target_channel_id p,
      xr_message_id = mg_id m, xr_actor = xf_actor p\<rparr>)"

section \<open>Update and delete\<close>

definition edited :: "pg_env \<Rightarrow> string \<Rightarrow> message_row \<Rightarrow> message_row" where
  "edited env body m = m\<lparr>mg_body := body, mg_edited_at := Some (pe_now env), mg_updated_at := pe_now env\<rparr>"

definition pg_edit_message :: "pg_env \<Rightarrow> message_update_params \<Rightarrow> (message_db, message_row) stmt" where
  "pg_edit_message env p =
    tx_bind (tx_lift (uuid4 env (xv_workspace_id p) (xv_channel_id p) (xv_message_id p) (xv_actor p))) (\<lambda>(w, c, i, u).
    tx_then (tx_lift (text_params [xv_body p])) (\<lambda>db.
    case List.find (\<lambda>m. is_live w c i m \<and> member_in db c u) (yz_messages db) of
      None \<Rightarrow> (db, Inl err_message_not_found)
    | Some m \<Rightarrow>
        if \<not> message_check (edited env (xv_body p) m) then (db, Inl check_violation)
        else (db\<lparr>yz_messages := update_where (is_live w c i) (edited env (xv_body p)) (yz_messages db)\<rparr>,
          Inr (edited env (xv_body p) m))))"

definition pg_update_tx :: "pg_env \<Rightarrow> message_update_params \<Rightarrow> (message_db, message_row) stmt" where
  "pg_update_tx env p =
    in_tx (tx_bind (pg_edit_message env p) (\<lambda>m.
      tx_then (replace_mentions env (mg_workspace_id m) (mg_channel_id m) (mg_id m) (xv_mentioned p))
      (tx_then (upsert_search_document env m)
      (tx_then (pg_insert_msg_outbox env ''message'' (mg_id m) ''MessageUpdated''
        [(''workspace_id'', JStr (mg_workspace_id m)), (''channel_id'', JStr (mg_channel_id m)),
         (''message_id'', JStr (mg_id m)), (''actor_user_id'', JStr (xv_actor p))])
      (tx_return m)))))"

definition pg_message_update :: "message_pg_config \<Rightarrow> message_update_params \<Rightarrow> (message_db pg, message) stmt" where
  "pg_message_update cfg p =
    tx_bind (pg_run (\<lambda>env. pg_update_tx env p)) (\<lambda>_.
    pg_message_get cfg \<lparr>xr_workspace_id = xv_workspace_id p, xr_channel_id = xv_channel_id p,
      xr_message_id = xv_message_id p, xr_actor = xv_actor p\<rparr>)"

definition ref_payload :: "message_ref \<Rightarrow> (string \<times> json) list" where
  "ref_payload r =
    [(''workspace_id'', JStr (xr_workspace_id r)), (''channel_id'', JStr (xr_channel_id r)),
     (''message_id'', JStr (xr_message_id r)), (''actor_user_id'', JStr (xr_actor r))]"

definition pg_mark_deleted :: "pg_env \<Rightarrow> message_ref \<Rightarrow> (message_db, unit) stmt" where
  "pg_mark_deleted env r =
    tx_bind (tx_lift (uuid3 env (xr_workspace_id r) (xr_channel_id r) (xr_message_id r))) (\<lambda>(w, c, i) db.
    if \<not> list_ex (is_live w c i) (yz_messages db) then (db, Inl err_message_not_found)
    else (db\<lparr>yz_messages := update_where (is_live w c i)
        (\<lambda>m. m\<lparr>mg_deleted_at := Some (pe_now env), mg_updated_at := pe_now env\<rparr>) (yz_messages db)\<rparr>, Inr ()))"

definition pg_drop_search_document :: "pg_env \<Rightarrow> message_ref \<Rightarrow> (message_db, unit) stmt" where
  "pg_drop_search_document env r =
    tx_bind (tx_lift (uuid_param env (xr_workspace_id r))) (\<lambda>w.
    tx_bind (tx_lift (uuid_param env (xr_message_id r))) (\<lambda>i db.
    (db\<lparr>yz_search := filter (\<lambda>d. \<not> is_search_doc w i d) (yz_search db)\<rparr>, Inr ())))"

definition pg_delete_tx :: "message_pg_config \<Rightarrow> pg_env \<Rightarrow> message_ref \<Rightarrow> (message_db, unit) stmt" where
  "pg_delete_tx cfg env r =
    in_tx (tx_then (pg_mark_deleted env r)
      (tx_then (pg_drop_search_document env r)
      (tx_then (pg_insert_msg_outbox env ''message'' (xr_message_id r) ''MessageDeleted'' (ref_payload r))
      (pg_message_audit cfg env (xr_workspace_id r) (xr_actor r) ''message.delete'' (xr_message_id r)
        [(''channel_id'', xr_channel_id r)]))))"

section \<open>Pins and reactions\<close>

definition is_pin :: "string \<Rightarrow> string \<Rightarrow> string \<Rightarrow> pin_row \<Rightarrow> bool" where
  "is_pin workspace channel message pin \<longleftrightarrow>
     yg_workspace_id pin = workspace \<and> yg_channel_id pin = channel \<and> yg_message_id pin = message"

definition pg_insert_pin :: "pg_env \<Rightarrow> message_ref \<Rightarrow> (message_db, unit) stmt" where
  "pg_insert_pin env r =
    tx_bind (tx_lift (uuid4 env (xr_workspace_id r) (xr_channel_id r) (xr_message_id r) (xr_actor r))) (\<lambda>(w, c, i, u) db.
    if list_ex (is_pin w c i) (yz_pins db)
    then (db\<lparr>yz_pins := update_where (is_pin w c i) (\<lambda>pin. pin\<lparr>yg_pinned_by := u\<rparr>) (yz_pins db)\<rparr>, Inr ())
    else if \<not> message_exists db w i then (db, Inl fk_violation)
    else (db\<lparr>yz_pins := yz_pins db @ [\<lparr>yg_workspace_id = w, yg_channel_id = c, yg_message_id = i,
        yg_pinned_by = u, yg_created_at = pe_now env\<rparr>]\<rparr>, Inr ()))"

definition pg_message_pin :: "message_pg_config \<Rightarrow> message_ref \<Rightarrow> (message_db pg, message) stmt" where
  "pg_message_pin cfg r =
    tx_then (pg_message_get cfg r)
    (tx_then (pg_run (\<lambda>env. in_tx (tx_then (pg_insert_pin env r)
      (pg_insert_msg_outbox env ''message'' (xr_message_id r) ''MessagePinned'' (ref_payload r)))))
    (pg_message_get cfg r))"

definition pg_delete_pin :: "pg_env \<Rightarrow> message_ref \<Rightarrow> (message_db, unit) stmt" where
  "pg_delete_pin env r =
    tx_bind (tx_lift (uuid4 env (xr_workspace_id r) (xr_channel_id r) (xr_message_id r) (xr_actor r))) (\<lambda>(w, c, i, u) db.
    if list_ex (is_pin w c i) (yz_pins db) \<and> member_in db c u
    then (db\<lparr>yz_pins := filter (\<lambda>pin. \<not> is_pin w c i pin) (yz_pins db)\<rparr>, Inr ())
    else (db, Inl err_pin_not_found))"

definition pg_unpin_tx :: "pg_env \<Rightarrow> message_ref \<Rightarrow> (message_db, unit) stmt" where
  "pg_unpin_tx env r =
    in_tx (tx_then (pg_delete_pin env r)
      (pg_insert_msg_outbox env ''message'' (xr_message_id r) ''MessageUnpinned'' (ref_payload r)))"

definition is_reaction :: "string \<Rightarrow> string \<Rightarrow> string \<Rightarrow> string \<Rightarrow> reaction_row \<Rightarrow> bool" where
  "is_reaction workspace message user emoji r \<longleftrightarrow>
     yf_workspace_id r = workspace \<and> yf_message_id r = message \<and> yf_user_id r = user \<and> yf_emoji r = emoji"

definition reaction_ref :: "reaction_params \<Rightarrow> message_ref" where
  "reaction_ref p =
    \<lparr>xr_workspace_id = xa_workspace_id p, xr_channel_id = xa_channel_id p, xr_message_id = xa_message_id p, xr_actor = xa_actor p\<rparr>"

definition reaction_payload :: "reaction_params \<Rightarrow> string \<Rightarrow> (string \<times> json) list" where
  "reaction_payload p action =
    ref_payload (reaction_ref p) @ [(''emoji'', JStr (xa_emoji p)), (''action'', JStr action)]"

text \<open>Whether a row was inserted.\<close>

definition pg_insert_reaction :: "pg_env \<Rightarrow> reaction_params \<Rightarrow> (message_db, bool) stmt" where
  "pg_insert_reaction env p =
    tx_bind (tx_lift (uuid3 env (xa_workspace_id p) (xa_message_id p) (xa_actor p))) (\<lambda>(w, i, u).
    tx_then (tx_lift (text_params [xa_emoji p])) (\<lambda>db.
    if list_ex (is_reaction w i u (xa_emoji p)) (yz_reactions db) then (db, Inr False)
    else if \<not> message_exists db w i then (db, Inl fk_violation)
    else (db\<lparr>yz_reactions := yz_reactions db @
        [\<lparr>yf_workspace_id = w, yf_message_id = i, yf_user_id = u, yf_emoji = xa_emoji p\<rparr>]\<rparr>, Inr True)))"

definition pg_add_reaction :: "message_pg_config \<Rightarrow> reaction_params \<Rightarrow> (message_db pg, message) stmt" where
  "pg_add_reaction cfg p =
    tx_then (pg_message_get cfg (reaction_ref p))
    (tx_then (pg_run (\<lambda>env. in_tx (tx_bind (pg_insert_reaction env p) (\<lambda>inserted.
      if inserted
      then pg_insert_msg_outbox env ''message'' (xa_message_id p) ''ReactionChanged'' (reaction_payload p ''add'')
      else tx_return ()))))
    (pg_message_get cfg (reaction_ref p)))"

definition pg_delete_reaction :: "pg_env \<Rightarrow> reaction_params \<Rightarrow> (message_db, unit) stmt" where
  "pg_delete_reaction env p =
    tx_bind (tx_lift (uuid3 env (xa_workspace_id p) (xa_message_id p) (xa_actor p))) (\<lambda>(w, i, u).
    tx_then (tx_lift (text_params [xa_emoji p])) (\<lambda>db.
    if list_ex (is_reaction w i u (xa_emoji p)) (yz_reactions db)
    then (db\<lparr>yz_reactions := filter (\<lambda>r. \<not> is_reaction w i u (xa_emoji p) r) (yz_reactions db)\<rparr>, Inr ())
    else (db, Inl err_reaction_not_found)))"

definition pg_remove_reaction :: "message_pg_config \<Rightarrow> reaction_params \<Rightarrow> (message_db pg, message) stmt" where
  "pg_remove_reaction cfg p =
    tx_then (pg_message_get cfg (reaction_ref p))
    (tx_then (pg_run (\<lambda>env. in_tx (tx_then (pg_delete_reaction env p)
      (pg_insert_msg_outbox env ''message'' (xa_message_id p) ''ReactionChanged'' (reaction_payload p ''remove'')))))
    (pg_message_get cfg (reaction_ref p)))"

section \<open>The repository\<close>

definition message_pg :: "message_pg_config \<Rightarrow> message_db pg message_repo" where
  "message_pg cfg =
    \<lparr>mr_send = pg_message_send cfg, mr_get = pg_message_get cfg, mr_list = pg_message_list cfg,
     mr_list_thread = pg_message_list_thread cfg, mr_search = pg_message_search cfg,
     mr_forward = pg_message_forward cfg, mr_update = pg_message_update cfg,
     mr_delete = (\<lambda>r. pg_run (\<lambda>env. pg_delete_tx cfg env r)), mr_list_pins = pg_message_list_pins cfg,
     mr_pin = pg_message_pin cfg, mr_unpin = (\<lambda>r. pg_run (\<lambda>env. pg_unpin_tx env r)),
     mr_add_reaction = pg_add_reaction cfg, mr_remove_reaction = pg_remove_reaction cfg\<rparr>"

end
