(* ===== verification/Msg_Reads.thy ===== *)
theory Msg_Reads
  imports Msg_Pg
begin

text \<open>
  What the reads of the messages module return: the batched hydration of a page against the single one,
  and the pages a client gets by following the cursor against the whole timeline of the channel.
\<close>

text \<open>
  A database whose statements do not fail for a reason outside the model and whose server has one
  canonical text for every identifier.
\<close>

definition steady :: "(string \<Rightarrow> string option) \<Rightarrow> 'db pg \<Rightarrow> bool" where
  "steady canon st \<longleftrightarrow> (\<forall>n. pe_fail (pg_envs st n) = None \<and> pe_uuid (pg_envs st n) = canon)"

lemma steady_tick [simp]: "steady canon (st\<lparr>pg_tick := n\<rparr>) = steady canon st" "steady canon (st\<lparr>pg_db := db\<rparr>) = steady canon st"
  by (simp_all add: steady_def)

lemma steady_uuid [simp]:
  "steady canon st \<Longrightarrow> uuid_param (pg_envs st n) s =
    (case canon s of None \<Rightarrow> Inl (Plain ''unable to encode uuid'') | Some u \<Rightarrow> Inr u)"
  "steady canon st \<Longrightarrow> uuid_or_null (pg_envs st n) s =
    (if s = [] then Inr None else case canon s of
       None \<Rightarrow> Inl (PgErr ''22P02'' ''invalid input syntax for type uuid'') | Some u \<Rightarrow> Inr (Some u))"
  by (simp_all add: steady_def uuid_param_def uuid_or_null_def)

text \<open>A statement that reads and cannot fail is a step of the clock.\<close>

lemma pg_run_read:
  assumes "steady canon st" "f (pg_envs st (pg_tick st)) (pg_db st) = (pg_db st, r)"
  shows "pg_run f st = (st\<lparr>pg_tick := Suc (pg_tick st)\<rparr>, r)"
  using assms by (simp add: pg_run_def steady_def Let_def)

lemma pg_run_read_at:
  "steady canon st \<Longrightarrow> f (pg_envs st n) (pg_db st) = (pg_db st, r) \<Longrightarrow>
   pg_run f (st\<lparr>pg_tick := n\<rparr>) = (st\<lparr>pg_tick := Suc n\<rparr>, r)"
  using pg_run_read [of canon "st\<lparr>pg_tick := n\<rparr>"] by simp

section \<open>Batched hydration\<close>

lemma sort_key_map_inj: "sort_key k (map f xs) = map f (sort_key (\<lambda>x. k (f x)) xs)"
proof (induction xs)
  case (Cons x xs)
  have "insort_key k (f x) (map f ys) = map f (insort_key (\<lambda>x. k (f x)) x ys)" for ys
    by (induction ys) auto
  with Cons show ?case by simp
qed simp

lemma sort_key_same_order:
  "(\<And>a b. k a \<le> k b \<longleftrightarrow> k' a \<le> k' b) \<Longrightarrow> sort_key k xs = sort_key k' xs"
proof (induction xs)
  case (Cons x xs)
  have "insort_key k x ys = insort_key k' x ys" for ys
    by (induction ys) (simp_all add: Cons.prems)
  with Cons show ?case by simp
qed simp

lemma remdups_map_inj: "inj f \<Longrightarrow> remdups (map f xs) = map f (remdups xs)"
  by (induction xs) (auto simp: inj_def)

text \<open>The rows of one message, out of the rows of the batch.\<close>

lemma values_of_sorted:
  "values_of i (sort (map (\<lambda>r. (g r, h r)) rows)) = sort (map h (filter (\<lambda>r. g r = i) rows))"
proof -
  have "filter (\<lambda>p. fst p = i) (map (\<lambda>r. (g r, h r)) rows) = map (Pair i) (map h (filter (\<lambda>r. g r = i) rows))"
    by (induction rows) auto
  then have "values_of i (sort (map (\<lambda>r. (g r, h r)) rows)) = map snd (sort (map (Pair i) (map h (filter (\<lambda>r. g r = i) rows))))"
    by (simp add: values_of_def filter_sort)
  also have "\<dots> = sort (map h (filter (\<lambda>r. g r = i) rows))"
  proof -
    have "sort_key (\<lambda>x. (i, h x)) xs = sort_key h xs" for xs
      by (rule sort_key_same_order) simp
    then show ?thesis by (simp only: sort_key_map_inj map_map o_def snd_conv map_ident)
  qed
  finally show ?thesis .
qed

text \<open>The groups of one message, out of the groups of the batch.\<close>

lemma values_of_groups:
  "values_of i (map (\<lambda>(j, e). (j, f j e)) (sort_key (\<lambda>(j, e). (j, rank e)) (remdups (map (\<lambda>r. (g r, h r)) rows)))) =
   map (f i) (sort_key rank (remdups (map h (filter (\<lambda>r. g r = i) rows))))"
proof -
  let ?ps = "remdups (map (\<lambda>r. (g r, h r)) rows)" and ?hs = "map h (filter (\<lambda>r. g r = i) rows)"
  have 1: "values_of i (map (\<lambda>(j, e). (j, f j e)) ps) = map (f i \<circ> snd) (filter (\<lambda>p. fst p = i) ps)" for ps
    by (induction ps) (auto simp: values_of_def)
  have "filter (\<lambda>p. fst p = i) (map (\<lambda>r. (g r, h r)) rows) = map (Pair i) ?hs"
    by (induction rows) auto
  then have 2: "filter (\<lambda>p. fst p = i) ?ps = map (Pair i) (remdups ?hs)"
    by (simp only: remdups_filter [symmetric] remdups_map_inj [of "Pair i"] inj_def prod.inject simp_thms)
  have 3: "sort_key (\<lambda>x. (i, rank x)) xs = sort_key rank xs" for xs
    by (rule sort_key_same_order) simp
  show ?thesis
    by (simp only: 1 filter_sort 2 sort_key_map_inj map_map o_def snd_conv case_prod_conv 3)
qed

lemma filter_filter_id:
  "filter (\<lambda>r. a r \<and> b r = i) xs = filter (\<lambda>r. b r = i) (filter a xs)"
  by (simp add: conj_commute)

text \<open>The two queries of a single hydration, and those of a batch.\<close>

definition mentions_of :: "message_db \<Rightarrow> string \<Rightarrow> string \<Rightarrow> string list" where
  "mentions_of db w i = sort (map ye_user_id (filter (is_mention w i) (yz_mentions db)))"

definition reactions_of :: "message_pg_config \<Rightarrow> message_db \<Rightarrow> string option \<Rightarrow> string \<Rightarrow> string \<Rightarrow> reaction_summary list" where
  "reactions_of cfg db u w i =
    summarize_reactions cfg u (filter (\<lambda>r. yf_workspace_id r = w \<and> yf_message_id r = i) (yz_reactions db))"

definition hydrated :: "message_pg_config \<Rightarrow> message_db \<Rightarrow> string option \<Rightarrow> message_row \<Rightarrow> message" where
  "hydrated cfg db u m =
    with_relations m (mentions_of db (mg_workspace_id m) (mg_id m)) (reactions_of cfg db u (mg_workspace_id m) (mg_id m))"

lemma hydrate_message_steady:
  assumes "steady canon st" "canon (mg_workspace_id m) = Some (mg_workspace_id m)" "canon (mg_id m) = Some (mg_id m)"
    and "\<And>n. uuid_or_null (pg_envs st n) actor = Inr u"
  shows "hydrate_message cfg m actor st = (st\<lparr>pg_tick := Suc (Suc (pg_tick st))\<rparr>, Inr (hydrated cfg (pg_db st) u m))"
proof -
  have "pg_run (\<lambda>env. pg_message_mentions env (mg_workspace_id m) (mg_id m)) st =
    (st\<lparr>pg_tick := Suc (pg_tick st)\<rparr>, Inr (mentions_of (pg_db st) (mg_workspace_id m) (mg_id m)))"
    by (rule pg_run_read [OF assms(1)]) (use assms in \<open>simp add: pg_message_mentions_def mentions_of_def is_mention_def [abs_def]\<close>)
  moreover have "pg_run (\<lambda>env. pg_message_reactions cfg env (mg_workspace_id m) (mg_id m) actor) (st\<lparr>pg_tick := t\<rparr>) =
    (st\<lparr>pg_tick := Suc t\<rparr>, Inr (reactions_of cfg (pg_db st) u (mg_workspace_id m) (mg_id m)))" for t
    by (rule pg_run_read_at [OF assms(1)]) (use assms in \<open>simp add: pg_message_reactions_def reactions_of_def\<close>)
  ultimately show ?thesis
    by (simp add: hydrate_message_def tx_bind_def tx_return_def hydrated_def)
qed

lemma scan_uuids_canonical:
  "(\<And>i. i \<in> set is \<Longrightarrow> uuid_param env i = Inr i) \<Longrightarrow> scan_uuids env is = Inr is"
  by (induction "is") simp_all

lemma batch_mentions:
  "i \<in> set ids \<Longrightarrow> values_of i (sort (map (\<lambda>r. (ye_message_id r, ye_user_id r))
     (filter (\<lambda>r. ye_workspace_id r = w \<and> ye_message_id r \<in> set ids) (yz_mentions db)))) = mentions_of db w i"
  unfolding values_of_sorted mentions_of_def is_mention_def [abs_def] filter_filter
  by (rule arg_cong [where f = "\<lambda>rows. sort (map ye_user_id rows)"], rule filter_cong) auto

lemma batch_reactions:
  assumes "uuid_param env w = Inr w" "uuid_or_null env actor = Inr u"
  shows "\<exists>groups. pg_reactions_batch cfg env w ids actor db = (db, Inr groups) \<and>
    (\<forall>i\<in>set ids. values_of i groups = reactions_of cfg db u w i)"
proof -
  let ?rows = "filter (\<lambda>r. yf_workspace_id r = w \<and> yf_message_id r \<in> set ids) (yz_reactions db)"
  let ?one = "\<lambda>i. filter (\<lambda>r. yf_workspace_id r = w \<and> yf_message_id r = i) (yz_reactions db)"
  have one: "filter (\<lambda>r. yf_message_id r = i) ?rows = ?one i" if "i \<in> set ids" for i
    unfolding filter_filter by (rule filter_cong) (use that in auto)
  have c: "filter (\<lambda>r. yf_message_id r = i \<and> yf_emoji r = e) ?rows = filter (\<lambda>r. yf_emoji r = e) (?one i)"
    if "i \<in> set ids" for i e
    unfolding one [OF that, symmetric] filter_filter by (rule filter_cong) auto
  have l: "list_ex (\<lambda>r. yf_message_id r = i \<and> P r) ?rows = list_ex P (?one i)" if "i \<in> set ids" for i P
    unfolding one [OF that, symmetric] by (auto simp: list_ex_iff)
  show ?thesis
    using assms unfolding pg_reactions_batch_def reactions_of_def summarize_reactions_def
    by (simp add: values_of_groups Let_def one c l del: filter_filter)
qed

text \<open>What the rows of a page and the reader have to be: stored identifiers, an identifier or nobody.\<close>

definition page_of :: "(string \<Rightarrow> string option) \<Rightarrow> string \<Rightarrow> message_row list \<Rightarrow> bool" where
  "page_of canon w rows \<longleftrightarrow> canon w = Some w \<and>
     list_all (\<lambda>m. mg_workspace_id m = w \<and> canon (mg_id m) = Some (mg_id m)) rows"

definition reader :: "(string \<Rightarrow> string option) \<Rightarrow> string \<Rightarrow> string option \<Rightarrow> bool" where
  "reader canon actor u \<longleftrightarrow> (if actor = [] then u = None else u = canon actor \<and> u \<noteq> None)"

lemma reader_param: "steady canon st \<Longrightarrow> reader canon actor u \<Longrightarrow> uuid_or_null (pg_envs st n) actor = Inr u"
  by (auto simp: reader_def split: if_splits)

lemma hydrate_messages_steady:
  assumes "steady canon st" "page_of canon w rows" "reader canon actor u"
  shows "\<exists>n. hydrate_messages cfg rows actor st = (st\<lparr>pg_tick := n\<rparr>, Inr (map (hydrated cfg (pg_db st) u) rows))"
proof (cases "rows = []")
  case True
  have "st = st\<lparr>pg_tick := pg_tick st\<rparr>" by simp
  with True show ?thesis by (auto simp: hydrate_messages_def tx_return_def intro!: exI [of _ "pg_tick st"])
next
  case False
  let ?ids = "map mg_id rows" and ?t = "pg_tick st"
  have w: "canon w = Some w" "mg_workspace_id (hd rows) = w" and rows: "\<And>m. m \<in> set rows \<Longrightarrow> mg_workspace_id m = w"
    and ids: "scan_uuids (pg_envs st n) ?ids = Inr ?ids" for n
    using assms(1,2) False by (auto simp: page_of_def list_all_iff intro!: scan_uuids_canonical)
  let ?mentions = "sort (map (\<lambda>r. (ye_message_id r, ye_user_id r))
     (filter (\<lambda>r. ye_workspace_id r = w \<and> ye_message_id r \<in> set ?ids) (yz_mentions (pg_db st))))"
  have m: "pg_run (\<lambda>env. tx_bind (tx_lift (scan_uuids env ?ids)) (\<lambda>ids. pg_mentions_batch env w ids)) st =
    (st\<lparr>pg_tick := Suc ?t\<rparr>, Inr ?mentions)"
    by (rule pg_run_read [OF assms(1)]) (use assms(1) w ids in \<open>simp add: tx_bind_def tx_lift_def pg_mentions_batch_def\<close>)
  have u: "uuid_param (pg_envs st n) w = Inr w" for n using assms(1) w by simp
  from batch_reactions [OF u reader_param [OF assms(1,3)]] obtain groups where
    g: "pg_reactions_batch cfg (pg_envs st (Suc ?t)) w ?ids actor (pg_db st) = (pg_db st, Inr groups)"
      "\<forall>i\<in>set ?ids. values_of i groups = reactions_of cfg (pg_db st) u w i" by blast
  have "pg_run (\<lambda>env. tx_bind (tx_lift (scan_uuids env ?ids)) (\<lambda>ids. pg_reactions_batch cfg env w ids actor))
      (st\<lparr>pg_tick := Suc ?t\<rparr>) = (st\<lparr>pg_tick := Suc (Suc ?t)\<rparr>, Inr groups)"
    by (rule pg_run_read_at [OF assms(1)]) (use ids g(1) in \<open>simp add: tx_bind_def tx_lift_def\<close>)
  with m False w(2) have "hydrate_messages cfg rows actor st = (st\<lparr>pg_tick := Suc (Suc ?t)\<rparr>,
      Inr (map (\<lambda>row. with_relations row (values_of (mg_id row) ?mentions) (values_of (mg_id row) groups)) rows))"
    by (simp add: hydrate_messages_def tx_bind_def [of "pg_run _"] tx_return_def)
  moreover have "with_relations row (values_of (mg_id row) ?mentions) (values_of (mg_id row) groups) = hydrated cfg (pg_db st) u row"
    if "row \<in> set rows" for row
    using that g(2) rows [OF that] batch_mentions [of "mg_id row" ?ids w "pg_db st"] by (simp add: hydrated_def)
  ultimately show ?thesis by auto
qed

text \<open>
  C21. Hydrating a page in two batched queries gives every message the mentions and reactions that
  hydrating it alone gives, in the same order.
\<close>

theorem hydrate_batch_agrees:
  assumes "steady canon st" "page_of canon w rows" "reader canon actor u"
  shows "\<exists>ms. snd (hydrate_messages cfg rows actor st) = Inr ms \<and>
    list_all2 (\<lambda>row m. snd (hydrate_message cfg row actor st) = Inr m) rows ms"
proof -
  have "snd (hydrate_message cfg row actor st) = Inr (hydrated cfg (pg_db st) u row)" if "row \<in> set rows" for row
    using hydrate_message_steady [where actor = actor and u = u and m = row, OF assms(1)] reader_param [OF assms(1,3)] assms(2) that
    by (simp add: page_of_def list_all_iff)
  then have "list_all2 (\<lambda>row m. snd (hydrate_message cfg row actor st) = Inr m) rows (map (hydrated cfg (pg_db st) u) rows)"
    by (simp add: list.rel_map list_all2_same)
  with hydrate_messages_steady [OF assms, of cfg] show ?thesis by auto
qed

section \<open>Following the cursor\<close>

lemma newest_first_filter: "newest_first (filter p rows) = filter p (newest_first rows)"
  by (simp add: newest_first_def filter_sort rev_filter [symmetric])

lemma set_newest_first [simp]: "set (newest_first rows) = set rows"
  by (simp add: newest_first_def)

text \<open>Messages with different identifiers are in a strict order, so a row is followed by the smaller ones.\<close>

lemma newest_first_strict:
  assumes "distinct (map mg_id rows)"
  shows "sorted_wrt (\<lambda>a b. timeline_key b < timeline_key a) (newest_first rows)"
proof -
  have "inj_on timeline_key (set rows)"
    using assms by (auto simp: timeline_key_def distinct_map inj_on_def)
  then have "distinct (map timeline_key (sort_key timeline_key rows))"
    using assms by (simp add: distinct_map)
  then have "sorted_wrt (<) (map timeline_key (sort_key timeline_key rows))"
    by (simp add: strict_sorted_iff)
  then show ?thesis by (simp add: newest_first_def sorted_wrt_rev sorted_wrt_map)
qed

lemma after_row:
  assumes "sorted_wrt (\<lambda>a b. timeline_key b < timeline_key a) (ys @ b # zs)"
  shows "filter (\<lambda>m. timeline_key m < timeline_key b) (ys @ b # zs) = zs"
proof -
  have "\<not> timeline_key y < timeline_key b" if "y \<in> set ys" for y
    using assms that by (auto simp: sorted_wrt_append dest: less_asym)
  then show ?thesis
    using assms by (simp add: sorted_wrt_append filter_empty_conv filter_id_conv)
qed

text \<open>An identifier as the database prints it; a table of messages with such identifiers.\<close>

definition plain_id :: "(string \<Rightarrow> string option) \<Rightarrow> string \<Rightarrow> bool" where
  "plain_id canon i \<longleftrightarrow> i \<noteq> [] \<and> trim_space i = i \<and> canon i = Some i"

definition row_key :: "message_row \<Rightarrow> string \<times> string" where
  "row_key m = (mg_workspace_id m, mg_id m)"

definition ids_unique :: "(string \<Rightarrow> string option) \<Rightarrow> message_db \<Rightarrow> bool" where
  "ids_unique canon db \<longleftrightarrow> distinct (map row_key (yz_messages db)) \<and> list_all (\<lambda>m. plain_id canon (mg_id m)) (yz_messages db)"

definition timeline :: "message_db \<Rightarrow> string \<Rightarrow> string \<Rightarrow> string \<Rightarrow> message_row list" where
  "timeline db w c u = newest_first (visible db w c u)"

lemma timeline_strict:
  assumes "ids_unique canon db"
  shows "sorted_wrt (\<lambda>a b. timeline_key b < timeline_key a) (timeline db w c u)"
proof -
  have "distinct (map mg_id (visible db w c u))"
    using assms by (auto simp: ids_unique_def visible_def distinct_map inj_on_def row_key_def)
  then show ?thesis unfolding timeline_def by (rule newest_first_strict)
qed

text \<open>The rows a query reads from the start of the timeline, and from behind a row of it.\<close>

definition cursor_at :: "message_row list \<Rightarrow> string" where
  "cursor_at ys = (if ys = [] then [] else mg_id (last ys))"

lemma list_rows_from:
  assumes st: "steady canon st" and ids: "ids_unique canon (pg_db st)"
    and p: "canon (xl_workspace_id p) = Some w" "canon (xl_channel_id p) = Some c" "canon (xl_actor p) = Some u"
    and split: "timeline (pg_db st) w c u = ys @ zs" and cur: "xl_before_id p = cursor_at ys"
  shows "pg_list_rows (pg_envs st n) p (pg_db st) = (pg_db st, Inr (take (nat (xl_limit p)) zs))"
proof (cases "ys = []")
  case True
  with st p split cur show ?thesis
    by (simp add: pg_list_rows_def uuid3_def cursor_at_def timeline_def Let_def)
next
  case False
  define b where "b = last ys"
  have sp: "timeline (pg_db st) w c u = butlast ys @ b # zs" and cb: "xl_before_id p = mg_id b"
    using split cur False by (simp_all add: b_def cursor_at_def)
  from sp have "b \<in> set (timeline (pg_db st) w c u)" by simp
  then have b: "b \<in> set (yz_messages (pg_db st))" "mg_workspace_id b = w"
    by (auto simp: timeline_def visible_def)
  then have pb: "mg_id b \<noteq> []" "canon (mg_id b) = Some (mg_id b)" and d: "distinct (map row_key (yz_messages (pg_db st)))"
    using ids by (auto simp: ids_unique_def list_all_iff plain_id_def)
  have "filter (\<lambda>x. mg_workspace_id x = w \<and> Some (mg_id b) = Some (mg_id x)) (yz_messages (pg_db st)) =
      filter (\<lambda>x. row_key x = row_key b) (yz_messages (pg_db st))"
    by (rule filter_cong) (use b in \<open>auto simp: row_key_def\<close>)
  then have rows: "filter (\<lambda>x. mg_workspace_id x = w \<and> Some (mg_id b) = Some (mg_id x)) (yz_messages (pg_db st)) = [b]"
    using filter_unique_key [OF d b(1)] by simp
  have "newest_first (filter (\<lambda>m. timeline_key m < timeline_key b) (visible (pg_db st) w c u)) = zs"
    using after_row [OF timeline_strict [OF ids, of w c u, unfolded sp]] sp
    by (simp add: newest_first_filter timeline_def)
  with st p cb pb rows show ?thesis
    by (simp add: pg_list_rows_def uuid3_def Let_def)
qed

text \<open>A service over the PostgreSQL repository, and a request it lets through.\<close>

definition may_list :: "(string \<Rightarrow> string option) \<Rightarrow> message_db pg message_service \<Rightarrow> message_list_params \<Rightarrow> bool" where
  "may_list canon s p \<longleftrightarrow> plain_id canon (xl_workspace_id p) \<and> plain_id canon (xl_channel_id p) \<and> plain_id canon (xl_actor p) \<and>
     mv_checker s (xl_actor p) (xl_workspace_id p) ''message.send'' = Inr True"

definition dto_for :: "message_pg_config \<Rightarrow> message_db \<Rightarrow> message_list_params \<Rightarrow> message_row \<Rightarrow> message_dto" where
  "dto_for cfg db p m = to_message_dto (hydrated cfg db (Some (xl_actor p)) m)"

definition timeline_of :: "message_db \<Rightarrow> message_list_params \<Rightarrow> message_row list" where
  "timeline_of db p = timeline db (xl_workspace_id p) (xl_channel_id p) (xl_actor p)"

lemma timeline_of_before [simp]: "timeline_of db (p\<lparr>xl_before_id := i\<rparr>) = timeline_of db p" "dto_for cfg db (p\<lparr>xl_before_id := i\<rparr>) = dto_for cfg db p"
  by (simp_all add: timeline_of_def dto_for_def fun_eq_iff)

lemma may_list_before [simp]: "may_list canon s (p\<lparr>xl_before_id := i\<rparr>) = may_list canon s p"
  by (simp add: may_list_def)

lemma timeline_of_page:
  assumes "ids_unique canon db" "plain_id canon (xl_workspace_id p)"
  shows "page_of canon (xl_workspace_id p) (timeline_of db p)" "m \<in> set (timeline_of db p) \<Longrightarrow> plain_id canon (mg_id m)"
  using assms by (auto simp: page_of_def timeline_of_def timeline_def visible_def ids_unique_def list_all_iff plain_id_def)

lemma cursor_at_trim:
  assumes "ids_unique canon db" "plain_id canon (xl_workspace_id p)" "timeline_of db p = ys @ zs"
  shows "trim_space (cursor_at ys) = cursor_at ys"
proof (cases "ys = []")
  case False
  then have "last ys \<in> set (timeline_of db p)" by (simp add: assms(3))
  from timeline_of_page(2) [OF assms(1,2) this] show ?thesis by (simp add: cursor_at_def False plain_id_def)
qed (simp add: cursor_at_def)

lemma list_page:
  assumes st: "steady canon (mw_store w0)" and ids: "ids_unique canon (pg_db (mw_store w0))"
    and s: "mv_repo s = message_pg cfg" "may_list canon s p"
    and split: "timeline_of (pg_db (mw_store w0)) p = ys @ zs" and cur: "xl_before_id p = cursor_at ys"
    and L: "L = nat (normalize_limit (xl_limit p))"
  shows "\<exists>n. message_list s p w0 = (w0\<lparr>mw_store := (mw_store w0)\<lparr>pg_tick := n\<rparr>\<rparr>,
    Inr (map (dto_for cfg (pg_db (mw_store w0)) p) (take L zs),
      page_info (L < length zs) (if L < length zs then mg_id (last (take L zs)) else [])))"
proof -
  let ?st = "mw_store w0" and ?limit = "normalize_limit (xl_limit p)"
  let ?q = "\<lparr>xl_workspace_id = xl_workspace_id p, xl_channel_id = xl_channel_id p, xl_actor = xl_actor p,
     xl_limit = ?limit + 1, xl_before_id = xl_before_id p\<rparr>"
  have L1: "1 \<le> L" "nat (?limit + 1) = Suc L" "?limit = int L" using normalize_limit_range [of "xl_limit p"] L by linarith+
  have plain: "plain_id canon (xl_workspace_id p)" "plain_id canon (xl_channel_id p)" "plain_id canon (xl_actor p)"
    using s(2) by (simp_all add: may_list_def)
  have trims: "trim_space (xl_workspace_id p) = xl_workspace_id p" "trim_space (xl_channel_id p) = xl_channel_id p"
    "trim_space (xl_actor p) = xl_actor p" "trim_space (xl_before_id p) = xl_before_id p"
    using plain cursor_at_trim [OF ids plain(1) split] cur by (simp_all add: plain_id_def)
  have perm: "ensure_permission s (xl_actor p) (xl_workspace_id p) ''message.send'' = None"
    using s(2) trims by (simp add: ensure_permission_def may_list_def)
  let ?rows = "take (Suc L) zs"
  have rows: "pg_run (\<lambda>env. pg_list_rows env ?q) ?st = (?st\<lparr>pg_tick := Suc (pg_tick ?st)\<rparr>, Inr ?rows)"
  proof (rule pg_run_read [OF st])
    show "pg_list_rows (pg_envs ?st (pg_tick ?st)) ?q (pg_db ?st) = (pg_db ?st, Inr ?rows)"
      using list_rows_from [OF st ids, where p = ?q and ys = ys and zs = zs] plain split cur L1
      by (simp add: plain_id_def timeline_of_def)
  qed
  have page: "page_of canon (xl_workspace_id p) ?rows"
    using timeline_of_page(1) [OF ids plain(1)] split by (auto simp: page_of_def list_all_iff dest: in_set_takeD)
  have rd: "reader canon (xl_actor p) (Some (xl_actor p))" using plain by (simp add: reader_def plain_id_def)
  obtain n where h: "hydrate_messages cfg ?rows (xl_actor p) (?st\<lparr>pg_tick := Suc (pg_tick ?st)\<rparr>) =
      (?st\<lparr>pg_tick := n\<rparr>, Inr (map (hydrated cfg (pg_db ?st) (Some (xl_actor p))) ?rows))"
    using hydrate_messages_steady [of canon "?st\<lparr>pg_tick := Suc (pg_tick ?st)\<rparr>", OF _ page rd] st by auto
  have "mr_list (mv_repo s) ?q ?st = (?st\<lparr>pg_tick := n\<rparr>, Inr (map (hydrated cfg (pg_db ?st) (Some (xl_actor p))) ?rows))"
    by (simp add: s(1) message_pg_def pg_message_list_def tx_bind_def rows h)
  then have "message_list s p w0 = (w0\<lparr>mw_store := ?st\<lparr>pg_tick := n\<rparr>\<rparr>,
      let ms = map (hydrated cfg (pg_db ?st) (Some (xl_actor p))) ?rows; further = int L < int (length ms); page = cut_page (int L) ms
      in Inr (map to_message_dto page, page_info further (if further \<and> page \<noteq> [] then mg_id (last page) else [])))"
    using L1(3) unfolding message_list_def checked_def perm trims
    by (simp add: tx_bind_def tx_map_error_def in_store_def tx_return_def Let_def)
  moreover have "(let ms = map (hydrated cfg (pg_db ?st) (Some (xl_actor p))) ?rows; further = int L < int (length ms); page = cut_page (int L) ms
      in Inr (map to_message_dto page, page_info further (if further \<and> page \<noteq> [] then mg_id (last page) else []))) =
    (Inr (map (dto_for cfg (pg_db ?st) p) (take L zs), page_info (L < length zs) (if L < length zs then mg_id (last (take L zs)) else []))
      :: (message_dto list \<times> page_meta) result)"
  proof -
    have "take L zs \<noteq> []" if "L < length zs" using that L1 by auto
    then show ?thesis using L1(1)
      by (auto simp: Let_def cut_page_def dto_for_def take_map last_map hydrated_def with_relations_def message_row.defs)
  qed
  ultimately show ?thesis by auto
qed

text \<open>A client that asks for the next page as long as there is one.\<close>

fun follow_pages :: "'s message_service \<Rightarrow> nat \<Rightarrow> message_list_params \<Rightarrow> 's message_world \<Rightarrow> message_dto list option" where
  "follow_pages s 0 p w = None"
| "follow_pages s (Suc n) p w =
    (case message_list s p w of
       (w1, Inl e) \<Rightarrow> None
     | (w1, Inr (ds, info)) \<Rightarrow>
         if pm_has_more info
         then map_option ((@) ds) (follow_pages s n (p\<lparr>xl_before_id := pm_next_cursor info\<rparr>) w1)
         else Some ds)"

lemma follow_pages_from:
  assumes "steady canon (mw_store w0)" "ids_unique canon (pg_db (mw_store w0))"
    and "mv_repo s = message_pg cfg" "may_list canon s p"
    and "timeline_of (pg_db (mw_store w0)) p = ys @ zs" "xl_before_id p = cursor_at ys" "length zs < fuel"
  shows "follow_pages s fuel p w0 = Some (map (dto_for cfg (pg_db (mw_store w0)) p) zs)"
  using assms
proof (induction fuel arbitrary: p ys zs w0)
  case (Suc fuel)
  define L where "L = nat (normalize_limit (xl_limit p))"
  have "1 \<le> L" using normalize_limit_range [of "xl_limit p"] unfolding L_def by linarith
  from list_page [OF Suc.prems(1-6) L_def] obtain n where
    page: "message_list s p w0 = (w0\<lparr>mw_store := (mw_store w0)\<lparr>pg_tick := n\<rparr>\<rparr>,
      Inr (map (dto_for cfg (pg_db (mw_store w0)) p) (take L zs),
        page_info (L < length zs) (if L < length zs then mg_id (last (take L zs)) else [])))" by blast
  show ?case
  proof (cases "L < length zs")
    case False
    with page show ?thesis by (simp add: page_info_def)
  next
    case True
    let ?w1 = "w0\<lparr>mw_store := (mw_store w0)\<lparr>pg_tick := n\<rparr>\<rparr>" and ?p1 = "p\<lparr>xl_before_id := mg_id (last (take L zs))\<rparr>"
    have "take L zs \<noteq> []" using True \<open>1 \<le> L\<close> by auto
    then have cur: "xl_before_id ?p1 = cursor_at (ys @ take L zs)" by (simp add: cursor_at_def)
    have "follow_pages s fuel ?p1 ?w1 = Some (map (dto_for cfg (pg_db (mw_store ?w1)) ?p1) (drop L zs))"
      by (rule Suc.IH [OF _ _ _ _ _ cur]) (use Suc.prems True \<open>1 \<le> L\<close> in simp_all)
    with page True show ?thesis
      by (simp add: page_info_def) (simp only: map_append [symmetric] append_take_drop_id)
  qed
qed simp

text \<open>
  C19. A client that follows \<open>NextCursor\<close> until \<open>HasMore\<close> is false gets every live message of the channel
  exactly once, from the newest to the oldest, whatever page size it asks for.
\<close>

theorem pages_cover_timeline:
  assumes "steady canon (mw_store w0)" "ids_unique canon (pg_db (mw_store w0))"
    and "mv_repo s = message_pg cfg" "may_list canon s p" "xl_before_id p = []"
    and "length (timeline_of (pg_db (mw_store w0)) p) < fuel"
  shows "follow_pages s fuel p w0 =
    Some (map (dto_for cfg (pg_db (mw_store w0)) p) (timeline_of (pg_db (mw_store w0)) p))"
  by (rule follow_pages_from [OF assms(1-4), of "[]"]) (simp_all add: assms(5,6) cursor_at_def)

end
