(* ===== verification/Msg_Props.thy ===== *)
theory Msg_Props
  imports Msg_Reads
begin

text \<open>
  What the statements of the messages repository keep: the integrity of the message table (identifiers,
  client identifiers, threads, pins) and the fields of a message nothing changes.
\<close>

section \<open>The invariant\<close>

text \<open>What never changes of a message, and that a deleted one is never touched again.\<close>

definition frozen :: "message_row \<Rightarrow> message_row \<Rightarrow> bool" where
  "frozen m m' \<longleftrightarrow> row_key m' = row_key m \<and> mg_channel_id m' = mg_channel_id m \<and> mg_sender_id m' = mg_sender_id m \<and>
     mg_parent_id m' = mg_parent_id m \<and> mg_thread_root_id m' = mg_thread_root_id m \<and> mg_kind m' = mg_kind m \<and>
     mg_metadata m' = mg_metadata m \<and> mg_created_at m' = mg_created_at m \<and> (mg_deleted_at m \<noteq> None \<longrightarrow> m' = m)"

definition same_place :: "message_row \<Rightarrow> message_row \<Rightarrow> bool" where
  "same_place m x \<longleftrightarrow> mg_workspace_id x = mg_workspace_id m \<and> mg_channel_id x = mg_channel_id m"

text \<open>Threads are one level deep: a reply names the root of its parent, and roots are not replies.\<close>

definition thread_ok :: "message_row list \<Rightarrow> message_row \<Rightarrow> bool" where
  "thread_ok rows m \<longleftrightarrow>
     (case mg_parent_id m of
        None \<Rightarrow> mg_thread_root_id m = None
      | Some q \<Rightarrow> \<exists>y\<in>set rows. same_place m y \<and> mg_id y = q \<and> mg_thread_root_id m = Some (thread_root y)) \<and>
     (case mg_thread_root_id m of
        None \<Rightarrow> True
      | Some r \<Rightarrow> \<exists>x\<in>set rows. same_place m x \<and> mg_id x = r \<and> mg_thread_root_id x = None)"

definition threads_ok :: "message_db \<Rightarrow> bool" where
  "threads_ok db \<longleftrightarrow> list_all (thread_ok (yz_messages db)) (yz_messages db)"

definition clients_unique :: "message_db \<Rightarrow> bool" where
  "clients_unique db \<longleftrightarrow> (\<forall>m\<in>set (yz_messages db). \<forall>m'\<in>set (yz_messages db).
     client_key m \<noteq> None \<longrightarrow> client_key m' = client_key m \<longrightarrow> m' = m)"

definition pins_ok :: "message_db \<Rightarrow> bool" where
  "pins_ok db \<longleftrightarrow> list_all (\<lambda>pin. list_ex (\<lambda>m. mg_workspace_id m = yg_workspace_id pin \<and>
     mg_channel_id m = yg_channel_id pin \<and> mg_id m = yg_message_id pin) (yz_messages db)) (yz_pins db)"

definition messages_ok :: "(string \<Rightarrow> string option) \<Rightarrow> message_db \<Rightarrow> bool" where
  "messages_ok canon db \<longleftrightarrow> ids_unique canon db \<and> clients_unique db \<and> threads_ok db \<and> pins_ok db"

lemma frozen_refl [simp]: "frozen m m"
  by (simp add: frozen_def)

lemma frozen_trans: "frozen a b \<Longrightarrow> frozen b c \<Longrightarrow> frozen a c"
  unfolding frozen_def by (cases "mg_deleted_at a = None") auto

lemma frozen_client_key: "frozen m m' \<Longrightarrow> client_key m' = None \<or> client_key m' = client_key m"
  by (cases "mg_deleted_at m = None")
    (auto simp: frozen_def client_key_def client_id_of_def row_key_def split: option.splits)

lemma frozen_thread: "frozen m m' \<Longrightarrow> thread_root m' = thread_root m \<and> same_place m m'"
  by (auto simp: frozen_def thread_root_def row_key_def same_place_def split: option.splits)

section \<open>Changes\<close>

text \<open>
  \<open>changes E D\<close>: every message is still there, and only messages whose key is in \<open>E\<close> have another body,
  only those whose key is in \<open>D\<close> another deletion time.
\<close>

definition changes :: "(string \<times> string) set \<Rightarrow> (string \<times> string) set \<Rightarrow> message_row list \<Rightarrow> message_row list \<Rightarrow> bool" where
  "changes E D rows rows' \<longleftrightarrow> (\<forall>m\<in>set rows. \<exists>m'\<in>set rows'. frozen m m' \<and>
     (mg_body m' \<noteq> mg_body m \<longrightarrow> row_key m \<in> E) \<and> (mg_deleted_at m' \<noteq> mg_deleted_at m \<longrightarrow> row_key m \<in> D))"

lemma changes_refl [simp]: "changes E D rows rows"
  unfolding changes_def by (auto intro!: rev_bexI)

lemma changes_trans: "changes E D a b \<Longrightarrow> changes E D b c \<Longrightarrow> changes E D a c"
  unfolding changes_def
proof (intro ballI)
  fix m assume ab: "\<forall>m\<in>set a. \<exists>m'\<in>set b. frozen m m' \<and>
     (mg_body m' \<noteq> mg_body m \<longrightarrow> row_key m \<in> E) \<and> (mg_deleted_at m' \<noteq> mg_deleted_at m \<longrightarrow> row_key m \<in> D)"
    and bc: "\<forall>m\<in>set b. \<exists>m'\<in>set c. frozen m m' \<and>
     (mg_body m' \<noteq> mg_body m \<longrightarrow> row_key m \<in> E) \<and> (mg_deleted_at m' \<noteq> mg_deleted_at m \<longrightarrow> row_key m \<in> D)"
    and m: "m \<in> set a"
  from ab m obtain m1 where 1: "m1 \<in> set b" "frozen m m1" "mg_body m1 \<noteq> mg_body m \<longrightarrow> row_key m \<in> E"
    "mg_deleted_at m1 \<noteq> mg_deleted_at m \<longrightarrow> row_key m \<in> D" by blast
  from bc 1(1) obtain m2 where 2: "m2 \<in> set c" "frozen m1 m2" "mg_body m2 \<noteq> mg_body m1 \<longrightarrow> row_key m1 \<in> E"
    "mg_deleted_at m2 \<noteq> mg_deleted_at m1 \<longrightarrow> row_key m1 \<in> D" by blast
  have k: "row_key m1 = row_key m" using 1(2) by (simp add: frozen_def)
  show "\<exists>m'\<in>set c. frozen m m' \<and> (mg_body m' \<noteq> mg_body m \<longrightarrow> row_key m \<in> E) \<and>
     (mg_deleted_at m' \<noteq> mg_deleted_at m \<longrightarrow> row_key m \<in> D)"
    using 1(3,4) 2(3,4) k by (intro bexI [OF _ 2(1)] conjI frozen_trans [OF 1(2) 2(2)]) auto
qed

lemma changes_mono: "changes E D a b \<Longrightarrow> E \<subseteq> E' \<Longrightarrow> D \<subseteq> D' \<Longrightarrow> changes E' D' a b"
  unfolding changes_def by (meson subsetD)

lemma changes_append [simp]: "changes E D rows (rows @ new)"
  unfolding changes_def by (auto intro!: rev_bexI)

lemma changes_update:
  assumes "\<And>m. m \<in> set rows \<Longrightarrow> p m \<Longrightarrow> frozen m (f m) \<and> (mg_body (f m) \<noteq> mg_body m \<longrightarrow> row_key m \<in> E) \<and>
    (mg_deleted_at (f m) \<noteq> mg_deleted_at m \<longrightarrow> row_key m \<in> D)"
  shows "changes E D rows (update_where p f rows)"
  unfolding changes_def
proof
  fix m assume m: "m \<in> set rows"
  then have "(if p m then f m else m) \<in> set (update_where p f rows)" by (auto simp: set_update_where)
  then show "\<exists>m'\<in>set (update_where p f rows). frozen m m' \<and> (mg_body m' \<noteq> mg_body m \<longrightarrow> row_key m \<in> E) \<and>
     (mg_deleted_at m' \<noteq> mg_deleted_at m \<longrightarrow> row_key m \<in> D)"
    by (rule rev_bexI) (use assms m in auto)
qed

section \<open>The invariant under updates and insertions\<close>

lemma thread_ok_changes:
  assumes "thread_ok rows m" "changes E D rows rows'" "frozen m m'"
  shows "thread_ok rows' m'"
proof -
  have m': "mg_parent_id m' = mg_parent_id m" "mg_thread_root_id m' = mg_thread_root_id m"
    "same_place m' x = same_place m x" for x
    using assms(3) by (simp_all add: frozen_def row_key_def same_place_def)
  have ex: "\<exists>x'\<in>set rows'. frozen x x'" if "x \<in> set rows" for x
    using assms(2) that unfolding changes_def by blast
  have look: "frozen x x' \<Longrightarrow> same_place m x' = same_place m x \<and> mg_id x' = mg_id x \<and>
      thread_root x' = thread_root x \<and> mg_thread_root_id x' = mg_thread_root_id x" for x x'
    by (auto simp: frozen_def row_key_def same_place_def thread_root_def split: option.splits)
  have 1: "\<exists>y\<in>set rows'. same_place m y \<and> mg_id y = q \<and> mg_thread_root_id m = Some (thread_root y)"
    if "\<exists>y\<in>set rows. same_place m y \<and> mg_id y = q \<and> mg_thread_root_id m = Some (thread_root y)" for q
    using that ex look by metis
  have 2: "\<exists>x\<in>set rows'. same_place m x \<and> mg_id x = r \<and> mg_thread_root_id x = None"
    if "\<exists>x\<in>set rows. same_place m x \<and> mg_id x = r \<and> mg_thread_root_id x = None" for r
    using that ex look by metis
  show ?thesis
  proof -
    have "case mg_parent_id m of None \<Rightarrow> mg_thread_root_id m = None
        | Some q \<Rightarrow> \<exists>y\<in>set rows'. same_place m y \<and> mg_id y = q \<and> mg_thread_root_id m = Some (thread_root y)"
      using assms(1) 1 unfolding thread_ok_def by (cases "mg_parent_id m") simp_all
    moreover have "case mg_thread_root_id m of None \<Rightarrow> True
        | Some r \<Rightarrow> \<exists>x\<in>set rows'. same_place m x \<and> mg_id x = r \<and> mg_thread_root_id x = None"
      using assms(1) 2 unfolding thread_ok_def by (cases "mg_thread_root_id m") simp_all
    ultimately show ?thesis unfolding thread_ok_def m' by blast
  qed
qed

lemma pins_ok_changes:
  assumes "pins_ok db" "changes E D (yz_messages db) (yz_messages db')" "yz_pins db' = yz_pins db"
  shows "pins_ok db'"
proof -
  have "\<exists>m'\<in>set (yz_messages db'). mg_workspace_id m' = w \<and> mg_channel_id m' = c \<and> mg_id m' = i"
    if "\<exists>m\<in>set (yz_messages db). mg_workspace_id m = w \<and> mg_channel_id m = c \<and> mg_id m = i" for w c i
    using that assms(2) unfolding changes_def frozen_def row_key_def by fastforce
  with assms(1,3) show ?thesis by (auto simp: pins_ok_def list_all_iff list_ex_iff)
qed

lemma messages_ok_update:
  assumes "messages_ok canon db" "\<And>m. m \<in> set (yz_messages db) \<Longrightarrow> p m \<Longrightarrow> frozen m (f m)"
  shows "messages_ok canon (db\<lparr>yz_messages := update_where p f (yz_messages db)\<rparr>)"
proof -
  let ?rows = "yz_messages db" and ?rows' = "update_where p f (yz_messages db)"
  have ch: "changes UNIV UNIV ?rows ?rows'" by (rule changes_update) (use assms(2) in simp)
  have keys: "map row_key ?rows' = map row_key ?rows"
    by (rule map_update_where) (use assms(2) in \<open>simp add: frozen_def\<close>)
  then have ids: "map mg_id ?rows' = map mg_id ?rows"
    by (metis (no_types, lifting) map_map comp_def row_key_def snd_conv map_eq_conv)
  have from_old: "\<exists>m0\<in>set ?rows. frozen m0 m" if "m \<in> set ?rows'" for m
    using that assms(2) by (auto simp: set_update_where intro: rev_bexI)
  have "ids_unique canon (db\<lparr>yz_messages := ?rows'\<rparr>)"
    using assms(1) keys ids by (simp add: messages_ok_def ids_unique_def list_all_iff) (metis image_iff list.set_map)
  moreover have "clients_unique (db\<lparr>yz_messages := ?rows'\<rparr>)"
    unfolding clients_unique_def
  proof (intro ballI impI)
    fix a b assume ab: "a \<in> set (yz_messages (db\<lparr>yz_messages := ?rows'\<rparr>))" "b \<in> set (yz_messages (db\<lparr>yz_messages := ?rows'\<rparr>))"
      and k: "client_key a \<noteq> None" "client_key b = client_key a"
    from ab have "\<exists>a0\<in>set ?rows. frozen a0 a" "\<exists>b0\<in>set ?rows. frozen b0 b" by (simp_all add: from_old)
    then obtain a0 b0 where o: "a0 \<in> set ?rows" "b0 \<in> set ?rows" "frozen a0 a" "frozen b0 b" by blast
    then have "client_key a0 = client_key a" "client_key b0 = client_key b"
      using k frozen_client_key by metis+
    then have "b0 = a0" using assms(1) o(1,2) k by (simp add: messages_ok_def clients_unique_def)
    then have "row_key a = row_key b" using o(3,4) by (simp add: frozen_def)
    moreover have "distinct (map row_key ?rows')" using keys assms(1) by (simp add: messages_ok_def ids_unique_def)
    ultimately show "b = a" using key_unique ab by force
  qed
  moreover have "threads_ok (db\<lparr>yz_messages := ?rows'\<rparr>)"
    unfolding threads_ok_def list_all_iff
  proof
    fix m assume "m \<in> set (yz_messages (db\<lparr>yz_messages := ?rows'\<rparr>))"
    then obtain m0 where m0: "m0 \<in> set ?rows" "frozen m0 m" using from_old by auto
    then have "thread_ok ?rows m0" using assms(1) by (simp add: messages_ok_def threads_ok_def list_all_iff)
    from thread_ok_changes [OF this ch m0(2)] show "thread_ok (yz_messages (db\<lparr>yz_messages := ?rows'\<rparr>)) m" by simp
  qed
  moreover have "pins_ok (db\<lparr>yz_messages := ?rows'\<rparr>)"
    by (rule pins_ok_changes [of db UNIV UNIV]) (use assms(1) ch in \<open>simp_all add: messages_ok_def\<close>)
  ultimately show ?thesis by (simp add: messages_ok_def)
qed

lemma messages_ok_insert:
  assumes "messages_ok canon db" "pg_insert_message m db = (db', Inr m')"
    and "plain_id canon (mg_id m)" "thread_ok (yz_messages db) m"
  shows "messages_ok canon db'"
proof -
  let ?rows = "yz_messages db"
  have db': "db' = db\<lparr>yz_messages := ?rows @ [m]\<rparr>" and new: "row_key m \<notin> row_key ` set ?rows"
    and key: "client_key m \<noteq> None \<Longrightarrow> client_key m \<notin> client_key ` set ?rows"
    using assms(2) by (auto simp: pg_insert_message_def message_exists_def list_ex_iff row_key_def split: if_splits)
  have ch: "changes UNIV UNIV ?rows (?rows @ [m])" by simp
  have "ids_unique canon db'"
    using assms(1,3) new by (simp add: messages_ok_def ids_unique_def db')
  moreover have "clients_unique db'"
    unfolding clients_unique_def
  proof (intro ballI impI)
    fix a b assume ab: "a \<in> set (yz_messages db')" "b \<in> set (yz_messages db')" and k: "client_key a \<noteq> None" "client_key b = client_key a"
    have old: "b = a" if "a \<in> set ?rows" "b \<in> set ?rows"
      using assms(1) that k by (simp add: messages_ok_def clients_unique_def)
    have "client_key x \<noteq> client_key m" if "x \<in> set ?rows" "client_key x \<noteq> None" for x
      using key that by (metis image_eqI)
    moreover have "a \<in> set ?rows \<or> a = m" "b \<in> set ?rows \<or> b = m" using ab by (auto simp: db')
    ultimately show "b = a" using k old by metis
  qed
  moreover have "threads_ok db'"
    using assms(1,4) thread_ok_changes [OF _ ch frozen_refl] by (auto simp: messages_ok_def threads_ok_def list_all_iff db')
  moreover have "pins_ok db'"
    by (rule pins_ok_changes [of db UNIV UNIV]) (use assms(1) in \<open>simp_all add: messages_ok_def db'\<close>)
  ultimately show ?thesis by (simp add: messages_ok_def)
qed

section \<open>Statements\<close>

text \<open>The part of the state the invariant reads.\<close>

abbreviation message_core :: "message_db \<Rightarrow> message_row list \<times> pin_row list" where
  "message_core db \<equiv> (yz_messages db, yz_pins db)"

definition msg_rel :: "(string \<Rightarrow> string option) \<Rightarrow> (string \<times> string) set \<Rightarrow> (string \<times> string) set \<Rightarrow> message_db \<Rightarrow> message_db \<Rightarrow> bool" where
  "msg_rel canon E D db db' \<longleftrightarrow>
     (messages_ok canon db \<longrightarrow> messages_ok canon db') \<and> changes E D (yz_messages db) (yz_messages db')"

lemma msg_rel_preorder [simp]: "preorder_rel (msg_rel canon E D)"
  unfolding preorder_rel_def msg_rel_def using changes_trans by (auto intro: changes_refl)

lemma messages_ok_core: "message_core db' = message_core db \<Longrightarrow> messages_ok canon db' = messages_ok canon db"
  by (simp add: messages_ok_def ids_unique_def clients_unique_def threads_ok_def pins_ok_def)

lemma core_msg_rel: "tx_keeps message_core f \<Longrightarrow> tx_rel (msg_rel canon E D) f"
  by (rule tx_relI, drule (1) tx_relD) (auto simp: msg_rel_def dest: messages_ok_core [THEN iffD2, rotated])

lemma touch_direct_core: "tx_keeps message_core (touch_direct env m)"
  unfolding touch_direct_def
  by (intro tx_rel_intros preorder_keeps) (rule tx_relI, auto)

lemma outbox_core: "tx_keeps message_core (pg_insert_msg_outbox env t i e p)"
  unfolding pg_insert_msg_outbox_def
  by (intro tx_rel_intros preorder_keeps) (rule tx_relI, auto)

lemma audit_core: "tx_keeps message_core (pg_message_audit cfg env w a c i md)"
  unfolding pg_message_audit_def
  by (intro tx_rel_intros preorder_keeps tx_rel_if) (rule tx_relI, auto)

lemma search_core: "tx_keeps message_core (upsert_search_document env m)"
  unfolding upsert_search_document_def
  by (intro tx_rel_intros preorder_keeps) (rule tx_relI, auto)

lemma drop_search_core: "tx_keeps message_core (pg_drop_search_document env r)"
  unfolding pg_drop_search_document_def
  by (intro tx_rel_intros preorder_keeps) (rule tx_relI, auto)

lemma insert_mentions_core: "tx_keeps message_core (insert_mentions env w c i us)"
proof (induction us)
  case Nil
  then show ?case unfolding insert_mentions.simps by (intro tx_rel_intros preorder_keeps)
next
  case (Cons u us)
  then show ?case unfolding insert_mentions.simps
    by (intro tx_rel_intros preorder_keeps) (rule tx_relI, auto split: if_splits)
qed

lemma replace_mentions_core: "tx_keeps message_core (replace_mentions env w c i us)"
  unfolding replace_mentions_def
  by (intro tx_rel_intros preorder_keeps insert_mentions_core) (rule tx_relI, auto)

lemma direct_member_core: "message_core (foldl (upsert_direct_member c) db us) = message_core db"
  by (induction us arbitrary: db) (simp_all add: upsert_direct_member_def)

lemma ensure_direct_core: "tx_keeps message_core (ensure_direct_members env w c u)"
  unfolding ensure_direct_members_def Let_def
  by (intro tx_rel_intros preorder_keeps) (rule tx_relI, use direct_member_core in force)

lemma copy_attachments_core: "tx_keeps message_core (copy_attachments env w i j)"
  unfolding copy_attachments_def
  by (intro tx_rel_intros preorder_keeps) (rule tx_relI, auto)

lemma insert_reaction_core: "tx_keeps message_core (pg_insert_reaction env p)"
  unfolding pg_insert_reaction_def
  by (intro tx_rel_intros preorder_keeps) (rule tx_relI, auto split: if_splits)

lemma delete_reaction_core: "tx_keeps message_core (pg_delete_reaction env p)"
  unfolding pg_delete_reaction_def
  by (intro tx_rel_intros preorder_keeps) (rule tx_relI, auto split: if_splits)

lemmas side_table_cores = touch_direct_core outbox_core audit_core search_core drop_search_core replace_mentions_core
  copy_attachments_core insert_reaction_core delete_reaction_core

section \<open>The writing statements\<close>

text \<open>The keys a workspace and a message identifier of a request name: one, or none.\<close>

definition named :: "(string \<Rightarrow> string option) \<Rightarrow> string \<Rightarrow> string \<Rightarrow> (string \<times> string) set" where
  "named canon workspace message = {(w, i). canon workspace = Some w \<and> canon message = Some i}"

definition canonical_texts :: "(string \<Rightarrow> string option) \<Rightarrow> bool" where
  "canonical_texts canon \<longleftrightarrow> (\<forall>s u. canon s = Some u \<longrightarrow> plain_id canon u)"

lemma uuid_param_Inr [simp]: "uuid_param env s = Inr u \<longleftrightarrow> pe_uuid env s = Some u"
  by (simp add: uuid_param_def split: option.splits)

lemma uuid3_Inr [simp]:
  "uuid3 env a b c = Inr (x, y, z) \<longleftrightarrow> pe_uuid env a = Some x \<and> pe_uuid env b = Some y \<and> pe_uuid env c = Some z"
  by (auto simp: uuid3_def result_bind_Inr_iff)

lemma uuid4_Inr [simp]:
  "uuid4 env a b c d = Inr (x, y, z, t) \<longleftrightarrow>
   pe_uuid env a = Some x \<and> pe_uuid env b = Some y \<and> pe_uuid env c = Some z \<and> pe_uuid env d = Some t"
  by (auto simp: uuid4_def result_bind_Inr_iff)

lemma uuid_or_null_Inr: "uuid_or_null env s = Inr r \<longleftrightarrow> (if s = [] then r = None else r \<noteq> None \<and> pe_uuid env s = r)"
  by (auto simp: uuid_or_null_def split: option.splits)

lemma is_live_key: "is_live w c i m \<Longrightarrow> row_key m = (w, i) \<and> mg_channel_id m = c \<and> mg_deleted_at m = None"
  by (simp add: is_live_def row_key_def)

lemma edited_frozen: "mg_deleted_at m = None \<Longrightarrow> frozen m (edited env body m) \<and> mg_deleted_at (edited env body m) = mg_deleted_at m"
  by (simp add: frozen_def edited_def row_key_def)

lemma messages_update_rel:
  assumes "\<And>m. m \<in> set (yz_messages db) \<Longrightarrow> p m \<Longrightarrow> frozen m (f m) \<and> (mg_body (f m) \<noteq> mg_body m \<longrightarrow> row_key m \<in> E) \<and>
    (mg_deleted_at (f m) \<noteq> mg_deleted_at m \<longrightarrow> row_key m \<in> D)"
  shows "msg_rel canon E D db (db\<lparr>yz_messages := update_where p f (yz_messages db)\<rparr>)"
  using messages_ok_update [of canon db p f] changes_update [of "yz_messages db" p f E D] assms by (simp add: msg_rel_def)

lemma msg_rel_refl [simp]: "msg_rel canon E D db db"
  by (simp add: msg_rel_def)

lemma edit_message_rel:
  assumes "pe_uuid env = canon"
  shows "tx_rel (msg_rel canon (named canon (xv_workspace_id p) (xv_message_id p)) D) (pg_edit_message env p)"
proof (rule tx_relI)
  fix db db' r assume eq: "pg_edit_message env p db = (db', r)"
  consider "db' = db"
    | w c i where "canon (xv_workspace_id p) = Some w" "canon (xv_message_id p) = Some i"
      "db' = db\<lparr>yz_messages := update_where (is_live w c i) (edited env (xv_body p)) (yz_messages db)\<rparr>"
  proof (cases "uuid4 env (xv_workspace_id p) (xv_channel_id p) (xv_message_id p) (xv_actor p)")
    case (Inl e)
    with eq that(1) show ?thesis by (auto simp: pg_edit_message_def tx_bind_def tx_lift_def)
  next
    case (Inr q)
    obtain w c i u where q: "q = (w, c, i, u)" by (cases q)
    have "db' = db \<or> db' = db\<lparr>yz_messages := update_where (is_live w c i) (edited env (xv_body p)) (yz_messages db)\<rparr>"
      using eq Inr q by (simp add: pg_edit_message_def tx_bind_def tx_lift_def split: sum.splits option.splits if_splits)
    with Inr q that assms show ?thesis by auto
  qed
  then show "msg_rel canon (named canon (xv_workspace_id p) (xv_message_id p)) D db db'"
  proof cases
    case (2 w c i)
    show ?thesis unfolding 2(3)
    proof (rule messages_update_rel)
      fix m assume "is_live w c i m"
      from is_live_key [OF this] 2(1,2) edited_frozen [of m env "xv_body p"]
      show "frozen m (edited env (xv_body p) m) \<and>
          (mg_body (edited env (xv_body p) m) \<noteq> mg_body m \<longrightarrow> row_key m \<in> named canon (xv_workspace_id p) (xv_message_id p)) \<and>
          (mg_deleted_at (edited env (xv_body p) m) \<noteq> mg_deleted_at m \<longrightarrow> row_key m \<in> D)"
        by (simp add: named_def)
    qed
  qed simp
qed

lemma mark_deleted_rel:
  assumes "pe_uuid env = canon"
  shows "tx_rel (msg_rel canon E (named canon (xr_workspace_id r) (xr_message_id r))) (pg_mark_deleted env r)"
proof (rule tx_relI)
  fix db db' q assume eq: "pg_mark_deleted env r db = (db', q)"
  let ?f = "\<lambda>m. m\<lparr>mg_deleted_at := Some (pe_now env), mg_updated_at := pe_now env\<rparr>"
  consider "db' = db"
    | w c i where "canon (xr_workspace_id r) = Some w" "canon (xr_message_id r) = Some i"
      "db' = db\<lparr>yz_messages := update_where (is_live w c i) ?f (yz_messages db)\<rparr>"
  proof (cases "uuid3 env (xr_workspace_id r) (xr_channel_id r) (xr_message_id r)")
    case (Inl e)
    with eq that(1) show ?thesis by (auto simp: pg_mark_deleted_def tx_bind_def tx_lift_def)
  next
    case (Inr k)
    obtain w c i where k: "k = (w, c, i)" by (cases k)
    from eq Inr k that assms show ?thesis
      by (auto simp: pg_mark_deleted_def tx_bind_def tx_lift_def split: if_splits)
  qed
  then show "msg_rel canon E (named canon (xr_workspace_id r) (xr_message_id r)) db db'"
  proof cases
    case (2 w c i)
    show ?thesis unfolding 2(3)
      by (rule messages_update_rel) (use 2(1,2) in \<open>simp add: named_def frozen_def row_key_def is_live_def\<close>)
  qed simp
qed

lemma insert_message_rel:
  assumes "pg_insert_message m db = (db', r)" "plain_id canon (mg_id m)" "thread_ok (yz_messages db) m"
  shows "msg_rel canon E D db db'"
proof -
  have "db' = db \<or> (\<exists>m'. r = Inr m' \<and> db' = db\<lparr>yz_messages := yz_messages db @ [m]\<rparr>)"
    using assms(1) by (auto simp: pg_insert_message_def split: if_splits)
  then show ?thesis
    using messages_ok_insert [where canon = canon, OF _ _ assms(2,3)] assms(1) by (auto simp: msg_rel_def)
qed

definition canon_env :: "(string \<Rightarrow> string option) \<Rightarrow> pg_env \<Rightarrow> bool" where
  "canon_env canon env \<longleftrightarrow> canonical_texts canon \<and> pe_uuid env = canon \<and> plain_id canon (pe_fresh env)"

lemma canon_env_uuid: "canon_env canon env \<Longrightarrow> pe_uuid env = canon"
  by (simp add: canon_env_def)

lemma new_message_row_simps [simp]:
  "mg_id (new_message_row env w c u q r k b md) = pe_fresh env"
  "mg_parent_id (new_message_row env w c u q r k b md) = q"
  "mg_thread_root_id (new_message_row env w c u q r k b md) = r"
  "mg_workspace_id (new_message_row env w c u q r k b md) = w"
  "mg_channel_id (new_message_row env w c u q r k b md) = c"
  "mg_sender_id (new_message_row env w c u q r k b md) = Some u"
  "mg_metadata (new_message_row env w c u q r k b md) = md"
  "mg_deleted_at (new_message_row env w c u q r k b md) = None"
  "mg_body (new_message_row env w c u q r k b md) = b"
  by (simp_all add: new_message_row_def)

lemma insert_unthreaded_rel:
  "canon_env canon env \<Longrightarrow> tx_rel (msg_rel canon E D) (pg_insert_message (new_message_row env w c u None None k b md))"
  by (rule tx_relI, erule insert_message_rel) (simp_all add: canon_env_def thread_ok_def)

lemma forward_insert_rel:
  assumes "canon_env canon env"
  shows "tx_rel (msg_rel canon E D) (pg_forward_insert env p)"
proof -
  have "tx_rel (msg_rel canon E D) (\<lambda>db. case List.find (\<lambda>m. is_live w source i m \<and> member_in db source u) (yz_messages db) of
      None \<Rightarrow> (db, Inl err_message_not_found)
    | Some m \<Rightarrow>
        if \<not> (channel_open db w target \<and> member_in db target u) then (db, Inl err_message_not_found)
        else tx_bind (tx_lift (jsonb_param env (json_print (jsonb_append (mg_metadata m) ''forwarded_from'' (forwarded_from m)))))
          (\<lambda>md. pg_insert_message (new_message_row env w target u None None (mg_kind m) (mg_body m) md)) db)" for w source i u target
  proof (rule tx_relI)
    fix db db' r
    assume eq: "(case List.find (\<lambda>m. is_live w source i m \<and> member_in db source u) (yz_messages db) of
      None \<Rightarrow> (db, Inl err_message_not_found)
    | Some m \<Rightarrow>
        if \<not> (channel_open db w target \<and> member_in db target u) then (db, Inl err_message_not_found)
        else tx_bind (tx_lift (jsonb_param env (json_print (jsonb_append (mg_metadata m) ''forwarded_from'' (forwarded_from m)))))
          (\<lambda>md. pg_insert_message (new_message_row env w target u None None (mg_kind m) (mg_body m) md)) db) = (db', r)"
    have ins: "tx_rel (msg_rel canon E D) (tx_bind (tx_lift q)
        (\<lambda>md. pg_insert_message (new_message_row env w target u None None k b md)))" for q k b
      by (intro tx_rel_intros msg_rel_preorder insert_unthreaded_rel assms)
    from eq show "msg_rel canon E D db db'"
      by (auto split: option.splits if_splits dest: tx_relD [OF ins])
  qed
  then show ?thesis
    unfolding pg_forward_insert_def by (intro tx_rel_intros msg_rel_preorder)
qed

lemma forward_tx_rel: "canon_env canon env \<Longrightarrow> tx_rel (msg_rel canon E D) (pg_forward_tx cfg env p)"
  unfolding pg_forward_tx_def
  by (intro tx_rel_intros msg_rel_preorder forward_insert_rel core_msg_rel side_table_cores)

lemma update_tx_rel:
  "canon_env canon env \<Longrightarrow>
   tx_rel (msg_rel canon (named canon (xv_workspace_id p) (xv_message_id p)) D) (pg_update_tx env p)"
  unfolding pg_update_tx_def
  by (intro tx_rel_intros msg_rel_preorder edit_message_rel canon_env_uuid core_msg_rel side_table_cores)

lemma delete_tx_rel:
  "canon_env canon env \<Longrightarrow>
   tx_rel (msg_rel canon E (named canon (xr_workspace_id r) (xr_message_id r))) (pg_delete_tx cfg env r)"
  unfolding pg_delete_tx_def
  by (intro tx_rel_intros msg_rel_preorder mark_deleted_rel canon_env_uuid core_msg_rel side_table_cores)

subsection \<open>Sending\<close>

text \<open>What \<open>Send\<close> knows of the thread it adds to.\<close>

definition root_known :: "(string \<Rightarrow> string option) \<Rightarrow> send_params \<Rightarrow> string \<Rightarrow> message_row list \<Rightarrow> bool" where
  "root_known canon p root rows \<longleftrightarrow> xp_parent_id p = [] \<and> root = [] \<or>
     xp_parent_id p \<noteq> [] \<and> (\<exists>y\<in>set rows. canon (xp_workspace_id p) = Some (mg_workspace_id y) \<and>
       canon (xp_channel_id p) = Some (mg_channel_id y) \<and> canon (xp_parent_id p) = Some (mg_id y) \<and> root = thread_root y)"

lemma pg_thread_root_known:
  assumes "canon_env canon env" "pg_thread_root env p db = (db', Inr root)"
  shows "db' = db \<and> root_known canon p root (yz_messages db)"
proof (cases "xp_parent_id p = []")
  case True
  with assms(2) show ?thesis by (simp add: pg_thread_root_def root_known_def)
next
  case False
  with assms(2) obtain k where "db' = db" and k: "uuid3 env (xp_workspace_id p) (xp_channel_id p) (xp_parent_id p) = Inr k"
    and look: "(case k of (w, c, i) \<Rightarrow> case List.find (is_live w c i) (yz_messages db) of
      None \<Rightarrow> Inl err_message_not_found | Some m \<Rightarrow> Inr (thread_root m)) = Inr root"
    by (auto simp: pg_thread_root_def result_bind_Inr_iff simp del: uuid3_Inr)
  obtain w c i where wci: "k = (w, c, i)" by (cases k)
  from look obtain m where m: "List.find (is_live w c i) (yz_messages db) = Some m" "root = thread_root m"
    by (auto simp: wci split: option.splits)
  have k: "canon (xp_workspace_id p) = Some w" "canon (xp_channel_id p) = Some c" "canon (xp_parent_id p) = Some i"
    using k canon_env_uuid [OF assms(1)] by (simp_all add: wci)
  from find_Some_mem [OF m(1)] k m False \<open>db' = db\<close> show ?thesis by (auto simp: root_known_def is_live_def)
qed

lemma root_known_thread:
  assumes "canon_env canon env" "messages_ok canon db" "root_known canon p root (yz_messages db)"
    and "canon (xp_workspace_id p) = Some w" "canon (xp_channel_id p) = Some c"
    and "uuid_or_null env (xp_parent_id p) = Inr q" "uuid_or_null env root = Inr r"
  shows "thread_ok (yz_messages db) (new_message_row env w c u q r k b md)"
proof (cases "xp_parent_id p = []")
  case True
  with assms(3,6,7) show ?thesis by (auto simp: root_known_def thread_ok_def uuid_or_null_Inr)
next
  case False
  let ?rows = "yz_messages db"
  from False assms(3-5) obtain y where y: "y \<in> set ?rows" "mg_workspace_id y = w" "mg_channel_id y = c"
    "canon (xp_parent_id p) = Some (mg_id y)" "root = thread_root y" by (auto simp: root_known_def)
  have q: "q = Some (mg_id y)" using False assms(6) canon_env_uuid [OF assms(1)] y(4) by (simp add: uuid_or_null_Inr)
  have ty: "thread_ok ?rows y" using assms(2) y(1) by (simp add: messages_ok_def threads_ok_def list_all_iff)
  obtain x where x: "x \<in> set ?rows" "same_place y x" "mg_id x = thread_root y" "mg_thread_root_id x = None"
  proof (cases "mg_thread_root_id y")
    case None
    with y(1) that [of y] show ?thesis by (simp add: thread_root_def same_place_def)
  next
    case (Some r)
    with ty that show ?thesis by (auto simp: thread_ok_def thread_root_def)
  qed
  have "plain_id canon (mg_id x)" using assms(2) x(1) by (simp add: messages_ok_def ids_unique_def list_all_iff)
  then have r: "r = Some (thread_root y)" using assms(7) canon_env_uuid [OF assms(1)] y(5) x(3) by (simp add: uuid_or_null_Inr plain_id_def)
  show ?thesis
    unfolding thread_ok_def using x y(1-3) by (auto simp: q r same_place_def)
qed

lemma send_insert_row:
  assumes "pg_send_insert env p root db = (db', r)"
  shows "db' = db \<and> (\<exists>e. r = Inl e) \<or>
    (\<exists>w c u q t md. uuid3 env (xp_workspace_id p) (xp_channel_id p) (xp_sender_id p) = Inr (w, c, u) \<and>
      uuid_or_null env (xp_parent_id p) = Inr q \<and> uuid_or_null env root = Inr t \<and>
      jsonb_param env (xp_metadata p) = Inr md \<and> channel_open db w c \<and> member_in db c u \<and>
      pg_insert_message (new_message_row env w c u q t (xp_kind p) (xp_body p) md) db = (db', r))"
proof (cases "uuid3 env (xp_workspace_id p) (xp_channel_id p) (xp_sender_id p)")
  case (Inl e)
  with assms show ?thesis by (auto simp: pg_send_insert_def tx_bind_def tx_lift_def)
next
  case (Inr k)
  obtain w c u where "k = (w, c, u)" by (cases k)
  with Inr assms show ?thesis
    by (auto simp: pg_send_insert_def tx_bind_def tx_lift_def simp del: uuid3_Inr split: sum.splits if_splits)
qed

lemma send_insert_rel:
  assumes "canon_env canon env" "root_known canon p root (yz_messages db)" "pg_send_insert env p root db = (db', r)"
  shows "msg_rel canon E D db db'"
  using send_insert_row [OF assms(3)]
proof (elim disjE exE conjE)
  fix w c u q t md
  assume k: "uuid3 env (xp_workspace_id p) (xp_channel_id p) (xp_sender_id p) = Inr (w, c, u)"
    and q: "uuid_or_null env (xp_parent_id p) = Inr q" "uuid_or_null env root = Inr t"
    and ins: "pg_insert_message (new_message_row env w c u q t (xp_kind p) (xp_body p) md) db = (db', r)"
  have k: "canon (xp_workspace_id p) = Some w" "canon (xp_channel_id p) = Some c"
    using k canon_env_uuid [OF assms(1)] by simp_all
  have fresh: "plain_id canon (pe_fresh env)" using assms(1) by (simp add: canon_env_def)
  show "msg_rel canon E D db db'"
  proof (cases "messages_ok canon db")
    case True
    show ?thesis
      by (rule insert_message_rel [OF ins]) (use fresh root_known_thread [OF assms(1) True assms(2) k q] in simp_all)
  next
    case False
    have "db' = db \<or> yz_messages db' = yz_messages db @ [new_message_row env w c u q t (xp_kind p) (xp_body p) md]"
      using ins by (auto simp: pg_insert_message_def split: if_splits)
    with False show ?thesis by (auto simp: msg_rel_def)
  qed
qed simp

lemma send_relations_core: "tx_keeps message_core (send_relations env p root m)"
  unfolding send_relations_def by (intro tx_rel_intros preorder_keeps side_table_cores)

lemma client_message_before_db: "client_message_before env p db = (db', r) \<Longrightarrow> db' = db"
  by (auto simp: client_message_before_def pg_client_message_def split: if_splits sum.splits)

text \<open>The statements of a \<open>Send\<close> that ends with a value, and of a committed one.\<close>

lemma send_statements_steps:
  assumes "send_statements env p db = (db', Inr outcome)"
  shows "\<exists>root db1 existing. pg_thread_root env p db = (db, Inr root) \<and>
    ensure_direct_members env (xp_workspace_id p) (xp_channel_id p) (xp_sender_id p) db = (db1, Inr ()) \<and>
    client_message_before env p db1 = (db1, Inr existing) \<and>
    (case existing of
       Some i \<Rightarrow> db' = db1 \<and> outcome = Existing i
     | None \<Rightarrow> (\<exists>e. pg_send_insert env p root db1 = (db', Inl e) \<and> outcome = Raced) \<or>
         (\<exists>db2 m. pg_send_insert env p root db1 = (db2, Inr m) \<and>
            send_relations env p root m db2 = (db', Inr outcome) \<and> outcome = Created m))"
proof -
  from assms obtain root db0 db1 db2 existing where
      1: "pg_thread_root env p db = (db0, Inr root)"
    and 2: "ensure_direct_members env (xp_workspace_id p) (xp_channel_id p) (xp_sender_id p) db0 = (db1, Inr ())"
    and 3: "client_message_before env p db1 = (db2, Inr existing)"
    and 4: "(case existing of Some i \<Rightarrow> tx_return (Existing i)
       | None \<Rightarrow> (\<lambda>db. case pg_send_insert env p root db of (db1, Inl e) \<Rightarrow> (db1, send_insert_error p e)
         | (db1, Inr m) \<Rightarrow> send_relations env p root m db1)) db2 = (db', Inr outcome)"
    by (auto simp: send_statements_def tx_bind_Inr)
  have db0: "db0 = db" using 1 by (simp add: pg_thread_root_def)
  have db2: "db2 = db1" using client_message_before_db [OF 3] .
  have rel: "send_relations env p root m db3 = (db', Inr outcome) \<Longrightarrow> outcome = Created m" for m db3
    by (auto simp: send_relations_def tx_bind_Inr)
  have "case existing of Some i \<Rightarrow> db' = db1 \<and> outcome = Existing i
     | None \<Rightarrow> (\<exists>e. pg_send_insert env p root db1 = (db', Inl e) \<and> outcome = Raced) \<or>
         (\<exists>db2 m. pg_send_insert env p root db1 = (db2, Inr m) \<and>
            send_relations env p root m db2 = (db', Inr outcome) \<and> outcome = Created m)"
    using 4 db2 rel by (auto simp: tx_return_def send_insert_error_def split: option.splits prod.splits sum.splits if_splits)
  with 1 2 3 show ?thesis unfolding db0 db2 by blast
qed

lemma send_tx_created:
  assumes "pg_send_tx env p db = (db', Inr (Created m))"
  shows "\<exists>root db1 db2. pg_thread_root env p db = (db, Inr root) \<and>
    ensure_direct_members env (xp_workspace_id p) (xp_channel_id p) (xp_sender_id p) db = (db1, Inr ()) \<and>
    client_message_before env p db1 = (db1, Inr None) \<and>
    pg_send_insert env p root db1 = (db2, Inr m) \<and> send_relations env p root m db2 = (db', Inr (Created m))"
proof -
  have "send_statements env p db = (db', Inr (Created m))"
    using assms by (auto simp: pg_send_tx_def split: prod.splits sum.splits send_outcome.splits)
  from send_statements_steps [OF this] show ?thesis by (auto split: option.splits)
qed

lemma send_tx_rel:
  assumes "canon_env canon env"
  shows "tx_rel (msg_rel canon E D) (pg_send_tx env p)"
proof (rule tx_relI)
  fix db db' r assume eq: "pg_send_tx env p db = (db', r)"
  show "msg_rel canon E D db db'"
  proof (cases "\<exists>m. r = Inr (Created m)")
    case False
    with eq have "db' = db" by (auto simp: pg_send_tx_def split: prod.splits sum.splits send_outcome.splits)
    then show ?thesis by simp
  next
    case True
    then obtain m where "r = Inr (Created m)" by blast
    from send_tx_created [OF eq [unfolded this]] obtain root db1 db2 where
      1: "pg_thread_root env p db = (db, Inr root)"
      "ensure_direct_members env (xp_workspace_id p) (xp_channel_id p) (xp_sender_id p) db = (db1, Inr ())"
      "pg_send_insert env p root db1 = (db2, Inr m)" "send_relations env p root m db2 = (db', Inr (Created m))" by blast
    have c: "message_core db1 = message_core db" "message_core db' = message_core db2"
      using tx_relD [OF ensure_direct_core 1(2)] tx_relD [OF send_relations_core 1(4)] by simp_all
    have "root_known canon p root (yz_messages db1)"
      using pg_thread_root_known [OF assms 1(1)] c(1) by simp
    from send_insert_rel [OF assms this 1(3)] c
    show ?thesis by (simp add: msg_rel_def messages_ok_core [OF c(1)] messages_ok_core [OF c(2)])
  qed
qed

end
