(* ===== verification/Msg_Contract.thy ===== *)
theory Msg_Contract
  imports Msg_Props
begin

text \<open>
  The contract between the messages service and its repository, and what the service guarantees over every
  repository that keeps it. \<open>rows st\<close> are the stored messages, \<open>readable st a m\<close>: the actor may read the
  message, \<open>names w i\<close>: the keys the identifiers of a request name.
\<close>

section \<open>Requests\<close>

text \<open>The requests of the module, carried out one after another.\<close>

datatype message_request =
    Req_Send send_input
  | Req_Get message_ref
  | Req_List message_list_params
  | Req_Thread thread_params
  | Req_Search search_input
  | Req_Forward forward_params
  | Req_Update message_update_input
  | Req_Delete message_ref
  | Req_Pins pins_params
  | Req_Pin message_ref
  | Req_Unpin message_ref
  | Req_React reaction_params
  | Req_Unreact reaction_params

fun requester :: "message_request \<Rightarrow> string" where
  "requester (Req_Send i) = xi_actor i"
| "requester (Req_Get r) = xr_actor r"
| "requester (Req_List p) = xl_actor p"
| "requester (Req_Thread p) = xt_actor p"
| "requester (Req_Search i) = xs_actor i"
| "requester (Req_Forward p) = xf_actor p"
| "requester (Req_Update i) = xu_actor i"
| "requester (Req_Delete r) = xr_actor r"
| "requester (Req_Pins p) = xn_actor p"
| "requester (Req_Pin r) = xr_actor r"
| "requester (Req_Unpin r) = xr_actor r"
| "requester (Req_React p) = xa_actor p"
| "requester (Req_Unreact p) = xa_actor p"

text \<open>The messages a request is answered with.\<close>

definition answer :: "('w, 'a) stmt \<Rightarrow> ('a \<Rightarrow> message_dto list) \<Rightarrow> ('w, message_dto list) stmt" where
  "answer f g = tx_bind f (\<lambda>x. tx_return (g x))"

fun serve :: "'s message_service \<Rightarrow> message_env \<Rightarrow> message_request \<Rightarrow> ('s message_world, message_dto list) stmt" where
  "serve s x (Req_Send i) = answer (message_send s x i) (\<lambda>d. [d])"
| "serve s x (Req_Get r) = answer (message_get s r) (\<lambda>d. [d])"
| "serve s x (Req_List p) = answer (message_list s p) fst"
| "serve s x (Req_Thread p) = answer (message_list_thread s p) fst"
| "serve s x (Req_Search i) = answer (message_search s i) fst"
| "serve s x (Req_Forward p) = answer (message_forward s p) (\<lambda>d. [d])"
| "serve s x (Req_Update i) = answer (message_update s i) (\<lambda>d. [d])"
| "serve s x (Req_Delete r) = answer (message_delete s r) (\<lambda>_. [])"
| "serve s x (Req_Pins p) = answer (message_list_pins s p) id"
| "serve s x (Req_Pin r) = answer (message_pin s r) (\<lambda>d. [d])"
| "serve s x (Req_Unpin r) = answer (message_unpin s r) (\<lambda>_. [])"
| "serve s x (Req_React p) = answer (message_add_reaction s p) (\<lambda>d. [d])"
| "serve s x (Req_Unreact p) = answer (message_remove_reaction s p) (\<lambda>d. [d])"

fun serve_all :: "'s message_service \<Rightarrow> (message_env \<times> message_request) list \<Rightarrow> 's message_world \<Rightarrow> 's message_world" where
  "serve_all s [] w = w"
| "serve_all s ((x, q) # qs) w = serve_all s qs (fst (serve s x q w))"

text \<open>The requests that only read.\<close>

fun is_read :: "message_request \<Rightarrow> bool" where
  "is_read (Req_Get r) = True"
| "is_read (Req_List p) = True"
| "is_read (Req_Thread p) = True"
| "is_read (Req_Search i) = True"
| "is_read (Req_Pins p) = True"
| "is_read _ = False"

text \<open>The stored part of a message.\<close>

abbreviation row_of :: "message \<Rightarrow> message_row" where
  "row_of m \<equiv> message_row.truncate m"

text \<open>The messages a user has written, and those whose deletion a permission of the user allows.\<close>

definition authored :: "string \<Rightarrow> message_row list \<Rightarrow> (string \<times> string) set" where
  "authored user rows = {k. \<exists>m\<in>set rows. row_key m = k \<and> mg_sender_id m = Some (trim_space user)}"

definition moderated :: "'s message_service \<Rightarrow> (string \<Rightarrow> string \<Rightarrow> (string \<times> string) set) \<Rightarrow> string \<Rightarrow> (string \<times> string) set" where
  "moderated s names user =
    {k. \<exists>w i. k \<in> names w i \<and> mv_checker s (trim_space user) w ''message.manage'' = Inr True}"

text \<open>Auto responders that only add messages.\<close>

definition tame :: "('s \<Rightarrow> bool) \<Rightarrow> ('s \<Rightarrow> message_row list) \<Rightarrow> 's message_service \<Rightarrow> bool" where
  "tame ok rows s \<longleftrightarrow> (\<forall>f i st st' r. Some f \<in> set (mv_responders s) \<longrightarrow> ok st \<longrightarrow> f i st = (st', r) \<longrightarrow>
     ok st' \<and> changes {} {} (rows st) (rows st'))"

locale message_store =
  fixes repo :: "'s message_repo"
    and ok :: "'s \<Rightarrow> bool"
    and rows :: "'s \<Rightarrow> message_row list"
    and readable :: "'s \<Rightarrow> string \<Rightarrow> message_row \<Rightarrow> bool"
    and names :: "string \<Rightarrow> string \<Rightarrow> (string \<times> string) set"
  assumes keys: "ok st \<Longrightarrow> distinct (map row_key (rows st))"
    and one_key: "k \<in> names w i \<Longrightarrow> k' \<in> names w i \<Longrightarrow> k = k'"
    and send_keeps: "ok st \<Longrightarrow> mr_send repo sp st = (st', rm) \<Longrightarrow> ok st' \<and> changes {} {} (rows st) (rows st')"
    and get_keeps: "mr_get repo gp st = (st', rm) \<Longrightarrow> ok st \<Longrightarrow> ok st' \<and> rows st' = rows st"
    and list_keeps: "mr_list repo lp st = (st', rs) \<Longrightarrow> ok st \<Longrightarrow> ok st' \<and> rows st' = rows st"
    and thread_keeps: "mr_list_thread repo tp st = (st', rs) \<Longrightarrow> ok st \<Longrightarrow> ok st' \<and> rows st' = rows st"
    and search_keeps: "mr_search repo qp st = (st', rs) \<Longrightarrow> ok st \<Longrightarrow> ok st' \<and> rows st' = rows st"
    and pins_keep: "mr_list_pins repo np st = (st', rs) \<Longrightarrow> ok st \<Longrightarrow> ok st' \<and> rows st' = rows st"
    and forward_keeps: "ok st \<Longrightarrow> mr_forward repo fp st = (st', rm) \<Longrightarrow> ok st' \<and> changes {} {} (rows st) (rows st')"
    and update_changes: "ok st \<Longrightarrow> mr_update repo vp st = (st', rm) \<Longrightarrow>
      ok st' \<and> changes (names (xv_workspace_id vp) (xv_message_id vp)) {} (rows st) (rows st')"
    and delete_changes: "ok st \<Longrightarrow> mr_delete repo gp st = (st', ru) \<Longrightarrow>
      ok st' \<and> changes {} (names (xr_workspace_id gp) (xr_message_id gp)) (rows st) (rows st')"
    and pin_keeps: "ok st \<Longrightarrow> mr_pin repo gp st = (st', rm) \<Longrightarrow> ok st' \<and> changes {} {} (rows st) (rows st')"
    and unpin_keeps: "ok st \<Longrightarrow> mr_unpin repo gp st = (st', ru) \<Longrightarrow> ok st' \<and> changes {} {} (rows st) (rows st')"
    and react_keeps: "ok st \<Longrightarrow> mr_add_reaction repo ap st = (st', rm) \<Longrightarrow> ok st' \<and> changes {} {} (rows st) (rows st')"
    and unreact_keeps: "ok st \<Longrightarrow> mr_remove_reaction repo ap st = (st', rm) \<Longrightarrow> ok st' \<and> changes {} {} (rows st) (rows st')"
    and get_row: "ok st \<Longrightarrow> mr_get repo gp st = (st', Inr m) \<Longrightarrow>
      readable st (xr_actor gp) (row_of m) \<and> row_of m \<in> set (rows st) \<and> row_key (row_of m) \<in> names (xr_workspace_id gp) (xr_message_id gp)"
    and list_rows: "ok st \<Longrightarrow> mr_list repo lp st = (st', Inr ms) \<Longrightarrow> m \<in> set ms \<Longrightarrow> readable st (xl_actor lp) (row_of m)"
    and thread_rows: "ok st \<Longrightarrow> mr_list_thread repo tp st = (st', Inr ms) \<Longrightarrow> m \<in> set ms \<Longrightarrow> readable st (xt_actor tp) (row_of m)"
    and search_rows: "ok st \<Longrightarrow> mr_search repo qp st = (st', Inr ms) \<Longrightarrow> m \<in> set ms \<Longrightarrow> readable st (xq_actor qp) (row_of m)"
    and pin_rows: "ok st \<Longrightarrow> mr_list_pins repo np st = (st', Inr ms) \<Longrightarrow> m \<in> set ms \<Longrightarrow> readable st (xn_actor np) (row_of m)"
begin

text \<open>What one request may do to the stored messages.\<close>

definition moves :: "(string \<times> string) set \<Rightarrow> (string \<times> string) set \<Rightarrow> 's message_world \<Rightarrow> 's message_world \<Rightarrow> bool" where
  "moves E D w w' \<longleftrightarrow> (ok (mw_store w) \<longrightarrow> ok (mw_store w') \<and> changes E D (rows (mw_store w)) (rows (mw_store w')))"

lemma moves_preorder [simp]: "preorder_rel (moves E D)"
  unfolding preorder_rel_def moves_def using changes_trans by (auto intro: changes_refl)

lemma moves_refl [simp]: "moves E D w w"
  by (simp add: moves_def)

lemma moves_trans: "moves E D a b \<Longrightarrow> moves E D b c \<Longrightarrow> moves E D a c"
  using moves_preorder unfolding preorder_rel_def by blast

lemma moves_mono: "moves E D w w' \<Longrightarrow> E \<subseteq> E' \<Longrightarrow> D \<subseteq> D' \<Longrightarrow> moves E' D' w w'"
  unfolding moves_def using changes_mono by blast

lemma moves_quiet: "tx_rel (moves {} {}) f \<Longrightarrow> tx_rel (moves E D) f"
  unfolding tx_rel_def using moves_mono by blast

lemma in_store_moves:
  "(\<And>st st' r. ok st \<Longrightarrow> f st = (st', r) \<Longrightarrow> ok st' \<and> changes E D (rows st) (rows st')) \<Longrightarrow> tx_rel (moves E D) (in_store f)"
  by (rule tx_relI) (auto simp: in_store_def moves_def split: prod.splits)

lemma publish_moves [simp]: "mw_store (publish_message s ty d w) = mw_store w"
  by (simp add: publish_message_def)

lemma publish_return_moves: "tx_rel (moves E D) (\<lambda>w. (publish_message s ty d w, r))"
  by (rule tx_relI) (auto simp: moves_def)

lemma publishing_moves: "tx_rel (moves E D) (in_store f) \<Longrightarrow> tx_rel (moves E D) (publishing s ty f)"
  unfolding publishing_def by (intro tx_rel_intros moves_preorder publish_return_moves)

lemma publishing_bare_moves: "tx_rel (moves E D) (in_store f) \<Longrightarrow> tx_rel (moves E D) (publishing_bare s ty r f)"
  unfolding publishing_bare_def by (intro tx_rel_intros moves_preorder publish_return_moves)

lemma checked_moves: "tx_rel (moves E D) f \<Longrightarrow> tx_rel (moves E D) (checked e f)"
  by (auto simp: checked_def intro: tx_rel_base split: option.split)

lemma publish_bots_store [simp]: "mw_store (publish_bot_messages s t ms w) = mw_store w"
  by (induction ms arbitrary: w) simp_all

lemma responders_move:
  assumes "\<And>f i. Some f \<in> set rs \<Longrightarrow> tx_rel (moves E D) (in_store (f i))"
  shows "moves E D w (run_auto_responders s t rs input w)"
  using assms
proof (induction rs arbitrary: w)
  case (Cons r rs)
  show ?case
  proof (cases r)
    case None
    with Cons show ?thesis by simp
  next
    case (Some f)
    obtain w1 q where q: "in_store (f input) w = (w1, q)" by (cases "in_store (f input) w")
    have "tx_rel (moves E D) (in_store (f input))" using Cons.prems by (simp add: Some)
    from tx_relD [OF this q] have 1: "moves E D w w1" .
    have 2: "moves E D v (run_auto_responders s t rs input v)" for v by (rule Cons.IH) (use Cons.prems in simp)
    show ?thesis
    proof (cases q)
      case (Inl e)
      with q Some show ?thesis using moves_trans [OF 1 2] by simp
    next
      case (Inr ms)
      have "moves E D w1 (publish_bot_messages s t ms w1)" by (simp add: moves_def)
      from moves_trans [OF 1 moves_trans [OF this 2]] q Some Inr show ?thesis by simp
    qed
  qed
qed simp

text \<open>The requests that change no body and delete nothing.\<close>

lemma announce_moves:
  assumes "tame ok rows s"
  shows "moves {} {} w (announce_sent s x p m w)"
proof -
  have "Some f \<in> set (mv_responders s) \<Longrightarrow> tx_rel (moves {} {}) (in_store (f b))" for f b
    using assms unfolding tame_def by (intro in_store_moves) blast
  then have bots: "moves {} {} w (run_auto_responders s t (mv_responders s) b w)" for t b w
    by (rule responders_move)
  have "moves {} {} w (publish_message s ''MessageCreated'' (to_message_dto m) w)" by (simp add: moves_def)
  from moves_trans [OF this bots] this show ?thesis by (simp add: announce_sent_def Let_def)
qed

lemma send_moves:
  assumes "mv_repo s = repo" "tame ok rows s"
  shows "tx_rel (moves {} {}) (message_send s x i)"
proof -
  have store: "tx_rel (moves {} {}) (in_store (mr_send (mv_repo s) p))" for p
    by (rule in_store_moves) (use assms(1) send_keeps in blast)
  have "tx_rel (moves {} {}) (\<lambda>w. (if duplicate_retry x p m then w else announce_sent s x p m w, Inr (to_message_dto m)))" for p m
    using announce_moves [OF assms(2)] by (intro tx_relI) auto
  then show ?thesis
    unfolding message_send_def by (intro checked_moves tx_rel_intros moves_preorder store)
qed

lemma quiet_store:
  assumes "\<And>st st' r. ok st \<Longrightarrow> f st = (st', r) \<Longrightarrow> ok st' \<and> changes {} {} (rows st) (rows st')"
  shows "tx_rel (moves E D) (in_store f)"
  by (rule moves_quiet, rule in_store_moves) (rule assms)

lemma read_store:
  assumes "\<And>st st' r. f st = (st', r) \<Longrightarrow> ok st \<Longrightarrow> ok st' \<and> rows st' = rows st"
  shows "tx_rel (moves E D) (in_store f)"
  by (rule in_store_moves) (use assms in force)

lemma read_moves:
  assumes "mv_repo s = repo"
  shows "tx_rel (moves E D) (message_get s gp)" "tx_rel (moves E D) (message_list s lp)"
    "tx_rel (moves E D) (message_list_thread s tp)" "tx_rel (moves E D) (message_search s si)"
    "tx_rel (moves E D) (message_list_pins s np)"
proof -
  show "tx_rel (moves E D) (message_get s gp)" unfolding message_get_def assms
    by (intro tx_rel_intros moves_preorder read_store) (erule (1) get_keeps)
  show "tx_rel (moves E D) (message_list s lp)" unfolding message_list_def assms Let_def
    by (intro checked_moves tx_rel_intros moves_preorder read_store) (erule (1) list_keeps)
  show "tx_rel (moves E D) (message_list_thread s tp)" unfolding message_list_thread_def assms Let_def
    by (intro checked_moves tx_rel_intros moves_preorder read_store) (erule (1) thread_keeps)
  show "tx_rel (moves E D) (message_search s si)" unfolding message_search_def assms Let_def
    by (intro checked_moves tx_rel_intros moves_preorder read_store) (erule (1) search_keeps)
  show "tx_rel (moves E D) (message_list_pins s np)" unfolding message_list_pins_def assms Let_def
    by (intro checked_moves tx_rel_intros moves_preorder read_store) (erule (1) pins_keep)
qed

lemma quiet_moves:
  assumes "mv_repo s = repo"
  shows "tx_rel (moves E D) (message_forward s fp)" "tx_rel (moves E D) (message_pin s gp)"
    "tx_rel (moves E D) (message_unpin s gp)" "tx_rel (moves E D) (message_add_reaction s ap)"
    "tx_rel (moves E D) (message_remove_reaction s ap)"
proof -
  show "tx_rel (moves E D) (message_forward s fp)" unfolding message_forward_def assms Let_def
    by (intro checked_moves tx_rel_if tx_rel_base(2) moves_preorder publishing_moves quiet_store) (erule (1) forward_keeps)
  show "tx_rel (moves E D) (message_pin s gp)" unfolding message_pin_def assms
    by (intro checked_moves publishing_moves quiet_store) (erule (1) pin_keeps)
  show "tx_rel (moves E D) (message_unpin s gp)" unfolding message_unpin_def assms
    by (intro checked_moves publishing_bare_moves quiet_store) (erule (1) unpin_keeps)
  show "tx_rel (moves E D) (message_add_reaction s ap)" unfolding message_add_reaction_def assms
    by (intro tx_rel_intros moves_preorder publishing_moves quiet_store) (erule (1) react_keeps)
  show "tx_rel (moves E D) (message_remove_reaction s ap)" unfolding message_remove_reaction_def assms
    by (intro tx_rel_intros moves_preorder publishing_moves quiet_store) (erule (1) unreact_keeps)
qed

text \<open>An edit and a deletion look the message up first.\<close>

lemma row_of_simps [simp]: "mg_sender_id (row_of m) = mg_sender_id m"
  by (simp add: message_row.defs)

lemma named_authored:
  assumes "ok st" "mr_get repo r st = (st', Inr m)" "message_owned_by m user"
  shows "names (xr_workspace_id r) (xr_message_id r) \<subseteq> authored user (rows st)"
proof
  fix k assume "k \<in> names (xr_workspace_id r) (xr_message_id r)"
  with get_row [OF assms(1,2)] have "k = row_key (row_of m)" and "row_of m \<in> set (rows st)" by (auto dest: one_key)
  with assms(3) show "k \<in> authored user (rows st)" by (auto simp: authored_def message_owned_by_def)
qed

lemma in_store_run: "in_store f w = (w', r) \<Longrightarrow> f (mw_store w) = (mw_store w', r)"
  by (auto simp: in_store_def split: prod.splits)

text \<open>A request that looks a message up and goes on with a statement that may change what it is told to.\<close>

lemma guarded_moves:
  assumes "mv_repo s = repo" "ok (mw_store w)"
    and "tx_bind (tx_map_error map_message_error (in_store (mr_get (mv_repo s) r))) g w = (w', q)"
    and "\<And>m st'. mr_get repo r (mw_store w) = (st', Inr m) \<Longrightarrow> tx_rel (moves E D) (g m)"
  shows "moves E D w w'"
proof -
  obtain w1 q1 where get: "in_store (mr_get repo r) w = (w1, q1)" by (cases "in_store (mr_get repo r) w")
  note run = in_store_run [OF get]
  have 1: "moves E D w w1" using get_keeps [OF run assms(2)] by (simp add: moves_def)
  show ?thesis
  proof (cases q1)
    case (Inl e)
    with assms(1,3) get 1 show ?thesis by (auto simp: tx_bind_def tx_map_error_def)
  next
    case (Inr m)
    with assms(1,3) get have "g m w1 = (w', q)" by (simp add: tx_bind_def tx_map_error_def)
    from moves_trans [OF 1 tx_relD [OF assms(4) this]] run Inr show ?thesis by blast
  qed
qed

lemma update_moves:
  assumes "mv_repo s = repo" "ok (mw_store w)" "message_update s i w = (w', q)"
  shows "moves (authored (xu_actor i) (rows (mw_store w))) {} w w'"
proof -
  let ?r = "clean_message_ref \<lparr>xr_workspace_id = xu_workspace_id i, xr_channel_id = xu_channel_id i,
    xr_message_id = xu_message_id i, xr_actor = xu_actor i\<rparr>" and ?E = "authored (xu_actor i) (rows (mw_store w))"
  show ?thesis
  proof (rule guarded_moves [OF assms(1,2) assms(3) [unfolded message_update_def Let_def]])
    fix m st' assume get: "mr_get repo ?r (mw_store w) = (st', Inr m)"
    have "tx_rel (moves ?E {}) (publishing s ''MessageUpdated'' (mr_update (mv_repo s)
        \<lparr>xv_workspace_id = xr_workspace_id ?r, xv_channel_id = xr_channel_id ?r, xv_message_id = xr_message_id ?r,
         xv_actor = xr_actor ?r, xv_body = b, xv_mentioned = ms\<rparr>))" if "message_owned_by m (xr_actor ?r)" for b ms
    proof (intro publishing_moves in_store_moves)
      fix st st2 q2
      let ?p = "\<lparr>xv_workspace_id = xr_workspace_id ?r, xv_channel_id = xr_channel_id ?r, xv_message_id = xr_message_id ?r,
         xv_actor = xr_actor ?r, xv_body = b, xv_mentioned = ms\<rparr>"
      assume "ok st" "mr_update (mv_repo s) ?p st = (st2, q2)"
      then have "ok st2 \<and> changes (names (xr_workspace_id ?r) (xr_message_id ?r)) {} (rows st) (rows st2)"
        using update_changes [of st ?p] assms(1) by simp
      moreover have "names (xr_workspace_id ?r) (xr_message_id ?r) \<subseteq> ?E"
        using named_authored [OF assms(2) get that] by (simp add: clean_message_ref_def authored_def)
      ultimately show "ok st2 \<and> changes ?E {} (rows st) (rows st2)" using changes_mono by blast
    qed
    then show "tx_rel (moves ?E {}) (if \<not> message_owned_by m (xr_actor ?r)
        then tx_fail (forbidden ''Ban chi co the sua tin nhan cua chinh minh.'')
        else if \<not> valid_body (trim_space (xu_body i)) then tx_fail bad_body
        else publishing s ''MessageUpdated'' (mr_update (mv_repo s)
          \<lparr>xv_workspace_id = xr_workspace_id ?r, xv_channel_id = xr_channel_id ?r, xv_message_id = xr_message_id ?r,
           xv_actor = xr_actor ?r, xv_body = trim_space (xu_body i), xv_mentioned = normalize_mentions (trim_space (xu_body i)) []\<rparr>))"
      by (simp add: tx_rel_base)
  qed
qed

lemma delete_moves:
  assumes "mv_repo s = repo" "ok (mw_store w)" "message_delete s i w = (w', q)"
  shows "moves {} (authored (xr_actor i) (rows (mw_store w)) \<union> moderated s names (xr_actor i)) w w'"
proof -
  let ?r = "clean_message_ref i" and ?D = "authored (xr_actor i) (rows (mw_store w)) \<union> moderated s names (xr_actor i)"
  show ?thesis
  proof (cases "is_uuid (xr_workspace_id ?r) \<and> is_uuid (xr_channel_id ?r) \<and> is_uuid (xr_message_id ?r) \<and> is_uuid (xr_actor ?r)")
    case False
    with assms(3) have "w' = w" by (auto simp: message_delete_def Let_def)
    then show ?thesis by simp
  next
    case True
    with assms(3) have run: "tx_bind (tx_map_error map_message_error (in_store (mr_get (mv_repo s) ?r))) (\<lambda>m.
          checked (if message_owned_by m (xr_actor ?r) then None
                   else ensure_permission s (xr_actor i) (xr_workspace_id i) ''message.manage'')
          (publishing_bare s ''MessageDeleted'' ?r (mr_delete (mv_repo s) ?r))) w = (w', q)"
      by (simp add: message_delete_def Let_def)
    show ?thesis
    proof (rule guarded_moves [OF assms(1,2) run])
      fix m st' assume get: "mr_get repo ?r (mw_store w) = (st', Inr m)"
      let ?e = "if message_owned_by m (xr_actor ?r) then None
        else ensure_permission s (xr_actor i) (xr_workspace_id i) ''message.manage''"
      have "tx_rel (moves {} ?D) (publishing_bare s ''MessageDeleted'' ?r (mr_delete (mv_repo s) ?r))" if "?e = None"
      proof (intro publishing_bare_moves in_store_moves)
        fix st st2 q2 assume "ok st" "mr_delete (mv_repo s) ?r st = (st2, q2)"
        then have "ok st2 \<and> changes {} (names (xr_workspace_id ?r) (xr_message_id ?r)) (rows st) (rows st2)"
          using delete_changes [of st ?r] assms(1) by simp
        moreover have "names (xr_workspace_id ?r) (xr_message_id ?r) \<subseteq> ?D"
        proof (cases "message_owned_by m (xr_actor ?r)")
          case True
          then show ?thesis using named_authored [OF assms(2) get True] by (auto simp: clean_message_ref_def authored_def)
        next
          case False
          with that have "mv_checker s (trim_space (xr_actor i)) (trim_space (xr_workspace_id i)) ''message.manage'' = Inr True"
            by (auto simp: ensure_permission_def split: sum.splits if_splits)
          then show ?thesis unfolding moderated_def clean_message_ref_def by auto
        qed
        ultimately show "ok st2 \<and> changes {} ?D (rows st) (rows st2)" using changes_mono by blast
      qed
      then show "tx_rel (moves {} ?D) (checked ?e (publishing_bare s ''MessageDeleted'' ?r (mr_delete (mv_repo s) ?r)))"
        by (auto simp: checked_def tx_rel_base split: option.split)
    qed
  qed
qed

text \<open>Every request, and a sequence of them.\<close>

lemma answer_moves: "tx_rel (moves E D) f \<Longrightarrow> tx_rel (moves E D) (answer f g)"
  unfolding answer_def by (intro tx_rel_intros moves_preorder)

lemma answer_run: "answer f g w = (w', r) \<Longrightarrow> \<exists>q. f w = (w', q)"
  by (auto simp: answer_def tx_bind_def tx_return_def split: prod.splits sum.splits)

lemma serve_moves:
  assumes "mv_repo s = repo" "tame ok rows s" "ok (mw_store w)" "serve s x q w = (w', r)"
  shows "moves (authored (requester q) (rows (mw_store w)))
    (authored (requester q) (rows (mw_store w)) \<union> moderated s names (requester q)) w w'"
proof (cases q)
  case (Req_Send i)
  have "moves {} {} w w'" using tx_relD [OF answer_moves [OF send_moves [OF assms(1,2)]]] assms(4) by (simp add: Req_Send)
  then show ?thesis by (rule moves_mono) simp_all
next
  case (Req_Update i)
  from assms(4) obtain q1 where run: "message_update s i w = (w', q1)" by (auto simp: Req_Update dest: answer_run)
  show ?thesis using update_moves [OF assms(1,3) run] by (auto simp: Req_Update intro: moves_mono)
next
  case (Req_Delete i)
  from assms(4) obtain q1 where run: "message_delete s i w = (w', q1)" by (auto simp: Req_Delete dest: answer_run)
  show ?thesis using delete_moves [OF assms(1,3) run] by (auto simp: Req_Delete intro: moves_mono)
qed (use assms(4) in \<open>auto dest!: tx_relD [OF answer_moves [OF read_moves(1) [OF assms(1)]]]
    tx_relD [OF answer_moves [OF read_moves(2) [OF assms(1)]]] tx_relD [OF answer_moves [OF read_moves(3) [OF assms(1)]]]
    tx_relD [OF answer_moves [OF read_moves(4) [OF assms(1)]]] tx_relD [OF answer_moves [OF read_moves(5) [OF assms(1)]]]
    tx_relD [OF answer_moves [OF quiet_moves(1) [OF assms(1)]]] tx_relD [OF answer_moves [OF quiet_moves(2) [OF assms(1)]]]
    tx_relD [OF answer_moves [OF quiet_moves(3) [OF assms(1)]]] tx_relD [OF answer_moves [OF quiet_moves(4) [OF assms(1)]]]
    tx_relD [OF answer_moves [OF quiet_moves(5) [OF assms(1)]]]\<close>)

lemma serve_all_moves:
  assumes "mv_repo s = repo" "tame ok rows s" "ok (mw_store w)" "m \<in> set (rows (mw_store w))"
    and "list_all (\<lambda>(x, q). mg_sender_id m \<noteq> Some (trim_space (requester q))) qs"
  shows "ok (mw_store (serve_all s qs w)) \<and> (\<exists>m'\<in>set (rows (mw_store (serve_all s qs w))). frozen m m' \<and> mg_body m' = mg_body m \<and>
    (list_all (\<lambda>(x, q). row_key m \<notin> moderated s names (requester q)) qs \<longrightarrow> mg_deleted_at m' = mg_deleted_at m))"
  using assms(3-5)
proof (induction qs arbitrary: w m)
  case (Cons xq qs)
  obtain x q where xq: "xq = (x, q)" by (cases xq)
  obtain w1 r where run: "serve s x q w = (w1, r)" by (cases "serve s x q w")
  have ch: "ok (mw_store w1)" "changes (authored (requester q) (rows (mw_store w)))
      (authored (requester q) (rows (mw_store w)) \<union> moderated s names (requester q)) (rows (mw_store w)) (rows (mw_store w1))"
    using serve_moves [OF assms(1,2) Cons.prems(1) run] Cons.prems(1) by (simp_all add: moves_def)
  have na: "row_key m \<notin> authored (requester q) (rows (mw_store w))"
    using key_unique [OF keys [OF Cons.prems(1)] _ Cons.prems(2)] Cons.prems(3) by (force simp: authored_def xq)
  obtain m1 where m1: "m1 \<in> set (rows (mw_store w1))" "frozen m m1" "mg_body m1 = mg_body m"
    "row_key m \<notin> moderated s names (requester q) \<longrightarrow> mg_deleted_at m1 = mg_deleted_at m"
    using ch(2) Cons.prems(2) na unfolding changes_def by blast
  have same: "mg_sender_id m1 = mg_sender_id m" "row_key m1 = row_key m" using m1(2) by (simp_all add: frozen_def)
  have "list_all (\<lambda>(x, q). mg_sender_id m1 \<noteq> Some (trim_space (requester q))) qs" using Cons.prems(3) by (simp add: same)
  from Cons.IH [OF ch(1) m1(1) this] obtain m' where
    "ok (mw_store (serve_all s qs w1))" "m' \<in> set (rows (mw_store (serve_all s qs w1)))" "frozen m1 m'" "mg_body m' = mg_body m1"
    "list_all (\<lambda>(x, q). row_key m \<notin> moderated s names (requester q)) qs \<longrightarrow> mg_deleted_at m' = mg_deleted_at m1"
    by (auto simp: same)
  then show ?case using m1 frozen_trans [OF m1(2)] by (auto simp: xq run intro!: rev_bexI)
qed (auto intro!: rev_bexI)

lemma serve_all_run:
  assumes "mv_repo s = repo" "tame ok rows s"
  shows "moves UNIV UNIV w (serve_all s qs w)"
proof (induction qs arbitrary: w)
  case (Cons xq qs)
  obtain x q where xq: "xq = (x, q)" by (cases xq)
  obtain w1 r where run: "serve s x q w = (w1, r)" by (cases "serve s x q w")
  show ?case
  proof (cases "ok (mw_store w)")
    case True
    have "moves UNIV UNIV w w1" using serve_moves [OF assms True run] by (rule moves_mono) simp_all
    from moves_trans [OF this Cons.IH] show ?thesis by (simp add: xq run)
  qed (simp add: moves_def)
qed simp

text \<open>What is read is readable.\<close>

lemma cut_page_subset: "set (cut_page l ms) \<subseteq> set ms"
  by (auto simp: cut_page_def dest: in_set_takeD)

lemma tx_map_in_store_Inr:
  "tx_map_error h (in_store f) w = (w', Inr v) \<Longrightarrow> f (mw_store w) = (mw_store w', Inr v)"
  by (auto dest: in_store_run)

lemma checked_Inr: "checked e f w = (w', Inr v) \<Longrightarrow> f w = (w', Inr v)"
  by (auto simp: checked_def split: option.splits)

lemma read_readable:
  assumes "mv_repo s = repo" "ok (mw_store w)" "is_read q" "serve s x q w = (w', Inr ds)" "d \<in> set ds"
  shows "\<exists>m. d = to_message_dto m \<and> readable (mw_store w) (trim_space (requester q)) (row_of m)"
proof (cases q)
  case (Req_Get r)
  from assms(1,4) obtain m where "mr_get repo (clean_message_ref r) (mw_store w) = (mw_store w', Inr m)" "ds = [to_message_dto m]"
    by (auto simp: Req_Get answer_def message_get_def tx_bind_Inr dest!: in_store_run)
  with get_row [OF assms(2)] assms(5) show ?thesis by (force simp: Req_Get clean_message_ref_def)
next
  case (Req_List p)
  from assms(4) obtain pm where "message_list s p w = (w', Inr (ds, pm))"
    by (auto simp: Req_List answer_def tx_bind_Inr)
  then obtain lp ms where "mr_list repo lp (mw_store w) = (mw_store w', Inr ms)" "xl_actor lp = trim_space (xl_actor p)"
      "ds = map to_message_dto (cut_page (normalize_limit (xl_limit p)) ms)"
    using assms(1) unfolding message_list_def Let_def
    by (elim checked_Inr [elim_format] tx_bind_Inr [THEN iffD1, elim_format]) (force dest: in_store_run)
  with list_rows [OF assms(2)] assms(5) cut_page_subset show ?thesis by (force simp: Req_List)
next
  case (Req_Thread p)
  from assms(4) obtain pm where "message_list_thread s p w = (w', Inr (ds, pm))"
    by (auto simp: Req_Thread answer_def tx_bind_Inr)
  then obtain tp ms where "mr_list_thread repo tp (mw_store w) = (mw_store w', Inr ms)" "xt_actor tp = trim_space (xt_actor p)"
      "ds = map to_message_dto (cut_page (normalize_limit (xt_limit p)) ms)"
    using assms(1) by (fastforce simp: message_list_thread_def Let_def tx_bind_Inr dest!: checked_Inr in_store_run)
  with thread_rows [OF assms(2)] assms(5) cut_page_subset show ?thesis by (force simp: Req_Thread)
next
  case (Req_Search i)
  from assms(4) obtain pm where "message_search s i w = (w', Inr (ds, pm))"
    by (auto simp: Req_Search answer_def tx_bind_Inr)
  then obtain sp ms where sp: "search_params_of i = Inr sp" "mr_search repo sp (mw_store w) = (mw_store w', Inr ms)"
      "ds = map to_message_dto (cut_page (normalize_limit (xs_limit i)) ms)"
    using assms(1) unfolding message_search_def Let_def
    by (elim checked_Inr [elim_format] tx_bind_Inr [THEN iffD1, elim_format]) (auto simp: tx_bind_Inr dest!: in_store_run, metis)
  have "xq_actor sp = trim_space (xs_actor i)"
    using sp(1) by (auto simp: search_params_of_def Let_def result_bind_Inr_iff split: if_splits option.splits)
  with sp search_rows [OF assms(2)] assms(5) cut_page_subset show ?thesis by (force simp: Req_Search)
next
  case (Req_Pins p)
  from assms(1,4) obtain np ms where "mr_list_pins repo np (mw_store w) = (mw_store w', Inr ms)" "xn_actor np = trim_space (xn_actor p)"
      "ds = map to_message_dto ms"
    by (fastforce simp: Req_Pins answer_def message_list_pins_def tx_bind_Inr dest!: checked_Inr in_store_run)
  with pin_rows [OF assms(2)] assms(5) show ?thesis by (force simp: Req_Pins)
qed (use assms(3) in simp_all)

end

end
