(* ===== verification/Msg_Safety.thy ===== *)
theory Msg_Safety
  imports Msg_Contract
begin

text \<open>
  The interpretation of the contract on the PostgreSQL repository, and the properties of the messages
  module over it.
\<close>

section \<open>The repository keeps the contract\<close>

definition pg_messages_ok :: "(string \<Rightarrow> string option) \<Rightarrow> message_db pg \<Rightarrow> bool" where
  "pg_messages_ok canon st \<longleftrightarrow> messages_ok canon (pg_db st) \<and> (\<forall>n. canon_env canon (pg_envs st n))"

definition stored :: "message_db pg \<Rightarrow> message_row list" where
  "stored st = yz_messages (pg_db st)"

text \<open>A live message of a channel the actor is a member of.\<close>

definition may_read :: "(string \<Rightarrow> string option) \<Rightarrow> message_db pg \<Rightarrow> string \<Rightarrow> message_row \<Rightarrow> bool" where
  "may_read canon st actor m \<longleftrightarrow> m \<in> set (stored st) \<and> mg_deleted_at m = None \<and>
     (\<exists>u. canon actor = Some u \<and> member_in (pg_db st) (mg_channel_id m) u)"

subsection \<open>What reads and writes do to the state\<close>

abbreviation tables :: "message_db pg \<Rightarrow> message_db \<times> (nat \<Rightarrow> pg_env)" where
  "tables st \<equiv> (pg_db st, pg_envs st)"

definition pg_rel :: "(string \<Rightarrow> string option) \<Rightarrow> (string \<times> string) set \<Rightarrow> (string \<times> string) set \<Rightarrow>
    message_db pg \<Rightarrow> message_db pg \<Rightarrow> bool" where
  "pg_rel canon E D st st' \<longleftrightarrow> (pg_messages_ok canon st \<longrightarrow> pg_messages_ok canon st' \<and> changes E D (stored st) (stored st'))"

lemma pg_rel_preorder [simp]: "preorder_rel (pg_rel canon E D)"
  unfolding preorder_rel_def pg_rel_def using changes_trans by (auto intro: changes_refl)

lemma tables_pg_rel: "tx_keeps tables f \<Longrightarrow> tx_rel (pg_rel canon E D) f"
  by (rule tx_relI, drule (1) tx_relD) (simp add: pg_rel_def pg_messages_ok_def stored_def)

lemma pg_run_reads: "(\<And>env db. fst (f env db) = db) \<Longrightarrow> tx_keeps tables (pg_run f)"
  by (rule tx_relI) (auto simp: pg_run_def Let_def split: option.splits prod.splits dest: arg_cong [where f = fst])

lemma pg_run_writes:
  assumes "\<And>env. canon_env canon env \<Longrightarrow> tx_rel (msg_rel canon E D) (f env)"
  shows "tx_rel (pg_rel canon E D) (pg_run f)"
proof (rule tx_relI)
  fix st st' r assume run: "pg_run f st = (st', r)"
  show "pg_rel canon E D st st'"
    unfolding pg_rel_def
  proof
    assume ok: "pg_messages_ok canon st"
    then have "canon_env canon (pg_envs st (pg_tick st))" by (simp add: pg_messages_ok_def)
    from tx_relD [OF assms [OF this]] pg_run_db [OF run] have "msg_rel canon E D (pg_db st) (pg_db st')" by auto
    then show "pg_messages_ok canon st' \<and> changes E D (stored st) (stored st')"
      using ok pg_run_envs [OF run] by (simp add: msg_rel_def pg_messages_ok_def stored_def)
  qed
qed

lemma select_message_reads: "fst (pg_select_message env r db) = db"
  by (simp add: pg_select_message_def)

lemma hydrate_message_tables: "tx_keeps tables (hydrate_message cfg row actor)"
  unfolding hydrate_message_def
  by (intro tx_rel_intros preorder_keeps pg_run_reads) (simp_all add: pg_message_mentions_def pg_message_reactions_def)

lemma message_get_tables: "tx_keeps tables (pg_message_get cfg r)"
  unfolding pg_message_get_def
  by (intro tx_rel_intros preorder_keeps pg_run_reads hydrate_message_tables select_message_reads)

lemma lift_reads: "(\<And>x db. fst (g x db) = db) \<Longrightarrow> fst (tx_bind (tx_lift q) g db) = db"
  by (cases q) (simp_all add: tx_bind_def tx_lift_def)

lemma hydrate_messages_tables: "tx_keeps tables (hydrate_messages cfg rows actor)"
  unfolding hydrate_messages_def
  by (intro tx_rel_intros preorder_keeps pg_run_reads lift_reads) (simp_all add: pg_mentions_batch_def pg_reactions_batch_def)

lemma page_reads:
  "tx_keeps tables (pg_message_list cfg lp)" "tx_keeps tables (pg_message_list_thread cfg tp)"
  "tx_keeps tables (pg_message_search cfg qp)" "tx_keeps tables (pg_message_list_pins cfg np)"
  unfolding pg_message_list_def pg_message_list_thread_def pg_message_search_def pg_message_list_pins_def
  by (intro tx_rel_intros preorder_keeps pg_run_reads hydrate_messages_tables;
      simp add: pg_list_rows_def pg_thread_rows_def pg_search_rows_def pg_pin_rows_def)+

lemma or_minimal_tables: "tx_keeps tables f \<Longrightarrow> tx_keeps tables (or_minimal m f)"
  by (auto simp: tx_rel_def or_minimal_def split: prod.splits sum.splits)

lemma message_send_rel: "tx_rel (pg_rel canon E D) (pg_message_send cfg p)"
proof -
  have rest: "tx_rel (pg_rel canon E D) (case outcome of
      Existing i \<Rightarrow> tx_map_error (Wrap ''message send check idempotency'') (pg_message_get cfg (sent_ref p i))
    | Raced \<Rightarrow> tx_bind (pg_run (\<lambda>env. pg_client_message env p)) (\<lambda>i. pg_message_get cfg (sent_ref p i))
    | Created m \<Rightarrow> or_minimal m (pg_message_get cfg (sent_ref p (mg_id m))))" for outcome
  proof (cases outcome)
    case (Existing i)
    show ?thesis unfolding Existing send_outcome.case by (intro tables_pg_rel tx_rel_map_error message_get_tables)
  next
    case (Created m)
    show ?thesis unfolding Created send_outcome.case by (intro tables_pg_rel or_minimal_tables message_get_tables)
  next
    case Raced
    have "tx_keeps tables (tx_bind (pg_run (\<lambda>env. pg_client_message env p)) (\<lambda>i. pg_message_get cfg (sent_ref p i)))"
      by (intro tx_rel_intros preorder_keeps pg_run_reads message_get_tables) (simp add: pg_client_message_def)
    then show ?thesis by (simp add: Raced tables_pg_rel)
  qed
  show ?thesis
    unfolding pg_message_send_def by (intro tx_rel_bind pg_rel_preorder pg_run_writes send_tx_rel rest)
qed

lemma message_forward_rel: "tx_rel (pg_rel canon E D) (pg_message_forward cfg p)"
  unfolding pg_message_forward_def
  by (intro tx_rel_bind pg_rel_preorder pg_run_writes forward_tx_rel tables_pg_rel message_get_tables)

lemma message_update_rel: "tx_rel (pg_rel canon (named canon (xv_workspace_id p) (xv_message_id p)) D) (pg_message_update cfg p)"
  unfolding pg_message_update_def
  by (intro tx_rel_bind pg_rel_preorder pg_run_writes update_tx_rel tables_pg_rel message_get_tables)

lemma message_delete_rel:
  "tx_rel (pg_rel canon E (named canon (xr_workspace_id r) (xr_message_id r))) (pg_run (\<lambda>env. pg_delete_tx cfg env r))"
  by (intro pg_run_writes delete_tx_rel)

lemma add_reaction_rel: "tx_rel (pg_rel canon E D) (pg_add_reaction cfg p)"
  unfolding pg_add_reaction_def
  by (intro tx_rel_bind pg_rel_preorder pg_run_writes tables_pg_rel message_get_tables)
    (intro tx_rel_intros msg_rel_preorder core_msg_rel side_table_cores)

lemma remove_reaction_rel: "tx_rel (pg_rel canon E D) (pg_remove_reaction cfg p)"
  unfolding pg_remove_reaction_def
  by (intro tx_rel_bind pg_rel_preorder pg_run_writes tables_pg_rel message_get_tables)
    (intro tx_rel_intros msg_rel_preorder core_msg_rel side_table_cores)

subsection \<open>What a read returns\<close>

lemma row_of_with [simp]: "row_of (with_relations row a b) = row"
  by (simp add: with_relations_def message_row.defs)

lemma hydrate_message_row: "hydrate_message cfg row actor st = (st', Inr m) \<Longrightarrow> row_of m = row"
  by (auto simp: hydrate_message_def tx_bind_Inr)

lemma hydrate_messages_rows: "hydrate_messages cfg rows actor st = (st', Inr ms) \<Longrightarrow> map row_of ms = rows"
  by (auto simp: hydrate_messages_def tx_bind_Inr comp_def split: if_splits)

lemma env_uuid: "pg_messages_ok canon st \<Longrightarrow> pe_uuid (pg_envs st n) = canon"
  by (simp add: pg_messages_ok_def canon_env_def)

lemma select_message_row:
  assumes "pg_select_message env r db = (db', Inr m)" "pe_uuid env = canon"
  shows "\<exists>w c i u. canon (xr_workspace_id r) = Some w \<and> canon (xr_channel_id r) = Some c \<and> canon (xr_message_id r) = Some i \<and>
    canon (xr_actor r) = Some u \<and> m \<in> set (yz_messages db) \<and> is_live w c i m \<and> member_in db c u"
proof -
  obtain k where k: "uuid4 env (xr_workspace_id r) (xr_channel_id r) (xr_message_id r) (xr_actor r) = Inr k"
    and look: "(case k of (w, c, i, u) \<Rightarrow> scan_message (List.find (\<lambda>m. is_live w c i m \<and> member_in db c u) (yz_messages db))) = Inr m"
    using assms(1) by (auto simp: pg_select_message_def result_bind_Inr_iff simp del: uuid4_Inr)
  obtain w c i u where wciu: "k = (w, c, i, u)" by (cases k)
  from look have "List.find (\<lambda>m. is_live w c i m \<and> member_in db c u) (yz_messages db) = Some m"
    by (simp add: wciu scan_message_def split: option.splits)
  from find_Some_mem [OF this] k assms(2) show ?thesis by (auto simp: wciu)
qed

lemma message_get_row:
  assumes "pg_message_get cfg r st = (st', Inr m)" "\<And>n. pe_uuid (pg_envs st n) = canon"
  shows "\<exists>w c i u. canon (xr_workspace_id r) = Some w \<and> canon (xr_channel_id r) = Some c \<and> canon (xr_message_id r) = Some i \<and>
    canon (xr_actor r) = Some u \<and> row_of m \<in> set (stored st) \<and> is_live w c i (row_of m) \<and> member_in (pg_db st) c u"
proof -
  obtain st1 row where 1: "pg_run (\<lambda>env. pg_select_message env r) st = (st1, Inr row)" "hydrate_message cfg row (xr_actor r) st1 = (st', Inr m)"
    using assms(1) by (auto simp: pg_message_get_def tx_bind_Inr)
  from select_message_row [OF pg_run_Inr [OF 1(1)] assms(2)] hydrate_message_row [OF 1(2)]
  show ?thesis by (auto simp: stored_def)
qed

lemma pg_get_row:
  assumes "pg_messages_ok canon st" "pg_message_get cfg r st = (st', Inr m)"
  shows "may_read canon st (xr_actor r) (row_of m) \<and> row_of m \<in> set (stored st) \<and>
    row_key (row_of m) \<in> named canon (xr_workspace_id r) (xr_message_id r)"
  using message_get_row [OF assms(2) env_uuid [OF assms(1)]]
  by (auto simp: may_read_def named_def is_live_def row_key_def)

text \<open>A page: the rows a query read, hydrated.\<close>

lemma page_rows:
  assumes "tx_bind (pg_run f) (\<lambda>rows. hydrate_messages cfg rows actor) st = (st', Inr ms)" "m \<in> set ms"
  shows "\<exists>rows. f (pg_envs st (pg_tick st)) (pg_db st) = (pg_db (fst (pg_run f st)), Inr rows) \<and> row_of m \<in> set rows"
proof -
  obtain st1 rows where 1: "pg_run f st = (st1, Inr rows)" "hydrate_messages cfg rows actor st1 = (st', Inr ms)"
    using assms(1) by (auto simp: tx_bind_Inr)
  have "row_of m \<in> set rows" using hydrate_messages_rows [OF 1(2)] assms(2) by (metis image_eqI list.set_map)
  with pg_run_Inr [OF 1(1)] 1(1) show ?thesis by auto
qed

lemma in_newest_take: "m \<in> set (take n (newest_first (filter p rows))) \<Longrightarrow> m \<in> set rows"
  by (auto dest: in_set_takeD)

lemma visible_readable:
  "m \<in> set (visible (pg_db st) w c u) \<Longrightarrow> canon actor = Some u \<Longrightarrow> may_read canon st actor m"
  by (auto simp: visible_def may_read_def stored_def)

lemma pg_list_readable:
  assumes ok: "pg_messages_ok canon st" and run: "pg_message_list cfg p st = (st', Inr ms)" "m \<in> set ms"
  shows "may_read canon st (xl_actor p) (row_of m)"
proof -
  let ?env = "pg_envs st (pg_tick st)"
  from page_rows [OF run(1) [unfolded pg_message_list_def] run(2)] obtain rows db' where
    r: "pg_list_rows ?env p (pg_db st) = (db', Inr rows)" "row_of m \<in> set rows" by blast
  obtain w c u where "uuid3 ?env (xl_workspace_id p) (xl_channel_id p) (xl_actor p) = Inr (w, c, u)" "row_of m \<in> set (visible (pg_db st) w c u)"
    using r by (fastforce simp: pg_list_rows_def result_bind_Inr_iff Let_def simp del: uuid3_Inr dest: in_newest_take)
  then show ?thesis using visible_readable env_uuid [OF ok] by auto
qed

lemma pg_thread_readable:
  assumes ok: "pg_messages_ok canon st" and run: "pg_message_list_thread cfg p st = (st', Inr ms)" "m \<in> set ms"
  shows "may_read canon st (xt_actor p) (row_of m)"
proof -
  let ?env = "pg_envs st (pg_tick st)" and ?f = "\<lambda>env. pg_thread_rows env p"
  obtain st1 rows where r: "pg_run ?f st = (st1, Inr rows)" "hydrate_messages cfg rows (xt_actor p) st1 = (st', Inr ms)"
    using run(1) by (auto simp: pg_message_list_thread_def tx_bind_Inr split: if_splits)
  have m: "row_of m \<in> set rows" using hydrate_messages_rows [OF r(2)] run(2) by (metis image_eqI list.set_map)
  obtain w c u i where "uuid4 ?env (xt_workspace_id p) (xt_channel_id p) (xt_actor p) (xt_message_id p) = Inr (w, c, u, i)"
      "row_of m \<in> set (visible (pg_db st) w c u)"
    using pg_run_Inr [OF r(1)] m by (fastforce simp: pg_thread_rows_def result_bind_Inr_iff Let_def simp del: uuid4_Inr dest: in_set_takeD)
  then show ?thesis using visible_readable env_uuid [OF ok] by auto
qed

lemma pg_search_readable:
  assumes ok: "pg_messages_ok canon st" and run: "pg_message_search cfg p st = (st', Inr ms)" "m \<in> set ms"
  shows "may_read canon st (xq_actor p) (row_of m)"
proof -
  let ?env = "pg_envs st (pg_tick st)"
  from page_rows [OF run(1) [unfolded pg_message_search_def] run(2)] obtain rows db' where
    r: "pg_search_rows cfg ?env p (pg_db st) = (db', Inr rows)" "row_of m \<in> set rows" by blast
  then obtain u where "uuid_param ?env (xq_actor p) = Inr u" "row_of m \<in> set (yz_messages (pg_db st))" "mg_deleted_at (row_of m) = None"
      "member_in (pg_db st) (mg_channel_id (row_of m)) u"
    by (auto simp: pg_search_rows_def result_bind_Inr_iff simp del: uuid_param_Inr dest!: in_set_takeD)
  then show ?thesis using env_uuid [OF ok] by (auto simp: may_read_def stored_def)
qed

text \<open>A pin shows a message of its own channel.\<close>

lemma pg_pins_readable:
  assumes ok: "pg_messages_ok canon st" and run: "pg_message_list_pins cfg p st = (st', Inr ms)" "m \<in> set ms"
  shows "may_read canon st (xn_actor p) (row_of m)"
proof -
  let ?env = "pg_envs st (pg_tick st)"
  from page_rows [OF run(1) [unfolded pg_message_list_pins_def] run(2)] obtain rows db' where
    r: "pg_pin_rows ?env p (pg_db st) = (db', Inr rows)" "row_of m \<in> set rows" by blast
  then obtain w c u pin where u: "uuid3 ?env (xn_workspace_id p) (xn_channel_id p) (xn_actor p) = Inr (w, c, u)"
    and pin: "pin \<in> set (yz_pins (pg_db st))" "row_of m \<in> set (yz_messages (pg_db st))" "mg_deleted_at (row_of m) = None"
      "row_key (row_of m) = (yg_workspace_id pin, yg_message_id pin)" "member_in (pg_db st) (yg_channel_id pin) u"
    by (fastforce simp: pg_pin_rows_def result_bind_Inr_iff row_key_def simp del: uuid3_Inr)
  have ok': "pins_ok (pg_db st)" "distinct (map row_key (yz_messages (pg_db st)))"
    using ok by (simp_all add: pg_messages_ok_def messages_ok_def ids_unique_def)
  from ok'(1) pin(1) obtain x where x: "x \<in> set (yz_messages (pg_db st))" "mg_channel_id x = yg_channel_id pin"
      "row_key x = (yg_workspace_id pin, yg_message_id pin)"
    by (auto simp: pins_ok_def list_all_iff list_ex_iff row_key_def)
  have "row_of m = x" using key_unique [OF ok'(2) pin(2) x(1)] pin(4) x(3) by simp
  then show ?thesis using u pin x(2) env_uuid [OF ok] by (auto simp: may_read_def stored_def)
qed

subsection \<open>Pins\<close>

lemma insert_pin_cases:
  assumes "pg_insert_pin env r db = (db', q)"
  shows "db' = db \<or> (\<exists>w c i pins. pe_uuid env (xr_workspace_id r) = Some w \<and> pe_uuid env (xr_channel_id r) = Some c \<and>
    pe_uuid env (xr_message_id r) = Some i \<and> db' = db\<lparr>yz_pins := pins\<rparr> \<and>
    (\<forall>pin\<in>set pins. pin \<in> set (yz_pins db) \<or> is_pin w c i pin))"
proof (cases "uuid4 env (xr_workspace_id r) (xr_channel_id r) (xr_message_id r) (xr_actor r)")
  case (Inl e)
  with assms show ?thesis by (auto simp: pg_insert_pin_def tx_bind_def tx_lift_def)
next
  case (Inr k)
  obtain w c i u where k: "k = (w, c, i, u)" by (cases k)
  let ?upd = "update_where (is_pin w c i) (\<lambda>pin. pin\<lparr>yg_pinned_by := u\<rparr>) (yz_pins db)"
  let ?new = "\<lparr>yg_workspace_id = w, yg_channel_id = c, yg_message_id = i, yg_pinned_by = u, yg_created_at = pe_now env\<rparr>"
  have cases: "db' = db \<or> db' = db\<lparr>yz_pins := ?upd\<rparr> \<or> db' = db\<lparr>yz_pins := yz_pins db @ [?new]\<rparr>"
    using assms Inr k by (auto simp: pg_insert_pin_def tx_bind_def tx_lift_def simp del: uuid4_Inr split: if_splits)
  have "\<forall>pin\<in>set ?upd. pin \<in> set (yz_pins db) \<or> is_pin w c i pin"
    by (auto simp: set_update_where is_pin_def)
  moreover have "\<forall>pin\<in>set (yz_pins db @ [?new]). pin \<in> set (yz_pins db) \<or> is_pin w c i pin"
    by (simp add: is_pin_def)
  ultimately have "db' = db \<or> (\<exists>pins. db' = db\<lparr>yz_pins := pins\<rparr> \<and> (\<forall>pin\<in>set pins. pin \<in> set (yz_pins db) \<or> is_pin w c i pin))"
    using cases by blast
  with Inr k show ?thesis by (auto simp: uuid4_Inr)
qed

lemma insert_pin_rel:
  assumes "pg_insert_pin env r db = (db', q)" "pe_uuid env = canon"
    and "\<exists>w c i. canon (xr_workspace_id r) = Some w \<and> canon (xr_channel_id r) = Some c \<and> canon (xr_message_id r) = Some i \<and>
      list_ex (is_live w c i) (yz_messages db)"
  shows "msg_rel canon E D db db'"
  using insert_pin_cases [OF assms(1)]
proof (elim disjE exE conjE)
  fix w c i pins
  assume w: "pe_uuid env (xr_workspace_id r) = Some w" "pe_uuid env (xr_channel_id r) = Some c" "pe_uuid env (xr_message_id r) = Some i"
    and db': "db' = db\<lparr>yz_pins := pins\<rparr>" and pins: "\<forall>pin\<in>set pins. pin \<in> set (yz_pins db) \<or> is_pin w c i pin"
  from assms(2,3) w have "list_ex (is_live w c i) (yz_messages db)" by auto
  then obtain m where m: "m \<in> set (yz_messages db)" "mg_workspace_id m = w" "mg_channel_id m = c" "mg_id m = i"
    by (auto simp: list_ex_iff is_live_def)
  have "pins_ok db'" if "pins_ok db"
    using that pins m by (fastforce simp: pins_ok_def db' list_all_iff list_ex_iff is_pin_def)
  then show "msg_rel canon E D db db'"
    by (simp add: msg_rel_def messages_ok_def ids_unique_def clients_unique_def threads_ok_def db')
qed simp

lemma msg_rel_trans: "msg_rel canon E D a b \<Longrightarrow> msg_rel canon E D b c \<Longrightarrow> msg_rel canon E D a c"
  using msg_rel_preorder [of canon E D] unfolding preorder_rel_def by blast

lemma delete_pin_rel: "tx_rel (msg_rel canon E D) (pg_delete_pin env r)"
proof (rule tx_relI)
  fix db db' q assume eq: "pg_delete_pin env r db = (db', q)"
  have "db' = db \<or> (\<exists>p. db' = db\<lparr>yz_pins := filter p (yz_pins db)\<rparr>)"
    using eq by (auto simp: pg_delete_pin_def tx_bind_def tx_lift_def split: sum.splits if_splits)
  then show "msg_rel canon E D db db'"
    by (auto simp: msg_rel_def messages_ok_def ids_unique_def clients_unique_def threads_ok_def pins_ok_def list_all_iff)
qed

lemma unpin_rel: "tx_rel (pg_rel canon E D) (pg_run (\<lambda>env. pg_unpin_tx env r))"
  unfolding pg_unpin_tx_def
  by (intro pg_run_writes tx_rel_intros msg_rel_preorder delete_pin_rel core_msg_rel outbox_core)

lemma message_pin_rel: "tx_rel (pg_rel canon E D) (pg_message_pin cfg r)"
proof (rule tx_relI)
  fix st st' q assume eq: "pg_message_pin cfg r st = (st', q)"
  let ?tx = "\<lambda>env. in_tx (tx_then (pg_insert_pin env r)
    (pg_insert_msg_outbox env ''message'' (xr_message_id r) ''MessagePinned'' (ref_payload r)))"
  obtain st1 q1 where get: "pg_message_get cfg r st = (st1, q1)" by (cases "pg_message_get cfg r st")
  have t1: "tables st1 = tables st" by (rule tx_relD [OF message_get_tables get])
  show "pg_rel canon E D st st'"
    unfolding pg_rel_def
  proof
    assume ok: "pg_messages_ok canon st"
    show "pg_messages_ok canon st' \<and> changes E D (stored st) (stored st')"
    proof (cases q1)
      case (Inl e)
      with eq get t1 ok show ?thesis by (auto simp: pg_message_pin_def tx_bind_def pg_messages_ok_def stored_def)
    next
      case (Inr m)
      have ok1: "pg_messages_ok canon st1" using ok t1 by (simp add: pg_messages_ok_def)
      obtain st2 q2 where run: "pg_run ?tx st1 = (st2, q2)" by (cases "pg_run ?tx st1")
      have e1: "canon_env canon (pg_envs st1 (pg_tick st1))" using ok1 by (simp add: pg_messages_ok_def)
      have live: "\<exists>w c i. canon (xr_workspace_id r) = Some w \<and> canon (xr_channel_id r) = Some c \<and> canon (xr_message_id r) = Some i \<and>
          list_ex (is_live w c i) (yz_messages (pg_db st1))"
        using message_get_row [OF get [unfolded Inr] env_uuid [OF ok]] t1 by (auto simp: stored_def list_ex_iff)
      have "tx_rel (\<lambda>db db'. db = pg_db st1 \<longrightarrow> msg_rel canon E D db db') (?tx (pg_envs st1 (pg_tick st1)))"
      proof (rule tx_relI, rule impI)
        fix db db' q assume tx: "?tx (pg_envs st1 (pg_tick st1)) db = (db', q)" and db: "db = pg_db st1"
        obtain db1 q1 where ins: "pg_insert_pin (pg_envs st1 (pg_tick st1)) r db = (db1, q1)"
          by (cases "pg_insert_pin (pg_envs st1 (pg_tick st1)) r db")
        have 1: "msg_rel canon E D db db1" using insert_pin_rel [OF ins canon_env_uuid [OF e1]] live db by simp
        have "db' = db \<or> (\<exists>q. pg_insert_msg_outbox (pg_envs st1 (pg_tick st1)) ''message'' (xr_message_id r) ''MessagePinned'' (ref_payload r) db1 = (db', q))"
          using tx ins by (auto simp: in_tx_def tx_bind_def split: prod.splits sum.splits)
        then show "msg_rel canon E D db db'"
        proof (elim disjE exE)
          fix q assume "pg_insert_msg_outbox (pg_envs st1 (pg_tick st1)) ''message'' (xr_message_id r) ''MessagePinned'' (ref_payload r) db1 = (db', q)"
          from msg_rel_trans [OF 1 tx_relD [OF core_msg_rel [OF outbox_core] this]] show ?thesis .
        qed simp
      qed
      from tx_relD [OF this] pg_run_db [OF run] have "msg_rel canon E D (pg_db st1) (pg_db st2)" by auto
      then have 2: "pg_messages_ok canon st2 \<and> changes E D (stored st1) (stored st2)"
        using ok1 pg_run_envs [OF run] by (simp add: msg_rel_def pg_messages_ok_def stored_def)
      have "tables st' = tables st2"
        using eq get Inr run tx_relD [OF message_get_tables] by (auto simp: pg_message_pin_def tx_bind_def split: sum.splits)
      with 2 t1 show ?thesis by (simp add: pg_messages_ok_def stored_def)
    qed
  qed
qed

subsection \<open>The interpretation\<close>

lemma message_pg_simps [simp]:
  "mr_send (message_pg cfg) = pg_message_send cfg" "mr_get (message_pg cfg) = pg_message_get cfg"
  "mr_list (message_pg cfg) = pg_message_list cfg" "mr_list_thread (message_pg cfg) = pg_message_list_thread cfg"
  "mr_search (message_pg cfg) = pg_message_search cfg" "mr_forward (message_pg cfg) = pg_message_forward cfg"
  "mr_update (message_pg cfg) = pg_message_update cfg"
  "mr_delete (message_pg cfg) = (\<lambda>r. pg_run (\<lambda>env. pg_delete_tx cfg env r))"
  "mr_list_pins (message_pg cfg) = pg_message_list_pins cfg" "mr_pin (message_pg cfg) = pg_message_pin cfg"
  "mr_unpin (message_pg cfg) = (\<lambda>r. pg_run (\<lambda>env. pg_unpin_tx env r))"
  "mr_add_reaction (message_pg cfg) = pg_add_reaction cfg" "mr_remove_reaction (message_pg cfg) = pg_remove_reaction cfg"
  by (simp_all add: message_pg_def)

lemma pg_rel_rule: "tx_rel (pg_rel canon E D) f \<Longrightarrow> pg_messages_ok canon st \<Longrightarrow> f st = (st', r) \<Longrightarrow>
  pg_messages_ok canon st' \<and> changes E D (stored st) (stored st')"
  by (drule (1) tx_relD) (simp add: pg_rel_def)

lemma tables_rule: "tx_keeps tables f \<Longrightarrow> f st = (st', r) \<Longrightarrow> pg_messages_ok canon st \<Longrightarrow>
  pg_messages_ok canon st' \<and> stored st' = stored st"
  by (drule (1) tx_relD) (simp add: pg_messages_ok_def stored_def)

interpretation mpg: message_store "message_pg cfg" "pg_messages_ok canon" stored "may_read canon" "named canon" for cfg canon
proof (unfold_locales, goal_cases)
  case 1 then show ?case by (simp add: pg_messages_ok_def messages_ok_def ids_unique_def stored_def)
next
  case 2 then show ?case by (auto simp: named_def)
next
  case 3 then show ?case by (intro pg_rel_rule [OF message_send_rel]) simp_all
next
  case 4 then show ?case by (intro tables_rule [OF message_get_tables]) simp_all
next
  case 5 then show ?case by (intro tables_rule [OF page_reads(1)]) simp_all
next
  case 6 then show ?case by (intro tables_rule [OF page_reads(2)]) simp_all
next
  case 7 then show ?case by (intro tables_rule [OF page_reads(3)]) simp_all
next
  case 8 then show ?case by (intro tables_rule [OF page_reads(4)]) simp_all
next
  case 9 then show ?case by (intro pg_rel_rule [OF message_forward_rel]) simp_all
next
  case 10 then show ?case by (intro pg_rel_rule [OF message_update_rel]) simp_all
next
  case 11 then show ?case by (intro pg_rel_rule [OF message_delete_rel]) simp_all
next
  case 12 then show ?case by (intro pg_rel_rule [OF message_pin_rel]) simp_all
next
  case 13 then show ?case by (intro pg_rel_rule [OF unpin_rel]) simp_all
next
  case 14 then show ?case by (intro pg_rel_rule [OF add_reaction_rel]) simp_all
next
  case 15 then show ?case by (intro pg_rel_rule [OF remove_reaction_rel]) simp_all
next
  case 16 then show ?case using pg_get_row by simp
next
  case 17 then show ?case using pg_list_readable by simp
next
  case 18 then show ?case using pg_thread_readable by simp
next
  case 19 then show ?case using pg_search_readable by simp
next
  case 20 then show ?case using pg_pins_readable by simp
qed

section \<open>Properties of the module\<close>

text \<open>
  C20. Whatever requests are served, in whatever order and with whatever outcome, message identifiers stay
  unique, no two live messages of a sender in a channel carry the same client identifier, every reply
  names a root of its own channel that is not a reply, and every pin names a message of its channel.
\<close>

theorem messages_stay_consistent:
  assumes "mv_repo s = message_pg cfg" "tame (pg_messages_ok canon) stored s" "pg_messages_ok canon (mw_store w)"
  shows "messages_ok canon (pg_db (mw_store (serve_all s qs w)))"
  using mpg.serve_all_run [OF assms(1,2)] assms(3) by (simp add: mpg.moves_def pg_messages_ok_def)


text \<open>
  C18. Every message a read answers with is a live message of a channel the reader is an active or muted
  member of: no list, thread, search, pin list or lookup reveals another one.
\<close>

theorem reads_confined:
  assumes "mv_repo s = message_pg cfg" "pg_messages_ok canon (mw_store w)" "is_read q"
    and "serve s x q w = (w', Inr ds)" "d \<in> set ds"
  shows "\<exists>m. d = to_message_dto m \<and> row_of m \<in> set (stored (mw_store w)) \<and> mg_deleted_at m = None \<and>
    (\<exists>u. canon (trim_space (requester q)) = Some u \<and> member_in (pg_db (mw_store w)) (mg_channel_id m) u)"
  using mpg.read_readable [OF assms] by (auto simp: may_read_def message_row.defs)

end
