(* ===== verification/Msg_Send.thy ===== *)
theory Msg_Send
  imports Msg_Safety
begin

text \<open>
  Sending with a client identifier: the identifier reaches the stored metadata, and a second send with it
  answers with the message of the first.
\<close>

section \<open>The identifier in the metadata\<close>

text \<open>Storing a \<open>jsonb\<close> value keeps its string members.\<close>

definition keeps_client_id :: "pg_env \<Rightarrow> bool" where
  "keeps_client_id env \<longleftrightarrow> (\<forall>s t. pe_jsonb env s = Some t \<longrightarrow>
     jsonb_member ''client_message_id'' t = jsonb_member ''client_message_id'' s)"

lemma with_client_message_id_member:
  assumes "with_client_message_id md cid = Inr text"
  shows "jsonb_member ''client_message_id'' text = Some (to_valid_utf8 cid)"
proof -
  obtain m where m: "(if md = [] then Some [] else unmarshal_map md) = Some m"
    "text = json_print (JObj (map_put ''client_message_id'' (JStr cid) m))"
    using assms by (auto simp: with_client_message_id_def split: option.splits)
  have "unmarshal_map ''null'' = Some [] \<Longrightarrow> printable max_nesting (JObj [])" by (rule unmarshal_map_printable)
  have "printable max_nesting (JObj m)"
  proof (cases "md = []")
    case True
    with m(1) have "m = []" by simp
    then show ?thesis by (simp add: max_nesting_def)
  next
    case False
    with m(1) show ?thesis using unmarshal_map_printable by simp
  qed
  then show ?thesis unfolding m(2) by (rule jsonb_member_put) simp
qed

lemma send_params_member:
  assumes "send_params_of i = Inr p" "xp_client_message_id p \<noteq> []"
  shows "jsonb_member ''client_message_id'' (xp_metadata p) = Some (to_valid_utf8 (xp_client_message_id p))"
proof -
  have "send_metadata (xi_metadata i) (xp_client_message_id p) = Inr (xp_metadata p)"
    using assms(1) by (auto simp: send_params_of_def Let_def split: if_splits sum.splits)
      (auto simp: map_sum_def split: sum.splits)
  then show ?thesis
    using assms(2) by (auto simp: send_metadata_def result_bind_Inr_iff dest: with_client_message_id_member)
qed

lemma send_params_client_id:
  "send_params_of i = Inr p \<Longrightarrow> xp_client_message_id p = normalize_client_message_id (xi_client_message_id i)"
  by (auto simp: send_params_of_def Let_def split: if_splits sum.splits) (auto simp: map_sum_def split: sum.splits)

lemma sql_trim_Nil: "sql_trim s = [] \<longleftrightarrow> (\<forall>c\<in>set s. c = CHR '' '')"
proof -
  have "(\<forall>x\<in>set (dropWhile P xs). P x) \<longleftrightarrow> (\<forall>x\<in>set xs. P x)" for P and xs :: "'x list"
    by (induction xs) auto
  then show ?thesis by (simp add: sql_trim_def)
qed

lemma trim_space_head: "trim_space s = c # t \<Longrightarrow> c \<noteq> CHR '' ''"
  using space_len_trim_space [of s] by (auto simp: ascii_space_def)

lemma normalize_client_id_nonblank:
  assumes "normalize_client_message_id v \<noteq> []"
  shows "sql_trim (normalize_client_message_id v) \<noteq> []"
proof -
  obtain c t where v: "trim_space v = c # t"
    using assms by (cases "trim_space v") (auto simp: normalize_client_message_id_def Let_def)
  then have "c \<in> set (normalize_client_message_id v)" by (simp add: normalize_client_message_id_def Let_def)
  with trim_space_head [OF v] show ?thesis by (auto simp: sql_trim_Nil)
qed

section \<open>The row of a client identifier\<close>

text \<open>The live message a send with these parameters is about.\<close>

definition carries :: "(string \<Rightarrow> string option) \<Rightarrow> send_params \<Rightarrow> message_row \<Rightarrow> bool" where
  "carries canon p m \<longleftrightarrow> (\<exists>w c u. canon (xp_workspace_id p) = Some w \<and> canon (xp_channel_id p) = Some c \<and>
     canon (xp_sender_id p) = Some u \<and> mg_deleted_at m = None \<and> mg_workspace_id m = w \<and> mg_channel_id m = c \<and>
     mg_sender_id m = Some u \<and> client_id_of m = Some (xp_client_message_id p))"

lemma carries_key:
  "carries canon p m \<Longrightarrow> sql_trim (xp_client_message_id p) \<noteq> [] \<Longrightarrow>
   \<exists>w c u. canon (xp_workspace_id p) = Some w \<and> canon (xp_channel_id p) = Some c \<and> canon (xp_sender_id p) = Some u \<and>
     client_key m = Some (w, c, u, xp_client_message_id p)"
  by (auto simp: carries_def client_key_def)

lemma carries_unique:
  assumes "messages_ok canon db" "sql_trim (xp_client_message_id p) \<noteq> []"
    and "a \<in> set (yz_messages db)" "b \<in> set (yz_messages db)" "carries canon p a" "carries canon p b"
  shows "b = a"
proof -
  have "client_key b = client_key a" "client_key a \<noteq> None"
    using carries_key [OF assms(5,2)] carries_key [OF assms(6,2)] by auto
  then show ?thesis using assms(1,3,4) by (simp add: messages_ok_def clients_unique_def)
qed

lemma client_message_carries:
  assumes "pg_client_message env p db = (db', Inr i)" "pe_uuid env = canon"
  shows "db' = db \<and> pg_text_ok (xp_client_message_id p) \<and> (\<exists>m\<in>set (yz_messages db). mg_id m = i \<and> carries canon p m)"
proof -
  obtain k where k: "uuid3 env (xp_workspace_id p) (xp_channel_id p) (xp_sender_id p) = Inr k"
    and t: "pg_text_ok (xp_client_message_id p)" and db: "db' = db"
    and look: "(case k of (w, c, u) \<Rightarrow> case sort_key (\<lambda>m. - mg_created_at m)
        (filter (\<lambda>m. mg_workspace_id m = w \<and> mg_channel_id m = c \<and> mg_sender_id m = Some u \<and>
           client_id_of m = Some (xp_client_message_id p) \<and> mg_deleted_at m = None) (yz_messages db)) of
        [] \<Rightarrow> Inl err_no_rows | m # _ \<Rightarrow> Inr (mg_id m)) = Inr i"
    using assms(1) by (auto simp: pg_client_message_def result_bind_Inr_iff simp del: uuid3_Inr)
  obtain w c u where wcu: "k = (w, c, u)" by (cases k)
  let ?rows = "filter (\<lambda>m. mg_workspace_id m = w \<and> mg_channel_id m = c \<and> mg_sender_id m = Some u \<and>
           client_id_of m = Some (xp_client_message_id p) \<and> mg_deleted_at m = None) (yz_messages db)"
  from look obtain m ms where m: "sort_key (\<lambda>m. - mg_created_at m) ?rows = m # ms" "mg_id m = i"
    by (auto simp: wcu split: list.splits)
  from m(1) have "m \<in> set (sort_key (\<lambda>m. - mg_created_at m) ?rows)" by simp
  then have "m \<in> set ?rows" by simp
  with k m(2) assms(2) db t show ?thesis by (auto simp: wcu carries_def)
qed

text \<open>A stored one is found.\<close>

lemma client_message_found:
  assumes "messages_ok canon db" "pe_uuid env = canon" "m \<in> set (yz_messages db)" "carries canon p m"
    and "sql_trim (xp_client_message_id p) \<noteq> []" "pg_text_ok (xp_client_message_id p)"
  shows "pg_client_message env p db = (db, Inr (mg_id m))"
proof -
  obtain w c u where k: "canon (xp_workspace_id p) = Some w" "canon (xp_channel_id p) = Some c" "canon (xp_sender_id p) = Some u"
    using assms(4) by (auto simp: carries_def)
  let ?rows = "filter (\<lambda>m. mg_workspace_id m = w \<and> mg_channel_id m = c \<and> mg_sender_id m = Some u \<and>
           client_id_of m = Some (xp_client_message_id p) \<and> mg_deleted_at m = None) (yz_messages db)"
  have all: "x = m" if "x \<in> set (sort_key (\<lambda>m. - mg_created_at m) ?rows)" for x
    using that k by (intro carries_unique [OF assms(1,5,3) _ assms(4)]) (auto simp: carries_def)
  have "m \<in> set (sort_key (\<lambda>m. - mg_created_at m) ?rows)" using assms(3,4) k by (auto simp: carries_def)
  then obtain x xs where "sort_key (\<lambda>m. - mg_created_at m) ?rows = x # xs" by (cases "sort_key (\<lambda>m. - mg_created_at m) ?rows") auto
  with all have "sort_key (\<lambda>m. - mg_created_at m) ?rows = m # xs" by simp
  moreover have "uuid3 env (xp_workspace_id p) (xp_channel_id p) (xp_sender_id p) = Inr (w, c, u)" using k assms(2) by simp
  ultimately show ?thesis using assms(6) by (simp add: pg_client_message_def text_params_def del: uuid3_Inr)
qed

lemma client_message_before_simps:
  assumes "xp_client_message_id p \<noteq> []"
  shows "client_message_before env p db = (db', Inr (Some i)) \<longleftrightarrow> pg_client_message env p db = (db', Inr i)"
  using assms by (auto simp: client_message_before_def split: prod.splits sum.splits if_splits)

text \<open>How the transaction of a send ends.\<close>

lemma send_tx_outcome:
  assumes "pg_send_tx env p db = (db', Inr outcome)"
  shows "\<exists>root db1. pg_thread_root env p db = (db, Inr root) \<and> message_core db1 = message_core db \<and>
    (case outcome of
       Existing i \<Rightarrow> db' = db \<and> client_message_before env p db1 = (db1, Inr (Some i))
     | Raced \<Rightarrow> db' = db \<and> client_message_before env p db1 = (db1, Inr None)
     | Created m \<Rightarrow> client_message_before env p db1 = (db1, Inr None) \<and>
         (\<exists>db2. pg_send_insert env p root db1 = (db2, Inr m) \<and> message_core db' = message_core db2))"
proof (cases outcome)
  case (Created m)
  from send_tx_created [OF assms [unfolded Created]] obtain root db1 db2 where
    1: "pg_thread_root env p db = (db, Inr root)"
      "ensure_direct_members env (xp_workspace_id p) (xp_channel_id p) (xp_sender_id p) db = (db1, Inr ())"
      "client_message_before env p db1 = (db1, Inr None)"
      "pg_send_insert env p root db1 = (db2, Inr m)" "send_relations env p root m db2 = (db', Inr (Created m))" by blast
  with tx_relD [OF ensure_direct_core 1(2)] tx_relD [OF send_relations_core 1(5)] show ?thesis
    by (auto simp: Created)
next
  case (Existing i)
  then obtain dbx where "db' = db" and run: "send_statements env p db = (dbx, Inr (Existing i))"
    using assms by (cases "send_statements env p db") (auto simp: pg_send_tx_def split: sum.splits send_outcome.splits)
  then show ?thesis using send_statements_steps [OF run] tx_relD [OF ensure_direct_core]
    by (fastforce simp: Existing split: option.splits)
next
  case Raced
  then obtain dbx where "db' = db" and run: "send_statements env p db = (dbx, Inr Raced)"
    using assms by (cases "send_statements env p db") (auto simp: pg_send_tx_def split: sum.splits send_outcome.splits)
  then show ?thesis using send_statements_steps [OF run] tx_relD [OF ensure_direct_core]
    by (fastforce simp: Raced split: option.splits)
qed

section \<open>One message per client identifier\<close>

lemma message_get_stored:
  assumes "pg_messages_ok canon st" "pg_message_get cfg (sent_ref p i) st = (st', Inr m)"
    and "row \<in> set (stored st)" "mg_id row = i" "canon (xp_workspace_id p) = Some (mg_workspace_id row)"
  shows "row_of m = row"
proof -
  have ok: "distinct (map row_key (stored st))" "plain_id canon i"
    using assms(1,3,4) by (auto simp: pg_messages_ok_def messages_ok_def ids_unique_def stored_def list_all_iff)
  from message_get_row [OF assms(2) env_uuid [OF assms(1)]] have "row_of m \<in> set (stored st)"
    "row_key (row_of m) = row_key row"
    using assms(4,5) ok(2) by (auto simp: sent_ref_def is_live_def row_key_def plain_id_def)
  then show ?thesis using key_unique [OF ok(1) _ assms(3)] by blast
qed

text \<open>A send that succeeds answers with the live message that carries its client identifier.\<close>

lemma send_answers_carrier:
  assumes ok: "pg_messages_ok canon st" and keeps: "keeps_client_id (pg_envs st (pg_tick st))"
    and cid: "xp_client_message_id p \<noteq> []"
      "jsonb_member ''client_message_id'' (xp_metadata p) = Some (to_valid_utf8 (xp_client_message_id p))"
    and run: "pg_message_send cfg p st = (st', Inr m)"
  shows "pg_messages_ok canon st' \<and> row_of m \<in> set (stored st') \<and> carries canon p (row_of m) \<and> pg_text_ok (xp_client_message_id p)"
proof -
  let ?env = "pg_envs st (pg_tick st)"
  have env: "pe_uuid (pg_envs st n) = canon" "canon_env canon ?env" for n using ok by (simp_all add: pg_messages_ok_def canon_env_def)
  have ok': "pg_messages_ok canon st'" using tx_relD [OF message_send_rel run] ok by (simp add: pg_rel_def)
  obtain st1 outcome where tx: "pg_run (\<lambda>env. pg_send_tx env p) st = (st1, Inr outcome)"
    and rest: "(case outcome of
      Existing i \<Rightarrow> tx_map_error (Wrap ''message send check idempotency'') (pg_message_get cfg (sent_ref p i))
    | Raced \<Rightarrow> tx_bind (pg_run (\<lambda>env. pg_client_message env p)) (\<lambda>i. pg_message_get cfg (sent_ref p i))
    | Created m \<Rightarrow> or_minimal m (pg_message_get cfg (sent_ref p (mg_id m)))) st1 = (st', Inr m)"
    using run by (auto simp: pg_message_send_def tx_bind_Inr)
  have ok1: "pg_messages_ok canon st1"
    using tx_relD [OF pg_run_writes [OF send_tx_rel] tx] ok by (simp add: pg_rel_def)
  note uuid1 = env_uuid [OF ok1]
  have "tables st' = tables st1"
  proof -
    have raced: "tx_keeps tables (tx_bind (pg_run (\<lambda>env. pg_client_message env p)) (\<lambda>i. pg_message_get cfg (sent_ref p i)))"
      by (intro tx_rel_intros preorder_keeps pg_run_reads message_get_tables) (simp add: pg_client_message_def)
    show ?thesis
    proof (cases outcome)
      case (Existing i)
      with rest have "pg_message_get cfg (sent_ref p i) st1 = (st', Inr m)" by simp
      then show ?thesis by (rule tx_relD [OF message_get_tables])
    next
      case Raced
      from rest [unfolded Raced send_outcome.case] show ?thesis by (rule tx_relD [OF raced])
    next
      case (Created m0)
      from rest [unfolded Created send_outcome.case] show ?thesis by (rule tx_relD [OF or_minimal_tables [OF message_get_tables]])
    qed
  qed
  then have st': "stored st' = stored st1" by (simp add: stored_def)
  from send_tx_outcome [OF pg_run_Inr [OF tx]] obtain root db1 where
    c1: "message_core db1 = message_core (pg_db st)" and out: "case outcome of
       Existing i \<Rightarrow> pg_db st1 = pg_db st \<and> client_message_before ?env p db1 = (db1, Inr (Some i))
     | Raced \<Rightarrow> pg_db st1 = pg_db st \<and> client_message_before ?env p db1 = (db1, Inr None)
     | Created m \<Rightarrow> client_message_before ?env p db1 = (db1, Inr None) \<and>
         (\<exists>db2. pg_send_insert ?env p root db1 = (db2, Inr m) \<and> message_core (pg_db st1) = message_core db2)" by blast
  have found: "row_of m = row \<and> row \<in> set (stored st') \<and> carries canon p row"
    if "row \<in> set (stored st1)" "carries canon p row" "pg_message_get cfg (sent_ref p (mg_id row)) st1 = (st2, Inr m)" for row st2
    using message_get_stored [OF ok1 that(3,1)] that by (auto simp: carries_def st')
  show ?thesis
  proof (cases outcome)
    case (Existing i)
    from out Existing have found_i: "pg_client_message ?env p db1 = (db1, Inr i)" and s1: "stored st1 = yz_messages db1"
      using client_message_before_simps [OF cid(1)] c1 by (simp_all add: stored_def)
    from client_message_carries [OF found_i env(1)] s1 obtain row where
      "pg_text_ok (xp_client_message_id p)" "row \<in> set (stored st1)" "mg_id row = i" "carries canon p row" by auto
    with found rest Existing ok' show ?thesis by auto
  next
    case Raced
    with rest obtain st2 i where 1: "pg_run (\<lambda>env. pg_client_message env p) st1 = (st2, Inr i)"
      "pg_message_get cfg (sent_ref p i) st2 = (st', Inr m)" by (auto simp: tx_bind_Inr)
    from client_message_carries [OF pg_run_Inr [OF 1(1)] uuid1] obtain row where
      r: "pg_db st2 = pg_db st1" "pg_text_ok (xp_client_message_id p)" "row \<in> set (stored st1)" "mg_id row = i" "carries canon p row"
      by (auto simp: stored_def)
    have ok2: "pg_messages_ok canon st2" using ok1 r(1) pg_run_envs [OF 1(1)] by (simp add: pg_messages_ok_def)
    have "row_of m = row"
      by (rule message_get_stored [OF ok2 1(2)]) (use r in \<open>auto simp: stored_def carries_def\<close>)
    with r ok' st' show ?thesis by (simp add: stored_def)
  next
    case (Created m0)
    from out Created obtain db2 where before: "client_message_before ?env p db1 = (db1, Inr None)"
      and ins: "pg_send_insert ?env p root db1 = (db2, Inr m0)" and core2: "message_core (pg_db st1) = message_core db2" by auto
    from send_insert_row [OF ins] obtain w c u q t md where
      k: "uuid3 ?env (xp_workspace_id p) (xp_channel_id p) (xp_sender_id p) = Inr (w, c, u)"
      and md: "pe_jsonb ?env (xp_metadata p) = Some md"
      and new: "pg_insert_message (new_message_row ?env w c u q t (xp_kind p) (xp_body p) md) db1 = (db2, Inr m0)"
      by (auto simp: jsonb_param_def simp del: uuid3_Inr split: option.splits)
    have utf: "pg_text_ok (xp_client_message_id p)"
    proof (rule ccontr)
      assume "\<not> pg_text_ok (xp_client_message_id p)"
      then have "pg_client_message ?env p db1 = (db1, Inl encoding_error)"
        using k by (simp add: pg_client_message_def text_params_def del: uuid3_Inr)
      with before cid(1) show False by (simp add: client_message_before_def encoding_error_def)
    qed
    have m0: "m0 = new_message_row ?env w c u q t (xp_kind p) (xp_body p) md" "m0 \<in> set (yz_messages db2)"
      using new by (auto simp: pg_insert_message_def split: if_splits)
    have "valid_utf8 (xp_client_message_id p)" using utf by (simp add: pg_text_ok_def)
    then have "client_id_of m0 = Some (xp_client_message_id p)"
      using keeps md cid(2) by (auto simp: m0(1) client_id_of_def keeps_client_id_def to_valid_utf8_id)
    then have car: "carries canon p m0" using k env(1) by (simp add: carries_def m0(1))
    have mem: "m0 \<in> set (stored st1)" using m0(2) core2 by (simp add: stored_def)
    from rest Created have "or_minimal m0 (pg_message_get cfg (sent_ref p (mg_id m0))) st1 = (st', Inr m)" by simp
    then consider "pg_message_get cfg (sent_ref p (mg_id m0)) st1 = (st', Inr m)" | "m = with_relations m0 [] []"
      by (auto simp: or_minimal_def split: prod.splits sum.splits)
    then show ?thesis
    proof cases
      case 1
      from found [OF mem car 1] utf ok' show ?thesis by simp
    next
      case 2
      with mem car utf ok' st' show ?thesis by simp
    qed
  qed
qed

text \<open>A send whose client identifier a live message carries answers with it and stores nothing.\<close>

lemma send_finds_carrier:
  assumes ok: "pg_messages_ok canon st" and cid: "sql_trim (xp_client_message_id p) \<noteq> []" "pg_text_ok (xp_client_message_id p)"
    and row: "row \<in> set (stored st)" "carries canon p row"
    and run: "pg_message_send cfg p st = (st', Inr m)"
  shows "row_of m = row \<and> pg_db st' = pg_db st"
proof -
  let ?env = "pg_envs st (pg_tick st)"
  have env: "pe_uuid ?env = canon" by (rule env_uuid [OF ok])
  have c0: "xp_client_message_id p \<noteq> []" using cid(1) by (auto simp: sql_trim_Nil)
  obtain st1 outcome where tx: "pg_run (\<lambda>env. pg_send_tx env p) st = (st1, Inr outcome)"
    and rest: "(case outcome of
      Existing i \<Rightarrow> tx_map_error (Wrap ''message send check idempotency'') (pg_message_get cfg (sent_ref p i))
    | Raced \<Rightarrow> tx_bind (pg_run (\<lambda>env. pg_client_message env p)) (\<lambda>i. pg_message_get cfg (sent_ref p i))
    | Created m \<Rightarrow> or_minimal m (pg_message_get cfg (sent_ref p (mg_id m)))) st1 = (st', Inr m)"
    using run by (auto simp: pg_message_send_def tx_bind_Inr)
  from send_tx_outcome [OF pg_run_Inr [OF tx]] obtain db1 where
    c1: "message_core db1 = message_core (pg_db st)" and out: "case outcome of
       Existing i \<Rightarrow> pg_db st1 = pg_db st \<and> client_message_before ?env p db1 = (db1, Inr (Some i))
     | Raced \<Rightarrow> pg_db st1 = pg_db st \<and> client_message_before ?env p db1 = (db1, Inr None)
     | Created m \<Rightarrow> client_message_before ?env p db1 = (db1, Inr None) \<and>
         (\<exists>root db2. pg_send_insert ?env p root db1 = (db2, Inr m) \<and> message_core (pg_db st1) = message_core db2)"
    by (cases outcome) fastforce+
  have "messages_ok canon db1" "row \<in> set (yz_messages db1)"
    using ok row(1) c1 messages_ok_core [OF c1] by (simp_all add: pg_messages_ok_def stored_def)
  from client_message_found [OF this(1) env this(2) row(2) cid]
  have "client_message_before ?env p db1 = (db1, Inr (Some (mg_id row)))"
    using client_message_before_simps [OF c0] by simp
  with out have o: "outcome = Existing (mg_id row)" and db: "pg_db st1 = pg_db st" by (auto split: send_outcome.splits)
  from rest o have get: "pg_message_get cfg (sent_ref p (mg_id row)) st1 = (st', Inr m)" by simp
  have ok1: "pg_messages_ok canon st1" using ok db pg_run_envs [OF tx] by (simp add: pg_messages_ok_def)
  have "row_of m = row"
    by (rule message_get_stored [OF ok1 get]) (use row db in \<open>auto simp: stored_def carries_def\<close>)
  with tx_relD [OF message_get_tables get] db show ?thesis by simp
qed

lemma message_send_Inr:
  assumes "message_send s x i w = (w', Inr d)"
  shows "\<exists>p m wa. send_params_of i = Inr p \<and> mr_send (mv_repo s) p (mw_store w) = (mw_store wa, Inr m) \<and>
    mw_events wa = mw_events w \<and> d = to_message_dto m \<and>
    w' = (if duplicate_retry x p m then wa else announce_sent s x p m wa)"
proof -
  obtain p m wa where p: "send_params_of i = Inr p" "in_store (mr_send (mv_repo s) p) w = (wa, Inr m)"
    "d = to_message_dto m" "w' = (if duplicate_retry x p m then wa else announce_sent s x p m wa)"
    using assms unfolding message_send_def by (auto simp: checked_def tx_bind_Inr split: option.splits, metis)
  have "mr_send (mv_repo s) p (mw_store w) = (mw_store wa, Inr m) \<and> mw_events wa = mw_events w"
    using p(2) by (auto simp: in_store_def split: prod.splits)
  with p show ?thesis by blast
qed

text \<open>Later changes do not touch what a live message carries.\<close>

lemma carries_frozen:
  "carries canon p m \<Longrightarrow> frozen m m' \<Longrightarrow> mg_deleted_at m' = None \<Longrightarrow> carries canon p m'"
  by (auto simp: carries_def frozen_def row_key_def client_id_of_def)

lemma changes_same_row:
  assumes "changes E D rows rows'" "m \<in> set rows" "distinct (map row_key rows')" "m' \<in> set rows'" "row_key m' = row_key m"
  shows "frozen m m'"
proof -
  obtain y where "y \<in> set rows'" "frozen m y" using assms(1,2) unfolding changes_def by blast
  moreover from this have "y = m'" using key_unique [OF assms(3) _ assms(4)] assms(5) by (simp add: frozen_def)
  ultimately show ?thesis by simp
qed

text \<open>
  C16. A message is stored once per client identifier: after a successful send, and as long as its message
  is not deleted, sending again with the same identifier answers with that message; when the clock of the
  service is past its creation time, the retry changes no table and publishes nothing.
\<close>

theorem send_once:
  assumes repo: "mv_repo s = message_pg cfg" and tame: "tame (pg_messages_ok canon) stored s"
    and ok: "pg_messages_ok canon (mw_store w)" and keeps: "\<And>n. keeps_client_id (pg_envs (mw_store w) n)"
    and cid: "normalize_client_message_id (xi_client_message_id i) \<noteq> []"
    and send: "message_send s x i w = (w1, Inr d1)" and w2: "serve_all s qs w1 = w2"
    and m: "m \<in> set (stored (mw_store w2))" "row_key m = (xd_workspace_id d1, xd_id d1)" "mg_deleted_at m = None"
    and retry: "message_send s x' i w2 = (w3, Inr d2)"
  shows "xd_id d2 = xd_id d1 \<and> (mg_created_at m < mx_started_at x' \<longrightarrow>
    pg_db (mw_store w3) = pg_db (mw_store w2) \<and> mw_events w3 = mw_events w2)"
proof -
  from message_send_Inr [OF send] obtain p m1 wa where
    p: "send_params_of i = Inr p" and s1: "pg_message_send cfg p (mw_store w) = (mw_store wa, Inr m1)"
    and d1: "d1 = to_message_dto m1" and w1: "w1 = (if duplicate_retry x p m1 then wa else announce_sent s x p m1 wa)"
    using repo by auto
  from message_send_Inr [OF retry] obtain p' m2 wb where
    "send_params_of i = Inr p'" and s2: "pg_message_send cfg p' (mw_store w2) = (mw_store wb, Inr m2)"
    and ev: "mw_events wb = mw_events w2" and d2: "d2 = to_message_dto m2"
    and w3: "w3 = (if duplicate_retry x' p' m2 then wb else announce_sent s x' p' m2 wb)"
    using repo by auto
  then have p': "p' = p" using p by simp
  have cp: "xp_client_message_id p \<noteq> []" "sql_trim (xp_client_message_id p) \<noteq> []"
    using cid send_params_client_id [OF p] normalize_client_id_nonblank [OF cid] by simp_all
  from send_answers_carrier [OF ok keeps cp(1) send_params_member [OF p cp(1)] s1] have
    a: "pg_messages_ok canon (mw_store wa)" "row_of m1 \<in> set (stored (mw_store wa))" "carries canon p (row_of m1)"
      "pg_text_ok (xp_client_message_id p)" by blast+
  have "mpg.moves canon UNIV UNIV wa w1"
    using mpg.announce_moves [OF tame, THEN mpg.moves_mono] by (simp add: w1)
  from mpg.moves_trans [OF this mpg.serve_all_run [OF repo tame, of w1 qs]] a(1)
  have w2ok: "pg_messages_ok canon (mw_store w2)" "changes UNIV UNIV (stored (mw_store wa)) (stored (mw_store w2))"
    by (simp_all add: mpg.moves_def w2)
  have "row_key m = row_key (row_of m1)" using m(2) by (simp add: d1 to_message_dto_def row_key_def message_row.defs)
  then have "frozen (row_of m1) m"
    using w2ok(1) m(1) by (intro changes_same_row [OF w2ok(2) a(2)]) (simp_all add: pg_messages_ok_def messages_ok_def ids_unique_def stored_def)
  then have "carries canon p m" by (rule carries_frozen [OF a(3) _ m(3)])
  from send_finds_carrier [OF w2ok(1) cp(2) a(4) m(1) this s2 [unfolded p']]
  have r: "row_of m2 = m" "pg_db (mw_store wb) = pg_db (mw_store w2)" by auto
  have "mg_id m2 = mg_id m" "mg_created_at m2 = mg_created_at m" using r(1) by (auto simp: message_row.defs)
  then show ?thesis
    using m(2) r(2) ev cp(1) by (auto simp: d2 to_message_dto_def row_key_def w3 p' duplicate_retry_def)
qed

end
