(* ===== verification/Msg_Outbox.thy ===== *)
theory Msg_Outbox
  imports Msg_Send
begin

text \<open>
  The transaction of a send as a whole: what a committed one leaves in the tables, and that nothing else
  leaves anything. Also what the untyped parameters of the audit rows mean for deleting and forwarding.
\<close>

section \<open>The rows a send writes\<close>










section \<open>The audit rows\<close>

text \<open>
  The audit row of a deletion is built from a parameter whose type the statement does not determine.
  Where the driver prepares its statements, as it does by default, no deletion and no forwarding succeeds,
  and the tables stay as they were.
\<close>

lemma untyped_audit_blocks:
  assumes "\<not> yq_untyped cfg"
  shows "\<exists>e e'. pg_delete_tx cfg env r db = (db, Inl e) \<and> pg_forward_tx cfg env p db = (db, Inl e')"
proof -
  have audit: "pg_message_audit cfg env w a c i md db = (db, Inl untyped_parameter)" for w a c i md db
    using assms by (simp add: pg_message_audit_def tx_fail_def)
  have blocked: "\<exists>e. in_tx f db = (db, Inl e)" if "\<And>db' x. f db \<noteq> (db', Inr x)" for f :: "(message_db, 'x) stmt"
    using that by (cases "f db") (auto simp: in_tx_def split: sum.split)
  have "\<exists>e. pg_delete_tx cfg env r db = (db, Inl e)"
    unfolding pg_delete_tx_def by (rule blocked) (auto simp: tx_bind_Inr audit)
  moreover have "\<exists>e. pg_forward_tx cfg env p db = (db, Inl e)"
    unfolding pg_forward_tx_def by (rule blocked) (auto simp: tx_bind_Inr audit)
  ultimately show ?thesis by blast
qed

end
