(* ===== verification/Msg_Demo.thy ===== *)
theory Msg_Demo
  imports Msg_Outbox
begin

text \<open>
  A small channel on which the properties of the messages module are run: \<open>ann\<close> has written a message, \<open>bob\<close>
  a reply to it; one is pinned, one carries a reaction.
\<close>

definition demo_ids :: "string list" where
  "demo_ids = [''w'', ''c'', ''ann'', ''bob'', ''m1'', ''m2'', ''new'']"

definition demo_canon :: "string \<Rightarrow> string option" where
  "demo_canon s = (if list_ex ((=) s) demo_ids then Some s else None)"

definition demo_message :: "string \<Rightarrow> string \<Rightarrow> string option \<Rightarrow> time \<Rightarrow> message_row" where
  "demo_message i sender parent t =
    \<lparr>mg_id = i, mg_workspace_id = ''w'', mg_channel_id = ''c'', mg_sender_id = Some sender, mg_parent_id = parent,
     mg_thread_root_id = parent, mg_kind = ''text'', mg_body = ''hi'', mg_metadata = ''{}'', mg_edited_at = None,
     mg_deleted_at = None, mg_created_at = t, mg_updated_at = t\<rparr>"

definition demo_message_db :: message_db where
  "demo_message_db =
    \<lparr>yz_messages = [demo_message ''m1'' ''ann'' None 1, demo_message ''m2'' ''bob'' (Some ''m1'') 2],
     yz_channels = [\<lparr>ya_id = ''c'', ya_workspace_id = ''w'', ya_status = ''active'', ya_deleted_at = None\<rparr>],
     yz_members = [\<lparr>yb_channel_id = ''c'', yb_user_id = ''ann'', yb_status = ''active''\<rparr>,
       \<lparr>yb_channel_id = ''c'', yb_user_id = ''bob'', yb_status = ''muted''\<rparr>],
     yz_directs = [], yz_direct_members = [],
     yz_mentions = [\<lparr>ye_workspace_id = ''w'', ye_message_id = ''m2'', ye_user_id = ''ann''\<rparr>],
     yz_reactions = [\<lparr>yf_workspace_id = ''w'', yf_message_id = ''m1'', yf_user_id = ''bob'', yf_emoji = ''+1''\<rparr>],
     yz_pins = [\<lparr>yg_workspace_id = ''w'', yg_channel_id = ''c'', yg_message_id = ''m1'', yg_pinned_by = ''ann'', yg_created_at = 3\<rparr>],
     yz_attachments = [], yz_search = [], yz_outbox = [], yz_audit = []\<rparr>"

definition demo_message_env :: "nat \<Rightarrow> pg_env" where
  "demo_message_env n = \<lparr>pe_now = 1000000 * int n, pe_fresh = ''new'', pe_uuid = demo_canon, pe_jsonb = Some, pe_fail = None\<rparr>"

definition demo_message_pg :: "message_db pg" where
  "demo_message_pg = \<lparr>pg_db = demo_message_db, pg_envs = demo_message_env, pg_tick = 0\<rparr>"

definition demo_pg_config :: message_pg_config where
  "demo_pg_config = \<lparr>yq_emoji_rank = (\<lambda>_. 0), yq_match = (\<lambda>q b. q = b), yq_rank = (\<lambda>_ _. 0), yq_untyped = True\<rparr>"

definition demo_message_service :: "message_db pg message_service" where
  "demo_message_service =
    \<lparr>mv_repo = message_pg demo_pg_config, mv_checker = (\<lambda>_ _ perm. Inr (perm = ''message.send'')), mv_realtime = True,
     mv_responders = []\<rparr>"

definition demo_message_world :: "message_db pg message_world" where
  "demo_message_world = \<lparr>mw_store = demo_message_pg, mw_events = []\<rparr>"

definition demo_clock :: "time \<Rightarrow> message_env" where
  "demo_clock t = \<lparr>mx_started_at = t, mx_now = t\<rparr>"

definition demo_send :: send_input where
  "demo_send =
    \<lparr>xi_actor = ''ann'', xi_workspace_id = ''w'', xi_channel_id = ''c'', xi_parent_id = [], xi_client_message_id = ''k1'',
     xi_kind = [], xi_body = ''hello'', xi_metadata = [], xi_mentioned = [''bob'']\<rparr>"

lemmas demo_message_defs = demo_message_db_def demo_message_def demo_message_pg_def demo_message_world_def
  demo_message_service_def

lemma demo_trim: "list_all (\<lambda>i. i \<noteq> [] \<and> trim_space i = i) demo_ids"
  by code_simp

lemma demo_plain: "plain_id demo_canon s \<longleftrightarrow> s \<in> set demo_ids"
  using demo_trim by (auto simp: plain_id_def demo_canon_def list_all_iff list_ex_iff split: if_splits)

lemma demo_canonical: "canonical_texts demo_canon"
  by (auto simp: canonical_texts_def demo_plain) (simp add: demo_canon_def list_ex_iff split: if_splits)

lemma demo_trims [simp]: "s \<in> set demo_ids \<Longrightarrow> trim_space s = s"
  using demo_trim by (simp add: list_all_iff)

lemma demo_known [simp]: "s \<in> set demo_ids \<Longrightarrow> demo_canon s = Some s"
  by (simp add: demo_canon_def list_ex_iff)

lemma demo_env_ok: "canon_env demo_canon (demo_message_env n)"
  by (simp add: canon_env_def demo_canonical demo_plain demo_message_env_def demo_ids_def)

lemma demo_keys: "map client_key (yz_messages demo_message_db) = [None, None]"
  by code_simp

lemma demo_messages_ok: "messages_ok demo_canon demo_message_db"
proof -
  have "ids_unique demo_canon demo_message_db"
    by (simp add: ids_unique_def demo_message_defs row_key_def demo_plain demo_ids_def)
  moreover have "clients_unique demo_message_db"
    using demo_keys by (auto simp: clients_unique_def demo_message_defs)
  moreover have "threads_ok demo_message_db"
    by (simp add: threads_ok_def thread_ok_def demo_message_defs same_place_def thread_root_def)
  moreover have "pins_ok demo_message_db"
    by (simp add: pins_ok_def demo_message_defs)
  ultimately show ?thesis by (simp add: messages_ok_def)
qed

lemma demo_pg_ok: "pg_messages_ok demo_canon (mw_store demo_message_world)"
  using demo_messages_ok demo_env_ok by (simp add: pg_messages_ok_def demo_message_world_def demo_message_pg_def)

lemma demo_tame: "tame ok rows demo_message_service"
  by (simp add: tame_def demo_message_service_def)

lemma demo_steady: "steady demo_canon demo_message_pg"
  by (simp add: steady_def demo_message_pg_def demo_message_env_def)

lemma demo_repo: "mv_repo demo_message_service = message_pg demo_pg_config"
  by (simp add: demo_message_service_def)

section \<open>Witnesses\<close>

theorem hydrate_batch_agrees_witness:
  "\<exists>ms. snd (hydrate_messages demo_pg_config (yz_messages demo_message_db) ''ann'' demo_message_pg) = Inr ms \<and>
    list_all2 (\<lambda>row m. snd (hydrate_message demo_pg_config row ''ann'' demo_message_pg) = Inr m) (yz_messages demo_message_db) ms"
proof (rule hydrate_batch_agrees [OF demo_steady])
  show "page_of demo_canon ''w'' (yz_messages demo_message_db)" by (simp add: page_of_def demo_message_defs demo_ids_def)
  show "reader demo_canon ''ann'' (Some ''ann'')" by (simp add: reader_def demo_ids_def)
qed

definition demo_list :: message_list_params where
  "demo_list = \<lparr>xl_workspace_id = ''w'', xl_channel_id = ''c'', xl_actor = ''bob'', xl_limit = 1, xl_before_id = []\<rparr>"

theorem pages_cover_timeline_witness:
  "follow_pages demo_message_service 3 demo_list demo_message_world =
    Some (map (dto_for demo_pg_config demo_message_db demo_list) (timeline_of demo_message_db demo_list)) \<and>
   map mg_id (timeline_of demo_message_db demo_list) = [''m2'', ''m1'']"
proof -
  have ids: "map mg_id (timeline_of demo_message_db demo_list) = [''m2'', ''m1'']" by code_simp
  have "length (timeline_of demo_message_db demo_list) = 2" using arg_cong [OF ids, of length] by simp
  with demo_messages_ok ids show ?thesis
    using pages_cover_timeline [of demo_canon demo_message_world demo_message_service demo_pg_config demo_list 3]
    by (simp add: demo_steady demo_repo messages_ok_def may_list_def demo_plain demo_ids_def demo_list_def demo_message_world_def
        demo_message_pg_def demo_message_service_def) (simp add: demo_message_pg_def [symmetric] demo_steady)
qed

definition demo_update :: message_update_input where
  "demo_update = \<lparr>xu_actor = ''bob'', xu_workspace_id = ''w'', xu_channel_id = ''c'', xu_message_id = ''m1'', xu_body = ''mine''\<rparr>"

definition demo_requests :: "(message_env \<times> message_request) list" where
  "demo_requests = [(demo_clock 0, Req_Update demo_update)]"

theorem messages_stay_consistent_witness:
  "messages_ok demo_canon (pg_db (mw_store (serve_all demo_message_service demo_requests demo_message_world)))"
  by (rule messages_stay_consistent [OF demo_repo demo_tame demo_pg_ok])


theorem reads_confined_witness:
  "\<exists>m. projr (snd (serve demo_message_service (demo_clock 0) (Req_List demo_list) demo_message_world)) ! 0 = to_message_dto m \<and>
    row_of m \<in> set (stored (mw_store demo_message_world)) \<and> mg_deleted_at m = None \<and>
    (\<exists>u. demo_canon (trim_space ''bob'') = Some u \<and> member_in (pg_db (mw_store demo_message_world)) (mg_channel_id m) u)"
proof -
  let ?run = "serve demo_message_service (demo_clock 0) (Req_List demo_list) demo_message_world"
  have "case snd ?run of Inl e \<Rightarrow> False | Inr ds \<Rightarrow> length ds = 1" by code_simp
  then obtain ds where ds: "snd ?run = Inr ds" "length ds = 1" by (cases "snd ?run") auto
  then have "?run = (fst ?run, Inr ds)" by (simp add: prod_eq_iff)
  from reads_confined [OF demo_repo demo_pg_ok _ this, of "ds ! 0"] ds show ?thesis
    by (simp add: demo_list_def)
qed



text \<open>The first send stores a message, and the retry that starts after it does not.\<close>

definition demo_once :: send_params where
  "demo_once =
    \<lparr>xp_workspace_id = ''w'', xp_channel_id = ''c'', xp_sender_id = ''ann'', xp_parent_id = [], xp_client_message_id = ''k1'',
     xp_kind = ''text'', xp_body = ''hello'',
     xp_metadata = json_print (JObj [(''client_message_id'', JStr ''k1'')]), xp_mentioned = [''bob'']\<rparr>"

lemma demo_once_params: "send_params_of demo_send = Inr demo_once"
  by code_simp

lemma demo_send_run:
  "message_send demo_message_service x demo_send w =
    (case pg_message_send demo_pg_config demo_once (mw_store w) of
       (st, Inl e) \<Rightarrow> (w\<lparr>mw_store := st\<rparr>, Inl (map_message_error e))
     | (st, Inr m) \<Rightarrow>
        (if duplicate_retry x demo_once m then w\<lparr>mw_store := st\<rparr>
         else announce_sent demo_message_service x demo_once m (w\<lparr>mw_store := st\<rparr>), Inr (to_message_dto m)))"
proof -
  have "ensure_permission demo_message_service (xi_actor demo_send) (xi_workspace_id demo_send) ''message.send'' = None"
    by (simp add: ensure_permission_def demo_message_service_def)
  then show ?thesis
    by (simp add: message_send_def checked_def demo_once_params tx_bind_def tx_lift_def tx_map_error_def in_store_def demo_repo
        split: prod.split sum.split)
qed

lemma demo_announce_store: "mw_store (announce_sent demo_message_service x p m w) = mw_store w"
  by (simp add: announce_sent_def Let_def demo_message_service_def publish_message_def)

lemma demo_once_run:
  "case pg_message_send demo_pg_config demo_once demo_message_pg of
     (st, Inl e) \<Rightarrow> False
   | (st, Inr m) \<Rightarrow> \<not> isl (snd (pg_message_send demo_pg_config demo_once st)) \<and>
       list_ex (\<lambda>x. row_key x = (mg_workspace_id m, mg_id m) \<and> mg_deleted_at x = None \<and> mg_created_at x < 9000000) (stored st)"
  by code_simp

theorem send_once_witness:
  "\<exists>d1 d2 w1 w3. message_send demo_message_service (demo_clock 0) demo_send demo_message_world = (w1, Inr d1) \<and>
    message_send demo_message_service (demo_clock 9000000) demo_send w1 = (w3, Inr d2) \<and>
    xd_id d2 = xd_id d1 \<and> pg_db (mw_store w3) = pg_db (mw_store w1) \<and> mw_events w3 = mw_events w1"
proof -
  let ?s = demo_message_service and ?w = demo_message_world
  obtain st m where run1: "pg_message_send demo_pg_config demo_once demo_message_pg = (st, Inr m)"
    and ok2: "\<not> isl (snd (pg_message_send demo_pg_config demo_once st))"
    and row: "list_ex (\<lambda>x. row_key x = (mg_workspace_id m, mg_id m) \<and> mg_deleted_at x = None \<and> mg_created_at x < 9000000) (stored st)"
    using demo_once_run by (auto split: prod.splits sum.splits)
  obtain w1 where w1: "message_send ?s (demo_clock 0) demo_send ?w = (w1, Inr (to_message_dto m))" "mw_store w1 = st"
    using run1 by (simp add: demo_send_run demo_message_world_def demo_announce_store)
  obtain st2 m2 where "pg_message_send demo_pg_config demo_once st = (st2, Inr m2)"
    using ok2 by (cases "pg_message_send demo_pg_config demo_once st", cases "snd (pg_message_send demo_pg_config demo_once st)") auto
  then obtain w3 where w3: "message_send ?s (demo_clock 9000000) demo_send w1 = (w3, Inr (to_message_dto m2))"
    using w1(2) by (simp add: demo_send_run)
  from row obtain x where x: "x \<in> set (stored (mw_store w1))" "row_key x = (xd_workspace_id (to_message_dto m), xd_id (to_message_dto m))"
      "mg_deleted_at x = None" "mg_created_at x < 9000000"
    by (auto simp: list_ex_iff w1(2) to_message_dto_def)
  have cid: "normalize_client_message_id (xi_client_message_id demo_send) \<noteq> []" by code_simp
  have keeps: "keeps_client_id (pg_envs (mw_store ?w) n)" for n
    by (simp add: keeps_client_id_def demo_message_world_def demo_message_pg_def demo_message_env_def)
  have "serve_all ?s [] w1 = w1" by simp
  from send_once [OF demo_repo demo_tame demo_pg_ok keeps cid w1(1) this x(1-3) w3] x(4) w1(1) w3 show ?thesis
    by (auto simp: demo_clock_def)
qed

text \<open>With prepared statements the author cannot delete the message.\<close>

lemma untyped_audit_blocks_witness:
  "\<exists>e. pg_delete_tx (demo_pg_config\<lparr>yq_untyped := False\<rparr>) (demo_message_env 0)
    \<lparr>xr_workspace_id = ''w'', xr_channel_id = ''c'', xr_message_id = ''m1'', xr_actor = ''ann''\<rparr> demo_message_db =
    (demo_message_db, Inl e)"
  using untyped_audit_blocks [of "demo_pg_config\<lparr>yq_untyped := False\<rparr>"] by auto

end
