(* ===== verification/Rbac_Service.thy ===== *)
theory Rbac_Service
  imports Pg_Tx Go_Marshal
begin

text \<open>
  \<open>rbac/domain/model.go\<close> and \<open>rbac/application/service.go\<close> over its \<open>Repository\<close> interface. The service
  keeps no state of its own: its operations are statements on the state of the repository.
\<close>

section \<open>Data\<close>

record permission =
  ba_id :: string
  ba_code :: string
  ba_module :: string
  ba_action :: string
  ba_name :: string
  ba_description :: "string option"

record role =
  bc_id :: string
  bc_workspace_id :: "string option"
  bc_code :: string
  bc_name :: string
  bc_description :: "string option"
  bc_is_system :: bool
  bc_created_by :: "string option"
  bc_permissions :: "permission list"

definition err_role_exists :: go_error where "err_role_exists = Sentinel ''ErrRoleAlreadyExists''"
definition err_role_not_found :: go_error where "err_role_not_found = Sentinel ''ErrRoleNotFound''"

record permission_dto =
  bl_id :: string
  bl_code :: string
  bl_module :: string
  bl_action :: string
  bl_name :: string
  bl_description :: "string option"

record role_dto =
  bn_id :: string
  bn_workspace_id :: "string option"
  bn_code :: string
  bn_name :: string
  bn_description :: "string option"
  bn_is_system :: bool
  bn_created_by :: "string option"
  bn_permissions :: "permission_dto list"

record create_role_input =
  bd_actor :: string
  bd_zone_id :: string
  bd_workspace_id :: string
  bd_code :: string
  bd_name :: string
  bd_description :: string
  bd_permission_codes :: "string list"

record create_role_params =
  be_workspace_id :: string
  be_code :: string
  be_name :: string
  be_description :: string
  be_permission_codes :: "string list"
  be_created_by :: string

record assign_role_input =
  bf_actor :: string
  bf_workspace_id :: string
  bf_user_id :: string
  bf_role_id :: string

record assign_role_params =
  bg_workspace_id :: string
  bg_user_id :: string
  bg_role_id :: string
  bg_assigned_by :: string

record revoke_role_params =
  bh_workspace_id :: string
  bh_user_id :: string
  bh_role_id :: string

text \<open>A nil \<open>Metadata\<close> is marshalled as the empty object.\<close>

record role_audit =
  bj_actor :: string
  bj_workspace_id :: string
  bj_action :: string
  bj_entity_type :: string
  bj_entity_id :: string
  bj_metadata :: "(string \<times> json) list"

definition to_permission_dto :: "permission \<Rightarrow> permission_dto" where
  "to_permission_dto p =
    \<lparr>bl_id = ba_id p, bl_code = ba_code p, bl_module = ba_module p, bl_action = ba_action p, bl_name = ba_name p,
     bl_description = ba_description p\<rparr>"

definition to_role_dto :: "role \<Rightarrow> role_dto" where
  "to_role_dto r =
    \<lparr>bn_id = bc_id r, bn_workspace_id = bc_workspace_id r, bn_code = bc_code r, bn_name = bc_name r,
     bn_description = bc_description r, bn_is_system = bc_is_system r, bn_created_by = bc_created_by r,
     bn_permissions = map to_permission_dto (bc_permissions r)\<rparr>"

text \<open>Codes in lower case, without blanks and repetitions, in the order of their first occurrence.\<close>

fun normalize_codes :: "string list \<Rightarrow> string list \<Rightarrow> string list" where
  "normalize_codes seen [] = []"
| "normalize_codes seen (c # cs) =
    (let code = to_lower (trim_space c)
     in if code = [] \<or> list_ex ((=) code) seen then normalize_codes seen cs
        else code # normalize_codes (code # seen) cs)"

definition normalize_permission_codes :: "string list \<Rightarrow> string list" where
  "normalize_permission_codes codes = normalize_codes [] codes"

section \<open>The repository\<close>

record 's role_repo =
  bo_list_permissions :: "('s, permission list) stmt"
  bo_list_roles :: "string \<Rightarrow> ('s, role list) stmt"
  bo_create_role :: "create_role_params \<Rightarrow> ('s, role) stmt"
  bo_list_member_roles :: "string \<Rightarrow> string \<Rightarrow> ('s, role list) stmt"
  bo_assign :: "assign_role_params \<Rightarrow> ('s, unit) stmt"
  bo_revoke :: "revoke_role_params \<Rightarrow> ('s, unit) stmt"
  bo_list_user_permissions :: "string \<Rightarrow> string \<Rightarrow> ('s, permission list) stmt"
  bo_has :: "string \<Rightarrow> string \<Rightarrow> string \<Rightarrow> ('s, bool) stmt"
  bo_has_any :: "string \<Rightarrow> string \<Rightarrow> ('s, bool) stmt"
  bo_has_any_zone :: "string \<Rightarrow> string \<Rightarrow> string \<Rightarrow> ('s, bool) stmt"
  bo_in_zone :: "string \<Rightarrow> string \<Rightarrow> ('s, bool) stmt"
  bo_record_audit :: "role_audit \<Rightarrow> ('s, unit) stmt"

section \<open>Asking for permissions\<close>

definition has_workspace_permission :: "'s role_repo \<Rightarrow> string \<Rightarrow> string \<Rightarrow> string \<Rightarrow> ('s, bool) stmt" where
  "has_workspace_permission repo user workspace perm =
    (let w = trim_space workspace; p = trim_space perm
     in if w = [] then tx_fail (bad_request ''WORKSPACE_REQUIRED'' ''Thieu workspace_id de kiem tra quyen.'')
        else if p = [] then tx_fail (bad_request ''PERMISSION_REQUIRED'' ''Thieu permission de kiem tra quyen.'')
        else bo_has repo user w p)"

definition has_any_workspace_permission :: "'s role_repo \<Rightarrow> string \<Rightarrow> string \<Rightarrow> ('s, bool) stmt" where
  "has_any_workspace_permission repo user perm =
    (let u = trim_space user; p = trim_space perm
     in if u = [] then tx_fail (unauthorized ''Phien dang nhap khong hop le.'')
        else if p = [] then tx_fail (bad_request ''PERMISSION_REQUIRED'' ''Thieu permission de kiem tra quyen.'')
        else bo_has_any repo u p)"

definition has_any_zone_permission :: "'s role_repo \<Rightarrow> string \<Rightarrow> string \<Rightarrow> string \<Rightarrow> ('s, bool) stmt" where
  "has_any_zone_permission repo user zone perm =
    (let u = trim_space user; z = trim_space zone; p = to_lower (trim_space perm)
     in if u = [] \<or> z = [] \<or> p = [] then tx_return False else bo_has_any_zone repo u z p)"

definition workspace_belongs_to_zone :: "'s role_repo \<Rightarrow> string \<Rightarrow> string \<Rightarrow> ('s, bool) stmt" where
  "workspace_belongs_to_zone repo workspace zone =
    (let w = trim_space workspace; z = trim_space zone
     in if w = [] \<or> z = [] then tx_return False else bo_in_zone repo w z)"

definition list_my_permissions :: "'s role_repo \<Rightarrow> string \<Rightarrow> string \<Rightarrow> ('s, permission_dto list) stmt" where
  "list_my_permissions repo user workspace =
    (let w = trim_space workspace
     in if w = [] then tx_fail (bad_request ''WORKSPACE_REQUIRED'' ''Thieu workspace_id de kiem tra quyen.'')
        else tx_bind (bo_list_user_permissions repo user w) (\<lambda>ps. tx_return (map to_permission_dto ps)))"

section \<open>Roles\<close>

definition list_permissions :: "'s role_repo \<Rightarrow> ('s, permission_dto list) stmt" where
  "list_permissions repo = tx_bind (bo_list_permissions repo) (\<lambda>ps. tx_return (map to_permission_dto ps))"

definition list_roles :: "'s role_repo \<Rightarrow> string \<Rightarrow> ('s, role_dto list) stmt" where
  "list_roles repo workspace =
    tx_bind (bo_list_roles repo (trim_space workspace)) (\<lambda>rs. tx_return (map to_role_dto rs))"

definition list_member_roles :: "'s role_repo \<Rightarrow> string \<Rightarrow> string \<Rightarrow> ('s, role_dto list) stmt" where
  "list_member_roles repo workspace user =
    tx_bind (bo_list_member_roles repo (trim_space workspace) (trim_space user)) (\<lambda>rs. tx_return (map to_role_dto rs))"

text \<open>A check whose answer decides whether to go on.\<close>

definition allowed_by :: "('s, bool) stmt \<Rightarrow> go_error \<Rightarrow> ('s, 'a) stmt \<Rightarrow> ('s, 'a) stmt" where
  "allowed_by check e f = tx_bind check (\<lambda>allowed. if allowed then f else tx_fail e)"

text \<open>The audit row is written on its own; its failure is ignored.\<close>

definition with_audit :: "'s role_repo \<Rightarrow> role_audit \<Rightarrow> 'a \<Rightarrow> ('s, 'a) stmt" where
  "with_audit repo a x = tx_then (tx_ignore (bo_record_audit repo a)) (tx_return x)"

definition clean_create :: "create_role_input \<Rightarrow> create_role_input" where
  "clean_create i = i\<lparr>bd_workspace_id := trim_space (bd_workspace_id i), bd_code := to_lower (trim_space (bd_code i)),
     bd_name := trim_space (bd_name i), bd_description := trim_space (bd_description i), bd_actor := trim_space (bd_actor i),
     bd_zone_id := trim_space (bd_zone_id i)\<rparr>"

definition create_params :: "create_role_input \<Rightarrow> create_role_params" where
  "create_params i =
    \<lparr>be_workspace_id = bd_workspace_id i, be_code = bd_code i, be_name = bd_name i, be_description = bd_description i,
     be_permission_codes = normalize_permission_codes (bd_permission_codes i), be_created_by = bd_actor i\<rparr>"

definition map_role_exists :: "go_error \<Rightarrow> go_error" where
  "map_role_exists e =
    (if errors_is e ''ErrRoleAlreadyExists'' then conflict ''ROLE_ALREADY_EXISTS'' ''Ma role da ton tai trong workspace.'' else e)"

definition create_role :: "'s role_repo \<Rightarrow> create_role_input \<Rightarrow> ('s, role_dto) stmt" where
  "create_role repo input =
    (let i = clean_create input
     in if bd_workspace_id i = [] then tx_fail (bad_request ''WORKSPACE_REQUIRED'' ''Thieu workspace_id de tao role.'')
        else
        allowed_by (bo_in_zone repo (bd_workspace_id i) (bd_zone_id i)) (forbidden ''Workspace khong thuoc zone cua phien dang nhap.'')
        (if bd_code i = [] \<or> bd_name i = [] then tx_fail (bad_request ''VALIDATION_ERROR'' ''Ma role va ten role khong duoc de trong.'')
         else
         allowed_by (has_workspace_permission repo (bd_actor i) (bd_workspace_id i) ''role.manage'') (forbidden ''Ban khong co quyen quan ly role.'')
         (tx_bind (tx_map_error map_role_exists (bo_create_role repo (create_params i))) (\<lambda>role.
          with_audit repo
            \<lparr>bj_actor = bd_actor i, bj_workspace_id = bd_workspace_id i, bj_action = ''role.create'', bj_entity_type = ''role'',
             bj_entity_id = bc_id role, bj_metadata = []\<rparr>
            (to_role_dto role)))))"

definition clean_assign :: "assign_role_input \<Rightarrow> assign_role_input" where
  "clean_assign i = \<lparr>bf_actor = trim_space (bf_actor i), bf_workspace_id = trim_space (bf_workspace_id i),
     bf_user_id = trim_space (bf_user_id i), bf_role_id = trim_space (bf_role_id i)\<rparr>"

definition assign_incomplete :: "assign_role_input \<Rightarrow> bool" where
  "assign_incomplete i \<longleftrightarrow> bf_workspace_id i = [] \<or> bf_user_id i = [] \<or> bf_role_id i = []"

definition member_role_audit :: "string \<Rightarrow> assign_role_input \<Rightarrow> role_audit" where
  "member_role_audit action i =
    \<lparr>bj_actor = bf_actor i, bj_workspace_id = bf_workspace_id i, bj_action = action, bj_entity_type = ''workspace_member'',
     bj_entity_id = bf_user_id i, bj_metadata = [(''role_id'', JStr (bf_role_id i))]\<rparr>"

definition map_role_missing :: "go_error \<Rightarrow> go_error" where
  "map_role_missing e =
    (if errors_is e ''ErrRoleNotFound'' then not_found ''ROLE_NOT_FOUND'' ''Khong tim thay role hoac thanh vien workspace.'' else e)"

definition assign_role :: "'s role_repo \<Rightarrow> assign_role_input \<Rightarrow> ('s, unit) stmt" where
  "assign_role repo input =
    (let i = clean_assign input
     in if assign_incomplete i then tx_fail (bad_request ''VALIDATION_ERROR'' ''Thieu workspace_id, user_id hoac role_id.'')
        else
        allowed_by (has_workspace_permission repo (bf_actor i) (bf_workspace_id i) ''role.manage'') (forbidden ''Ban khong co quyen gan role.'')
        (tx_then (tx_map_error map_role_missing (bo_assign repo
           \<lparr>bg_workspace_id = bf_workspace_id i, bg_user_id = bf_user_id i, bg_role_id = bf_role_id i, bg_assigned_by = bf_actor i\<rparr>))
         (with_audit repo (member_role_audit ''role.assign'' i) ())))"

definition revoke_role :: "'s role_repo \<Rightarrow> assign_role_input \<Rightarrow> ('s, unit) stmt" where
  "revoke_role repo input =
    (let i = clean_assign input
     in if assign_incomplete i then tx_fail (bad_request ''VALIDATION_ERROR'' ''Thieu workspace_id, user_id hoac role_id.'')
        else
        allowed_by (has_workspace_permission repo (bf_actor i) (bf_workspace_id i) ''role.manage'') (forbidden ''Ban khong co quyen go role.'')
        (tx_then (bo_revoke repo
           \<lparr>bh_workspace_id = bf_workspace_id i, bh_user_id = bf_user_id i, bh_role_id = bf_role_id i\<rparr>)
         (with_audit repo (member_role_audit ''role.revoke'' i) ())))"

lemma normalize_codes_set:
  "set (normalize_codes seen cs) = {c \<in> (\<lambda>c. to_lower (trim_space c)) ` set cs. c \<noteq> [] \<and> c \<notin> set seen}"
  by (induction cs arbitrary: seen) (auto simp: Let_def list_ex_iff)

lemma normalize_codes_distinct: "distinct (normalize_codes seen cs)"
  by (induction cs arbitrary: seen) (simp_all add: Let_def normalize_codes_set)

end
