(* ===== verification/Rbac_Contract.thy ===== *)
theory Rbac_Contract
  imports Rbac_Service
begin

text \<open>
  The contract between the roles service and its repository, and what the service guarantees over every
  repository that keeps it. \<open>name\<close> gives the user or workspace an identifier names, \<open>able st w u c\<close> says
  that in state \<open>st\<close> user \<open>u\<close> may do \<open>c\<close> in workspace \<open>w\<close>.
\<close>

section \<open>Requests\<close>

datatype role_request =
    Ask_Permissions
  | Ask_Roles string
  | Ask_Member_Roles string string
  | Ask_Mine string string
  | Ask_Check string string string
  | Ask_Any string string
  | Ask_Zone string string string
  | Make_Role create_role_input
  | Give_Role assign_role_input
  | Take_Role assign_role_input

text \<open>The user a request that changes roles acts for.\<close>

fun role_actor :: "role_request \<Rightarrow> string option" where
  "role_actor (Make_Role i) = Some (trim_space (bd_actor i))"
| "role_actor (Give_Role i) = Some (trim_space (bf_actor i))"
| "role_actor (Take_Role i) = Some (trim_space (bf_actor i))"
| "role_actor _ = None"

fun serve_role :: "'s role_repo \<Rightarrow> role_request \<Rightarrow> ('s, unit) stmt" where
  "serve_role repo Ask_Permissions = ended (list_permissions repo)"
| "serve_role repo (Ask_Roles w) = ended (list_roles repo w)"
| "serve_role repo (Ask_Member_Roles w u) = ended (list_member_roles repo w u)"
| "serve_role repo (Ask_Mine u w) = ended (list_my_permissions repo u w)"
| "serve_role repo (Ask_Check u w c) = ended (has_workspace_permission repo u w c)"
| "serve_role repo (Ask_Any u c) = ended (has_any_workspace_permission repo u c)"
| "serve_role repo (Ask_Zone u z c) = ended (has_any_zone_permission repo u z c)"
| "serve_role repo (Make_Role i) = ended (create_role repo i)"
| "serve_role repo (Give_Role i) = assign_role repo i"
| "serve_role repo (Take_Role i) = revoke_role repo i"

fun serve_roles :: "'s role_repo \<Rightarrow> role_request list \<Rightarrow> 's \<Rightarrow> 's" where
  "serve_roles repo [] st = st"
| "serve_roles repo (q # qs) st = serve_roles repo qs (fst (serve_role repo q st))"

text \<open>What a statement may change: the permissions held in the workspaces \<open>W\<close>.\<close>

definition moved :: "('s \<Rightarrow> bool) \<Rightarrow> ('s \<Rightarrow> string \<Rightarrow> string \<Rightarrow> string \<Rightarrow> bool) \<Rightarrow> string set \<Rightarrow> 's \<Rightarrow> 's \<Rightarrow> bool" where
  "moved ok able W st st' \<longleftrightarrow> (ok st \<longrightarrow> ok st' \<and> (\<forall>w. w \<notin> W \<longrightarrow> able st' w = able st w))"

lemma moved_preorder [simp]: "preorder_rel (moved ok able W)"
  by (auto simp: preorder_rel_def moved_def)

lemma moved_refl [simp]: "moved ok able W st st"
  by (simp add: moved_def)

lemma moved_trans: "moved ok able W a b \<Longrightarrow> moved ok able W b c \<Longrightarrow> moved ok able W a c"
  by (simp add: moved_def)

lemma moved_mono: "moved ok able W a b \<Longrightarrow> W \<subseteq> W' \<Longrightarrow> moved ok able W' a b"
  by (auto simp: moved_def)

text \<open>The request acts for a user who may manage the roles of the workspace.\<close>

definition manages :: "(string \<Rightarrow> string option) \<Rightarrow> ('s \<Rightarrow> string \<Rightarrow> string \<Rightarrow> string \<Rightarrow> bool) \<Rightarrow> 's \<Rightarrow> string \<Rightarrow> role_request \<Rightarrow> bool" where
  "manages name able st w q \<longleftrightarrow>
     (case role_actor q of None \<Rightarrow> False
      | Some x \<Rightarrow> (case name x of None \<Rightarrow> False | Some u \<Rightarrow> able st w u ''role.manage''))"

definition named_by :: "(string \<Rightarrow> string option) \<Rightarrow> string \<Rightarrow> string set" where
  "named_by name s = {w. name s = Some w}"

locale role_store =
  fixes repo :: "'s role_repo"
    and ok :: "'s \<Rightarrow> bool"
    and name :: "string \<Rightarrow> string option"
    and able :: "'s \<Rightarrow> string \<Rightarrow> string \<Rightarrow> string \<Rightarrow> bool"
  assumes reads: "tx_rel (moved ok able {}) (bo_list_permissions repo)" "tx_rel (moved ok able {}) (bo_list_roles repo w)"
      "tx_rel (moved ok able {}) (bo_list_member_roles repo w u)" "tx_rel (moved ok able {}) (bo_list_user_permissions repo u w)"
      "tx_rel (moved ok able {}) (bo_has repo u w c)" "tx_rel (moved ok able {}) (bo_has_any repo u c)"
      "tx_rel (moved ok able {}) (bo_has_any_zone repo u z c)" "tx_rel (moved ok able {}) (bo_in_zone repo w z)"
    and audit: "tx_rel (moved ok able {}) (bo_record_audit repo a)"
    and creates: "tx_rel (moved ok able {}) (bo_create_role repo cp)"
    and assigns: "tx_rel (moved ok able (named_by name (bg_workspace_id gp))) (bo_assign repo gp)"
    and revokes: "tx_rel (moved ok able (named_by name (bh_workspace_id hp))) (bo_revoke repo hp)"
    and answers: "ok st \<Longrightarrow> bo_has repo x y c st = (st', Inr b) \<Longrightarrow>
      \<exists>u w. name x = Some u \<and> name y = Some w \<and> b = able st w u c"
begin

abbreviation moves :: "string set \<Rightarrow> ('s, 'a) stmt \<Rightarrow> bool" where
  "moves W f \<equiv> tx_rel (moved ok able W) f"

text \<open>The workspace named by \<open>y\<close>, if the user named by \<open>x\<close> manages its roles.\<close>

definition managed :: "'s \<Rightarrow> string \<Rightarrow> string \<Rightarrow> string set" where
  "managed st x y = {w. name y = Some w \<and> (\<exists>u. name x = Some u \<and> able st w u ''role.manage'')}"

lemma manage_trim: "trim_space ''role.manage'' = ''role.manage''"
  by code_simp

lemma guarded:
  assumes "ok st" "trim_space y = y" "moves (named_by name y) f"
    and "allowed_by (has_workspace_permission repo x y ''role.manage'') e f st = (st', r)"
  shows "moved ok able (managed st x y) st st'"
proof (cases "y = []")
  case True
  with assms show ?thesis by (auto simp: allowed_by_def has_workspace_permission_def tx_bind_def tx_fail_def)
next
  case False
  obtain st1 q where has: "bo_has repo x y ''role.manage'' st = (st1, q)" by (cases "bo_has repo x y ''role.manage'' st")
  have 1: "moved ok able {} st st1" by (rule tx_relD [OF reads(5) has])
  have eq: "has_workspace_permission repo x y ''role.manage'' st = (st1, q)"
    using has False assms(2) manage_trim by (simp add: has_workspace_permission_def Let_def)
  show ?thesis
  proof (cases "q = Inr True")
    case True
    with eq assms(4) have "f st1 = (st', r)" by (simp add: allowed_by_def tx_bind_def)
    from tx_relD [OF assms(3) this] have 2: "moved ok able (named_by name y) st1 st'" .
    from answers [OF assms(1) has [unfolded True]] have "managed st x y = named_by name y"
      by (auto simp: managed_def named_by_def)
    with moved_trans [OF moved_mono [OF 1] 2] show ?thesis by simp
  next
    case False
    with eq assms(4) have "st' = st1" by (cases q) (auto simp: allowed_by_def tx_bind_def tx_fail_def)
    with 1 show ?thesis by (auto intro: moved_mono)
  qed
qed

lemma quiet: "moves {} f \<Longrightarrow> moves W f"
  by (rule tx_relI, drule (1) tx_relD) (auto simp: moved_def)

lemma with_audit_moves: "moves W (with_audit repo a x)"
  unfolding with_audit_def by (intro tx_rel_bind tx_rel_base moved_preorder tx_rel_ignore quiet [OF audit])

lemma check_moves: "moves {} (has_workspace_permission repo u w c)"
  by (simp add: has_workspace_permission_def Let_def tx_rel_base reads)

lemma asks_move: "role_actor q = None \<Longrightarrow> moves {} (serve_role repo q)"
  by (cases q; simp add: ended_def list_permissions_def list_roles_def list_member_roles_def list_my_permissions_def
      has_any_workspace_permission_def has_any_zone_permission_def Let_def)
    (intro impI conjI tx_rel_intros moved_preorder reads check_moves)+

lemma allowed_moves: "moves W check \<Longrightarrow> moves W f \<Longrightarrow> moves W (allowed_by check e f)"
  unfolding allowed_by_def by (intro tx_rel_bind tx_rel_if tx_rel_base moved_preorder)

lemma create_moves: "moves {} (create_role repo i)"
  unfolding create_role_def Let_def
  by (intro tx_rel_intros moved_preorder allowed_moves reads check_moves with_audit_moves creates)

lemma assign_moves:
  assumes "ok st" "assign_role repo i st = (st', r)"
  shows "moved ok able (managed st (trim_space (bf_actor i)) (trim_space (bf_workspace_id i))) st st'"
proof (cases "assign_incomplete (clean_assign i)")
  case True
  with assms show ?thesis by (auto simp: assign_role_def)
next
  case False
  let ?p = "\<lparr>bg_workspace_id = trim_space (bf_workspace_id i), bg_user_id = trim_space (bf_user_id i),
    bg_role_id = trim_space (bf_role_id i), bg_assigned_by = trim_space (bf_actor i)\<rparr>"
  have "moves (named_by name (trim_space (bf_workspace_id i))) (bo_assign repo ?p)" using assigns [of ?p] by simp
  then show ?thesis using assms(2) False
    by (intro guarded [OF assms(1)]) (auto simp: assign_role_def clean_assign_def intro!: tx_rel_intros with_audit_moves)
qed

lemma revoke_moves:
  assumes "ok st" "revoke_role repo i st = (st', r)"
  shows "moved ok able (managed st (trim_space (bf_actor i)) (trim_space (bf_workspace_id i))) st st'"
proof (cases "assign_incomplete (clean_assign i)")
  case True
  with assms show ?thesis by (auto simp: revoke_role_def)
next
  case False
  let ?p = "\<lparr>bh_workspace_id = trim_space (bf_workspace_id i), bh_user_id = trim_space (bf_user_id i),
    bh_role_id = trim_space (bf_role_id i)\<rparr>"
  have "moves (named_by name (trim_space (bf_workspace_id i))) (bo_revoke repo ?p)" using revokes [of ?p] by simp
  then show ?thesis using assms(2) False
    by (intro guarded [OF assms(1)]) (auto simp: revoke_role_def clean_assign_def intro!: tx_rel_intros with_audit_moves)
qed

lemma serve_moves:
  assumes "ok st" "serve_role repo q st = (st', r)"
  shows "moved ok able {w. manages name able st w q} st st'"
proof (cases "role_actor q")
  case None
  from tx_relD [OF asks_move [OF None] assms(2)] show ?thesis by (rule moved_mono) simp
next
  case (Some x)
  have part: "managed st x y \<subseteq> {w. manages name able st w q}" for y
    using Some by (auto simp: managed_def manages_def)
  show ?thesis
  proof (cases q)
    case (Make_Role i)
    with tx_relD [OF tx_rel_ended [OF moved_preorder create_moves [of i]]] assms(2) show ?thesis by (auto intro: moved_mono)
  next
    case (Give_Role i)
    with assms(2) have run: "assign_role repo i st = (st', r)" by simp
    from Give_Role Some have "x = trim_space (bf_actor i)" by simp
    with moved_mono [OF assign_moves [OF assms(1) run]] part show ?thesis by blast
  next
    case (Take_Role i)
    with assms(2) have run: "revoke_role repo i st = (st', r)" by simp
    from Take_Role Some have "x = trim_space (bf_actor i)" by simp
    with moved_mono [OF revoke_moves [OF assms(1) run]] part show ?thesis by blast
  qed (use Some in auto)
qed

text \<open>Requests of users who do not manage the roles of a workspace change nobody's permissions there.\<close>

lemma unmanaged:
  assumes "ok st" "list_all (\<lambda>q. \<not> manages name able st w q) qs"
  shows "ok (serve_roles repo qs st) \<and> able (serve_roles repo qs st) w = able st w"
  using assms
proof (induction qs arbitrary: st)
  case (Cons q qs)
  obtain st1 r where q: "serve_role repo q st = (st1, r)" by (cases "serve_role repo q st")
  with serve_moves [OF Cons.prems(1) q] Cons.prems have "ok st1" and same: "able st1 w = able st w"
    by (auto simp: moved_def)
  moreover have "manages name able st1 w = manages name able st w" by (rule ext) (simp add: manages_def same split: option.split)
  ultimately show ?case using Cons.IH [of st1] Cons.prems(2) q same by simp
qed simp

lemma serve_roles_ok: "ok st \<Longrightarrow> ok (serve_roles repo qs st)"
proof (induction qs arbitrary: st)
  case (Cons q qs)
  obtain st1 r where q: "serve_role repo q st = (st1, r)" by (cases "serve_role repo q st")
  from serve_moves [OF Cons.prems q] Cons.prems have "ok st1" by (simp add: moved_def)
  then show ?case using Cons.IH q by simp
qed simp

text \<open>What an operation behind the check did, once it has succeeded.\<close>

lemma behind_check:
  assumes "ok st" "trim_space y = y"
    and "allowed_by (has_workspace_permission repo x y ''role.manage'') e f st = (st', Inr z)"
  shows "\<exists>u w st1. name x = Some u \<and> name y = Some w \<and> able st w u ''role.manage'' \<and> ok st1 \<and> able st1 = able st \<and>
    has_workspace_permission repo x y ''role.manage'' st = (st1, Inr True) \<and> f st1 = (st', Inr z)"
proof -
  from assms(3) obtain st1 where has: "has_workspace_permission repo x y ''role.manage'' st = (st1, Inr True)"
    and f: "f st1 = (st', Inr z)"
    by (auto simp: allowed_by_def tx_bind_Inr split: if_splits)
  from has assms(2) have run: "bo_has repo x y ''role.manage'' st = (st1, Inr True)"
    by (auto simp: has_workspace_permission_def manage_trim Let_def split: if_splits)
  from tx_relD [OF reads(5) run] assms(1) have "ok st1" "able st1 = able st" by (auto simp: moved_def)
  with answers [OF assms(1) run] has f show ?thesis by auto
qed

end

end
