(* ===== verification/Rbac_Pg.thy ===== *)
theory Rbac_Pg
  imports Rbac_Service "HOL-Library.List_Lexorder" "HOL-Library.Char_ord" "HOL-Library.Product_Lexorder"
begin

text \<open>
  \<open>rbac/infrastructure/postgres/repository.go\<close> over the schema of migrations 000001 and 000022: permissions,
  roles and what they carry, the members of workspaces and the roles they hold. Creating a role is one
  transaction, every other statement is a step of its own; reading the permissions of a listed role is a
  step after the step that listed it. The order of texts is that of the sort keys of the database's
  collation, a parameter. \<open>ORDER BY code\<close> names the output column \<open>code::text\<close>, \<open>ORDER BY p.code\<close> the
  \<open>citext\<close> column.
\<close>

section \<open>Tables\<close>

record stored_role =
  bp_id :: string
  bp_workspace_id :: "string option"
  bp_code :: string
  bp_name :: string
  bp_description :: "string option"
  bp_is_system :: bool
  bp_created_by :: "string option"
  bp_deleted_at :: "time option"

record role_permission_row =
  bq_role_id :: string
  bq_permission_id :: string

record role_workspace_row =
  br_id :: string
  br_owner_id :: "string option"
  br_zone_id :: string
  br_status :: string
  br_deleted_at :: "time option"

record role_member_row =
  bs_workspace_id :: string
  bs_user_id :: string
  bs_status :: string

record assigned_row =
  bt_workspace_id :: string
  bt_user_id :: string
  bt_role_id :: string
  bt_assigned_by :: "string option"

record role_audit_row =
  bu_workspace_id :: "string option"
  bu_actor :: "string option"
  bu_action :: string
  bu_entity_type :: string
  bu_entity_id :: "string option"
  bu_metadata :: string

record role_db =
  bv_users :: "string list"
  bv_permissions :: "permission list"
  bv_roles :: "stored_role list"
  bv_role_permissions :: "role_permission_row list"
  bv_workspaces :: "role_workspace_row list"
  bv_members :: "role_member_row list"
  bv_assigned :: "assigned_row list"
  bv_audit :: "role_audit_row list"

section \<open>Joins\<close>

definition role_live :: "stored_role \<Rightarrow> bool" where
  "role_live r \<longleftrightarrow> bp_deleted_at r = None"

text \<open>\<open>r.workspace_id IS NULL OR r.workspace_id = w\<close>: a role of the system or of the workspace.\<close>

definition usable_in :: "string \<Rightarrow> stored_role \<Rightarrow> bool" where
  "usable_in w r \<longleftrightarrow> bp_workspace_id r = None \<or> bp_workspace_id r = Some w"

definition roles_assigned :: "role_db \<Rightarrow> string \<Rightarrow> string \<Rightarrow> stored_role list" where
  "roles_assigned db w u =
    concat (map (\<lambda>a. filter (\<lambda>r. bp_id r = bt_role_id a \<and> role_live r) (bv_roles db))
      (filter (\<lambda>a. bt_workspace_id a = w \<and> bt_user_id a = u) (bv_assigned db)))"

definition permissions_of_role :: "role_db \<Rightarrow> string \<Rightarrow> permission list" where
  "permissions_of_role db i =
    concat (map (\<lambda>rp. filter (\<lambda>p. ba_id p = bq_permission_id rp) (bv_permissions db))
      (filter (\<lambda>rp. bq_role_id rp = i) (bv_role_permissions db)))"

definition permissions_assigned :: "role_db \<Rightarrow> string \<Rightarrow> string \<Rightarrow> permission list" where
  "permissions_assigned db w u =
    concat (map (\<lambda>r. permissions_of_role db (bp_id r)) (filter (usable_in w) (roles_assigned db w u)))"

definition member_active :: "string \<Rightarrow> role_member_row \<Rightarrow> bool" where
  "member_active u m \<longleftrightarrow> bs_user_id m = u \<and> bs_status m = ''active''"

definition owns_workspace :: "role_db \<Rightarrow> string \<Rightarrow> string \<Rightarrow> bool" where
  "owns_workspace db w u \<longleftrightarrow>
     list_ex (\<lambda>x. br_id x = w \<and> br_owner_id x = Some u \<and> br_deleted_at x = None) (bv_workspaces db)"

definition has_code :: "string \<Rightarrow> permission list \<Rightarrow> bool" where
  "has_code c ps \<longleftrightarrow> list_ex (\<lambda>p. citext (ba_code p) = citext c) ps"

text \<open>What the roles of an active member carry; what a user may do: that, or everything as the owner.\<close>

definition granted :: "role_db \<Rightarrow> string \<Rightarrow> string \<Rightarrow> string \<Rightarrow> bool" where
  "granted db w u c \<longleftrightarrow>
     list_ex (\<lambda>m. bs_workspace_id m = w \<and> member_active u m \<and> has_code c (permissions_assigned db (bs_workspace_id m) u))
       (bv_members db)"

definition may :: "role_db \<Rightarrow> string \<Rightarrow> string \<Rightarrow> string \<Rightarrow> bool" where
  "may db w u c \<longleftrightarrow> owns_workspace db w u \<or> granted db w u c"

section \<open>Checks\<close>

definition pg_has :: "pg_env \<Rightarrow> string \<Rightarrow> string \<Rightarrow> string \<Rightarrow> (role_db, bool) stmt" where
  "pg_has env user workspace code db =
    (db, result_bind (uuid_param env user) (\<lambda>u. result_bind (uuid_param env workspace) (\<lambda>w.
      result_bind (text_params [code]) (\<lambda>_. Inr (may db w u code)))))"

definition open_workspace :: "role_workspace_row \<Rightarrow> bool" where
  "open_workspace x \<longleftrightarrow> br_deleted_at x = None \<and> br_status x = ''active''"

definition pg_has_any :: "pg_env \<Rightarrow> string \<Rightarrow> string \<Rightarrow> (role_db, bool) stmt" where
  "pg_has_any env user code db =
    (db, result_bind (uuid_param env user) (\<lambda>u. result_bind (text_params [code]) (\<lambda>_.
      Inr (list_ex (\<lambda>m. member_active u m \<and>
          list_ex (\<lambda>x. br_id x = bs_workspace_id m \<and> open_workspace x) (bv_workspaces db) \<and>
          has_code code (permissions_assigned db (bs_workspace_id m) u)) (bv_members db)))))"

definition pg_has_any_zone :: "pg_env \<Rightarrow> string \<Rightarrow> string \<Rightarrow> string \<Rightarrow> (role_db, bool) stmt" where
  "pg_has_any_zone env user zone code db =
    (db, result_bind (uuid_param env user) (\<lambda>u. result_bind (uuid_param env zone) (\<lambda>z. result_bind (text_params [code]) (\<lambda>_.
      Inr (list_ex (\<lambda>m. member_active u m \<and>
          list_ex (\<lambda>x. br_id x = bs_workspace_id m \<and> br_zone_id x = z \<and> open_workspace x) (bv_workspaces db) \<and>
          has_code code (permissions_assigned db (bs_workspace_id m) u)) (bv_members db))))))"

definition pg_in_zone :: "pg_env \<Rightarrow> string \<Rightarrow> string \<Rightarrow> (role_db, bool) stmt" where
  "pg_in_zone env workspace zone db =
    (db, result_bind (uuid_param env workspace) (\<lambda>w. result_bind (uuid_param env zone) (\<lambda>z.
      Inr (list_ex (\<lambda>x. br_id x = w \<and> br_zone_id x = z \<and> open_workspace x) (bv_workspaces db)))))"

section \<open>Lists\<close>

definition by_output :: "collation \<Rightarrow> permission \<Rightarrow> string \<times> string \<times> string" where
  "by_output col p = (col (ba_module p), col (ba_action p), col (ba_code p))"

definition by_column :: "collation \<Rightarrow> permission \<Rightarrow> string \<times> string \<times> string" where
  "by_column col p = (col (ba_module p), col (ba_action p), col (citext (ba_code p)))"

definition pg_list_permissions :: "collation \<Rightarrow> (role_db, permission list) stmt" where
  "pg_list_permissions col db = (db, Inr (sort_key (by_output col) (bv_permissions db)))"

text \<open>\<open>SELECT DISTINCT ... UNION SELECT DISTINCT ...\<close>: equal rows once.\<close>

definition pg_list_user_permissions :: "collation \<Rightarrow> pg_env \<Rightarrow> string \<Rightarrow> string \<Rightarrow> (role_db, permission list) stmt" where
  "pg_list_user_permissions col env user workspace db =
    (db, result_bind (uuid_param env user) (\<lambda>u. result_bind (uuid_param env workspace) (\<lambda>w.
      Inr (sort_key (by_output col) (remdups (
        (if owns_workspace db w u then bv_permissions db else []) @
        concat (map (\<lambda>m. permissions_assigned db (bs_workspace_id m) u)
          (filter (\<lambda>m. bs_workspace_id m = w \<and> member_active u m) (bv_members db)))))))))"

definition pg_role_permissions :: "collation \<Rightarrow> pg_env \<Rightarrow> string \<Rightarrow> (role_db, permission list) stmt" where
  "pg_role_permissions col env role db =
    (db, result_bind (uuid_param env role) (\<lambda>i. Inr (sort_key (by_column col) (permissions_of_role db i))))"

text \<open>\<open>scanRole\<close>, and the permissions read for each role of a list.\<close>

definition scan_role :: "stored_role \<Rightarrow> permission list \<Rightarrow> role" where
  "scan_role r ps =
    \<lparr>bc_id = bp_id r, bc_workspace_id = bp_workspace_id r, bc_code = bp_code r, bc_name = bp_name r,
     bc_description = bp_description r, bc_is_system = bp_is_system r, bc_created_by = bp_created_by r, bc_permissions = ps\<rparr>"

fun load_roles :: "collation \<Rightarrow> stored_role list \<Rightarrow> (role_db pg, role list) stmt" where
  "load_roles col [] = tx_return []"
| "load_roles col (r # rs) =
    tx_bind (pg_run (\<lambda>env. pg_role_permissions col env (bp_id r))) (\<lambda>ps.
    tx_bind (load_roles col rs) (\<lambda>roles. tx_return (scan_role r ps # roles)))"

definition role_order :: "collation \<Rightarrow> stored_role \<Rightarrow> (bool \<times> string) \<times> bool \<times> string" where
  "role_order col r =
    ((case bp_workspace_id r of None \<Rightarrow> (False, []) | Some w \<Rightarrow> (True, col w)), \<not> bp_is_system r, col (bp_name r))"

definition pg_role_rows :: "collation \<Rightarrow> pg_env \<Rightarrow> string \<Rightarrow> (role_db, stored_role list) stmt" where
  "pg_role_rows col env workspace db =
    (db, result_bind (uuid_or_null env workspace) (\<lambda>w.
      Inr (sort_key (role_order col)
        (filter (\<lambda>r. role_live r \<and> (bp_workspace_id r = None \<or> w \<noteq> None \<and> bp_workspace_id r = w)) (bv_roles db)))))"

definition pg_list_roles :: "collation \<Rightarrow> string \<Rightarrow> (role_db pg, role list) stmt" where
  "pg_list_roles col workspace = tx_bind (pg_run (\<lambda>env. pg_role_rows col env workspace)) (load_roles col)"

definition pg_member_role_rows :: "collation \<Rightarrow> pg_env \<Rightarrow> string \<Rightarrow> string \<Rightarrow> (role_db, stored_role list) stmt" where
  "pg_member_role_rows col env workspace user db =
    (db, result_bind (uuid_param env workspace) (\<lambda>w. result_bind (uuid_param env user) (\<lambda>u.
      Inr (sort_key (\<lambda>r. (\<not> bp_is_system r, col (bp_name r))) (roles_assigned db w u)))))"

definition pg_list_member_roles :: "collation \<Rightarrow> string \<Rightarrow> string \<Rightarrow> (role_db pg, role list) stmt" where
  "pg_list_member_roles col workspace user =
    tx_bind (pg_run (\<lambda>env. pg_member_role_rows col env workspace user)) (load_roles col)"

section \<open>Creating a role\<close>

definition new_role :: "pg_env \<Rightarrow> create_role_params \<Rightarrow> string \<Rightarrow> string \<Rightarrow> stored_role" where
  "new_role env p w creator =
    \<lparr>bp_id = pe_fresh env, bp_workspace_id = Some w, bp_code = be_code p, bp_name = be_name p,
     bp_description = nullif_empty (be_description p), bp_is_system = False, bp_created_by = Some creator, bp_deleted_at = None\<rparr>"

text \<open>\<open>roles_workspace_code_uidx\<close> and \<open>roles_global_code_uidx\<close>.\<close>

definition role_key :: "stored_role \<Rightarrow> (string option \<times> string) option" where
  "role_key r = (if role_live r then Some (bp_workspace_id r, citext (bp_code r)) else None)"

definition role_taken :: "role_db \<Rightarrow> stored_role \<Rightarrow> bool" where
  "role_taken db r \<longleftrightarrow> list_ex (\<lambda>x. bp_id x = bp_id r \<or> role_key r \<noteq> None \<and> role_key x = role_key r) (bv_roles db)"

definition pg_insert_role :: "pg_env \<Rightarrow> create_role_params \<Rightarrow> (role_db, stored_role) stmt" where
  "pg_insert_role env p =
    tx_bind (tx_lift (uuid_param env (be_workspace_id p))) (\<lambda>w.
    tx_bind (tx_lift (uuid_param env (be_created_by p))) (\<lambda>creator.
    tx_then (tx_lift (text_params [be_code p, be_name p, be_description p])) (\<lambda>db.
    let r = new_role env p w creator
    in if role_taken db r then (db, Inl unique_violation)
       else if \<not> list_ex (\<lambda>x. br_id x = w) (bv_workspaces db) \<or> \<not> list_ex ((=) creator) (bv_users db)
       then (db, Inl fk_violation)
       else (db\<lparr>bv_roles := bv_roles db @ [r]\<rparr>, Inr r))))"

text \<open>A code no permission has inserts nothing.\<close>

definition pg_add_permission :: "pg_env \<Rightarrow> string \<Rightarrow> string \<Rightarrow> (role_db, unit) stmt" where
  "pg_add_permission env role code =
    tx_bind (tx_lift (uuid_param env role)) (\<lambda>i.
    tx_then (tx_lift (text_params [code])) (\<lambda>db.
    (db\<lparr>bv_role_permissions := bv_role_permissions db @
        filter (\<lambda>rp. \<not> list_ex ((=) rp) (bv_role_permissions db))
          (map (\<lambda>p. \<lparr>bq_role_id = i, bq_permission_id = ba_id p\<rparr>)
            (filter (\<lambda>p. citext (ba_code p) = citext code) (bv_permissions db)))\<rparr>, Inr ())))"

fun pg_add_permissions :: "pg_env \<Rightarrow> string \<Rightarrow> string list \<Rightarrow> (role_db, unit) stmt" where
  "pg_add_permissions env role [] = tx_return ()"
| "pg_add_permissions env role (c # cs) = tx_then (pg_add_permission env role c) (pg_add_permissions env role cs)"

definition role_conflict :: "go_error \<Rightarrow> go_error" where
  "role_conflict e = (if is_unique_violation e then err_role_exists else e)"

definition pg_create_role_tx :: "pg_env \<Rightarrow> create_role_params \<Rightarrow> (role_db, stored_role) stmt" where
  "pg_create_role_tx env p =
    tx_bind (tx_map_error role_conflict (pg_insert_role env p)) (\<lambda>r.
    tx_then (pg_add_permissions env (bp_id r) (be_permission_codes p)) (tx_return r))"

definition pg_create_role :: "collation \<Rightarrow> create_role_params \<Rightarrow> (role_db pg, role) stmt" where
  "pg_create_role col p =
    tx_bind (pg_run (\<lambda>env. in_tx (pg_create_role_tx env p))) (\<lambda>r.
    tx_bind (pg_run (\<lambda>env. pg_role_permissions col env (bp_id r))) (\<lambda>ps. tx_return (scan_role r ps)))"

section \<open>Assigning and revoking\<close>

definition same_assignment :: "string \<Rightarrow> string \<Rightarrow> string \<Rightarrow> assigned_row \<Rightarrow> bool" where
  "same_assignment w u r a \<longleftrightarrow> bt_workspace_id a = w \<and> bt_user_id a = u \<and> bt_role_id a = r"

text \<open>The joined rows that are not yet there; none affected is \<open>ErrRoleNotFound\<close>.\<close>

definition assignable :: "role_db \<Rightarrow> string \<Rightarrow> string \<Rightarrow> string \<Rightarrow> bool" where
  "assignable db w u i \<longleftrightarrow>
     list_ex (\<lambda>r. bp_id r = i \<and> role_live r \<and> usable_in w r) (bv_roles db) \<and>
     list_ex (\<lambda>m. bs_workspace_id m = w \<and> member_active u m) (bv_members db)"

definition pg_assign_role :: "pg_env \<Rightarrow> assign_role_params \<Rightarrow> (role_db, unit) stmt" where
  "pg_assign_role env p =
    tx_bind (tx_lift (uuid_param env (bg_workspace_id p))) (\<lambda>w.
    tx_bind (tx_lift (uuid_param env (bg_user_id p))) (\<lambda>u.
    tx_bind (tx_lift (uuid_param env (bg_role_id p))) (\<lambda>i.
    tx_bind (tx_lift (uuid_param env (bg_assigned_by p))) (\<lambda>by_user db.
    if \<not> assignable db w u i \<or> list_ex (same_assignment w u i) (bv_assigned db) then (db, Inl err_role_not_found)
    else if \<not> list_ex ((=) by_user) (bv_users db) then (db, Inl fk_violation)
    else (db\<lparr>bv_assigned := bv_assigned db @
           [\<lparr>bt_workspace_id = w, bt_user_id = u, bt_role_id = i, bt_assigned_by = Some by_user\<rparr>]\<rparr>, Inr ())))))"

definition pg_revoke_role :: "pg_env \<Rightarrow> revoke_role_params \<Rightarrow> (role_db, unit) stmt" where
  "pg_revoke_role env p =
    tx_bind (tx_lift (uuid_param env (bh_workspace_id p))) (\<lambda>w.
    tx_bind (tx_lift (uuid_param env (bh_user_id p))) (\<lambda>u.
    tx_bind (tx_lift (uuid_param env (bh_role_id p))) (\<lambda>i db.
    (db\<lparr>bv_assigned := filter (\<lambda>a. \<not> same_assignment w u i a) (bv_assigned db)\<rparr>, Inr ()))))"

section \<open>The audit log\<close>

definition known_or_null :: "('a \<Rightarrow> string) \<Rightarrow> 'a list \<Rightarrow> string option \<Rightarrow> bool" where
  "known_or_null key xs i \<longleftrightarrow> (case i of None \<Rightarrow> True | Some k \<Rightarrow> list_ex (\<lambda>x. key x = k) xs)"

definition pg_role_audit :: "pg_env \<Rightarrow> role_audit \<Rightarrow> (role_db, unit) stmt" where
  "pg_role_audit env a =
    tx_bind (tx_lift (uuid_or_null env (bj_workspace_id a))) (\<lambda>w.
    tx_bind (tx_lift (uuid_or_null env (bj_actor a))) (\<lambda>u.
    tx_bind (tx_lift (uuid_or_null env (bj_entity_id a))) (\<lambda>i.
    tx_then (tx_lift (text_params [bj_action a, bj_entity_type a]))
    (tx_bind (tx_lift (jsonb_param env (json_print (JObj (bj_metadata a))))) (\<lambda>md db.
    if \<not> known_or_null br_id (bv_workspaces db) w \<or> \<not> known_or_null id (bv_users db) u then (db, Inl fk_violation)
    else (db\<lparr>bv_audit := bv_audit db @
           [\<lparr>bu_workspace_id = w, bu_actor = u, bu_action = bj_action a, bu_entity_type = bj_entity_type a,
             bu_entity_id = i, bu_metadata = md\<rparr>]\<rparr>, Inr ()))))))"

section \<open>The repository\<close>

definition role_pg :: "collation \<Rightarrow> role_db pg role_repo" where
  "role_pg col =
    \<lparr>bo_list_permissions = pg_run (\<lambda>env. pg_list_permissions col),
     bo_list_roles = pg_list_roles col,
     bo_create_role = pg_create_role col,
     bo_list_member_roles = pg_list_member_roles col,
     bo_assign = (\<lambda>p. pg_run (\<lambda>env. in_tx (pg_assign_role env p))),
     bo_revoke = (\<lambda>p. pg_run (\<lambda>env. in_tx (pg_revoke_role env p))),
     bo_list_user_permissions = (\<lambda>u w. pg_run (\<lambda>env. pg_list_user_permissions col env u w)),
     bo_has = (\<lambda>u w c. pg_run (\<lambda>env. pg_has env u w c)),
     bo_has_any = (\<lambda>u c. pg_run (\<lambda>env. pg_has_any env u c)),
     bo_has_any_zone = (\<lambda>u z c. pg_run (\<lambda>env. pg_has_any_zone env u z c)),
     bo_in_zone = (\<lambda>w z. pg_run (\<lambda>env. pg_in_zone env w z)),
     bo_record_audit = (\<lambda>a. pg_run (\<lambda>env. in_tx (pg_role_audit env a)))\<rparr>"

end
