(* ===== verification/Rbac_Safety.thy ===== *)
theory Rbac_Safety
  imports Rbac_Contract Rbac_Pg
begin

text \<open>
  The roles repository keeps the contract of the service: the consistency of its tables, what each statement
  leaves as it was, and the properties of the roles module.
\<close>

section \<open>Consistency of the tables\<close>

text \<open>
  Identifiers and the codes of live roles are unique; what a role carries and who holds it are rows of
  existing roles, permissions and members; a role somebody holds in a workspace is one of the system or of
  that workspace.
\<close>

definition keys_ok :: "role_db \<Rightarrow> bool" where
  "keys_ok db \<longleftrightarrow> distinct (map bp_id (bv_roles db)) \<and>
     (\<forall>r\<in>set (bv_roles db). \<forall>s\<in>set (bv_roles db). role_key r \<noteq> None \<longrightarrow> role_key r = role_key s \<longrightarrow> r = s) \<and>
     distinct (map ba_id (bv_permissions db)) \<and> distinct (bv_role_permissions db) \<and>
     distinct (map (\<lambda>a. (bt_workspace_id a, bt_user_id a, bt_role_id a)) (bv_assigned db))"

definition carried_ok :: "role_db \<Rightarrow> bool" where
  "carried_ok db \<longleftrightarrow> (\<forall>rp\<in>set (bv_role_permissions db).
     (\<exists>r\<in>set (bv_roles db). bp_id r = bq_role_id rp) \<and> (\<exists>p\<in>set (bv_permissions db). ba_id p = bq_permission_id rp))"

definition assigned_ok :: "role_db \<Rightarrow> bool" where
  "assigned_ok db \<longleftrightarrow> (\<forall>a\<in>set (bv_assigned db).
     (\<exists>r\<in>set (bv_roles db). bp_id r = bt_role_id a \<and> usable_in (bt_workspace_id a) r) \<and>
     (\<exists>m\<in>set (bv_members db). bs_workspace_id m = bt_workspace_id a \<and> bs_user_id m = bt_user_id a))"

definition roles_ok :: "role_db \<Rightarrow> bool" where
  "roles_ok db \<longleftrightarrow> keys_ok db \<and> carried_ok db \<and> assigned_ok db"

text \<open>What the permissions of a role and of a user depend on.\<close>

lemma permissions_of_role_cong:
  assumes "bv_permissions db' = bv_permissions db"
    and "filter (\<lambda>rp. bq_role_id rp = i) (bv_role_permissions db') = filter (\<lambda>rp. bq_role_id rp = i) (bv_role_permissions db)"
  shows "permissions_of_role db' i = permissions_of_role db i"
  using assms by (simp add: permissions_of_role_def)

lemma roles_assigned_cong:
  assumes "filter (\<lambda>a. bt_workspace_id a = w \<and> bt_user_id a = u) (bv_assigned db') =
      filter (\<lambda>a. bt_workspace_id a = w \<and> bt_user_id a = u) (bv_assigned db)"
    and "\<And>a. a \<in> set (bv_assigned db) \<Longrightarrow>
      filter (\<lambda>r. bp_id r = bt_role_id a \<and> role_live r) (bv_roles db') =
      filter (\<lambda>r. bp_id r = bt_role_id a \<and> role_live r) (bv_roles db)"
  shows "roles_assigned db' w u = roles_assigned db w u"
  using assms by (auto simp: roles_assigned_def intro!: arg_cong [where f = concat] map_cong)

lemma set_roles_assigned:
  "set (roles_assigned db w u) = {r \<in> set (bv_roles db). role_live r \<and>
     (\<exists>a\<in>set (bv_assigned db). same_assignment w u (bp_id r) a)}"
  by (auto simp: roles_assigned_def same_assignment_def)

definition same_tables :: "role_db \<Rightarrow> role_db \<Rightarrow> bool" where
  "same_tables db db' \<longleftrightarrow> bv_permissions db' = bv_permissions db \<and> bv_workspaces db' = bv_workspaces db \<and>
     bv_members db' = bv_members db"

lemma granted_iff:
  "granted db w u c \<longleftrightarrow> (\<exists>m\<in>set (bv_members db). bs_workspace_id m = w \<and> member_active u m) \<and>
     (\<exists>r\<in>set (roles_assigned db w u). usable_in w r \<and> has_code c (permissions_of_role db (bp_id r)))"
  by (auto simp: granted_def permissions_assigned_def has_code_def list_ex_iff)

lemma may_cong:
  assumes "same_tables db db'" "roles_assigned db' w u = roles_assigned db w u"
    and "\<And>r. r \<in> set (roles_assigned db w u) \<Longrightarrow> permissions_of_role db' (bp_id r) = permissions_of_role db (bp_id r)"
  shows "may db' w u c = may db w u c"
  using assms by (simp add: may_def owns_workspace_def granted_iff same_tables_def)

section \<open>Creating a role\<close>

text \<open>A role nobody holds yet, in tables where everybody may do what they could in \<open>db0\<close>.\<close>

definition unheld :: "role_db \<Rightarrow> string \<Rightarrow> role_db \<Rightarrow> bool" where
  "unheld db0 i db \<longleftrightarrow> roles_ok db \<and> (\<forall>w. may db w = may db0 w) \<and> (\<exists>r\<in>set (bv_roles db). bp_id r = i) \<and>
     (\<forall>a\<in>set (bv_assigned db). bt_role_id a \<noteq> i)"

lemma insert_role_run:
  assumes "pg_insert_role env p db = (db', Inr r)"
  shows "\<exists>w u. uuid_param env (be_workspace_id p) = Inr w \<and> uuid_param env (be_created_by p) = Inr u \<and>
    r = new_role env p w u \<and> \<not> role_taken db r \<and> db' = db\<lparr>bv_roles := bv_roles db @ [r]\<rparr>"
  using assms by (force simp: pg_insert_role_def tx_bind_Inr Let_def split: if_splits)

lemma assigned_role_exists: "assigned_ok db \<Longrightarrow> a \<in> set (bv_assigned db) \<Longrightarrow> bt_role_id a \<in> bp_id ` set (bv_roles db)"
  unfolding assigned_ok_def by force

lemma append_role_keys:
  assumes "keys_ok db" "\<not> role_taken db r"
  shows "keys_ok (db\<lparr>bv_roles := bv_roles db @ [r]\<rparr>)"
  using assms by (auto simp: keys_ok_def role_taken_def list_ex_iff)

lemma append_role_may:
  assumes "assigned_ok db" "bp_id r \<notin> bp_id ` set (bv_roles db)"
  shows "may (db\<lparr>bv_roles := bv_roles db @ [r]\<rparr>) w u c = may db w u c"
proof (rule may_cong)
  show "roles_assigned (db\<lparr>bv_roles := bv_roles db @ [r]\<rparr>) w u = roles_assigned db w u"
    using assms by (intro roles_assigned_cong) (auto dest: assigned_role_exists)
qed (simp_all add: same_tables_def permissions_of_role_def)

lemma insert_role_unheld:
  assumes "roles_ok db" "pg_insert_role env p db = (db', Inr r)"
  shows "unheld db (bp_id r) db'"
proof -
  from insert_role_run [OF assms(2)] have free: "\<not> role_taken db r" and db': "db' = db\<lparr>bv_roles := bv_roles db @ [r]\<rparr>"
    by auto
  have id: "bp_id r \<notin> bp_id ` set (bv_roles db)" using free by (auto simp: role_taken_def list_ex_iff)
  have ok: "keys_ok db" "carried_ok db" "assigned_ok db" using assms(1) by (simp_all add: roles_ok_def)
  have "carried_ok db'" "assigned_ok db'" using ok(2,3) by (auto simp: db' carried_ok_def assigned_ok_def)
  with append_role_keys [OF ok(1) free] have "roles_ok db'" by (simp add: roles_ok_def db')
  moreover have "\<forall>a\<in>set (bv_assigned db'). bt_role_id a \<noteq> bp_id r" using id assigned_role_exists [OF ok(3)] by (simp add: db') metis
  ultimately show ?thesis using append_role_may [OF ok(3) id] by (auto simp: unheld_def db' intro!: ext)
qed

text \<open>The rows the statement adds.\<close>

definition added_permissions :: "role_db \<Rightarrow> string \<Rightarrow> string \<Rightarrow> role_permission_row list" where
  "added_permissions db i code = filter (\<lambda>rp. \<not> list_ex ((=) rp) (bv_role_permissions db))
     (map (\<lambda>p. \<lparr>bq_role_id = i, bq_permission_id = ba_id p\<rparr>)
       (filter (\<lambda>p. citext (ba_code p) = citext code) (bv_permissions db)))"

lemma add_permission_run:
  assumes "pg_add_permission env i code db = (db', Inr x)" "pe_uuid env i = Some i"
  shows "db' = db\<lparr>bv_role_permissions := bv_role_permissions db @ added_permissions db i code\<rparr>"
  using assms by (auto simp: pg_add_permission_def tx_bind_Inr uuid_param_def added_permissions_def)

lemma add_permission_may:
  assumes "\<forall>a\<in>set (bv_assigned db). bt_role_id a \<noteq> i"
  shows "may (db\<lparr>bv_role_permissions := bv_role_permissions db @ added_permissions db i code\<rparr>) w u c = may db w u c"
proof (rule may_cong)
  fix r assume "r \<in> set (roles_assigned db w u)"
  with assms have "bp_id r \<noteq> i" by (auto simp: set_roles_assigned same_assignment_def)
  then show "permissions_of_role (db\<lparr>bv_role_permissions := bv_role_permissions db @ added_permissions db i code\<rparr>) (bp_id r) =
      permissions_of_role db (bp_id r)"
    by (intro permissions_of_role_cong) (auto simp: added_permissions_def)
qed (simp_all add: same_tables_def roles_assigned_def)

lemma add_permission_unheld:
  assumes "unheld db0 i db" "pg_add_permission env i code db = (db', Inr x)" "pe_uuid env i = Some i"
  shows "unheld db0 i db'"
proof -
  note run = add_permission_run [OF assms(2,3)]
  have un: "roles_ok db" "\<forall>a\<in>set (bv_assigned db). bt_role_id a \<noteq> i" "\<exists>r\<in>set (bv_roles db). bp_id r = i"
    using assms(1) by (simp_all add: unheld_def)
  have "distinct (map (\<lambda>p. \<lparr>bq_role_id = i, bq_permission_id = ba_id p\<rparr>) (bv_permissions db))"
    using un(1) by (auto simp: roles_ok_def keys_ok_def distinct_map inj_on_def)
  then have "distinct (added_permissions db i code)"
    by (auto simp: added_permissions_def distinct_map inj_on_def)
  moreover have "set (added_permissions db i code) \<inter> set (bv_role_permissions db) = {}"
    by (auto simp: added_permissions_def list_ex_iff)
  ultimately have "keys_ok db'" using un(1) by (auto simp: run roles_ok_def keys_ok_def)
  moreover have "carried_ok db'" "assigned_ok db'"
    using un(1,3) by (auto simp: run roles_ok_def carried_ok_def assigned_ok_def added_permissions_def)
  moreover have "may db' w = may db0 w" for w
    by (intro ext) (use add_permission_may [OF un(2)] assms(1) in \<open>simp add: run unheld_def\<close>)
  ultimately show ?thesis using un by (simp add: unheld_def roles_ok_def run)
qed

lemma add_permissions_unheld:
  "unheld db0 i db \<Longrightarrow> pg_add_permissions env i codes db = (db', Inr x) \<Longrightarrow> pe_uuid env i = Some i \<Longrightarrow> unheld db0 i db'"
  by (induction codes arbitrary: db) (auto simp: tx_bind_Inr dest: add_permission_unheld)

section \<open>What statements do to the tables\<close>

text \<open>The server gives the canonical text of an identifier; a generated one is canonical.\<close>

definition role_env :: "(string \<Rightarrow> string option) \<Rightarrow> pg_env \<Rightarrow> bool" where
  "role_env canon env \<longleftrightarrow> pe_uuid env = canon \<and> canon (pe_fresh env) = Some (pe_fresh env)"

definition role_rel :: "string set \<Rightarrow> role_db \<Rightarrow> role_db \<Rightarrow> bool" where
  "role_rel W db db' \<longleftrightarrow> (roles_ok db \<longrightarrow> roles_ok db' \<and> (\<forall>w. w \<notin> W \<longrightarrow> may db' w = may db w))"

lemma role_rel_preorder [simp]: "preorder_rel (role_rel W)"
  by (auto simp: preorder_rel_def role_rel_def)

text \<open>A transaction that leaves nothing when it fails.\<close>

lemma in_tx_rel:
  assumes "\<And>db db' x. roles_ok db \<Longrightarrow> f db = (db', Inr x) \<Longrightarrow> role_rel W db db'"
  shows "tx_rel (role_rel W) (in_tx f)"
proof (rule tx_relI)
  fix db db' r assume run: "in_tx f db = (db', r)"
  show "role_rel W db db'"
  proof (cases r)
    case (Inl e)
    with run have "db' = db" by (auto dest: in_tx_Inl)
    then show ?thesis by (simp add: role_rel_def)
  next
    case (Inr x)
    with run assms show ?thesis by (auto simp: role_rel_def)
  qed
qed

lemma create_role_rel:
  assumes "role_env canon env"
  shows "tx_rel (role_rel {}) (in_tx (pg_create_role_tx env p))"
proof (rule in_tx_rel)
  fix db db' x assume ok: "roles_ok db" and "pg_create_role_tx env p db = (db', Inr x)"
  then obtain db1 u where ins: "pg_insert_role env p db = (db1, Inr x)"
    and adds: "pg_add_permissions env (bp_id x) (be_permission_codes p) db1 = (db', Inr u)"
    by (auto simp: pg_create_role_tx_def tx_bind_Inr)
  from insert_role_run [OF ins] have "bp_id x = pe_fresh env" by (auto simp: new_role_def)
  with assms have "pe_uuid env (bp_id x) = Some (bp_id x)" by (simp add: role_env_def)
  from add_permissions_unheld [OF insert_role_unheld [OF ok ins] adds this]
  show "role_rel {} db db'" by (simp add: role_rel_def unheld_def)
qed

text \<open>Who holds what changes in the workspace of the row only.\<close>

lemma may_assigned:
  assumes "filter (\<lambda>a. bt_workspace_id a = w \<and> bt_user_id a = u) as = filter (\<lambda>a. bt_workspace_id a = w \<and> bt_user_id a = u) (bv_assigned db)"
  shows "may (db\<lparr>bv_assigned := as\<rparr>) w u c = may db w u c"
proof (rule may_cong)
  show "roles_assigned (db\<lparr>bv_assigned := as\<rparr>) w u = roles_assigned db w u" by (simp add: roles_assigned_def assms)
qed (simp_all add: same_tables_def permissions_of_role_def)

lemma assign_run:
  assumes "pg_assign_role env p db = (db', Inr x)"
  shows "\<exists>w u i b. pe_uuid env (bg_workspace_id p) = Some w \<and> pe_uuid env (bg_user_id p) = Some u \<and>
    pe_uuid env (bg_role_id p) = Some i \<and> assignable db w u i \<and> \<not> list_ex (same_assignment w u i) (bv_assigned db) \<and>
    db' = db\<lparr>bv_assigned := bv_assigned db @
      [\<lparr>bt_workspace_id = w, bt_user_id = u, bt_role_id = i, bt_assigned_by = Some b\<rparr>]\<rparr>"
  using assms by (force simp: pg_assign_role_def tx_bind_Inr uuid_param_def split: if_splits option.splits)

lemma assign_keeps:
  assumes "roles_ok db" "assignable db w u i" "\<not> list_ex (same_assignment w u i) (bv_assigned db)"
  shows "roles_ok (db\<lparr>bv_assigned := bv_assigned db @
      [\<lparr>bt_workspace_id = w, bt_user_id = u, bt_role_id = i, bt_assigned_by = b\<rparr>]\<rparr>)"
proof -
  have "\<exists>r\<in>set (bv_roles db). bp_id r = i \<and> usable_in w r" "\<exists>m\<in>set (bv_members db). bs_workspace_id m = w \<and> bs_user_id m = u"
    using assms(2) by (auto simp: assignable_def member_active_def list_ex_iff)
  moreover have "(w, u, i) \<notin> (\<lambda>a. (bt_workspace_id a, bt_user_id a, bt_role_id a)) ` set (bv_assigned db)"
    using assms(3) by (auto simp: list_ex_iff same_assignment_def)
  ultimately show ?thesis using assms(1) by (auto simp: roles_ok_def keys_ok_def carried_ok_def assigned_ok_def)
qed

lemma assign_rel:
  assumes "role_env canon env"
  shows "tx_rel (role_rel (named_by canon (bg_workspace_id p))) (in_tx (pg_assign_role env p))"
proof (rule in_tx_rel)
  fix db db' x assume ok: "roles_ok db" and run: "pg_assign_role env p db = (db', Inr x)"
  from assign_run [OF run] obtain w u i b where
    r: "pe_uuid env (bg_workspace_id p) = Some w" "assignable db w u i" "\<not> list_ex (same_assignment w u i) (bv_assigned db)"
      "db' = db\<lparr>bv_assigned := bv_assigned db @
        [\<lparr>bt_workspace_id = w, bt_user_id = u, bt_role_id = i, bt_assigned_by = Some b\<rparr>]\<rparr>" by auto
  have "may db' v = may db v" if "v \<noteq> w" for v
    unfolding r(4) by (intro ext may_assigned) (use that in auto)
  with assign_keeps [OF ok r(2,3)] r assms show "role_rel (named_by canon (bg_workspace_id p)) db db'"
    by (auto simp: role_rel_def named_by_def role_env_def)
qed

lemma revoke_run:
  assumes "pg_revoke_role env p db = (db', Inr x)"
  shows "\<exists>w u i. pe_uuid env (bh_workspace_id p) = Some w \<and> pe_uuid env (bh_user_id p) = Some u \<and>
    pe_uuid env (bh_role_id p) = Some i \<and> db' = db\<lparr>bv_assigned := filter (\<lambda>a. \<not> same_assignment w u i a) (bv_assigned db)\<rparr>"
  using assms by (force simp: pg_revoke_role_def tx_bind_Inr uuid_param_def split: option.splits)

lemma revoke_rel:
  assumes "role_env canon env"
  shows "tx_rel (role_rel (named_by canon (bh_workspace_id p))) (in_tx (pg_revoke_role env p))"
proof (rule in_tx_rel)
  fix db db' x assume ok: "roles_ok db" and run: "pg_revoke_role env p db = (db', Inr x)"
  from revoke_run [OF run] obtain w u i where
    r: "pe_uuid env (bh_workspace_id p) = Some w" "db' = db\<lparr>bv_assigned := filter (\<lambda>a. \<not> same_assignment w u i a) (bv_assigned db)\<rparr>"
    by auto
  have "may db' v = may db v" if "v \<noteq> w" for v
    unfolding r(2) by (intro ext may_assigned) (use that in \<open>auto simp: same_assignment_def intro!: filter_cong\<close>)
  moreover have "roles_ok db'"
    using ok by (auto simp: r(2) roles_ok_def keys_ok_def carried_ok_def assigned_ok_def distinct_map inj_on_def)
  ultimately show "role_rel (named_by canon (bh_workspace_id p)) db db'"
    using r(1) assms by (auto simp: role_rel_def named_by_def role_env_def)
qed

lemma may_audit [simp]: "may (db\<lparr>bv_audit := a\<rparr>) = may db"
  by (intro ext may_cong) (simp_all add: same_tables_def roles_assigned_def permissions_of_role_def)

lemma roles_ok_audit [simp]: "roles_ok (db\<lparr>bv_audit := a\<rparr>) = roles_ok db"
  by (simp add: roles_ok_def keys_ok_def carried_ok_def assigned_ok_def)

lemma audit_rel: "tx_rel (role_rel {}) (in_tx (pg_role_audit env a))"
  by (rule in_tx_rel) (auto simp: pg_role_audit_def tx_bind_Inr role_rel_def split: if_splits)

section \<open>The contract\<close>

definition pg_roles_ok :: "(string \<Rightarrow> string option) \<Rightarrow> role_db pg \<Rightarrow> bool" where
  "pg_roles_ok canon st \<longleftrightarrow> roles_ok (pg_db st) \<and> (\<forall>n. role_env canon (pg_envs st n))"

abbreviation pg_may :: "role_db pg \<Rightarrow> string \<Rightarrow> string \<Rightarrow> string \<Rightarrow> bool" where
  "pg_may st \<equiv> may (pg_db st)"

lemma pg_run_moved:
  assumes "\<And>env. role_env canon env \<Longrightarrow> tx_rel (role_rel W) (f env)"
  shows "tx_rel (moved (pg_roles_ok canon) pg_may W) (pg_run f)"
proof (rule tx_relI)
  fix st st' r assume run: "pg_run f st = (st', r)"
  show "moved (pg_roles_ok canon) pg_may W st st'"
    unfolding moved_def
  proof
    assume ok: "pg_roles_ok canon st"
    then have "role_env canon (pg_envs st (pg_tick st))" by (simp add: pg_roles_ok_def)
    from tx_relD [OF assms [OF this]] pg_run_db [OF run] have "role_rel W (pg_db st) (pg_db st')" 
      by (auto simp: role_rel_def)
    then show "pg_roles_ok canon st' \<and> (\<forall>w. w \<notin> W \<longrightarrow> pg_may st' w = pg_may st w)"
      using ok pg_run_envs [OF run] by (simp add: role_rel_def pg_roles_ok_def)
  qed
qed

lemma pg_run_asks:
  assumes "\<And>env db. fst (f env db) = db"
  shows "tx_rel (moved (pg_roles_ok canon) pg_may W) (pg_run f)"
proof (rule pg_run_moved)
  fix env show "tx_rel (role_rel W) (f env)"
    using assms by (intro tx_relI) (metis fst_conv role_rel_preorder preorder_rel_def)
qed

lemma load_roles_moved: "tx_rel (moved (pg_roles_ok canon) pg_may W) (load_roles col rs)"
  by (induction rs) (simp_all, intro tx_rel_base moved_preorder,
      intro tx_rel_bind tx_rel_base moved_preorder pg_run_asks, simp_all add: pg_role_permissions_def)

interpretation pg_roles: role_store "role_pg col" "pg_roles_ok canon" canon pg_may
proof (unfold_locales, goal_cases)
  case (2 w)
  show ?case unfolding role_pg_def role_repo.simps pg_list_roles_def
    by (intro tx_rel_bind moved_preorder pg_run_asks load_roles_moved) (simp add: pg_role_rows_def)
next
  case (3 w u)
  show ?case unfolding role_pg_def role_repo.simps pg_list_member_roles_def
    by (intro tx_rel_bind moved_preorder pg_run_asks load_roles_moved) (simp add: pg_member_role_rows_def)
next
  case (9 a)
  show ?case unfolding role_pg_def role_repo.simps by (intro pg_run_moved audit_rel)
next
  case (10 p)
  show ?case unfolding role_pg_def role_repo.simps pg_create_role_def
    by (intro tx_rel_bind tx_rel_base moved_preorder pg_run_moved [OF create_role_rel] pg_run_asks)
      (simp_all add: pg_role_permissions_def)
next
  case (11 p)
  show ?case unfolding role_pg_def role_repo.simps by (intro pg_run_moved assign_rel)
next
  case (12 p)
  show ?case unfolding role_pg_def role_repo.simps by (intro pg_run_moved revoke_rel)
next
  case (13 st x y c st' b)
  from 13(2) have "pg_has (pg_envs st (pg_tick st)) x y c (pg_db st) = (pg_db st', Inr b)"
    by (auto simp: role_pg_def dest: pg_run_Inr)
  moreover from 13(1) have "pe_uuid (pg_envs st (pg_tick st)) = canon" by (simp add: pg_roles_ok_def role_env_def)
  ultimately show ?case by (auto simp: pg_has_def result_bind_Inr_iff uuid_param_def split: option.splits)
qed (simp_all add: role_pg_def pg_run_asks pg_list_permissions_def pg_list_user_permissions_def pg_has_def pg_has_any_def
    pg_has_any_zone_def pg_in_zone_def)

section \<open>Properties\<close>

text \<open>What the statements of the service read and write, beneath the steps of the server.\<close>

lemma pg_has_db:
  "has_workspace_permission (role_pg col) x y c st = (st', r) \<Longrightarrow> pg_db st' = pg_db st \<and> pg_envs st' = pg_envs st"
  by (auto simp: has_workspace_permission_def Let_def role_pg_def pg_has_def pg_run_def split: if_splits option.splits)

lemma pg_audit_db:
  assumes "with_audit (role_pg col) a x st = (st', Inr z)"
  shows "\<exists>l. pg_db st' = pg_db st\<lparr>bv_audit := l\<rparr>"
proof -
  let ?f = "\<lambda>env. in_tx (pg_role_audit env a)" and ?R = "\<lambda>db (db' :: role_db). \<exists>l. db' = db\<lparr>bv_audit := l\<rparr>"
  have st': "st' = fst (pg_run ?f st)"
    using assms by (auto simp: with_audit_def tx_bind_def tx_ignore_def tx_return_def role_pg_def)
  have same: "?R db db" for db :: role_db by (rule exI [of _ "bv_audit db"]) simp
  have rel: "tx_rel ?R (?f env)" for env
  proof (rule tx_relI)
    fix db db' r assume "in_tx (pg_role_audit env a) db = (db', r)"
    then show "?R db db'"
      using same by (cases r) (auto dest: in_tx_Inl simp: pg_role_audit_def tx_bind_Inr split: if_splits)
  qed
  have pre: "preorder_rel ?R"
    unfolding preorder_rel_def by (intro conjI allI impI same) auto
  obtain s1 r where s1: "pg_run ?f st = (s1, r)" by (cases "pg_run ?f st")
  from pg_run_rel [OF rel pre s1] st' s1 show ?thesis by simp
qed

text \<open>A successful assignment: the check, the row, the audit row.\<close>

lemma assign_role_run:
  assumes "pg_roles_ok canon st" "assign_role (role_pg col) i st = (st', Inr x)"
  shows "\<exists>a w u r b l. canon (trim_space (bf_actor i)) = Some a \<and> canon (trim_space (bf_workspace_id i)) = Some w \<and>
    canon (trim_space (bf_user_id i)) = Some u \<and> canon (trim_space (bf_role_id i)) = Some r \<and>
    pg_may st w a ''role.manage'' \<and> assignable (pg_db st) w u r \<and>
    \<not> list_ex (same_assignment w u r) (bv_assigned (pg_db st)) \<and>
    pg_db st' = pg_db st\<lparr>bv_assigned := bv_assigned (pg_db st) @
      [\<lparr>bt_workspace_id = w, bt_user_id = u, bt_role_id = r, bt_assigned_by = Some b\<rparr>], bv_audit := l\<rparr>"
proof -
  let ?p = "\<lparr>bg_workspace_id = trim_space (bf_workspace_id i), bg_user_id = trim_space (bf_user_id i),
    bg_role_id = trim_space (bf_role_id i), bg_assigned_by = trim_space (bf_actor i)\<rparr>"
  let ?f = "tx_then (tx_map_error map_role_missing (bo_assign (role_pg col) ?p))
    (with_audit (role_pg col) (member_role_audit ''role.assign'' (clean_assign i)) ())"
  have run: "allowed_by (has_workspace_permission (role_pg col) (trim_space (bf_actor i)) (trim_space (bf_workspace_id i)) ''role.manage'')
      (forbidden ''Ban khong co quyen gan role.'') ?f st = (st', Inr x)"
    using assms(2) by (auto simp: assign_role_def Let_def clean_assign_def split: if_splits)
  from pg_roles.behind_check [OF assms(1) trim_space_idem run] obtain a w st1 where
    a: "canon (trim_space (bf_actor i)) = Some a" "canon (trim_space (bf_workspace_id i)) = Some w" "pg_may st w a ''role.manage''"
    and ok: "pg_roles_ok canon st1"
    and has: "has_workspace_permission (role_pg col) (trim_space (bf_actor i)) (trim_space (bf_workspace_id i)) ''role.manage'' st = (st1, Inr True)"
    and f: "?f st1 = (st', Inr x)" by blast
  from pg_has_db [OF has] have db: "pg_db st1 = pg_db st" by simp
  from f obtain st2 y where asg: "pg_run (\<lambda>env. in_tx (pg_assign_role env ?p)) st1 = (st2, Inr y)"
    and aud: "with_audit (role_pg col) (member_role_audit ''role.assign'' (clean_assign i)) () st2 = (st', Inr x)"
    by (auto simp: tx_bind_Inr role_pg_def)
  from pg_run_Inr [OF asg] db have "pg_assign_role (pg_envs st1 (pg_tick st1)) ?p (pg_db st) = (pg_db st2, Inr y)" by simp
  from assign_run [OF this] a(2) ok obtain u r b where
    r: "canon (trim_space (bf_user_id i)) = Some u" "canon (trim_space (bf_role_id i)) = Some r" "assignable (pg_db st) w u r"
      "\<not> list_ex (same_assignment w u r) (bv_assigned (pg_db st))"
    and st2: "pg_db st2 = pg_db st\<lparr>bv_assigned := bv_assigned (pg_db st) @
      [\<lparr>bt_workspace_id = w, bt_user_id = u, bt_role_id = r, bt_assigned_by = Some b\<rparr>]\<rparr>"
    by (auto simp: pg_roles_ok_def role_env_def)
  from pg_audit_db [OF aud] obtain l where "pg_db st' = pg_db st2\<lparr>bv_audit := l\<rparr>" by blast
  with st2 have "pg_db st' = pg_db st\<lparr>bv_assigned := bv_assigned (pg_db st) @
      [\<lparr>bt_workspace_id = w, bt_user_id = u, bt_role_id = r, bt_assigned_by = Some b\<rparr>], bv_audit := l\<rparr>" by simp
  with a r show ?thesis by blast
qed

lemma revoke_role_run:
  assumes "pg_roles_ok canon st" "revoke_role (role_pg col) i st = (st', Inr x)"
  shows "\<exists>a w u r l. canon (trim_space (bf_actor i)) = Some a \<and> canon (trim_space (bf_workspace_id i)) = Some w \<and>
    canon (trim_space (bf_user_id i)) = Some u \<and> canon (trim_space (bf_role_id i)) = Some r \<and>
    pg_may st w a ''role.manage'' \<and>
    pg_db st' = pg_db st\<lparr>bv_assigned := filter (\<lambda>a. \<not> same_assignment w u r a) (bv_assigned (pg_db st)), bv_audit := l\<rparr>"
proof -
  let ?p = "\<lparr>bh_workspace_id = trim_space (bf_workspace_id i), bh_user_id = trim_space (bf_user_id i),
    bh_role_id = trim_space (bf_role_id i)\<rparr>"
  let ?f = "tx_then (bo_revoke (role_pg col) ?p)
    (with_audit (role_pg col) (member_role_audit ''role.revoke'' (clean_assign i)) ())"
  have run: "allowed_by (has_workspace_permission (role_pg col) (trim_space (bf_actor i)) (trim_space (bf_workspace_id i)) ''role.manage'')
      (forbidden ''Ban khong co quyen go role.'') ?f st = (st', Inr x)"
    using assms(2) by (auto simp: revoke_role_def Let_def clean_assign_def split: if_splits)
  from pg_roles.behind_check [OF assms(1) trim_space_idem run] obtain a w st1 where
    a: "canon (trim_space (bf_actor i)) = Some a" "canon (trim_space (bf_workspace_id i)) = Some w" "pg_may st w a ''role.manage''"
    and ok: "pg_roles_ok canon st1"
    and has: "has_workspace_permission (role_pg col) (trim_space (bf_actor i)) (trim_space (bf_workspace_id i)) ''role.manage'' st = (st1, Inr True)"
    and f: "?f st1 = (st', Inr x)" by blast
  from pg_has_db [OF has] have db: "pg_db st1 = pg_db st" by simp
  from f obtain st2 y where rev: "pg_run (\<lambda>env. in_tx (pg_revoke_role env ?p)) st1 = (st2, Inr y)"
    and aud: "with_audit (role_pg col) (member_role_audit ''role.revoke'' (clean_assign i)) () st2 = (st', Inr x)"
    by (auto simp: tx_bind_Inr role_pg_def)
  from pg_run_Inr [OF rev] db have "pg_revoke_role (pg_envs st1 (pg_tick st1)) ?p (pg_db st) = (pg_db st2, Inr y)" by simp
  from revoke_run [OF this] a(2) ok obtain u r where
    r: "canon (trim_space (bf_user_id i)) = Some u" "canon (trim_space (bf_role_id i)) = Some r"
    and st2: "pg_db st2 = pg_db st\<lparr>bv_assigned := filter (\<lambda>a. \<not> same_assignment w u r a) (bv_assigned (pg_db st))\<rparr>"
    by (auto simp: pg_roles_ok_def role_env_def)
  from pg_audit_db [OF aud] obtain l where "pg_db st' = pg_db st2\<lparr>bv_audit := l\<rparr>" by blast
  with st2 have "pg_db st' =
      pg_db st\<lparr>bv_assigned := filter (\<lambda>a. \<not> same_assignment w u r a) (bv_assigned (pg_db st)), bv_audit := l\<rparr>" by simp
  with a r show ?thesis by blast
qed

text \<open>The permissions after one more assignment.\<close>

definition role_gives :: "role_db \<Rightarrow> string \<Rightarrow> string \<Rightarrow> bool" where
  "role_gives db r c \<longleftrightarrow> has_code c (permissions_of_role db r)"

lemma may_one_more:
  assumes "assignable db w u r" "keys_ok db"
  shows "may (db\<lparr>bv_assigned := bv_assigned db @
      [\<lparr>bt_workspace_id = w, bt_user_id = u, bt_role_id = r, bt_assigned_by = b\<rparr>]\<rparr>) x v c \<longleftrightarrow>
    may db x v c \<or> x = w \<and> v = u \<and> role_gives db r c"
proof -
  let ?db' = "db\<lparr>bv_assigned := bv_assigned db @
      [\<lparr>bt_workspace_id = w, bt_user_id = u, bt_role_id = r, bt_assigned_by = b\<rparr>]\<rparr>"
  obtain s where s: "s \<in> set (bv_roles db)" "bp_id s = r" "role_live s" "usable_in w s"
    and m: "\<exists>m\<in>set (bv_members db). bs_workspace_id m = w \<and> member_active u m"
    using assms(1) by (auto simp: assignable_def list_ex_iff)
  have roles: "set (roles_assigned ?db' x v) = set (roles_assigned db x v) \<union>
      {t \<in> set (bv_roles db). role_live t \<and> x = w \<and> v = u \<and> bp_id t = r}"
    by (auto simp: set_roles_assigned same_assignment_def)
  have tables: "permissions_of_role ?db' i = permissions_of_role db i" "owns_workspace ?db' x v = owns_workspace db x v" for i
    by (simp_all add: permissions_of_role_def owns_workspace_def)
  show ?thesis
    using s m by (auto simp: may_def granted_iff roles tables role_gives_def)
qed


text \<open>
  C23. An assignment that succeeds was made by somebody who may manage the roles of the workspace, of a live
  role of the system or the workspace to an active member who did not hold it, and gives that member exactly
  the permissions of the role, in that workspace; nobody else's permissions change.
\<close>

theorem assignment_grants_role:
  assumes "pg_roles_ok canon st" "assign_role (role_pg col) i st = (st', Inr x)"
  shows "\<exists>a w u r. canon (trim_space (bf_actor i)) = Some a \<and> canon (trim_space (bf_workspace_id i)) = Some w \<and>
    canon (trim_space (bf_user_id i)) = Some u \<and> canon (trim_space (bf_role_id i)) = Some r \<and>
    pg_may st w a ''role.manage'' \<and> assignable (pg_db st) w u r \<and>
    (\<forall>y v c. pg_may st' y v c \<longleftrightarrow> pg_may st y v c \<or> y = w \<and> v = u \<and> role_gives (pg_db st) r c)"
proof -
  have "keys_ok (pg_db st)" using assms(1) by (simp add: pg_roles_ok_def roles_ok_def)
  with assign_role_run [OF assms] show ?thesis by (fastforce simp: may_one_more)
qed

text \<open>
  C24. Revoking undoes assigning: after an assignment and a revocation of the same role from the same member
  the assignments, and what everybody may do, are those before.
\<close>

theorem revoke_undoes_assign:
  assumes "pg_roles_ok canon st" "assign_role (role_pg col) i st = (st1, Inr x)" "revoke_role (role_pg col) j st1 = (st2, Inr y)"
    and "trim_space (bf_workspace_id j) = trim_space (bf_workspace_id i)" "trim_space (bf_user_id j) = trim_space (bf_user_id i)"
      "trim_space (bf_role_id j) = trim_space (bf_role_id i)"
  shows "bv_assigned (pg_db st2) = bv_assigned (pg_db st) \<and> pg_may st2 = pg_may st"
proof -
  from pg_roles.serve_moves [OF assms(1), of col "Give_Role i" st1 "Inr x"] assms(1,2)
  have ok1: "pg_roles_ok canon st1" by (simp add: moved_def)
  from assign_role_run [OF assms(1,2)] obtain w u r b l where
    i: "canon (trim_space (bf_workspace_id i)) = Some w" "canon (trim_space (bf_user_id i)) = Some u"
      "canon (trim_space (bf_role_id i)) = Some r" "\<not> list_ex (same_assignment w u r) (bv_assigned (pg_db st))"
    and asg: "pg_db st1 = pg_db st\<lparr>bv_assigned := bv_assigned (pg_db st) @
      [\<lparr>bt_workspace_id = w, bt_user_id = u, bt_role_id = r, bt_assigned_by = Some b\<rparr>], bv_audit := l\<rparr>" by auto
  from revoke_role_run [OF ok1 assms(3)] assms(4-6) i obtain l' where
    rev: "pg_db st2 = pg_db st1\<lparr>bv_assigned := filter (\<lambda>a. \<not> same_assignment w u r a) (bv_assigned (pg_db st1)), bv_audit := l'\<rparr>"
    by auto
  have undone: "filter (\<lambda>a. \<not> same_assignment w u r a) (bv_assigned (pg_db st1)) = bv_assigned (pg_db st)"
    using i(4) by (auto simp: asg list_ex_iff same_assignment_def intro!: filter_True)
  have "pg_db st2 = pg_db st\<lparr>bv_audit := l'\<rparr>" by (simp add: rev undone) (simp add: asg)
  then show ?thesis by simp
qed

text \<open>
  C25. The permission check agrees with the list of permissions: a user is allowed exactly the codes of the
  permissions listed for them, up to case; only an owner is also allowed codes no permission has.
\<close>

theorem check_agrees_with_list:
  assumes "has_workspace_permission (role_pg col) user workspace code st = (st1, Inr b)"
    and "list_my_permissions (role_pg col) user workspace st = (st2, Inr ds)"
  shows "b \<longleftrightarrow> list_ex (\<lambda>d. citext (bl_code d) = citext (trim_space code)) ds \<or>
    (\<exists>u w. pe_uuid (pg_envs st (pg_tick st)) user = Some u \<and> pe_uuid (pg_envs st (pg_tick st)) (trim_space workspace) = Some w \<and>
      owns_workspace (pg_db st) w u \<and> \<not> has_code (trim_space code) (bv_permissions (pg_db st)))"
proof -
  let ?env = "pg_envs st (pg_tick st)" and ?db = "pg_db st"
  from assms(1) have "pg_run (\<lambda>env. pg_has env user (trim_space workspace) (trim_space code)) st = (st1, Inr b)"
    by (auto simp: has_workspace_permission_def Let_def role_pg_def split: if_splits)
  from pg_run_Inr [OF this] obtain u w where
    u: "pe_uuid ?env user = Some u" "pe_uuid ?env (trim_space workspace) = Some w" and b: "b = may ?db w u (trim_space code)"
    by (auto simp: pg_has_def result_bind_Inr_iff uuid_param_def split: option.splits)
  from assms(2) obtain ps where "pg_run (\<lambda>env. pg_list_user_permissions col env user (trim_space workspace)) st = (st2, Inr ps)"
    and ds: "ds = map to_permission_dto ps"
    by (auto simp: list_my_permissions_def Let_def role_pg_def tx_bind_Inr split: if_splits)
  from pg_run_Inr [OF this(1)] u have "p \<in> set ps \<longleftrightarrow> owns_workspace ?db w u \<and> p \<in> set (bv_permissions ?db) \<or>
      (\<exists>m\<in>set (bv_members ?db). bs_workspace_id m = w \<and> member_active u m \<and>
        p \<in> set (permissions_assigned ?db (bs_workspace_id m) u))" for p
    by (auto simp: pg_list_user_permissions_def uuid_param_def split: if_splits)
  moreover have "set (permissions_assigned ?db v u) \<subseteq> set (bv_permissions ?db)" for v
    by (auto simp: permissions_assigned_def permissions_of_role_def)
  ultimately show ?thesis
    using u by (fastforce simp: b ds may_def granted_def has_code_def list_ex_iff to_permission_dto_def)
qed

section \<open>Witnesses\<close>

definition demo_role_ids :: "string list" where
  "demo_role_ids = [''w'', ''z'', ''ann'', ''bob'', ''r'', ''p'', ''q'', ''new'']"

definition demo_role_canon :: "string \<Rightarrow> string option" where
  "demo_role_canon s = (if list_ex ((=) s) demo_role_ids then Some s else None)"

definition demo_permission :: "string \<Rightarrow> string \<Rightarrow> string \<Rightarrow> permission" where
  "demo_permission i m a = \<lparr>ba_id = i, ba_code = m @ ''.'' @ a, ba_module = m, ba_action = a, ba_name = a, ba_description = None\<rparr>"

text \<open>\<open>ann\<close> owns the workspace, \<open>bob\<close> is a member; the system has one role, which may send messages.\<close>

definition demo_role_db :: role_db where
  "demo_role_db =
    \<lparr>bv_users = [''ann'', ''bob''],
     bv_permissions = [demo_permission ''p'' ''role'' ''manage'', demo_permission ''q'' ''message'' ''send''],
     bv_roles = [\<lparr>bp_id = ''r'', bp_workspace_id = None, bp_code = ''workspace_member'', bp_name = ''Member'',
       bp_description = None, bp_is_system = True, bp_created_by = None, bp_deleted_at = None\<rparr>],
     bv_role_permissions = [\<lparr>bq_role_id = ''r'', bq_permission_id = ''q''\<rparr>],
     bv_workspaces = [\<lparr>br_id = ''w'', br_owner_id = Some ''ann'', br_zone_id = ''z'', br_status = ''active'', br_deleted_at = None\<rparr>],
     bv_members = [\<lparr>bs_workspace_id = ''w'', bs_user_id = ''ann'', bs_status = ''active''\<rparr>,
       \<lparr>bs_workspace_id = ''w'', bs_user_id = ''bob'', bs_status = ''active''\<rparr>],
     bv_assigned = [], bv_audit = []\<rparr>"

definition demo_role_pg :: "role_db pg" where
  "demo_role_pg = \<lparr>pg_db = demo_role_db,
     pg_envs = (\<lambda>n. \<lparr>pe_now = int n, pe_fresh = ''new'', pe_uuid = demo_role_canon, pe_jsonb = Some, pe_fail = None\<rparr>), pg_tick = 0\<rparr>"

definition demo_assign :: "string \<Rightarrow> assign_role_input" where
  "demo_assign actor = \<lparr>bf_actor = actor, bf_workspace_id = '' w'', bf_user_id = ''bob'', bf_role_id = ''r''\<rparr>"

lemma demo_roles_ok: "pg_roles_ok demo_role_canon demo_role_pg"
  by (simp add: pg_roles_ok_def demo_role_pg_def role_env_def demo_role_canon_def demo_role_ids_def roles_ok_def keys_ok_def
      carried_ok_def assigned_ok_def demo_role_db_def demo_permission_def)

lemma demo_given: "snd (assign_role (role_pg id) (demo_assign ''ann'') demo_role_pg) = Inr ()"
  by code_simp

lemma demo_taken:
  "snd (revoke_role (role_pg id) (demo_assign ''ann'') (fst (assign_role (role_pg id) (demo_assign ''ann'') demo_role_pg))) = Inr ()"
  by code_simp


theorem assignment_grants_role_witness:
  "pg_may (fst (assign_role (role_pg id) (demo_assign ''ann'') demo_role_pg)) ''w'' ''bob'' ''message.send''"
proof -
  have run: "assign_role (role_pg id) (demo_assign ''ann'') demo_role_pg =
      (fst (assign_role (role_pg id) (demo_assign ''ann'') demo_role_pg), Inr ())"
    using demo_given by (metis prod.collapse)
  have eq: "trim_space (bf_workspace_id (demo_assign ''ann'')) = ''w''" "trim_space (bf_user_id (demo_assign ''ann'')) = ''bob''"
    "trim_space (bf_role_id (demo_assign ''ann'')) = ''r''" by code_simp+
  have known: "demo_role_canon ''w'' = Some ''w''" "demo_role_canon ''bob'' = Some ''bob''" "demo_role_canon ''r'' = Some ''r''"
    by code_simp+
  have "role_gives (pg_db demo_role_pg) ''r'' ''message.send''" by code_simp
  with assignment_grants_role [OF demo_roles_ok run] show ?thesis by (auto simp: eq known)
qed

theorem revoke_undoes_assign_witness:
  "pg_may (fst (revoke_role (role_pg id) (demo_assign ''ann'')
     (fst (assign_role (role_pg id) (demo_assign ''ann'') demo_role_pg)))) = pg_may demo_role_pg"
proof -
  let ?s = "fst (assign_role (role_pg id) (demo_assign ''ann'') demo_role_pg)"
  have "assign_role (role_pg id) (demo_assign ''ann'') demo_role_pg = (?s, Inr ())" using demo_given by (metis prod.collapse)
  moreover have "revoke_role (role_pg id) (demo_assign ''ann'') ?s = (fst (revoke_role (role_pg id) (demo_assign ''ann'') ?s), Inr ())"
    using demo_taken by (metis prod.collapse)
  ultimately show ?thesis using revoke_undoes_assign [OF demo_roles_ok] by blast
qed

theorem check_agrees_with_list_witness:
  "\<exists>b ds. snd (has_workspace_permission (role_pg id) ''ann'' ''w'' ''message.send'' demo_role_pg) = Inr b \<and>
    snd (list_my_permissions (role_pg id) ''ann'' ''w'' demo_role_pg) = Inr ds \<and>
    (b \<longleftrightarrow> list_ex (\<lambda>d. citext (bl_code d) = citext (trim_space ''message.send'')) ds)"
proof -
  let ?has = "has_workspace_permission (role_pg id) ''ann'' ''w'' ''message.send'' demo_role_pg"
  let ?list = "list_my_permissions (role_pg id) ''ann'' ''w'' demo_role_pg"
  have has: "snd ?has = Inr True" by code_simp
  obtain ds where list: "snd ?list = Inr ds"
  proof -
    have "case snd ?list of Inr ds \<Rightarrow> True | Inl e \<Rightarrow> False" by code_simp
    then show ?thesis using that by (auto split: sum.splits)
  qed
  have "has_code (trim_space ''message.send'') (bv_permissions (pg_db demo_role_pg))" by code_simp
  moreover have "?has = (fst ?has, Inr True)" "?list = (fst ?list, Inr ds)" using has list by (metis prod.collapse)+
  ultimately show ?thesis using check_agrees_with_list [of id "''ann''" "''w''" "''message.send''" demo_role_pg] has list by blast
qed

end
