(* ===== verification/Msg_Rbac.thy ===== *)
theory Msg_Rbac
  imports Msg_Demo Rbac_Safety
begin

text \<open>
  Messages and roles together, as \<open>bootstrap/router.go\<close> wires them: the permission checker of the messages
  service is the roles service on its own tables. Requests to both are served in any order.
\<close>

definition role_checker :: "collation \<Rightarrow> role_db pg \<Rightarrow> string \<Rightarrow> string \<Rightarrow> string \<Rightarrow> bool result" where
  "role_checker col st user workspace perm = snd (has_workspace_permission (role_pg col) user workspace perm st)"

definition wired :: "collation \<Rightarrow> 's message_service \<Rightarrow> role_db pg \<Rightarrow> 's message_service" where
  "wired col s st = s\<lparr>mv_checker := role_checker col st\<rparr>"

datatype chat_request =
    To_Roles role_request
  | To_Messages message_env message_request

fun serve_chat :: "collation \<Rightarrow> 's message_service \<Rightarrow> chat_request list \<Rightarrow> 's message_world \<Rightarrow> role_db pg \<Rightarrow>
    's message_world \<times> role_db pg" where
  "serve_chat col s [] w st = (w, st)"
| "serve_chat col s (To_Roles q # qs) w st = serve_chat col s qs w (fst (serve_role (role_pg col) q st))"
| "serve_chat col s (To_Messages x q # qs) w st = serve_chat col s qs (fst (serve (wired col s st) x q w)) st"

text \<open>The user holds the permission in the workspace.\<close>

definition holds :: "(string \<Rightarrow> string option) \<Rightarrow> role_db pg \<Rightarrow> string \<Rightarrow> string \<Rightarrow> string \<Rightarrow> bool" where
  "holds canon st workspace user perm \<longleftrightarrow> (case canon user of None \<Rightarrow> False | Some u \<Rightarrow> pg_may st workspace u perm)"

text \<open>
  A request of somebody with no power over the message: they may not manage the roles of its workspace; they
  have not written it and may not manage messages there.
\<close>

fun powerless :: "(string \<Rightarrow> string option) \<Rightarrow> role_db pg \<Rightarrow> message_row \<Rightarrow> chat_request \<Rightarrow> bool" where
  "powerless canon st m (To_Roles q) = (\<not> manages canon pg_may st (mg_workspace_id m) q)"
| "powerless canon st m (To_Messages x q) =
    (mg_sender_id m \<noteq> Some (trim_space (requester q)) \<and>
     \<not> holds canon st (mg_workspace_id m) (trim_space (requester q)) ''message.manage'')"

lemma powerless_cong:
  "pg_may st' (mg_workspace_id m) = pg_may st (mg_workspace_id m) \<Longrightarrow> mg_workspace_id m' = mg_workspace_id m \<Longrightarrow>
   mg_sender_id m' = mg_sender_id m \<Longrightarrow> powerless canon st' m' q = powerless canon st m q"
  by (cases q) (simp_all add: manages_def holds_def split: option.split)

text \<open>Identifiers with blanks around them are none.\<close>

definition exact_names :: "(string \<Rightarrow> string option) \<Rightarrow> bool" where
  "exact_names canon \<longleftrightarrow> (\<forall>s u. canon s = Some u \<longrightarrow> trim_space s = s)"

lemma checker_holds:
  assumes "pg_roles_ok canon st" "role_checker col st user workspace perm = Inr True" "trim_space perm = perm"
  shows "\<exists>w. canon (trim_space workspace) = Some w \<and> holds canon st w user perm"
proof -
  obtain st' where "has_workspace_permission (role_pg col) user workspace perm st = (st', Inr True)"
    using assms(2) by (metis role_checker_def prod.collapse)
  with assms(3) have "bo_has (role_pg col) user (trim_space workspace) perm st = (st', Inr True)"
    by (auto simp: has_workspace_permission_def Let_def split: if_splits)
  from pg_roles.answers [OF assms(1) this] show ?thesis by (auto simp: holds_def)
qed

lemma moderator_holds:
  assumes "pg_roles_ok canon st" "exact_names canon"
    and "row_key m \<in> moderated (wired col s st) (named canon) user"
  shows "holds canon st (mg_workspace_id m) (trim_space user) ''message.manage''"
proof -
  from assms(3) obtain w i where key: "row_key m \<in> named canon w i"
    and check: "role_checker col st (trim_space user) w ''message.manage'' = Inr True"
    by (auto simp: moderated_def wired_def)
  have "trim_space ''message.manage'' = ''message.manage''" by code_simp
  from checker_holds [OF assms(1) check this] assms(2) key show ?thesis
    by (auto simp: named_def row_key_def exact_names_def)
qed

text \<open>
  C3. A message is safe from everybody without power over it, in the system of messages and roles: whatever
  requests to both are served in whatever order, if none is of its author, of somebody who may manage the
  messages or of somebody who may manage the roles of its workspace, its text stays and it is not deleted.
\<close>

theorem message_needs_power:
  assumes "mv_repo s = message_pg cfg" "tame (pg_messages_ok canon) stored s" "exact_names canon"
    and "pg_messages_ok canon (mw_store w)" "pg_roles_ok canon st" "m \<in> set (stored (mw_store w))"
    and "list_all (powerless canon st m) qs"
  shows "\<exists>m'\<in>set (stored (mw_store (fst (serve_chat col s qs w st)))).
    frozen m m' \<and> mg_body m' = mg_body m \<and> mg_deleted_at m' = mg_deleted_at m"
  using assms(4-7)
proof (induction qs arbitrary: w st m)
  case Nil
  then show ?case by (auto intro!: bexI [of _ m] simp: frozen_def)
next
  case (Cons q qs)
  show ?case
  proof (cases q)
    case (To_Roles r)
    let ?st = "fst (serve_role (role_pg col) r st)"
    have "list_all (\<lambda>q. \<not> manages canon pg_may st (mg_workspace_id m) q) [r]" using Cons.prems(4) To_Roles by simp
    from pg_roles.unmanaged [OF Cons.prems(2) this, of col]
    have ok: "pg_roles_ok canon ?st" and same: "pg_may ?st (mg_workspace_id m) = pg_may st (mg_workspace_id m)" by simp_all
    have "list_all (powerless canon ?st m) qs" using Cons.prems(4) powerless_cong [OF same refl refl] by (simp add: list_all_iff)
    from Cons.IH [OF Cons.prems(1) ok Cons.prems(3) this] show ?thesis by (simp add: To_Roles)
  next
    case (To_Messages x r)
    let ?s = "wired col s st" and ?w = "fst (serve (wired col s st) x r w)"
    have wired: "mv_repo ?s = message_pg cfg" "tame (pg_messages_ok canon) stored ?s"
      using assms(1,2) by (simp_all add: wired_def tame_def)
    have foreign: "list_all (\<lambda>(x, q). mg_sender_id m \<noteq> Some (trim_space (requester q))) [(x, r)]"
      and unmoderated: "row_key m \<notin> moderated ?s (named canon) (requester r)"
      using Cons.prems(4) moderator_holds [OF Cons.prems(2) assms(3)] by (auto simp: To_Messages)
    from mpg.serve_all_moves [OF wired Cons.prems(1,3) foreign] unmoderated obtain m1 where
      m1: "pg_messages_ok canon (mw_store ?w)" "m1 \<in> set (stored (mw_store ?w))" "frozen m m1" "mg_body m1 = mg_body m"
        "mg_deleted_at m1 = mg_deleted_at m" by auto
    have same: "mg_workspace_id m1 = mg_workspace_id m" "mg_sender_id m1 = mg_sender_id m"
      using m1(3) by (simp_all add: frozen_def row_key_def)
    have "powerless canon st m1 = powerless canon st m" by (rule ext) (rule powerless_cong [OF refl same])
    with Cons.prems(4) have "list_all (powerless canon st m1) qs" by simp
    from Cons.IH [OF m1(1) Cons.prems(2) m1(2) this] obtain m2 where
      "m2 \<in> set (stored (mw_store (fst (serve_chat col s qs ?w st))))" "frozen m1 m2" "mg_body m2 = mg_body m1"
        "mg_deleted_at m2 = mg_deleted_at m1" by blast
    with m1(4,5) frozen_trans [OF m1(3)] show ?thesis by (intro bexI [of _ m2]) (simp_all add: To_Messages)
  qed
qed

text \<open>\<open>bob\<close> tries to delete a message of \<open>ann\<close> and to give himself a role.\<close>

definition demo_wired_roles :: "role_db pg" where
  "demo_wired_roles = demo_role_pg\<lparr>pg_envs := demo_message_env\<rparr>"

definition demo_intrusion :: "chat_request list" where
  "demo_intrusion =
    [To_Roles (Give_Role (demo_assign ''bob'')),
     To_Messages (demo_clock 0) (Req_Delete \<lparr>xr_workspace_id = ''w'', xr_channel_id = ''c'', xr_message_id = ''m1'', xr_actor = ''bob''\<rparr>)]"

theorem message_needs_power_witness:
  "\<exists>m'\<in>set (stored (mw_store (fst (serve_chat id demo_message_service demo_intrusion demo_message_world demo_wired_roles)))).
    frozen (demo_message ''m1'' ''ann'' None 1) m' \<and> mg_body m' = ''hi'' \<and> mg_deleted_at m' = None"
proof -
  let ?m = "demo_message ''m1'' ''ann'' None 1"
  have names: "exact_names demo_canon" using demo_trims by (auto simp: exact_names_def demo_canon_def list_ex_iff split: if_splits)
  have roles: "pg_roles_ok demo_canon demo_wired_roles"
    using demo_roles_ok demo_env_ok
    by (simp add: pg_roles_ok_def demo_wired_roles_def role_env_def canon_env_def plain_id_def)
  have m: "?m \<in> set (stored (mw_store demo_message_world))"
    by (simp add: stored_def demo_message_world_def demo_message_pg_def demo_message_db_def)
  have "list_all (powerless demo_canon demo_wired_roles ?m) demo_intrusion" by code_simp
  from message_needs_power [OF demo_repo demo_tame names demo_pg_ok roles m this, of id]
  show ?thesis by (simp add: demo_message_def)
qed

end
