(* ===== verification/Chan_Service.thy ===== *)
theory Chan_Service
  imports Pg_Tx Go_Marshal "HOL-Library.List_Lexorder" "HOL-Library.Char_ord"
begin

text \<open>
  \<open>channels/domain/model.go\<close> and \<open>channels/application/service.go\<close> over its \<open>Repository\<close> interface: channels
  and their members, requests to join, read states, private sessions with a bot, direct conversations. The
  permission checker is a parameter.
\<close>

section \<open>Data\<close>

definition err_channel_not_found :: go_error where "err_channel_not_found = Sentinel ''ErrChannelNotFound''"
definition err_channel_conflict :: go_error where "err_channel_conflict = Sentinel ''ErrChannelConflict''"
definition err_member_not_found :: go_error where "err_member_not_found = Sentinel ''ErrMemberNotFound''"

record chan_row =
  fa_id :: string
  fa_workspace_id :: string
  fa_department_id :: "string option"
  fa_slug :: "string option"
  fa_name :: string
  fa_description :: "string option"
  fa_type :: string
  fa_status :: string
  fa_created_by :: "string option"
  fa_created_at :: time
  fa_updated_at :: time
  fa_archived_at :: "time option"

record group_channel = chan_row +
  fa_private_session :: bool
  fa_member_count :: int

record chan_member =
  fb_channel_id :: string
  fb_user_id :: string
  fb_email :: string
  fb_username :: string
  fb_display_name :: string
  fb_avatar_url :: "string option"
  fb_status :: string
  fb_last_read_at :: "time option"
  fb_last_read_message_id :: "string option"
  fb_joined_at :: time
  fb_created_at :: time
  fb_updated_at :: time

record message_summary =
  fc_id :: string
  fc_workspace_id :: string
  fc_channel_id :: string
  fc_sender_id :: "string option"
  fc_kind :: string
  fc_body :: string
  fc_created_at :: time
  fc_updated_at :: time

record direct_conversation =
  fd_id :: string
  fd_workspace_id :: string
  fd_channel_id :: string
  fd_participant_key :: string
  fd_conversation_type :: string
  fd_created_by :: "string option"
  fd_participant_ids :: "string list"
  fd_participants :: "chan_member list"
  fd_last_message :: "message_summary option"
  fd_unread_count :: int
  fd_created_at :: time
  fd_updated_at :: time

record create_channel_input =
  ff_actor :: string
  ff_workspace_id :: string
  ff_department_id :: string
  ff_slug :: string
  ff_name :: string
  ff_description :: string
  ff_type :: string

record create_channel_params =
  fg_workspace_id :: string
  fg_department_id :: string
  fg_slug :: string
  fg_name :: string
  fg_description :: string
  fg_type :: string
  fg_created_by :: string

record update_channel_input =
  fh_actor :: string
  fh_workspace_id :: string
  fh_channel_id :: string
  fh_department_id :: "string option"
  fh_name :: "string option"
  fh_description :: "string option"

record update_channel_params =
  fi_workspace_id :: string
  fi_channel_id :: string
  fi_department_id :: "string option"
  fi_name :: "string option"
  fi_description :: "string option"

text \<open>A user in a channel, for an actor; without the actor it is a key of the repository.\<close>

record add_member_input =
  fj_actor :: string
  fj_workspace_id :: string
  fj_channel_id :: string
  fj_user_id :: string

record add_member_params =
  fk_workspace_id :: string
  fk_channel_id :: string
  fk_user_id :: string

record member_status_input = add_member_input +
  fl_status :: string

record member_status_params = add_member_params +
  fm_status :: string

record read_state_input =
  fn_actor :: string
  fn_workspace_id :: string
  fn_channel_id :: string
  fn_last_read_message_id :: string

record read_state_params = add_member_params +
  fo_last_read_message_id :: string

record direct_input =
  fp_actor :: string
  fp_workspace_id :: string
  fp_participant_ids :: "string list"

record direct_params =
  fq_workspace_id :: string
  fq_participant_key :: string
  fq_participant_ids :: "string list"
  fq_conversation_type :: string
  fq_created_by :: string

record session_params =
  fs_workspace_id :: string
  fs_source_channel_id :: string
  fs_user_id :: string

record channel_audit =
  ft_actor :: string
  ft_workspace_id :: string
  ft_action :: string
  ft_entity_type :: string
  ft_entity_id :: string
  ft_metadata :: "(string \<times> json) list"

section \<open>DTOs\<close>

record channel_dto =
  fu_id :: string
  fu_workspace_id :: string
  fu_department_id :: "string option"
  fu_slug :: "string option"
  fu_name :: string
  fu_description :: "string option"
  fu_type :: string
  fu_status :: string
  fu_created_by :: "string option"
  fu_created_at :: string
  fu_updated_at :: string
  fu_archived_at :: "string option"
  fu_membership_status :: string
  fu_is_member :: bool
  fu_can_manage :: bool
  fu_member_count :: int
  fu_private_session :: bool

record chan_member_dto =
  fv_channel_id :: string
  fv_user_id :: string
  fv_email :: string
  fv_username :: string
  fv_display_name :: string
  fv_avatar_url :: "string option"
  fv_status :: string
  fv_last_read_at :: "string option"
  fv_last_read_message_id :: "string option"
  fv_joined_at :: string
  fv_created_at :: string
  fv_updated_at :: string

record message_summary_dto =
  fx_id :: string
  fx_workspace_id :: string
  fx_channel_id :: string
  fx_sender_id :: "string option"
  fx_kind :: string
  fx_body :: string
  fx_created_at :: string
  fx_updated_at :: string

record direct_dto =
  fw_id :: string
  fw_workspace_id :: string
  fw_channel_id :: string
  fw_participant_key :: string
  fw_conversation_type :: string
  fw_participant_ids :: "string list"
  fw_participants :: "chan_member_dto list"
  fw_user :: "chan_member_dto option"
  fw_last_message :: "message_summary_dto option"
  fw_unread_count :: int
  fw_created_at :: string
  fw_updated_at :: string

definition to_channel_dto :: "group_channel \<Rightarrow> channel_dto" where
  "to_channel_dto c =
    \<lparr>fu_id = fa_id c, fu_workspace_id = fa_workspace_id c, fu_department_id = fa_department_id c, fu_slug = fa_slug c,
     fu_name = fa_name c, fu_description = fa_description c, fu_type = fa_type c, fu_status = fa_status c,
     fu_created_by = fa_created_by c, fu_created_at = format_time (fa_created_at c),
     fu_updated_at = format_time (fa_updated_at c), fu_archived_at = format_optional_time (fa_archived_at c),
     fu_membership_status = [], fu_is_member = False, fu_can_manage = False, fu_member_count = fa_member_count c,
     fu_private_session = fa_private_session c\<rparr>"

definition to_chan_member_dto :: "chan_member \<Rightarrow> chan_member_dto" where
  "to_chan_member_dto m =
    \<lparr>fv_channel_id = fb_channel_id m, fv_user_id = fb_user_id m, fv_email = fb_email m, fv_username = fb_username m,
     fv_display_name = fb_display_name m, fv_avatar_url = fb_avatar_url m, fv_status = fb_status m,
     fv_last_read_at = format_optional_time (fb_last_read_at m), fv_last_read_message_id = fb_last_read_message_id m,
     fv_joined_at = format_time (fb_joined_at m), fv_created_at = format_time (fb_created_at m),
     fv_updated_at = format_time (fb_updated_at m)\<rparr>"

definition to_summary_dto :: "message_summary \<Rightarrow> message_summary_dto" where
  "to_summary_dto m =
    \<lparr>fx_id = fc_id m, fx_workspace_id = fc_workspace_id m, fx_channel_id = fc_channel_id m, fx_sender_id = fc_sender_id m,
     fx_kind = fc_kind m, fx_body = fc_body m, fx_created_at = format_time (fc_created_at m),
     fx_updated_at = format_time (fc_updated_at m)\<rparr>"

text \<open>The peer of a conversation is its first participant but the actor.\<close>

definition to_direct_dto :: "direct_conversation \<Rightarrow> string \<Rightarrow> direct_dto" where
  "to_direct_dto d actor =
    (let participants = map to_chan_member_dto (fd_participants d)
     in \<lparr>fw_id = fd_id d, fw_workspace_id = fd_workspace_id d, fw_channel_id = fd_channel_id d,
         fw_participant_key = fd_participant_key d, fw_conversation_type = fd_conversation_type d,
         fw_participant_ids = fd_participant_ids d, fw_participants = participants,
         fw_user = List.find (\<lambda>m. fv_user_id m \<noteq> trim_space actor) participants,
         fw_last_message = map_option to_summary_dto (fd_last_message d), fw_unread_count = fd_unread_count d,
         fw_created_at = format_time (fd_created_at d), fw_updated_at = format_time (fd_updated_at d)\<rparr>)"

section \<open>Normalisation\<close>

text \<open>\<open>^[a-z0-9][a-z0-9-]{1,61}[a-z0-9]$\<close>.\<close>

definition slug_char :: "char \<Rightarrow> bool" where
  "slug_char c \<longleftrightarrow> CHR ''a'' \<le> c \<and> c \<le> CHR ''z'' \<or> CHR ''0'' \<le> c \<and> c \<le> CHR ''9''"

definition channel_slug_ok :: "string \<Rightarrow> bool" where
  "channel_slug_ok s \<longleftrightarrow> 3 \<le> length s \<and> length s \<le> 63 \<and> slug_char (hd s) \<and> slug_char (last s) \<and>
     list_all (\<lambda>c. slug_char c \<or> c = CHR ''-'') s"

fun dedupe_ids :: "string list \<Rightarrow> string list \<Rightarrow> string list" where
  "dedupe_ids seen [] = []"
| "dedupe_ids seen (i # is) =
    (let k = trim_space i
     in if k = [] \<or> list_ex ((=) k) seen then dedupe_ids seen is else k # dedupe_ids (k # seen) is)"

definition normalize_participants :: "string \<Rightarrow> string list \<Rightarrow> string list" where
  "normalize_participants actor ids = sort (dedupe_ids [] (ids @ [actor]))"

fun join_ids :: "string list \<Rightarrow> string" where
  "join_ids [] = []"
| "join_ids [i] = i"
| "join_ids (i # is) = i @ '':'' @ join_ids is"

definition clean_optional :: "string option \<Rightarrow> string option" where
  "clean_optional = map_option trim_space"

definition map_channel_error :: "go_error \<Rightarrow> go_error" where
  "map_channel_error e =
    (if errors_is e ''ErrChannelNotFound'' then not_found ''CHANNEL_NOT_FOUND'' ''Khong tim thay kenh.'' else e)"

definition map_member_error :: "go_error \<Rightarrow> go_error" where
  "map_member_error e =
    (if errors_is e ''ErrMemberNotFound'' then not_found ''CHANNEL_MEMBER_NOT_FOUND'' ''Khong tim thay thanh vien kenh.'' else e)"

text \<open>Whoever may read and write.\<close>

definition present :: "string \<Rightarrow> bool" where
  "present status \<longleftrightarrow> status = ''active'' \<or> status = ''muted''"

section \<open>The repository and the service\<close>

record 's channel_repo =
  fy_create :: "create_channel_params \<Rightarrow> ('s, group_channel) stmt"
  fy_find :: "string \<Rightarrow> string \<Rightarrow> ('s, group_channel) stmt"
  fy_list :: "string \<Rightarrow> ('s, group_channel list) stmt"
  fy_update :: "update_channel_params \<Rightarrow> ('s, group_channel) stmt"
  fy_archive :: "string \<Rightarrow> string \<Rightarrow> ('s, unit) stmt"
  fy_count :: "string \<Rightarrow> string \<Rightarrow> ('s, int) stmt"
  fy_list_members :: "string \<Rightarrow> string \<Rightarrow> ('s, chan_member list) stmt"
  fy_find_member :: "string \<Rightarrow> string \<Rightarrow> string \<Rightarrow> ('s, chan_member) stmt"
  fy_add_member :: "add_member_params \<Rightarrow> ('s, chan_member) stmt"
  fy_request_join :: "add_member_params \<Rightarrow> ('s, chan_member) stmt"
  fy_update_status :: "member_status_params \<Rightarrow> ('s, chan_member) stmt"
  fy_update_read :: "read_state_params \<Rightarrow> ('s, chan_member) stmt"
  fy_session :: "session_params \<Rightarrow> ('s, group_channel) stmt"
  fy_direct :: "direct_params \<Rightarrow> ('s, direct_conversation) stmt"
  fy_has_contact :: "string \<Rightarrow> string \<Rightarrow> ('s, bool) stmt"
  fy_list_directs :: "string \<Rightarrow> string \<Rightarrow> ('s, direct_conversation list) stmt"
  fy_audit :: "channel_audit \<Rightarrow> ('s, unit) stmt"

record 's channel_service =
  fz_repo :: "'s channel_repo"
  fz_checker :: "string \<Rightarrow> string \<Rightarrow> string \<Rightarrow> bool result"

definition channel_permission :: "'s channel_service \<Rightarrow> string \<Rightarrow> string \<Rightarrow> string \<Rightarrow> go_error option" where
  "channel_permission s user workspace perm =
    (case fz_checker s (trim_space user) (trim_space workspace) perm of
       Inl e \<Rightarrow> Some e
     | Inr allowed \<Rightarrow> if allowed then None else Some (forbidden ''Ban khong co quyen thuc hien thao tac nay.''))"

definition workspace_access :: "'s channel_service \<Rightarrow> string \<Rightarrow> string \<Rightarrow> go_error option" where
  "workspace_access s user workspace =
    (case fz_checker s (trim_space user) (trim_space workspace) ''message.send'' of
       Inl e \<Rightarrow> Some e
     | Inr allowed \<Rightarrow> if allowed then None else Some (forbidden ''Ban khong thuoc workspace nay.''))"

definition find_chan :: "'s channel_service \<Rightarrow> string \<Rightarrow> string \<Rightarrow> ('s, group_channel) stmt" where
  "find_chan s workspace channel =
    tx_map_error map_channel_error (fy_find (fz_repo s) (trim_space workspace) (trim_space channel))"

text \<open>The creator of the channel, or whoever may manage channels; nobody for a direct conversation.\<close>

definition created_by :: "group_channel \<Rightarrow> string \<Rightarrow> bool" where
  "created_by c user \<longleftrightarrow> fa_created_by c = Some (trim_space user)"

definition can_manage_channel :: "'s channel_service \<Rightarrow> string \<Rightarrow> string \<Rightarrow> string \<Rightarrow> ('s, unit) stmt" where
  "can_manage_channel s user workspace channel =
    tx_bind (find_chan s workspace channel) (\<lambda>c.
    if fa_type c = ''direct'' then tx_fail (forbidden ''Khong the them hoac thay doi thanh vien cua hoi thoai rieng.'')
    else if created_by c user then tx_return ()
    else checked (channel_permission s user workspace ''channel.manage'') (tx_return ()))"

section \<open>Channels\<close>

definition map_channel_conflict :: "go_error \<Rightarrow> go_error" where
  "map_channel_conflict e =
    (if errors_is e ''ErrChannelConflict'' then conflict ''CHANNEL_ALREADY_EXISTS'' ''Slug kenh da ton tai.'' else e)"

definition channel_type_of :: "string \<Rightarrow> string" where
  "channel_type_of t = (if trim_space t = [] then ''public'' else trim_space t)"

definition channel_create :: "'s channel_service \<Rightarrow> create_channel_input \<Rightarrow> ('s, channel_dto) stmt" where
  "channel_create s i =
    checked (channel_permission s (ff_actor i) (ff_workspace_id i) ''channel.create'')
    (let ty = channel_type_of (ff_type i); slug = to_lower (trim_space (ff_slug i)); name = trim_space (ff_name i)
     in if ty \<noteq> ''public'' \<and> ty \<noteq> ''private'' then tx_fail (bad_request ''VALIDATION_ERROR'' ''Loai kenh khong hop le.'')
        else if \<not> channel_slug_ok slug then tx_fail (bad_request ''VALIDATION_ERROR'' ''Slug kenh khong hop le.'')
        else if name = [] then tx_fail (bad_request ''VALIDATION_ERROR'' ''Ten kenh khong duoc de trong.'')
        else
        tx_bind (tx_map_error map_channel_conflict (fy_create (fz_repo s)
          \<lparr>fg_workspace_id = trim_space (ff_workspace_id i), fg_department_id = trim_space (ff_department_id i),
           fg_slug = slug, fg_name = name, fg_description = trim_space (ff_description i), fg_type = ty,
           fg_created_by = trim_space (ff_actor i)\<rparr>)) (\<lambda>c.
        tx_then (tx_ignore (fy_audit (fz_repo s)
          \<lparr>ft_actor = ff_actor i, ft_workspace_id = ff_workspace_id i, ft_action = ''channel.create'', ft_entity_type = ''channel'',
           ft_entity_id = fa_id c, ft_metadata = []\<rparr>))
        (tx_return ((to_channel_dto c)\<lparr>fu_membership_status := ''active'', fu_is_member := True, fu_can_manage := True,
           fu_member_count := 1\<rparr>))))"

text \<open>The channel as the actor sees it.\<close>

definition decorated :: "'s channel_service \<Rightarrow> string \<Rightarrow> string \<Rightarrow> group_channel \<Rightarrow> string \<Rightarrow> ('s, channel_dto) stmt" where
  "decorated s actor workspace c status =
    (let own = fa_type c \<noteq> ''direct'' \<and> created_by c actor;
         d = (to_channel_dto c)\<lparr>fu_membership_status := status, fu_is_member := present status, fu_can_manage := own\<rparr>
     in if own \<or> fa_type c = ''direct'' then tx_return d
        else tx_bind (tx_lift (fz_checker s (trim_space actor) (trim_space workspace) ''channel.manage'')) (\<lambda>allowed.
          tx_return (d\<lparr>fu_can_manage := allowed\<rparr>)))"

definition decorate_channel :: "'s channel_service \<Rightarrow> string \<Rightarrow> string \<Rightarrow> group_channel \<Rightarrow> ('s, channel_dto) stmt" where
  "decorate_channel s actor workspace c =
    tx_bind (tx_try (fy_find_member (fz_repo s) (trim_space workspace) (fa_id c) (trim_space actor))) (\<lambda>r.
    case r of
      Inr m \<Rightarrow> decorated s actor workspace c (fb_status m)
    | Inl e \<Rightarrow> if errors_is e ''ErrMemberNotFound'' then decorated s actor workspace c ''none'' else tx_fail e)"

definition not_in_channel :: go_error where
  "not_in_channel = forbidden ''Ban chua phai la thanh vien cua kenh nay.''"

definition channel_get :: "'s channel_service \<Rightarrow> string \<Rightarrow> string \<Rightarrow> string \<Rightarrow> ('s, channel_dto) stmt" where
  "channel_get s actor workspace channel =
    checked (workspace_access s actor workspace)
    (tx_bind (find_chan s workspace channel) (\<lambda>c.
     tx_bind (decorate_channel s actor workspace c) (\<lambda>d.
     tx_bind (fy_count (fz_repo s) (trim_space workspace) (fa_id c)) (\<lambda>n.
     if \<not> fu_is_member d then tx_fail not_in_channel else tx_return (d\<lparr>fu_member_count := n\<rparr>)))))"

fun decorate_all :: "'s channel_service \<Rightarrow> string \<Rightarrow> string \<Rightarrow> group_channel list \<Rightarrow> ('s, channel_dto list) stmt" where
  "decorate_all s actor workspace [] = tx_return []"
| "decorate_all s actor workspace (c # cs) =
    tx_bind (decorate_channel s actor workspace c) (\<lambda>d.
    tx_bind (decorate_all s actor workspace cs) (\<lambda>ds.
    tx_return (if fu_is_member d \<or> fu_private_session d \<or> fu_type d = ''public'' then d # ds else ds)))"

definition channel_list :: "'s channel_service \<Rightarrow> string \<Rightarrow> string \<Rightarrow> ('s, channel_dto list) stmt" where
  "channel_list s actor workspace =
    checked (workspace_access s actor workspace)
    (tx_bind (fy_list (fz_repo s) (trim_space workspace)) (decorate_all s actor workspace))"

definition open_private_session :: "'s channel_service \<Rightarrow> string \<Rightarrow> string \<Rightarrow> string \<Rightarrow> ('s, channel_dto) stmt" where
  "open_private_session s actor workspace source =
    checked (workspace_access s actor workspace)
    (tx_bind (find_chan s workspace source) (\<lambda>c.
     if \<not> fa_private_session c
     then tx_fail (bad_request ''CHANNEL_NOT_PRIVATE_SESSION'' ''Kenh nay khong su dung phien lam viec rieng tu.'')
     else
     tx_bind (tx_map_error map_channel_error (fy_session (fz_repo s)
       \<lparr>fs_workspace_id = trim_space workspace, fs_source_channel_id = trim_space source, fs_user_id = trim_space actor\<rparr>)) (\<lambda>c.
     tx_return ((to_channel_dto c)\<lparr>fu_membership_status := ''active'', fu_is_member := True, fu_can_manage := False,
       fu_member_count := 1\<rparr>))))"

definition channel_update :: "'s channel_service \<Rightarrow> update_channel_input \<Rightarrow> ('s, channel_dto) stmt" where
  "channel_update s i =
    checked (channel_permission s (fh_actor i) (fh_workspace_id i) ''channel.manage'')
    (tx_bind (tx_map_error map_channel_error (fy_update (fz_repo s)
       \<lparr>fi_workspace_id = trim_space (fh_workspace_id i), fi_channel_id = trim_space (fh_channel_id i),
        fi_department_id = clean_optional (fh_department_id i), fi_name = clean_optional (fh_name i),
        fi_description = clean_optional (fh_description i)\<rparr>)) (\<lambda>c.
     tx_return (to_channel_dto c)))"

definition channel_archive :: "'s channel_service \<Rightarrow> string \<Rightarrow> string \<Rightarrow> string \<Rightarrow> ('s, unit) stmt" where
  "channel_archive s actor workspace channel =
    checked (channel_permission s actor workspace ''channel.delete'')
    (tx_map_error map_channel_error (fy_archive (fz_repo s) (trim_space workspace) (trim_space channel)))"

section \<open>Members\<close>

definition list_channel_members :: "'s channel_service \<Rightarrow> string \<Rightarrow> string \<Rightarrow> string \<Rightarrow> ('s, chan_member_dto list) stmt" where
  "list_channel_members s actor workspace channel =
    checked (workspace_access s actor workspace)
    (tx_bind (tx_try (fy_find_member (fz_repo s) (trim_space workspace) (trim_space channel) (trim_space actor))) (\<lambda>r.
     case r of
       Inl e \<Rightarrow> if errors_is e ''ErrMemberNotFound'' then tx_fail not_in_channel else tx_fail e
     | Inr m \<Rightarrow>
         if \<not> present (fb_status m) then tx_fail not_in_channel
         else tx_bind (fy_list_members (fz_repo s) (trim_space workspace) (trim_space channel)) (\<lambda>ms.
           tx_return (map to_chan_member_dto ms))))"

definition member_key :: "string \<Rightarrow> string \<Rightarrow> string \<Rightarrow> add_member_params" where
  "member_key workspace channel user =
    \<lparr>fk_workspace_id = trim_space workspace, fk_channel_id = trim_space channel, fk_user_id = trim_space user\<rparr>"

definition channel_add_member :: "'s channel_service \<Rightarrow> add_member_input \<Rightarrow> ('s, chan_member_dto) stmt" where
  "channel_add_member s i =
    tx_then (can_manage_channel s (fj_actor i) (fj_workspace_id i) (fj_channel_id i))
    (tx_bind (find_chan s (fj_workspace_id i) (fj_channel_id i)) (\<lambda>c.
     if fa_private_session c
     then tx_fail (bad_request ''PRIVATE_SESSION_SOURCE'' ''Kenh nay tu tao phien rieng cho tung nguoi dung.'')
     else
     tx_bind (tx_map_error map_member_error (fy_add_member (fz_repo s)
       (member_key (fj_workspace_id i) (fj_channel_id i) (fj_user_id i)))) (\<lambda>m.
     tx_return (to_chan_member_dto m))))"

definition member_status_ok :: "string \<Rightarrow> bool" where
  "member_status_ok st \<longleftrightarrow> st = ''active'' \<or> st = ''muted'' \<or> st = ''left'' \<or> st = ''removed''"

definition channel_update_status :: "'s channel_service \<Rightarrow> member_status_input \<Rightarrow> ('s, chan_member_dto) stmt" where
  "channel_update_status s i =
    tx_then (can_manage_channel s (fj_actor i) (fj_workspace_id i) (fj_channel_id i))
    (let st = trim_space (fl_status i)
     in if \<not> member_status_ok st then tx_fail (bad_request ''VALIDATION_ERROR'' ''Trang thai thanh vien kenh khong hop le.'')
        else
        tx_bind (tx_map_error map_member_error (fy_update_status (fz_repo s)
          (add_member_params.extend (member_key (fj_workspace_id i) (fj_channel_id i) (fj_user_id i)) \<lparr>fm_status = st\<rparr>))) (\<lambda>m.
        tx_return (to_chan_member_dto m)))"

definition channel_request_join :: "'s channel_service \<Rightarrow> string \<Rightarrow> string \<Rightarrow> string \<Rightarrow> ('s, chan_member_dto) stmt" where
  "channel_request_join s actor workspace channel =
    checked (workspace_access s actor workspace)
    (tx_bind (find_chan s workspace channel) (\<lambda>c.
     if fa_type c = ''direct'' then tx_fail (bad_request ''VALIDATION_ERROR'' ''Khong the yeu cau tham gia hoi thoai rieng.'')
     else if fa_private_session c
     then tx_fail (bad_request ''PRIVATE_SESSION_SOURCE'' ''Hay mo kenh de he thong tao phien lam viec rieng tu.'')
     else
     tx_bind (tx_try (fy_find_member (fz_repo s) (trim_space workspace) (trim_space channel) (trim_space actor))) (\<lambda>r.
     let join = tx_bind (tx_map_error map_member_error (fy_request_join (fz_repo s) (member_key workspace channel actor)))
           (\<lambda>m. tx_return (to_chan_member_dto m))
     in case r of
          Inr m \<Rightarrow>
            if present (fb_status m) then tx_fail (conflict ''CHANNEL_ALREADY_JOINED'' ''Ban da la thanh vien cua kenh.'')
            else if fb_status m = ''invited'' then tx_return (to_chan_member_dto m)
            else join
        | Inl e \<Rightarrow> if errors_is e ''ErrMemberNotFound'' then join else tx_fail e)))"

definition list_join_requests :: "'s channel_service \<Rightarrow> string \<Rightarrow> string \<Rightarrow> string \<Rightarrow> ('s, chan_member_dto list) stmt" where
  "list_join_requests s actor workspace channel =
    tx_then (can_manage_channel s actor workspace channel)
    (tx_bind (fy_list_members (fz_repo s) (trim_space workspace) (trim_space channel)) (\<lambda>ms.
     tx_return (map to_chan_member_dto (filter (\<lambda>m. fb_status m = ''invited'') ms))))"

definition decide_join_request ::
    "string \<Rightarrow> 's channel_service \<Rightarrow> string \<Rightarrow> string \<Rightarrow> string \<Rightarrow> string \<Rightarrow> ('s, chan_member_dto) stmt" where
  "decide_join_request st s actor workspace channel user =
    channel_update_status s \<lparr>fj_actor = actor, fj_workspace_id = workspace, fj_channel_id = channel, fj_user_id = user, fl_status = st\<rparr>"

definition approve_join_request :: "'s channel_service \<Rightarrow> string \<Rightarrow> string \<Rightarrow> string \<Rightarrow> string \<Rightarrow> ('s, chan_member_dto) stmt" where
  "approve_join_request = decide_join_request ''active''"

definition reject_join_request :: "'s channel_service \<Rightarrow> string \<Rightarrow> string \<Rightarrow> string \<Rightarrow> string \<Rightarrow> ('s, unit) stmt" where
  "reject_join_request s actor workspace channel user =
    tx_then (decide_join_request ''removed'' s actor workspace channel user) (tx_return ())"

definition channel_update_read :: "'s channel_service \<Rightarrow> read_state_input \<Rightarrow> ('s, chan_member_dto) stmt" where
  "channel_update_read s i =
    checked (workspace_access s (fn_actor i) (fn_workspace_id i))
    (tx_bind (tx_map_error map_member_error (fy_update_read (fz_repo s)
       (add_member_params.extend (member_key (fn_workspace_id i) (fn_channel_id i) (fn_actor i))
         \<lparr>fo_last_read_message_id = trim_space (fn_last_read_message_id i)\<rparr>))) (\<lambda>m.
     tx_return (to_chan_member_dto m)))"

text \<open>The answer to the websocket node: \<open>workspace:<id>:channel:<id>\<close>, for members.\<close>

definition can_join_room :: "'s channel_service \<Rightarrow> string \<Rightarrow> string \<Rightarrow> ('s, bool) stmt" where
  "can_join_room s user room =
    (case split_on (CHR '':'') (trim_space room) of
       [a, workspace, b, channel] \<Rightarrow>
         if a \<noteq> ''workspace'' \<or> b \<noteq> ''channel'' then tx_return False
         else tx_bind (tx_try (fy_find_member (fz_repo s) workspace channel (trim_space user))) (\<lambda>r.
           tx_return (case r of Inl _ \<Rightarrow> False | Inr m \<Rightarrow> present (fb_status m)))
     | _ \<Rightarrow> tx_return False)"

section \<open>Direct conversations\<close>

fun direct_contacts :: "'s channel_service \<Rightarrow> string \<Rightarrow> string list \<Rightarrow> ('s, unit) stmt" where
  "direct_contacts s actor [] = tx_return ()"
| "direct_contacts s actor (p # ps) =
    (let a = trim_space actor; q = trim_space p
     in if q = [] \<or> q = a then direct_contacts s actor ps
        else tx_bind (fy_has_contact (fz_repo s) a q) (\<lambda>accepted.
          if \<not> accepted then tx_fail (forbidden ''Hai tai khoan can la ban be truoc khi mo hoi thoai rieng.'')
          else direct_contacts s actor ps))"

definition map_participant_error :: "go_error \<Rightarrow> go_error" where
  "map_participant_error e =
    (if errors_is e ''ErrMemberNotFound''
     then bad_request ''INVALID_PARTICIPANTS'' ''Mot hoac nhieu thanh vien chua thuoc workspace.'' else e)"

definition conversation_type :: "string list \<Rightarrow> string" where
  "conversation_type ids = (if length ids = 2 then ''one_to_one'' else ''group'')"

definition create_direct :: "'s channel_service \<Rightarrow> direct_input \<Rightarrow> ('s, direct_dto) stmt" where
  "create_direct s i =
    checked (channel_permission s (fp_actor i) (fp_workspace_id i) ''message.send'')
    (let ids = normalize_participants (fp_actor i) (fp_participant_ids i)
     in if length ids < 2 then tx_fail (bad_request ''VALIDATION_ERROR'' ''Direct message can it nhat 2 thanh vien.'')
        else
        tx_then (direct_contacts s (fp_actor i) ids)
        (tx_bind (tx_map_error map_participant_error (fy_direct (fz_repo s)
           \<lparr>fq_workspace_id = trim_space (fp_workspace_id i), fq_participant_key = join_ids ids, fq_participant_ids = ids,
            fq_conversation_type = conversation_type ids, fq_created_by = trim_space (fp_actor i)\<rparr>)) (\<lambda>d.
         tx_return (to_direct_dto d (fp_actor i)))))"

definition list_directs :: "'s channel_service \<Rightarrow> string \<Rightarrow> string \<Rightarrow> ('s, direct_dto list) stmt" where
  "list_directs s actor workspace =
    checked (workspace_access s actor workspace)
    (tx_bind (fy_list_directs (fz_repo s) (trim_space workspace) (trim_space actor)) (\<lambda>ds.
     tx_return (map (\<lambda>d. to_direct_dto d actor) ds)))"

end
