(* ===== verification/Chan_Contract.thy ===== *)
theory Chan_Contract
  imports Chan_Service
begin

text \<open>
  The contract between the channels service and its repository, and what the service guarantees over every
  repository that keeps it. \<open>info st i\<close> is the type and the creator of a channel and, of a session with a bot, its user;
  \<open>reader st i v\<close>: user \<open>v\<close> is active or muted in channel \<open>i\<close>.
\<close>

section \<open>Requests\<close>

datatype chan_request =
    Chan_Create create_channel_input
  | Chan_Get string string string
  | Chan_List string string
  | Chan_Session string string string
  | Chan_Update update_channel_input
  | Chan_Archive string string string
  | Chan_Members string string string
  | Chan_Add add_member_input
  | Chan_Status member_status_input
  | Chan_Join string string string
  | Chan_Joins string string string
  | Chan_Approve string string string string
  | Chan_Reject string string string string
  | Chan_Read read_state_input
  | Chan_Direct direct_input
  | Chan_Directs string string
  | Chan_Room string string

fun serve_chan :: "'s channel_service \<Rightarrow> chan_request \<Rightarrow> ('s, unit) stmt" where
  "serve_chan s (Chan_Create i) = ended (channel_create s i)"
| "serve_chan s (Chan_Get a w c) = ended (channel_get s a w c)"
| "serve_chan s (Chan_List a w) = ended (channel_list s a w)"
| "serve_chan s (Chan_Session a w c) = ended (open_private_session s a w c)"
| "serve_chan s (Chan_Update i) = ended (channel_update s i)"
| "serve_chan s (Chan_Archive a w c) = channel_archive s a w c"
| "serve_chan s (Chan_Members a w c) = ended (list_channel_members s a w c)"
| "serve_chan s (Chan_Add i) = ended (channel_add_member s i)"
| "serve_chan s (Chan_Status i) = ended (channel_update_status s i)"
| "serve_chan s (Chan_Join a w c) = ended (channel_request_join s a w c)"
| "serve_chan s (Chan_Joins a w c) = ended (list_join_requests s a w c)"
| "serve_chan s (Chan_Approve a w c u) = ended (approve_join_request s a w c u)"
| "serve_chan s (Chan_Reject a w c u) = reject_join_request s a w c u"
| "serve_chan s (Chan_Read i) = ended (channel_update_read s i)"
| "serve_chan s (Chan_Direct i) = ended (create_direct s i)"
| "serve_chan s (Chan_Directs a w) = ended (list_directs s a w)"
| "serve_chan s (Chan_Room u r) = ended (can_join_room s u r)"

fun serve_chans :: "'s channel_service \<Rightarrow> chan_request list \<Rightarrow> 's \<Rightarrow> 's" where
  "serve_chans s [] st = st"
| "serve_chans s (q # qs) st = serve_chans s qs (fst (serve_chan s q st))"

text \<open>The actor, the workspace and the channel of a request that sets the members of a channel.\<close>

fun steering :: "chan_request \<Rightarrow> (string \<times> string \<times> string) option" where
  "steering (Chan_Add i) = Some (fj_actor i, fj_workspace_id i, fj_channel_id i)"
| "steering (Chan_Status i) = Some (fj_actor i, fj_workspace_id i, fj_channel_id i)"
| "steering (Chan_Approve a w c u) = Some (a, w, c)"
| "steering (Chan_Reject a w c u) = Some (a, w, c)"
| "steering q = None"

type_synonym chan_info = "string \<times> string option \<times> string option"

definition may_steer :: "'s channel_service \<Rightarrow> chan_info option \<Rightarrow> string \<Rightarrow> string \<Rightarrow> bool" where
  "may_steer s about actor workspace \<longleftrightarrow>
     (case about of None \<Rightarrow> False
      | Some (ty, creator, owner) \<Rightarrow> ty \<noteq> ''direct'' \<and>
          (creator = Some (trim_space actor) \<or>
           fz_checker s (trim_space actor) (trim_space workspace) ''channel.manage'' = Inr True))"

text \<open>The request sets the members of the channel, on behalf of its creator or of somebody who may manage channels.\<close>

definition steers :: "'s channel_service \<Rightarrow> (string \<Rightarrow> string option) \<Rightarrow> string \<Rightarrow> chan_info option \<Rightarrow> chan_request \<Rightarrow> bool" where
  "steers s name i about q \<longleftrightarrow>
     (case steering q of None \<Rightarrow> False
      | Some (actor, workspace, channel) \<Rightarrow> name (trim_space channel) = Some i \<and> may_steer s about actor workspace)"

text \<open>What a statement may change: the readers of the channels \<open>I\<close>; and the user of a session may enter it.\<close>

definition settled :: "('s \<Rightarrow> bool) \<Rightarrow> ('s \<Rightarrow> string \<Rightarrow> chan_info option) \<Rightarrow> ('s \<Rightarrow> string \<Rightarrow> string \<Rightarrow> bool) \<Rightarrow> string set \<Rightarrow>
    's \<Rightarrow> 's \<Rightarrow> bool" where
  "settled ok info reader I st st' \<longleftrightarrow> (ok st \<longrightarrow> ok st' \<and> (\<forall>i ty cr owner. info st i = Some (ty, cr, owner) \<longrightarrow>
     info st' i = Some (ty, cr, owner) \<and> (i \<notin> I \<longrightarrow> (\<forall>v. owner \<noteq> Some v \<longrightarrow> reader st' i v = reader st i v))))"

lemma settled_preorder [simp]: "preorder_rel (settled ok info reader I)"
  by (auto simp: preorder_rel_def settled_def)

lemma settled_refl [simp]: "settled ok info reader I st st"
  by (simp add: settled_def)

lemma settled_trans: "settled ok info reader I a b \<Longrightarrow> settled ok info reader I b c \<Longrightarrow> settled ok info reader I a c"
  by (auto simp: settled_def)

lemma settled_mono: "settled ok info reader I a b \<Longrightarrow> I \<subseteq> J \<Longrightarrow> settled ok info reader J a b"
  unfolding settled_def by blast

definition the_name :: "(string \<Rightarrow> string option) \<Rightarrow> string \<Rightarrow> string set" where
  "the_name name s = {i. name s = Some i}"

locale channel_store =
  fixes repo :: "'s channel_repo"
    and ok :: "'s \<Rightarrow> bool"
    and name :: "string \<Rightarrow> string option"
    and info :: "'s \<Rightarrow> string \<Rightarrow> chan_info option"
    and reader :: "'s \<Rightarrow> string \<Rightarrow> string \<Rightarrow> bool"
  assumes reads: "tx_rel (settled ok info reader {}) (fy_find repo w c)" "tx_rel (settled ok info reader {}) (fy_list repo w)"
      "tx_rel (settled ok info reader {}) (fy_count repo w c)" "tx_rel (settled ok info reader {}) (fy_list_members repo w c)"
      "tx_rel (settled ok info reader {}) (fy_find_member repo w c u)" "tx_rel (settled ok info reader {}) (fy_has_contact repo u v)"
      "tx_rel (settled ok info reader {}) (fy_list_directs repo w u)"
    and writes: "tx_rel (settled ok info reader {}) (fy_create repo cp)" "tx_rel (settled ok info reader {}) (fy_update repo up)"
      "tx_rel (settled ok info reader {}) (fy_archive repo w c)" "tx_rel (settled ok info reader {}) (fy_request_join repo mp)"
      "tx_rel (settled ok info reader {}) (fy_update_read repo rp)" "tx_rel (settled ok info reader {}) (fy_session repo sp)"
      "tx_rel (settled ok info reader {}) (fy_direct repo dp)" "tx_rel (settled ok info reader {}) (fy_audit repo a)"
    and adds: "tx_rel (settled ok info reader (the_name name (fk_channel_id mp))) (fy_add_member repo mp)"
    and sets: "tx_rel (settled ok info reader (the_name name (fk_channel_id tp))) (fy_update_status repo tp)"
    and found: "ok st \<Longrightarrow> fy_find repo w c st = (st', Inr x) \<Longrightarrow>
      \<exists>k b. name c = Some k \<and> info st k = Some (fa_type x, fa_created_by x, b)"
begin

abbreviation keeps :: "string set \<Rightarrow> ('s, 'a) stmt \<Rightarrow> bool" where
  "keeps I f \<equiv> tx_rel (settled ok info reader I) f"

lemma find_keeps: "keeps {} (find_chan s w c)" if "fz_repo s = repo"
  unfolding find_chan_def that by (intro tx_rel_map_error reads)

lemma manage_keeps: "keeps {} (can_manage_channel s u w c)" if "fz_repo s = repo"
  unfolding can_manage_channel_def
  by (intro tx_rel_bind tx_rel_if tx_rel_base tx_rel_checked settled_preorder find_keeps that)

lemma decorated_keeps: "keeps {} (decorated s a w c st)"
  unfolding decorated_def Let_def by (intro tx_rel_bind tx_rel_if tx_rel_base settled_preorder)

lemma decorate_keeps: "keeps {} (decorate_channel s a w c)" if "fz_repo s = repo"
proof -
  have "keeps {} (case r of Inr m \<Rightarrow> decorated s a w c (fb_status m)
      | Inl e \<Rightarrow> if errors_is e ''ErrMemberNotFound'' then decorated s a w c ''none'' else tx_fail e)" for r
    by (cases r) (simp_all add: decorated_keeps tx_rel_base)
  then show ?thesis
    unfolding decorate_channel_def that by (intro tx_rel_bind tx_rel_try reads settled_preorder)
qed

lemma decorate_all_keeps: "fz_repo s = repo \<Longrightarrow> keeps {} (decorate_all s a w cs)"
  by (induction cs) (simp_all add: tx_rel_base tx_rel_bind decorate_keeps)

lemma contacts_keep: "fz_repo s = repo \<Longrightarrow> keeps {} (direct_contacts s a ps)"
  by (induction ps) (simp_all add: tx_rel_base tx_rel_bind reads Let_def)

lemma asks_keep:
  assumes "fz_repo s = repo"
  shows "keeps {} (channel_create s ci)" "keeps {} (channel_get s a w c)" "keeps {} (channel_list s a w)"
    "keeps {} (open_private_session s a w c)" "keeps {} (channel_update s ui)" "keeps {} (channel_archive s a w c)"
    "keeps {} (list_join_requests s a w c)" "keeps {} (channel_update_read s ri)" "keeps {} (create_direct s di)"
    "keeps {} (list_directs s a w)"
proof -
  note find_keeps [OF assms] manage_keeps [OF assms] decorate_keeps [OF assms] decorate_all_keeps [OF assms] contacts_keep [OF assms]
  note rules = tx_rel_checked tx_rel_bind tx_rel_if tx_rel_base tx_rel_map_error tx_rel_ignore settled_preorder reads writes this
  show "keeps {} (channel_create s ci)" unfolding channel_create_def Let_def assms by (intro rules)
  show "keeps {} (channel_get s a w c)" unfolding channel_get_def assms by (intro rules)
  show "keeps {} (channel_list s a w)" unfolding channel_list_def assms by (intro rules)
  show "keeps {} (open_private_session s a w c)" unfolding open_private_session_def assms by (intro rules)
  show "keeps {} (channel_update s ui)" unfolding channel_update_def assms by (intro rules)
  show "keeps {} (channel_archive s a w c)" unfolding channel_archive_def assms by (intro rules)
  show "keeps {} (list_join_requests s a w c)" unfolding list_join_requests_def assms by (intro rules)
  show "keeps {} (channel_update_read s ri)" unfolding channel_update_read_def assms by (intro rules)
  show "keeps {} (create_direct s di)" unfolding create_direct_def Let_def assms by (intro rules)
  show "keeps {} (list_directs s a w)" unfolding list_directs_def assms by (intro rules)
qed

text \<open>The operations that look at the result of a lookup that may have failed.\<close>

lemma member_list_keeps:
  assumes "fz_repo s = repo"
  shows "keeps {} (list_channel_members s a w c)"
proof -
  have "keeps {} (case r of Inl e \<Rightarrow> if errors_is e ''ErrMemberNotFound'' then tx_fail not_in_channel else tx_fail e
      | Inr m \<Rightarrow> if \<not> present (fb_status m) then tx_fail not_in_channel
         else tx_bind (fy_list_members (fz_repo s) (trim_space w) (trim_space c)) (\<lambda>ms. tx_return (map to_chan_member_dto ms)))" for r
    by (cases r) (simp_all add: assms tx_rel_base tx_rel_bind reads)
  then show ?thesis
    unfolding list_channel_members_def assms by (intro tx_rel_checked tx_rel_bind tx_rel_try reads settled_preorder)
qed

lemma join_keeps:
  assumes "fz_repo s = repo"
  shows "keeps {} (channel_request_join s a w c)"
proof -
  have join: "keeps {} (tx_bind (tx_map_error map_member_error (fy_request_join repo k)) (\<lambda>m. tx_return (to_chan_member_dto m)))" for k
    by (intro tx_rel_bind tx_rel_map_error tx_rel_base settled_preorder writes)
  have "keeps {} (case r of
       Inr m \<Rightarrow>
         if present (fb_status m) then tx_fail (conflict ''CHANNEL_ALREADY_JOINED'' ''Ban da la thanh vien cua kenh.'')
         else if fb_status m = ''invited'' then tx_return (to_chan_member_dto m)
         else tx_bind (tx_map_error map_member_error (fy_request_join repo (member_key w c a))) (\<lambda>m. tx_return (to_chan_member_dto m))
     | Inl e \<Rightarrow>
         if errors_is e ''ErrMemberNotFound''
         then tx_bind (tx_map_error map_member_error (fy_request_join repo (member_key w c a))) (\<lambda>m. tx_return (to_chan_member_dto m))
         else tx_fail e)" for r
    by (cases r) (simp_all add: join tx_rel_base)
  then show ?thesis
    unfolding channel_request_join_def Let_def assms
    by (intro tx_rel_checked tx_rel_bind tx_rel_if tx_rel_base tx_rel_try reads settled_preorder find_keeps [OF assms])
qed

lemma room_keeps:
  assumes "fz_repo s = repo"
  shows "keeps {} (can_join_room s u room)"
  unfolding can_join_room_def assms
  by (simp add: tx_rel_base tx_rel_bind tx_rel_try reads split: list.split)

text \<open>Behind the check of the manager.\<close>

lemma manager_steers:
  assumes "fz_repo s = repo" "ok st" "can_manage_channel s u w c st = (st', Inr ())"
  shows "\<exists>i. name (trim_space c) = Some i \<and> may_steer s (info st i) u w"
proof -
  from assms(3) obtain st1 x where find: "find_chan s w c st = (st1, Inr x)"
    and go: "(if fa_type x = ''direct'' then tx_fail (forbidden ''Khong the them hoac thay doi thanh vien cua hoi thoai rieng.'')
      else if created_by x u then tx_return ()
      else checked (channel_permission s u w ''channel.manage'') (tx_return ())) st1 = (st', Inr ())"
    by (auto simp: can_manage_channel_def tx_bind_Inr)
  from find have "fy_find repo (trim_space w) (trim_space c) st = (st1, Inr x)" by (simp add: find_chan_def assms(1))
  from found [OF assms(2) this] obtain k b where k: "name (trim_space c) = Some k" "info st k = Some (fa_type x, fa_created_by x, b)"
    by blast
  from go have "fa_type x \<noteq> ''direct''" "created_by x u \<or> channel_permission s u w ''channel.manage'' = None"
    by (auto simp: checked_def split: if_splits option.splits)
  with k show ?thesis
    by (auto simp: may_steer_def created_by_def channel_permission_def split: sum.splits if_splits)
qed

lemma guarded_keeps:
  assumes "fz_repo s = repo" "ok st" "tx_then (can_manage_channel s u w c) f st = (st', r)"
    and "keeps (the_name name (trim_space c)) f"
  shows "settled ok info reader {i. name (trim_space c) = Some i \<and> may_steer s (info st i) u w} st st'"
proof -
  obtain st1 q where m: "can_manage_channel s u w c st = (st1, q)" by (cases "can_manage_channel s u w c st")
  have 1: "settled ok info reader {} st st1" by (rule tx_relD [OF manage_keeps [OF assms(1)] m])
  show ?thesis
  proof (cases q)
    case (Inl e)
    with m assms(3) have "st' = st1" by (auto simp: tx_bind_def)
    with 1 show ?thesis by (auto intro: settled_mono)
  next
    case (Inr x)
    with m assms(3) have "f st1 = (st', r)" by (simp add: tx_bind_def)
    from tx_relD [OF assms(4) this] have 2: "settled ok info reader (the_name name (trim_space c)) st1 st'" .
    from m Inr have "can_manage_channel s u w c st = (st1, Inr ())" by simp
    from manager_steers [OF assms(1,2) this] obtain i where "name (trim_space c) = Some i" "may_steer s (info st i) u w" by blast
    then have "the_name name (trim_space c) = {i. name (trim_space c) = Some i \<and> may_steer s (info st i) u w}"
      by (auto simp: the_name_def)
    with settled_trans [OF settled_mono [OF 1] 2] show ?thesis by simp
  qed
qed

lemma add_keeps:
  assumes "fz_repo s = repo"
  shows "keeps (the_name name (trim_space c)) (tx_bind (find_chan s w c) (\<lambda>x.
     if fa_private_session x then tx_fail e
     else tx_bind (tx_map_error h (fy_add_member (fz_repo s) (member_key w c u))) (\<lambda>m. tx_return (to_chan_member_dto m))))"
proof -
  have "keeps (the_name name (trim_space c)) (fy_add_member repo (member_key w c u))"
    using adds [of "member_key w c u"] by (simp add: member_key_def)
  moreover have "keeps (the_name name (trim_space c)) (find_chan s w c)"
    using find_keeps [OF assms] unfolding tx_rel_def by (metis settled_mono empty_subsetI)
  ultimately show ?thesis
    unfolding assms by (intro tx_rel_bind tx_rel_if tx_rel_base tx_rel_map_error settled_preorder)
qed

lemma set_keeps:
  assumes "fz_repo s = repo"
  shows "keeps (the_name name (trim_space c)) (if \<not> member_status_ok st then tx_fail e
     else tx_bind (tx_map_error h (fy_update_status (fz_repo s) (add_member_params.extend (member_key w c u) \<lparr>fm_status = st\<rparr>)))
       (\<lambda>m. tx_return (to_chan_member_dto m)))"
proof -
  have "keeps (the_name name (trim_space c)) (fy_update_status repo (add_member_params.extend (member_key w c u) \<lparr>fm_status = st\<rparr>))"
    using sets [of "add_member_params.extend (member_key w c u) \<lparr>fm_status = st\<rparr>"]
    by (simp add: member_key_def add_member_params.defs)
  then show ?thesis
    unfolding assms by (intro tx_rel_bind tx_rel_if tx_rel_base tx_rel_map_error settled_preorder)
qed

lemma status_run:
  assumes "fz_repo s = repo" "ok st" "channel_update_status s i st = (st', r)"
  shows "settled ok info reader {k. name (trim_space (fj_channel_id i)) = Some k \<and>
    may_steer s (info st k) (fj_actor i) (fj_workspace_id i)} st st'"
  by (rule guarded_keeps [OF assms(1,2) assms(3) [unfolded channel_update_status_def Let_def]]) (rule set_keeps [OF assms(1)])

lemma ended_run: "ended f st = (st', r) \<Longrightarrow> \<exists>q. f st = (st', q)"
  by (auto simp: ended_def tx_bind_def tx_return_def split: prod.splits sum.splits)

lemma serve_settled:
  assumes "fz_repo s = repo" "ok st" "serve_chan s q st = (st', r)"
  shows "settled ok info reader {i. steers s name i (info st i) q} st st'"
proof (cases "steering q")
  case None
  then have "keeps {} (serve_chan s q)"
    by (cases q) (simp_all add: tx_rel_ended asks_keep [OF assms(1)] member_list_keeps [OF assms(1)] join_keeps [OF assms(1)]
        room_keeps [OF assms(1)])
  from tx_relD [OF this assms(3)] show ?thesis by (rule settled_mono) simp
next
  case (Some k)
  show ?thesis
  proof (cases q)
    case (Chan_Add i)
    with assms(3) obtain q1 where run: "channel_add_member s i st = (st', q1)" by (auto dest: ended_run)
    show ?thesis
      using guarded_keeps [OF assms(1,2) run [unfolded channel_add_member_def] add_keeps [OF assms(1)]] by (simp add: steers_def Chan_Add)
  next
    case (Chan_Status i)
    with assms(3) obtain q1 where "channel_update_status s i st = (st', q1)" by (auto dest: ended_run)
    from status_run [OF assms(1,2) this] show ?thesis by (simp add: steers_def Chan_Status)
  next
    case (Chan_Approve a w c u)
    with assms(3) obtain q1 where "channel_update_status s
        \<lparr>fj_actor = a, fj_workspace_id = w, fj_channel_id = c, fj_user_id = u, fl_status = ''active''\<rparr> st = (st', q1)"
      by (auto simp: approve_join_request_def decide_join_request_def dest: ended_run)
    from status_run [OF assms(1,2) this] show ?thesis by (simp add: steers_def Chan_Approve)
  next
    case (Chan_Reject a w c u)
    with assms(3) obtain q1 where "channel_update_status s
        \<lparr>fj_actor = a, fj_workspace_id = w, fj_channel_id = c, fj_user_id = u, fl_status = ''removed''\<rparr> st = (st', q1)"
      by (auto simp: reject_join_request_def decide_join_request_def ended_def [symmetric] dest: ended_run)
    from status_run [OF assms(1,2) this] show ?thesis by (simp add: steers_def Chan_Reject)
  qed (use Some in simp_all)
qed

text \<open>
  Requests of users who do not manage a channel change neither its nature nor its readers, the user of a
  session apart.
\<close>

lemma unsteered:
  assumes "fz_repo s = repo" "ok st" "info st i = Some (ty, cr, owner)"
    and "list_all (\<lambda>q. \<not> steers s name i (Some (ty, cr, owner)) q) qs"
  shows "ok (serve_chans s qs st) \<and> info (serve_chans s qs st) i = Some (ty, cr, owner) \<and>
    (\<forall>v. owner \<noteq> Some v \<longrightarrow> reader (serve_chans s qs st) i v = reader st i v)"
  using assms(2-4)
proof (induction qs arbitrary: st)
  case (Cons q qs)
  obtain st1 r where q: "serve_chan s q st = (st1, r)" by (cases "serve_chan s q st")
  from serve_settled [OF assms(1) Cons.prems(1) q] Cons.prems
  have 1: "ok st1" "info st1 i = Some (ty, cr, owner)" "\<forall>v. owner \<noteq> Some v \<longrightarrow> reader st1 i v = reader st i v"
    by (auto simp: settled_def)
  with Cons.IH [OF 1(1,2)] Cons.prems(3) q show ?case by simp
qed simp

text \<open>The consistency of the tables is kept by every request.\<close>

lemma served_ok:
  assumes "fz_repo s = repo" "ok st"
  shows "ok (serve_chans s qs st)"
  using assms(2)
proof (induction qs arbitrary: st)
  case (Cons q qs)
  obtain st1 r where q: "serve_chan s q st = (st1, r)" by (cases "serve_chan s q st")
  with serve_settled [OF assms(1) Cons.prems q] Cons show ?case by (simp add: settled_def)
qed simp

end

end
