(* ===== verification/Chan_Pg.thy ===== *)
theory Chan_Pg
  imports Chan_Service Auth_Pg
begin

text \<open>
  \<open>channels/infrastructure/postgres/repository.go\<close>. Users, workspaces, their members, roles and quotas are
  the tables of accounts; the channel tables are kept here in full, with the part of \<open>settings\<close> and of a
  message's \<open>metadata\<close> the statements read. A transaction is one step, what a method does on the pool
  before or after it are steps of their own. Parameters are the collation and, for the transactions that
  insert two rows with generated identifiers, the second one.
\<close>

section \<open>Tables\<close>

text \<open>
  \<open>settings\<close>: \<open>bot_session_mode\<close>, \<open>bot_session\<close>, \<open>bot_source_channel_id\<close> and \<open>bot_session_user_id\<close>.
\<close>

record stored_chan = chan_row +
  va_bot_mode :: "string option"
  va_session :: bool
  va_source :: "string option"
  va_session_user :: "string option"
  va_deleted_at :: "time option"

record chan_member_row =
  vb_channel_id :: string
  vb_user_id :: string
  vb_status :: string
  vb_last_read_at :: "time option"
  vb_last_read_message_id :: "string option"
  vb_joined_at :: time
  vb_created_at :: time
  vb_updated_at :: time

record chan_direct_row =
  vc_id :: string
  vc_workspace_id :: string
  vc_channel_id :: string
  vc_key :: string
  vc_type :: string
  vc_created_by :: "string option"
  vc_created_at :: time
  vc_updated_at :: time
  vc_archived_at :: "time option"

record chan_direct_member_row =
  vd_direct_id :: string
  vd_user_id :: string

record contact_row =
  ve_requester_id :: string
  ve_receiver_id :: string
  ve_status :: string
  ve_deleted_at :: "time option"

text \<open>\<open>vf_guide_of\<close>: the source channel in the metadata of a guide of a bot.\<close>

record chan_message_row =
  vf_id :: string
  vf_workspace_id :: string
  vf_channel_id :: string
  vf_sender_id :: "string option"
  vf_kind :: string
  vf_body :: string
  vf_guide_of :: "string option"
  vf_created_at :: time
  vf_updated_at :: time
  vf_deleted_at :: "time option"

record chan_pin_row =
  vg_workspace_id :: string
  vg_channel_id :: string
  vg_message_id :: string
  vg_pinned_by :: string
  vg_created_at :: time

record chan_audit_row =
  vh_workspace_id :: "string option"
  vh_actor :: "string option"
  vh_action :: string
  vh_entity_type :: string
  vh_entity_id :: "string option"
  vh_metadata :: string

record channel_db =
  vz_accounts :: auth_db
  vz_departments :: "string list"
  vz_channels :: "stored_chan list"
  vz_members :: "chan_member_row list"
  vz_directs :: "chan_direct_row list"
  vz_direct_members :: "chan_direct_member_row list"
  vz_contacts :: "contact_row list"
  vz_messages :: "chan_message_row list"
  vz_pins :: "chan_pin_row list"
  vz_audit :: "chan_audit_row list"

record channel_pg_config =
  vy_collate :: collation
  vy_second_id :: "pg_env \<Rightarrow> string"

definition in_accounts :: "(auth_db, 'a) stmt \<Rightarrow> (channel_db, 'a) stmt" where
  "in_accounts f db = (case f (vz_accounts db) of (a, r) \<Rightarrow> (db\<lparr>vz_accounts := a\<rparr>, r))"

section \<open>Rows\<close>

definition chan_live :: "stored_chan \<Rightarrow> bool" where
  "chan_live c \<longleftrightarrow> va_deleted_at c = None"

definition private_mode :: "stored_chan \<Rightarrow> bool" where
  "private_mode c \<longleftrightarrow> (case va_bot_mode c of None \<Rightarrow> [] | Some m \<Rightarrow> m) = ''private''"

definition chan_of :: "int \<Rightarrow> stored_chan \<Rightarrow> group_channel" where
  "chan_of n c = chan_row.extend (chan_row.truncate c) \<lparr>fa_private_session = private_mode c, fa_member_count = n\<rparr>"

text \<open>A channel of the workspace, live or not; \<open>scanChannel\<close> of at most one row.\<close>

definition chan_at :: "string \<Rightarrow> string \<Rightarrow> stored_chan \<Rightarrow> bool" where
  "chan_at w i c \<longleftrightarrow> fa_workspace_id c = w \<and> fa_id c = i"

definition scan_chan :: "stored_chan option \<Rightarrow> group_channel result" where
  "scan_chan row = (case row of None \<Rightarrow> Inl err_channel_not_found | Some c \<Rightarrow> Inr (chan_of 0 c))"

definition user_live :: "string \<Rightarrow> user_row \<Rightarrow> bool" where
  "user_live i u \<longleftrightarrow> ur_id u = i \<and> uw_deleted_at u = None"

definition live_user :: "channel_db \<Rightarrow> string \<Rightarrow> user_row option" where
  "live_user db i = List.find (user_live i) (ab_users (vz_accounts db))"

definition member_at :: "string \<Rightarrow> string \<Rightarrow> chan_member_row \<Rightarrow> bool" where
  "member_at channel user m \<longleftrightarrow> vb_channel_id m = channel \<and> vb_user_id m = user"

definition member_of_row :: "chan_member_row \<Rightarrow> user_row \<Rightarrow> chan_member" where
  "member_of_row m u =
    \<lparr>fb_channel_id = vb_channel_id m, fb_user_id = vb_user_id m, fb_email = ur_email u, fb_username = ur_username u,
     fb_display_name = ur_display_name u, fb_avatar_url = ur_avatar_url u, fb_status = vb_status m,
     fb_last_read_at = vb_last_read_at m, fb_last_read_message_id = vb_last_read_message_id m,
     fb_joined_at = vb_joined_at m, fb_created_at = vb_created_at m, fb_updated_at = vb_updated_at m\<rparr>"

text \<open>The rows of a live channel joined with their live users.\<close>

definition channel_rows :: "channel_db \<Rightarrow> string \<Rightarrow> string \<Rightarrow> (chan_member_row \<times> user_row) list" where
  "channel_rows db w i =
    (if list_ex (\<lambda>c. chan_at w i c \<and> chan_live c) (vz_channels db)
     then concat (map (\<lambda>m. case live_user db (vb_user_id m) of None \<Rightarrow> [] | Some u \<Rightarrow> [(m, u)])
       (filter (\<lambda>m. vb_channel_id m = i) (vz_members db)))
     else [])"

section \<open>Reading channels and members\<close>

definition pg_find_chan :: "pg_env \<Rightarrow> string \<Rightarrow> string \<Rightarrow> (channel_db, group_channel) stmt" where
  "pg_find_chan env workspace channel db =
    (db, result_bind (uuid_param env workspace) (\<lambda>w. result_bind (uuid_param env channel) (\<lambda>i.
      scan_chan (List.find (\<lambda>c. chan_at w i c \<and> chan_live c) (vz_channels db)))))"

definition present_count :: "channel_db \<Rightarrow> string \<Rightarrow> int" where
  "present_count db i = int (length (filter (\<lambda>m. vb_channel_id m = i \<and> live_user db (vb_user_id m) \<noteq> None \<and>
     present (vb_status m)) (vz_members db)))"

definition pg_list_chans :: "channel_pg_config \<Rightarrow> pg_env \<Rightarrow> string \<Rightarrow> (channel_db, group_channel list) stmt" where
  "pg_list_chans cfg env workspace db =
    (db, result_bind (uuid_param env workspace) (\<lambda>w.
      Inr (map (\<lambda>c. chan_of (present_count db (fa_id c)) c)
        (sort_key (\<lambda>c. (vy_collate cfg (fa_type c), vy_collate cfg (fa_name c)))
          (filter (\<lambda>c. fa_workspace_id c = w \<and> chan_live c \<and> fa_type c \<noteq> ''direct'') (vz_channels db))))))"

definition pg_count_members :: "pg_env \<Rightarrow> string \<Rightarrow> string \<Rightarrow> (channel_db, int) stmt" where
  "pg_count_members env workspace channel db =
    (db, result_bind (uuid_param env workspace) (\<lambda>w. result_bind (uuid_param env channel) (\<lambda>i.
      Inr (int (length (filter (\<lambda>(m, u). present (vb_status m)) (channel_rows db w i)))))))"

definition pg_list_chan_members :: "channel_pg_config \<Rightarrow> pg_env \<Rightarrow> string \<Rightarrow> string \<Rightarrow> (channel_db, chan_member list) stmt" where
  "pg_list_chan_members cfg env workspace channel db =
    (db, result_bind (uuid_param env workspace) (\<lambda>w. result_bind (uuid_param env channel) (\<lambda>i.
      Inr (map (\<lambda>(m, u). member_of_row m u)
        (sort_key (\<lambda>(m, u). vy_collate cfg (ur_display_name u)) (channel_rows db w i))))))"

definition pg_chan_member :: "pg_env \<Rightarrow> string \<Rightarrow> string \<Rightarrow> string \<Rightarrow> (channel_db, chan_member) stmt" where
  "pg_chan_member env workspace channel user db =
    (db, result_bind (uuid_param env workspace) (\<lambda>w. result_bind (uuid_param env channel) (\<lambda>i.
      result_bind (uuid_param env user) (\<lambda>u.
      case List.find (\<lambda>(m, x). vb_user_id m = u) (channel_rows db w i) of
        None \<Rightarrow> Inl err_member_not_found
      | Some (m, x) \<Rightarrow> Inr (member_of_row m x)))))"

section \<open>Writing channels\<close>

text \<open>
  The constraints of a new row of \<open>channels\<close>: the type, the primary key, \<open>channels_workspace_slug_active_uidx\<close>,
  \<open>channels_bot_private_session_uidx\<close>, the foreign keys.
\<close>

definition slug_key :: "stored_chan \<Rightarrow> (string \<times> string) option" where
  "slug_key c = (if chan_live c then map_option (\<lambda>s. (fa_workspace_id c, citext s)) (fa_slug c) else None)"

definition session_key :: "stored_chan \<Rightarrow> (string \<times> string \<times> string) option" where
  "session_key c =
    (if chan_live c \<and> va_session c
     then (case va_source c of None \<Rightarrow> None | Some s \<Rightarrow> map_option (\<lambda>u. (fa_workspace_id c, s, u)) (va_session_user c))
     else None)"

definition chan_clash :: "stored_chan \<Rightarrow> stored_chan \<Rightarrow> bool" where
  "chan_clash c x \<longleftrightarrow> fa_id x = fa_id c \<or> slug_key c \<noteq> None \<and> slug_key x = slug_key c \<or>
     session_key c \<noteq> None \<and> session_key x = session_key c"

definition user_exists :: "channel_db \<Rightarrow> string option \<Rightarrow> bool" where
  "user_exists db i \<longleftrightarrow> (case i of None \<Rightarrow> True | Some k \<Rightarrow> list_ex (\<lambda>u. ur_id u = k) (ab_users (vz_accounts db)))"

definition department_exists :: "channel_db \<Rightarrow> string option \<Rightarrow> bool" where
  "department_exists db i \<longleftrightarrow> (case i of None \<Rightarrow> True | Some d \<Rightarrow> list_ex ((=) d) (vz_departments db))"

definition chan_refs_ok :: "channel_db \<Rightarrow> stored_chan \<Rightarrow> bool" where
  "chan_refs_ok db c \<longleftrightarrow> list_ex (\<lambda>w. ww_id w = fa_workspace_id c) (ab_workspaces (vz_accounts db)) \<and>
     department_exists db (fa_department_id c) \<and> user_exists db (fa_created_by c)"

definition pg_insert_chan :: "stored_chan \<Rightarrow> (channel_db, stored_chan) stmt" where
  "pg_insert_chan c db =
    (if fa_type c \<notin> {''public'', ''private'', ''direct'', ''group''} then (db, Inl check_violation)
     else if list_ex (chan_clash c) (vz_channels db) then (db, Inl unique_violation)
     else if \<not> chan_refs_ok db c then (db, Inl fk_violation)
     else (db\<lparr>vz_channels := vz_channels db @ [c]\<rparr>, Inr c))"

text \<open>\<open>INSERT ... ON CONFLICT (channel_id, user_id) DO UPDATE SET status\<close>; the trigger stamps an update.\<close>

definition new_chan_member :: "pg_env \<Rightarrow> string \<Rightarrow> string \<Rightarrow> string \<Rightarrow> chan_member_row" where
  "new_chan_member env channel user status =
    \<lparr>vb_channel_id = channel, vb_user_id = user, vb_status = status, vb_last_read_at = None, vb_last_read_message_id = None,
     vb_joined_at = pe_now env, vb_created_at = pe_now env, vb_updated_at = pe_now env\<rparr>"

definition restatus :: "pg_env \<Rightarrow> string \<Rightarrow> chan_member_row \<Rightarrow> chan_member_row" where
  "restatus env status m = m\<lparr>vb_status := status, vb_updated_at := pe_now env\<rparr>"

definition pg_put_member :: "pg_env \<Rightarrow> string \<Rightarrow> string \<Rightarrow> string \<Rightarrow> (channel_db, unit) stmt" where
  "pg_put_member env channel user status db =
    (if list_ex (member_at channel user) (vz_members db)
     then (db\<lparr>vz_members := update_where (member_at channel user) (restatus env status) (vz_members db)\<rparr>, Inr ())
     else if \<not> list_ex (\<lambda>c. fa_id c = channel) (vz_channels db) \<or> \<not> user_exists db (Some user) then (db, Inl fk_violation)
     else (db\<lparr>vz_members := vz_members db @ [new_chan_member env channel user status]\<rparr>, Inr ()))"

definition blank_chan :: "pg_env \<Rightarrow> string \<Rightarrow> string \<Rightarrow> string \<Rightarrow> string \<Rightarrow> stored_chan" where
  "blank_chan env w name ty creator =
    \<lparr>fa_id = pe_fresh env, fa_workspace_id = w, fa_department_id = None, fa_slug = None, fa_name = name,
     fa_description = None, fa_type = ty, fa_status = ''active'', fa_created_by = Some creator,
     fa_created_at = pe_now env, fa_updated_at = pe_now env, fa_archived_at = None, va_bot_mode = None,
     va_session = False, va_source = None, va_session_user = None, va_deleted_at = None\<rparr>"

definition channel_conflict :: "go_error \<Rightarrow> go_error" where
  "channel_conflict e = (if is_unique_violation e then err_channel_conflict else e)"

definition pg_create_chan_tx :: "pg_env \<Rightarrow> create_channel_params \<Rightarrow> (channel_db, group_channel) stmt" where
  "pg_create_chan_tx env p =
    tx_bind (tx_map_error channel_conflict
      (tx_bind (tx_lift (uuid_param env (fg_workspace_id p))) (\<lambda>w.
       tx_bind (tx_lift (uuid_or_null env (fg_department_id p))) (\<lambda>dep.
       tx_bind (tx_lift (uuid_param env (fg_created_by p))) (\<lambda>creator.
       tx_then (tx_lift (text_params [fg_slug p, fg_name p, fg_description p, fg_type p]))
       (pg_insert_chan ((blank_chan env w (fg_name p) (fg_type p) creator)
         \<lparr>fa_department_id := dep, fa_slug := Some (fg_slug p), fa_description := nullif_empty (fg_description p)\<rparr>)))))))
    (\<lambda>c. tx_bind (tx_lift (uuid_param env (fa_id c))) (\<lambda>i. tx_bind (tx_lift (uuid_param env (fg_created_by p))) (\<lambda>u.
      tx_then (pg_put_member env i u ''active'') (tx_return (chan_of 0 c)))))"

text \<open>A parameter that may be \<open>NULL\<close>.\<close>

definition text_or_null :: "string option \<Rightarrow> unit result" where
  "text_or_null t = (case t of None \<Rightarrow> Inr () | Some s \<Rightarrow> text_params [s])"

text \<open>\<open>CASE WHEN $3::text IS NULL THEN department_id ELSE NULLIF($3::text, '')::uuid END\<close>.\<close>

definition new_department :: "pg_env \<Rightarrow> string option \<Rightarrow> string option option result" where
  "new_department env d = (case d of None \<Rightarrow> Inr None | Some s \<Rightarrow> map_sum id Some (uuid_or_null env s))"

definition updated_chan :: "pg_env \<Rightarrow> update_channel_params \<Rightarrow> string option option \<Rightarrow> stored_chan \<Rightarrow> stored_chan" where
  "updated_chan env p dep c =
    c\<lparr>fa_department_id := (case dep of None \<Rightarrow> fa_department_id c | Some d \<Rightarrow> d),
      fa_name := (case fi_name p of None \<Rightarrow> fa_name c | Some n \<Rightarrow> n),
      fa_description := (case fi_description p of None \<Rightarrow> fa_description c | Some d \<Rightarrow> Some d),
      fa_updated_at := pe_now env\<rparr>"

definition pg_update_chan :: "pg_env \<Rightarrow> update_channel_params \<Rightarrow> (channel_db, group_channel) stmt" where
  "pg_update_chan env p =
    tx_bind (tx_lift (uuid_param env (fi_workspace_id p))) (\<lambda>w.
    tx_bind (tx_lift (uuid_param env (fi_channel_id p))) (\<lambda>i.
    tx_bind (tx_lift (new_department env (fi_department_id p))) (\<lambda>dep.
    tx_then (tx_lift (text_or_null (fi_name p))) (tx_then (tx_lift (text_or_null (fi_description p))) (\<lambda>db.
    case List.find (\<lambda>c. chan_at w i c \<and> chan_live c) (vz_channels db) of
      None \<Rightarrow> (db, Inl err_channel_not_found)
    | Some c \<Rightarrow>
        if \<not> department_exists db (fa_department_id (updated_chan env p dep c)) then (db, Inl fk_violation)
        else (db\<lparr>vz_channels := update_where (\<lambda>x. chan_at w i x \<and> chan_live x) (updated_chan env p dep) (vz_channels db)\<rparr>,
              Inr (chan_of 0 (updated_chan env p dep c))))))))"

definition pg_archive_chan :: "pg_env \<Rightarrow> string \<Rightarrow> string \<Rightarrow> (channel_db, unit) stmt" where
  "pg_archive_chan env workspace channel =
    tx_bind (tx_lift (uuid_param env workspace)) (\<lambda>w.
    tx_bind (tx_lift (uuid_param env channel)) (\<lambda>i db.
    if \<not> list_ex (\<lambda>c. chan_at w i c \<and> chan_live c) (vz_channels db) then (db, Inl err_channel_not_found)
    else (db\<lparr>vz_channels := update_where (\<lambda>c. chan_at w i c \<and> chan_live c)
           (\<lambda>c. c\<lparr>fa_status := ''archived'', fa_archived_at := Some (pe_now env), fa_updated_at := pe_now env\<rparr>)
           (vz_channels db)\<rparr>, Inr ())))"

section \<open>Writing members\<close>

definition member_params :: "pg_env \<Rightarrow> 'x add_member_params_scheme \<Rightarrow> (string \<times> string \<times> string) result" where
  "member_params env p =
    result_bind (uuid_param env (fk_workspace_id p)) (\<lambda>w. result_bind (uuid_param env (fk_channel_id p)) (\<lambda>i.
    result_bind (uuid_param env (fk_user_id p)) (\<lambda>u. Inr (w, i, u))))"

text \<open>The channel joined with the active membership of the user in its workspace.\<close>

definition can_enter :: "channel_db \<Rightarrow> (stored_chan \<Rightarrow> bool) \<Rightarrow> string \<Rightarrow> string \<Rightarrow> string \<Rightarrow> bool" where
  "can_enter db p w i u \<longleftrightarrow> list_ex (\<lambda>c. chan_at w i c \<and> chan_live c \<and> p c) (vz_channels db) \<and>
     active_member (vz_accounts db) w u"

definition pg_add_chan_member :: "pg_env \<Rightarrow> add_member_params \<Rightarrow> (channel_db, unit) stmt" where
  "pg_add_chan_member env p =
    tx_bind (tx_lift (member_params env p)) (\<lambda>(w, i, u) db.
    if \<not> can_enter db (\<lambda>_. True) w i u then (db, Inl err_member_not_found)
    else pg_put_member env i u ''active'' db)"

definition left_or_removed :: "string \<Rightarrow> bool" where
  "left_or_removed st \<longleftrightarrow> st = ''left'' \<or> st = ''removed''"

definition pg_request_chan :: "pg_env \<Rightarrow> add_member_params \<Rightarrow> (channel_db, unit) stmt" where
  "pg_request_chan env p =
    tx_bind (tx_lift (member_params env p)) (\<lambda>(w, i, u) db.
    if \<not> can_enter db (\<lambda>c. fa_type c \<noteq> ''direct'') w i u \<or>
       list_ex (\<lambda>m. member_at i u m \<and> \<not> left_or_removed (vb_status m)) (vz_members db)
    then (db, Inl err_member_not_found)
    else pg_put_member env i u ''invited'' db)"

definition chan_statuses :: "string list" where
  "chan_statuses = [''active'', ''invited'', ''muted'', ''left'', ''removed'']"

text \<open>The joins of the updates: the channel of the workspace, live or not.\<close>

definition pg_chan_status :: "pg_env \<Rightarrow> member_status_params \<Rightarrow> (channel_db, unit) stmt" where
  "pg_chan_status env p =
    tx_bind (tx_lift (member_params env p)) (\<lambda>(w, i, u).
    tx_then (tx_lift (text_params [fm_status p])) (\<lambda>db.
    if \<not> list_ex (chan_at w i) (vz_channels db) \<or> \<not> list_ex (member_at i u) (vz_members db) then (db, Inl err_member_not_found)
    else if \<not> list_ex ((=) (fm_status p)) chan_statuses then (db, Inl check_violation)
    else (db\<lparr>vz_members := update_where (member_at i u) (restatus env (fm_status p)) (vz_members db)\<rparr>, Inr ())))"

definition pg_chan_read :: "pg_env \<Rightarrow> read_state_params \<Rightarrow> (channel_db, unit) stmt" where
  "pg_chan_read env p =
    tx_bind (tx_lift (member_params env p)) (\<lambda>(w, i, u).
    tx_bind (tx_lift (uuid_or_null env (fo_last_read_message_id p))) (\<lambda>mid db.
    if \<not> list_ex (chan_at w i) (vz_channels db) \<or> \<not> list_ex (member_at i u) (vz_members db) then (db, Inl err_member_not_found)
    else (db\<lparr>vz_members := update_where (member_at i u)
           (\<lambda>m. m\<lparr>vb_last_read_at := Some (pe_now env), vb_last_read_message_id := mid, vb_updated_at := pe_now env\<rparr>)
           (vz_members db)\<rparr>, Inr ())))"

text \<open>The write, then the member as it is read back.\<close>

definition then_member :: "'x add_member_params_scheme \<Rightarrow> (channel_db pg, unit) stmt \<Rightarrow> (channel_db pg, chan_member) stmt" where
  "then_member p f =
    tx_then f (pg_run (\<lambda>env. pg_chan_member env (fk_workspace_id p) (fk_channel_id p) (fk_user_id p)))"

section \<open>Private sessions\<close>

text \<open>The row the raw identifiers find.\<close>

definition own_session :: "string \<Rightarrow> string \<Rightarrow> string \<Rightarrow> stored_chan \<Rightarrow> bool" where
  "own_session w source user c \<longleftrightarrow> fa_workspace_id c = w \<and> va_source c = Some source \<and> va_session_user c = Some user \<and>
     va_session c \<and> chan_live c"

definition new_session :: "pg_env \<Rightarrow> string \<Rightarrow> stored_chan \<Rightarrow> stored_chan" where
  "new_session env user source =
    (blank_chan env (fa_workspace_id source) (fa_name source) ''direct'' user)
      \<lparr>fa_description := Some (''Khong gian lam viec rieng tu voi '' @ fa_name source), va_session := True,
       va_source := Some (fa_id source), va_session_user := Some user\<rparr>"

definition session_source :: "string \<Rightarrow> string \<Rightarrow> stored_chan \<Rightarrow> bool" where
  "session_source w i c \<longleftrightarrow> chan_at w i c \<and> va_bot_mode c = Some ''private'' \<and> fa_status c = ''active'' \<and> chan_live c"

text \<open>The guides of the bots.\<close>

definition guide_body :: "string \<Rightarrow> string option" where
  "guide_body slug =
    (if slug = ''gia-han'' then Some (''Kiem tra dich vu sap het han'' @ [CHR 0x0A] @ ''Email: khach@example.com'' @ [CHR 0x0A] @
       ''So ngay: 30'' @ [CHR 0x0A] @ ''Loai dich vu: VPS'')
     else if slug = ''ke-toan'' then Some (''Tao QR nap vi'' @ [CHR 0x0A] @ ''Email: khach@example.com'' @ [CHR 0x0A] @ ''So tien: 200000'')
     else if slug = ''ticket'' then Some (''Tao ticket ho tro cho khach@example.com'' @ [CHR 0x0A] @
       ''VPS #1234 bi mat ket noi, ping timeout va port 22 khong truy cap duoc.'')
     else if slug = ''server-alert'' then Some (''Server: vps-01'' @ [CHR 0x0A] @ ''Loi: Mat ping 3 phut'' @ [CHR 0x0A] @
       ''IP: 192.0.2.10'' @ [CHR 0x0A] @ ''Muc do: critical'')
     else None)"

definition guide_for :: "channel_db \<Rightarrow> string \<Rightarrow> string \<Rightarrow> string option" where
  "guide_for db w source =
    (case List.find (\<lambda>c. chan_at w source c \<and> chan_live c) (vz_channels db) of
       None \<Rightarrow> None
     | Some c \<Rightarrow> (case fa_slug c of None \<Rightarrow> None | Some s \<Rightarrow> guide_body s))"

definition is_guide :: "string \<Rightarrow> string \<Rightarrow> string \<Rightarrow> chan_message_row \<Rightarrow> bool" where
  "is_guide w channel source m \<longleftrightarrow> vf_workspace_id m = w \<and> vf_channel_id m = channel \<and> vf_guide_of m = Some source \<and>
     vf_deleted_at m = None"

definition new_guide :: "channel_pg_config \<Rightarrow> pg_env \<Rightarrow> string \<Rightarrow> string \<Rightarrow> string \<Rightarrow> string \<Rightarrow> string \<Rightarrow> chan_message_row" where
  "new_guide cfg env w channel user source body =
    \<lparr>vf_id = vy_second_id cfg env, vf_workspace_id = w, vf_channel_id = channel, vf_sender_id = Some user, vf_kind = ''text'',
     vf_body = body, vf_guide_of = Some source, vf_created_at = pe_now env, vf_updated_at = pe_now env, vf_deleted_at = None\<rparr>"

definition pin_at :: "string \<Rightarrow> string \<Rightarrow> string \<Rightarrow> chan_pin_row \<Rightarrow> bool" where
  "pin_at w channel i p \<longleftrightarrow> vg_workspace_id p = w \<and> vg_channel_id p = channel \<and> vg_message_id p = i"

definition put_pin :: "pg_env \<Rightarrow> string \<Rightarrow> string \<Rightarrow> string \<Rightarrow> string \<Rightarrow> chan_pin_row list \<Rightarrow> chan_pin_row list" where
  "put_pin env w channel i user pins =
    (if list_ex (pin_at w channel i) pins
     then update_where (pin_at w channel i) (\<lambda>p. p\<lparr>vg_pinned_by := user\<rparr>) pins
     else pins @ [\<lparr>vg_workspace_id = w, vg_channel_id = channel, vg_message_id = i, vg_pinned_by = user,
            vg_created_at = pe_now env\<rparr>])"

text \<open>The oldest guide already there, or a new one; it is pinned.\<close>

definition pg_guide_pin ::
    "channel_pg_config \<Rightarrow> pg_env \<Rightarrow> string \<Rightarrow> string \<Rightarrow> string \<Rightarrow> string \<Rightarrow> (channel_db, unit) stmt" where
  "pg_guide_pin cfg env workspace channel user source =
    tx_bind (tx_lift (uuid_param env workspace)) (\<lambda>w. tx_bind (tx_lift (uuid_param env channel)) (\<lambda>i.
    tx_bind (tx_lift (uuid_param env user)) (\<lambda>u. tx_bind (tx_lift (uuid_param env source)) (\<lambda>src db.
    case guide_for db w src of
      None \<Rightarrow> (db, Inr ())
    | Some body \<Rightarrow>
        (case sort_key vf_created_at (filter (is_guide w i src) (vz_messages db)) of
           m # _ \<Rightarrow> (db\<lparr>vz_pins := put_pin env w i (vf_id m) u (vz_pins db)\<rparr>, Inr ())
         | [] \<Rightarrow>
             if list_ex (\<lambda>m. vf_id m = vy_second_id cfg env) (vz_messages db) then (db, Inl unique_violation)
             else (db\<lparr>vz_messages := vz_messages db @ [new_guide cfg env w i u src body],
                      vz_pins := put_pin env w i (vy_second_id cfg env) u (vz_pins db)\<rparr>, Inr ()))))))"

definition pg_find_private :: "pg_env \<Rightarrow> session_params \<Rightarrow> (channel_db, stored_chan option) stmt" where
  "pg_find_private env p db =
    (db, result_bind (text_params [fs_workspace_id p @ '':'' @ fs_source_channel_id p @ '':'' @ fs_user_id p]) (\<lambda>_.
      result_bind (uuid_param env (fs_workspace_id p)) (\<lambda>w.
      Inr (List.find (own_session w (fs_source_channel_id p) (fs_user_id p)) (vz_channels db)))))"

definition pg_insert_session :: "pg_env \<Rightarrow> session_params \<Rightarrow> (channel_db, stored_chan) stmt" where
  "pg_insert_session env p =
    tx_bind (tx_lift (uuid_param env (fs_workspace_id p))) (\<lambda>w.
    tx_bind (tx_lift (uuid_param env (fs_source_channel_id p))) (\<lambda>i.
    tx_bind (tx_lift (uuid_param env (fs_user_id p))) (\<lambda>u db.
    case List.find (session_source w i) (vz_channels db) of
      None \<Rightarrow> (db, Inl err_channel_not_found)
    | Some source \<Rightarrow>
        if \<not> active_member (vz_accounts db) w u then (db, Inl err_channel_not_found)
        else pg_insert_chan (new_session env u source) db)))"

definition pg_session_tx :: "channel_pg_config \<Rightarrow> pg_env \<Rightarrow> session_params \<Rightarrow> (channel_db, group_channel) stmt" where
  "pg_session_tx cfg env p =
    tx_bind (pg_find_private env p) (\<lambda>found.
    tx_bind (case found of Some c \<Rightarrow> tx_return c | None \<Rightarrow> pg_insert_session env p) (\<lambda>c.
    tx_bind (tx_lift (uuid_param env (fa_id c))) (\<lambda>i.
    tx_bind (tx_lift (uuid_param env (fs_user_id p))) (\<lambda>u.
    tx_then (pg_put_member env i u ''active'')
    (tx_then (pg_guide_pin cfg env (fs_workspace_id p) (fa_id c) (fs_user_id p) (fs_source_channel_id p))
    (tx_return (chan_of 0 c)))))))"

section \<open>Direct conversations\<close>

text \<open>
  The participants with their rows in the channel, by a left join; \<open>Scan\<close> cannot read the missing row of a
  participant into a member.
\<close>

fun scan_participants :: "(user_row \<times> chan_member_row option) list \<Rightarrow> chan_member list result" where
  "scan_participants [] = Inr []"
| "scan_participants ((u, None) # rows) = Inl (Plain ''cannot scan NULL into *string'')"
| "scan_participants ((u, Some m) # rows) = result_bind (scan_participants rows) (\<lambda>ms. Inr (member_of_row m u # ms))"

definition participant_rows :: "channel_pg_config \<Rightarrow> channel_db \<Rightarrow> string \<Rightarrow> (user_row \<times> chan_member_row option) list" where
  "participant_rows cfg db i =
    sort_key (\<lambda>(u, m). vy_collate cfg (ur_display_name u))
      [(u, List.find (member_at (vc_channel_id d) (vd_user_id x)) (vz_members db)).
         x \<leftarrow> vz_direct_members db, vd_direct_id x = i,
         d \<leftarrow> vz_directs db, vc_id d = i,
         u \<leftarrow> ab_users (vz_accounts db), user_live (vd_user_id x) u]"

definition pg_participants :: "channel_pg_config \<Rightarrow> pg_env \<Rightarrow> string \<Rightarrow> (channel_db, chan_member list) stmt" where
  "pg_participants cfg env direct db =
    (db, result_bind (uuid_param env direct) (\<lambda>i. scan_participants (participant_rows cfg db i)))"

definition direct_of :: "chan_direct_row \<Rightarrow> message_summary option \<Rightarrow> int \<Rightarrow> chan_member list \<Rightarrow> direct_conversation" where
  "direct_of d last_message unread members =
    \<lparr>fd_id = vc_id d, fd_workspace_id = vc_workspace_id d, fd_channel_id = vc_channel_id d, fd_participant_key = vc_key d,
     fd_conversation_type = vc_type d, fd_created_by = vc_created_by d, fd_participant_ids = map fb_user_id members,
     fd_participants = members, fd_last_message = last_message, fd_unread_count = unread, fd_created_at = vc_created_at d,
     fd_updated_at = vc_updated_at d\<rparr>"

definition open_direct :: "string \<Rightarrow> string \<Rightarrow> chan_direct_row \<Rightarrow> bool" where
  "open_direct w key d \<longleftrightarrow> vc_workspace_id d = w \<and> vc_key d = key \<and> vc_archived_at d = None"

definition scan_direct :: "chan_direct_row option \<Rightarrow> chan_direct_row result" where
  "scan_direct row = (case row of None \<Rightarrow> Inl (Wrap [] err_channel_not_found) | Some d \<Rightarrow> Inr d)"

definition pg_direct_row :: "pg_env \<Rightarrow> string \<Rightarrow> string \<Rightarrow> (channel_db, chan_direct_row) stmt" where
  "pg_direct_row env workspace key db =
    (db, result_bind (uuid_param env workspace) (\<lambda>w. result_bind (text_params [key]) (\<lambda>_.
      scan_direct (List.find (open_direct w key) (vz_directs db)))))"

definition with_participants :: "channel_pg_config \<Rightarrow> chan_direct_row \<Rightarrow> (channel_db pg, direct_conversation) stmt" where
  "with_participants cfg d =
    tx_bind (pg_run (\<lambda>env. pg_participants cfg env (vc_id d))) (\<lambda>ms. tx_return (direct_of d None 0 ms))"

definition pg_direct_by_key :: "channel_pg_config \<Rightarrow> string \<Rightarrow> string \<Rightarrow> (channel_db pg, direct_conversation) stmt" where
  "pg_direct_by_key cfg workspace key =
    tx_bind (pg_run (\<lambda>env. pg_direct_row env workspace key)) (with_participants cfg)"

definition pg_direct_by_id :: "channel_pg_config \<Rightarrow> string \<Rightarrow> (channel_db pg, direct_conversation) stmt" where
  "pg_direct_by_id cfg direct =
    tx_bind (pg_run (\<lambda>env db. (db, result_bind (uuid_param env direct) (\<lambda>i.
      scan_direct (List.find (\<lambda>d. vc_id d = i) (vz_directs db)))))) (with_participants cfg)"

text \<open>The row of the conversation, with \<open>direct_conversations_participant_key_uidx\<close>.\<close>

definition new_direct :: "channel_pg_config \<Rightarrow> pg_env \<Rightarrow> direct_params \<Rightarrow> string \<Rightarrow> string \<Rightarrow> string \<Rightarrow> chan_direct_row" where
  "new_direct cfg env p w channel creator =
    \<lparr>vc_id = vy_second_id cfg env, vc_workspace_id = w, vc_channel_id = channel, vc_key = fq_participant_key p,
     vc_type = fq_conversation_type p, vc_created_by = Some creator, vc_created_at = pe_now env, vc_updated_at = pe_now env,
     vc_archived_at = None\<rparr>"

definition direct_clash :: "chan_direct_row \<Rightarrow> chan_direct_row \<Rightarrow> bool" where
  "direct_clash d x \<longleftrightarrow> vc_id x = vc_id d \<or> vc_channel_id x = vc_channel_id d \<or>
     vc_workspace_id x = vc_workspace_id d \<and> vc_key x = vc_key d \<and> vc_archived_at x = None \<and> vc_archived_at d = None"

definition pg_insert_direct :: "chan_direct_row \<Rightarrow> (channel_db, chan_direct_row) stmt" where
  "pg_insert_direct d db =
    (if vc_type d \<notin> {''one_to_one'', ''group''} then (db, Inl check_violation)
     else if list_ex (direct_clash d) (vz_directs db) then (db, Inl unique_violation)
     else (db\<lparr>vz_directs := vz_directs db @ [d]\<rparr>, Inr d))"

text \<open>
  A participant enters the workspace as a member, whatever their membership was, with the system role
  \<open>workspace_member\<close>, then the conversation and its channel.
\<close>

definition any_membership :: "string list" where
  "any_membership = [''active'', ''invited'', ''disabled'', ''left'']"

definition pg_enter_workspace :: "pg_env \<Rightarrow> string \<Rightarrow> string \<Rightarrow> (auth_db, unit) stmt" where
  "pg_enter_workspace env w u db =
    (if list_ex (\<lambda>x. user_live u x \<and> ur_status x = ''active'') (ab_users db)
     then pg_upsert_member any_membership env w u db else (db, Inr ()))"

fun grant_each :: "string \<Rightarrow> string \<Rightarrow> string option \<Rightarrow> role_row list \<Rightarrow> (auth_db, unit) stmt" where
  "grant_each w u by_user [] = tx_return ()"
| "grant_each w u by_user (r # rs) = tx_then (grant_role w u by_user (ow_id r)) (grant_each w u by_user rs)"

definition pg_grant_member_role :: "string \<Rightarrow> string \<Rightarrow> string \<Rightarrow> (auth_db, unit) stmt" where
  "pg_grant_member_role w u by_user db =
    grant_each w u (Some by_user) (filter (\<lambda>r. ow_workspace_id r = None \<and> citext (ow_code r) = citext ''workspace_member'' \<and>
      ow_deleted_at r = None) (ab_roles db)) db"

definition pg_put_direct_member :: "string \<Rightarrow> string \<Rightarrow> string \<Rightarrow> (channel_db, unit) stmt" where
  "pg_put_direct_member direct w u db =
    (if active_member (vz_accounts db) w u \<and> \<not> list_ex (\<lambda>x. vd_direct_id x = direct \<and> vd_user_id x = u) (vz_direct_members db)
     then (db\<lparr>vz_direct_members := vz_direct_members db @ [\<lparr>vd_direct_id = direct, vd_user_id = u\<rparr>]\<rparr>, Inr ())
     else (db, Inr ()))"

definition pg_put_participant :: "pg_env \<Rightarrow> string \<Rightarrow> string \<Rightarrow> string \<Rightarrow> (channel_db, unit) stmt" where
  "pg_put_participant env channel w u db =
    (if active_member (vz_accounts db) w u then pg_put_member env channel u ''active'' db else (db, Inr ()))"

fun pg_participants_enter ::
    "pg_env \<Rightarrow> string \<Rightarrow> string \<Rightarrow> string \<Rightarrow> string \<Rightarrow> string list \<Rightarrow> (channel_db, unit) stmt" where
  "pg_participants_enter env w creator channel direct [] = tx_return ()"
| "pg_participants_enter env w creator channel direct (p # ps) =
    tx_bind (tx_lift (uuid_param env p)) (\<lambda>u.
    tx_then (in_accounts (pg_enter_workspace env w u))
    (tx_then (in_accounts (pg_grant_member_role w u creator))
    (tx_then (pg_put_direct_member direct w u)
    (tx_then (pg_put_participant env channel w u)
    (pg_participants_enter env w creator channel direct ps)))))"

definition direct_channel :: "pg_env \<Rightarrow> direct_params \<Rightarrow> string \<Rightarrow> string \<Rightarrow> stored_chan" where
  "direct_channel env p w creator =
    blank_chan env w (if fq_conversation_type p = ''group'' then ''Group direct message'' else ''Direct message'') ''direct'' creator"

text \<open>
  \<open>None\<close>: another transaction has stored the conversation first, this one is rolled back. Every participant
  has to have entered.
\<close>

definition pg_direct_entered :: "pg_env \<Rightarrow> direct_params \<Rightarrow> chan_direct_row \<Rightarrow> (channel_db, string option) stmt" where
  "pg_direct_entered env p d =
    tx_then (pg_participants_enter env (vc_workspace_id d) (case vc_created_by d of None \<Rightarrow> [] | Some u \<Rightarrow> u)
      (vc_channel_id d) (vc_id d) (fq_participant_ids p))
    (\<lambda>db. if length (filter (\<lambda>x. vd_direct_id x = vc_id d) (vz_direct_members db)) \<noteq> length (fq_participant_ids p)
          then (db, Inl err_member_not_found) else (db, Inr (Some (vc_id d))))"

definition pg_direct_tx :: "channel_pg_config \<Rightarrow> pg_env \<Rightarrow> direct_params \<Rightarrow> (channel_db, string option) stmt" where
  "pg_direct_tx cfg env p =
    tx_bind (tx_lift (uuid_param env (fq_workspace_id p))) (\<lambda>w.
    tx_bind (tx_lift (uuid_param env (fq_created_by p))) (\<lambda>creator.
    tx_then (tx_lift (text_params [fq_participant_key p, fq_conversation_type p])) (\<lambda>db.
    case pg_insert_chan (direct_channel env p w creator) db of
      (db1, Inl e) \<Rightarrow> (db1, Inl e)
    | (db1, Inr c) \<Rightarrow>
        (case pg_insert_direct (new_direct cfg env p w (fa_id c) creator) db1 of
           (db2, Inl e) \<Rightarrow> if is_unique_violation e then (db, Inr None) else (db2, Inl e)
         | (db2, Inr d) \<Rightarrow> pg_direct_entered env p d db2))))"

definition no_conversation :: "go_error \<Rightarrow> bool" where
  "no_conversation e \<longleftrightarrow> errors_is e ''pgx.ErrNoRows'' \<or> errors_is e ''ErrChannelNotFound''"

definition pg_create_direct :: "channel_pg_config \<Rightarrow> direct_params \<Rightarrow> (channel_db pg, direct_conversation) stmt" where
  "pg_create_direct cfg p =
    tx_bind (tx_try (pg_direct_by_key cfg (fq_workspace_id p) (fq_participant_key p))) (\<lambda>r.
    case r of
      Inr d \<Rightarrow> tx_return d
    | Inl e \<Rightarrow>
        if \<not> no_conversation e then tx_fail e
        else
        tx_bind (pg_run (\<lambda>env. in_tx (pg_direct_tx cfg env p))) (\<lambda>made.
        case made of
          None \<Rightarrow> pg_direct_by_key cfg (fq_workspace_id p) (fq_participant_key p)
        | Some i \<Rightarrow> pg_direct_by_id cfg i))"

definition pg_has_contact :: "pg_env \<Rightarrow> string \<Rightarrow> string \<Rightarrow> (channel_db, bool) stmt" where
  "pg_has_contact env a b db =
    (db, result_bind (uuid_param env a) (\<lambda>x. result_bind (uuid_param env b) (\<lambda>y.
      Inr (list_ex (\<lambda>c. ve_deleted_at c = None \<and> ve_status c = ''accepted'' \<and>
        min (ve_requester_id c) (ve_receiver_id c) = min x y \<and> max (ve_requester_id c) (ve_receiver_id c) = max x y)
        (vz_contacts db)))))"

section \<open>The list of conversations\<close>

definition chan_message_live :: "string \<Rightarrow> string \<Rightarrow> chan_message_row \<Rightarrow> bool" where
  "chan_message_live w channel m \<longleftrightarrow> vf_workspace_id m = w \<and> vf_channel_id m = channel \<and> vf_deleted_at m = None"

definition summary_of :: "chan_message_row \<Rightarrow> message_summary" where
  "summary_of m =
    \<lparr>fc_id = vf_id m, fc_workspace_id = vf_workspace_id m, fc_channel_id = vf_channel_id m, fc_sender_id = vf_sender_id m,
     fc_kind = vf_kind m, fc_body = vf_body m, fc_created_at = vf_created_at m, fc_updated_at = vf_updated_at m\<rparr>"

definition latest_message :: "channel_db \<Rightarrow> chan_direct_row \<Rightarrow> chan_message_row option" where
  "latest_message db d =
    (case rev (sort_key (\<lambda>m. (vf_created_at m, vf_id m))
        (filter (chan_message_live (vc_workspace_id d) (vc_channel_id d)) (vz_messages db))) of
       [] \<Rightarrow> None
     | m # _ \<Rightarrow> Some m)"

text \<open>\<open>COALESCE(read_marker.created_at, last_read_at, joined_at, '-infinity')\<close>; \<open>None\<close> is before every time.\<close>

definition read_until :: "channel_db \<Rightarrow> chan_direct_row \<Rightarrow> string \<Rightarrow> time option" where
  "read_until db d user =
    (case List.find (member_at (vc_channel_id d) user) (vz_members db) of
       None \<Rightarrow> None
     | Some m \<Rightarrow>
         (case List.find (\<lambda>x. vf_workspace_id x = vc_workspace_id d \<and> Some (vf_id x) = vb_last_read_message_id m) (vz_messages db) of
            Some x \<Rightarrow> Some (vf_created_at x)
          | None \<Rightarrow> Some (case vb_last_read_at m of Some t \<Rightarrow> t | None \<Rightarrow> vb_joined_at m)))"

definition unread_count :: "channel_db \<Rightarrow> chan_direct_row \<Rightarrow> string \<Rightarrow> int" where
  "unread_count db d user =
    int (length (filter (\<lambda>m. chan_message_live (vc_workspace_id d) (vc_channel_id d) m \<and> vf_sender_id m \<noteq> Some user \<and>
      (case read_until db d user of None \<Rightarrow> True | Some t \<Rightarrow> t < vf_created_at m)) (vz_messages db)))"

definition direct_order :: "channel_db \<Rightarrow> chan_direct_row \<Rightarrow> time \<times> time" where
  "direct_order db d =
    (- (case latest_message db d of None \<Rightarrow> vc_updated_at d | Some m \<Rightarrow> vf_created_at m), - vc_updated_at d)"

definition pg_direct_rows ::
    "pg_env \<Rightarrow> string \<Rightarrow> string \<Rightarrow> (channel_db, (chan_direct_row \<times> message_summary option \<times> int) list) stmt" where
  "pg_direct_rows env workspace user db =
    (db, result_bind (uuid_param env workspace) (\<lambda>w. result_bind (uuid_param env user) (\<lambda>u.
      Inr (map (\<lambda>d. (d, map_option summary_of (latest_message db d), unread_count db d u))
        (sort_key (direct_order db)
          (filter (\<lambda>d. vc_workspace_id d = w \<and> vc_archived_at d = None \<and>
            list_ex (\<lambda>x. vd_direct_id x = vc_id d \<and> vd_user_id x = u) (vz_direct_members db)) (vz_directs db)))))))"

fun load_directs ::
    "channel_pg_config \<Rightarrow> (chan_direct_row \<times> message_summary option \<times> int) list \<Rightarrow> (channel_db pg, direct_conversation list) stmt" where
  "load_directs cfg [] = tx_return []"
| "load_directs cfg ((d, lm, n) # rows) =
    tx_bind (pg_run (\<lambda>env. pg_participants cfg env (vc_id d))) (\<lambda>ms.
    tx_bind (load_directs cfg rows) (\<lambda>ds. tx_return (direct_of d lm n ms # ds)))"

definition pg_list_directs :: "channel_pg_config \<Rightarrow> string \<Rightarrow> string \<Rightarrow> (channel_db pg, direct_conversation list) stmt" where
  "pg_list_directs cfg workspace user =
    tx_bind (pg_run (\<lambda>env. pg_direct_rows env workspace user)) (load_directs cfg)"

section \<open>The repository\<close>

definition pg_chan_audit :: "pg_env \<Rightarrow> channel_audit \<Rightarrow> (channel_db, unit) stmt" where
  "pg_chan_audit env a =
    tx_bind (tx_lift (uuid_or_null env (ft_workspace_id a))) (\<lambda>w.
    tx_bind (tx_lift (uuid_or_null env (ft_actor a))) (\<lambda>u.
    tx_bind (tx_lift (uuid_or_null env (ft_entity_id a))) (\<lambda>i.
    tx_then (tx_lift (text_params [ft_action a, ft_entity_type a]))
    (tx_bind (tx_lift (jsonb_param env (json_print (JObj (ft_metadata a))))) (\<lambda>md db.
    if (case w of None \<Rightarrow> False | Some k \<Rightarrow> \<not> list_ex (\<lambda>x. ww_id x = k) (ab_workspaces (vz_accounts db))) \<or> \<not> user_exists db u
    then (db, Inl fk_violation)
    else (db\<lparr>vz_audit := vz_audit db @
           [\<lparr>vh_workspace_id = w, vh_actor = u, vh_action = ft_action a, vh_entity_type = ft_entity_type a,
             vh_entity_id = i, vh_metadata = md\<rparr>]\<rparr>, Inr ()))))))"

definition channel_pg :: "channel_pg_config \<Rightarrow> channel_db pg channel_repo" where
  "channel_pg cfg =
    \<lparr>fy_create = (\<lambda>p. pg_run (\<lambda>env. in_tx (pg_create_chan_tx env p))),
     fy_find = (\<lambda>w i. pg_run (\<lambda>env. pg_find_chan env w i)),
     fy_list = (\<lambda>w. pg_run (\<lambda>env. pg_list_chans cfg env w)),
     fy_update = (\<lambda>p. pg_run (\<lambda>env. in_tx (pg_update_chan env p))),
     fy_archive = (\<lambda>w i. pg_run (\<lambda>env. in_tx (pg_archive_chan env w i))),
     fy_count = (\<lambda>w i. pg_run (\<lambda>env. pg_count_members env w i)),
     fy_list_members = (\<lambda>w i. pg_run (\<lambda>env. pg_list_chan_members cfg env w i)),
     fy_find_member = (\<lambda>w i u. pg_run (\<lambda>env. pg_chan_member env w i u)),
     fy_add_member = (\<lambda>p. then_member p (pg_run (\<lambda>env. in_tx (pg_add_chan_member env p)))),
     fy_request_join = (\<lambda>p. then_member p (pg_run (\<lambda>env. in_tx (pg_request_chan env p)))),
     fy_update_status = (\<lambda>p. then_member p (pg_run (\<lambda>env. in_tx (pg_chan_status env p)))),
     fy_update_read = (\<lambda>p. then_member p (pg_run (\<lambda>env. in_tx (pg_chan_read env p)))),
     fy_session = (\<lambda>p. pg_run (\<lambda>env. in_tx (pg_session_tx cfg env p))),
     fy_direct = pg_create_direct cfg,
     fy_has_contact = (\<lambda>a b. pg_run (\<lambda>env. pg_has_contact env a b)),
     fy_list_directs = pg_list_directs cfg,
     fy_audit = (\<lambda>a. pg_run (\<lambda>env. in_tx (pg_chan_audit env a)))\<rparr>"

end
