(* ===== verification/Chan_Props.thy ===== *)
theory Chan_Props
  imports Chan_Contract Chan_Pg
begin

text \<open>
  The consistency of the channel tables, what every statement keeps of them, and the interpretation of the
  contract on the repository.
\<close>

section \<open>Consistency\<close>

text \<open>
  Identifiers are canonical and unique; slugs of live channels, sessions of a user with a source and open
  conversations of a set of participants are unique; a membership is one row and of an existing channel; a
  conversation has a channel of its own.
\<close>

definition unique_by :: "('a \<Rightarrow> 'k option) \<Rightarrow> 'a list \<Rightarrow> bool" where
  "unique_by key xs \<longleftrightarrow> (\<forall>x\<in>set xs. \<forall>y\<in>set xs. key x \<noteq> None \<longrightarrow> key x = key y \<longrightarrow> x = y)"

definition session_user :: "stored_chan \<Rightarrow> string option" where
  "session_user c = (if va_session c then va_session_user c else None)"

definition named_user :: "(string \<Rightarrow> string option) \<Rightarrow> string option \<Rightarrow> bool" where
  "named_user canon user \<longleftrightarrow> (case user of None \<Rightarrow> True | Some u \<Rightarrow> canon u = Some u)"

definition chan_keys_ok :: "(string \<Rightarrow> string option) \<Rightarrow> stored_chan list \<Rightarrow> bool" where
  "chan_keys_ok canon cs \<longleftrightarrow> distinct (map fa_id cs) \<and> list_all (\<lambda>c. canon (fa_id c) = Some (fa_id c)) cs \<and>
     unique_by slug_key cs \<and> unique_by session_key cs \<and> list_all (\<lambda>c. named_user canon (session_user c)) cs"

definition row_user :: "chan_member_row \<Rightarrow> string \<times> string" where
  "row_user m = (vb_channel_id m, vb_user_id m)"

definition members_ok :: "channel_db \<Rightarrow> bool" where
  "members_ok db \<longleftrightarrow> distinct (map row_user (vz_members db)) \<and>
     (\<forall>m\<in>set (vz_members db). vb_channel_id m \<in> fa_id ` set (vz_channels db))"

definition open_key :: "chan_direct_row \<Rightarrow> (string \<times> string) option" where
  "open_key d = (if vc_archived_at d = None then Some (vc_workspace_id d, vc_key d) else None)"

definition directs_ok :: "(string \<Rightarrow> string option) \<Rightarrow> chan_direct_row set \<Rightarrow> channel_db \<Rightarrow> bool" where
  "directs_ok canon K db \<longleftrightarrow> distinct (map vc_id (vz_directs db)) \<and> list_all (\<lambda>d. canon (vc_id d) = Some (vc_id d)) (vz_directs db) \<and>
     distinct (map vc_channel_id (vz_directs db)) \<and> unique_by open_key (vz_directs db) \<and> K \<subseteq> set (vz_directs db)"

definition chans_ok :: "(string \<Rightarrow> string option) \<Rightarrow> chan_direct_row set \<Rightarrow> channel_db \<Rightarrow> bool" where
  "chans_ok canon K db \<longleftrightarrow> chan_keys_ok canon (vz_channels db) \<and> members_ok db \<and> directs_ok canon K db"

definition nature :: "stored_chan \<Rightarrow> chan_info" where
  "nature c = (fa_type c, fa_created_by c, session_user c)"

definition chan_info :: "channel_db \<Rightarrow> string \<Rightarrow> chan_info option" where
  "chan_info db i = map_option nature (List.find (\<lambda>c. fa_id c = i) (vz_channels db))"

definition reads_channel :: "channel_db \<Rightarrow> string \<Rightarrow> string \<Rightarrow> bool" where
  "reads_channel db i v \<longleftrightarrow> list_ex (\<lambda>m. member_at i v m \<and> present (vb_status m)) (vz_members db)"

abbreviation settles :: "(string \<Rightarrow> string option) \<Rightarrow> chan_direct_row set \<Rightarrow> string set \<Rightarrow> channel_db \<Rightarrow> channel_db \<Rightarrow> bool" where
  "settles canon K \<equiv> settled (chans_ok canon K) chan_info reads_channel"

section \<open>What statements keep\<close>

lemma settlesI:
  assumes "chans_ok canon K db \<Longrightarrow> chans_ok canon K db'" "\<And>i a. chan_info db i = Some a \<Longrightarrow> chan_info db' i = Some a"
    and "\<And>i v. i \<notin> I \<Longrightarrow> reads_channel db' i v = reads_channel db i v"
  shows "settles canon K I db db'"
  using assms by (simp add: settled_def)

lemma settles_view:
  assumes "vz_channels db' = vz_channels db" "vz_members db' = vz_members db" "vz_directs db' = vz_directs db"
  shows "settles canon K I db db'"
  using assms by (simp add: settled_def chans_ok_def members_ok_def directs_ok_def chan_info_def reads_channel_def fun_eq_iff)

lemma settles_new:
  assumes "settles canon K {} db db1" "settles canon K {i} db1 db2" "chan_info db i = None"
  shows "settles canon K {} db db2"
  using assms unfolding settled_def by (metis empty_iff option.distinct(1) singletonD)

lemma in_tx_settles:
  assumes "\<And>db db' x. chans_ok canon K db \<Longrightarrow> f db = (db', Inr x) \<Longrightarrow> settles canon K I db db'"
  shows "tx_rel (settles canon K I) (in_tx f)"
proof (rule tx_relI)
  fix db db' r assume run: "in_tx f db = (db', r)"
  show "settles canon K I db db'"
  proof (cases r)
    case (Inl e)
    with run have "db' = db" by (auto dest: in_tx_Inl)
    then show ?thesis by simp
  next
    case (Inr x)
    with run assms show ?thesis by (auto simp: settled_def)
  qed
qed

lemma unique_by_snoc:
  "unique_by key (xs @ [x]) \<longleftrightarrow> unique_by key xs \<and> (key x \<noteq> None \<longrightarrow> (\<forall>y\<in>set xs. key y = key x \<longrightarrow> y = x))"
proof
  assume l: "unique_by key (xs @ [x])"
  then show "unique_by key xs \<and> (key x \<noteq> None \<longrightarrow> (\<forall>y\<in>set xs. key y = key x \<longrightarrow> y = x))"
    unfolding unique_by_def by (metis UnCI list.set_intros(1) set_append)
next
  assume "unique_by key xs \<and> (key x \<noteq> None \<longrightarrow> (\<forall>y\<in>set xs. key y = key x \<longrightarrow> y = x))"
  then show "unique_by key (xs @ [x])"
    unfolding unique_by_def by (metis Un_iff empty_iff empty_set set_ConsD set_append)
qed

lemma find_app_None: "List.find p xs = None \<Longrightarrow> List.find p (xs @ ys) = List.find p ys"
  by (induction xs) (auto split: if_splits)

lemma find_app_Some: "List.find p xs = Some x \<Longrightarrow> List.find p (xs @ ys) = Some x"
  by (induction xs) (auto split: if_splits)

lemma insert_chan_settles:
  assumes "pg_insert_chan c db = (db', Inr x)" "canon (fa_id c) = Some (fa_id c)" "chans_ok canon K db" "named_user canon (session_user c)"
  shows "settles canon K {} db db' \<and> chan_info db (fa_id c) = None \<and> x = c \<and> db' = db\<lparr>vz_channels := vz_channels db @ [c]\<rparr>"
proof -
  from assms(1) have x: "x = c" and db': "db' = db\<lparr>vz_channels := vz_channels db @ [c]\<rparr>"
    and free: "\<not> list_ex (chan_clash c) (vz_channels db)"
    by (auto simp: pg_insert_chan_def split: if_splits)
  have id: "fa_id c \<notin> fa_id ` set (vz_channels db)" using free by (auto simp: list_ex_iff chan_clash_def)
  have "chan_keys_ok canon (vz_channels db @ [c])"
    using assms(2-4) free id by (auto simp: chans_ok_def chan_keys_ok_def unique_by_snoc list_ex_iff chan_clash_def)
  then have "chans_ok canon K db'" using assms(3) by (auto simp: chans_ok_def db' members_ok_def directs_ok_def)
  moreover have "chan_info db i \<noteq> None \<Longrightarrow> chan_info db' i = chan_info db i" for i
    by (auto simp: chan_info_def db' find_app_Some)
  ultimately have "settles canon K {} db db'" by (auto simp: settled_def reads_channel_def db' fun_eq_iff)
  moreover have "chan_info db (fa_id c) = None" using id by (simp add: chan_info_def find_None_iff) (metis image_eqI)
  ultimately show ?thesis using x db' by simp
qed

lemma distinct_update_keys:
  "(\<And>x. key (g x) = key x) \<Longrightarrow> map key (update_where p g xs) = map key xs"
  by (induction xs) (auto simp: update_where_def)

lemma members_ok_update:
  assumes "members_ok db" "\<And>m. row_user (g m) = row_user m"
  shows "members_ok (db\<lparr>vz_members := update_where p g (vz_members db)\<rparr>)"
proof -
  have keys: "map row_user (update_where p g (vz_members db)) = map row_user (vz_members db)"
    by (rule distinct_update_keys) (rule assms(2))
  have "vb_channel_id (g m) = vb_channel_id m" for m using assms(2) [of m] by (simp add: row_user_def)
  then have "map vb_channel_id (update_where p g (vz_members db)) = map vb_channel_id (vz_members db)"
    by (rule distinct_update_keys)
  then have same: "vb_channel_id ` set (update_where p g (vz_members db)) = vb_channel_id ` set (vz_members db)"
    by (metis set_map)
  have "vb_channel_id m \<in> fa_id ` set (vz_channels db)" if "m \<in> set (update_where p g (vz_members db))" for m
  proof -
    have "vb_channel_id m \<in> vb_channel_id ` set (vz_members db)" using imageI [OF that, of vb_channel_id] same by simp
    then obtain k where "k \<in> set (vz_members db)" "vb_channel_id m = vb_channel_id k" by (rule imageE)
    with assms(1) show ?thesis by (simp add: members_ok_def)
  qed
  with assms(1) keys show ?thesis by (simp add: members_ok_def)
qed

lemma members_ok_snoc:
  assumes "members_ok db" "row_user m \<notin> row_user ` set (vz_members db)" "vb_channel_id m \<in> fa_id ` set (vz_channels db)"
  shows "members_ok (db\<lparr>vz_members := vz_members db @ [m]\<rparr>)"
  using assms by (auto simp: members_ok_def)

lemma put_member_run:
  assumes "pg_put_member env i u st db = (db', r)"
  shows "db' = db \<or> db' = db\<lparr>vz_members := update_where (member_at i u) (restatus env st) (vz_members db)\<rparr> \<or>
    (i, u) \<notin> row_user ` set (vz_members db) \<and> i \<in> fa_id ` set (vz_channels db) \<and>
    db' = db\<lparr>vz_members := vz_members db @ [new_chan_member env i u st]\<rparr>"
  using assms by (auto simp: pg_put_member_def list_ex_iff member_at_def row_user_def split: if_splits)

lemma put_member_ok:
  assumes "pg_put_member env i u st db = (db', r)" "chans_ok canon K db"
  shows "chans_ok canon K db'"
proof -
  have same: "vz_channels db' = vz_channels db" "vz_directs db' = vz_directs db"
    using assms(1) by (auto simp: pg_put_member_def split: if_splits)
  have "members_ok db" using assms(2) by (simp add: chans_ok_def)
  then have "members_ok db'"
    using put_member_run [OF assms(1)] members_ok_update [of db "restatus env st" "member_at i u"] members_ok_snoc [of db "new_chan_member env i u st"]
    by (auto simp: row_user_def restatus_def new_chan_member_def)
  then show ?thesis using assms(2) same by (simp add: chans_ok_def directs_ok_def)
qed

lemma put_member_info: "pg_put_member env i u st db = (db', r) \<Longrightarrow> chan_info db' = chan_info db"
  by (auto simp: pg_put_member_def chan_info_def fun_eq_iff split: if_splits)

lemma put_member_others:
  assumes "pg_put_member env i u st db = (db', r)" "(k, v) \<noteq> (i, u)"
  shows "reads_channel db' k v = reads_channel db k v"
proof -
  have upd: "list_ex (\<lambda>m. member_at k v m \<and> present (vb_status m)) (update_where (member_at i u) (restatus env st) ms) =
      list_ex (\<lambda>m. member_at k v m \<and> present (vb_status m)) ms" for ms
    using assms(2) by (induction ms) (auto simp: update_where_def restatus_def member_at_def)
  from put_member_run [OF assms(1)] assms(2) show ?thesis
    by (auto simp: reads_channel_def upd) (auto simp: new_chan_member_def member_at_def)
qed

lemma put_member_settles: "tx_rel (settles canon K {i}) (pg_put_member env i u st)"
  by (intro tx_relI settlesI) (auto simp: put_member_ok put_member_info put_member_others)

text \<open>The user of a session enters it.\<close>

lemma put_owner_settles:
  assumes "pg_put_member env i u st db = (db', r)" "chan_info db i = Some (ty, cr, Some u)"
  shows "settles canon K {} db db'"
proof -
  have "reads_channel db' k v = reads_channel db k v" if "chan_info db k = Some (ty', cr', own)" "own \<noteq> Some v" for k v ty' cr' own
  proof (rule put_member_others [OF assms(1)])
    show "(k, v) \<noteq> (i, u)" using that assms(2) by auto
  qed
  with put_member_ok [OF assms(1)] put_member_info [OF assms(1)] show ?thesis unfolding settled_def by metis
qed

text \<open>An update of members that keeps their keys, and their presence outside of one channel.\<close>

lemma update_members_settles:
  assumes "\<And>m. row_user (g m) = row_user m" "\<And>m. p m \<Longrightarrow> vb_channel_id m \<in> I \<or> present (vb_status (g m)) = present (vb_status m)"
  shows "settles canon K I db (db\<lparr>vz_members := update_where p g (vz_members db)\<rparr>)"
proof (rule settlesI)
  assume "chans_ok canon K db"
  then show "chans_ok canon K (db\<lparr>vz_members := update_where p g (vz_members db)\<rparr>)"
    using members_ok_update [of db g p] assms(1) by (simp add: chans_ok_def directs_ok_def)
next
  fix i a assume "chan_info db i = Some a"
  then show "chan_info (db\<lparr>vz_members := update_where p g (vz_members db)\<rparr>) i = Some a" by (simp add: chan_info_def)
next
  fix i v assume "i \<notin> I"
  have key: "member_at i v (g m) = member_at i v m" for m using assms(1) [of m] by (simp add: member_at_def row_user_def)
  have row: "(member_at i v (if p m then g m else m) \<and> present (vb_status (if p m then g m else m))) = (member_at i v m \<and> present (vb_status m))"
    for m using assms(2) [of m] \<open>i \<notin> I\<close> key [of m] by (auto simp: member_at_def)
  have "list_ex (\<lambda>m. member_at i v m \<and> present (vb_status m)) (update_where p g ms) = list_ex (\<lambda>m. member_at i v m \<and> present (vb_status m)) ms"
    for ms unfolding update_where_def by (simp only: list_ex_iff set_map bex_simps row)
  then show "reads_channel (db\<lparr>vz_members := update_where p g (vz_members db)\<rparr>) i v = reads_channel db i v"
    by (simp add: reads_channel_def)
qed

lemma member_params_Inr:
  "member_params env p = Inr (w, i, u) \<Longrightarrow> pe_uuid env (fk_workspace_id p) = Some w \<and> pe_uuid env (fk_channel_id p) = Some i \<and>
     pe_uuid env (fk_user_id p) = Some u"
  by (auto simp: member_params_def result_bind_Inr_iff uuid_param_def split: option.splits)

lemma the_name_Some [simp]: "name s = Some i \<Longrightarrow> the_name name s = {i}"
  by (auto simp: the_name_def)

lemma status_settles: "pe_uuid env = canon \<Longrightarrow> tx_rel (settles canon K (the_name canon (fk_channel_id p))) (in_tx (pg_chan_status env p))"
proof (rule in_tx_settles)
  fix db db' x assume env: "pe_uuid env = canon" and run: "pg_chan_status env p db = (db', Inr x)"
  then obtain w i u where k: "member_params env p = Inr (w, i, u)"
    and db': "db' = db\<lparr>vz_members := update_where (member_at i u) (restatus env (fm_status p)) (vz_members db)\<rparr>"
    unfolding pg_chan_status_def by (cases "member_params env p") (auto simp: tx_bind_Inr split: if_splits)
  from member_params_Inr [OF k] env have i: "canon (fk_channel_id p) = Some i" by simp
  show "settles canon K (the_name canon (fk_channel_id p)) db db'"
    unfolding db' using i by (intro update_members_settles) (auto simp: row_user_def restatus_def member_at_def)
qed

lemma read_settles: "tx_rel (settles canon K I) (in_tx (pg_chan_read env p))"
proof (rule in_tx_settles)
  fix db db' x assume "pg_chan_read env p db = (db', Inr x)"
  then obtain i u mid where db': "db' = db\<lparr>vz_members := update_where (member_at i u)
      (\<lambda>m. m\<lparr>vb_last_read_at := Some (pe_now env), vb_last_read_message_id := mid, vb_updated_at := pe_now env\<rparr>) (vz_members db)\<rparr>"
    by (auto simp: pg_chan_read_def tx_bind_Inr split: if_splits)
  show "settles canon K I db db'" unfolding db' by (intro update_members_settles) (auto simp: row_user_def)
qed

lemma add_settles: "pe_uuid env = canon \<Longrightarrow> tx_rel (settles canon K (the_name canon (fk_channel_id p))) (in_tx (pg_add_chan_member env p))"
proof (rule in_tx_settles)
  fix db db' x assume env: "pe_uuid env = canon" and run: "pg_add_chan_member env p db = (db', Inr x)"
  then obtain w i u where k: "member_params env p = Inr (w, i, u)" and put: "pg_put_member env i u ''active'' db = (db', Inr x)"
    unfolding pg_add_chan_member_def by (cases "member_params env p") (auto simp: tx_bind_Inr split: if_splits)
  from member_params_Inr [OF k] env have "canon (fk_channel_id p) = Some i" by simp
  with tx_relD [OF put_member_settles put] show "settles canon K (the_name canon (fk_channel_id p)) db db'" by simp
qed

text \<open>A request to join makes nobody present, and nobody absent.\<close>

lemma invite_readers:
  assumes "pg_put_member env i u ''invited'' db = (db', r)" "\<forall>m\<in>set (vz_members db). member_at i u m \<longrightarrow> left_or_removed (vb_status m)"
  shows "reads_channel db' k = reads_channel db k"
proof
  fix v
  have upd: "list_ex (\<lambda>m. member_at k v m \<and> present (vb_status m)) (update_where (member_at i u) (restatus env ''invited'') ms) =
      list_ex (\<lambda>m. member_at k v m \<and> present (vb_status m)) ms"
    if "\<forall>m\<in>set ms. member_at i u m \<longrightarrow> left_or_removed (vb_status m)" for ms
    using that by (induction ms) (auto simp: update_where_def restatus_def left_or_removed_def present_def)
  from put_member_run [OF assms(1)] show "reads_channel db' k v = reads_channel db k v"
    using upd [OF assms(2)] by (auto simp: reads_channel_def new_chan_member_def present_def)
qed

lemma join_settles: "tx_rel (settles canon K I) (in_tx (pg_request_chan env p))"
proof (rule in_tx_settles)
  fix db db' x assume ok: "chans_ok canon K db" and run: "pg_request_chan env p db = (db', Inr x)"
  then obtain i u where put: "pg_put_member env i u ''invited'' db = (db', Inr x)"
    and gone: "\<forall>m\<in>set (vz_members db). member_at i u m \<longrightarrow> left_or_removed (vb_status m)"
    by (auto simp: pg_request_chan_def tx_bind_Inr list_ex_iff split: if_splits)
  show "settles canon K I db db'"
    by (rule settlesI) (simp_all add: put_member_ok [OF put] put_member_info [OF put] invite_readers [OF put gone])
qed

section \<open>Channels\<close>

lemma unique_by_update:
  assumes "\<And>c. p c \<Longrightarrow> key (g c) = key c" "unique_by key cs"
  shows "unique_by key (update_where p g cs)"
  unfolding unique_by_def
proof (intro ballI impI)
  fix x y assume "x \<in> set (update_where p g cs)" "y \<in> set (update_where p g cs)" and eq: "key x \<noteq> None" "key x = key y"
  then obtain a b where a: "a \<in> set cs" "x = (if p a then g a else a)" and b: "b \<in> set cs" "y = (if p b then g b else b)"
    by (auto simp: update_where_def)
  have "key x = key a" "key y = key b" using a(2) b(2) assms(1) by simp_all
  with eq assms(2) a(1) b(1) have "a = b" unfolding unique_by_def by metis
  with a(2) b(2) show "x = y" by simp
qed

text \<open>A change of channels that keeps their identifiers, keys and nature.\<close>

definition same_chan :: "stored_chan \<Rightarrow> stored_chan \<Rightarrow> bool" where
  "same_chan a b \<longleftrightarrow> fa_id a = fa_id b \<and> slug_key a = slug_key b \<and> session_key a = session_key b \<and> nature a = nature b"

lemma update_chans_settles:
  assumes same: "\<And>c. p c \<Longrightarrow> same_chan (g c) c"
  shows "settles canon K I db (db\<lparr>vz_channels := update_where p g (vz_channels db)\<rparr>)"
proof (rule settlesI)
  let ?cs = "update_where p g (vz_channels db)" and ?db' = "db\<lparr>vz_channels := update_where p g (vz_channels db)\<rparr>"
  have id: "fa_id (if p c then g c else c) = fa_id c" for c using same by (simp add: same_chan_def)
  have ids: "map fa_id (update_where p g cs) = map fa_id cs" for cs
    unfolding update_where_def by (induction cs) (simp_all only: list.map id)
  assume ok: "chans_ok canon K db"
  have "list_all (\<lambda>i. canon i = Some i) (map fa_id ?cs)" using ok by (simp add: ids chans_ok_def chan_keys_ok_def list.pred_map comp_def)
  then have canon: "list_all (\<lambda>c. canon (fa_id c) = Some (fa_id c)) ?cs" by (simp only: list.pred_map comp_def)
  have "\<forall>c\<in>set (vz_channels db). named_user canon (session_user (if p c then g c else c))"
    using ok same by (auto simp: chan_keys_ok_def chans_ok_def same_chan_def nature_def list_all_iff)
  then have users: "list_all (\<lambda>c. named_user canon (session_user c)) ?cs"
    by (simp only: update_where_def list_all_iff set_map ball_simps)
  have "chan_keys_ok canon ?cs"
    using ok canon users ids [of "vz_channels db"] unique_by_update [of p slug_key g] unique_by_update [of p session_key g] same
    by (simp add: chan_keys_ok_def chans_ok_def same_chan_def)
  moreover have "fa_id ` set ?cs = fa_id ` set (vz_channels db)" using ids by (metis set_map)
  ultimately show "chans_ok canon K ?db'" using ok by (simp add: chans_ok_def members_ok_def directs_ok_def)
next
  fix i a assume "chan_info db i = Some a"
  have find: "map_option nature (List.find (\<lambda>c. fa_id c = i) (update_where p g cs)) = map_option nature (List.find (\<lambda>c. fa_id c = i) cs)"
    for i cs using same by (induction cs) (auto simp: same_chan_def update_where_def)
  with \<open>chan_info db i = Some a\<close> show "chan_info (db\<lparr>vz_channels := update_where p g (vz_channels db)\<rparr>) i = Some a" by (simp add: chan_info_def find)
next
  fix i v show "reads_channel (db\<lparr>vz_channels := update_where p g (vz_channels db)\<rparr>) i v = reads_channel db i v"
    by (simp add: reads_channel_def)
qed

lemma archive_settles: "tx_rel (settles canon K I) (in_tx (pg_archive_chan env w c))"
proof (rule in_tx_settles)
  fix db db' x assume "pg_archive_chan env w c db = (db', Inr x)"
  then obtain w' i where "db' = db\<lparr>vz_channels := update_where (\<lambda>c. chan_at w' i c \<and> chan_live c)
      (\<lambda>c. c\<lparr>fa_status := ''archived'', fa_archived_at := Some (pe_now env), fa_updated_at := pe_now env\<rparr>) (vz_channels db)\<rparr>"
    by (auto simp: pg_archive_chan_def tx_bind_Inr split: if_splits)
  then show "settles canon K I db db'"
    by (simp, intro update_chans_settles) (simp add: same_chan_def slug_key_def session_key_def session_user_def chan_live_def nature_def split: option.split)
qed

lemma update_chan_settles: "tx_rel (settles canon K I) (in_tx (pg_update_chan env p))"
proof (rule in_tx_settles)
  fix db db' x assume "pg_update_chan env p db = (db', Inr x)"
  then obtain w i dep where "db' = db\<lparr>vz_channels := update_where (\<lambda>x. chan_at w i x \<and> chan_live x) (updated_chan env p dep) (vz_channels db)\<rparr>"
    by (auto simp: pg_update_chan_def tx_bind_Inr split: option.splits if_splits)
  then show "settles canon K I db db'"
    by (simp, intro update_chans_settles) (simp add: same_chan_def updated_chan_def slug_key_def session_key_def session_user_def chan_live_def nature_def split: option.split)
qed

section \<open>New channels\<close>

lemma tx_lift_Inr: "tx_lift q db = (db', Inr x) \<longleftrightarrow> db' = db \<and> q = Inr x"
  by auto

definition chan_env :: "(string \<Rightarrow> string option) \<Rightarrow> pg_env \<Rightarrow> bool" where
  "chan_env canon env \<longleftrightarrow> pe_uuid env = canon \<and> (\<forall>x u. canon x = Some u \<longrightarrow> canon u = Some u) \<and>
     canon (pe_fresh env) = Some (pe_fresh env)"

lemma create_settles:
  assumes "chan_env canon env"
  shows "tx_rel (settles canon K I) (in_tx (pg_create_chan_tx env p))"
proof (rule in_tx_settles)
  fix db db' x assume ok: "chans_ok canon K db" and run: "pg_create_chan_tx env p db = (db', Inr x)"
  from run [unfolded pg_create_chan_tx_def tx_bind_Inr tx_lift_Inr] obtain c st db1 db2 i u where
    "tx_map_error channel_conflict
      (tx_bind (tx_lift (uuid_param env (fg_workspace_id p))) (\<lambda>w.
       tx_bind (tx_lift (uuid_or_null env (fg_department_id p))) (\<lambda>dep.
       tx_bind (tx_lift (uuid_param env (fg_created_by p))) (\<lambda>creator.
       tx_then (tx_lift (text_params [fg_slug p, fg_name p, fg_description p, fg_type p]))
       (pg_insert_chan ((blank_chan env w (fg_name p) (fg_type p) creator)
         \<lparr>fa_department_id := dep, fa_slug := Some (fg_slug p), fa_description := nullif_empty (fg_description p)\<rparr>)))))) db = (db1, Inr st)"
    and put: "pg_put_member env i u ''active'' db1 = (db2, Inr ())" and i: "uuid_param env (fa_id st) = Inr i" and "db' = db2"
    by auto
  then obtain c where ins: "pg_insert_chan c db = (db1, Inr st)" and c: "fa_id c = pe_fresh env" "named_user canon (session_user c)"
    unfolding tx_map_error_Inr tx_bind_Inr tx_lift_Inr by (force simp: blank_chan_def session_user_def named_user_def)
  have "canon (fa_id c) = Some (fa_id c)" using assms c(1) by (simp add: chan_env_def)
  from insert_chan_settles [OF ins this ok c(2)] c(1)
  have new: "settles canon K {} db db1" "chan_info db (pe_fresh env) = None" "st = c" by auto
  with i c(1) assms have "i = pe_fresh env" by (simp add: uuid_param_def chan_env_def)
  with settles_new [OF new(1) tx_relD [OF put_member_settles put]] new(2) \<open>db' = db2\<close> have "settles canon K {} db db'" by simp
  then show "settles canon K I db db'"
    by (rule settled_mono) simp
qed

section \<open>Sessions\<close>

lemma guide_settles: "tx_rel (settles canon K I) (pg_guide_pin cfg env w c u src)"
  by (auto simp: tx_rel_def tx_bind_def pg_guide_pin_def settles_view split: prod.splits sum.splits option.splits list.splits if_splits)

lemma found_chan:
  assumes "chans_ok canon K db" "List.find p (vz_channels db) = Some c"
  shows "p c" "chan_info db (fa_id c) = Some (nature c)" "canon (fa_id c) = Some (fa_id c)"
proof -
  from assms(2) have c: "c \<in> set (vz_channels db)" "p c" by (auto simp: find_Some_iff)
  have inj: "inj_on fa_id (set (vz_channels db))" using assms(1) by (simp add: chans_ok_def chan_keys_ok_def distinct_map)
  obtain k where k: "List.find (\<lambda>x. fa_id x = fa_id c) (vz_channels db) = Some k"
    using c(1) by (cases "List.find (\<lambda>x. fa_id x = fa_id c) (vz_channels db)") (auto simp: find_None_iff)
  then have "k \<in> set (vz_channels db)" "fa_id k = fa_id c" by (auto simp: find_Some_iff)
  with inj c(1) have "k = c" by (auto simp: inj_on_def)
  with k show "chan_info db (fa_id c) = Some (nature c)" by (simp add: chan_info_def)
  show "p c" by (rule c(2))
  show "canon (fa_id c) = Some (fa_id c)" using assms(1) c(1) by (simp add: chans_ok_def chan_keys_ok_def list_all_iff)
qed

lemma session_settles:
  assumes "chan_env canon env"
  shows "tx_rel (settles canon K I) (in_tx (pg_session_tx cfg env p))"
proof (rule in_tx_settles)
  fix db db' x assume ok: "chans_ok canon K db" and run: "pg_session_tx cfg env p db = (db', Inr x)"
  from run [unfolded pg_session_tx_def tx_bind_Inr tx_lift_Inr] obtain f c db0 db1 i u db2 where
    f0: "pg_find_private env p db = (db0, Inr f)"
    and c0: "(case f of Some c \<Rightarrow> tx_return c | None \<Rightarrow> pg_insert_session env p) db0 = (db1, Inr c)"
    and i: "uuid_param env (fa_id c) = Inr i" and u: "uuid_param env (fs_user_id p) = Inr u"
    and put: "pg_put_member env i u ''active'' db1 = (db2, Inr ())" and pin: "pg_guide_pin cfg env (fs_workspace_id p) (fa_id c) (fs_user_id p) (fs_source_channel_id p) db2 = (db', Inr ())"
    by auto
  have "db0 = db" using f0 by (simp add: pg_find_private_def)
  note f = f0 [unfolded this] and c = c0 [unfolded this]
  have after: "settles canon K {} db2 db'" by (rule tx_relD [OF guide_settles pin])
  have canon: "pe_uuid env = canon" "canon (pe_fresh env) = Some (pe_fresh env)" "\<And>x u. canon x = Some u \<Longrightarrow> canon u = Some u"
    using assms by (simp_all add: chan_env_def)
  have "settles canon K {} db db'"
  proof (cases f)
    case (Some k)
    with c have k: "k = c" "db1 = db" by auto
    from f Some have "List.find (own_session (the (canon (fs_workspace_id p))) (fs_source_channel_id p) (fs_user_id p)) (vz_channels db) = Some c"
      using canon(1) k by (auto simp: pg_find_private_def result_bind_Inr_iff uuid_param_def split: option.splits)
    note there = found_chan [OF ok this]
    then have owner: "session_user c = Some (fs_user_id p)" by (simp add: own_session_def session_user_def)
    moreover have "c \<in> set (vz_channels db)"
      using f Some k by (auto simp: pg_find_private_def result_bind_Inr_iff find_Some_iff)
    then have "named_user canon (session_user c)" using ok by (simp add: chans_ok_def chan_keys_ok_def list_all_iff)
    ultimately have "u = fs_user_id p" "i = fa_id c" using i u there(3) canon(1) by (auto simp: named_user_def uuid_param_def)
    with there(2) owner have "chan_info db1 i = Some (fa_type c, fa_created_by c, Some u)" by (simp add: nature_def k(2))
    from settled_trans [OF put_owner_settles [OF put this] after] k(2) show ?thesis by simp
  next
    case None
    with c obtain d where ins: "pg_insert_chan d db = (db1, Inr c)" and d: "fa_id d = pe_fresh env"
      and user: "\<exists>x. session_user d = Some x \<and> canon x = Some x"
      using canon(1,3) by (force simp: pg_insert_session_def tx_bind_Inr new_session_def blank_chan_def session_user_def uuid_param_def
        split: option.splits if_splits)
    have id: "canon (fa_id d) = Some (fa_id d)" using canon(2) d by simp
    have "named_user canon (session_user d)" using user by (auto simp: named_user_def)
    from insert_chan_settles [OF ins id ok this] d
    have new: "settles canon K {} db db1" "chan_info db (pe_fresh env) = None" "c = d" by auto
    with i d canon(1,2) have "i = pe_fresh env" by (simp add: uuid_param_def)
    with settles_new [OF new(1) _ new(2)] settled_trans [OF tx_relD [OF put_member_settles put] settled_mono [OF after]]
    show ?thesis by simp
  qed
  then show "settles canon K I db db'" by (rule settled_mono) simp
qed

section \<open>Conversations\<close>

lemma insert_direct_settles:
  assumes "pg_insert_direct d db = (db', Inr x)" "canon (vc_id d) = Some (vc_id d)"
  shows "settles canon K I db db' \<and> x = d \<and> db' = db\<lparr>vz_directs := vz_directs db @ [d]\<rparr>"
proof -
  from assms(1) have x: "x = d" and db': "db' = db\<lparr>vz_directs := vz_directs db @ [d]\<rparr>" and free: "\<not> list_ex (direct_clash d) (vz_directs db)"
    by (auto simp: pg_insert_direct_def split: if_splits)
  have "directs_ok canon K db'" if "directs_ok canon K db"
    using that free assms(2) by (auto simp: directs_ok_def db' unique_by_snoc list_ex_iff direct_clash_def open_key_def split: if_splits)
  then have "settles canon K I db db'" by (auto simp: settled_def chans_ok_def members_ok_def chan_info_def reads_channel_def db' fun_eq_iff)
  with x db' show ?thesis by simp
qed

lemma settles_preorder: "preorder_rel (settles canon K I)"
  by (rule settled_preorder)

lemma accounts_settles: "tx_rel (settles canon K I) (in_accounts f)"
  by (auto simp: tx_rel_def in_accounts_def settles_view split: prod.splits)

lemma enter_settles: "tx_rel (settles canon K {channel}) (pg_participants_enter env w creator channel direct ps)"
proof (induction ps)
  case (Cons p ps)
  have 1: "tx_rel (settles canon K {channel}) (pg_put_direct_member direct w u)" for u
    by (auto simp: tx_rel_def pg_put_direct_member_def settles_view)
  have 2: "tx_rel (settles canon K {channel}) (pg_put_participant env channel w u)" for u
    using tx_relD [OF put_member_settles] by (auto simp: tx_rel_def pg_put_participant_def)
  show ?case
    by (simp add: tx_rel_bind tx_rel_base settles_preorder accounts_settles 1 2 Cons)
qed (simp add: tx_rel_base settles_preorder)

lemma direct_settles:
  assumes "chan_env canon env" "canon (vy_second_id cfg env) = Some (vy_second_id cfg env)"
  shows "tx_rel (settles canon K I) (in_tx (pg_direct_tx cfg env p))"
proof (rule in_tx_settles)
  fix db db' x assume ok: "chans_ok canon K db" and run: "pg_direct_tx cfg env p db = (db', Inr x)"
  from run [unfolded pg_direct_tx_def tx_bind_Inr tx_lift_Inr] obtain w creator where
    go: "(case pg_insert_chan (direct_channel env p w creator) db of
      (db1, Inl e) \<Rightarrow> (db1, Inl e)
    | (db1, Inr c) \<Rightarrow>
        (case pg_insert_direct (new_direct cfg env p w (fa_id c) creator) db1 of
           (db2, Inl e) \<Rightarrow> if is_unique_violation e then (db, Inr None) else (db2, Inl e)
         | (db2, Inr d) \<Rightarrow> pg_direct_entered env p d db2)) = (db', Inr x)"
    by auto
  obtain db1 r1 where ins: "pg_insert_chan (direct_channel env p w creator) db = (db1, r1)" by (cases "pg_insert_chan (direct_channel env p w creator) db")
  with go obtain c where r1: "r1 = Inr c" by (cases r1) auto
  have id: "fa_id (direct_channel env p w creator) = pe_fresh env" by (simp add: direct_channel_def blank_chan_def)
  have none: "named_user canon (session_user (direct_channel env p w creator))"
    by (simp add: direct_channel_def blank_chan_def session_user_def named_user_def)
  from insert_chan_settles [OF ins [unfolded r1] _ ok none] id assms(1)
  have new: "settles canon K {} db db1" "chan_info db (pe_fresh env) = None" and c: "c = direct_channel env p w creator"
    by (auto simp: chan_env_def)
  obtain db2 r2 where dir: "pg_insert_direct (new_direct cfg env p w (fa_id c) creator) db1 = (db2, r2)"
    by (cases "pg_insert_direct (new_direct cfg env p w (fa_id c) creator) db1")
  show "settles canon K I db db'"
  proof (cases r2)
    case (Inl e)
    with go ins r1 dir have "db' = db" by (auto split: if_splits)
    then show ?thesis by simp
  next
    case (Inr d)
    have "canon (vc_id (new_direct cfg env p w (fa_id c) creator)) = Some (vc_id (new_direct cfg env p w (fa_id c) creator))"
      using assms(2) by (simp add: new_direct_def)
    note made = insert_direct_settles [OF dir [unfolded Inr], of canon K "{pe_fresh env}", OF this]
    then have 2: "settles canon K {pe_fresh env} db1 db2" by (rule conjunct1)
    from made have d: "vc_channel_id d = pe_fresh env" by (simp add: new_direct_def c id)
    from go ins r1 dir Inr have "pg_direct_entered env p d db2 = (db', Inr x)" by simp
    then have "\<exists>q. pg_participants_enter env (vc_workspace_id d) (case vc_created_by d of None \<Rightarrow> [] | Some u \<Rightarrow> u)
      (vc_channel_id d) (vc_id d) (fq_participant_ids p) db2 = (db', q)"
      by (auto simp: pg_direct_entered_def tx_bind_Inr split: if_splits)
    then have "settles canon K {pe_fresh env} db2 db'" using tx_relD [OF enter_settles] d by metis
    from settles_new [OF new(1) settled_trans [OF 2 this] new(2)] show ?thesis by (rule settled_mono) simp
  qed
qed

section \<open>The contract\<close>

definition pg_chans_ok :: "channel_pg_config \<Rightarrow> (string \<Rightarrow> string option) \<Rightarrow> chan_direct_row set \<Rightarrow> channel_db pg \<Rightarrow> bool" where
  "pg_chans_ok cfg canon K st \<longleftrightarrow> chans_ok canon K (pg_db st) \<and>
     (\<forall>n. chan_env canon (pg_envs st n) \<and> canon (vy_second_id cfg (pg_envs st n)) = Some (vy_second_id cfg (pg_envs st n)))"

abbreviation pg_info :: "channel_db pg \<Rightarrow> string \<Rightarrow> chan_info option" where
  "pg_info st \<equiv> chan_info (pg_db st)"

abbreviation pg_reads :: "channel_db pg \<Rightarrow> string \<Rightarrow> string \<Rightarrow> bool" where
  "pg_reads st \<equiv> reads_channel (pg_db st)"

abbreviation pg_settled :: "channel_pg_config \<Rightarrow> (string \<Rightarrow> string option) \<Rightarrow> chan_direct_row set \<Rightarrow> string set \<Rightarrow>
    channel_db pg \<Rightarrow> channel_db pg \<Rightarrow> bool" where
  "pg_settled cfg canon K \<equiv> settled (pg_chans_ok cfg canon K) pg_info pg_reads"

lemma pg_run_settled:
  assumes "\<And>env. chan_env canon env \<Longrightarrow> canon (vy_second_id cfg env) = Some (vy_second_id cfg env) \<Longrightarrow> tx_rel (settles canon K I) (f env)"
  shows "tx_rel (pg_settled cfg canon K I) (pg_run f)"
proof (rule tx_relI)
  fix st st' r assume run: "pg_run f st = (st', r)"
  have "settles canon K I (pg_db st) (pg_db st')" if "pg_chans_ok cfg canon K st"
  proof -
    from that have env: "chan_env canon (pg_envs st (pg_tick st))"
      "canon (vy_second_id cfg (pg_envs st (pg_tick st))) = Some (vy_second_id cfg (pg_envs st (pg_tick st)))"
      by (simp_all add: pg_chans_ok_def)
    from tx_relD [OF assms [OF this]] pg_run_db [OF run] show ?thesis by auto
  qed
  then show "pg_settled cfg canon K I st st'"
    using pg_run_envs [OF run] unfolding settled_def pg_chans_ok_def by auto
qed

lemma pg_run_looks:
  assumes "\<And>env db. fst (f env db) = db"
  shows "tx_rel (pg_settled cfg canon K I) (pg_run f)"
proof (rule pg_run_settled)
  fix env show "tx_rel (settles canon K I) (f env)"
    using assms by (intro tx_relI) (metis fst_conv settled_refl)
qed

lemma then_member_settled: "tx_rel (pg_settled cfg canon K I) f \<Longrightarrow> tx_rel (pg_settled cfg canon K I) (then_member p f)"
  unfolding then_member_def by (intro tx_rel_bind settled_preorder pg_run_looks) (simp_all add: pg_chan_member_def)

lemma participants_settled: "tx_rel (pg_settled cfg canon K I) (with_participants cfg' d)"
  unfolding with_participants_def by (intro tx_rel_bind tx_rel_base settled_preorder pg_run_looks) (simp add: pg_participants_def)

lemma by_key_settled: "tx_rel (pg_settled cfg canon K I) (pg_direct_by_key cfg' w k)"
  unfolding pg_direct_by_key_def by (intro tx_rel_bind settled_preorder pg_run_looks participants_settled) (simp add: pg_direct_row_def)

lemma by_id_settled: "tx_rel (pg_settled cfg canon K I) (pg_direct_by_id cfg' i)"
  unfolding pg_direct_by_id_def by (intro tx_rel_bind settled_preorder pg_run_looks participants_settled) simp

lemma load_directs_settled: "tx_rel (pg_settled cfg canon K I) (load_directs cfg' rows)"
  by (induction rows rule: load_directs.induct)
    (simp_all, intro tx_rel_base settled_preorder, intro tx_rel_bind tx_rel_base settled_preorder pg_run_looks, simp_all add: pg_participants_def)

lemma list_directs_settled: "tx_rel (pg_settled cfg canon K I) (pg_list_directs cfg' w u)"
  unfolding pg_list_directs_def
  by (intro tx_rel_bind settled_preorder pg_run_looks load_directs_settled) (simp add: pg_direct_rows_def)

lemma create_direct_settled: "tx_rel (pg_settled cfg canon K I) (pg_create_direct cfg p)"
proof -
  have new: "tx_rel (pg_settled cfg canon K I) (tx_bind (pg_run (\<lambda>env. in_tx (pg_direct_tx cfg env p))) (\<lambda>made.
      case made of None \<Rightarrow> pg_direct_by_key cfg (fq_workspace_id p) (fq_participant_key p) | Some i \<Rightarrow> pg_direct_by_id cfg i))"
    by (rule tx_rel_bind) (simp_all add: pg_run_settled direct_settles by_key_settled by_id_settled split: option.split)
  show ?thesis
    unfolding pg_create_direct_def
    by (rule tx_rel_bind) (simp_all add: tx_rel_try by_key_settled new tx_rel_base split: sum.split)
qed

lemma chan_audit_settles: "tx_rel (settles canon K I) (in_tx (pg_chan_audit env a))"
  by (rule in_tx_settles) (auto simp: pg_chan_audit_def tx_bind_Inr settles_view split: if_splits)

lemma chan_of_row: "fa_type (chan_of n c) = fa_type c" "fa_created_by (chan_of n c) = fa_created_by c" "fa_id (chan_of n c) = fa_id c"
  by (simp_all add: chan_of_def chan_row.defs)

lemma find_chan_info:
  assumes "pg_chans_ok cfg canon K st" "pg_run (\<lambda>env. pg_find_chan env w c) st = (st', Inr x)"
  shows "\<exists>k b. canon c = Some k \<and> pg_info st k = Some (fa_type x, fa_created_by x, b)"
proof -
  let ?db = "pg_db st"
  from assms(1) have ok: "chans_ok canon K ?db" and env: "pe_uuid (pg_envs st (pg_tick st)) = canon"
    by (simp_all add: pg_chans_ok_def chan_env_def)
  from pg_run_Inr [OF assms(2)] env obtain w' i where i: "canon c = Some i"
    and "scan_chan (List.find (\<lambda>c. chan_at w' i c \<and> chan_live c) (vz_channels ?db)) = Inr x"
    by (auto simp: pg_find_chan_def result_bind_Inr_iff uuid_param_def split: option.splits)
  then obtain k where k: "List.find (\<lambda>c. chan_at w' i c \<and> chan_live c) (vz_channels ?db) = Some k" "x = chan_of 0 k"
    by (auto simp: scan_chan_def split: option.splits)
  from found_chan [OF ok k(1)] i k(2) show ?thesis by (auto simp: chan_at_def nature_def chan_of_row)
qed

interpretation pg_channels: channel_store "channel_pg cfg" "pg_chans_ok cfg canon K" canon pg_info pg_reads
proof (unfold_locales, goal_cases)
  case (8 p)
  show ?case unfolding channel_pg_def channel_repo.simps by (intro pg_run_settled create_settles)
next
  case (9 p)
  show ?case unfolding channel_pg_def channel_repo.simps by (intro pg_run_settled update_chan_settles)
next
  case (10 w c)
  show ?case unfolding channel_pg_def channel_repo.simps by (intro pg_run_settled archive_settles)
next
  case (11 p)
  show ?case unfolding channel_pg_def channel_repo.simps by (intro then_member_settled pg_run_settled join_settles)
next
  case (12 p)
  show ?case unfolding channel_pg_def channel_repo.simps by (intro then_member_settled pg_run_settled read_settles)
next
  case (13 p)
  show ?case unfolding channel_pg_def channel_repo.simps by (intro pg_run_settled session_settles)
next
  case (15 a)
  show ?case unfolding channel_pg_def channel_repo.simps by (intro pg_run_settled chan_audit_settles)
next
  case (16 p)
  show ?case unfolding channel_pg_def channel_repo.simps by (intro then_member_settled pg_run_settled add_settles) (simp add: chan_env_def)
next
  case (17 p)
  show ?case unfolding channel_pg_def channel_repo.simps by (intro then_member_settled pg_run_settled status_settles) (simp add: chan_env_def)
next
  case (18 st w c st' x)
  then show ?case by (intro find_chan_info) (simp_all add: channel_pg_def)
qed (simp_all add: channel_pg_def pg_run_looks pg_find_chan_def pg_list_chans_def pg_count_members_def pg_list_chan_members_def
    pg_chan_member_def pg_has_contact_def list_directs_settled create_direct_settled)

end
