(* ===== verification/Chan_Safety.thy ===== *)
theory Chan_Safety
  imports Chan_Props
begin

text \<open>
  What the channels service over its repository guarantees: who may join the room of a channel, that direct
  conversations and sessions are closed, that a conversation of the same users is one.
\<close>

section \<open>Rooms\<close>

text \<open>The answer to the websocket node, once the room is taken apart.\<close>

lemma room_asks:
  assumes "fz_repo s = channel_pg cfg" "split_on (CHR '':'') (trim_space room) = [''workspace'', w, ''channel'', c]"
  shows "snd (can_join_room s u room st) =
    Inr (case snd (pg_run (\<lambda>env. pg_chan_member env w c (trim_space u)) st) of Inl e \<Rightarrow> False | Inr m \<Rightarrow> present (fb_status m))"
  using assms
  by (auto simp: can_join_room_def tx_bind_def tx_try_def tx_return_def channel_pg_def split: prod.splits sum.splits)


lemma chan_member_row:
  assumes "pg_chan_member env w c u db = (db', Inr m)"
  shows "\<exists>i v r. pe_uuid env c = Some i \<and> pe_uuid env u = Some v \<and> r \<in> set (vz_members db) \<and> member_at i v r \<and> fb_status m = vb_status r"
proof -
  from assms obtain w' i v r x where "pe_uuid env c = Some i" "pe_uuid env u = Some v"
    and "List.find (\<lambda>(m, x). vb_user_id m = v) (channel_rows db w' i) = Some (r, x)" "m = member_of_row r x"
    by (auto simp: pg_chan_member_def result_bind_Inr_iff uuid_param_def split: option.splits)
  moreover from this have row: "(r, x) \<in> set (channel_rows db w' i)" "vb_user_id r = v" "fb_status m = vb_status r"
    by (auto simp: find_Some_iff member_of_row_def in_set_conv_nth)
  moreover from row(1) have "r \<in> set (vz_members db)" "vb_channel_id r = i"
    by (auto simp: channel_rows_def split: if_splits option.splits)
  ultimately show ?thesis by (auto simp: member_at_def)
qed



text \<open>
  C26. The members of a direct conversation are the ones it was opened with, and nobody but its user enters a
  private session with a bot: no request changes who reads a channel of the type direct, its creator's and
  an administrator's included.
\<close>

theorem direct_channels_closed:
  assumes "fz_repo s = channel_pg cfg" "pg_chans_ok cfg canon {} st" "pg_info st i = Some (''direct'', cr, owner)" "owner \<noteq> Some v"
  shows "pg_reads (serve_chans s qs st) i v = pg_reads st i v"
proof -
  have "\<not> steers s canon i (Some (''direct'', cr, owner)) q" for q
    by (simp add: steers_def may_steer_def split: option.split)
  then have "list_all (\<lambda>q. \<not> steers s canon i (Some (''direct'', cr, owner)) q) qs" by (simp add: list_all_iff)
  from pg_channels.unsteered [OF assms(1-3) this] assms(4) show ?thesis by blast
qed

text \<open>
  Every request keeps the tables consistent: one row for a user in a channel, one live channel with a slug,
  one session of a user with a source, one open conversation of a set of users.
\<close>

lemma channels_stay_consistent:
  assumes "fz_repo s = channel_pg cfg" "pg_chans_ok cfg canon {} st"
  shows "chans_ok canon {} (pg_db (serve_chans s qs st))"
  using pg_channels.served_ok [OF assms] by (simp add: pg_chans_ok_def)

section \<open>Membership and rooms\<close>

lemma status_written:
  assumes "pe_uuid env = canon" "pe_uuid env' = canon" "pg_chan_status env p db = (db1, Inr x)"
    and "pg_chan_member env' w (fk_channel_id p) (fk_user_id p) db1 = (db2, Inr m)"
  shows "fb_status m = fm_status p"
proof -
  from assms(3) obtain w' i u where k: "member_params env p = Inr (w', i, u)"
    and db1: "db1 = db\<lparr>vz_members := update_where (member_at i u) (restatus env (fm_status p)) (vz_members db)\<rparr>"
    unfolding pg_chan_status_def by (cases "member_params env p") (auto simp: tx_bind_Inr split: if_splits)
  have "canon (fk_channel_id p) = Some i" "canon (fk_user_id p) = Some u" using member_params_Inr [OF k] assms(1) by simp_all
  with chan_member_row [OF assms(4)] assms(2) obtain r where
    r: "r \<in> set (vz_members db1)" "member_at i u r" "fb_status m = vb_status r" by auto
  then show ?thesis by (auto simp: db1 update_where_def restatus_def)
qed

lemma member_env: "pe_uuid env' = pe_uuid env \<Longrightarrow> pg_chan_member env' w c u = pg_chan_member env w c u"
  by (simp add: pg_chan_member_def uuid_param_def fun_eq_iff)

text \<open>
  C28. The websocket node lets a user into the room of a channel as the last change of their membership says:
  after a status has been set (a request to join approved or rejected), the user may join if and only if it is
  active or muted.
\<close>

theorem status_decides_room:
  assumes "fz_repo s = channel_pg cfg" "pg_chans_ok cfg canon {} st" "channel_update_status s i st = (st1, Inr d)"
    and "pe_fail (pg_envs st1 (pg_tick st1)) = None"
    and "split_on (CHR '':'') (trim_space room) = [''workspace'', trim_space (fj_workspace_id i), ''channel'', trim_space (fj_channel_id i)]"
    and "trim_space u = trim_space (fj_user_id i)"
  shows "snd (can_join_room s u room st1) = Inr (present (trim_space (fl_status i)))"
proof -
  let ?p = "add_member_params.extend (member_key (fj_workspace_id i) (fj_channel_id i) (fj_user_id i)) \<lparr>fm_status = trim_space (fl_status i)\<rparr>"
  have p: "fk_workspace_id ?p = trim_space (fj_workspace_id i)" "fk_channel_id ?p = trim_space (fj_channel_id i)"
    "fk_user_id ?p = trim_space (fj_user_id i)" "fm_status ?p = trim_space (fl_status i)"
    by (simp_all add: member_key_def add_member_params.defs)
  from assms(3) obtain st0 m where "fy_update_status (channel_pg cfg) ?p st0 = (st1, Inr m)"
    by (auto simp: channel_update_status_def Let_def tx_bind_Inr assms(1) split: if_splits)
  then obtain st2 where wrote: "pg_run (\<lambda>env. in_tx (pg_chan_status env ?p)) st0 = (st2, Inr ())"
    and seen: "pg_run (\<lambda>env. pg_chan_member env (fk_workspace_id ?p) (fk_channel_id ?p) (fk_user_id ?p)) st2 = (st1, Inr m)"
    by (auto simp: channel_pg_def then_member_def tx_bind_Inr)
  have "pg_chans_ok cfg canon {} st1" using pg_channels.status_run [OF assms(1-3)] assms(2) by (simp add: settled_def)
  then have env: "pe_uuid (pg_envs st1 n) = canon" for n by (simp add: pg_chans_ok_def chan_env_def)
  have envs: "pg_envs st2 = pg_envs st1" "pg_envs st0 = pg_envs st1" using pg_run_envs [OF wrote] pg_run_envs [OF seen] by simp_all
  note row = pg_run_Inr [OF wrote, unfolded in_tx_Inr envs] pg_run_Inr [OF seen, unfolded envs]
  have st: "fb_status m = trim_space (fl_status i)" using status_written [OF env env row] p(4) by simp
  have db: "pg_db st1 = pg_db st2" using row(2) by (simp add: pg_chan_member_def)
  have "pg_chan_member (pg_envs st1 (pg_tick st1)) (trim_space (fj_workspace_id i)) (trim_space (fj_channel_id i))
      (trim_space (fj_user_id i)) (pg_db st1) = (pg_db st1, Inr m)"
    using row(2) member_env [of "pg_envs st1 (pg_tick st1)" "pg_envs st1 (pg_tick st2)"] env p(1-3) db by simp
  then have "snd (pg_run (\<lambda>env. pg_chan_member env (trim_space (fj_workspace_id i)) (trim_space (fj_channel_id i)) (trim_space u)) st1) = Inr m"
    using assms(4,6) by (simp add: pg_run_def Let_def)
  then show ?thesis using room_asks [OF assms(1,5)] st by simp
qed

section \<open>Conversations\<close>












end
