(* ===== verification/Chan_Demo.thy ===== *)
theory Chan_Demo
  imports Chan_Safety
begin

text \<open>A workspace with a channel of Ann's, and the properties of channels at work in it.\<close>

definition demo_chan_user :: "string \<Rightarrow> user_row" where
  "demo_chan_user i =
    \<lparr>ur_id = i, ur_email = i @ ''@x.io'', ur_username = i, ur_display_name = i, ur_password_hash = [], ur_avatar_url = None,
     ur_status = ''active'', ur_locale = [], ur_timezone = [], ur_email_verified_at = None, ur_last_seen_at = None,
     ur_registration_ip = None, ur_registration_device = None, ur_last_ip = None, ur_device_name = None,
     ur_created_at = 0, ur_updated_at = 0, uw_registration_agent = None, uw_last_agent = None, uw_deleted_at = None\<rparr>"

definition demo_chan_accounts :: auth_db where
  "demo_chan_accounts =
    \<lparr>ab_users = map demo_chan_user [''ann'', ''bob'', ''eve''], ab_sessions = [], ab_zones = [], ab_domains = [],
     ab_workspaces = [\<lparr>ww_id = ''w'', ww_zone_id = ''z'', ww_slug = ''w'', ww_status = ''active'', ww_owner_id = None,
       ww_created_at = 0, ww_updated_at = 0, ww_deleted_at = None\<rparr>],
     ab_members = map (\<lambda>u. \<lparr>mw_workspace_id = ''w'', mw_user_id = u, mw_status = ''active'', mw_joined_at = None, mw_updated_at = 0\<rparr>)
       [''ann'', ''bob'', ''eve''],
     ab_roles = [], ab_member_roles = [], ab_channels = [], ab_channel_members = [], ab_invites = [], ab_quotas = [], ab_audit = []\<rparr>"

definition demo_chan_member :: "string \<Rightarrow> string \<Rightarrow> string \<Rightarrow> chan_member_row" where
  "demo_chan_member c u st =
    \<lparr>vb_channel_id = c, vb_user_id = u, vb_status = st, vb_last_read_at = None, vb_last_read_message_id = None,
     vb_joined_at = 0, vb_created_at = 0, vb_updated_at = 0\<rparr>"

definition demo_channels :: "stored_chan list" where
  "demo_channels =
    [(blank_chan ((demo_env 0)\<lparr>pe_fresh := ''ch''\<rparr>) ''w'' ''Ops'' ''private'' ''ann'')\<lparr>fa_slug := Some ''ops''\<rparr>,
     blank_chan ((demo_env 0)\<lparr>pe_fresh := ''dm''\<rparr>) ''w'' ''Direct message'' ''direct'' ''ann'']"

definition demo_channel_db :: channel_db where
  "demo_channel_db =
    \<lparr>vz_accounts = demo_chan_accounts, vz_departments = [], vz_channels = demo_channels,
     vz_members = [demo_chan_member ''ch'' ''ann'' ''active'', demo_chan_member ''ch'' ''bob'' ''invited'',
       demo_chan_member ''dm'' ''ann'' ''active'', demo_chan_member ''dm'' ''eve'' ''active''],
     vz_directs = [], vz_direct_members = [],
     vz_contacts = [\<lparr>ve_requester_id = ''bob'', ve_receiver_id = ''ann'', ve_status = ''accepted'', ve_deleted_at = None\<rparr>],
     vz_messages = [], vz_pins = [], vz_audit = []\<rparr>"

definition demo_chan_pg :: "channel_db pg" where
  "demo_chan_pg = \<lparr>pg_db = demo_channel_db, pg_envs = demo_env, pg_tick = 0\<rparr>"

definition demo_chan_config :: channel_pg_config where
  "demo_chan_config = \<lparr>vy_collate = id, vy_second_id = (\<lambda>env. pe_fresh env @ ''-2'')\<rparr>"

definition demo_chan_service :: "channel_db pg channel_service" where
  "demo_chan_service = \<lparr>fz_repo = channel_pg demo_chan_config, fz_checker = (\<lambda>u w p. Inr (p = ''message.send''))\<rparr>"

lemma demo_chan_repo: "fz_repo demo_chan_service = channel_pg demo_chan_config"
  by (simp add: demo_chan_service_def)

lemma demo_chans_ok: "pg_chans_ok demo_chan_config Some {} demo_chan_pg"
  by (simp add: pg_chans_ok_def demo_chan_pg_def demo_channel_db_def chans_ok_def chan_keys_ok_def members_ok_def directs_ok_def
    unique_by_def demo_channels_def blank_chan_def slug_key_def session_key_def session_user_def named_user_def chan_live_def
    row_user_def demo_chan_member_def chan_env_def demo_env_def open_key_def)



theorem direct_channels_closed_witness:
  "pg_reads (serve_chans demo_chan_service [Chan_Add \<lparr>fj_actor = ''ann'', fj_workspace_id = ''w'', fj_channel_id = ''dm'', fj_user_id = ''bob''\<rparr>]
     demo_chan_pg) ''dm'' ''bob'' = pg_reads demo_chan_pg ''dm'' ''bob''"
proof (rule direct_channels_closed [OF demo_chan_repo demo_chans_ok])
  show "pg_info demo_chan_pg ''dm'' = Some (''direct'', Some ''ann'', None)" by code_simp
qed simp

section \<open>Runs without their DTOs\<close>

lemma status_of_parts:
  assumes "tx_then (can_manage_channel s (fj_actor i) (fj_workspace_id i) (fj_channel_id i))
      (fy_update_status (fz_repo s) (add_member_params.extend (member_key (fj_workspace_id i) (fj_channel_id i) (fj_user_id i))
        \<lparr>fm_status = trim_space (fl_status i)\<rparr>)) st = (st1, Inr m)"
    and "member_status_ok (trim_space (fl_status i))"
  shows "channel_update_status s i st = (st1, Inr (to_chan_member_dto m))"
  using assms by (auto simp: channel_update_status_def Let_def tx_bind_Inr)


lemma Inr_run: "case snd x of Inr d \<Rightarrow> True | Inl e \<Rightarrow> False \<Longrightarrow> \<exists>d. x = (fst x, Inr d)"
  by (metis (no_types, lifting) prod.collapse sum.case_eq_if sum.collapse(2))

definition demo_approval :: member_status_input where
  "demo_approval = \<lparr>fj_actor = ''ann'', fj_workspace_id = '' w'', fj_channel_id = ''ch'', fj_user_id = ''bob'', fl_status = ''active''\<rparr>"

definition demo_approved :: "channel_db pg \<times> chan_member result" where
  "demo_approved = tx_then (can_manage_channel demo_chan_service ''ann'' '' w'' ''ch'')
      (fy_update_status (fz_repo demo_chan_service) (add_member_params.extend (member_key '' w'' ''ch'' ''bob'')
        \<lparr>fm_status = trim_space ''active''\<rparr>)) demo_chan_pg"

lemma demo_approved_run: "\<exists>d. channel_update_status demo_chan_service demo_approval demo_chan_pg = (fst demo_approved, Inr d)"
proof -
  have "case snd demo_approved of Inr d \<Rightarrow> True | Inl e \<Rightarrow> False" by code_simp
  then obtain m where "demo_approved = (fst demo_approved, Inr m)" using Inr_run by blast
  moreover have "member_status_ok (trim_space ''active'')" by code_simp
  ultimately show ?thesis
    using status_of_parts [of demo_chan_service demo_approval demo_chan_pg "fst demo_approved" m]
    by (auto simp: demo_approved_def demo_approval_def)
qed

theorem status_decides_room_witness:
  "snd (can_join_room demo_chan_service ''bob'' ''workspace:w:channel:ch'' (fst demo_approved)) = Inr True"
proof -
  obtain d where run: "channel_update_status demo_chan_service demo_approval demo_chan_pg = (fst demo_approved, Inr d)"
    using demo_approved_run by blast
  have "pe_fail (pg_envs (fst demo_approved) (pg_tick (fst demo_approved))) = None" by code_simp
  note room = status_decides_room [OF demo_chan_repo demo_chans_ok run this]
  have "present (trim_space (fl_status demo_approval))" by code_simp
  moreover have "split_on (CHR '':'') (trim_space ''workspace:w:channel:ch'') =
      [''workspace'', trim_space (fj_workspace_id demo_approval), ''channel'', trim_space (fj_channel_id demo_approval)]" by code_simp
  moreover have "trim_space ''bob'' = trim_space (fj_user_id demo_approval)" by code_simp
  ultimately show ?thesis using room by simp
qed







end
