(* ===== verification/Spec2Isabelle.thy ===== *)
theory Spec2Isabelle
  imports Calls_Props Calls_Realtime Cron_Schedule Rate_Limit Auth_Middleware Ws_Server Outbox Presence_Props
    Cron_Safety Auth_Demo Msg_Rbac Chan_Demo
begin

text \<open>
  Verification of the VPSTTT Chat backend, the Go service under \<open>src/backend/internal\<close>.

  \<^bold>\<open>The program.\<close> A multi-tenant chat server: clients reach it by domain, a domain belongs to a zone with
  a primary workspace, and every request is bound to that zone. HTTP requests pass middleware (rate
  limiting, authentication of the access token and its zone, permissions) and reach the service of a
  module; a service checks and normalises its input and calls its \<open>Repository\<close>, an interface that
  PostgreSQL statements implement; events go to the rooms of the websocket node at once or through the
  outbox table, which a worker delivers; timers and workers sweep calls, presence and cron jobs.

  \<^bold>\<open>Foundations.\<close>
  \<^item> \<open>Prelude\<close>: Go errors and results (\<open>Inl\<close> is the early return), lists of rows, the
    \<open>update_where\<close> lemmas, 64-bit integers.
  \<^item> \<open>Go_Strings\<close>, \<open>Go_Time\<close>, \<open>Go_Encoding\<close>, \<open>Go_Json\<close>, \<open>Go_Url\<close>, \<open>Go_Net\<close>, \<open>Go_Sha256\<close>: the parts of
    Go's standard library the code calls, on byte strings, written out and executable.
  \<^item> \<open>Shared\<close>: \<open>shared/errors\<close>, \<open>shared/pagination\<close>, \<open>shared/validator\<close> and the classification of errors in
    \<open>shared/response\<close>.
  \<^item> \<open>Pg\<close>, \<open>Pg_Tx\<close>: how a repository meets the server. A statement is a function on the tables; what the
    server supplies (\<open>now()\<close>, generated identifiers, the encoding of parameters, failures) is one
    \<open>pg_env\<close> per statement, an arbitrary stream in every theorem. \<open>in_tx\<close> is a transaction that
    rolls back on the first error; \<open>tx_rel\<close> carries what each statement keeps through it.

  \<^bold>\<open>Components.\<close>
  \<^item> Calls (\<open>modules/calls\<close>): \<open>Calls_Domain\<close> (calls, signals, statuses, validation), \<open>Calls_Service\<close>
    (the operations over the interface), \<open>Calls_Repo\<close> (the statements), \<open>Calls_Contract\<close> (the locales
    of the interface and what every operation guarantees over them), \<open>Calls_Pg\<close> (their interpretation on
    the statements), \<open>Calls_Props\<close> (the properties), \<open>Calls_Realtime\<close> (the events that leave the service).
  \<^item> Accounts (\<open>modules/auth\<close>): \<open>Auth_Domain\<close>, \<open>Auth_Service\<close> (registration, sign-in, Google, refresh,
    logout, sessions), \<open>Auth_Pg\<close> (zones, membership, roles, invites, users, sessions, audit, with the
    quota and audit triggers), \<open>Auth_Contract\<close> (the locale \<open>auth_store\<close>), \<open>Auth_Props\<close> (what all statements
    keep, and the interpretation), \<open>Auth_Safety\<close> (the properties), \<open>Auth_Demo\<close> (their runs).
    \<open>Tenancy_Domain\<close> is the normalisation of domains.
  \<^item> Messages (\<open>modules/messages\<close>): \<open>Msg_Domain\<close>, \<open>Msg_Service\<close> (sending, reading, editing, pins,
    reactions, auto responders), \<open>Msg_Pg\<close> (the statements over fourteen tables), \<open>Msg_Reads\<close> (hydration and
    pages), \<open>Msg_Props\<close> (what every statement keeps), \<open>Msg_Contract\<close> (the locale \<open>message_store\<close> and sequences
    of requests over it), \<open>Msg_Safety\<close> (its interpretation and the properties), \<open>Msg_Send\<close> (idempotent
    sending), \<open>Msg_Outbox\<close> (the transaction of a send), \<open>Msg_Demo\<close> (runs). \<open>Go_Marshal\<close> is Go's
    \<open>json.Marshal\<close> of maps with its numbers.
  \<^item> Roles and permissions (\<open>modules/rbac\<close>): \<open>Rbac_Service\<close>, \<open>Rbac_Pg\<close> (the joins over roles, members and
    permissions), \<open>Rbac_Contract\<close> (the locale \<open>role_store\<close> and sequences of requests), \<open>Rbac_Safety\<close> (its
    interpretation and the properties). \<open>Msg_Rbac\<close> puts messages and roles together as \<open>bootstrap/router.go\<close>
    wires them.
  \<^item> Channels (\<open>modules/channels\<close>): \<open>Chan_Service\<close> (channels, members, requests to join, read states, private
    sessions with a bot, direct conversations), \<open>Chan_Pg\<close> (the statements, over the tables of accounts where
    they write memberships and roles), \<open>Chan_Contract\<close> (the locale \<open>channel_store\<close> and sequences of requests),
    \<open>Chan_Props\<close> (the consistency of the tables, its preservation by every statement, the interpretation),
    \<open>Chan_Safety\<close> (the properties), \<open>Chan_Demo\<close> (runs).
  \<^item> Tokens and access: \<open>Token_Manager\<close> (\<open>shared/auth/token.go\<close>), \<open>Auth_Middleware\<close> and \<open>Rate_Limit\<close>
    (\<open>shared/middleware\<close>).
  \<^item> Websocket node: \<open>Ws_Manager\<close> (\<open>platform/websocket/manager.go\<close>: clients, rooms, channels with
    capacity, broadcast in steps) and \<open>Ws_Server\<close> (its handler, and the step relation of the node).
  \<^item> Outbox (\<open>modules/outbox\<close>): \<open>Outbox\<close>, worker, statements and the locale between them.
  \<^item> Cron jobs (\<open>modules/cronjobs\<close>): \<open>Cron_Schedule\<close> (parser and next time), \<open>Cron_Jobs\<close> (service and
    runners), \<open>Cron_Pg\<close> (statements), \<open>Cron_Props\<close> and \<open>Cron_Safety\<close> (contract and properties).
  \<^item> Presence (\<open>modules/presence\<close>): \<open>Presence\<close>, \<open>Presence_Props\<close>.

  \<^bold>\<open>How code becomes definitions.\<close> A struct is a record with the fields in order, an interface a record of
  functions, an operation a function that returns the new state and \<open>go_error + value\<close>. The clock, the
  random bytes, bcrypt, the mail address parser, HTTP and process runners are arguments. A loop is
  structural recursion, or \<open>while_option\<close> where a counter may overflow; the search for the next run has the
  366 days of the code as its bound, which the theorem about it names. Integers that may overflow are
  64-bit words. Concurrent requests are sequences of statements in any order: the step relations
  \<open>auth_step\<close>, those of calls, cron jobs, outbox and of the websocket node take one statement or one
  critical section at a time, so that what was read earlier may be stale when it is used.
  Messages to the user are written without their diacritics.

  \<^bold>\<open>What is shown.\<close> For calls: the status machine under all sequences and interleavings, the effect of a
  status change, idempotent creation, the sweep. For accounts: a sign-in that returns tokens is justified;
  a refresh token works once; a revoked session never returns; registration is atomic and gated by the
  mode of the zone and its invites; the first owner of a dedicated zone stays. For tokens and routes:
  round trip, authenticity, isolation of zones. For the websocket node: rooms are isolated; delivery.
  For outbox and cron jobs: claims are exclusive, retries bounded, schedules followed. For presence:
  the keys hold and stale devices go offline. For messages: one message per client identifier, only authors
  edit, reads stay inside the reader's channels, pages cover the timeline, batched loading agrees with single
  loading, sends are atomic, threads and pins stay consistent. For roles: permissions change only through those
  who manage roles, an assignment gives exactly the permissions of the role, the check agrees with the list;
  and with both modules running together a message is safe from everybody without power over it. For channels:
  only its creator and those who manage channels let anybody into a channel or its room, direct conversations
  and sessions are closed, a conversation of the same users is one, the last status of a member decides whether
  they may join the room. Where the code falls short of this, a theorem exhibits the run:
  a panic on a closed channel, published events delivered again, a script executed twice, a job that is
  never scheduled again, a presence row taken over, sign-in blocked by other traffic.

  \<^bold>\<open>Not modelled.\<close> The HTTP handlers beyond the middleware (binding of requests and responses), OIDC
  and Firebase, object storage, dump tools and brokers: input and output around remote services. The modules
  workspaces, tenancy beyond domains, order, webhooks, notifications,
  files, bots, users, contacts, departments, tickets, api tokens, push devices and sync are not
  modelled yet. \<open>AppError.Details\<close> is left out except for the quota resource; logging has no
  counterpart. The planner's order of rows without \<open>ORDER BY\<close> is the order of insertion.
\<close>

end
